(* ===== verification/Prelude.thy ===== *)
theory Prelude
  imports Complex_Main "HOL-Library.List_Lexorder" "HOL-Library.Char_ord"
    "HOL-Library.Product_Lexorder"
begin

text \<open>
  What the component theories share: the Python exceptions the code raises, JSON values,
  clock readings and identifiers, SQL tables as lists of rows in insertion order, the
  interface of an append-only event ledger, and transition systems with invariants.
\<close>

named_theorems row_simps \<open>field-level facts about updated tables\<close>

section \<open>Exceptions and JSON values\<close>

text \<open>
  An operation of the code that may raise returns a value of type \<open>py_error + 'a\<close>: \<open>Inl\<close> the
  exception, \<open>Inr\<close> the result. An operation on a store returns that value together with the
  store it leaves behind, so what was already written when an exception is raised stays visible.
\<close>

datatype py_error =
    ValueError string
  | KeyError string
  | IndexError
  | TypeError string
  | IntegrityError
  | RuntimeError string
  | PermissionError string
  | LookupError string
  | OSError string
  | AttributeError string
  | InvalidSignature
  | HTTPException nat string

datatype json =
    JNull
  | JBool bool
  | JInt int
  | JNum rat
  | JStr string
  | JArr "json list"
  | JObj "(string \<times> json) list"

section \<open>Clock readings and identifiers\<close>

text \<open>
  A clock reading is an exact rational number of seconds. The ISO strings the stores keep are
  compared as text; they order as the microsecond counts do, which is what \<open>iso\<close> returns.
\<close>

type_synonym clock = rat

definition iso :: "clock \<Rightarrow> int" where
  "iso t = \<lfloor>t * 1000000\<rfloor>"

lemma iso_mono: "s \<le> t \<Longrightarrow> iso s \<le> iso t"
  unfolding iso_def by (rule floor_mono) simp

text \<open>The hexadecimal digits of \<open>uuid4().hex\<close> are an argument of the operations that draw one.\<close>

definition identifier_of :: "string \<Rightarrow> string \<Rightarrow> string" where
  "identifier_of prefix hex = prefix @ ''_'' @ take 20 hex"

text \<open>
  \<open>repr\<close> of a string of printable characters: single quotes unless the text has a single quote
  and no double quote, with the backslash and the quote escaped; and of a list of strings.
\<close>

definition py_repr :: "string \<Rightarrow> string" where
  "py_repr s =
     (let q = (if CHR 0x27 \<in> set s \<and> CHR 0x22 \<notin> set s then CHR 0x22 else CHR 0x27) in
      [q] @ concat (map (\<lambda>c. if c = CHR 0x5C \<or> c = q then [CHR 0x5C, c] else [c]) s) @ [q])"

fun join_with :: "string \<Rightarrow> string list \<Rightarrow> string" where
  "join_with sep [] = []"
| "join_with sep [x] = x"
| "join_with sep (x # y # xs) = x @ sep @ join_with sep (y # xs)"

definition py_list_repr :: "string list \<Rightarrow> string" where
  "py_list_repr xs = ''['' @ join_with '', '' (map py_repr xs) @ '']''"

section \<open>Tables as lists of rows\<close>

text \<open>\<open>UPDATE t SET f WHERE P\<close>, its row count, and \<open>SELECT ... WHERE P\<close>.\<close>

definition upd_where :: "('r \<Rightarrow> bool) \<Rightarrow> ('r \<Rightarrow> 'r) \<Rightarrow> 'r list \<Rightarrow> 'r list" where
  "upd_where P f rows = map (\<lambda>r. if P r then f r else r) rows"

definition rowcount :: "('r \<Rightarrow> bool) \<Rightarrow> 'r list \<Rightarrow> nat" where
  "rowcount P rows = length (filter P rows)"

text \<open>\<open>LIMIT n\<close>: a negative limit is no limit.\<close>

definition sql_limit :: "int \<Rightarrow> 'r list \<Rightarrow> 'r list" where
  "sql_limit n rows = (if n < 0 then rows else take (nat n) rows)"

text \<open>\<open>INTEGER PRIMARY KEY AUTOINCREMENT\<close>: one more than the largest key used so far.\<close>

definition next_rowid :: "nat list \<Rightarrow> nat" where
  "next_rowid seqs = Suc (foldr max seqs 0)"

lemma upd_where_Nil [simp]: "upd_where P f [] = []"
  by (simp add: upd_where_def)

lemma upd_where_Cons [simp]:
  "upd_where P f (r # rows) = (if P r then f r else r) # upd_where P f rows"
  by (simp add: upd_where_def)

lemma upd_where_append [simp]:
  "upd_where P f (xs @ ys) = upd_where P f xs @ upd_where P f ys"
  by (simp add: upd_where_def)

lemma length_upd_where [simp]: "length (upd_where P f rows) = length rows"
  by (simp add: upd_where_def)

lemma set_upd_where: "set (upd_where P f rows) = (\<lambda>r. if P r then f r else r) ` set rows"
  by (simp add: upd_where_def)

lemma in_upd_whereD:
  "x \<in> set (upd_where P f rows) \<Longrightarrow> \<exists>y \<in> set rows. P y \<and> x = f y \<or> \<not> P y \<and> x = y"
  by (induction rows) auto

lemma upd_where_field:
  assumes "x \<in> set (upd_where P f rows)" "\<And>y. P y \<Longrightarrow> g (f y) = v" "P x"
  shows "g x = v"
  using assms in_upd_whereD [OF assms(1)] by metis

lemma upd_where_map:
  assumes "\<And>r. P r \<Longrightarrow> g (f r) = g r"
  shows "map g (upd_where P f rows) = map g rows"
  using assms by (induction rows) auto

lemma upd_where_none: "(\<And>r. r \<in> set rows \<Longrightarrow> \<not> P r) \<Longrightarrow> upd_where P f rows = rows"
  by (induction rows) auto

lemma rowcount_0_iff [simp]: "rowcount P rows = 0 \<longleftrightarrow> (\<forall>r \<in> set rows. \<not> P r)"
  by (auto simp: rowcount_def filter_empty_conv)

lemma find_SomeD: "find P xs = Some x \<Longrightarrow> x \<in> set xs \<and> P x"
  by (induction xs) (auto split: if_splits)

lemma find_append: "find P (xs @ ys) = (case find P xs of None \<Rightarrow> find P ys | Some x \<Rightarrow> Some x)"
  by (induction xs) auto

lemma find_None_iff': "find P xs = None \<longleftrightarrow> (\<forall>x \<in> set xs. \<not> P x)"
  by (induction xs) auto

lemma filter_ConsD: "filter P xs = y # ys \<Longrightarrow> y \<in> set xs \<and> P y"
  by (induction xs) (auto split: if_splits)

lemma distinct_map_eqD: "distinct (map k xs) \<Longrightarrow> x \<in> set xs \<Longrightarrow> y \<in> set xs \<Longrightarrow> k x = k y \<Longrightarrow> x = y"
  by (auto simp: distinct_map inj_on_def)

lemma foldr_max_upper: "s \<in> set seqs \<Longrightarrow> s \<le> foldr max seqs (0::nat)"
  by (induction seqs) auto

lemma next_rowid_fresh: "s \<in> set seqs \<Longrightarrow> s < next_rowid seqs"
  unfolding next_rowid_def using foldr_max_upper by (simp add: le_imp_less_Suc)

lemma foldr_max_upt: "foldr max [1..<Suc n] (0::nat) = n"
proof -
  have "foldr max xs (0::nat) = Max (insert 0 (set xs))" for xs
    by (induction xs) (auto simp: insert_commute max.left_commute)
  then have "foldr max [1..<Suc n] (0::nat) = Max (insert 0 (set [1..<Suc n]))" .
  also have "\<dots> = n"
    by (rule Max_eqI) auto
  finally show ?thesis .
qed

lemma next_rowid_upt [simp]: "next_rowid [Suc 0..<Suc n] = Suc n"
  using foldr_max_upt [of n] by (simp add: next_rowid_def del: upt_Suc)

text \<open>
  A loop that updates, row by row, the rows a query selected, each by its key, is one
  simultaneous update when keys are unique and the update keeps them.
\<close>

definition upd_key :: "('r \<Rightarrow> 'k) \<Rightarrow> ('r \<Rightarrow> 'r \<Rightarrow> 'r) \<Rightarrow> 'r \<Rightarrow> 'r list \<Rightarrow> 'r list" where
  "upd_key key g x rows = upd_where (\<lambda>r. key r = key x) (g x) rows"

lemma fold_upd_key:
  assumes "distinct (map key xs)" "\<And>x r. key (g x r) = key r"
  shows "fold (upd_key key g) xs rows =
    map (\<lambda>r. case find (\<lambda>x. key x = key r) xs of None \<Rightarrow> r | Some x \<Rightarrow> g x r) rows"
  using assms(1)
proof (induction xs arbitrary: rows)
  case (Cons a xs)
  have none: "find (\<lambda>x. key x = key r) xs = None" if "key r = key a" for r
    unfolding find_None_iff' using Cons.prems that by (metis distinct.simps(2) image_eqI list.map(2) set_map)
  have "fold (upd_key key g) (a # xs) rows = fold (upd_key key g) xs (upd_key key g a rows)"
    by simp
  also have "\<dots> = map (\<lambda>r. case find (\<lambda>x. key x = key r) xs of None \<Rightarrow> r | Some x \<Rightarrow> g x r)
      (upd_key key g a rows)"
    using Cons by simp
  also have "\<dots> = map (\<lambda>r. case find (\<lambda>x. key x = key r) (a # xs) of None \<Rightarrow> r | Some x \<Rightarrow> g x r) rows"
    using none assms(2) by (simp add: upd_key_def upd_where_def)
  finally show ?case .
qed simp

lemma find_key_filter:
  assumes "distinct (map key rows)" "r \<in> set rows"
  shows "find (\<lambda>x. key x = key r) (filter P rows) = (if P r then Some r else None)"
proof -
  have "x = r" if "x \<in> set rows" "key x = key r" for x
    using distinct_map_eqD [OF assms(1) that(1) assms(2) that(2)] .
  with assms(2) show ?thesis
  proof (cases "P r")
    case True
    have "find (\<lambda>x. key x = key r) (filter P rows) \<noteq> None"
      using True assms(2) by (auto simp: find_None_iff')
    then obtain x where "find (\<lambda>x. key x = key r) (filter P rows) = Some x"
      by blast
    with True \<open>\<And>x. _ \<Longrightarrow> _ \<Longrightarrow> x = r\<close> show ?thesis
      by (auto dest!: find_SomeD)
  next
    case False
    with \<open>\<And>x. _ \<Longrightarrow> _ \<Longrightarrow> x = r\<close> show ?thesis
      by (auto simp: find_None_iff')
  qed
qed

lemma fold_upd_key_filter:
  assumes "distinct (map key rows)" "\<And>x r. key (g x r) = key r"
  shows "fold (upd_key key g) (filter P rows) rows = map (\<lambda>r. if P r then g r r else r) rows"
proof -
  have d: "distinct (map key (filter P rows))"
    using assms(1) by (simp add: distinct_map_filter)
  show ?thesis
    using fold_upd_key [where g = g and rows = rows, OF d assms(2)] find_key_filter [OF assms(1)]
    by simp
qed

lemma list_all2_bwd: "list_all2 P xs ys \<Longrightarrow> y \<in> set ys \<Longrightarrow> \<exists>x \<in> set xs. P x y"
  by (induction rule: list_all2_induct) auto

lemma list_all2_fwd: "list_all2 P xs ys \<Longrightarrow> x \<in> set xs \<Longrightarrow> \<exists>y \<in> set ys. P x y"
  by (induction rule: list_all2_induct) auto

section \<open>The interface of an append-only event ledger\<close>

text \<open>
  Every service keeps a ledger of events numbered by the database or by the bus. The contract
  of the append operation is stated once: it adds one entry at the end, whose number is the
  next free one, and leaves the numbers already given untouched.
\<close>

locale event_ledger =
  fixes entries :: "'s \<Rightarrow> 'e list"
    and seq_of :: "'e \<Rightarrow> nat"
    and emit :: "'a \<Rightarrow> 's \<Rightarrow> 's"
  assumes emit_appends: "\<exists>e. entries (emit a s) = entries s @ [e]
      \<and> seq_of e = next_rowid (map seq_of (entries s))"
begin

definition gapless :: "'s \<Rightarrow> bool" where
  "gapless s \<longleftrightarrow> map seq_of (entries s) = [1..<Suc (length (entries s))]"

lemma emit_gapless: "gapless s \<Longrightarrow> gapless (emit a s)"
proof -
  assume g: "gapless s"
  obtain e where e: "entries (emit a s) = entries s @ [e]"
    "seq_of e = next_rowid (map seq_of (entries s))"
    using emit_appends by blast
  from g have "seq_of e = Suc (length (entries s))"
    using e(2) unfolding gapless_def by (simp del: upt_Suc)
  with g e(1) show ?thesis by (simp add: gapless_def)
qed

lemma emit_prefix: "entries s = take (length (entries s)) (entries (emit a s))"
  using emit_appends [of a s] by auto

lemma fold_emit_prefix: "\<exists>new. entries (fold emit as s) = entries s @ new \<and> length new = length as"
proof (induction as arbitrary: s)
  case (Cons a as)
  obtain e where "entries (emit a s) = entries s @ [e]"
    using emit_appends by blast
  with Cons [of "emit a s"] show ?case by auto
qed simp

lemma fold_emit_gapless: "gapless s \<Longrightarrow> gapless (fold emit as s)"
  by (induction as arbitrary: s) (simp_all add: emit_gapless)

end

section \<open>Transition systems and invariants\<close>

locale transition_system =
  fixes init :: "'s \<Rightarrow> bool"
    and step :: "'s \<Rightarrow> 's \<Rightarrow> bool"
begin

inductive reach :: "'s \<Rightarrow> bool" where
  reach_init: "init s \<Longrightarrow> reach s"
| reach_step: "reach s \<Longrightarrow> step s t \<Longrightarrow> reach t"

lemma reach_steps: "step\<^sup>*\<^sup>* s t \<Longrightarrow> reach s \<Longrightarrow> reach t"
  by (induction rule: rtranclp_induct) (auto intro: reach_step)

end

locale invariant_system = transition_system init step
  for init :: "'s \<Rightarrow> bool" and step :: "'s \<Rightarrow> 's \<Rightarrow> bool" +
  fixes inv :: "'s \<Rightarrow> bool"
  assumes inv_init: "init s \<Longrightarrow> inv s"
    and inv_step: "inv s \<Longrightarrow> step s t \<Longrightarrow> inv t"
begin

lemma reach_inv: "reach s \<Longrightarrow> inv s"
  by (induction rule: reach.induct) (auto intro: inv_init inv_step)

lemma inv_steps: "step\<^sup>*\<^sup>* s t \<Longrightarrow> inv s \<Longrightarrow> inv t"
  by (induction rule: rtranclp_induct) (auto intro: inv_step)

end

end
