(* ===== verification/FleetModels.thy ===== *)
theory FleetModels
  imports Prelude
begin

text \<open>
  The request models of the fleet service (\<^verbatim>\<open>services/fleet/src/evoagent_fleet/models.py\<close>): the node
  states, budgets, node and workflow specifications with the field bounds their declarations
  state, worker registrations, completions, and the dependency check of a workflow: unique ids,
  known dependencies, and a depth-first search for cycles.
  The lemmas relate the search to the dependency relation: it accepts exactly the acyclic ones,
  and the list it visits is a topological order.
\<close>

section \<open>Data\<close>

datatype node_status =
    N_BLOCKED | N_QUEUED | N_AWAITING_APPROVAL | N_LEASED | N_COMPLETED | N_FAILED

record budget =
  b_tokens :: int
  b_cost_usd :: rat
  b_seconds :: int

record node_spec =
  ns_id :: string
  ns_objective :: string
  ns_depends_on :: "string list"
  ns_capabilities :: "string list"
  ns_input :: json
  ns_budget :: budget
  ns_approval_required :: bool
  ns_max_attempts :: nat

record workflow_spec =
  ws_name :: string
  ws_nodes :: "node_spec list"
  ws_metadata :: json

record worker_registration =
  wr_worker_id :: string
  wr_capabilities :: "string list"
  wr_pool :: string
  wr_max_concurrency :: nat
  wr_metadata :: json

record completion =
  c_output :: json
  c_artifacts :: "(string \<times> string) list"
  c_tokens_used :: int
  c_cost_usd :: rat
  c_duration_seconds :: rat
  c_quality :: rat

section \<open>Field bounds\<close>

definition alnum :: "char \<Rightarrow> bool" where
  "alnum c \<longleftrightarrow> (CHR ''A'' \<le> c \<and> c \<le> CHR ''Z'') \<or> (CHR ''a'' \<le> c \<and> c \<le> CHR ''z'')
     \<or> (CHR ''0'' \<le> c \<and> c \<le> CHR ''9'')"

definition budget_valid :: "budget \<Rightarrow> bool" where
  "budget_valid b \<longleftrightarrow> 0 \<le> b_tokens b \<and> 0 \<le> b_cost_usd b \<and> 1 \<le> b_seconds b"

definition node_spec_valid :: "node_spec \<Rightarrow> bool" where
  "node_spec_valid n \<longleftrightarrow>
     list_all (\<lambda>c. alnum c \<or> c = CHR ''_'' \<or> c = CHR ''-'') (ns_id n)
     \<and> 1 \<le> length (ns_id n) \<and> length (ns_id n) \<le> 64
     \<and> 1 \<le> length (ns_objective n) \<and> length (ns_objective n) \<le> 20000
     \<and> budget_valid (ns_budget n)
     \<and> 1 \<le> ns_max_attempts n \<and> ns_max_attempts n \<le> 10"

definition worker_registration_valid :: "worker_registration \<Rightarrow> bool" where
  "worker_registration_valid w \<longleftrightarrow>
     list_all (\<lambda>c. alnum c \<or> c = CHR ''_'' \<or> c = CHR ''.'' \<or> c = CHR ''-'') (wr_worker_id w)
     \<and> 1 \<le> length (wr_worker_id w) \<and> length (wr_worker_id w) \<le> 80
     \<and> 1 \<le> wr_max_concurrency w \<and> wr_max_concurrency w \<le> 100"

definition completion_valid :: "completion \<Rightarrow> bool" where
  "completion_valid c \<longleftrightarrow> 0 \<le> c_tokens_used c \<and> 0 \<le> c_cost_usd c \<and> 0 \<le> c_duration_seconds c
     \<and> 0 \<le> c_quality c \<and> c_quality c \<le> 1"

section \<open>The dependency check\<close>

text \<open>
  \<open>visit\<close> is the nested function of \<open>validate_dag\<close>. The set \<open>visiting\<close> is extended for the
  recursive calls and restored before the function returns, so it is an argument; \<open>visited\<close> is
  threaded through the calls, most recently finished node first.
\<close>

function visit :: "(string \<times> string list) list \<Rightarrow> string list \<Rightarrow> string list \<Rightarrow> string
    \<Rightarrow> py_error + string list"
  and visits :: "(string \<times> string list) list \<Rightarrow> string list \<Rightarrow> string list \<Rightarrow> string list
    \<Rightarrow> py_error + string list"
where
  "visit edges visiting visited node_id =
     (if node_id \<in> set visiting then Inl (ValueError ''Workflow contains a dependency cycle'')
      else if node_id \<in> set visited then Inr visited
      else case map_of edges node_id of
             None \<Rightarrow> Inl (KeyError node_id)
           | Some parents \<Rightarrow>
               (case visits edges (node_id # visiting) visited parents of
                  Inl e \<Rightarrow> Inl e
                | Inr visited' \<Rightarrow> Inr (node_id # visited')))"
| "visits edges visiting visited [] = Inr visited"
| "visits edges visiting visited (parent # parents) =
     (case visit edges visiting visited parent of
        Inl e \<Rightarrow> Inl e
      | Inr visited' \<Rightarrow> visits edges visiting visited' parents)"
  by pat_completeness auto

lemma visiting_grows:
  assumes "map_of edges n = Some ps" "n \<notin> set visiting"
  shows "card (fst ` set edges - set (n # visiting)) < card (fst ` set edges - set visiting)"
proof (rule psubset_card_mono)
  have "n \<in> fst ` set edges"
    using assms(1) by (metis domI dom_map_of_conv_image_fst)
  with assms(2) show "fst ` set edges - set (n # visiting) \<subset> fst ` set edges - set visiting"
    by auto
qed simp

termination visit
proof (relation "measures
    [\<lambda>x. case x of Inl (edges, visiting, _, _) \<Rightarrow> card (fst ` set edges - set visiting)
                 | Inr (edges, visiting, _, _) \<Rightarrow> card (fst ` set edges - set visiting),
     \<lambda>x. case x of Inl _ \<Rightarrow> 0 | Inr (_, _, _, ps) \<Rightarrow> Suc (length ps)]", goal_cases)
  case (2 edges visiting visited node_id parents)
  then show ?case using visiting_grows by simp
qed auto

declare visit.simps [simp del]

definition edges_of :: "node_spec list \<Rightarrow> (string \<times> string list) list" where
  "edges_of nodes = map (\<lambda>n. (ns_id n, ns_depends_on n)) nodes"

fun check_dependencies :: "string list \<Rightarrow> node_spec list \<Rightarrow> py_error + unit" where
  "check_dependencies known [] = Inr ()"
| "check_dependencies known (node # nodes) =
     (if \<not> set (ns_depends_on node) \<subseteq> set known
      then Inl (ValueError (''Node '' @ ns_id node @ '' has unknown dependencies: '' @
             py_list_repr (sort (remdups (filter (\<lambda>d. d \<notin> set known) (ns_depends_on node))))))
      else if ns_id node \<in> set (ns_depends_on node)
      then Inl (ValueError (''Node '' @ ns_id node @ '' cannot depend on itself''))
      else check_dependencies known nodes)"

definition validate_dag :: "workflow_spec \<Rightarrow> py_error + unit" where
  "validate_dag spec =
     (let ids = map ns_id (ws_nodes spec) in
      if length ids \<noteq> length (remdups ids) then Inl (ValueError ''Node IDs must be unique'')
      else case check_dependencies ids (ws_nodes spec) of
             Inl e \<Rightarrow> Inl e
           | Inr _ \<Rightarrow>
               (case visits (edges_of (ws_nodes spec)) [] [] ids of
                  Inl e \<Rightarrow> Inl e
                | Inr _ \<Rightarrow> Inr ()))"

definition validate_workflow_spec :: "workflow_spec \<Rightarrow> py_error + unit" where
  "validate_workflow_spec spec =
     (if 1 \<le> length (ws_name spec) \<and> length (ws_name spec) \<le> 120
         \<and> 1 \<le> length (ws_nodes spec) \<and> length (ws_nodes spec) \<le> 500
         \<and> list_all node_spec_valid (ws_nodes spec)
      then validate_dag spec
      else Inl (ValueError ''validation error''))"

section \<open>What the search accepts\<close>

text \<open>The dependency relation: \<open>(c, p)\<close> when \<open>p\<close> is listed among the parents of \<open>c\<close>.\<close>

definition depends :: "(string \<times> string list) list \<Rightarrow> (string \<times> string) set" where
  "depends edges = {(c, p). \<exists>ps. map_of edges c = Some ps \<and> p \<in> set ps}"

text \<open>A list in which the parents of every entry come later.\<close>

fun topo :: "(string \<times> string list) list \<Rightarrow> string list \<Rightarrow> bool" where
  "topo edges [] = True"
| "topo edges (x # xs) \<longleftrightarrow> x \<notin> set xs
     \<and> (case map_of edges x of None \<Rightarrow> False | Some ps \<Rightarrow> set ps \<subseteq> set xs) \<and> topo edges xs"

lemma visit_topo:
  "visit edges visiting visited n = Inr vis \<Longrightarrow> topo edges visited \<Longrightarrow>
     topo edges vis \<and> set visited \<subseteq> set vis \<and> n \<in> set vis
     \<and> (set vis - set visited) \<inter> set visiting = {}"
  "visits edges visiting visited ps = Inr vis \<Longrightarrow> topo edges visited \<Longrightarrow>
     topo edges vis \<and> set visited \<subseteq> set vis \<and> set ps \<subseteq> set vis
     \<and> (set vis - set visited) \<inter> set visiting = {}"
proof (induction edges visiting visited n and edges visiting visited ps
    arbitrary: vis and vis rule: visit_visits.induct)
  case (1 edges visiting visited node_id)
  show ?case
  proof (cases "node_id \<in> set visited")
    case True
    with "1.prems" show ?thesis by (auto simp: visit.simps split: if_splits)
  next
    case False
    from "1.prems"(1) False obtain parents vis' where
      p: "map_of edges node_id = Some parents" and notin: "node_id \<notin> set visiting" and
      v: "visits edges (node_id # visiting) visited parents = Inr vis'" and
      vis: "vis = node_id # vis'"
      by (auto simp: visit.simps [of edges visiting visited node_id]
          split: if_splits option.splits sum.splits)
    have IH: "topo edges vis'" "set visited \<subseteq> set vis'" "set parents \<subseteq> set vis'"
      "(set vis' - set visited) \<inter> set (node_id # visiting) = {}"
      using "1.IH" [OF notin False p v "1.prems"(2)] by auto
    with False p vis notin show ?thesis by auto
  qed
next
  case (2 edges visiting visited)
  then show ?case by simp
next
  case (3 edges visiting visited parent parents)
  from "3.prems"(1) obtain vis' where v': "visit edges visiting visited parent = Inr vis'"
    and v: "visits edges visiting vis' parents = Inr vis"
    by (auto split: sum.splits)
  from "3.IH"(1) [OF v' "3.prems"(2)] "3.IH"(2) [OF v' v]
  show ?case by auto
qed

text \<open>
  The stack of nodes being visited: each of them depends, directly or not, on the node visited
  next. An error of the search is then a real cycle.
\<close>

definition stack_above :: "(string \<times> string list) list \<Rightarrow> string list \<Rightarrow> string \<Rightarrow> bool" where
  "stack_above edges visiting n \<longleftrightarrow> (\<forall>v \<in> set visiting. (v, n) \<in> (depends edges)\<^sup>+)"

definition closed_edges :: "(string \<times> string list) list \<Rightarrow> bool" where
  "closed_edges edges \<longleftrightarrow> (\<forall>(c, ps) \<in> set edges. set ps \<subseteq> fst ` set edges)"

lemma stack_above_push:
  assumes "stack_above edges visiting n" "map_of edges n = Some ps" "p \<in> set ps"
  shows "stack_above edges (n # visiting) p"
proof -
  have "(n, p) \<in> depends edges"
    using assms(2,3) by (auto simp: depends_def)
  with assms(1) show ?thesis
    by (auto simp: stack_above_def intro: trancl_into_trancl)
qed

lemma visit_error_cyclic:
  "visit edges visiting visited n = Inl e \<Longrightarrow> closed_edges edges \<Longrightarrow> n \<in> fst ` set edges \<Longrightarrow>
     stack_above edges visiting n \<Longrightarrow> \<not> acyclic (depends edges)"
  "visits edges visiting visited ps = Inl e \<Longrightarrow> closed_edges edges \<Longrightarrow> set ps \<subseteq> fst ` set edges \<Longrightarrow>
     (\<And>p. p \<in> set ps \<Longrightarrow> stack_above edges visiting p) \<Longrightarrow> \<not> acyclic (depends edges)"
proof (induction edges visiting visited n and edges visiting visited ps
    arbitrary: e and e rule: visit_visits.induct)
  case (1 edges visiting visited node_id)
  show ?case
  proof (cases "node_id \<in> set visiting")
    case True
    with "1.prems"(4) show ?thesis by (auto simp: stack_above_def acyclic_def)
  next
    case False
    obtain parents where p: "map_of edges node_id = Some parents"
      using "1.prems"(3) by (metis domD dom_map_of_conv_image_fst)
    have closed: "set parents \<subseteq> fst ` set edges"
      using map_of_SomeD [OF p] "1.prems"(2) by (auto simp: closed_edges_def)
    from "1.prems"(1) False p
    have n: "node_id \<notin> set visited"
      and v: "visits edges (node_id # visiting) visited parents = Inl e"
      by (auto simp: visit.simps [of edges visiting visited node_id] split: if_splits sum.splits)
    show ?thesis
      using "1.IH" [OF False n p v "1.prems"(2) closed] stack_above_push [OF "1.prems"(4) p] by blast
  qed
next
  case (2 edges visiting visited)
  then show ?case by simp
next
  case (3 edges visiting visited parent parents)
  show ?case
  proof (cases "visit edges visiting visited parent")
    case (Inl e')
    with 3 show ?thesis by auto
  next
    case (Inr vis)
    with "3.prems"(1) have "visits edges visiting vis parents = Inl e" by simp
    with "3.IH"(2) [OF Inr] "3.prems" show ?thesis by auto
  qed
qed

lemma topo_closed: "topo edges xs \<Longrightarrow> (x, y) \<in> (depends edges)\<^sup>+ \<Longrightarrow> x \<in> set xs \<Longrightarrow> y \<in> set xs"
proof (induction xs arbitrary: x y)
  case (Cons a xs)
  have step: "z \<in> set xs" if "(w, z) \<in> depends edges" "w \<in> set (a # xs)" for w z
  proof (cases "w = a")
    case True
    with that Cons.prems(1) show ?thesis
      by (auto simp: depends_def split: option.splits)
  next
    case False
    with that have "w \<in> set xs" by simp
    with that(1) Cons.IH [of w z] Cons.prems(1) show ?thesis by auto
  qed
  from Cons.prems(2,3) show ?case
    by (induction rule: trancl_induct) (use step in auto)
qed simp

lemma topo_acyclic: "topo edges xs \<Longrightarrow> x \<in> set xs \<Longrightarrow> (x, x) \<notin> (depends edges)\<^sup>+"
proof (induction xs)
  case (Cons a xs)
  show ?case
  proof (cases "x = a")
    case True
    show ?thesis
    proof
      assume "(x, x) \<in> (depends edges)\<^sup>+"
      then obtain z where z: "(x, z) \<in> depends edges" "(z, x) \<in> (depends edges)\<^sup>*"
        by (meson tranclD)
      from z(1) True Cons.prems(1) have zx: "z \<in> set xs"
        by (auto simp: depends_def split: option.splits)
      have "x \<in> set xs"
        using z(2) zx topo_closed [of edges xs z x] Cons.prems(1) by (auto dest: rtranclD)
      with True Cons.prems(1) show False by simp
    qed
  qed (use Cons in auto)
qed simp

lemma length_remdups_eq: "length (remdups xs) = length xs \<longleftrightarrow> distinct xs"
  by (metis distinct_card distinct_remdups length_remdups_card_conv card_distinct set_remdups)

lemma check_dependencies_ok:
  "check_dependencies known nodes = Inr () \<longleftrightarrow>
     (\<forall>n \<in> set nodes. set (ns_depends_on n) \<subseteq> set known \<and> ns_id n \<notin> set (ns_depends_on n))"
  by (induction nodes) auto

lemma fst_edges_of [simp]: "fst ` set (edges_of nodes) = ns_id ` set nodes"
  by (force simp: edges_of_def)

lemma map_of_edges_of:
  "distinct (map ns_id nodes) \<Longrightarrow> n \<in> set nodes \<Longrightarrow> map_of (edges_of nodes) (ns_id n) = Some (ns_depends_on n)"
  by (rule map_of_is_SomeI) (auto simp: edges_of_def comp_def)

lemma edges_of_closed:
  "(\<forall>n \<in> set nodes. set (ns_depends_on n) \<subseteq> ns_id ` set nodes) \<Longrightarrow> closed_edges (edges_of nodes)"
  unfolding closed_edges_def by (auto simp: edges_of_def image_image)

lemma depends_edges_of:
  assumes "distinct (map ns_id nodes)"
  shows "depends (edges_of nodes) = {(ns_id n, p) | n p. n \<in> set nodes \<and> p \<in> set (ns_depends_on n)}"
  (is "?L = ?R")
proof
  show "?L \<subseteq> ?R"
    unfolding depends_def by (force simp: edges_of_def dest!: map_of_SomeD)
  show "?R \<subseteq> ?L"
    unfolding depends_def using map_of_edges_of [OF assms] by auto
qed

text \<open>What the acceptance of a specification gives: the visited list is a topological order.\<close>

definition spec_ids :: "workflow_spec \<Rightarrow> string list" where
  "spec_ids spec = map ns_id (ws_nodes spec)"

lemma validate_dag_OK:
  assumes "validate_dag spec = Inr u"
  shows "distinct (spec_ids spec)"
    and "\<forall>n \<in> set (ws_nodes spec). set (ns_depends_on n) \<subseteq> set (spec_ids spec)"
    and "\<exists>order. topo (edges_of (ws_nodes spec)) order \<and> set (spec_ids spec) \<subseteq> set order"
proof -
  have d: "distinct (spec_ids spec)"
    and c: "check_dependencies (spec_ids spec) (ws_nodes spec) = Inr ()"
    and v: "\<exists>order. visits (edges_of (ws_nodes spec)) [] [] (spec_ids spec) = Inr order"
    using assms
    by (auto simp: validate_dag_def Let_def spec_ids_def length_remdups_eq [symmetric]
        split: if_splits sum.splits)
  show "distinct (spec_ids spec)" by (fact d)
  show "\<forall>n \<in> set (ws_nodes spec). set (ns_depends_on n) \<subseteq> set (spec_ids spec)"
    using c by (simp add: check_dependencies_ok)
  show "\<exists>order. topo (edges_of (ws_nodes spec)) order \<and> set (spec_ids spec) \<subseteq> set order"
    using v visit_topo(2) by fastforce
qed

lemma topo_all_acyclic:
  assumes "topo edges order" "fst ` set edges \<subseteq> set order"
  shows "acyclic (depends edges)"
proof -
  have "(x, x) \<notin> (depends edges)\<^sup>+" for x
  proof
    assume cyc: "(x, x) \<in> (depends edges)\<^sup>+"
    then obtain z where "(x, z) \<in> depends edges"
      by (meson tranclD)
    then have "x \<in> fst ` set edges"
      by (auto simp: depends_def dest!: map_of_SomeD intro: rev_image_eqI)
    with assms(2) topo_acyclic [OF assms(1)] cyc show False by auto
  qed
  then show ?thesis by (simp add: acyclic_def)
qed

text \<open>
  C1. The workflow validator accepts a specification exactly when its node ids are distinct, every
  dependency names a node of the workflow and the dependency relation has no cycle; the
  search itself never fails on a missing key once the dependencies are known.
\<close>

theorem validate_dag_iff:
  "validate_dag spec = Inr () \<longleftrightarrow>
     distinct (map ns_id (ws_nodes spec))
     \<and> (\<forall>n \<in> set (ws_nodes spec). set (ns_depends_on n) \<subseteq> ns_id ` set (ws_nodes spec))
     \<and> acyclic {(ns_id n, p) | n p. n \<in> set (ws_nodes spec) \<and> p \<in> set (ns_depends_on n)}"
    (is "_ \<longleftrightarrow> ?D \<and> ?K \<and> ?A")
proof
  assume ok: "validate_dag spec = Inr ()"
  note facts = validate_dag_OK [OF ok, unfolded spec_ids_def]
  then have D: ?D and K: ?K by auto
  obtain order where "topo (edges_of (ws_nodes spec)) order"
    "fst ` set (edges_of (ws_nodes spec)) \<subseteq> set order"
    using facts(3) by auto
  then have "acyclic (depends (edges_of (ws_nodes spec)))"
    by (rule topo_all_acyclic)
  with D K show "?D \<and> ?K \<and> ?A"
    by (simp add: depends_edges_of)
next
  assume R: "?D \<and> ?K \<and> ?A"
  let ?E = "edges_of (ws_nodes spec)" and ?ids = "map ns_id (ws_nodes spec)"
  have acyc: "acyclic (depends ?E)"
    using R by (simp add: depends_edges_of)
  have self: "ns_id n \<notin> set (ns_depends_on n)" if "n \<in> set (ws_nodes spec)" for n
  proof
    assume "ns_id n \<in> set (ns_depends_on n)"
    with that R have "(ns_id n, ns_id n) \<in> depends ?E"
      by (auto simp: depends_edges_of)
    with acyc show False by (auto simp: acyclic_def)
  qed
  have c: "check_dependencies ?ids (ws_nodes spec) = Inr ()"
    using R self by (auto simp: check_dependencies_ok)
  have "visits ?E [] [] ?ids \<noteq> Inl e" for e
    using visit_error_cyclic(2) [of ?E "[]" "[]" ?ids e] acyc R edges_of_closed
    by (auto simp: stack_above_def)
  then obtain order where "visits ?E [] [] ?ids = Inr order"
    by (cases "visits ?E [] [] ?ids") auto
  moreover have "length ?ids = length (remdups ?ids)"
    using R length_remdups_eq [of ?ids] by simp
  ultimately show "validate_dag spec = Inr ()"
    using c by (simp add: validate_dag_def Let_def)
qed

definition looping_node :: "string \<Rightarrow> string \<Rightarrow> node_spec" where
  "looping_node nid parent = \<lparr>ns_id = nid, ns_objective = ''do'', ns_depends_on = [parent],
     ns_capabilities = [], ns_input = JObj [], ns_budget = \<lparr>b_tokens = 100, b_cost_usd = 1, b_seconds = 60\<rparr>,
     ns_approval_required = False, ns_max_attempts = 3\<rparr>"

definition looping_spec :: workflow_spec where
  "looping_spec = \<lparr>ws_name = ''loop'', ws_nodes = [looping_node ''a'' ''b'', looping_node ''b'' ''a''],
     ws_metadata = JObj []\<rparr>"

theorem validate_dag_iff_witness: "validate_dag looping_spec \<noteq> Inr ()"
proof
  let ?R = "{(ns_id n, p) | n p. n \<in> set (ws_nodes looping_spec) \<and> p \<in> set (ns_depends_on n)}"
  assume "validate_dag looping_spec = Inr ()"
  then have "acyclic ?R"
    by (simp only: validate_dag_iff)
  moreover have "(''a'', ''b'') \<in> ?R"
    by (rule CollectI, rule exI [of _ "looping_node ''a'' ''b''"], rule exI [of _ "''b''"])
      (simp add: looping_spec_def looping_node_def)
  moreover have "(''b'', ''a'') \<in> ?R"
    by (rule CollectI, rule exI [of _ "looping_node ''b'' ''a''"], rule exI [of _ "''a''"])
      (simp add: looping_spec_def looping_node_def)
  ultimately show False
    unfolding acyclic_def by (meson r_into_trancl' trancl_into_trancl)
qed

end
