(* ===== verification/FleetOrchestrator.thy ===== *)
theory FleetOrchestrator
  imports FleetModels
begin

text \<open>
  The store and the orchestrator of the fleet service (\<^verbatim>\<open>evoagent_fleet/store.py\<close>,
  \<^verbatim>\<open>evoagent_fleet/orchestrator.py\<close>). The SQLite tables are lists of rows in insertion order; the
  JSON text columns hold the decoded values. Every operation takes the clock reading and the
  digits of the identifiers it draws, and returns the result or the exception together with the
  store. The digest function is an argument where artifacts are written.
\<close>

section \<open>Tables\<close>

datatype workflow_status = W_RUNNING | W_COMPLETED | W_FAILED

record workflow =
  w_workflow_id :: string
  w_name :: string
  w_status :: workflow_status
  w_metadata :: json
  w_created_at :: int
  w_updated_at :: int

record node =
  n_workflow_id :: string
  n_node_id :: string
  n_objective :: string
  n_status :: node_status
  n_deps :: "string list"
  n_capabilities :: "string list"
  n_input :: json
  n_output :: "json option"
  n_error :: "string option"
  n_budget :: budget
  n_approval_required :: bool
  n_approval_actor :: "string option"
  n_attempts :: nat
  n_max_attempts :: nat
  n_leased_by :: "string option"
  n_lease_token :: "string option"
  n_lease_expires :: "clock option"
  n_tokens_used :: int
  n_cost_usd :: rat
  n_duration_seconds :: rat
  n_created_at :: int
  n_updated_at :: int

record worker =
  wk_worker_id :: string
  wk_capabilities :: "string list"
  wk_pool :: string
  wk_max_concurrency :: nat
  wk_metadata :: json
  wk_status :: string
  wk_last_seen :: int

record artifact =
  a_artifact_id :: string
  a_workflow_id :: string
  a_node_id :: string
  a_name :: string
  a_digest :: string
  a_size :: nat
  a_path :: string
  a_created_at :: int

record event =
  e_seq :: nat
  e_kind :: string
  e_workflow_id :: "string option"
  e_node_id :: "string option"
  e_payload :: json
  e_created_at :: int

record route_metric =
  rm_pool :: string
  rm_runs :: nat
  rm_successes :: nat
  rm_quality_sum :: rat
  rm_cost_sum :: rat
  rm_latency_sum :: rat
  rm_score :: rat
  rm_updated_at :: int

record fleet =
  f_workflows :: "workflow list"
  f_nodes :: "node list"
  f_workers :: "worker list"
  f_artifacts :: "artifact list"
  f_events :: "event list"
  f_routes :: "route_metric list"
  f_files :: "string \<Rightarrow> string option"
  f_artifact_root :: string
  f_lease_seconds :: int

definition new_fleet :: "string \<Rightarrow> int \<Rightarrow> fleet" where
  "new_fleet artifact_root lease_seconds =
     \<lparr>f_workflows = [], f_nodes = [], f_workers = [], f_artifacts = [], f_events = [],
      f_routes = [], f_files = (\<lambda>_. None), f_artifact_root = artifact_root,
      f_lease_seconds = lease_seconds\<rparr>"

section \<open>Store operations\<close>

definition fleet_event :: "string \<Rightarrow> json \<Rightarrow> string option \<Rightarrow> string option \<Rightarrow> clock \<Rightarrow> fleet \<Rightarrow> fleet"
  where
  "fleet_event kind payload workflow_id node_id clk s =
     s\<lparr>f_events := f_events s @ [\<lparr>e_seq = next_rowid (map e_seq (f_events s)), e_kind = kind,
        e_workflow_id = workflow_id, e_node_id = node_id, e_payload = payload,
        e_created_at = iso clk\<rparr>]\<rparr>"

definition fleet_events :: "nat \<Rightarrow> int \<Rightarrow> fleet \<Rightarrow> event list" where
  "fleet_events after limit s =
     sql_limit limit (sort_key e_seq (filter (\<lambda>e. after < e_seq e) (f_events s)))"

abbreviation node_key :: "node \<Rightarrow> string \<times> string" where
  "node_key n \<equiv> (n_workflow_id n, n_node_id n)"

abbreviation is_node :: "string \<Rightarrow> string \<Rightarrow> node \<Rightarrow> bool" where
  "is_node workflow_id node_id n \<equiv> node_key n = (workflow_id, node_id)"

definition set_workflow_status :: "string \<Rightarrow> workflow_status \<Rightarrow> clock \<Rightarrow> fleet \<Rightarrow> fleet" where
  "set_workflow_status workflow_id status clk s =
     s\<lparr>f_workflows := upd_where (\<lambda>w. w_workflow_id w = workflow_id)
        (\<lambda>w. w\<lparr>w_status := status, w_updated_at := iso clk\<rparr>) (f_workflows s)\<rparr>"

definition touch_worker :: "string \<Rightarrow> clock \<Rightarrow> fleet \<Rightarrow> fleet" where
  "touch_worker worker_id clk s =
     s\<lparr>f_workers := upd_where (\<lambda>w. wk_worker_id w = worker_id)
        (\<lambda>w. w\<lparr>wk_last_seen := iso clk\<rparr>) (f_workers s)\<rparr>"

section \<open>Submission and registration\<close>

definition initial_status :: "node_spec \<Rightarrow> node_status" where
  "initial_status node =
     (if ns_depends_on node \<noteq> [] then N_BLOCKED
      else if ns_approval_required node then N_AWAITING_APPROVAL
      else N_QUEUED)"

definition new_node :: "string \<Rightarrow> clock \<Rightarrow> node_spec \<Rightarrow> node" where
  "new_node workflow_id clk node =
     \<lparr>n_workflow_id = workflow_id, n_node_id = ns_id node, n_objective = ns_objective node,
      n_status = initial_status node, n_deps = ns_depends_on node,
      n_capabilities = ns_capabilities node, n_input = ns_input node, n_output = None,
      n_error = None, n_budget = ns_budget node,
      n_approval_required = ns_approval_required node, n_approval_actor = None, n_attempts = 0,
      n_max_attempts = ns_max_attempts node, n_leased_by = None, n_lease_token = None,
      n_lease_expires = None, n_tokens_used = 0, n_cost_usd = 0, n_duration_seconds = 0,
      n_created_at = iso clk, n_updated_at = iso clk\<rparr>"

text \<open>The primary key \<open>(workflow_id, node_id)\<close> makes a second row with the same key an error.\<close>

fun insert_nodes :: "string \<Rightarrow> clock \<Rightarrow> node_spec list \<Rightarrow> fleet \<Rightarrow> (py_error + unit) \<times> fleet" where
  "insert_nodes workflow_id clk [] s = (Inr (), s)"
| "insert_nodes workflow_id clk (node # nodes) s =
     (if \<exists>n \<in> set (f_nodes s). is_node workflow_id (ns_id node) n then (Inl IntegrityError, s)
      else insert_nodes workflow_id clk nodes
             (s\<lparr>f_nodes := f_nodes s @ [new_node workflow_id clk node]\<rparr>))"

definition fleet_submit :: "string \<Rightarrow> clock \<Rightarrow> workflow_spec \<Rightarrow> fleet \<Rightarrow> (py_error + string) \<times> fleet"
  where
  "fleet_submit hex clk spec s =
     (let workflow_id = identifier_of ''wf'' hex in
      if \<exists>w \<in> set (f_workflows s). w_workflow_id w = workflow_id then (Inl IntegrityError, s)
      else
        let s1 = s\<lparr>f_workflows := f_workflows s @
               [\<lparr>w_workflow_id = workflow_id, w_name = ws_name spec, w_status = W_RUNNING,
                 w_metadata = ws_metadata spec, w_created_at = iso clk,
                 w_updated_at = iso clk\<rparr>]\<rparr> in
        (case insert_nodes workflow_id clk (ws_nodes spec) s1 of
           (Inl e, s2) \<Rightarrow> (Inl e, s2)
         | (Inr _, s2) \<Rightarrow>
             (Inr workflow_id,
              fleet_event ''workflow.submitted''
                (JObj [(''name'', JStr (ws_name spec)),
                       (''nodes'', JInt (int (length (ws_nodes spec))))])
                (Some workflow_id) None clk s2)))"

definition fleet_register :: "clock \<Rightarrow> worker_registration \<Rightarrow> fleet \<Rightarrow> fleet" where
  "fleet_register clk worker s =
     (let row = \<lparr>wk_worker_id = wr_worker_id worker, wk_capabilities = wr_capabilities worker,
            wk_pool = wr_pool worker, wk_max_concurrency = wr_max_concurrency worker,
            wk_metadata = wr_metadata worker, wk_status = ''online'', wk_last_seen = iso clk\<rparr>;
          s1 = (if \<exists>w \<in> set (f_workers s). wk_worker_id w = wr_worker_id worker
                then s\<lparr>f_workers := upd_where (\<lambda>w. wk_worker_id w = wr_worker_id worker)
                                      (\<lambda>_. row) (f_workers s)\<rparr>
                else s\<lparr>f_workers := f_workers s @ [row]\<rparr>) in
      if \<exists>r \<in> set (f_routes s1). rm_pool r = wr_pool worker then s1
      else s1\<lparr>f_routes := f_routes s1 @
             [\<lparr>rm_pool = wr_pool worker, rm_runs = 0, rm_successes = 0, rm_quality_sum = 0,
               rm_cost_sum = 0, rm_latency_sum = 0, rm_score = 1 / 2,
               rm_updated_at = iso clk\<rparr>]\<rparr>)"

section \<open>Leases\<close>

text \<open>\<open>lease_expires < t\<close> in SQL: a NULL expiry compares as not true.\<close>

definition expires_before :: "clock \<Rightarrow> node \<Rightarrow> bool" where
  "expires_before t n = (case n_lease_expires n of None \<Rightarrow> False | Some x \<Rightarrow> x < t)"

definition retry_allowed :: "node \<Rightarrow> bool" where
  "retry_allowed n \<longleftrightarrow> n_attempts n < n_max_attempts n"

definition expire_node :: "clock \<Rightarrow> node \<Rightarrow> node \<Rightarrow> node" where
  "expire_node clk row n =
     n\<lparr>n_status := (if retry_allowed row then N_QUEUED else N_FAILED),
       n_error := Some ''Lease expired'', n_leased_by := None, n_lease_token := None,
       n_lease_expires := None, n_updated_at := iso clk\<rparr>"

definition sweep_row :: "clock \<Rightarrow> node \<Rightarrow> fleet \<Rightarrow> fleet" where
  "sweep_row clk row s =
     fleet_event ''lease.expired'' (JObj [(''retry'', JBool (retry_allowed row))])
       (Some (n_workflow_id row)) (Some (n_node_id row)) clk
       (s\<lparr>f_nodes := upd_key node_key (expire_node clk) row (f_nodes s)\<rparr>)"

definition sweep_expired :: "clock \<Rightarrow> fleet \<Rightarrow> nat \<times> fleet" where
  "sweep_expired clk s =
     (let expired = filter (\<lambda>n. n_status n = N_LEASED \<and> expires_before clk n) (f_nodes s) in
      (length expired, fold (sweep_row clk) expired s))"

record lease =
  l_workflow_id :: string
  l_node_id :: string
  l_objective :: string
  l_input :: json
  l_budget :: budget
  l_lease_token :: string
  l_lease_expires :: clock

definition lease_node :: "string \<Rightarrow> string \<Rightarrow> clock \<Rightarrow> clock \<Rightarrow> node \<Rightarrow> node" where
  "lease_node worker_id token expires clk n =
     n\<lparr>n_status := N_LEASED, n_leased_by := Some worker_id, n_lease_token := Some token,
       n_lease_expires := Some expires, n_attempts := n_attempts n + 1, n_updated_at := iso clk\<rparr>"

text \<open>An empty workflow id is false in Python, so it selects from every workflow.\<close>

definition in_scope :: "string option \<Rightarrow> node \<Rightarrow> bool" where
  "in_scope workflow_id n =
     (case workflow_id of None \<Rightarrow> True | Some w \<Rightarrow> w = [] \<or> n_workflow_id n = w)"

definition active_leases :: "string \<Rightarrow> node list \<Rightarrow> nat" where
  "active_leases worker_id nodes =
     rowcount (\<lambda>n. n_leased_by n = Some worker_id \<and> n_status n = N_LEASED) nodes"

definition candidates :: "string option \<Rightarrow> node list \<Rightarrow> node list" where
  "candidates workflow_id nodes =
     sort_key (\<lambda>n. (n_created_at n, n_node_id n))
       (filter (\<lambda>n. n_status n = N_QUEUED \<and> in_scope workflow_id n) nodes)"

definition fleet_claim :: "string \<Rightarrow> clock \<Rightarrow> string \<Rightarrow> string option \<Rightarrow> fleet
    \<Rightarrow> (py_error + lease option) \<times> fleet" where
  "fleet_claim hex clk worker_id workflow_id s0 =
     (let s = snd (sweep_expired clk s0) in
      case find (\<lambda>w. wk_worker_id w = worker_id) (f_workers s) of
        None \<Rightarrow> (Inl (ValueError ''Worker is not registered''), s)
      | Some worker \<Rightarrow>
          if wk_max_concurrency worker \<le> active_leases worker_id (f_nodes s) then (Inr None, s)
          else case find (\<lambda>n. set (n_capabilities n) \<subseteq> set (wk_capabilities worker))
                      (candidates workflow_id (f_nodes s)) of
            None \<Rightarrow> (Inr None, s)
          | Some row \<Rightarrow>
              let token = identifier_of ''lease'' hex;
                  expires = clk + of_int (f_lease_seconds s);
                  hit = (\<lambda>n. is_node (n_workflow_id row) (n_node_id row) n
                              \<and> n_status n = N_QUEUED);
                  changed = rowcount hit (f_nodes s);
                  s1 = touch_worker worker_id clk
                         (s\<lparr>f_nodes := upd_where hit (lease_node worker_id token expires clk)
                                        (f_nodes s)\<rparr>) in
              if changed = 0 then (Inr None, s1)
              else (Inr (Some \<lparr>l_workflow_id = n_workflow_id row, l_node_id = n_node_id row,
                        l_objective = n_objective row, l_input = n_input row,
                        l_budget = n_budget row, l_lease_token = token,
                        l_lease_expires = expires\<rparr>),
                    fleet_event ''node.leased''
                      (JObj [(''worker_id'', JStr worker_id), (''lease_expires'', JNum expires)])
                      (Some (n_workflow_id row)) (Some (n_node_id row)) clk s1))"

definition holds_lease :: "string \<Rightarrow> string \<Rightarrow> node \<Rightarrow> bool" where
  "holds_lease worker_id token n \<longleftrightarrow>
     n_leased_by n = Some worker_id \<and> n_lease_token n = Some token \<and> n_status n = N_LEASED"

definition heartbeat :: "clock \<Rightarrow> string \<Rightarrow> string \<Rightarrow> fleet \<Rightarrow> (py_error + clock) \<times> fleet" where
  "heartbeat clk worker_id token s =
     (let expires = clk + of_int (f_lease_seconds s);
          changed = rowcount (holds_lease worker_id token) (f_nodes s);
          s1 = s\<lparr>f_nodes := upd_where (holds_lease worker_id token)
                 (\<lambda>n. n\<lparr>n_lease_expires := Some expires, n_updated_at := iso clk\<rparr>) (f_nodes s)\<rparr> in
      if changed = 0 then (Inl (ValueError ''Lease is no longer active''), s1)
      else (Inr expires, touch_worker worker_id clk s1))"

text \<open>\<open>_lease\<close>: the first row holding the lease, if it has not expired.\<close>

definition lease_of :: "clock \<Rightarrow> string \<Rightarrow> string \<Rightarrow> fleet \<Rightarrow> py_error + node" where
  "lease_of clk worker_id token s =
     (case filter (holds_lease worker_id token) (f_nodes s) of
        [] \<Rightarrow> Inl (ValueError ''Lease is no longer active'')
      | row # _ \<Rightarrow>
          (case n_lease_expires row of
             None \<Rightarrow> Inl (TypeError ''float() argument must be a string or a real number'')
           | Some x \<Rightarrow> if x < clk then Inl (ValueError ''Lease is no longer active'') else Inr row))"

section \<open>Artifacts and route metrics\<close>

text \<open>\<open>Path(name).name\<close> on POSIX: the last component, empty components and \<open>.\<close> left out.\<close>

fun split_on :: "char \<Rightarrow> string \<Rightarrow> string list" where
  "split_on c [] = [[]]"
| "split_on c (x # xs) =
     (if x = c then [] # split_on c xs
      else case split_on c xs of [] \<Rightarrow> [[x]] | part # parts \<Rightarrow> (x # part) # parts)"

definition path_name :: "string \<Rightarrow> string" where
  "path_name p =
     (case rev (filter (\<lambda>part. part \<noteq> [] \<and> part \<noteq> ''.'') (split_on (CHR ''/'') p)) of
        [] \<Rightarrow> [] | part # _ \<Rightarrow> part)"

definition artifact_path :: "string \<Rightarrow> string \<Rightarrow> string \<Rightarrow> string \<Rightarrow> string \<Rightarrow> string" where
  "artifact_path base workflow_id node_id digest name =
     base @ ''/'' @ workflow_id @ ''/'' @ node_id @ ''/'' @ take 12 digest @ ''-'' @ name"

definition store_artifact :: "(string \<Rightarrow> string) \<Rightarrow> string \<Rightarrow> clock \<Rightarrow> string \<Rightarrow> string
    \<Rightarrow> string \<Rightarrow> string \<Rightarrow> fleet \<Rightarrow> (py_error + artifact) \<times> fleet" where
  "store_artifact sha hex clk workflow_id node_id name content s =
     (if path_name name \<noteq> name \<or> name = []
      then (Inl (ValueError ''Artifact name must be a plain filename''), s)
      else
        let digest = sha content;
            path = artifact_path (f_artifact_root s) workflow_id node_id digest name;
            s1 = s\<lparr>f_files := (f_files s)(path \<mapsto> content)\<rparr>;
            row = \<lparr>a_artifact_id = identifier_of ''artifact'' hex, a_workflow_id = workflow_id,
                   a_node_id = node_id, a_name = name, a_digest = digest,
                   a_size = length content, a_path = path, a_created_at = iso clk\<rparr> in
        if \<exists>a \<in> set (f_artifacts s1). a_artifact_id a = a_artifact_id row
        then (Inl IntegrityError, s1)
        else (Inr row, s1\<lparr>f_artifacts := f_artifacts s1 @ [row]\<rparr>))"

fun store_artifacts :: "(string \<Rightarrow> string) \<Rightarrow> (nat \<Rightarrow> string) \<Rightarrow> clock \<Rightarrow> string \<Rightarrow> string
    \<Rightarrow> (string \<times> string) list \<Rightarrow> fleet \<Rightarrow> (py_error + artifact list) \<times> fleet" where
  "store_artifacts sha uuid clk workflow_id node_id [] s = (Inr [], s)"
| "store_artifacts sha uuid clk workflow_id node_id ((name, content) # items) s =
     (case store_artifact sha (uuid (length items)) clk workflow_id node_id name content s of
        (Inl e, s1) \<Rightarrow> (Inl e, s1)
      | (Inr a, s1) \<Rightarrow>
          (case store_artifacts sha uuid clk workflow_id node_id items s1 of
             (Inl e, s2) \<Rightarrow> (Inl e, s2)
           | (Inr as, s2) \<Rightarrow> (Inr (a # as), s2)))"

definition score_route :: "bool \<Rightarrow> rat \<Rightarrow> rat \<Rightarrow> rat \<Rightarrow> clock \<Rightarrow> route_metric \<Rightarrow> route_metric" where
  "score_route success quality cost latency clk r =
     (let hit = (if success then 1 else 0) in
      r\<lparr>rm_runs := rm_runs r + 1, rm_successes := rm_successes r + hit,
        rm_quality_sum := rm_quality_sum r + quality, rm_cost_sum := rm_cost_sum r + cost,
        rm_latency_sum := rm_latency_sum r + latency,
        rm_score := (of_nat (rm_successes r) + of_nat hit + 1) / (of_nat (rm_runs r) + 2) * (7 / 10)
          + (rm_quality_sum r + quality) / (of_nat (rm_runs r) + 1) * (3 / 10),
        rm_updated_at := iso clk\<rparr>)"

definition record_route :: "string \<Rightarrow> bool \<Rightarrow> rat \<Rightarrow> rat \<Rightarrow> rat \<Rightarrow> clock \<Rightarrow> fleet \<Rightarrow> fleet" where
  "record_route pool success quality cost latency clk s =
     s\<lparr>f_routes := upd_where (\<lambda>r. rm_pool r = pool) (score_route success quality cost latency clk)
        (f_routes s)\<rparr>"

definition route_metrics :: "fleet \<Rightarrow> route_metric list" where
  "route_metrics s = sort_key (\<lambda>r. (- rm_score r, rm_pool r)) (f_routes s)"

section \<open>Advancing a workflow\<close>

fun parents_done :: "(string \<Rightarrow> node_status option) \<Rightarrow> string list \<Rightarrow> py_error + bool" where
  "parents_done statuses [] = Inr True"
| "parents_done statuses (parent # parents) =
     (case statuses parent of
        None \<Rightarrow> Inl (KeyError parent)
      | Some st \<Rightarrow> if st = N_COMPLETED then parents_done statuses parents else Inr False)"

definition ready_status :: "node \<Rightarrow> node_status" where
  "ready_status n = (if n_approval_required n then N_AWAITING_APPROVAL else N_QUEUED)"

definition status_text :: "node_status \<Rightarrow> string" where
  "status_text st = (case st of
       N_BLOCKED \<Rightarrow> ''blocked'' | N_QUEUED \<Rightarrow> ''queued''
     | N_AWAITING_APPROVAL \<Rightarrow> ''awaiting_approval'' | N_LEASED \<Rightarrow> ''leased''
     | N_COMPLETED \<Rightarrow> ''completed'' | N_FAILED \<Rightarrow> ''failed'')"

definition make_ready :: "clock \<Rightarrow> node \<Rightarrow> node \<Rightarrow> node" where
  "make_ready clk row n = n\<lparr>n_status := ready_status row, n_updated_at := iso clk\<rparr>"

definition ready_row :: "clock \<Rightarrow> node \<Rightarrow> fleet \<Rightarrow> fleet" where
  "ready_row clk row s =
     fleet_event ''node.ready'' (JObj [(''status'', JStr (status_text (ready_status row)))])
       (Some (n_workflow_id row)) (Some (n_node_id row)) clk
       (s\<lparr>f_nodes := upd_key node_key (make_ready clk) row (f_nodes s)\<rparr>)"

fun advance_rows :: "(string \<Rightarrow> node_status option) \<Rightarrow> clock \<Rightarrow> node list \<Rightarrow> fleet
    \<Rightarrow> (py_error + unit) \<times> fleet" where
  "advance_rows statuses clk [] s = (Inr (), s)"
| "advance_rows statuses clk (row # rows) s =
     (if n_status row \<noteq> N_BLOCKED then advance_rows statuses clk rows s
      else case parents_done statuses (n_deps row) of
             Inl e \<Rightarrow> (Inl e, s)
           | Inr True \<Rightarrow> advance_rows statuses clk rows (ready_row clk row s)
           | Inr False \<Rightarrow> advance_rows statuses clk rows s)"

definition workflow_nodes :: "string \<Rightarrow> node list \<Rightarrow> node list" where
  "workflow_nodes workflow_id nodes = filter (\<lambda>n. n_workflow_id n = workflow_id) nodes"

definition statuses_of :: "node list \<Rightarrow> string \<Rightarrow> node_status option" where
  "statuses_of rows = map_of (map (\<lambda>n. (n_node_id n, n_status n)) rows)"

definition fleet_advance :: "clock \<Rightarrow> string \<Rightarrow> fleet \<Rightarrow> (py_error + unit) \<times> fleet" where
  "fleet_advance clk workflow_id s =
     (let rows = workflow_nodes workflow_id (f_nodes s) in
      case advance_rows (statuses_of rows) clk rows s of
        (Inl e, s1) \<Rightarrow> (Inl e, s1)
      | (Inr _, s1) \<Rightarrow>
          let refreshed = workflow_nodes workflow_id (f_nodes s1) in
          if refreshed \<noteq> [] \<and> list_all (\<lambda>n. n_status n = N_COMPLETED) refreshed
          then (Inr (), fleet_event ''workflow.completed'' (JObj []) (Some workflow_id) None clk
                          (set_workflow_status workflow_id W_COMPLETED clk s1))
          else (Inr (), s1))"

section \<open>Completion, failure, approval\<close>

definition complete_node :: "completion \<Rightarrow> clock \<Rightarrow> node \<Rightarrow> node" where
  "complete_node result clk n =
     n\<lparr>n_status := N_COMPLETED, n_output := Some (c_output result),
       n_tokens_used := c_tokens_used result, n_cost_usd := c_cost_usd result,
       n_duration_seconds := c_duration_seconds result, n_leased_by := None,
       n_lease_token := None, n_lease_expires := None, n_updated_at := iso clk\<rparr>"

definition artifact_json :: "artifact \<Rightarrow> json" where
  "artifact_json a = JObj [(''artifact_id'', JStr (a_artifact_id a)), (''name'', JStr (a_name a)),
     (''sha256'', JStr (a_digest a)), (''size'', JInt (int (a_size a)))]"

definition fleet_complete :: "(string \<Rightarrow> string) \<Rightarrow> (nat \<Rightarrow> string) \<Rightarrow> clock \<Rightarrow> string \<Rightarrow> string
    \<Rightarrow> completion \<Rightarrow> fleet \<Rightarrow> (py_error + (string \<times> string \<times> artifact list)) \<times> fleet" where
  "fleet_complete sha uuid clk worker_id token result s =
     (case lease_of clk worker_id token s of
        Inl e \<Rightarrow> (Inl e, s)
      | Inr row \<Rightarrow>
          if b_tokens (n_budget row) < c_tokens_used result
             \<or> b_cost_usd (n_budget row) < c_cost_usd result
          then (Inl (ValueError ''Completion exceeds node budget''), s)
          else case store_artifacts sha uuid clk (n_workflow_id row) (n_node_id row)
                      (c_artifacts result) s of
            (Inl e, s1) \<Rightarrow> (Inl e, s1)
          | (Inr artifacts, s1) \<Rightarrow>
              let s2 = s1\<lparr>f_nodes := upd_where (is_node (n_workflow_id row) (n_node_id row))
                           (complete_node result clk) (f_nodes s1)\<rparr> in
              (case find (\<lambda>w. wk_worker_id w = worker_id) (f_workers s2) of
                 None \<Rightarrow> (Inl IndexError, s2)
               | Some worker \<Rightarrow>
                   let s3 = record_route (wk_pool worker) True (c_quality result)
                              (c_cost_usd result) (c_duration_seconds result) clk s2;
                       s4 = fleet_event ''node.completed''
                              (JObj [(''worker_id'', JStr worker_id),
                                     (''artifacts'', JArr (map artifact_json artifacts))])
                              (Some (n_workflow_id row)) (Some (n_node_id row)) clk s3 in
                   (case fleet_advance clk (n_workflow_id row) s4 of
                      (Inl e, s5) \<Rightarrow> (Inl e, s5)
                    | (Inr _, s5) \<Rightarrow>
                        (Inr (n_workflow_id row, n_node_id row, artifacts), s5))))"

definition fail_node :: "bool \<Rightarrow> string \<Rightarrow> clock \<Rightarrow> node \<Rightarrow> node" where
  "fail_node retry error clk n =
     n\<lparr>n_status := (if retry then N_QUEUED else N_FAILED), n_error := Some error,
       n_leased_by := None, n_lease_token := None, n_lease_expires := None,
       n_updated_at := iso clk\<rparr>"

definition fleet_fail :: "clock \<Rightarrow> string \<Rightarrow> string \<Rightarrow> string \<Rightarrow> bool \<Rightarrow> fleet
    \<Rightarrow> (py_error + unit) \<times> fleet" where
  "fleet_fail clk worker_id token error retryable s =
     (case lease_of clk worker_id token s of
        Inl e \<Rightarrow> (Inl e, s)
      | Inr row \<Rightarrow>
          let retry = (retryable \<and> retry_allowed row);
              s1 = s\<lparr>f_nodes := upd_where (is_node (n_workflow_id row) (n_node_id row))
                       (fail_node retry error clk) (f_nodes s)\<rparr> in
          (case find (\<lambda>w. wk_worker_id w = worker_id) (f_workers s1) of
             None \<Rightarrow> (Inl IndexError, s1)
           | Some worker \<Rightarrow>
               let s2 = record_route (wk_pool worker) False 0 0 0 clk s1;
                   s3 = fleet_event (if retry then ''node.retrying'' else ''node.failed'')
                          (JObj [(''worker_id'', JStr worker_id), (''error'', JStr error)])
                          (Some (n_workflow_id row)) (Some (n_node_id row)) clk s2 in
               (Inr (), if retry then s3
                        else set_workflow_status (n_workflow_id row) W_FAILED clk s3)))"

definition decide_node :: "bool \<Rightarrow> string \<Rightarrow> clock \<Rightarrow> node \<Rightarrow> node" where
  "decide_node approved actor clk n =
     n\<lparr>n_status := (if approved then N_QUEUED else N_FAILED), n_approval_actor := Some actor,
       n_error := (if approved then None else Some ''Approval denied''),
       n_updated_at := iso clk\<rparr>"

definition fleet_approve :: "clock \<Rightarrow> string \<Rightarrow> string \<Rightarrow> bool \<Rightarrow> string \<Rightarrow> fleet
    \<Rightarrow> (py_error + unit) \<times> fleet" where
  "fleet_approve clk workflow_id node_id approved actor s =
     (let hit = (\<lambda>n. is_node workflow_id node_id n \<and> n_status n = N_AWAITING_APPROVAL);
          changed = rowcount hit (f_nodes s);
          s1 = s\<lparr>f_nodes := upd_where hit (decide_node approved actor clk) (f_nodes s)\<rparr> in
      if changed = 0 then (Inl (ValueError ''Node is not awaiting approval''), s1)
      else
        let s2 = fleet_event ''node.approval''
                   (JObj [(''approved'', JBool approved), (''actor'', JStr actor)])
                   (Some workflow_id) (Some node_id) clk s1 in
        (Inr (), if approved then s2 else set_workflow_status workflow_id W_FAILED clk s2))"

section \<open>Queries\<close>

definition fleet_view :: "string \<Rightarrow> fleet \<Rightarrow> py_error + (workflow \<times> node list)" where
  "fleet_view workflow_id s =
     (case filter (\<lambda>w. w_workflow_id w = workflow_id) (f_workflows s) of
        [] \<Rightarrow> Inl (ValueError ''Workflow not found'')
      | w # _ \<Rightarrow> Inr (w, sort_key (\<lambda>n. (n_created_at n, n_node_id n))
                            (workflow_nodes workflow_id (f_nodes s))))"

definition list_workflows :: "int \<Rightarrow> fleet \<Rightarrow> workflow list" where
  "list_workflows limit s = sql_limit limit (sort_key (\<lambda>w. - w_created_at w) (f_workflows s))"

end
