(* ===== verification/FleetMoves.thy ===== *)
theory FleetMoves
  imports FleetOrchestrator
begin

text \<open>
  The life of a workflow node. \<open>node_move\<close> lists the transitions a row of the node table can
  make; every operation of the orchestrator is a chain of such moves on the whole table, and the
  node invariants are proved once, over moves.
\<close>

section \<open>Moves of one node and of the table\<close>

definition parents_completed :: "node list \<Rightarrow> node \<Rightarrow> bool" where
  "parents_completed ns n \<longleftrightarrow>
     (\<forall>p \<in> set (n_deps n). \<exists>m \<in> set ns. is_node (n_workflow_id n) p m \<and> n_status m = N_COMPLETED)"

inductive node_move :: "node list \<Rightarrow> node \<Rightarrow> node \<Rightarrow> bool" for ns where
  keep: "node_move ns n n"
| lease: "n_status n = N_QUEUED \<Longrightarrow> node_move ns n (lease_node worker_id token expires clk n)"
| beat: "n_status n = N_LEASED \<Longrightarrow>
    node_move ns n (n\<lparr>n_lease_expires := Some expires, n_updated_at := t\<rparr>)"
| complete: "n_status n = N_LEASED \<Longrightarrow> c_tokens_used r \<le> b_tokens (n_budget n) \<Longrightarrow>
    c_cost_usd r \<le> b_cost_usd (n_budget n) \<Longrightarrow> node_move ns n (complete_node r clk n)"
| fail: "n_status n = N_LEASED \<Longrightarrow> (retry \<Longrightarrow> retry_allowed n) \<Longrightarrow>
    node_move ns n (fail_node retry err clk n)"
| expire: "n_status n = N_LEASED \<Longrightarrow> node_move ns n (expire_node clk n n)"
| decide: "n_status n = N_AWAITING_APPROVAL \<Longrightarrow> node_move ns n (decide_node ok actor clk n)"
| ready: "n_status n = N_BLOCKED \<Longrightarrow> parents_completed ns n \<Longrightarrow>
    node_move ns n (make_ready clk n n)"

lemmas node_updates =
  lease_node_def complete_node_def fail_node_def expire_node_def decide_node_def make_ready_def
  ready_status_def

inductive_cases node_move_E: "node_move ns n n'"

definition nodes_move :: "node list \<Rightarrow> node list \<Rightarrow> bool" where
  "nodes_move ns ns' \<longleftrightarrow> list_all2 (node_move ns) ns ns'"

lemma nodes_move_refl [simp, intro]: "nodes_move ns ns"
  by (simp add: nodes_move_def list_all2_same keep)

lemma nodes_move_map: "(\<And>n. n \<in> set ns \<Longrightarrow> node_move ns n (F n)) \<Longrightarrow> nodes_move ns (map F ns)"
  by (simp add: nodes_move_def list.rel_map list_all2_same)

lemma nodes_move_upd_where:
  "(\<And>n. n \<in> set ns \<Longrightarrow> P n \<Longrightarrow> node_move ns n (f n)) \<Longrightarrow> nodes_move ns (upd_where P f ns)"
  unfolding upd_where_def by (rule nodes_move_map) (simp add: keep)

text \<open>What a move never changes, and the edges of the state machine it follows.\<close>

lemma node_move_fixed:
  assumes "node_move ns n n'"
  shows "node_key n' = node_key n" "n_deps n' = n_deps n" "n_budget n' = n_budget n"
    "n_max_attempts n' = n_max_attempts n" "n_approval_required n' = n_approval_required n"
    "n_capabilities n' = n_capabilities n" "n_created_at n' = n_created_at n"
  using assms by (auto elim!: node_move_E simp: node_updates)

fun legal_edge :: "node_status \<Rightarrow> node_status \<Rightarrow> bool" where
  "legal_edge N_BLOCKED st \<longleftrightarrow> st \<in> {N_BLOCKED, N_QUEUED, N_AWAITING_APPROVAL}"
| "legal_edge N_AWAITING_APPROVAL st \<longleftrightarrow> st \<in> {N_AWAITING_APPROVAL, N_QUEUED, N_FAILED}"
| "legal_edge N_QUEUED st \<longleftrightarrow> st \<in> {N_QUEUED, N_LEASED}"
| "legal_edge N_LEASED st \<longleftrightarrow> st \<in> {N_LEASED, N_COMPLETED, N_QUEUED, N_FAILED}"
| "legal_edge N_COMPLETED st \<longleftrightarrow> st = N_COMPLETED"
| "legal_edge N_FAILED st \<longleftrightarrow> st = N_FAILED"

lemma legal_edge_refl [simp]: "legal_edge st st"
  by (cases st) auto

lemma node_move_edge: "node_move ns n n' \<Longrightarrow> legal_edge (n_status n) (n_status n')"
  by (auto elim!: node_move_E simp: node_updates)

lemma node_move_final:
  assumes "node_move ns n n'" "n_status n = N_COMPLETED \<or> n_status n = N_FAILED"
  shows "n' = n"
  using assms by (auto elim!: node_move_E)

lemma nodes_move_keys: "nodes_move ns ns' \<Longrightarrow> map node_key ns' = map node_key ns"
  unfolding nodes_move_def
  by (induction rule: list_all2_induct) (auto dest: node_move_fixed(1) simp del: prod.inject)

lemma nodes_move_fwd:
  "nodes_move ns ns' \<Longrightarrow> n \<in> set ns \<Longrightarrow> \<exists>n' \<in> set ns'. node_move ns n n'"
  unfolding nodes_move_def by (rule list_all2_fwd)

lemma nodes_move_bwd:
  "nodes_move ns ns' \<Longrightarrow> n' \<in> set ns' \<Longrightarrow> \<exists>n \<in> set ns. node_move ns n n'"
  unfolding nodes_move_def by (rule list_all2_bwd)

lemma parents_completed_cong:
  "n_workflow_id n' = n_workflow_id n \<Longrightarrow> n_deps n' = n_deps n \<Longrightarrow>
     parents_completed ns n' = parents_completed ns n"
  by (simp add: parents_completed_def)

lemma parents_completed_move:
  assumes "nodes_move ns ns'" "parents_completed ns n"
  shows "parents_completed ns' n"
  unfolding parents_completed_def
proof
  fix p assume "p \<in> set (n_deps n)"
  with assms(2) obtain m where m: "m \<in> set ns" "is_node (n_workflow_id n) p m"
    "n_status m = N_COMPLETED"
    unfolding parents_completed_def by blast
  obtain m' where "m' \<in> set ns'" "node_move ns m m'"
    using nodes_move_fwd [OF assms(1) m(1)] by blast
  with m node_move_final show "\<exists>m \<in> set ns'. is_node (n_workflow_id n) p m \<and> n_status m = N_COMPLETED"
    by metis
qed

section \<open>The node invariant\<close>

definition deps_known :: "node list \<Rightarrow> node \<Rightarrow> bool" where
  "deps_known ns n \<longleftrightarrow> (\<forall>p \<in> set (n_deps n). \<exists>m \<in> set ns. is_node (n_workflow_id n) p m)"

definition deps_ok :: "node list \<Rightarrow> node \<Rightarrow> bool" where
  "deps_ok ns n \<longleftrightarrow> (n_status n \<noteq> N_BLOCKED \<longrightarrow> parents_completed ns n)"

definition approval_ok :: "node \<Rightarrow> bool" where
  "approval_ok n \<longleftrightarrow> (n_approval_required n \<longrightarrow> n_status n \<in> {N_QUEUED, N_LEASED, N_COMPLETED}
     \<longrightarrow> n_approval_actor n \<noteq> None)"

definition attempts_ok :: "node \<Rightarrow> bool" where
  "attempts_ok n \<longleftrightarrow> n_attempts n \<le> n_max_attempts n
     \<and> (n_status n \<in> {N_BLOCKED, N_QUEUED, N_AWAITING_APPROVAL} \<longrightarrow> n_attempts n < n_max_attempts n)
     \<and> (n_status n \<in> {N_LEASED, N_COMPLETED} \<longrightarrow> 0 < n_attempts n)"

definition lease_fields_ok :: "node \<Rightarrow> bool" where
  "lease_fields_ok n \<longleftrightarrow> (n_status n = N_LEASED \<longleftrightarrow> n_leased_by n \<noteq> None)
     \<and> (n_leased_by n = None \<longleftrightarrow> n_lease_token n = None)
     \<and> (n_leased_by n = None \<longleftrightarrow> n_lease_expires n = None)"

definition usage_ok :: "node \<Rightarrow> bool" where
  "usage_ok n \<longleftrightarrow> (n_status n = N_COMPLETED \<longrightarrow>
     n_tokens_used n \<le> b_tokens (n_budget n) \<and> n_cost_usd n \<le> b_cost_usd (n_budget n))"

definition row_ok :: "node \<Rightarrow> bool" where
  "row_ok n \<longleftrightarrow> approval_ok n \<and> attempts_ok n \<and> lease_fields_ok n \<and> usage_ok n
     \<and> (n_status n \<in> {N_BLOCKED, N_AWAITING_APPROVAL} \<longrightarrow> n_attempts n = 0)"

lemmas row_ok_defs = row_ok_def approval_ok_def attempts_ok_def lease_fields_ok_def usage_ok_def

definition nodes_inv :: "node list \<Rightarrow> bool" where
  "nodes_inv ns \<longleftrightarrow> distinct (map node_key ns)
     \<and> (\<forall>n \<in> set ns. row_ok n \<and> deps_known ns n \<and> deps_ok ns n)"

lemma row_ok_move: "node_move ns n n' \<Longrightarrow> row_ok n \<Longrightarrow> row_ok n'"
proof (induction rule: node_move.induct)
  case (keep n)
  then show ?case by simp
next
  case (beat n expires t)
  then show ?case by (auto simp: row_ok_defs)
next
  case (fail n retry err clk)
  then show ?case by (cases retry) (simp_all add: row_ok_defs node_updates retry_allowed_def)
next
  case (expire n clk)
  then show ?case by (cases "retry_allowed n") (simp_all add: row_ok_defs node_updates retry_allowed_def)
next
  case (decide n ok actor clk)
  then show ?case by (cases ok) (auto simp: row_ok_defs node_updates)
next
  case (ready n clk)
  then show ?case by (cases "n_approval_required n") (auto simp: row_ok_defs node_updates)
qed (simp_all add: row_ok_defs node_updates)

lemma deps_known_move:
  assumes "nodes_move ns ns'" "node_move ns n n'" "deps_known ns n"
  shows "deps_known ns' n'"
  unfolding deps_known_def
proof
  fix p assume "p \<in> set (n_deps n')"
  then obtain m where m: "m \<in> set ns" "is_node (n_workflow_id n) p m"
    using assms(3) node_move_fixed(2) [OF assms(2)] unfolding deps_known_def by auto
  obtain m' where "m' \<in> set ns'" "node_move ns m m'"
    using nodes_move_fwd [OF assms(1) m(1)] by blast
  with m(2) node_move_fixed(1) [of ns m m'] node_move_fixed(1) [OF assms(2)]
  show "\<exists>m \<in> set ns'. is_node (n_workflow_id n') p m" by auto
qed

lemma deps_ok_move:
  assumes "nodes_move ns ns'" "node_move ns n n'" "deps_ok ns n"
  shows "deps_ok ns' n'"
proof -
  have "parents_completed ns n" if "n_status n' \<noteq> N_BLOCKED"
    using assms(2,3) that by (auto elim!: node_move_E simp: deps_ok_def node_updates)
  then show ?thesis
    using parents_completed_move [OF assms(1)] node_move_fixed(1,2) [OF assms(2)]
    by (auto simp: deps_ok_def parents_completed_def)
qed

lemma nodes_inv_move: "nodes_move ns ns' \<Longrightarrow> nodes_inv ns \<Longrightarrow> nodes_inv ns'"
  unfolding nodes_inv_def
  by (metis nodes_move_keys nodes_move_bwd row_ok_move deps_known_move deps_ok_move)

lemma nodes_inv_moves: "nodes_move\<^sup>*\<^sup>* ns ns' \<Longrightarrow> nodes_inv ns \<Longrightarrow> nodes_inv ns'"
  by (induction rule: rtranclp_induct) (auto intro: nodes_inv_move)

lemma nodes_moves_keys: "nodes_move\<^sup>*\<^sup>* ns ns' \<Longrightarrow> map node_key ns' = map node_key ns"
  by (induction rule: rtranclp_induct) (auto dest: nodes_move_keys)

text \<open>Nodes that are blocked wait for a parent: nothing that could run is left behind.\<close>

definition blocked_waits :: "node list \<Rightarrow> bool" where
  "blocked_waits ns \<longleftrightarrow> (\<forall>n \<in> set ns. n_status n = N_BLOCKED \<longrightarrow> \<not> parents_completed ns n)"

definition no_new_completion :: "node list \<Rightarrow> node list \<Rightarrow> bool" where
  "no_new_completion ns ns' \<longleftrightarrow>
     list_all2 (\<lambda>n n'. n_status n' = N_COMPLETED \<longrightarrow> n_status n = N_COMPLETED) ns ns'"

lemma parents_completed_back:
  assumes "nodes_move ns ns'" "no_new_completion ns ns'" "parents_completed ns' n"
  shows "parents_completed ns n"
  unfolding parents_completed_def
proof
  let ?R = "\<lambda>n n'. node_move ns n n' \<and> (n_status n' = N_COMPLETED \<longrightarrow> n_status n = N_COMPLETED)"
  have both: "list_all2 ?R ns ns'"
    using assms(1,2) by (simp add: nodes_move_def no_new_completion_def list_all2_conv_all_nth)
  fix p assume "p \<in> set (n_deps n)"
  with assms(3) obtain m' where m': "m' \<in> set ns'" "is_node (n_workflow_id n) p m'"
    "n_status m' = N_COMPLETED"
    unfolding parents_completed_def by blast
  obtain m where "m \<in> set ns" "?R m m'"
    using list_all2_bwd [OF both m'(1)] by blast
  with m' node_move_fixed(1) [of ns m m']
  show "\<exists>m \<in> set ns. is_node (n_workflow_id n) p m \<and> n_status m = N_COMPLETED" by auto
qed

lemma blocked_waits_move:
  assumes "nodes_move ns ns'" "no_new_completion ns ns'" "blocked_waits ns"
  shows "blocked_waits ns'"
  unfolding blocked_waits_def
proof (intro ballI impI)
  fix n' assume n': "n' \<in> set ns'" "n_status n' = N_BLOCKED"
  obtain n where n: "n \<in> set ns" "node_move ns n n'"
    using nodes_move_bwd [OF assms(1) n'(1)] by blast
  have "n_status n = N_BLOCKED"
    using node_move_edge [OF n(2)] n'(2) by (cases "n_status n") auto
  with n(1) assms(3) have "\<not> parents_completed ns n"
    by (simp add: blocked_waits_def)
  then show "\<not> parents_completed ns' n'"
    using parents_completed_back [OF assms(1,2), of n] node_move_fixed(1,2) [OF n(2)]
      parents_completed_cong [of n' n ns'] by auto
qed

end
