(* ===== verification/FleetInvariants.thy ===== *)
theory FleetInvariants
  imports FleetMoves
begin

text \<open>
  What the operations of the orchestrator do to the node table, each as a chain of moves; the
  invariant of the whole store; and the operations as a transition system.
\<close>

section \<open>Frames\<close>

lemma fleet_event_frame [simp]:
  "f_nodes (fleet_event k p w n c s) = f_nodes s"
  "f_workflows (fleet_event k p w n c s) = f_workflows s"
  "f_workers (fleet_event k p w n c s) = f_workers s"
  "f_routes (fleet_event k p w n c s) = f_routes s"
  "f_lease_seconds (fleet_event k p w n c s) = f_lease_seconds s"
  by (simp_all add: fleet_event_def)

lemma touch_worker_frame [simp]:
  "f_nodes (touch_worker w c s) = f_nodes s"
  "f_workflows (touch_worker w c s) = f_workflows s"
  "f_routes (touch_worker w c s) = f_routes s"
  "map wk_worker_id (f_workers (touch_worker w c s)) = map wk_worker_id (f_workers s)"
  by (simp_all add: touch_worker_def upd_where_map)

lemma set_workflow_status_frame [simp]:
  "f_nodes (set_workflow_status w st c s) = f_nodes s"
  "f_workers (set_workflow_status w st c s) = f_workers s"
  "f_routes (set_workflow_status w st c s) = f_routes s"
  by (simp_all add: set_workflow_status_def)

lemma record_route_frame [simp]:
  "f_nodes (record_route p ok q co la c s) = f_nodes s"
  "f_workflows (record_route p ok q co la c s) = f_workflows s"
  "f_workers (record_route p ok q co la c s) = f_workers s"
  by (simp_all add: record_route_def)

lemma store_artifacts_frame:
  "store_artifacts sha uuid c wid nd items s = (r, s') \<Longrightarrow>
     f_nodes s' = f_nodes s \<and> f_workflows s' = f_workflows s \<and> f_workers s' = f_workers s
     \<and> f_routes s' = f_routes s"
proof (induction items arbitrary: s r s')
  case (Cons item items)
  obtain name content where item: "item = (name, content)" by (cases item)
  obtain r1 s1 where 1: "store_artifact sha (uuid (length items)) c wid nd name content s = (r1, s1)"
    by fastforce
  then have f1: "f_nodes s1 = f_nodes s \<and> f_workflows s1 = f_workflows s \<and> f_workers s1 = f_workers s
     \<and> f_routes s1 = f_routes s"
    by (auto simp: store_artifact_def Let_def split: if_splits)
  obtain r2 s2 where 2: "store_artifacts sha uuid c wid nd items s1 = (r2, s2)"
    by fastforce
  from Cons.IH [OF 2] f1 1 2 Cons.prems item show ?case
    by (auto split: sum.splits prod.splits)
qed simp

section \<open>The two loops as simultaneous updates\<close>

definition is_expired :: "clock \<Rightarrow> node \<Rightarrow> bool" where
  "is_expired clk n \<longleftrightarrow> n_status n = N_LEASED \<and> expires_before clk n"

lemma fold_sweep_row:
  "f_nodes (fold (sweep_row clk) rows s) = fold (upd_key node_key (expire_node clk)) rows (f_nodes s)
   \<and> f_workflows (fold (sweep_row clk) rows s) = f_workflows s
   \<and> f_workers (fold (sweep_row clk) rows s) = f_workers s
   \<and> f_routes (fold (sweep_row clk) rows s) = f_routes s"
  by (induction rows arbitrary: s) (simp_all add: sweep_row_def)

lemma sweep_nodes:
  assumes "distinct (map node_key (f_nodes s))"
  shows "f_nodes (snd (sweep_expired clk s)) =
    map (\<lambda>n. if is_expired clk n then expire_node clk n n else n) (f_nodes s)"
proof -
  have "node_key (expire_node clk x r) = node_key r" for x r
    by (simp add: expire_node_def)
  from fold_upd_key_filter [where g = "expire_node clk", OF assms this]
  show ?thesis
    by (simp add: sweep_expired_def fold_sweep_row is_expired_def Let_def)
qed

lemma sweep_frame [simp]:
  "f_workflows (snd (sweep_expired clk s)) = f_workflows s"
  "f_workers (snd (sweep_expired clk s)) = f_workers s"
  "f_routes (snd (sweep_expired clk s)) = f_routes s"
  by (simp_all add: sweep_expired_def fold_sweep_row Let_def)

lemma sweep_move:
  assumes "distinct (map node_key (f_nodes s))"
  shows "nodes_move (f_nodes s) (f_nodes (snd (sweep_expired clk s)))"
  unfolding sweep_nodes [OF assms]
  by (rule nodes_move_map) (auto simp: is_expired_def intro: node_move.keep node_move.expire)

text \<open>Within one workflow the status map and the table agree, since node ids are unique in it.\<close>

lemma statuses_of_lookup:
  assumes "distinct (map node_key ns)"
  shows "statuses_of (workflow_nodes wid ns) p = Some st \<longleftrightarrow>
    (\<exists>m \<in> set ns. is_node wid p m \<and> n_status m = st)"
proof -
  have "distinct (map n_node_id (workflow_nodes wid ns))"
    using assms by (auto simp: workflow_nodes_def distinct_map inj_on_def)
  then have "distinct (map fst (map (\<lambda>n. (n_node_id n, n_status n)) (workflow_nodes wid ns)))"
    by (simp add: comp_def)
  then show ?thesis
    unfolding statuses_of_def by (force simp: workflow_nodes_def dest!: map_of_SomeD)
qed

lemma parents_done_iff:
  assumes "distinct (map node_key ns)" "deps_known ns n"
  shows "parents_done (statuses_of (workflow_nodes (n_workflow_id n) ns)) (n_deps n)
    = Inr (parents_completed ns n)"
proof -
  let ?st = "statuses_of (workflow_nodes (n_workflow_id n) ns)"
  have known: "\<exists>st. ?st p = Some st" if "p \<in> set (n_deps n)" for p
    using assms(2) that statuses_of_lookup [OF assms(1)] unfolding deps_known_def by blast
  have "parents_done ?st ps = Inr (\<forall>p \<in> set ps. ?st p = Some N_COMPLETED)"
    if "set ps \<subseteq> set (n_deps n)" for ps
    using that
  proof (induction ps)
    case (Cons p ps)
    then obtain st where "?st p = Some st"
      using known by auto
    with Cons show ?case by auto
  qed simp
  from this [of "n_deps n"] show ?thesis
    using statuses_of_lookup [OF assms(1), of "n_workflow_id n" _ N_COMPLETED]
    by (simp add: parents_completed_def)
qed

definition ready_now :: "string \<Rightarrow> node list \<Rightarrow> node \<Rightarrow> bool" where
  "ready_now wid ns n \<longleftrightarrow> n_workflow_id n = wid \<and> n_status n = N_BLOCKED \<and> parents_completed ns n"

lemma advance_rows_eq:
  assumes "distinct (map node_key ns)" "\<forall>n \<in> set rows. deps_known ns n \<and> n_workflow_id n = wid"
  shows "advance_rows (statuses_of (workflow_nodes wid ns)) clk rows s
    = (Inr (), fold (ready_row clk) (filter (ready_now wid ns) rows) s)"
  using assms(2)
proof (induction rows arbitrary: s)
  case (Cons row rows)
  then have "parents_done (statuses_of (workflow_nodes wid ns)) (n_deps row)
    = Inr (parents_completed ns row)"
    using parents_done_iff [OF assms(1), of row] by auto
  with Cons show ?case
    by (cases "parents_completed ns row") (auto simp: ready_now_def)
qed simp

lemma fold_ready_row:
  "f_nodes (fold (ready_row clk) rows s) = fold (upd_key node_key (make_ready clk)) rows (f_nodes s)
   \<and> f_workflows (fold (ready_row clk) rows s) = f_workflows s
   \<and> f_workers (fold (ready_row clk) rows s) = f_workers s
   \<and> f_routes (fold (ready_row clk) rows s) = f_routes s"
  by (induction rows arbitrary: s) (simp_all add: ready_row_def)

definition advance_map :: "clock \<Rightarrow> string \<Rightarrow> node list \<Rightarrow> node list" where
  "advance_map clk wid ns = map (\<lambda>n. if ready_now wid ns n then make_ready clk n n else n) ns"

lemma advance_effect:
  assumes "distinct (map node_key (f_nodes s))" "\<forall>n \<in> set (f_nodes s). deps_known (f_nodes s) n"
  shows "fst (fleet_advance clk wid s) = Inr ()"
    and "f_nodes (snd (fleet_advance clk wid s)) = advance_map clk wid (f_nodes s)"
    and "f_workers (snd (fleet_advance clk wid s)) = f_workers s"
    and "f_routes (snd (fleet_advance clk wid s)) = f_routes s"
    and "f_workflows (snd (fleet_advance clk wid s)) =
      (let ns = workflow_nodes wid (advance_map clk wid (f_nodes s)) in
       if ns \<noteq> [] \<and> list_all (\<lambda>n. n_status n = N_COMPLETED) ns
       then upd_where (\<lambda>w. w_workflow_id w = wid)
              (\<lambda>w. w\<lparr>w_status := W_COMPLETED, w_updated_at := iso clk\<rparr>) (f_workflows s)
       else f_workflows s)"
proof -
  let ?rows = "filter (ready_now wid (f_nodes s)) (workflow_nodes wid (f_nodes s))"
  let ?s1 = "fold (ready_row clk) ?rows s"
  have adv: "advance_rows (statuses_of (workflow_nodes wid (f_nodes s))) clk
      (workflow_nodes wid (f_nodes s)) s = (Inr (), ?s1)"
    by (rule advance_rows_eq) (use assms in \<open>auto simp: workflow_nodes_def\<close>)
  have rows: "?rows = filter (ready_now wid (f_nodes s)) (f_nodes s)"
    by (auto simp: workflow_nodes_def ready_now_def intro: filter_cong)
  have "node_key (make_ready clk x r) = node_key r" for x r
    by (simp add: make_ready_def)
  from fold_upd_key_filter [where g = "make_ready clk", OF assms(1) this]
  have nodes: "f_nodes ?s1 = advance_map clk wid (f_nodes s)"
    by (simp add: fold_ready_row rows advance_map_def)
  show "fst (fleet_advance clk wid s) = Inr ()"
    "f_nodes (snd (fleet_advance clk wid s)) = advance_map clk wid (f_nodes s)"
    "f_workers (snd (fleet_advance clk wid s)) = f_workers s"
    "f_routes (snd (fleet_advance clk wid s)) = f_routes s"
    "f_workflows (snd (fleet_advance clk wid s)) =
      (let ns = workflow_nodes wid (advance_map clk wid (f_nodes s)) in
       if ns \<noteq> [] \<and> list_all (\<lambda>n. n_status n = N_COMPLETED) ns
       then upd_where (\<lambda>w. w_workflow_id w = wid)
              (\<lambda>w. w\<lparr>w_status := W_COMPLETED, w_updated_at := iso clk\<rparr>) (f_workflows s)
       else f_workflows s)"
    using nodes fold_ready_row [of clk ?rows s]
    by (simp_all add: fleet_advance_def adv Let_def set_workflow_status_def)
qed

end
