(* ===== verification/FleetSystem.thy ===== *)
theory FleetSystem
  imports FleetInvariants
begin

text \<open>
  The invariant of the fleet store and the orchestrator as a transition system: every operation
  of the orchestrator, whatever it returns, leads from a state satisfying the invariant to
  another one.
\<close>

section \<open>The invariant\<close>

definition node_edges :: "node list \<Rightarrow> (string \<times> string list) list" where
  "node_edges ns = map (\<lambda>n. (n_node_id n, n_deps n)) ns"

definition has_order :: "node list \<Rightarrow> string \<Rightarrow> bool" where
  "has_order ns wid \<longleftrightarrow> (\<exists>order. topo (node_edges (workflow_nodes wid ns)) order
     \<and> n_node_id ` set (workflow_nodes wid ns) \<subseteq> set order)"

definition all_completed :: "node list \<Rightarrow> bool" where
  "all_completed ns \<longleftrightarrow> list_all (\<lambda>n. n_status n = N_COMPLETED) ns"

definition workflow_ok :: "node list \<Rightarrow> workflow \<Rightarrow> bool" where
  "workflow_ok ns w \<longleftrightarrow>
     (let rows = workflow_nodes (w_workflow_id w) ns in
      rows \<noteq> [] \<and> (w_status w = W_COMPLETED \<longleftrightarrow> all_completed rows)
      \<and> (w_status w = W_FAILED \<longrightarrow> (\<exists>n \<in> set rows. n_status n = N_FAILED))
      \<and> has_order ns (w_workflow_id w))"

definition worker_ids :: "fleet \<Rightarrow> string set" where
  "worker_ids s = wk_worker_id ` set (f_workers s)"

definition lessees :: "node list \<Rightarrow> string set" where
  "lessees ns = {w. \<exists>n \<in> set ns. n_leased_by n = Some w}"

definition fleet_inv :: "fleet \<Rightarrow> bool" where
  "fleet_inv s \<longleftrightarrow> nodes_inv (f_nodes s) \<and> blocked_waits (f_nodes s)
     \<and> distinct (map w_workflow_id (f_workflows s))
     \<and> n_workflow_id ` set (f_nodes s) \<subseteq> w_workflow_id ` set (f_workflows s)
     \<and> list_all (workflow_ok (f_nodes s)) (f_workflows s)
     \<and> lessees (f_nodes s) \<subseteq> worker_ids s"

lemma nodes_inv_distinct: "nodes_inv ns \<Longrightarrow> distinct (map node_key ns)"
  by (simp add: nodes_inv_def)

lemma fleet_inv_nodes:
  "fleet_inv s \<Longrightarrow> distinct (map node_key (f_nodes s))"
  "fleet_inv s \<Longrightarrow> \<forall>n \<in> set (f_nodes s). deps_known (f_nodes s) n"
  "fleet_inv s \<Longrightarrow> n \<in> set (f_nodes s) \<Longrightarrow> row_ok n"
  "fleet_inv s \<Longrightarrow> n \<in> set (f_nodes s) \<Longrightarrow> deps_ok (f_nodes s) n"
  by (simp_all add: fleet_inv_def nodes_inv_def)

section \<open>Operations that complete no node\<close>

lemma workflow_nodes_move:
  assumes "nodes_move ns ns'"
  shows "nodes_move ns ns' \<and> list_all2 (node_move ns) (workflow_nodes wid ns) (workflow_nodes wid ns')"
proof -
  have "list_all2 (node_move ns) xs ys \<Longrightarrow>
      list_all2 (node_move ns) (workflow_nodes wid xs) (workflow_nodes wid ys)" for xs ys
    by (induction rule: list_all2_induct)
      (auto simp: workflow_nodes_def dest: node_move_fixed(1))
  with assms show ?thesis by (simp add: nodes_move_def)
qed

lemma node_edges_move:
  assumes "nodes_move ns ns'"
  shows "node_edges (workflow_nodes wid ns') = node_edges (workflow_nodes wid ns)"
proof -
  have "list_all2 (node_move ns) xs ys \<Longrightarrow> node_edges ys = node_edges xs" for xs ys
    by (induction rule: list_all2_induct) (auto simp: node_edges_def dest: node_move_fixed(1,2))
  then show ?thesis using workflow_nodes_move [OF assms] by blast
qed

lemma has_order_move:
  assumes "nodes_move ns ns'" "has_order ns wid"
  shows "has_order ns' wid"
proof -
  have ids: "n_node_id ` set xs = fst ` set (node_edges xs)" for xs
    by (simp add: node_edges_def image_image)
  show ?thesis
    using assms(2) unfolding has_order_def ids node_edges_move [OF assms(1)] .
qed

lemma all_completed_move:
  assumes "nodes_move ns ns'" "all_completed (workflow_nodes wid ns)"
  shows "all_completed (workflow_nodes wid ns')"
proof -
  have "list_all2 (node_move ns) xs ys \<Longrightarrow> all_completed xs \<Longrightarrow> all_completed ys" for xs ys
    by (induction rule: list_all2_induct) (auto simp: all_completed_def dest: node_move_final)
  with workflow_nodes_move [OF assms(1)] assms(2) show ?thesis by blast
qed

lemma all_completed_back:
  assumes "nodes_move ns ns'" "no_new_completion ns ns'" "all_completed (workflow_nodes wid ns')"
  shows "all_completed (workflow_nodes wid ns)"
proof -
  let ?R = "\<lambda>n n'. node_move ns n n' \<and> (n_status n' = N_COMPLETED \<longrightarrow> n_status n = N_COMPLETED)"
  have "list_all2 ?R xs ys \<Longrightarrow> all_completed (workflow_nodes wid ys)
      \<Longrightarrow> all_completed (workflow_nodes wid xs)" for xs ys
    by (induction rule: list_all2_induct)
      (auto simp: workflow_nodes_def all_completed_def dest: node_move_fixed(1))
  moreover have "list_all2 ?R ns ns'"
    using assms(1,2) by (simp add: nodes_move_def no_new_completion_def list_all2_conv_all_nth)
  ultimately show ?thesis using assms(3) by blast
qed

lemma failed_move:
  assumes "nodes_move ns ns'" "n \<in> set (workflow_nodes wid ns)" "n_status n = N_FAILED"
  shows "\<exists>n' \<in> set (workflow_nodes wid ns'). n_status n' = N_FAILED"
  using list_all2_fwd [OF conjunct2 [OF workflow_nodes_move [OF assms(1)]] assms(2)]
    node_move_final assms(3) by metis

lemma workflow_ok_move:
  assumes "nodes_move ns ns'" "no_new_completion ns ns'" "workflow_ok ns w"
  shows "workflow_ok ns' w"
proof -
  have len: "length (workflow_nodes (w_workflow_id w) ns') = length (workflow_nodes (w_workflow_id w) ns)"
    using workflow_nodes_move [OF assms(1)] by (metis list_all2_lengthD)
  with assms(3) show ?thesis
    unfolding workflow_ok_def Let_def
    using all_completed_move [OF assms(1)] all_completed_back [OF assms(1,2)]
      failed_move [OF assms(1)] has_order_move [OF assms(1)]
    by (metis length_0_conv)
qed

text \<open>
  A quiet operation moves the nodes without completing one; a workflow it marks as failed has a
  failed node.
\<close>

definition settled :: "node list \<Rightarrow> workflow \<Rightarrow> workflow \<Rightarrow> bool" where
  "settled ns w w' \<longleftrightarrow> w_workflow_id w' = w_workflow_id w
     \<and> (w_status w' = w_status w \<or> w_status w' = W_FAILED
          \<and> (\<exists>n \<in> set (workflow_nodes (w_workflow_id w) ns). n_status n = N_FAILED))"

definition quiet :: "fleet \<Rightarrow> fleet \<Rightarrow> bool" where
  "quiet s s' \<longleftrightarrow> nodes_move (f_nodes s) (f_nodes s')
     \<and> no_new_completion (f_nodes s) (f_nodes s')
     \<and> list_all2 (settled (f_nodes s')) (f_workflows s) (f_workflows s')
     \<and> worker_ids s \<subseteq> worker_ids s'
     \<and> lessees (f_nodes s') \<subseteq> lessees (f_nodes s) \<union> worker_ids s'"

lemma settled_refl [simp]: "settled ns w w"
  by (simp add: settled_def)

lemma settled_ok: "workflow_ok ns w \<Longrightarrow> settled ns w w' \<Longrightarrow> workflow_ok ns w'"
  by (auto simp: workflow_ok_def settled_def Let_def all_completed_def list_all_iff)

lemma settled_ids: "list_all2 (settled ns) ws ws' \<Longrightarrow> map w_workflow_id ws' = map w_workflow_id ws"
  by (induction rule: list_all2_induct) (simp_all add: settled_def)

lemma settled_all:
  "list_all2 (settled ns) ws ws' \<Longrightarrow> list_all (workflow_ok ns) ws \<Longrightarrow> list_all (workflow_ok ns) ws'"
  by (induction rule: list_all2_induct) (auto intro: settled_ok)

lemma quiet_inv:
  assumes "quiet s s'" "fleet_inv s"
  shows "fleet_inv s'"
proof -
  have mv: "nodes_move (f_nodes s) (f_nodes s')" and nn: "no_new_completion (f_nodes s) (f_nodes s')"
    and st: "list_all2 (settled (f_nodes s')) (f_workflows s) (f_workflows s')"
    using assms(1) by (simp_all add: quiet_def)
  have ids: "n_workflow_id ` set (f_nodes s') = n_workflow_id ` set (f_nodes s)"
    using arg_cong [OF nodes_move_keys [OF mv], of "\<lambda>l. fst ` set l"] by (simp add: image_image)
  have wids: "w_workflow_id ` set (f_workflows s') = w_workflow_id ` set (f_workflows s)"
    using settled_ids [OF st] by (metis list.set_map)
  have "list_all (workflow_ok (f_nodes s')) (f_workflows s)"
    using assms(2) workflow_ok_move [OF mv nn] by (auto simp: fleet_inv_def list_all_iff)
  from settled_all [OF st this] assms mv nn ids wids settled_ids [OF st] show ?thesis
    using nodes_inv_move [OF mv] blocked_waits_move [OF mv nn]
    by (auto simp: fleet_inv_def quiet_def)
qed

lemma quiet_refl [simp]: "quiet s s"
  by (simp add: quiet_def no_new_completion_def list_all2_same)

text \<open>An update of every row by one function, given what the function does to each row.\<close>

lemma quiet_map:
  assumes "f_nodes s' = map F (f_nodes s)"
    and "list_all2 (settled (f_nodes s')) (f_workflows s) (f_workflows s')"
    and "worker_ids s \<subseteq> worker_ids s'"
    and "\<And>n. n \<in> set (f_nodes s) \<Longrightarrow> node_move (f_nodes s) n (F n)"
    and "\<And>n. n \<in> set (f_nodes s) \<Longrightarrow> n_status (F n) = N_COMPLETED \<Longrightarrow> n_status n = N_COMPLETED"
    and "\<And>n. n \<in> set (f_nodes s) \<Longrightarrow> n_leased_by (F n) \<in> {n_leased_by n, None} \<union> Some ` worker_ids s'"
  shows "quiet s s'"
proof -
  have "nodes_move (f_nodes s) (f_nodes s')"
    unfolding assms(1) by (rule nodes_move_map) (fact assms(4))
  moreover have "no_new_completion (f_nodes s) (f_nodes s')"
    unfolding assms(1) no_new_completion_def using assms(5) by (simp add: list.rel_map list_all2_same)
  moreover have "lessees (f_nodes s') \<subseteq> lessees (f_nodes s) \<union> worker_ids s'"
    unfolding assms(1) lessees_def using assms(6) by fastforce
  ultimately show ?thesis
    using assms(2,3) by (simp add: quiet_def)
qed

section \<open>The effect of each operation\<close>

lemma find_worker: "find (\<lambda>w. wk_worker_id w = wid) (f_workers s) = Some w \<Longrightarrow> wid \<in> worker_ids s"
  by (auto simp: worker_ids_def dest!: find_SomeD)

lemma touch_worker_ids [simp]: "worker_ids (touch_worker w c x) = worker_ids x"
  using touch_worker_frame(4) [of w c x] by (metis worker_ids_def list.set_map)

lemma fleet_event_ids [simp]: "worker_ids (fleet_event k p w n c s) = worker_ids s"
  by (simp add: worker_ids_def)

lemma nodes_upd_ids [simp]: "worker_ids (s\<lparr>f_nodes := ns\<rparr>) = worker_ids s"
  by (simp add: worker_ids_def)

lemma sweep_ids [simp]: "worker_ids (snd (sweep_expired clk s)) = worker_ids s"
  by (simp add: worker_ids_def)

lemma expire_node_simps [simp]:
  "n_status (expire_node clk n n) = (if retry_allowed n then N_QUEUED else N_FAILED)"
  "n_leased_by (expire_node clk n n) = None"
  by (simp_all add: expire_node_def)

lemma lease_node_simps [simp]:
  "n_status (lease_node w t e c n) = N_LEASED"
  "n_leased_by (lease_node w t e c n) = Some w"
  by (simp_all add: lease_node_def)

lemma sweep_quiet:
  assumes "fleet_inv s"
  shows "quiet s (snd (sweep_expired clk s))"
proof (rule quiet_map [OF sweep_nodes])
  show "distinct (map node_key (f_nodes s))" using assms by (rule fleet_inv_nodes)
next
  fix n
  show "node_move (f_nodes s) n (if is_expired clk n then expire_node clk n n else n)"
    by (auto simp: is_expired_def intro: node_move.keep node_move.expire)
  show "n_leased_by (if is_expired clk n then expire_node clk n n else n)
      \<in> {n_leased_by n, None} \<union> Some ` worker_ids (snd (sweep_expired clk s))"
    by simp
qed (simp_all add: list_all2_same split: if_splits)

lemma image_upd_where: "(\<And>r. P r \<Longrightarrow> g (f r) = g r) \<Longrightarrow> g ` set (upd_where P f rows) = g ` set rows"
  by (metis list.set_map upd_where_map)

lemma register_quiet: "quiet s (fleet_register clk w s)"
  by (rule quiet_map [where F = "\<lambda>n. n"])
    (auto simp: fleet_register_def Let_def worker_ids_def image_upd_where list_all2_same
      intro: node_move.keep)

lemma heartbeat_quiet: "quiet s (snd (heartbeat clk worker_id token s))"
proof (rule quiet_map [where F = "\<lambda>n. if holds_lease worker_id token n
        then n\<lparr>n_lease_expires := Some (clk + of_int (f_lease_seconds s)), n_updated_at := iso clk\<rparr>
        else n"])
  fix n
  show "node_move (f_nodes s) n (if holds_lease worker_id token n
        then n\<lparr>n_lease_expires := Some (clk + of_int (f_lease_seconds s)), n_updated_at := iso clk\<rparr>
        else n)"
    by (auto simp: holds_lease_def intro: node_move.keep node_move.beat)
qed (auto simp: heartbeat_def Let_def upd_where_def list_all2_same split: if_splits)

lemma claim_cases:
  assumes "fleet_claim hex clk worker_id scope s0 = (r, s')"
  obtains "s' = snd (sweep_expired clk s0)" "\<And>l. r \<noteq> Inr (Some l)"
  | row l where "r = Inr (Some l)" "worker_id \<in> worker_ids (snd (sweep_expired clk s0))"
      "row \<in> set (f_nodes (snd (sweep_expired clk s0)))" "n_status row = N_QUEUED"
      "in_scope scope row"
      "l_workflow_id l = n_workflow_id row" "l_node_id l = n_node_id row"
      "l_lease_token l = identifier_of ''lease'' hex"
      "f_nodes s' = upd_where (\<lambda>n. is_node (n_workflow_id row) (n_node_id row) n \<and> n_status n = N_QUEUED)
         (lease_node worker_id (l_lease_token l) (l_lease_expires l) clk)
         (f_nodes (snd (sweep_expired clk s0)))"
      "f_workflows s' = f_workflows s0" "worker_ids s' = worker_ids s0"
      "\<exists>w \<in> set (f_workers s0). wk_worker_id w = worker_id
         \<and> active_leases worker_id (f_nodes (snd (sweep_expired clk s0))) < wk_max_concurrency w
         \<and> find (\<lambda>n. set (n_capabilities n) \<subseteq> set (wk_capabilities w))
              (candidates scope (f_nodes (snd (sweep_expired clk s0)))) = Some row"
proof -
  let ?s = "snd (sweep_expired clk s0)"
  show thesis
  proof (cases "find (\<lambda>w. wk_worker_id w = worker_id) (f_workers ?s)")
    case None
    with assms that(1) show thesis by (auto simp: fleet_claim_def Let_def)
  next
    case (Some w)
    let ?find = "find (\<lambda>n. set (n_capabilities n) \<subseteq> set (wk_capabilities w))
      (candidates scope (f_nodes ?s))"
    show thesis
    proof (cases "wk_max_concurrency w \<le> active_leases worker_id (f_nodes ?s) \<or> ?find = None")
      case True
      with Some assms that(1) show thesis
        by (auto simp: fleet_claim_def Let_def split: if_splits)
    next
      case False
      then obtain row where row: "?find = Some row" by blast
      then have in_row: "row \<in> set (f_nodes ?s)" "n_status row = N_QUEUED" "in_scope scope row"
        "set (n_capabilities row) \<subseteq> set (wk_capabilities w)"
        by (auto simp: candidates_def dest!: find_SomeD)
      have free: "\<not> wk_max_concurrency w \<le> active_leases worker_id (f_nodes ?s)"
        using False by simp
      have hit: "rowcount (\<lambda>n. is_node (n_workflow_id row) (n_node_id row) n \<and> n_status n = N_QUEUED)
          (f_nodes ?s) \<noteq> 0"
        using in_row by auto
      have w: "w \<in> set (f_workers s0)" "wk_worker_id w = worker_id"
        using find_SomeD [OF Some] by auto
      note eq = assms [unfolded fleet_claim_def Let_def Some option.case if_not_P [OF free] row
          if_not_P [OF hit]]
      show thesis
      proof (rule that(2) [of "\<lparr>l_workflow_id = n_workflow_id row, l_node_id = n_node_id row,
            l_objective = n_objective row, l_input = n_input row, l_budget = n_budget row,
            l_lease_token = identifier_of ''lease'' hex,
            l_lease_expires = clk + of_int (f_lease_seconds ?s)\<rparr>" row])
        show "worker_id \<in> worker_ids ?s" using Some by (rule find_worker)
        show "worker_ids s' = worker_ids s0"
          using eq by auto
      qed (use eq in_row w free row in \<open>auto simp del: rowcount_0_iff\<close>)
    qed
  qed
qed

lemma claim_quiet:
  assumes "fleet_inv s"
  shows "\<exists>s1. quiet s s1 \<and> quiet s1 (snd (fleet_claim hex clk worker_id scope s))"
proof -
  let ?s1 = "snd (sweep_expired clk s)"
  obtain r s' where eq: "fleet_claim hex clk worker_id scope s = (r, s')" by fastforce
  have sw: "quiet s ?s1" using assms by (rule sweep_quiet)
  from eq have "quiet ?s1 s'"
  proof (cases rule: claim_cases)
    case 1
    then show ?thesis by simp
  next
    case (2 row l)
    show ?thesis
    proof (rule quiet_map [OF 2(9) [unfolded upd_where_def]])
      fix n
      show "node_move (f_nodes ?s1) n
          (if is_node (n_workflow_id row) (n_node_id row) n \<and> n_status n = N_QUEUED
           then lease_node worker_id (l_lease_token l) (l_lease_expires l) clk n else n)"
        by (auto intro: node_move.keep node_move.lease)
    qed (use 2 in \<open>auto simp: list_all2_same split: if_splits\<close>)
  qed
  with sw eq show ?thesis by auto
qed

lemma settled_failed:
  assumes "n \<in> set ns" "n_workflow_id n = wid" "n_status n = N_FAILED"
  shows "list_all2 (settled ns) ws (upd_where (\<lambda>w. w_workflow_id w = wid)
     (\<lambda>w. w\<lparr>w_status := W_FAILED, w_updated_at := t\<rparr>) ws)"
  using assms
  by (auto simp: upd_where_def list.rel_map list_all2_same settled_def workflow_nodes_def)

text \<open>Approval and failure.\<close>

lemma approve_quiet: "quiet s (snd (fleet_approve clk wid nid approved actor s))"
proof -
  let ?hit = "\<lambda>n. is_node wid nid n \<and> n_status n = N_AWAITING_APPROVAL"
  let ?F = "\<lambda>n. if ?hit n then decide_node approved actor clk n else n"
  let ?s' = "snd (fleet_approve clk wid nid approved actor s)"
  have nodes: "f_nodes ?s' = map ?F (f_nodes s)"
    by (simp add: fleet_approve_def Let_def upd_where_def)
  show ?thesis
  proof (rule quiet_map [OF nodes])
    show "list_all2 (settled (f_nodes ?s')) (f_workflows s) (f_workflows ?s')"
    proof (cases "(\<forall>n \<in> set (f_nodes s). \<not> ?hit n) \<or> approved")
      case True
      then have "f_workflows ?s' = f_workflows s"
        by (auto simp: fleet_approve_def Let_def)
      then show ?thesis by (simp add: list_all2_same)
    next
      case False
      then obtain n where n: "n \<in> set (f_nodes s)" "?hit n" by blast
      then have in_s': "?F n \<in> set (f_nodes ?s')" unfolding nodes by force
      have ws: "f_workflows ?s' = upd_where (\<lambda>w. w_workflow_id w = wid)
          (\<lambda>w. w\<lparr>w_status := W_FAILED, w_updated_at := iso clk\<rparr>) (f_workflows s)"
        using False by (auto simp: fleet_approve_def Let_def set_workflow_status_def)
      have "n_workflow_id (?F n) = wid" "n_status (?F n) = N_FAILED"
        using n False by (simp_all add: decide_node_def)
      then show ?thesis unfolding ws by (rule settled_failed [OF in_s'])
    qed
    fix n
    show "node_move (f_nodes s) n (?F n)"
      by (auto intro: node_move.keep node_move.decide)
  qed (auto simp: fleet_approve_def Let_def decide_node_def worker_ids_def split: if_splits)
qed

lemma lease_ofD:
  assumes "lease_of clk worker_id token s = Inr row"
  shows "row \<in> set (f_nodes s)" "holds_lease worker_id token row"
    "\<exists>x. n_lease_expires row = Some x \<and> clk \<le> x"
  using assms unfolding lease_of_def
  by (auto split: list.splits option.splits if_splits dest!: filter_ConsD)

lemma key_unique:
  "fleet_inv s \<Longrightarrow> row \<in> set (f_nodes s) \<Longrightarrow> n \<in> set (f_nodes s) \<Longrightarrow> node_key n = node_key row \<Longrightarrow> n = row"
  by (rule distinct_map_eqD [OF fleet_inv_nodes(1)])

lemma lessee_registered:
  assumes "fleet_inv s" "row \<in> set (f_nodes s)" "holds_lease worker_id token row"
  obtains w where "find (\<lambda>w. wk_worker_id w = worker_id) (f_workers s) = Some w"
proof -
  have "worker_id \<in> worker_ids s"
    using assms by (auto simp: fleet_inv_def lessees_def holds_lease_def)
  then have "find (\<lambda>w. wk_worker_id w = worker_id) (f_workers s) \<noteq> None"
    by (auto simp: worker_ids_def find_None_iff')
  with that show thesis by blast
qed

lemma fail_effect:
  assumes "fleet_inv s" "lease_of clk worker_id token s = Inr row"
    and retry: "retry = (retryable \<and> retry_allowed row)"
  shows "fst (fleet_fail clk worker_id token err retryable s) = Inr ()"
    and "f_nodes (snd (fleet_fail clk worker_id token err retryable s)) =
      map (\<lambda>n. if node_key n = node_key row then fail_node retry err clk n else n) (f_nodes s)"
    and "f_workers (snd (fleet_fail clk worker_id token err retryable s)) = f_workers s"
    and "f_workflows (snd (fleet_fail clk worker_id token err retryable s)) =
      (if retry then f_workflows s
       else upd_where (\<lambda>w. w_workflow_id w = n_workflow_id row)
              (\<lambda>w. w\<lparr>w_status := W_FAILED, w_updated_at := iso clk\<rparr>) (f_workflows s))"
proof -
  obtain w where "find (\<lambda>w. wk_worker_id w = worker_id) (f_workers s) = Some w"
    using lessee_registered [OF assms(1) lease_ofD(1,2) [OF assms(2)]] by blast
  then show "fst (fleet_fail clk worker_id token err retryable s) = Inr ()"
    "f_nodes (snd (fleet_fail clk worker_id token err retryable s)) =
      map (\<lambda>n. if node_key n = node_key row then fail_node retry err clk n else n) (f_nodes s)"
    "f_workers (snd (fleet_fail clk worker_id token err retryable s)) = f_workers s"
    "f_workflows (snd (fleet_fail clk worker_id token err retryable s)) =
      (if retry then f_workflows s
       else upd_where (\<lambda>w. w_workflow_id w = n_workflow_id row)
              (\<lambda>w. w\<lparr>w_status := W_FAILED, w_updated_at := iso clk\<rparr>) (f_workflows s))"
    using assms(2) by (simp_all add: fleet_fail_def Let_def upd_where_def retry
        set_workflow_status_def)
qed

lemma fail_quiet:
  assumes "fleet_inv s"
  shows "quiet s (snd (fleet_fail clk worker_id token err retryable s))"
proof (cases "lease_of clk worker_id token s")
  case (Inl e)
  then show ?thesis by (simp add: fleet_fail_def)
next
  case (Inr row)
  let ?s' = "snd (fleet_fail clk worker_id token err retryable s)"
  let ?r = "retryable \<and> retry_allowed row"
  note eff = fail_effect [OF assms Inr refl, of err retryable]
  note row = lease_ofD(1,2) [OF Inr]
  have row': "fail_node ?r err clk row \<in> set (f_nodes ?s')"
    unfolding eff(2) using row(1) by force
  show ?thesis
  proof (rule quiet_map [OF eff(2)])
    show "list_all2 (settled (f_nodes ?s')) (f_workflows s) (f_workflows ?s')"
      unfolding eff(4) using settled_failed [OF row'] by (auto simp: list_all2_same fail_node_def)
    fix n assume n: "n \<in> set (f_nodes s)"
    show "node_move (f_nodes s) n (if node_key n = node_key row then fail_node ?r err clk n else n)"
      using key_unique [OF assms row(1) n] row(2)
      by (auto simp: holds_lease_def intro: node_move.keep node_move.fail)
  qed (use eff(3) in \<open>auto simp: worker_ids_def fail_node_def split: if_splits\<close>)
qed

end
