(* ===== verification/FleetReach.thy ===== *)
theory FleetReach
  imports FleetSystem
begin

text \<open>
  Submission and completion, the two operations that add rows or complete a node; the
  orchestrator as a transition system with one step per call, and its reachable states.
\<close>

section \<open>Submission\<close>

lemma insert_nodes_eq:
  assumes "distinct (map ns_id nodes)"
    and "\<forall>n \<in> set (f_nodes s). n_workflow_id n = wid \<longrightarrow> n_node_id n \<notin> ns_id ` set nodes"
  shows "insert_nodes wid clk nodes s =
    (Inr (), s\<lparr>f_nodes := f_nodes s @ map (new_node wid clk) nodes\<rparr>)"
  using assms
proof (induction nodes arbitrary: s)
  case (Cons node nodes)
  then have "\<forall>n \<in> set (f_nodes (s\<lparr>f_nodes := f_nodes s @ [new_node wid clk node]\<rparr>)).
      n_workflow_id n = wid \<longrightarrow> n_node_id n \<notin> ns_id ` set nodes"
    by (auto simp: new_node_def)
  from Cons.IH [OF _ this] Cons.prems show ?case by auto
qed simp

definition fresh_workflow :: "string \<Rightarrow> fleet \<Rightarrow> bool" where
  "fresh_workflow wid s \<longleftrightarrow> wid \<notin> w_workflow_id ` set (f_workflows s)"

lemma fresh_old:
  assumes "fleet_inv s" "fresh_workflow wid s"
  shows "\<forall>n \<in> set (f_nodes s). n_workflow_id n \<noteq> wid"
    and "\<forall>w \<in> set (f_workflows s). w_workflow_id w \<noteq> wid"
proof -
  have sub: "n_workflow_id ` set (f_nodes s) \<subseteq> w_workflow_id ` set (f_workflows s)"
    using assms(1) by (simp add: fleet_inv_def)
  show ws: "\<forall>w \<in> set (f_workflows s). w_workflow_id w \<noteq> wid"
    using assms(2) by (auto simp: fresh_workflow_def)
  show "\<forall>n \<in> set (f_nodes s). n_workflow_id n \<noteq> wid"
    using sub assms(2) unfolding fresh_workflow_def by blast
qed

lemma submit_effect:
  assumes "fleet_inv s" "validate_workflow_spec spec = Inr ()"
    and wid: "wid = identifier_of ''wf'' hex" and "fresh_workflow wid s"
  shows "fst (fleet_submit hex clk spec s) = Inr wid"
    and "f_nodes (snd (fleet_submit hex clk spec s)) = f_nodes s @ map (new_node wid clk) (ws_nodes spec)"
    and "f_workers (snd (fleet_submit hex clk spec s)) = f_workers s"
    and "f_workflows (snd (fleet_submit hex clk spec s)) = f_workflows s @
      [\<lparr>w_workflow_id = wid, w_name = ws_name spec, w_status = W_RUNNING,
        w_metadata = ws_metadata spec, w_created_at = iso clk, w_updated_at = iso clk\<rparr>]"
proof -
  have d: "distinct (map ns_id (ws_nodes spec))"
    using assms(2) validate_dag_OK(1) [of spec "()"]
    by (auto simp: validate_workflow_spec_def spec_ids_def split: if_splits)
  note no_rows = fresh_old(1) [OF assms(1,4)]
  have ins: "insert_nodes wid clk (ws_nodes spec) (s\<lparr>f_workflows := W\<rparr>) = (Inr (),
      s\<lparr>f_workflows := W, f_nodes := f_nodes s @ map (new_node wid clk) (ws_nodes spec)\<rparr>)" for W
    using insert_nodes_eq [OF d, of "s\<lparr>f_workflows := W\<rparr>" wid clk] no_rows by simp
  show "fst (fleet_submit hex clk spec s) = Inr wid"
    "f_nodes (snd (fleet_submit hex clk spec s)) = f_nodes s @ map (new_node wid clk) (ws_nodes spec)"
    "f_workers (snd (fleet_submit hex clk spec s)) = f_workers s"
    "f_workflows (snd (fleet_submit hex clk spec s)) = f_workflows s @
      [\<lparr>w_workflow_id = wid, w_name = ws_name spec, w_status = W_RUNNING,
        w_metadata = ws_metadata spec, w_created_at = iso clk, w_updated_at = iso clk\<rparr>]"
    using assms(4) ins
    by (auto simp: fleet_submit_def Let_def wid [symmetric] fresh_workflow_def)
qed

lemma new_node_simps [simp]:
  "n_workflow_id (new_node wid clk n) = wid" "n_node_id (new_node wid clk n) = ns_id n"
  "n_status (new_node wid clk n) = initial_status n" "n_deps (new_node wid clk n) = ns_depends_on n"
  "n_leased_by (new_node wid clk n) = None"
  by (simp_all add: new_node_def)

lemma initial_status_cases: "initial_status n \<in> {N_BLOCKED, N_AWAITING_APPROVAL, N_QUEUED}"
  by (simp add: initial_status_def)

lemma initial_status_blocked: "initial_status n = N_BLOCKED \<longleftrightarrow> ns_depends_on n \<noteq> []"
  by (simp add: initial_status_def)

lemma new_node_row_ok: "1 \<le> ns_max_attempts n \<Longrightarrow> row_ok (new_node wid clk n)"
  by (auto simp: row_ok_defs new_node_def initial_status_def)

text \<open>Rows of other workflows do not see the rows added, and the rows added see only themselves.\<close>

lemma parents_completed_append:
  assumes "\<forall>m \<in> set new. n_workflow_id m \<noteq> n_workflow_id n"
  shows "parents_completed (ns @ new) n = parents_completed ns n"
  unfolding parents_completed_def
  by (rule ball_cong [OF refl]) (use assms in auto)

lemma deps_known_append: "deps_known ns n \<Longrightarrow> deps_known (ns @ new) n"
  by (auto simp: deps_known_def)

lemma workflow_nodes_append:
  "\<forall>m \<in> set new. n_workflow_id m \<noteq> wid \<Longrightarrow> workflow_nodes wid (ns @ new) = workflow_nodes wid ns"
  by (simp add: workflow_nodes_def filter_empty_conv)

lemma workflow_nodes_new:
  "\<forall>m \<in> set ns. n_workflow_id m \<noteq> wid \<Longrightarrow>
     workflow_nodes wid (ns @ map (new_node wid clk) specs) = map (new_node wid clk) specs"
  by (simp add: workflow_nodes_def filter_empty_conv filter_map comp_def)

lemma new_known:
  assumes "set (ns_depends_on n) \<subseteq> ns_id ` set specs"
  shows "deps_known (ns @ map (new_node wid clk) specs) (new_node wid clk n)"
  unfolding deps_known_def
proof
  fix p assume "p \<in> set (n_deps (new_node wid clk n))"
  then obtain m where "m \<in> set specs" "ns_id m = p"
    using assms by auto
  then show "\<exists>m \<in> set (ns @ map (new_node wid clk) specs). is_node (n_workflow_id (new_node wid clk n)) p m"
    by (intro bexI [of _ "new_node wid clk m"]) auto
qed

lemma new_waits:
  assumes "\<forall>m \<in> set ns. n_workflow_id m \<noteq> wid"
  shows "parents_completed (ns @ map (new_node wid clk) specs) (new_node wid clk n)
    \<longleftrightarrow> ns_depends_on n = []"
proof -
  have "n_status m \<noteq> N_COMPLETED"
    if m: "m \<in> set (ns @ map (new_node wid clk) specs)" "n_workflow_id m = wid" for m
  proof -
    obtain x where "m = new_node wid clk x"
      using m assms by auto
    then show ?thesis by (simp add: initial_status_def)
  qed
  then show ?thesis by (cases "ns_depends_on n") (auto simp: parents_completed_def)
qed

lemma submit_nodes_inv:
  assumes "nodes_inv ns" "\<forall>m \<in> set ns. n_workflow_id m \<noteq> wid"
    and "distinct (map ns_id specs)" "\<forall>n \<in> set specs. set (ns_depends_on n) \<subseteq> ns_id ` set specs"
    and "\<forall>n \<in> set specs. 1 \<le> ns_max_attempts n"
  shows "nodes_inv (ns @ map (new_node wid clk) specs)"
  unfolding nodes_inv_def
proof (intro conjI ballI)
  show "distinct (map node_key (ns @ map (new_node wid clk) specs))"
    using assms(1-3) by (auto simp: nodes_inv_def distinct_map inj_on_def)
  fix n assume "n \<in> set (ns @ map (new_node wid clk) specs)"
  then consider "n \<in> set ns" | m where "m \<in> set specs" "n = new_node wid clk m"
    by auto
  then have "row_ok n \<and> deps_known (ns @ map (new_node wid clk) specs) n
      \<and> deps_ok (ns @ map (new_node wid clk) specs) n"
  proof cases
    case 1
    then show ?thesis
      using assms(1,2) parents_completed_append [of "map (new_node wid clk) specs" n ns]
      by (auto simp: nodes_inv_def deps_ok_def deps_known_append)
  next
    case (2 m)
    then show ?thesis
      using assms(4,5) new_known [of m specs] new_waits [OF assms(2)]
      by (auto simp: deps_ok_def initial_status_blocked intro: new_node_row_ok)
  qed
  then show "row_ok n" "deps_known (ns @ map (new_node wid clk) specs) n"
    "deps_ok (ns @ map (new_node wid clk) specs) n" by simp_all
qed

lemma submit_blocked_waits:
  assumes "blocked_waits ns" "\<forall>m \<in> set ns. n_workflow_id m \<noteq> wid"
  shows "blocked_waits (ns @ map (new_node wid clk) specs)"
  unfolding blocked_waits_def
proof (intro ballI impI)
  fix n assume n: "n \<in> set (ns @ map (new_node wid clk) specs)" "n_status n = N_BLOCKED"
  then consider "n \<in> set ns" | m where "n = new_node wid clk m"
    by auto
  then show "\<not> parents_completed (ns @ map (new_node wid clk) specs) n"
  proof cases
    case 1
    then show ?thesis
      using assms n(2) parents_completed_append [of "map (new_node wid clk) specs" n ns]
      by (auto simp: blocked_waits_def)
  next
    case 2
    then show ?thesis
      using new_waits [OF assms(2)] n(2) by (simp add: initial_status_blocked)
  qed
qed

lemma submit_workflow_old:
  assumes "workflow_ok ns w" "w_workflow_id w \<noteq> wid"
  shows "workflow_ok (ns @ map (new_node wid clk) specs) w"
proof -
  have "workflow_nodes (w_workflow_id w) (ns @ map (new_node wid clk) specs)
      = workflow_nodes (w_workflow_id w) ns"
    by (rule workflow_nodes_append) (use assms(2) in auto)
  with assms(1) show ?thesis by (simp add: workflow_ok_def has_order_def)
qed

lemma submit_workflow_new:
  assumes "\<forall>m \<in> set ns. n_workflow_id m \<noteq> wid" "specs \<noteq> []"
    and "topo (edges_of specs) order" "ns_id ` set specs \<subseteq> set order"
    and "w_workflow_id w = wid" "w_status w = W_RUNNING"
  shows "workflow_ok (ns @ map (new_node wid clk) specs) w"
proof -
  have rows: "workflow_nodes wid (ns @ map (new_node wid clk) specs) = map (new_node wid clk) specs"
    by (rule workflow_nodes_new [OF assms(1)])
  have "node_edges (map (new_node wid clk) specs) = edges_of specs"
    by (simp add: node_edges_def edges_of_def comp_def)
  then have "has_order (ns @ map (new_node wid clk) specs) wid"
    using assms(3,4) unfolding has_order_def rows by (auto simp: image_image)
  moreover have "\<not> all_completed (map (new_node wid clk) specs)"
    using assms(2) by (cases specs) (simp_all add: all_completed_def initial_status_def)
  ultimately show ?thesis
    using assms(2,5,6) rows by (simp add: workflow_ok_def Let_def)
qed

lemma submit_inv:
  assumes inv: "fleet_inv s" and ok: "validate_workflow_spec spec = Inr ()"
  shows "fleet_inv (snd (fleet_submit hex clk spec s))"
proof (cases "fresh_workflow (identifier_of ''wf'' hex) s")
  case False
  then have "snd (fleet_submit hex clk spec s) = s"
    by (auto simp: fleet_submit_def Let_def fresh_workflow_def)
  with inv show ?thesis by simp
next
  case True
  let ?wid = "identifier_of ''wf'' hex" and ?s' = "snd (fleet_submit hex clk spec s)"
  note eff = submit_effect [OF inv ok refl True, of clk]
  have dag: "validate_dag spec = Inr ()" and ne: "ws_nodes spec \<noteq> []"
    and attempts: "\<forall>n \<in> set (ws_nodes spec). 1 \<le> ns_max_attempts n"
    using ok by (auto simp: validate_workflow_spec_def list_all_iff node_spec_valid_def split: if_splits)
  obtain order where order: "topo (edges_of (ws_nodes spec)) order"
    "ns_id ` set (ws_nodes spec) \<subseteq> set order"
    using validate_dag_OK(3) [OF dag] by (auto simp: spec_ids_def)
  have old: "\<forall>n \<in> set (f_nodes s). n_workflow_id n \<noteq> ?wid"
    and old_ws: "\<forall>w \<in> set (f_workflows s). w_workflow_id w \<noteq> ?wid"
    using fresh_old [OF inv True] by blast+
  have "nodes_inv (f_nodes ?s')"
    unfolding eff(2)
    by (rule submit_nodes_inv [OF _ old])
      (use inv validate_dag_OK [OF dag] attempts in \<open>auto simp: fleet_inv_def spec_ids_def\<close>)
  moreover have "blocked_waits (f_nodes ?s')"
    unfolding eff(2) by (rule submit_blocked_waits [OF _ old]) (use inv in \<open>simp add: fleet_inv_def\<close>)
  moreover have "list_all (workflow_ok (f_nodes ?s')) (f_workflows s)"
    unfolding list_all_iff eff(2)
  proof
    fix w assume "w \<in> set (f_workflows s)"
    with inv old_ws show "workflow_ok (f_nodes s @ map (new_node ?wid clk) (ws_nodes spec)) w"
      by (intro submit_workflow_old) (simp_all add: fleet_inv_def list_all_iff)
  qed
  then have "list_all (workflow_ok (f_nodes ?s')) (f_workflows ?s')"
    using submit_workflow_new [OF old ne order] by (simp add: eff(2,4))
  ultimately show ?thesis
    using inv old_ws by (auto simp: fleet_inv_def eff lessees_def worker_ids_def)
qed

section \<open>Completion\<close>

definition within_budget :: "completion \<Rightarrow> node \<Rightarrow> bool" where
  "within_budget result n \<longleftrightarrow> c_tokens_used result \<le> b_tokens (n_budget n)
     \<and> c_cost_usd result \<le> b_cost_usd (n_budget n)"

definition complete_map :: "node \<Rightarrow> completion \<Rightarrow> clock \<Rightarrow> node list \<Rightarrow> node list" where
  "complete_map row result clk ns =
     map (\<lambda>n. if node_key n = node_key row then complete_node result clk n else n) ns"

lemma same_fleet_quiet:
  "f_nodes s' = f_nodes s \<Longrightarrow> f_workflows s' = f_workflows s \<Longrightarrow> f_workers s' = f_workers s \<Longrightarrow> quiet s s'"
  by (simp add: quiet_def no_new_completion_def list_all2_same worker_ids_def)

lemma complete_refused:
  assumes "\<nexists>row as s1. lease_of clk worker_id token s = Inr row \<and> within_budget result row
     \<and> store_artifacts sha uuid clk (n_workflow_id row) (n_node_id row) (c_artifacts result) s = (Inr as, s1)"
  shows "quiet s (snd (fleet_complete sha uuid clk worker_id token result s))"
    and "\<exists>e. fst (fleet_complete sha uuid clk worker_id token result s) = Inl e"
proof -
  have "quiet s (snd (fleet_complete sha uuid clk worker_id token result s))
    \<and> (\<exists>e. fst (fleet_complete sha uuid clk worker_id token result s) = Inl e)"
  proof (cases "lease_of clk worker_id token s")
    case (Inr row)
    obtain r s1 where st: "store_artifacts sha uuid clk (n_workflow_id row) (n_node_id row)
        (c_artifacts result) s = (r, s1)" by fastforce
    have "quiet s s1"
      using store_artifacts_frame [OF st] by (intro same_fleet_quiet) auto
    with assms Inr st show ?thesis
      by (cases r) (auto simp: fleet_complete_def within_budget_def)
  qed (simp add: fleet_complete_def)
  then show "quiet s (snd (fleet_complete sha uuid clk worker_id token result s))"
    "\<exists>e. fst (fleet_complete sha uuid clk worker_id token result s) = Inl e" by simp_all
qed

lemma complete_map_move:
  assumes "fleet_inv s" "row \<in> set (f_nodes s)" "n_status row = N_LEASED" "within_budget result row"
  shows "nodes_move (f_nodes s) (complete_map row result clk (f_nodes s))"
  unfolding complete_map_def
proof (rule nodes_move_map)
  fix n assume n: "n \<in> set (f_nodes s)"
  show "node_move (f_nodes s) n
      (if node_key n = node_key row then complete_node result clk n else n)"
    using key_unique [OF assms(1,2) n] assms(3,4)
    by (auto simp: within_budget_def intro: node_move.keep node_move.complete)
qed

definition completed_workflows :: "clock \<Rightarrow> string \<Rightarrow> node list \<Rightarrow> workflow list \<Rightarrow> workflow list" where
  "completed_workflows clk wid ns ws =
     (if workflow_nodes wid ns \<noteq> [] \<and> all_completed (workflow_nodes wid ns)
      then upd_where (\<lambda>w. w_workflow_id w = wid)
             (\<lambda>w. w\<lparr>w_status := W_COMPLETED, w_updated_at := iso clk\<rparr>) ws
      else ws)"

lemma complete_effect:
  assumes inv: "fleet_inv s" and lease: "lease_of clk worker_id token s = Inr row"
    and bud: "within_budget result row"
    and st: "store_artifacts sha uuid clk (n_workflow_id row) (n_node_id row) (c_artifacts result) s
      = (Inr as, s1)"
  defines "s' \<equiv> snd (fleet_complete sha uuid clk worker_id token result s)"
  shows "fst (fleet_complete sha uuid clk worker_id token result s)
      = Inr (n_workflow_id row, n_node_id row, as)"
    and "f_nodes s' = advance_map clk (n_workflow_id row) (complete_map row result clk (f_nodes s))"
    and "f_workers s' = f_workers s"
    and "f_workflows s' = completed_workflows clk (n_workflow_id row) (f_nodes s') (f_workflows s)"
proof -
  note row = lease_ofD(1,2) [OF lease]
  obtain w where w: "find (\<lambda>w. wk_worker_id w = worker_id) (f_workers s) = Some w"
    using lessee_registered [OF inv row] by blast
  note frame = store_artifacts_frame [OF st]
  define s4 where "s4 = fleet_event ''node.completed''
    (JObj [(''worker_id'', JStr worker_id), (''artifacts'', JArr (map artifact_json as))])
    (Some (n_workflow_id row)) (Some (n_node_id row)) clk
    (record_route (wk_pool w) True (c_quality result) (c_cost_usd result) (c_duration_seconds result)
      clk (s1\<lparr>f_nodes := upd_where (is_node (n_workflow_id row) (n_node_id row))
             (complete_node result clk) (f_nodes s1)\<rparr>))"
  have s4: "f_nodes s4 = complete_map row result clk (f_nodes s)" "f_workers s4 = f_workers s"
    "f_workflows s4 = f_workflows s"
    using frame by (simp_all add: s4_def complete_map_def upd_where_def)
  have "nodes_inv (f_nodes s4)"
    unfolding s4
    by (rule nodes_inv_move [OF complete_map_move [OF inv row(1) _ bud]])
      (use row(2) inv in \<open>simp_all add: holds_lease_def fleet_inv_def\<close>)
  then have known: "distinct (map node_key (f_nodes s4))" "\<forall>n \<in> set (f_nodes s4). deps_known (f_nodes s4) n"
    by (simp_all add: nodes_inv_def)
  note adv = advance_effect [OF known, of clk "n_workflow_id row"]
  obtain u s5 where s5: "fleet_advance clk (n_workflow_id row) s4 = (u, s5)" by fastforce
  have u: "u = Inr ()" using adv(1) s5 by simp
  have eq: "fleet_complete sha uuid clk worker_id token result s
      = (Inr (n_workflow_id row, n_node_id row, as), s5)"
    using lease bud st w frame s5 [unfolded s4_def] u
    by (simp add: fleet_complete_def within_budget_def Let_def)
  then show "fst (fleet_complete sha uuid clk worker_id token result s)
      = Inr (n_workflow_id row, n_node_id row, as)" by simp
  show "f_nodes s' = advance_map clk (n_workflow_id row) (complete_map row result clk (f_nodes s))"
    "f_workers s' = f_workers s"
    "f_workflows s' = completed_workflows clk (n_workflow_id row) (f_nodes s') (f_workflows s)"
    using adv(2,3,5) s5 eq s4
    by (simp_all add: s'_def completed_workflows_def all_completed_def Let_def)
qed

lemma advance_map_move: "nodes_move ns (advance_map clk wid ns)"
  unfolding advance_map_def
  by (rule nodes_move_map) (auto simp: ready_now_def intro: node_move.keep node_move.ready)

lemma advance_map_no_new: "no_new_completion ns (advance_map clk wid ns)"
  by (auto simp: no_new_completion_def advance_map_def list.rel_map list_all2_same make_ready_def
      ready_status_def)

lemma workflow_nodes_map:
  assumes "\<And>n. n_workflow_id (F n) = n_workflow_id n" "\<And>n. n_workflow_id n = wid \<Longrightarrow> F n = n"
  shows "workflow_nodes wid (map F ns) = workflow_nodes wid ns"
  using assms by (induction ns) (auto simp: workflow_nodes_def)

lemma other_workflow_nodes:
  "wid \<noteq> wid' \<Longrightarrow> workflow_nodes wid' (advance_map clk wid ns) = workflow_nodes wid' ns"
  "n_workflow_id row \<noteq> wid' \<Longrightarrow> workflow_nodes wid' (complete_map row result clk ns) = workflow_nodes wid' ns"
  unfolding advance_map_def complete_map_def
  by (rule workflow_nodes_map; auto simp: ready_now_def make_ready_def complete_node_def)+

lemma parents_completed_local:
  assumes "workflow_nodes (n_workflow_id n) ns = workflow_nodes (n_workflow_id n) ns'"
  shows "parents_completed ns n = parents_completed ns' n"
proof -
  have "parents_completed ns n \<longleftrightarrow> (\<forall>p \<in> set (n_deps n).
      \<exists>m \<in> set (workflow_nodes (n_workflow_id n) ns). n_node_id m = p \<and> n_status m = N_COMPLETED)" for ns
    by (auto simp: parents_completed_def workflow_nodes_def)
  with assms show ?thesis by simp
qed

text \<open>After the advance no node of the workflow is left blocked with its parents completed.\<close>

lemma complete_blocked_waits:
  assumes "blocked_waits ns" "wid = n_workflow_id row"
  shows "blocked_waits (advance_map clk wid (complete_map row result clk ns))" (is "blocked_waits ?ns2")
  unfolding blocked_waits_def
proof (intro ballI impI)
  let ?ns1 = "complete_map row result clk ns"
  fix n assume n: "n \<in> set ?ns2" "n_status n = N_BLOCKED"
  then have n1: "n \<in> set ?ns1" "\<not> ready_now wid ?ns1 n"
    by (auto simp: advance_map_def make_ready_def ready_status_def split: if_splits)
  show "\<not> parents_completed ?ns2 n"
  proof (cases "n_workflow_id n = wid")
    case True
    then have "\<not> parents_completed ?ns1 n"
      using n1(2) n(2) by (simp add: ready_now_def)
    then show ?thesis
      using parents_completed_back [OF advance_map_move advance_map_no_new] by blast
  next
    case False
    have "n \<in> set ns"
      using n1(1) n(2) by (auto simp: complete_map_def complete_node_def split: if_splits)
    then have "\<not> parents_completed ns n"
      using assms(1) n(2) by (simp add: blocked_waits_def)
    then show ?thesis
      using False assms(2) parents_completed_local [of n ?ns2 ns] by (simp add: other_workflow_nodes)
  qed
qed

lemma complete_workflow_ok:
  assumes ok: "workflow_ok ns w" and mv: "nodes_move ns ns1" "nodes_move ns1 ns'"
    and row: "row \<in> set ns" "n_status row = N_LEASED"
    and other: "w_workflow_id w \<noteq> n_workflow_id row \<Longrightarrow>
      workflow_nodes (w_workflow_id w) ns' = workflow_nodes (w_workflow_id w) ns"
    and w': "w' = (if w_workflow_id w = n_workflow_id row
        \<and> all_completed (workflow_nodes (n_workflow_id row) ns')
      then w\<lparr>w_status := W_COMPLETED, w_updated_at := t\<rparr> else w)"
  shows "workflow_ok ns' w'"
proof (cases "w_workflow_id w = n_workflow_id row")
  case False
  with other w' ok show ?thesis by (simp add: workflow_ok_def has_order_def)
next
  case True
  let ?rows = "workflow_nodes (w_workflow_id w)"
  have len: "length (?rows ns') = length (?rows ns)"
    using workflow_nodes_move [OF mv(1)] workflow_nodes_move [OF mv(2)] by (metis list_all2_lengthD)
  have ne: "?rows ns' \<noteq> []"
    using ok len by (auto simp: workflow_ok_def Let_def)
  have "row \<in> set (?rows ns)"
    using row(1) True by (simp add: workflow_nodes_def)
  then have run: "w_status w \<noteq> W_COMPLETED"
    using ok row(2) by (auto simp: workflow_ok_def Let_def all_completed_def list_all_iff)
  have order: "has_order ns' (w_workflow_id w)"
    using ok has_order_move [OF mv(2) has_order_move [OF mv(1)]] by (simp add: workflow_ok_def Let_def)
  have failed: "\<exists>n \<in> set (?rows ns'). n_status n = N_FAILED" if "w_status w = W_FAILED"
    using ok that failed_move [OF mv(1)] failed_move [OF mv(2)]
    by (simp add: workflow_ok_def Let_def) blast
  show ?thesis
    using w' ne run order failed True by (auto simp: workflow_ok_def Let_def)
qed

lemma completed_workflows_ok:
  assumes inv: "fleet_inv s" and row: "row \<in> set (f_nodes s)" "n_status row = N_LEASED"
    and mv: "nodes_move (f_nodes s) ns1" "nodes_move ns1 ns'"
    and other: "\<And>wid. wid \<noteq> n_workflow_id row \<Longrightarrow> workflow_nodes wid ns' = workflow_nodes wid (f_nodes s)"
    and ws': "ws' = completed_workflows clk (n_workflow_id row) ns' (f_workflows s)"
  shows "list_all (workflow_ok ns') ws'"
  unfolding list_all_iff
proof
  fix w' assume w': "w' \<in> set ws'"
  let ?all = "all_completed (workflow_nodes (n_workflow_id row) ns')"
  let ?f = "\<lambda>w. if w_workflow_id w = n_workflow_id row \<and> ?all
      then w\<lparr>w_status := W_COMPLETED, w_updated_at := iso clk\<rparr> else w"
  have "row \<in> set (workflow_nodes (n_workflow_id row) (f_nodes s))"
    using row by (simp add: workflow_nodes_def)
  then have "workflow_nodes (n_workflow_id row) ns' \<noteq> []"
    using list_all2_fwd [OF conjunct2 [OF workflow_nodes_move [OF mv(1)]]]
      list_all2_fwd [OF conjunct2 [OF workflow_nodes_move [OF mv(2)]]] by (metis list.set_intros(1) length_pos_if_in_set list.size(3) less_irrefl)
  then have "ws' = map ?f (f_workflows s)"
    using ws' by (auto simp: completed_workflows_def upd_where_def)
  then obtain w where w: "w \<in> set (f_workflows s)" "w' = ?f w"
    using w' by auto
  have "workflow_ok (f_nodes s) w"
    using inv w(1) by (simp add: fleet_inv_def list_all_iff)
  from complete_workflow_ok [OF this mv row other w(2)] show "workflow_ok ns' w'" .
qed

lemma set_eq_same_ids: "map k xs = map k ys \<Longrightarrow> k ` set xs = k ` set ys"
  by (metis list.set_map)

lemma complete_inv:
  assumes inv: "fleet_inv s"
  shows "fleet_inv (snd (fleet_complete sha uuid clk worker_id token result s))"
proof (cases "\<exists>row as s1. lease_of clk worker_id token s = Inr row \<and> within_budget result row
     \<and> store_artifacts sha uuid clk (n_workflow_id row) (n_node_id row) (c_artifacts result) s = (Inr as, s1)")
  case False
  then show ?thesis using quiet_inv [OF complete_refused(1) inv] by blast
next
  case True
  then obtain row as s1 where lease: "lease_of clk worker_id token s = Inr row"
    and bud: "within_budget result row"
    and st: "store_artifacts sha uuid clk (n_workflow_id row) (n_node_id row) (c_artifacts result) s
      = (Inr as, s1)" by blast
  let ?s' = "snd (fleet_complete sha uuid clk worker_id token result s)"
  let ?ns1 = "complete_map row result clk (f_nodes s)"
  note eff = complete_effect [OF inv lease bud st]
  note row = lease_ofD(1,2) [OF lease]
  have leased: "n_status row = N_LEASED" using row(2) by (simp add: holds_lease_def)
  have mv1: "nodes_move (f_nodes s) ?ns1"
    by (rule complete_map_move [OF inv row(1) leased bud])
  have mv2: "nodes_move ?ns1 (f_nodes ?s')"
    unfolding eff(2) by (rule advance_map_move)
  have blocked: "blocked_waits (f_nodes ?s')"
    unfolding eff(2) using inv by (intro complete_blocked_waits) (simp_all add: fleet_inv_def)
  have keys: "map node_key (f_nodes ?s') = map node_key (f_nodes s)"
    using nodes_move_keys [OF mv1] nodes_move_keys [OF mv2] by simp
  have wids: "n_workflow_id ` set (f_nodes ?s') = n_workflow_id ` set (f_nodes s)"
    using arg_cong [OF keys, of "\<lambda>l. fst ` set l"] by (simp add: image_image)
  have ws: "map w_workflow_id (f_workflows ?s') = map w_workflow_id (f_workflows s)"
    by (simp add: eff(4) completed_workflows_def upd_where_map)
  have ok: "list_all (workflow_ok (f_nodes ?s')) (f_workflows ?s')"
    by (rule completed_workflows_ok [OF inv row(1) leased mv1 mv2 _ eff(4)])
      (simp add: eff(2) other_workflow_nodes)
  have "lessees (f_nodes ?s') \<subseteq> lessees (f_nodes s)"
    by (auto simp: eff(2) lessees_def advance_map_def complete_map_def make_ready_def
        complete_node_def split: if_splits)
  with inv blocked wids ws ok show ?thesis
    using nodes_inv_move [OF mv2 nodes_inv_move [OF mv1]]
    by (auto simp: fleet_inv_def worker_ids_def eff(3) set_eq_same_ids [OF ws])
qed

section \<open>The orchestrator as a transition system\<close>

text \<open>
  One step is one call of the orchestrator with any arguments the request models accept, at any
  clock reading and with any identifiers; the step is the effect of the call, whether it returns
  or raises.
\<close>

inductive fleet_step :: "(string \<Rightarrow> string) \<Rightarrow> fleet \<Rightarrow> fleet \<Rightarrow> bool" for sha where
  step_submit: "validate_workflow_spec spec = Inr () \<Longrightarrow> fleet_step sha s (snd (fleet_submit hex clk spec s))"
| step_register: "worker_registration_valid w \<Longrightarrow> fleet_step sha s (fleet_register clk w s)"
| step_claim: "fleet_step sha s (snd (fleet_claim hex clk worker_id scope s))"
| step_heartbeat: "fleet_step sha s (snd (heartbeat clk worker_id token s))"
| step_complete: "completion_valid result \<Longrightarrow>
    fleet_step sha s (snd (fleet_complete sha uuid clk worker_id token result s))"
| step_fail: "fleet_step sha s (snd (fleet_fail clk worker_id token err retryable s))"
| step_approve: "fleet_step sha s (snd (fleet_approve clk wid nid approved actor s))"
| step_sweep: "fleet_step sha s (snd (sweep_expired clk s))"

inductive_cases fleet_stepE: "fleet_step sha s t"

definition fleet_init :: "fleet \<Rightarrow> bool" where
  "fleet_init s \<longleftrightarrow> (\<exists>base lease. s = new_fleet base lease)"

lemma fleet_inv_init: "fleet_init s \<Longrightarrow> fleet_inv s"
  by (auto simp: fleet_init_def new_fleet_def fleet_inv_def nodes_inv_def blocked_waits_def lessees_def)

lemma fleet_inv_step: "fleet_inv s \<Longrightarrow> fleet_step sha s t \<Longrightarrow> fleet_inv t"
proof (erule fleet_stepE)
  fix hex clk worker_id scope
  assume "fleet_inv s" "t = snd (fleet_claim hex clk worker_id scope s)"
  then show "fleet_inv t" using claim_quiet quiet_inv by metis
qed (auto intro: submit_inv complete_inv quiet_inv [OF register_quiet] quiet_inv [OF heartbeat_quiet]
    quiet_inv [OF fail_quiet] quiet_inv [OF approve_quiet] quiet_inv [OF sweep_quiet])

interpretation fleet: invariant_system fleet_init "fleet_step sha" fleet_inv for sha
  by unfold_locales (auto intro: fleet_inv_init fleet_inv_step)

text \<open>The event table as an append-only ledger.\<close>

interpretation fleet_ledger: event_ledger f_events e_seq
    "\<lambda>(kind, payload, wid, nid, clk). fleet_event kind payload wid nid clk"
  by unfold_locales (auto simp: fleet_event_def)

text \<open>Every row of the table keeps its key, and once completed or failed it never changes.\<close>

definition rows_persist :: "node list \<Rightarrow> node list \<Rightarrow> bool" where
  "rows_persist ns ns' \<longleftrightarrow> (\<forall>n \<in> set ns. \<exists>n' \<in> set ns'. node_key n' = node_key n
     \<and> (n_status n \<in> {N_COMPLETED, N_FAILED} \<longrightarrow> n' = n))"

lemma rows_persist_move: "nodes_move ns ns' \<Longrightarrow> rows_persist ns ns'"
  unfolding rows_persist_def using nodes_move_fwd node_move_fixed(1) node_move_final by (metis insertE singletonD)

lemma rows_persist_trans: "rows_persist a b \<Longrightarrow> rows_persist b c \<Longrightarrow> rows_persist a c"
  unfolding rows_persist_def by metis

lemma rows_persist_refl [simp]: "rows_persist a a"
  by (auto simp: rows_persist_def)

lemma rows_persist_quiet: "quiet s s' \<Longrightarrow> rows_persist (f_nodes s) (f_nodes s')"
  by (simp add: quiet_def rows_persist_move)

lemma insert_nodes_persist: "rows_persist (f_nodes s) (f_nodes (snd (insert_nodes wid clk nodes s)))"
proof (induction nodes arbitrary: s)
  case (Cons node nodes)
  have "rows_persist (f_nodes s) (f_nodes s @ [new_node wid clk node])"
    by (auto simp: rows_persist_def)
  then show ?case
    using Cons [of "s\<lparr>f_nodes := f_nodes s @ [new_node wid clk node]\<rparr>"] rows_persist_trans by auto
qed simp

lemma submit_persist: "rows_persist (f_nodes s) (f_nodes (snd (fleet_submit hex clk spec s)))"
proof -
  let ?s1 = "s\<lparr>f_workflows := f_workflows s @
      [\<lparr>w_workflow_id = identifier_of ''wf'' hex, w_name = ws_name spec, w_status = W_RUNNING,
        w_metadata = ws_metadata spec, w_created_at = iso clk, w_updated_at = iso clk\<rparr>]\<rparr>"
  obtain r s2 where "insert_nodes (identifier_of ''wf'' hex) clk (ws_nodes spec) ?s1 = (r, s2)"
    by fastforce
  then show ?thesis
    using insert_nodes_persist [of ?s1 "identifier_of ''wf'' hex" clk "ws_nodes spec"]
    by (cases r) (auto simp: fleet_submit_def Let_def)
qed

lemma complete_persist:
  assumes inv: "fleet_inv s"
  shows "rows_persist (f_nodes s) (f_nodes (snd (fleet_complete sha uuid clk worker_id token result s)))"
proof (cases "\<exists>row as s1. lease_of clk worker_id token s = Inr row \<and> within_budget result row
     \<and> store_artifacts sha uuid clk (n_workflow_id row) (n_node_id row) (c_artifacts result) s = (Inr as, s1)")
  case False
  then show ?thesis using rows_persist_quiet [OF complete_refused(1)] by blast
next
  case True
  then obtain row as s1 where lease: "lease_of clk worker_id token s = Inr row"
    and bud: "within_budget result row"
    and st: "store_artifacts sha uuid clk (n_workflow_id row) (n_node_id row) (c_artifacts result) s
      = (Inr as, s1)" by blast
  have "nodes_move (f_nodes s) (complete_map row result clk (f_nodes s))"
    using lease_ofD [OF lease] by (intro complete_map_move [OF inv _ _ bud]) (simp_all add: holds_lease_def)
  then show ?thesis
    unfolding complete_effect(2) [OF inv lease bud st]
    using rows_persist_move advance_map_move rows_persist_trans by metis
qed

lemma step_persist: "fleet_inv s \<Longrightarrow> fleet_step sha s t \<Longrightarrow> rows_persist (f_nodes s) (f_nodes t)"
proof (erule fleet_stepE)
  fix hex clk worker_id scope
  assume "fleet_inv s" "t = snd (fleet_claim hex clk worker_id scope s)"
  then show "rows_persist (f_nodes s) (f_nodes t)"
    using claim_quiet rows_persist_quiet rows_persist_trans by metis
qed (auto intro: submit_persist complete_persist rows_persist_quiet [OF register_quiet]
    rows_persist_quiet [OF heartbeat_quiet] rows_persist_quiet [OF fail_quiet]
    rows_persist_quiet [OF approve_quiet] rows_persist_quiet [OF sweep_quiet])

lemma steps_persist:
  "(fleet_step sha)\<^sup>*\<^sup>* s t \<Longrightarrow> fleet_inv s \<Longrightarrow> rows_persist (f_nodes s) (f_nodes t)"
proof (induction rule: rtranclp_induct)
  case (step t u)
  then show ?case using step_persist fleet.inv_steps rows_persist_trans by metis
qed simp

end
