(* ===== verification/FleetTheorems.thy ===== *)
theory FleetTheorems
  imports FleetReach
begin

text \<open>
  The properties of the fleet orchestrator, over the states its calls can reach, and a small
  workflow of two nodes at which each is evaluated.
\<close>

section \<open>Route scores\<close>

definition route_ok :: "route_metric \<Rightarrow> bool" where
  "route_ok r \<longleftrightarrow> rm_successes r \<le> rm_runs r \<and> 0 \<le> rm_quality_sum r
     \<and> rm_quality_sum r \<le> of_nat (rm_runs r) \<and> 0 \<le> rm_score r \<and> rm_score r \<le> 1"

lemma mix_bounds:
  "0 \<le> a \<Longrightarrow> a \<le> 1 \<Longrightarrow> 0 \<le> b \<Longrightarrow> b \<le> (1::rat) \<Longrightarrow>
     0 \<le> a * (7 / 10) + b * (3 / 10) \<and> a * (7 / 10) + b * (3 / 10) \<le> 1"
  by linarith

lemma score_route_ok:
  assumes "route_ok r" "0 \<le> q" "q \<le> 1"
  shows "route_ok (score_route ok q co la clk r)"
proof -
  let ?n = "of_nat (rm_runs r) :: rat" and ?h = "if ok then 1 else 0 :: nat"
  let ?a = "(of_nat (rm_successes r) + of_nat ?h + 1) / (?n + 2) :: rat"
  let ?b = "(rm_quality_sum r + q) / (?n + 1)"
  have n: "0 \<le> ?n" by simp
  have s: "(of_nat (rm_successes r) :: rat) \<le> ?n"
    using assms(1) by (simp add: route_ok_def)
  have a: "0 \<le> ?a" "?a \<le> 1" using n s by (auto simp: divide_le_eq)
  have b: "0 \<le> ?b" "?b \<le> 1"
    using n assms by (auto simp: route_ok_def divide_le_eq)
  have "0 \<le> ?a * (7 / 10) + ?b * (3 / 10) \<and> ?a * (7 / 10) + ?b * (3 / 10) \<le> 1"
    by (rule mix_bounds [OF a b])
  then show ?thesis
    using assms by (auto simp: route_ok_def score_route_def Let_def)
qed

definition routes_ok :: "fleet \<Rightarrow> bool" where
  "routes_ok s \<longleftrightarrow> list_all route_ok (f_routes s)"

lemma record_route_ok:
  "0 \<le> q \<Longrightarrow> q \<le> 1 \<Longrightarrow> routes_ok s \<Longrightarrow> routes_ok (record_route p ok q co la clk s)"
  by (auto simp: routes_ok_def record_route_def list_all_iff set_upd_where intro: score_route_ok)

lemma routes_ok_cong: "f_routes s' = f_routes s \<Longrightarrow> routes_ok s' = routes_ok s"
  by (simp add: routes_ok_def)

lemma insert_nodes_routes: "insert_nodes wid clk nodes s = (r, s') \<Longrightarrow> f_routes s' = f_routes s"
  by (induction nodes arbitrary: s) (auto split: if_splits)

lemma advance_rows_routes: "advance_rows st clk rows s = (r, s') \<Longrightarrow> f_routes s' = f_routes s"
  by (induction rows arbitrary: s) (auto simp: ready_row_def split: if_splits sum.splits bool.splits)

lemma advance_routes: "fleet_advance clk wid s = (r, s') \<Longrightarrow> f_routes s' = f_routes s"
  by (auto simp: fleet_advance_def Let_def dest: advance_rows_routes split: prod.splits sum.splits if_splits)

lemma submit_routes: "f_routes (snd (fleet_submit hex clk spec s)) = f_routes s"
  by (auto simp: fleet_submit_def Let_def split: prod.splits sum.splits dest: insert_nodes_routes)

lemma claim_routes: "f_routes (snd (fleet_claim hex clk w scope s)) = f_routes s"
  by (simp add: fleet_claim_def Let_def split: option.splits)

lemma heartbeat_routes: "f_routes (snd (heartbeat clk w tok s)) = f_routes s"
  by (simp add: heartbeat_def Let_def)

lemma approve_routes: "f_routes (snd (fleet_approve clk wid nid ok actor s)) = f_routes s"
  by (simp add: fleet_approve_def Let_def)

lemma register_routes_ok: "routes_ok s \<Longrightarrow> routes_ok (fleet_register clk w s)"
  by (auto simp: routes_ok_def fleet_register_def Let_def route_ok_def)

lemma fail_routes_ok: "routes_ok s \<Longrightarrow> routes_ok (snd (fleet_fail clk w tok err retryable s))"
  by (auto simp: fleet_fail_def Let_def routes_ok_cong [of "fleet_event k p w n c x" x for k p w n c x]
      routes_ok_cong [of "set_workflow_status a b c x" x for a b c x] routes_ok_cong [of "x\<lparr>f_nodes := y\<rparr>" x for x y]
      record_route_ok split: sum.splits option.splits)

lemma complete_routes_ok:
  assumes "completion_valid result" "routes_ok s"
  shows "routes_ok (snd (fleet_complete sha uuid clk w tok result s))"
proof -
  have q: "0 \<le> c_quality result" "c_quality result \<le> 1"
    using assms(1) by (simp_all add: completion_valid_def)
  have art: "routes_ok s1" if "store_artifacts sha uuid clk wid nid items s = (r, s1)" for wid nid items r s1
    using store_artifacts_frame [OF that] assms(2) routes_ok_cong by blast
  have adv: "routes_ok s5" if "fleet_advance clk wid (fleet_event k p a b clk
      (record_route pool True (c_quality result) co la clk x)) = (r, s5)" "routes_ok x"
    for wid k p a b pool co la x r s5
    using advance_routes [OF that(1)] record_route_ok [OF q that(2), of pool True co la clk]
    by (simp add: routes_ok_def)
  have upd: "routes_ok (x\<lparr>f_nodes := y\<rparr>) = routes_ok x" for x y
    by (simp add: routes_ok_def)
  show ?thesis
    using assms(2) art adv
    by (auto simp: fleet_complete_def Let_def upd split: sum.splits prod.splits option.splits)
qed

lemma routes_ok_step: "routes_ok s \<Longrightarrow> fleet_step sha s t \<Longrightarrow> routes_ok t"
  by (erule fleet_stepE)
    (auto intro: register_routes_ok fail_routes_ok complete_routes_ok
      simp: routes_ok_cong [OF submit_routes] routes_ok_cong [OF claim_routes]
      routes_ok_cong [OF heartbeat_routes] routes_ok_cong [OF approve_routes]
      routes_ok_cong [OF sweep_frame(3)])

interpretation routes: invariant_system fleet_init "fleet_step sha" routes_ok for sha
proof unfold_locales
  show "routes_ok s" if "fleet_init s" for s
    using that by (auto simp: fleet_init_def new_fleet_def routes_ok_def)
qed (rule routes_ok_step)

section \<open>A workflow of two nodes\<close>

definition demo_node :: "string \<Rightarrow> string list \<Rightarrow> bool \<Rightarrow> node_spec" where
  "demo_node nid deps approval = \<lparr>ns_id = nid, ns_objective = ''do'', ns_depends_on = deps,
     ns_capabilities = [''py''], ns_input = JNull,
     ns_budget = \<lparr>b_tokens = 100, b_cost_usd = 1, b_seconds = 60\<rparr>,
     ns_approval_required = approval, ns_max_attempts = 1\<rparr>"

definition demo_spec :: workflow_spec where
  "demo_spec = \<lparr>ws_name = ''demo'', ws_nodes = [demo_node ''a'' [] False, demo_node ''b'' [''a''] True],
     ws_metadata = JNull\<rparr>"

definition demo_worker :: worker_registration where
  "demo_worker = \<lparr>wr_worker_id = ''w'', wr_capabilities = [''py''], wr_pool = ''p'',
     wr_max_concurrency = 1, wr_metadata = JNull\<rparr>"

definition demo_result :: completion where
  "demo_result = \<lparr>c_output = JNull, c_artifacts = [(''out.txt'', ''x'')], c_tokens_used = 10,
     c_cost_usd = 1/2, c_duration_seconds = 3, c_quality = 1\<rparr>"

definition demo_sha :: "string \<Rightarrow> string" where
  "demo_sha s = ''abcdef0123456789''"

definition demo_idle :: fleet where
  "demo_idle = fleet_register 1 demo_worker (snd (fleet_submit ''01'' 0 demo_spec (new_fleet ''art'' 60)))"

definition demo_leased :: fleet where
  "demo_leased = snd (fleet_claim ''02'' 2 ''w'' None demo_idle)"

definition demo_done :: fleet where
  "demo_done = snd (fleet_complete demo_sha (\<lambda>_. ''03'') 5 ''w'' ''lease_02'' demo_result demo_leased)"

definition demo_approved :: fleet where
  "demo_approved = snd (fleet_approve 6 ''wf_01'' ''b'' True ''ann'' demo_done)"

definition demo_lost :: fleet where
  "demo_lost = snd (sweep_expired 100 demo_leased)"

lemma demo_dag: "validate_dag demo_spec = Inr ()"
  by code_simp

lemma demo_valid: "validate_workflow_spec demo_spec = Inr ()" "worker_registration_valid demo_worker"
  "completion_valid demo_result"
  using demo_dag
  by (simp_all add: validate_workflow_spec_def demo_spec_def demo_node_def node_spec_valid_def
      budget_valid_def alnum_def worker_registration_valid_def demo_worker_def completion_valid_def
      demo_result_def)

lemma demo_idle_reach: "fleet.reach sha demo_idle"
proof -
  have "fleet.reach sha (new_fleet ''art'' 60)"
    by (rule fleet.reach_init) (auto simp: fleet_init_def)
  then show ?thesis
    unfolding demo_idle_def
    by (intro fleet.reach_step [OF _ step_register] fleet.reach_step [OF _ step_submit] demo_valid)
qed

lemma demo_leased_reach: "fleet.reach sha demo_leased"
  unfolding demo_leased_def by (rule fleet.reach_step [OF demo_idle_reach step_claim])

lemma demo_done_reach: "fleet.reach demo_sha demo_done"
  unfolding demo_done_def by (rule fleet.reach_step [OF demo_leased_reach step_complete [OF demo_valid(3)]])

lemma demo_approved_reach: "fleet.reach demo_sha demo_approved"
  unfolding demo_approved_def by (rule fleet.reach_step [OF demo_done_reach step_approve])

lemma demo_lost_reach: "fleet.reach sha demo_lost"
  unfolding demo_lost_def by (rule fleet.reach_step [OF demo_leased_reach step_sweep])

section \<open>Claims\<close>

lemma rowcount_update_one:
  assumes "distinct (map key ns)"
  shows "rowcount P (map (\<lambda>m. if key m = k then f m else m) ns) \<le> Suc (rowcount P ns)"
  using assms
proof (induction ns)
  case (Cons a ns)
  have "map (\<lambda>m. if key m = k then f m else m) ns = ns" if "key a = k"
    using that Cons.prems by (intro map_idI) (metis distinct.simps(2) image_eqI list.simps(9) set_map)
  with Cons show ?case by (cases "key a = k") (simp_all add: rowcount_def)
qed (simp add: rowcount_def)

lemma find_sorted_first:
  assumes "sorted (map k xs)" "find P xs = Some x" "y \<in> set xs" "P y"
  shows "k x \<le> k y"
  using assms by (induction xs) (auto split: if_splits dest: find_SomeD)

lemma sweep_nodes_inv: "fleet_inv s \<Longrightarrow> fleet_inv (snd (sweep_expired clk s))"
  by (rule quiet_inv [OF sweep_quiet])

lemma claimed_rows:
  assumes "fleet_inv s" "n \<in> set (f_nodes s)" "n_status n = N_QUEUED"
  shows "upd_where (\<lambda>m. is_node (n_workflow_id n) (n_node_id n) m \<and> n_status m = N_QUEUED) f (f_nodes s)
    = map (\<lambda>m. if node_key m = node_key n then f m else m) (f_nodes s)"
  unfolding upd_where_def
  by (rule map_cong [OF refl]) (use key_unique [OF assms(1,2)] assms(3) in fastforce)

text \<open>
  C2. Claim. Whatever state the calls have led to, a lease the orchestrator hands out is for a node
  that was queued once expired leases were swept, in the scope asked for, whose capabilities
  the worker has, and that comes first by creation time and id among all such nodes; exactly
  that row changes, and the worker stays within its concurrency limit.
\<close>

theorem claim_contract:
  assumes reach: "fleet.reach sha s"
    and claim: "fleet_claim hex clk worker_id scope s = (Inr (Some l), s')"
  shows "\<exists>n \<in> set (f_nodes (snd (sweep_expired clk s))). \<exists>w \<in> set (f_workers s).
    node_key n = (l_workflow_id l, l_node_id l) \<and> n_status n = N_QUEUED \<and> in_scope scope n
    \<and> wk_worker_id w = worker_id \<and> set (n_capabilities n) \<subseteq> set (wk_capabilities w)
    \<and> active_leases worker_id (f_nodes s') \<le> wk_max_concurrency w
    \<and> f_nodes s' = map (\<lambda>m. if node_key m = node_key n
        then lease_node worker_id (identifier_of ''lease'' hex) (l_lease_expires l) clk m else m)
        (f_nodes (snd (sweep_expired clk s)))
    \<and> list_all (\<lambda>m. n_status m = N_QUEUED \<and> in_scope scope m
          \<and> set (n_capabilities m) \<subseteq> set (wk_capabilities w)
        \<longrightarrow> (n_created_at n, n_node_id n) \<le> (n_created_at m, n_node_id m))
        (f_nodes (snd (sweep_expired clk s)))"
  using claim
proof (cases rule: claim_cases)
  case (2 n l')
  let ?s = "snd (sweep_expired clk s)"
  have inv: "fleet_inv ?s" using sweep_nodes_inv fleet.reach_inv [OF reach] by blast
  obtain w where w: "w \<in> set (f_workers s)" "wk_worker_id w = worker_id"
      "active_leases worker_id (f_nodes ?s) < wk_max_concurrency w"
      "find (\<lambda>n. set (n_capabilities n) \<subseteq> set (wk_capabilities w)) (candidates scope (f_nodes ?s)) = Some n"
    using 2(12) by blast
  have nodes: "f_nodes s' = map (\<lambda>m. if node_key m = node_key n
      then lease_node worker_id (identifier_of ''lease'' hex) (l_lease_expires l) clk m else m) (f_nodes ?s)"
    using 2 claimed_rows [OF inv 2(3,4)] by simp
  have "active_leases worker_id (f_nodes s') \<le> Suc (active_leases worker_id (f_nodes ?s))"
    unfolding nodes active_leases_def by (rule rowcount_update_one [OF fleet_inv_nodes(1) [OF inv]])
  moreover have "(n_created_at n, n_node_id n) \<le> (n_created_at m, n_node_id m)"
    if "m \<in> set (f_nodes ?s)" "n_status m = N_QUEUED" "in_scope scope m"
      "set (n_capabilities m) \<subseteq> set (wk_capabilities w)" for m
    using find_sorted_first [where k = "\<lambda>n. (n_created_at n, n_node_id n)", OF _ w(4), of m] that
    by (simp add: candidates_def)
  ultimately show ?thesis
    using 2 w nodes find_SomeD [OF w(4)] by (intro bexI [of _ n] bexI [of _ w]) (auto simp: list_all_iff)
qed blast

lemma demo_claim: "(case fst (fleet_claim ''02'' 2 ''w'' None demo_idle) of
    Inr (Some l) \<Rightarrow> (l_workflow_id l, l_node_id l) = (''wf_01'', ''a'') | _ \<Rightarrow> False)"
  by code_simp

theorem claim_contract_witness:
  "\<exists>n \<in> set (f_nodes (snd (sweep_expired 2 demo_idle))).
     node_key n = (''wf_01'', ''a'') \<and> n_status n = N_QUEUED"
proof -
  obtain l where l: "fleet_claim ''02'' 2 ''w'' None demo_idle = (Inr (Some l), demo_leased)"
    "(l_workflow_id l, l_node_id l) = (''wf_01'', ''a'')"
    using demo_claim unfolding demo_leased_def
    by (auto split: sum.splits option.splits) (metis prod.collapse)
  from claim_contract [OF demo_idle_reach l(1)] l(2) show ?thesis by auto
qed

section \<open>Reachable nodes and workflows\<close>

text \<open>
  C3. Dependency order. A node that has left the blocked state has all its parents completed:
  no call can queue, lease, complete or fail a node before its dependencies are done.
\<close>

theorem dependencies_first:
  assumes "fleet.reach sha s" "n \<in> set (f_nodes s)" "n_status n \<noteq> N_BLOCKED" "p \<in> set (n_deps n)"
  shows "\<exists>m \<in> set (f_nodes s). node_key m = (n_workflow_id n, p) \<and> n_status m = N_COMPLETED"
  using fleet_inv_nodes(4) [OF fleet.reach_inv [OF assms(1)] assms(2)] assms(3,4)
  by (auto simp: deps_ok_def parents_completed_def)


text \<open>
  C5. Attempts and budgets. A node is leased at most \<open>max_attempts\<close> times, a queued node has an
  attempt left, exactly the leased nodes carry a lessee, a token and an expiry, and a completed node
  has used no more tokens and money than its budget.
\<close>

theorem attempts_and_budget:
  assumes "fleet.reach sha s" "n \<in> set (f_nodes s)"
  shows "n_attempts n \<le> n_max_attempts n
    \<and> (n_status n = N_QUEUED \<longrightarrow> n_attempts n < n_max_attempts n)
    \<and> (n_status n = N_LEASED \<longleftrightarrow> n_leased_by n \<noteq> None)
    \<and> (n_leased_by n \<noteq> None \<longleftrightarrow> n_lease_token n \<noteq> None)
    \<and> (n_leased_by n \<noteq> None \<longleftrightarrow> n_lease_expires n \<noteq> None)
    \<and> (n_status n = N_COMPLETED \<longrightarrow> n_tokens_used n \<le> b_tokens (n_budget n)
         \<and> n_cost_usd n \<le> b_cost_usd (n_budget n))"
proof -
  have "row_ok n" by (rule fleet_inv_nodes(3) [OF fleet.reach_inv [OF assms(1)] assms(2)])
  then show ?thesis
    by (cases "n_leased_by n"; cases "n_status n") (simp_all add: row_ok_defs)
qed

text \<open>
  C6. Workflow status. A workflow is marked completed exactly when all of its nodes are
  completed, and a workflow marked failed has a failed node.
\<close>

theorem workflow_status_exact:
  assumes "fleet.reach sha s" "w \<in> set (f_workflows s)"
  shows "(w_status w = W_COMPLETED \<longleftrightarrow>
      list_all (\<lambda>n. n_workflow_id n = w_workflow_id w \<longrightarrow> n_status n = N_COMPLETED) (f_nodes s))
    \<and> (w_status w = W_FAILED \<longrightarrow>
      list_ex (\<lambda>n. n_workflow_id n = w_workflow_id w \<and> n_status n = N_FAILED) (f_nodes s))"
proof -
  have ok: "workflow_ok (f_nodes s) w"
    using fleet.reach_inv [OF assms(1)] assms(2) by (simp add: fleet_inv_def list_all_iff)
  have "w_status w = W_COMPLETED \<longleftrightarrow> all_completed (workflow_nodes (w_workflow_id w) (f_nodes s))"
    using ok by (simp add: workflow_ok_def Let_def)
  moreover have "w_status w = W_FAILED \<longrightarrow>
      (\<exists>n \<in> set (workflow_nodes (w_workflow_id w) (f_nodes s)). n_status n = N_FAILED)"
    using ok by (simp add: workflow_ok_def Let_def)
  ultimately show ?thesis
    by (auto simp: all_completed_def workflow_nodes_def list_all_iff list_ex_iff)
qed

text \<open>In an order in which parents come later, the last node that is not completed can move.\<close>

lemma first_open:
  assumes "topo edges order" "\<exists>x \<in> set order. P x"
  shows "\<exists>x \<in> set order. P x \<and> (\<forall>ps. map_of edges x = Some ps \<longrightarrow> (\<forall>p \<in> set ps. \<not> P p))"
  using assms
proof (induction edges order rule: topo.induct)
  case (2 edges x xs)
  show ?case
  proof (cases "\<exists>y \<in> set xs. P y")
    case True
    with 2 show ?thesis by auto
  next
    case False
    with 2 show ?thesis by (auto split: option.splits)
  qed
qed simp

text \<open>
  C7. Progress. In every reachable state a workflow that is not completed has a node that can be
  acted on: one that is queued, leased, awaiting an approval, or failed. No workflow is left with
  nothing but blocked and completed nodes.
\<close>

theorem no_deadlock:
  assumes reach: "fleet.reach sha s" and w: "w \<in> set (f_workflows s)" "w_status w \<noteq> W_COMPLETED"
  shows "\<exists>n \<in> set (f_nodes s). n_workflow_id n = w_workflow_id w
    \<and> n_status n \<in> {N_QUEUED, N_LEASED, N_AWAITING_APPROVAL, N_FAILED}"
proof -
  let ?wid = "w_workflow_id w" and ?ns = "f_nodes s"
  have inv: "fleet_inv s" by (rule fleet.reach_inv [OF reach])
  then have ok: "workflow_ok ?ns w" and wait: "blocked_waits ?ns"
    using w(1) by (simp_all add: fleet_inv_def list_all_iff)
  let ?rows = "workflow_nodes ?wid ?ns"
  have dist: "distinct (map n_node_id ?rows)"
    using fleet_inv_nodes(1) [OF inv] by (auto simp: workflow_nodes_def distinct_map inj_on_def)
  obtain order where order: "topo (node_edges ?rows) order" "n_node_id ` set ?rows \<subseteq> set order"
    using ok by (auto simp: workflow_ok_def has_order_def Let_def)
  define P where "P x \<longleftrightarrow> (\<exists>n \<in> set ?rows. n_node_id n = x \<and> n_status n \<noteq> N_COMPLETED)" for x
  have "\<exists>x \<in> set order. P x"
    using ok w(2) order(2) by (fastforce simp: workflow_ok_def Let_def all_completed_def list_all_iff P_def)
  from first_open [OF order(1) this] obtain n where n: "n \<in> set ?rows" "n_status n \<noteq> N_COMPLETED"
    "\<forall>ps. map_of (node_edges ?rows) (n_node_id n) = Some ps \<longrightarrow> (\<forall>p \<in> set ps. \<not> P p)"
    unfolding P_def by blast
  have "map_of (node_edges ?rows) (n_node_id n) = Some (n_deps n)"
    using n(1) dist by (auto simp: node_edges_def comp_def intro: map_of_is_SomeI)
  then have fin: "\<not> P p" if "p \<in> set (n_deps n)" for p
    using n(3) that by simp
  have "n_status n \<noteq> N_BLOCKED"
  proof
    assume "n_status n = N_BLOCKED"
    then have "\<not> parents_completed ?ns n"
      using wait n(1) by (simp add: blocked_waits_def workflow_nodes_def)
    moreover have "deps_known ?ns n"
      using fleet_inv_nodes(2) [OF inv] n(1) by (simp add: workflow_nodes_def)
    ultimately obtain p m where "p \<in> set (n_deps n)" "m \<in> set ?ns" "is_node (n_workflow_id n) p m"
      "n_status m \<noteq> N_COMPLETED"
      unfolding parents_completed_def deps_known_def by blast
    with fin n(1) show False by (auto simp: P_def workflow_nodes_def)
  qed
  with n show ?thesis
    by (intro bexI [of _ n]) (cases "n_status n"; simp add: workflow_nodes_def)+
qed

text \<open>Instances of the above at the states of the example.\<close>

lemma demo_states:
  "map n_status (f_nodes demo_leased) = [N_LEASED, N_BLOCKED]"
  "map n_status (f_nodes demo_done) = [N_COMPLETED, N_AWAITING_APPROVAL]"
  "map n_status (f_nodes demo_approved) = [N_COMPLETED, N_QUEUED]"
  "map n_status (f_nodes demo_lost) = [N_FAILED, N_BLOCKED]"
  by code_simp+

lemma demo_rows:
  "list_ex (\<lambda>b. node_key b = (''wf_01'', ''b'') \<and> n_status b = N_QUEUED \<and> n_deps b = [''a'']
     \<and> n_approval_required b) (f_nodes demo_approved)"
  "list_ex (\<lambda>n. n_status n = N_COMPLETED) (f_nodes demo_done)"
  by code_simp+

lemma demo_row_b:
  obtains b where "b \<in> set (f_nodes demo_approved)" "node_key b = (''wf_01'', ''b'')"
    "n_status b = N_QUEUED" "n_deps b = [''a'']" "n_approval_required b"
  using demo_rows(1) by (auto simp: list_ex_iff)

lemma demo_row_done:
  obtains n where "n \<in> set (f_nodes demo_done)" "n_status n = N_COMPLETED"
  using demo_rows(2) by (auto simp: list_ex_iff)

theorem dependencies_first_witness:
  "\<exists>m \<in> set (f_nodes demo_approved). node_key m = (''wf_01'', ''a'') \<and> n_status m = N_COMPLETED"
proof -
  obtain b where "b \<in> set (f_nodes demo_approved)" "node_key b = (''wf_01'', ''b'')"
    "n_status b = N_QUEUED" "n_deps b = [''a'']" by (rule demo_row_b)
  with dependencies_first [OF demo_approved_reach, of b "''a''"] show ?thesis by simp
qed


theorem attempts_and_budget_witness:
  "\<exists>n \<in> set (f_nodes demo_done). n_status n = N_COMPLETED \<and> n_tokens_used n \<le> b_tokens (n_budget n)"
proof -
  obtain n where "n \<in> set (f_nodes demo_done)" "n_status n = N_COMPLETED"
    by (rule demo_row_done)
  with attempts_and_budget [OF demo_done_reach, of n] show ?thesis by blast
qed

lemma demo_workflows:
  "map (\<lambda>w. (w_workflow_id w, w_status w)) (f_workflows demo_done) = [(''wf_01'', W_RUNNING)]"
  "map (\<lambda>w. (w_workflow_id w, w_status w)) (f_workflows demo_lost) = [(''wf_01'', W_RUNNING)]"
  by code_simp+

lemma demo_workflow:
  obtains w where "w \<in> set (f_workflows demo_done)" "w_workflow_id w = ''wf_01''" "w_status w = W_RUNNING"
  using demo_workflows(1) by (auto simp: map_eq_Cons_conv)

theorem workflow_status_exact_witness:
  "\<not> list_all (\<lambda>n. n_workflow_id n = ''wf_01'' \<longrightarrow> n_status n = N_COMPLETED) (f_nodes demo_done)"
proof -
  obtain w where "w \<in> set (f_workflows demo_done)" "w_workflow_id w = ''wf_01''" "w_status w = W_RUNNING"
    by (rule demo_workflow)
  with workflow_status_exact [OF demo_done_reach, of w] show ?thesis by simp
qed

theorem no_deadlock_witness:
  "\<exists>n \<in> set (f_nodes demo_done). n_workflow_id n = ''wf_01''
     \<and> n_status n \<in> {N_QUEUED, N_LEASED, N_AWAITING_APPROVAL, N_FAILED}"
proof -
  obtain w where "w \<in> set (f_workflows demo_done)" "w_workflow_id w = ''wf_01''" "w_status w = W_RUNNING"
    by (rule demo_workflow)
  with no_deadlock [OF demo_done_reach, of w] show ?thesis by simp
qed

section \<open>Leases\<close>



text \<open>
  Late workers. Once every lease a worker holds under a token has expired, or the token is no
  longer valid, neither a completion nor a failure report is accepted, and the store is unchanged.
\<close>

theorem late_worker_rejected:
  assumes "list_all (\<lambda>n. holds_lease worker_id token n \<longrightarrow> expires_before clk n) (f_nodes s)"
  shows "fleet_complete sha uuid clk worker_id token result s
      = (Inl (ValueError ''Lease is no longer active''), s)
    \<and> fleet_fail clk worker_id token err retryable s
      = (Inl (ValueError ''Lease is no longer active''), s)"
proof -
  have "lease_of clk worker_id token s = Inl (ValueError ''Lease is no longer active'')"
    using assms unfolding lease_of_def
    by (auto simp: list_all_iff expires_before_def dest!: filter_ConsD split: list.splits option.splits)
  then show ?thesis
    by (simp add: fleet_complete_def fleet_fail_def)
qed

theorem late_worker_rejected_witness:
  "fst (fleet_fail 100 ''w'' ''lease_02'' ''boom'' True demo_leased)
     = Inl (ValueError ''Lease is no longer active'')"
proof -
  have "list_all (\<lambda>n. holds_lease ''w'' ''lease_02'' n \<longrightarrow> expires_before 100 n) (f_nodes demo_leased)"
    by code_simp
  from late_worker_rejected [OF this] show ?thesis by simp
qed

text \<open>
  Heartbeat. A heartbeat under a token that is held extends the lease to a full lease period from
  now, whether or not the old expiry has passed, as long as no sweep has run in between; a
  completion at the same instant then finds the lease.
\<close>

theorem heartbeat_renews:
  assumes "n \<in> set (f_nodes s)" "holds_lease worker_id token n" "0 \<le> f_lease_seconds s"
  shows "fst (heartbeat clk worker_id token s) = Inr (clk + of_int (f_lease_seconds s))
    \<and> (\<exists>row. lease_of clk worker_id token (snd (heartbeat clk worker_id token s)) = Inr row)"
proof -
  let ?e = "clk + of_int (f_lease_seconds s)"
  let ?f = "\<lambda>n. n\<lparr>n_lease_expires := Some ?e, n_updated_at := iso clk\<rparr>"
  let ?s' = "snd (heartbeat clk worker_id token s)"
  have nodes: "f_nodes ?s' = upd_where (holds_lease worker_id token) ?f (f_nodes s)"
    by (simp add: heartbeat_def Let_def)
  have keep: "holds_lease worker_id token (?f m) = holds_lease worker_id token m" for m
    by (simp add: holds_lease_def)
  have all: "n_lease_expires m = Some ?e" if "m \<in> set (f_nodes ?s')" "holds_lease worker_id token m" for m
    using that keep by (auto simp: nodes set_upd_where split: if_splits)
  have "?f n \<in> set (f_nodes ?s') \<and> holds_lease worker_id token (?f n)"
    using assms(1,2) keep by (force simp: nodes set_upd_where)
  then obtain row rest where "filter (holds_lease worker_id token) (f_nodes ?s') = row # rest"
    by (cases "filter (holds_lease worker_id token) (f_nodes ?s')") (auto simp: filter_empty_conv)
  then have "lease_of clk worker_id token ?s' = Inr row"
    using all [of row] filter_ConsD assms(3) by (fastforce simp: lease_of_def)
  moreover have "fst (heartbeat clk worker_id token s) = Inr ?e"
    using assms(1,2) by (auto simp: heartbeat_def Let_def)
  ultimately show ?thesis by blast
qed

theorem heartbeat_renews_witness:
  "\<exists>n \<in> set (f_nodes demo_leased). expires_before 100 n
     \<and> fst (heartbeat 100 ''w'' ''lease_02'' demo_leased) = Inr 160"
proof -
  have "list_ex (\<lambda>n. holds_lease ''w'' ''lease_02'' n \<and> expires_before 100 n) (f_nodes demo_leased)
      \<and> f_lease_seconds demo_leased = 60"
    by code_simp
  then obtain n where n: "n \<in> set (f_nodes demo_leased)" "holds_lease ''w'' ''lease_02'' n"
    "expires_before 100 n" "f_lease_seconds demo_leased = 60"
    by (auto simp: list_ex_iff)
  with heartbeat_renews [OF n(1,2), of 100] show ?thesis by auto
qed

text \<open>
  Sweep. Sweeping is one simultaneous update: every lease that has expired is taken back, its
  node queued again while attempts are left and failed otherwise, every other row is unchanged,
  the count returned is the number of rows taken back, and no expired lease remains.
\<close>

theorem sweep_exact:
  assumes "fleet.reach sha s"
  shows "f_nodes (snd (sweep_expired clk s)) =
      map (\<lambda>n. if n_status n = N_LEASED \<and> expires_before clk n then expire_node clk n n else n) (f_nodes s)
    \<and> fst (sweep_expired clk s) =
      length (filter (\<lambda>n. n_status n = N_LEASED \<and> expires_before clk n) (f_nodes s))
    \<and> list_all (\<lambda>n. \<not> (n_status n = N_LEASED \<and> expires_before clk n)) (f_nodes (snd (sweep_expired clk s)))"
proof -
  have nodes: "f_nodes (snd (sweep_expired clk s)) =
      map (\<lambda>n. if n_status n = N_LEASED \<and> expires_before clk n then expire_node clk n n else n) (f_nodes s)"
    using sweep_nodes [OF fleet_inv_nodes(1) [OF fleet.reach_inv [OF assms]]]
    by (simp add: is_expired_def)
  show ?thesis
    unfolding nodes by (auto simp: list_all_iff sweep_expired_def Let_def split: if_splits)
qed

theorem sweep_exact_witness: "map n_status (f_nodes (snd (sweep_expired 100 demo_leased))) = [N_FAILED, N_BLOCKED]"
  using sweep_exact [OF demo_leased_reach, of 100] demo_states(4) by (simp add: demo_lost_def)

text \<open>
  Finality. Whatever calls follow, a node row keeps its identity, and a node that is completed or
  failed keeps its row, output, usage and error unchanged for ever.
\<close>

theorem final_rows_never_change:
  assumes "fleet.reach sha s" "(fleet_step sha)\<^sup>*\<^sup>* s t" "n \<in> set (f_nodes s)"
  shows "\<exists>n' \<in> set (f_nodes t). node_key n' = node_key n
    \<and> (n_status n \<in> {N_COMPLETED, N_FAILED} \<longrightarrow> n' = n)"
  using steps_persist [OF assms(2) fleet.reach_inv [OF assms(1)]] assms(3)
  unfolding rows_persist_def by blast

theorem final_rows_never_change_witness:
  "\<exists>n \<in> set (f_nodes demo_done). n_status n = N_COMPLETED \<and> n \<in> set (f_nodes demo_approved)"
proof -
  obtain n where n: "n \<in> set (f_nodes demo_done)" "n_status n = N_COMPLETED"
    by (rule demo_row_done)
  have "(fleet_step demo_sha)\<^sup>*\<^sup>* demo_done demo_approved"
    unfolding demo_approved_def by (intro r_into_rtranclp step_approve)
  from final_rows_never_change [OF demo_done_reach this n(1)] n show ?thesis by auto
qed

text \<open>
  Route scores. The success count of a pool never exceeds its run count and its score stays
  between 0 and 1, whatever results its workers report.
\<close>

theorem route_scores_bounded:
  assumes "fleet.reach sha s" "r \<in> set (f_routes s)"
  shows "rm_successes r \<le> rm_runs r \<and> 0 \<le> rm_score r \<and> rm_score r \<le> 1"
  using routes.reach_inv [OF assms(1)] assms(2)
  by (simp add: routes_ok_def route_ok_def list_all_iff)

theorem route_scores_bounded_witness:
  "\<exists>r \<in> set (f_routes demo_done). rm_runs r = 1 \<and> rm_score r \<le> 1"
proof -
  have "map rm_runs (f_routes demo_done) = [1]" by code_simp
  then obtain r where "r \<in> set (f_routes demo_done)" "rm_runs r = 1"
    by (auto simp: map_eq_Cons_conv)
  with route_scores_bounded [OF demo_done_reach, of r] show ?thesis by blast
qed

text \<open>
  A lost worker can strand a workflow. When the sweep takes back a lease with no attempt left, the
  node fails but the workflow is still marked running, although no node of it can run any more;
  the failure reported by a worker marks the workflow failed instead.
\<close>

theorem sweep_strands_workflow:
  "fleet.reach sha demo_lost
   \<and> map w_status (f_workflows demo_lost) = [W_RUNNING]
   \<and> map n_status (f_nodes demo_lost) = [N_FAILED, N_BLOCKED]
   \<and> map w_status (f_workflows (snd (fleet_fail 5 ''w'' ''lease_02'' ''boom'' True demo_leased))) = [W_FAILED]"
proof (intro conjI)
  show "fleet.reach sha demo_lost" by (rule demo_lost_reach)
  show "map w_status (f_workflows demo_lost) = [W_RUNNING]" by code_simp
  show "map n_status (f_nodes demo_lost) = [N_FAILED, N_BLOCKED]" by code_simp
  show "map w_status (f_workflows (snd (fleet_fail 5 ''w'' ''lease_02'' ''boom'' True demo_leased))) = [W_FAILED]"
    by code_simp
qed

end
