(* ===== verification/PyText.thy ===== *)
theory PyText
  imports Prelude
begin

text \<open>
  The string operations of the language the components use (\<open>strip\<close>, \<open>lower\<close>, \<open>split\<close>, \<open>partition\<close>,
  substring tests), decimal and JSON rendering, and operations that thread a store and may raise.
  A \<open>char\<close> is a code point below 256; the functions agree with the language's on that range.
\<close>

section \<open>Strings\<close>

definition ord_of :: "char \<Rightarrow> nat" where
  "ord_of c = of_char c"

definition is_space :: "char \<Rightarrow> bool" where
  "is_space c \<longleftrightarrow> ord_of c \<in> {9, 10, 11, 12, 13, 28, 29, 30, 31, 32, 133, 160}"

definition py_strip :: "string \<Rightarrow> string" where
  "py_strip s = rev (dropWhile is_space (rev (dropWhile is_space s)))"

definition lower_char :: "char \<Rightarrow> char" where
  "lower_char c =
     (if (65 \<le> ord_of c \<and> ord_of c \<le> 90) \<or> (192 \<le> ord_of c \<and> ord_of c \<le> 222 \<and> ord_of c \<noteq> 215)
      then char_of (ord_of c + 32) else c)"

definition py_lower :: "string \<Rightarrow> string" where
  "py_lower s = map lower_char s"

fun starts_with :: "string \<Rightarrow> string \<Rightarrow> bool" where
  "starts_with s [] = True"
| "starts_with [] (p # ps) = False"
| "starts_with (c # cs) (p # ps) \<longleftrightarrow> c = p \<and> starts_with cs ps"

text \<open>\<open>part in s\<close>.\<close>

fun contains :: "string \<Rightarrow> string \<Rightarrow> bool" where
  "contains [] part \<longleftrightarrow> part = []"
| "contains (c # cs) part \<longleftrightarrow> starts_with (c # cs) part \<or> contains cs part"

text \<open>\<open>s.split()\<close>: maximal runs without white space.\<close>

fun split_ws :: "string \<Rightarrow> string \<Rightarrow> string list" where
  "split_ws acc [] = (if acc = [] then [] else [rev acc])"
| "split_ws acc (c # cs) =
     (if is_space c then (if acc = [] then split_ws [] cs else rev acc # split_ws [] cs)
      else split_ws (c # acc) cs)"

definition py_split :: "string \<Rightarrow> string list" where
  "py_split s = split_ws [] s"

text \<open>\<open>s.partition(c)\<close> for a separator of one character.\<close>

fun py_partition :: "char \<Rightarrow> string \<Rightarrow> string \<times> string \<times> string" where
  "py_partition sep [] = ([], [], [])"
| "py_partition sep (c # cs) =
     (if c = sep then ([], [sep], cs)
      else case py_partition sep cs of (a, m, b) \<Rightarrow> (c # a, m, b))"

definition replace_char :: "char \<Rightarrow> char \<Rightarrow> string \<Rightarrow> string" where
  "replace_char a b s = map (\<lambda>c. if c = a then b else c) s"

text \<open>\<open>len(s.encode("utf-8"))\<close>.\<close>

definition utf8_length :: "string \<Rightarrow> nat" where
  "utf8_length s = sum_list (map (\<lambda>c. if ord_of c < 128 then 1 else 2) s)"

fun digits_of :: "nat \<Rightarrow> nat \<Rightarrow> string" where
  "digits_of 0 n = []"
| "digits_of (Suc k) n = digits_of k (n div 10) @ [char_of (48 + n mod 10)]"

fun digit_count :: "nat \<Rightarrow> nat" where
  "digit_count n = (if n < 10 then 1 else Suc (digit_count (n div 10)))"

definition nat_text :: "nat \<Rightarrow> string" where
  "nat_text n = digits_of (digit_count n) n"

definition int_text :: "int \<Rightarrow> string" where
  "int_text i = (if i < 0 then ''-'' @ nat_text (nat (- i)) else nat_text (nat i))"

text \<open>
  Code equations that decide the character classes by the bits of a character, so that the simplifier
  evaluates them quickly.
\<close>

definition letter_bits :: "bool \<Rightarrow> bool \<Rightarrow> bool \<Rightarrow> bool \<Rightarrow> bool \<Rightarrow> bool" where
  "letter_bits b0 b1 b2 b3 b4 \<longleftrightarrow> (b0 \<or> b1 \<or> b2 \<or> b3 \<or> b4) \<and> \<not> (b4 \<and> b3 \<and> (b2 \<or> (b1 \<and> b0)))"

lemma lower_char_code [code]:
  "lower_char (Char b0 b1 b2 b3 b4 b5 b6 b7) =
    (if b6 \<and> \<not> b5 \<and> (if b7 then \<not> (b0 \<and> b1 \<and> b2 \<and> b3 \<and> b4) \<and> \<not> (b0 \<and> b1 \<and> b2 \<and> \<not> b3 \<and> b4)
                       else letter_bits b0 b1 b2 b3 b4)
     then Char b0 b1 b2 b3 b4 True b6 b7 else Char b0 b1 b2 b3 b4 b5 b6 b7)"
  by (cases b0; cases b1; cases b2; cases b3; cases b4; cases b5; cases b6; cases b7)
    (simp_all add: lower_char_def ord_of_def letter_bits_def char_of_def bit_simps)

lemma is_space_code [code]:
  "is_space (Char b0 b1 b2 b3 b4 b5 b6 b7) =
    (if b7 then (b0 \<and> \<not> b1 \<and> b2 \<and> \<not> b3 \<and> \<not> b4 \<and> \<not> b5 \<and> \<not> b6)
                \<or> (\<not> b0 \<and> \<not> b1 \<and> \<not> b2 \<and> \<not> b3 \<and> \<not> b4 \<and> b5 \<and> \<not> b6)
     else if b6 then False
     else if b5 then \<not> b0 \<and> \<not> b1 \<and> \<not> b2 \<and> \<not> b3 \<and> \<not> b4
     else b3 \<and> (if b4 then b2 else (b0 \<or> b1 \<or> b2) \<and> \<not> (b1 \<and> b2)))"
  by (cases b0; cases b1; cases b2; cases b3; cases b4; cases b5; cases b6; cases b7)
    (simp_all add: is_space_def ord_of_def char_of_def bit_simps)

definition letter :: "char \<Rightarrow> bool" where
  "letter c \<longleftrightarrow> (65 \<le> ord_of c \<and> ord_of c \<le> 90) \<or> (97 \<le> ord_of c \<and> ord_of c \<le> 122)"

definition digit :: "char \<Rightarrow> bool" where
  "digit c \<longleftrightarrow> 48 \<le> ord_of c \<and> ord_of c \<le> 57"

lemma letter_code [code]: "letter (Char b0 b1 b2 b3 b4 b5 b6 b7) \<longleftrightarrow> b6 \<and> \<not> b7 \<and> letter_bits b0 b1 b2 b3 b4"
  by (cases b0; cases b1; cases b2; cases b3; cases b4; cases b5; cases b6; cases b7)
    (simp_all add: letter_def ord_of_def letter_bits_def char_of_def bit_simps)

lemma digit_code [code]:
  "digit (Char b0 b1 b2 b3 b4 b5 b6 b7) \<longleftrightarrow> \<not> b7 \<and> \<not> b6 \<and> b5 \<and> b4 \<and> \<not> (b3 \<and> (b2 \<or> b1))"
  by (cases b0; cases b1; cases b2; cases b3; cases b4; cases b5; cases b6; cases b7)
    (simp_all add: digit_def ord_of_def char_of_def bit_simps)

definition ends_with :: "string \<Rightarrow> string \<Rightarrow> bool" where
  "ends_with s part = starts_with (rev s) (rev part)"

section \<open>JSON values\<close>

fun jget :: "string \<Rightarrow> json \<Rightarrow> json option" where
  "jget k (JObj kvs) = map_of kvs k"
| "jget k _ = None"

definition jget_or :: "json \<Rightarrow> string \<Rightarrow> json \<Rightarrow> json" where
  "jget_or d k j = (case jget k j of None \<Rightarrow> d | Some v \<Rightarrow> v)"

text \<open>\<open>json.dumps(value, ensure_ascii=False, separators=(",", ":"))\<close>; \<open>ft\<close> renders a float.\<close>

definition hex_digit :: "nat \<Rightarrow> char" where
  "hex_digit n = (if n < 10 then char_of (48 + n) else char_of (87 + n))"

definition json_control :: "char \<Rightarrow> bool" where
  "json_control c \<longleftrightarrow> ord_of c < 32"

lemma json_control_code [code]: "json_control (Char b0 b1 b2 b3 b4 b5 b6 b7) \<longleftrightarrow> \<not> b5 \<and> \<not> b6 \<and> \<not> b7"
  by (cases b0; cases b1; cases b2; cases b3; cases b4; cases b5; cases b6; cases b7)
    (simp_all add: json_control_def ord_of_def char_of_def bit_simps)

definition json_char :: "char \<Rightarrow> string" where
  "json_char c =
     (if c = CHR 0x22 then [CHR 0x5C, CHR 0x22]
      else if c = CHR 0x5C then [CHR 0x5C, CHR 0x5C]
      else if \<not> json_control c then [c]
      else if c = CHR 0x0A then [CHR 0x5C, CHR ''n'']
      else if c = CHR 0x0D then [CHR 0x5C, CHR ''r'']
      else if c = CHR 0x09 then [CHR 0x5C, CHR ''t'']
      else if c = CHR 0x08 then [CHR 0x5C, CHR ''b'']
      else if c = CHR 0x0C then [CHR 0x5C, CHR ''f'']
      else [CHR 0x5C, CHR ''u'', CHR ''0'', CHR ''0'', hex_digit (ord_of c div 16), hex_digit (ord_of c mod 16)])"

definition json_string :: "string \<Rightarrow> string" where
  "json_string s = [CHR 0x22] @ concat (map json_char s) @ [CHR 0x22]"

fun json_text :: "(rat \<Rightarrow> string) \<Rightarrow> json \<Rightarrow> string" where
  "json_text ft JNull = ''null''"
| "json_text ft (JBool b) = (if b then ''true'' else ''false'')"
| "json_text ft (JInt i) = int_text i"
| "json_text ft (JNum q) = ft q"
| "json_text ft (JStr s) = json_string s"
| "json_text ft (JArr xs) = ''['' @ join_with '','' (map (json_text ft) xs) @ '']''"
| "json_text ft (JObj kvs) =
     ''{'' @ join_with '','' (map (\<lambda>(k, v). json_string k @ '':'' @ json_text ft v) kvs) @ ''}''"

text \<open>\<open>json.dumps\<close> with its default \<open>ensure_ascii=True\<close>.\<close>

definition ascii_char :: "char \<Rightarrow> string" where
  "ascii_char c =
     (if ord_of c < 127 then [c]
      else [CHR 0x5C, CHR ''u'', CHR ''0'', CHR ''0'', hex_digit (ord_of c div 16), hex_digit (ord_of c mod 16)])"

definition json_ascii :: "(rat \<Rightarrow> string) \<Rightarrow> json \<Rightarrow> string" where
  "json_ascii ft v = concat (map ascii_char (json_text ft v))"

text \<open>\<open>str(value)\<close> of a decoded JSON value: a string is itself, anything else its \<open>repr\<close>.\<close>

fun json_repr :: "(rat \<Rightarrow> string) \<Rightarrow> json \<Rightarrow> string" where
  "json_repr ft JNull = ''None''"
| "json_repr ft (JBool b) = (if b then ''True'' else ''False'')"
| "json_repr ft (JInt i) = int_text i"
| "json_repr ft (JNum q) = ft q"
| "json_repr ft (JStr s) = py_repr s"
| "json_repr ft (JArr xs) = ''['' @ join_with '', '' (map (json_repr ft) xs) @ '']''"
| "json_repr ft (JObj kvs) =
     ''{'' @ join_with '', '' (map (\<lambda>(k, v). py_repr k @ '': '' @ json_repr ft v) kvs) @ ''}''"

definition json_str :: "(rat \<Rightarrow> string) \<Rightarrow> json \<Rightarrow> string" where
  "json_str ft j = (case j of JStr s \<Rightarrow> s | _ \<Rightarrow> json_repr ft j)"

definition opt_str :: "string option \<Rightarrow> json" where
  "opt_str x = (case x of None \<Rightarrow> JNull | Some s \<Rightarrow> JStr s)"

text \<open>The truth value of a decoded JSON value.\<close>

fun truthy :: "json \<Rightarrow> bool" where
  "truthy JNull = False"
| "truthy (JBool b) = b"
| "truthy (JInt i) = (i \<noteq> 0)"
| "truthy (JNum q) = (q \<noteq> 0)"
| "truthy (JStr s) = (s \<noteq> [])"
| "truthy (JArr xs) = (xs \<noteq> [])"
| "truthy (JObj kvs) = (kvs \<noteq> [])"

text \<open>\<open>d[k] = v\<close> on a dictionary kept in insertion order.\<close>

fun dict_set :: "'k \<Rightarrow> 'v \<Rightarrow> ('k \<times> 'v) list \<Rightarrow> ('k \<times> 'v) list" where
  "dict_set k v [] = [(k, v)]"
| "dict_set k v ((k', v') # d) = (if k = k' then (k, v) # d else (k', v') # dict_set k v d)"

lemma dict_set_update: "map_of (dict_set k v kvs) = (map_of kvs)(k \<mapsto> v)"
  by (induction k v kvs rule: dict_set.induct) (auto simp: fun_eq_iff)

lemma dict_set_dom: "fst ` set (dict_set k v kvs) = insert k (fst ` set kvs)"
  by (induction k v kvs rule: dict_set.induct) auto

lemma dict_set_distinct: "distinct (map fst kvs) \<Longrightarrow> distinct (map fst (dict_set k v kvs))"
  by (induction k v kvs rule: dict_set.induct) (auto simp: dict_set_dom simp flip: image_set)

lemma dict_set_all: "list_all P kvs \<Longrightarrow> P (k, v) \<Longrightarrow> list_all P (dict_set k v kvs)"
  by (induction k v kvs rule: dict_set.induct) auto

text \<open>\<open>json.dumps(value, sort_keys=True, ...)\<close> sorts the keys of every object.\<close>

fun sort_keys :: "json \<Rightarrow> json" where
  "sort_keys (JArr xs) = JArr (map sort_keys xs)"
| "sort_keys (JObj kvs) = JObj (sort_key fst (map (\<lambda>(k, v). (k, sort_keys v)) kvs))"
| "sort_keys v = v"

text \<open>\<open>str(exc)\<close> of an exception that reaches a handler.\<close>

fun exc_text :: "py_error \<Rightarrow> string" where
  "exc_text (ValueError m) = m"
| "exc_text (KeyError k) = py_repr k"
| "exc_text IndexError = ''list index out of range''"
| "exc_text (TypeError m) = m"
| "exc_text IntegrityError = ''UNIQUE constraint failed''"
| "exc_text (RuntimeError m) = m"
| "exc_text (PermissionError m) = m"
| "exc_text (LookupError m) = m"
| "exc_text (OSError m) = m"
| "exc_text (AttributeError m) = m"
| "exc_text InvalidSignature = []"
| "exc_text (HTTPException _ m) = m"

definition text_lines :: "string list \<Rightarrow> string" where
  "text_lines ls = concat (map (\<lambda>l. l @ [CHR 0x0A]) ls)"

section \<open>Rounding\<close>

text \<open>\<open>round\<close> rounds halves to the even neighbour.\<close>

definition py_round :: "rat \<Rightarrow> int" where
  "py_round q =
     (let f = \<lfloor>q\<rfloor>; d = q - of_int f in
      if d < 1 / 2 then f else if 1 / 2 < d then f + 1 else if even f then f else f + 1)"

text \<open>\<open>round(q, n)\<close> on exact numbers.\<close>

definition round_to :: "nat \<Rightarrow> rat \<Rightarrow> rat" where
  "round_to n q = of_int (py_round (q * 10 ^ n)) / 10 ^ n"

section \<open>Operations on a store\<close>

type_synonym ('a, 's) op = "'s \<Rightarrow> (py_error + 'a) \<times> 's"

definition op_ret :: "'a \<Rightarrow> ('a, 's) op" where
  "op_ret a s = (Inr a, s)"

definition op_raise :: "py_error \<Rightarrow> ('a, 's) op" where
  "op_raise e s = (Inl e, s)"

definition op_bind :: "('a, 's) op \<Rightarrow> ('a \<Rightarrow> ('b, 's) op) \<Rightarrow> ('b, 's) op" where
  "op_bind m f s = (case m s of (Inl e, s1) \<Rightarrow> (Inl e, s1) | (Inr a, s1) \<Rightarrow> f a s1)"

definition op_upd :: "('s \<Rightarrow> 's) \<Rightarrow> (unit, 's) op" where
  "op_upd f s = (Inr (), f s)"

definition op_lift :: "py_error + 'a \<Rightarrow> ('a, 's) op" where
  "op_lift r s = (r, s)"

definition op_gets :: "('s \<Rightarrow> 'a) \<Rightarrow> ('a, 's) op" where
  "op_gets f s = (Inr (f s), s)"

text \<open>\<open>try: m; except Exception as exc: h exc\<close>.\<close>

definition op_try :: "('a, 's) op \<Rightarrow> (py_error \<Rightarrow> ('a, 's) op) \<Rightarrow> ('a, 's) op" where
  "op_try m h s = (case m s of (Inl e, s1) \<Rightarrow> h e s1 | (Inr a, s1) \<Rightarrow> (Inr a, s1))"

text \<open>\<open>INSERT\<close> of a row whose key is unique.\<close>

definition insert_row :: "('r \<Rightarrow> 'k) \<Rightarrow> 'r \<Rightarrow> 'r list \<Rightarrow> py_error + 'r list" where
  "insert_row key r rows = (if key r \<in> key ` set rows then Inl IntegrityError else Inr (rows @ [r]))"

lemma op_bindE:
  assumes "op_bind m f s = (Inr b, s')"
  obtains a s1 where "m s = (Inr a, s1)" "f a s1 = (Inr b, s')"
  using assms by (auto simp: op_bind_def split: prod.splits sum.splits)

text \<open>\<open>keeps P m\<close>: the operation never leaves \<open>P\<close>, whether it returns or raises.\<close>

definition keeps :: "('s \<Rightarrow> bool) \<Rightarrow> ('a, 's) op \<Rightarrow> bool" where
  "keeps P m \<longleftrightarrow> (\<forall>s. P s \<longrightarrow> P (snd (m s)))"

named_theorems keeps_intros \<open>operations that keep a predicate\<close>

lemma keepsD: "keeps P m \<Longrightarrow> P s \<Longrightarrow> P (snd (m s))"
  by (simp add: keeps_def)

lemma keeps_ret [keeps_intros]: "keeps P (op_ret a)"
  by (simp add: keeps_def op_ret_def)

lemma keeps_raise [keeps_intros]: "keeps P (op_raise e)"
  by (simp add: keeps_def op_raise_def)

lemma keeps_lift [keeps_intros]: "keeps P (op_lift r)"
  by (simp add: keeps_def op_lift_def)

lemma keeps_gets [keeps_intros]: "keeps P (op_gets f)"
  by (simp add: keeps_def op_gets_def)

lemma keeps_try [keeps_intros]:
  assumes "keeps P m" "\<And>e. keeps P (h e)"
  shows "keeps P (op_try m h)"
  unfolding keeps_def op_try_def
proof (intro allI impI)
  fix s assume "P s"
  then have "P (snd (m s))" by (rule keepsD [OF assms(1)])
  then show "P (snd (case m s of (Inl e, s1) \<Rightarrow> h e s1 | (Inr a, s1) \<Rightarrow> (Inr a, s1)))"
    using keepsD [OF assms(2)] by (auto split: prod.split sum.split)
qed

lemma keeps_upd: "(\<And>s. P s \<Longrightarrow> P (f s)) \<Longrightarrow> keeps P (op_upd f)"
  by (simp add: keeps_def op_upd_def)

lemma keeps_bind [keeps_intros]:
  assumes "keeps P m" "\<And>a. keeps P (f a)"
  shows "keeps P (op_bind m f)"
  unfolding keeps_def op_bind_def
proof (intro allI impI)
  fix s assume "P s"
  then have "P (snd (m s))" by (rule keepsD [OF assms(1)])
  then show "P (snd (case m s of (Inl e, s1) \<Rightarrow> (Inl e, s1) | (Inr a, s1) \<Rightarrow> f a s1))"
    using keepsD [OF assms(2)] by (auto split: prod.split sum.split)
qed

lemma keeps_case_sum [keeps_intros]:
  "(\<And>e. keeps P (f e)) \<Longrightarrow> (\<And>a. keeps P (g a)) \<Longrightarrow> keeps P (case r of Inl e \<Rightarrow> f e | Inr a \<Rightarrow> g a)"
  by (cases r) auto

lemma keeps_case_option [keeps_intros]:
  "keeps P f \<Longrightarrow> (\<And>a. keeps P (g a)) \<Longrightarrow> keeps P (case r of None \<Rightarrow> f | Some a \<Rightarrow> g a)"
  by (cases r) auto

lemma keeps_if [keeps_intros]: "keeps P f \<Longrightarrow> keeps P g \<Longrightarrow> keeps P (if b then f else g)"
  by simp

text \<open>
  \<open>triple P m Q E\<close>: started where \<open>P\<close> holds, the operation returns a value with \<open>Q\<close> or raises an
  exception with \<open>E\<close>.
\<close>

definition triple :: "('s \<Rightarrow> bool) \<Rightarrow> ('a, 's) op \<Rightarrow> ('a \<Rightarrow> 's \<Rightarrow> bool) \<Rightarrow> (py_error \<Rightarrow> 's \<Rightarrow> bool) \<Rightarrow> bool" where
  "triple P m Q E \<longleftrightarrow> (\<forall>s. P s \<longrightarrow> (case fst (m s) of Inl e \<Rightarrow> E e (snd (m s)) | Inr a \<Rightarrow> Q a (snd (m s))))"

lemma tripleI:
  assumes "\<And>s a t. P s \<Longrightarrow> m s = (Inr a, t) \<Longrightarrow> Q a t" "\<And>s e t. P s \<Longrightarrow> m s = (Inl e, t) \<Longrightarrow> E e t"
  shows "triple P m Q E"
  unfolding triple_def
proof (intro allI impI)
  fix s assume P: "P s"
  show "case fst (m s) of Inl e \<Rightarrow> E e (snd (m s)) | Inr a \<Rightarrow> Q a (snd (m s))"
  proof (cases "fst (m s)")
    case (Inl e)
    then have "m s = (Inl e, snd (m s))" by (metis prod.collapse)
    with Inl assms(2) [OF P] show ?thesis by simp
  next
    case (Inr a)
    then have "m s = (Inr a, snd (m s))" by (metis prod.collapse)
    with Inr assms(1) [OF P] show ?thesis by simp
  qed
qed

lemma triple_retD: "triple P m Q E \<Longrightarrow> P s \<Longrightarrow> m s = (Inr a, t) \<Longrightarrow> Q a t"
  unfolding triple_def by (metis fst_conv snd_conv sum.simps(6))

lemma triple_excD: "triple P m Q E \<Longrightarrow> P s \<Longrightarrow> m s = (Inl e, t) \<Longrightarrow> E e t"
  unfolding triple_def by (metis fst_conv snd_conv sum.simps(5))

lemma triple_ret: "(\<And>s. P s \<Longrightarrow> Q a s) \<Longrightarrow> triple P (op_ret a) Q E"
  by (simp add: triple_def op_ret_def)

lemma triple_raise: "(\<And>s. P s \<Longrightarrow> E e s) \<Longrightarrow> triple P (op_raise e) Q E"
  by (simp add: triple_def op_raise_def)

lemma triple_upd: "(\<And>s. P s \<Longrightarrow> Q () (f s)) \<Longrightarrow> triple P (op_upd f) Q E"
  by (simp add: triple_def op_upd_def)

lemma triple_lift:
  assumes "\<And>s a. P s \<Longrightarrow> r = Inr a \<Longrightarrow> Q a s" "\<And>s e. P s \<Longrightarrow> r = Inl e \<Longrightarrow> E e s"
  shows "triple P (op_lift r) Q E"
  using assms by (cases r) (simp_all add: triple_def op_lift_def)

lemma triple_gets: "(\<And>s. P s \<Longrightarrow> Q (f s) s) \<Longrightarrow> triple P (op_gets f) Q E"
  by (simp add: triple_def op_gets_def)

lemma triple_bind:
  assumes m: "triple P m R E" and f: "\<And>a. triple (R a) (f a) Q E"
  shows "triple P (op_bind m f) Q E"
proof (rule tripleI)
  fix s b t assume P: "P s" and "op_bind m f s = (Inr b, t)"
  then obtain a s1 where "m s = (Inr a, s1)" "f a s1 = (Inr b, t)"
    by (auto elim: op_bindE)
  then show "Q b t" using triple_retD [OF m P] triple_retD [OF f] by blast
next
  fix s e t assume P: "P s" and b: "op_bind m f s = (Inl e, t)"
  show "E e t"
  proof (cases "m s")
    case (Pair r s1)
    show ?thesis
    proof (cases r)
      case (Inl e')
      with Pair b have "m s = (Inl e, t)" by (simp add: op_bind_def)
      then show ?thesis using triple_excD [OF m P] by blast
    next
      case (Inr a)
      with Pair b have "f a s1 = (Inl e, t)" by (simp add: op_bind_def)
      then show ?thesis using triple_retD [OF m P] triple_excD [OF f] Pair Inr by blast
    qed
  qed
qed

lemma triple_try:
  assumes m: "triple P m Q R" and h: "\<And>e. triple (R e) (h e) Q E"
  shows "triple P (op_try m h) Q E"
proof (rule tripleI)
  fix s a t assume P: "P s" and t: "op_try m h s = (Inr a, t)"
  obtain r s1 where ms: "m s = (r, s1)" by (cases "m s") auto
  show "Q a t"
  proof (cases r)
    case (Inl e)
    with ms t triple_excD [OF m P] triple_retD [OF h] show ?thesis by (simp add: op_try_def)
  next
    case (Inr b)
    with ms t triple_retD [OF m P] show ?thesis by (simp add: op_try_def)
  qed
next
  fix s e t assume P: "P s" and t: "op_try m h s = (Inl e, t)"
  obtain r s1 where ms: "m s = (r, s1)" by (cases "m s") auto
  show "E e t"
  proof (cases r)
    case (Inl e')
    with ms t triple_excD [OF m P] triple_excD [OF h] show ?thesis by (simp add: op_try_def)
  next
    case (Inr b)
    with ms t show ?thesis by (simp add: op_try_def)
  qed
qed

lemma triple_weaken:
  assumes "triple P' m Q' E'" "\<And>s. P s \<Longrightarrow> P' s" "\<And>a s. Q' a s \<Longrightarrow> Q a s" "\<And>e s. E' e s \<Longrightarrow> E e s"
  shows "triple P m Q E"
proof (rule tripleI)
  fix s a t assume "P s" "m s = (Inr a, t)"
  then show "Q a t" using triple_retD [OF assms(1)] assms(2,3) by blast
next
  fix s e t assume "P s" "m s = (Inl e, t)"
  then show "E e t" using triple_excD [OF assms(1)] assms(2,4) by blast
qed

lemma triple_conj:
  assumes "triple P m Q E" "triple P' m Q' E'"
  shows "triple (\<lambda>s. P s \<and> P' s) m (\<lambda>a s. Q a s \<and> Q' a s) (\<lambda>e s. E e s \<and> E' e s)"
  using triple_retD [OF assms(1)] triple_excD [OF assms(1)] triple_retD [OF assms(2)] triple_excD [OF assms(2)]
  by (intro tripleI) blast+

end
