(* ===== verification/FleetClients.thy ===== *)
theory FleetClients
  imports FleetReach PyText
begin

text \<open>
  The programs that drive the orchestrator: the embedded worker (\<^verbatim>\<open>evoagent_fleet/worker.py\<close>), the
  HTTP handlers (\<^verbatim>\<open>evoagent_fleet/api.py\<close>), the offline demonstration of the command line
  (\<^verbatim>\<open>evoagent_fleet/cli.py\<close>), the demo coordinator of the control plane (\<^verbatim>\<open>evoagent_os/demo.py\<close>) and the
  requests of the reference worker (\<^verbatim>\<open>evoagent_worker/cli.py\<close>). Each reading of the clock and each
  identifier a client causes is an argument.
\<close>

section \<open>The embedded worker\<close>

text \<open>
  \<open>run_once\<close>: register, claim, run the handler, complete; an exception of the handler or of the
  completion is reported with \<open>fail\<close>, whose own exception propagates. The four clock readings
  are those of the four calls.
\<close>

definition run_once :: "(string \<Rightarrow> string) \<Rightarrow> (nat \<Rightarrow> string) \<Rightarrow> string \<Rightarrow> clock \<Rightarrow> clock \<Rightarrow> clock \<Rightarrow> clock
    \<Rightarrow> worker_registration \<Rightarrow> (lease \<Rightarrow> py_error + completion) \<Rightarrow> fleet
    \<Rightarrow> (py_error + bool) \<times> fleet" where
  "run_once sha uuid hex t0 t1 t2 t3 registration handler s =
     (let wid = wr_worker_id registration; s0 = fleet_register t0 registration s in
      case fleet_claim hex t1 wid None s0 of
        (Inl e, s1) \<Rightarrow> (Inl e, s1)
      | (Inr None, s1) \<Rightarrow> (Inr False, s1)
      | (Inr (Some l), s1) \<Rightarrow>
          let attempt = (case handler l of
                Inl e \<Rightarrow> (Inl e, s1)
              | Inr result \<Rightarrow> fleet_complete sha uuid t2 wid (l_lease_token l) result s1) in
          (case attempt of
             (Inr _, s2) \<Rightarrow> (Inr True, s2)
           | (Inl e, s2) \<Rightarrow>
               (case fleet_fail t3 wid (l_lease_token l) (exc_text e) True s2 of
                  (Inl e', s3) \<Rightarrow> (Inl e', s3)
                | (Inr _, s3) \<Rightarrow> (Inr True, s3))))"

section \<open>The HTTP handlers\<close>

text \<open>Each handler turns the \<open>ValueError\<close> of the call into one status code.\<close>

definition value_error_as :: "nat \<Rightarrow> py_error + 'a \<Rightarrow> py_error + 'a" where
  "value_error_as code r =
     (case r of Inl (ValueError m) \<Rightarrow> Inl (HTTPException code m) | _ \<Rightarrow> r)"

definition clamp_limit :: "int \<Rightarrow> int" where
  "clamp_limit limit = min (max limit 1) 100"

definition health_handler :: "fleet \<Rightarrow> nat \<times> nat" where
  "health_handler s = (rowcount (\<lambda>w. w_status w = W_RUNNING) (f_workflows s),
     rowcount (\<lambda>w. wk_status w = ''online'') (f_workers s))"

definition workflows_handler :: "int \<Rightarrow> fleet \<Rightarrow> workflow list" where
  "workflows_handler limit s = list_workflows (clamp_limit limit) s"

definition workflow_handler :: "string \<Rightarrow> fleet \<Rightarrow> py_error + (workflow \<times> node list)" where
  "workflow_handler workflow_id s = value_error_as 404 (fleet_view workflow_id s)"

definition submit_handler :: "string \<Rightarrow> clock \<Rightarrow> workflow_spec \<Rightarrow> fleet \<Rightarrow> (py_error + string) \<times> fleet"
  where
  "submit_handler hex clk spec s =
     (case validate_workflow_spec spec of
        Inl (ValueError m) \<Rightarrow> (Inl (HTTPException 422 m), s)
      | Inl e \<Rightarrow> (Inl e, s)
      | Inr _ \<Rightarrow> fleet_submit hex clk spec s)"

definition claim_handler :: "string \<Rightarrow> clock \<Rightarrow> string \<Rightarrow> fleet
    \<Rightarrow> (py_error + lease option) \<times> fleet" where
  "claim_handler hex clk worker_id s =
     apfst (value_error_as 404) (fleet_claim hex clk worker_id None s)"

definition heartbeat_handler :: "clock \<Rightarrow> string \<Rightarrow> string \<Rightarrow> fleet \<Rightarrow> (py_error + clock) \<times> fleet" where
  "heartbeat_handler clk worker_id token s =
     apfst (value_error_as 409) (heartbeat clk worker_id token s)"

definition complete_handler :: "(string \<Rightarrow> string) \<Rightarrow> (nat \<Rightarrow> string) \<Rightarrow> clock \<Rightarrow> string \<Rightarrow> string
    \<Rightarrow> completion \<Rightarrow> fleet \<Rightarrow> (py_error + (string \<times> string \<times> artifact list)) \<times> fleet" where
  "complete_handler sha uuid clk worker_id token result s =
     apfst (value_error_as 409) (fleet_complete sha uuid clk worker_id token result s)"

definition fail_handler :: "clock \<Rightarrow> string \<Rightarrow> string \<Rightarrow> string \<Rightarrow> bool \<Rightarrow> fleet
    \<Rightarrow> (py_error + string) \<times> fleet" where
  "fail_handler clk worker_id token error retryable s =
     apfst (\<lambda>r. map_sum id (\<lambda>_. ''recorded'') (value_error_as 409 r))
       (fleet_fail clk worker_id token error retryable s)"

definition approval_handler :: "clock \<Rightarrow> string \<Rightarrow> string \<Rightarrow> bool \<Rightarrow> string \<Rightarrow> fleet
    \<Rightarrow> (py_error + string) \<times> fleet" where
  "approval_handler clk workflow_id node_id approved actor s =
     apfst (\<lambda>r. map_sum id (\<lambda>_. if approved then ''approved'' else ''denied'') (value_error_as 409 r))
       (fleet_approve clk workflow_id node_id approved actor s)"

definition events_handler :: "int \<Rightarrow> fleet \<Rightarrow> event list" where
  "events_handler after s = fleet_events (nat (max after 0)) 200 s"

section \<open>The demo coordinator\<close>

definition demo_worker_id :: string where
  "demo_worker_id = ''worker_local_deterministic''"

definition demo_capabilities :: "string list" where
  "demo_capabilities = [''research'', ''analysis'', ''writing'', ''artifacts'', ''citations'']"

definition demo_registration :: worker_registration where
  "demo_registration = \<lparr>wr_worker_id = demo_worker_id, wr_capabilities = demo_capabilities,
     wr_pool = ''offline-deterministic'', wr_max_concurrency = 2,
     wr_metadata = JObj [(''provider'', JStr ''offline''), (''reproducible'', JBool True)]\<rparr>"

text \<open>The defaults of \<open>NodeSpec\<close>.\<close>

definition plain_node :: "string \<Rightarrow> string \<Rightarrow> node_spec" where
  "plain_node nid objective = \<lparr>ns_id = nid, ns_objective = objective, ns_depends_on = [],
     ns_capabilities = [], ns_input = JObj [],
     ns_budget = \<lparr>b_tokens = 50000, b_cost_usd = 5, b_seconds = 600\<rparr>,
     ns_approval_required = False, ns_max_attempts = 3\<rparr>"

definition market_spec :: "string \<Rightarrow> workflow_spec" where
  "market_spec workspace_id =
     \<lparr>ws_name = ''AI agent market intelligence brief'',
      ws_nodes =
       [(plain_node ''research'' ''Collect a source ledger and segment the enterprise agent market'')
          \<lparr>ns_capabilities := [''research'', ''citations''],
           ns_budget := \<lparr>b_tokens = 12000, b_cost_usd = 35 / 100, b_seconds = 90\<rparr>\<rparr>,
        (plain_node ''analysis'' ''Score opportunities by urgency, willingness to pay, and delivery risk'')
          \<lparr>ns_depends_on := [''research''], ns_capabilities := [''analysis''],
           ns_budget := \<lparr>b_tokens = 8000, b_cost_usd = 25 / 100, b_seconds = 60\<rparr>\<rparr>,
        (plain_node ''draft'' ''Create an evidence-linked executive brief and recommendation'')
          \<lparr>ns_depends_on := [''analysis''], ns_capabilities := [''writing'', ''artifacts''],
           ns_budget := \<lparr>b_tokens = 10000, b_cost_usd = 30 / 100, b_seconds = 90\<rparr>\<rparr>,
        (plain_node ''publish'' ''Publish approved Markdown, HTML, and CSV deliverables'')
          \<lparr>ns_depends_on := [''draft''], ns_capabilities := [''artifacts''],
           ns_budget := \<lparr>b_tokens = 2000, b_cost_usd = 5 / 100, b_seconds = 30\<rparr>,
           ns_approval_required := True\<rparr>],
      ws_metadata = JObj [(''workspace_id'', JStr workspace_id), (''scenario'', JStr ''market-research''),
        (''provider'', JStr ''deterministic/offline'')]\<rparr>"

definition node_default :: "(string \<times> 'a) list \<Rightarrow> 'a \<Rightarrow> string \<Rightarrow> 'a" where
  "node_default table other nid = (case map_of table nid of Some x \<Rightarrow> x | None \<Rightarrow> other)"

definition demo_output :: "string \<Rightarrow> json" where
  "demo_output nid =
     (if nid = ''research''
      then JObj [(''segments'', JInt 4), (''sources'', JInt 6), (''confidence'', JNum (86 / 100))]
      else if nid = ''analysis''
      then JObj [(''leading_opportunity'', JStr ''governed durable agent operations''),
                 (''quality'', JNum (91 / 100)),
                 (''risks'', JArr [JStr ''integration cost'', JStr ''evaluation drift'',
                                   JStr ''permission scope''])]
      else if nid = ''draft''
      then JObj [(''recommendation'', JStr ''Launch a governed operations pilot''),
                 (''quality'', JNum (93 / 100))]
      else JObj [(''published'', JBool True),
                 (''formats'', JArr [JStr ''markdown'', JStr ''html'', JStr ''csv''])])"

definition demo_artifacts :: "string \<Rightarrow> (string \<times> string) list" where
  "demo_artifacts nid =
     (if nid = ''research'' then
        [(''source-ledger.md'', text_lines
           [''# Source ledger'', '''',
            ''Offline demonstration evidence set with six traceable synthetic records.'',
            ''Replace these fixtures with approved connectors in a live workspace.''])]
      else if nid = ''analysis'' then
        [(''opportunity-score.csv'', text_lines
           [''segment,urgency,willingness_to_pay,delivery_risk,score'',
            ''regulated-operations,0.92,0.88,0.54,0.86'',
            ''knowledge-workflows,0.80,0.76,0.38,0.79'',
            ''consumer-assistants,0.61,0.42,0.65,0.49''])]
      else if nid = ''draft'' then
        [(''executive-brief-draft.md'', text_lines
           [''# Executive brief'', '''', ''## Recommendation'', '''',
            ''Prioritize governed, durable agent workflows where auditability and recovery are buying criteria.'',
            '''', ''## Evidence'', '''',
            ''The deterministic demo preserves provenance, budget accounting, and approval state.''])]
      else
        [(''market-brief.md'', text_lines
           [''# Governed Agent Market Brief'', '''', ''Approved release artifact.'']),
         (''market-brief.html'',
           ''<!doctype html><html><body><main><h1>Governed Agent Market Brief</h1>'' @
           ''<p>Approved release artifact with traceable provenance.</p></main></body></html>''),
         (''evidence.csv'', text_lines
           [''claim,source,confidence'', ''Auditability drives adoption,fixture-001,0.86''])])"

definition demo_completion :: "string \<Rightarrow> completion" where
  "demo_completion nid =
     \<lparr>c_output = demo_output nid, c_artifacts = demo_artifacts nid,
      c_tokens_used = node_default [(''research'', 4200), (''analysis'', 2700), (''draft'', 3100)] 650 nid,
      c_cost_usd = node_default [(''research'', 11 / 100), (''analysis'', 7 / 100), (''draft'', 9 / 100)]
        (1 / 100) nid,
      c_duration_seconds = node_default [(''research'', 28 / 10), (''analysis'', 17 / 10), (''draft'', 21 / 10)]
        (4 / 10) nid,
      c_quality = node_default [(''research'', 86 / 100), (''analysis'', 91 / 100), (''draft'', 93 / 100)]
        (95 / 100) nid\<rparr>"

text \<open>
  \<open>drain\<close>: the loop body runs at most once per entry of \<open>ticks\<close>, which carries what the iteration
  draws: the digits of the token, the clock readings of the two calls and the artifact ids. The
  code's \<open>range(100)\<close> is a list of 100 entries.
\<close>

type_synonym tick = "string \<times> clock \<times> clock \<times> (nat \<Rightarrow> string)"

definition drain_claim :: "string \<Rightarrow> tick \<Rightarrow> fleet \<Rightarrow> (py_error + lease option) \<times> fleet" where
  "drain_claim workflow_id t s =
     (case t of (hex, t1, _, _) \<Rightarrow> fleet_claim hex t1 demo_worker_id (Some workflow_id) s)"

definition drain_complete :: "(string \<Rightarrow> string) \<Rightarrow> tick \<Rightarrow> lease \<Rightarrow> fleet
    \<Rightarrow> (py_error + (string \<times> string \<times> artifact list)) \<times> fleet" where
  "drain_complete sha t l s =
     (case t of (_, _, t2, uuid) \<Rightarrow>
        fleet_complete sha uuid t2 demo_worker_id (l_lease_token l) (demo_completion (l_node_id l)) s)"

fun drain :: "(string \<Rightarrow> string) \<Rightarrow> string \<Rightarrow> tick list \<Rightarrow> fleet \<Rightarrow> (py_error + string list) \<times> fleet" where
  "drain sha workflow_id [] s = (Inr [], s)"
| "drain sha workflow_id (t # ticks) s =
     (case drain_claim workflow_id t s of
        (Inl e, s1) \<Rightarrow> (Inl e, s1)
      | (Inr None, s1) \<Rightarrow> (Inr [], s1)
      | (Inr (Some l), s1) \<Rightarrow>
          (case drain_complete sha t l s1 of
             (Inl e, s2) \<Rightarrow> (Inl e, s2)
           | (Inr _, s2) \<Rightarrow>
               (case drain sha workflow_id ticks s2 of
                  (Inl e, s3) \<Rightarrow> (Inl e, s3)
                | (Inr completed, s3) \<Rightarrow> (Inr (l_node_id l # completed), s3))))"

definition launch :: "(string \<Rightarrow> string) \<Rightarrow> string \<Rightarrow> clock \<Rightarrow> tick list \<Rightarrow> string \<Rightarrow> fleet
    \<Rightarrow> (py_error + (string \<times> workflow_status \<times> string list \<times> string)) \<times> fleet" where
  "launch sha hex clk ticks workspace_id s =
     (case fleet_submit hex clk (market_spec workspace_id) s of
        (Inl e, s1) \<Rightarrow> (Inl e, s1)
      | (Inr workflow_id, s1) \<Rightarrow>
          (case drain sha workflow_id ticks s1 of
             (Inl e, s2) \<Rightarrow> (Inl e, s2)
           | (Inr completed, s2) \<Rightarrow>
               (case fleet_view workflow_id s2 of
                  Inl e \<Rightarrow> (Inl e, s2)
                | Inr (w, _) \<Rightarrow>
                    (Inr (workflow_id, w_status w, completed,
                          ''fleet:'' @ workflow_id @ '':publish''), s2))))"

definition demo_coordinator :: "clock \<Rightarrow> fleet \<Rightarrow> fleet" where
  "demo_coordinator clk s = fleet_register clk demo_registration s"

section \<open>The offline demonstration of the fleet command line\<close>

definition release_spec :: workflow_spec where
  "release_spec =
     \<lparr>ws_name = ''release-readiness'',
      ws_nodes =
       [(plain_node ''research'' ''Collect release evidence'')\<lparr>ns_capabilities := [''research'']\<rparr>,
        (plain_node ''review'' ''Review evidence'')
          \<lparr>ns_depends_on := [''research''], ns_capabilities := [''review'']\<rparr>,
        (plain_node ''publish'' ''Publish approved report'')
          \<lparr>ns_depends_on := [''review''], ns_capabilities := [''publish''], ns_approval_required := True\<rparr>],
      ws_metadata = JObj []\<rparr>"

definition cli_worker :: "(string \<Rightarrow> string) \<Rightarrow> tick \<Rightarrow> string \<times> string \<Rightarrow> fleet \<Rightarrow> (py_error + unit) \<times> fleet" where
  "cli_worker sha t wc s =
     (case t of (hex, t1, t2, uuid) \<Rightarrow> case wc of (worker_id, capability) \<Rightarrow>
      let s0 = fleet_register t1 \<lparr>wr_worker_id = worker_id, wr_capabilities = [capability],
             wr_pool = capability, wr_max_concurrency = 1, wr_metadata = JObj []\<rparr> s in
      case fleet_claim hex t1 worker_id None s0 of
        (Inl e, s1) \<Rightarrow> (Inl e, s1)
      | (Inr None, s1) \<Rightarrow> (Inr (), s1)
      | (Inr (Some l), s1) \<Rightarrow>
          (case fleet_complete sha uuid t2 worker_id (l_lease_token l)
                  \<lparr>c_output = JObj [(''result'', JStr (capability @ '' complete''))],
                   c_artifacts = [(capability @ ''.md'', ''verified'')], c_tokens_used = 0,
                   c_cost_usd = 0, c_duration_seconds = 0, c_quality = 1\<rparr> s1 of
             (Inl e, s2) \<Rightarrow> (Inl e, s2)
           | (Inr _, s2) \<Rightarrow> (Inr (), s2)))"

definition fleet_demo :: "(string \<Rightarrow> string) \<Rightarrow> string \<Rightarrow> clock \<Rightarrow> tick \<Rightarrow> tick \<Rightarrow> fleet
    \<Rightarrow> (py_error + (workflow \<times> node list)) \<times> fleet" where
  "fleet_demo sha hex clk ta tb s =
     (case fleet_submit hex clk release_spec s of
        (Inl e, s1) \<Rightarrow> (Inl e, s1)
      | (Inr workflow_id, s1) \<Rightarrow>
          (case cli_worker sha ta (''researcher-1'', ''research'') s1 of
             (Inl e, s2) \<Rightarrow> (Inl e, s2)
           | (Inr _, s2) \<Rightarrow>
               (case cli_worker sha tb (''reviewer-1'', ''review'') s2 of
                  (Inl e, s3) \<Rightarrow> (Inl e, s3)
                | (Inr _, s3) \<Rightarrow> (fleet_view workflow_id s3, s3))))"

section \<open>The requests of the reference worker\<close>

definition remote_registration :: "string \<Rightarrow> string list \<Rightarrow> worker_registration" where
  "remote_registration worker_id capabilities =
     \<lparr>wr_worker_id = worker_id, wr_capabilities = capabilities, wr_pool = ''reference-remote'',
      wr_max_concurrency = 1,
      wr_metadata = JObj [(''executor'', JStr ''deterministic''), (''arbitrary_code'', JBool False)]\<rparr>"

definition remote_completion :: "lease \<Rightarrow> completion" where
  "remote_completion l =
     \<lparr>c_output = JObj [(''objective'', JStr (l_objective l)), (''status'', JStr ''completed''),
        (''executor'', JStr ''reference-deterministic'')],
      c_artifacts = [(''worker-result.md'', text_lines
        [''# Worker result'', '''', ''Objective: '' @ l_objective l, '''',
         ''This bounded reference worker does not execute arbitrary code.''])],
      c_tokens_used = min 128 (b_tokens (l_budget l)), c_cost_usd = 0,
      c_duration_seconds = 1 / 100, c_quality = 1\<rparr>"

section \<open>Draining a workflow\<close>

text \<open>
  What the coordinator relies on, tick by tick: a node claimed is one not completed yet, and the
  completion that follows, when accepted, adds exactly that node to the completed ones.
\<close>

locale lease_service =
  fixes ok :: "'t list \<Rightarrow> 's \<Rightarrow> bool"
    and claim_at :: "'t \<Rightarrow> 's \<Rightarrow> ('e + 'l option) \<times> 's"
    and complete_at :: "'t \<Rightarrow> 'l \<Rightarrow> 's \<Rightarrow> ('e + 'a) \<times> 's"
    and node_of :: "'l \<Rightarrow> string"
    and completed :: "'s \<Rightarrow> string set"
  assumes idle: "ok (t # ts) s \<Longrightarrow> claim_at t s = (Inr None, s1) \<Longrightarrow> completed s1 = completed s"
    and work: "ok (t # ts) s \<Longrightarrow> claim_at t s = (Inr (Some l), s1) \<Longrightarrow>
      complete_at t l s1 = (Inr r, s2) \<Longrightarrow>
      ok ts s2 \<and> node_of l \<notin> completed s \<and> completed s2 = insert (node_of l) (completed s)"
begin

fun drain_all :: "'t list \<Rightarrow> 's \<Rightarrow> ('e + string list) \<times> 's" where
  "drain_all [] s = (Inr [], s)"
| "drain_all (t # ts) s =
     (case claim_at t s of
        (Inl e, s1) \<Rightarrow> (Inl e, s1)
      | (Inr None, s1) \<Rightarrow> (Inr [], s1)
      | (Inr (Some l), s1) \<Rightarrow>
          (case complete_at t l s1 of
             (Inl e, s2) \<Rightarrow> (Inl e, s2)
           | (Inr _, s2) \<Rightarrow>
               (case drain_all ts s2 of
                  (Inl e, s3) \<Rightarrow> (Inl e, s3)
                | (Inr ids, s3) \<Rightarrow> (Inr (node_of l # ids), s3))))"

lemma drain_all_exact:
  "ok ts s \<Longrightarrow> drain_all ts s = (Inr ids, s') \<Longrightarrow>
     distinct ids \<and> set ids \<inter> completed s = {} \<and> completed s' = completed s \<union> set ids"
proof (induction ts arbitrary: s ids s')
  case (Cons t ts)
  obtain r s1 where c: "claim_at t s = (r, s1)" by fastforce
  obtain o1 where r: "r = Inr o1" using c Cons.prems(2) by (cases r) auto
  show ?case
  proof (cases o1)
    case None
    with c r Cons.prems idle [of t ts s s1] show ?thesis by auto
  next
    case (Some l)
    obtain q s2 where d: "complete_at t l s1 = (q, s2)" by fastforce
    then obtain y rest where y: "q = Inr y" and rest: "drain_all ts s2 = (Inr rest, s')"
      and ids: "ids = node_of l # rest"
      using c r Some Cons.prems(2) by (auto split: sum.splits prod.splits)
    from work [OF Cons.prems(1) c [unfolded r Some] d [unfolded y]] Cons.IH [OF _ rest] ids
    show ?thesis by auto
  qed
qed simp

end

definition completed_in :: "string \<Rightarrow> fleet \<Rightarrow> string set" where
  "completed_in wid s = {p. \<exists>n \<in> set (f_nodes s). node_key n = (wid, p) \<and> n_status n = N_COMPLETED}"

definition tokens_in :: "fleet \<Rightarrow> string set" where
  "tokens_in s = {tok. \<exists>n \<in> set (f_nodes s). n_lease_token n = Some tok}"

definition tick_token :: "tick \<Rightarrow> string" where
  "tick_token t = identifier_of ''lease'' (fst t)"

text \<open>The tokens still to be drawn are pairwise different and not in use.\<close>

definition drain_ok :: "string \<Rightarrow> tick list \<Rightarrow> fleet \<Rightarrow> bool" where
  "drain_ok wid ts s \<longleftrightarrow> fleet_inv s \<and> wid \<noteq> [] \<and> distinct (map tick_token ts)
     \<and> (\<forall>t \<in> set ts. tick_token t \<notin> tokens_in s)"

lemma completed_in_map:
  assumes "f_nodes s' = map F (f_nodes s)"
    and "\<And>n. n \<in> set (f_nodes s) \<Longrightarrow> node_key (F n) = node_key n
      \<and> (n_status (F n) = N_COMPLETED \<longleftrightarrow> n_status n = N_COMPLETED \<or> P n)"
  shows "completed_in wid s' = completed_in wid s \<union> {p. \<exists>n \<in> set (f_nodes s). node_key n = (wid, p) \<and> P n}"
proof -
  have "(\<exists>m \<in> set (f_nodes s'). node_key m = (wid, p) \<and> n_status m = N_COMPLETED) \<longleftrightarrow>
      (\<exists>n \<in> set (f_nodes s). node_key n = (wid, p) \<and> (n_status n = N_COMPLETED \<or> P n))" for p
    unfolding assms(1) by (simp only: set_map bex_simps(7)) (rule bex_cong [OF refl], use assms(2) in metis)
  then show ?thesis
    unfolding completed_in_def by blast
qed

lemma completed_in_same:
  assumes "f_nodes s' = map F (f_nodes s)"
    and "\<And>n. n \<in> set (f_nodes s) \<Longrightarrow> node_key (F n) = node_key n
      \<and> (n_status (F n) = N_COMPLETED \<longleftrightarrow> n_status n = N_COMPLETED)"
  shows "completed_in wid s' = completed_in wid s"
  using completed_in_map [OF assms(1), of "\<lambda>_. False" wid] assms(2) by simp

lemma sweep_completed:
  assumes "fleet_inv s"
  shows "completed_in wid (snd (sweep_expired clk s)) = completed_in wid s"
  by (rule completed_in_same [OF sweep_nodes [OF fleet_inv_nodes(1) [OF assms]]])
    (simp add: is_expired_def expire_node_def)

lemma completed_in_cong: "f_nodes s' = f_nodes s \<Longrightarrow> completed_in wid s' = completed_in wid s"
  by (simp add: completed_in_def)

lemma claim_completed:
  assumes inv: "fleet_inv s"
  shows "completed_in wid (snd (fleet_claim hex clk worker_id scope s)) = completed_in wid s"
proof -
  obtain r s' where eq: "fleet_claim hex clk worker_id scope s = (r, s')" by fastforce
  let ?s1 = "snd (sweep_expired clk s)"
  from eq have "completed_in wid s' = completed_in wid ?s1"
  proof (cases rule: claim_cases)
    case (2 row l)
    then show ?thesis
      by (intro completed_in_same [OF 2(9) [unfolded upd_where_def]]) (auto simp: lease_node_def)
  qed simp
  then show ?thesis using eq sweep_completed [OF inv] by simp
qed

lemma claim_not_completed:
  assumes inv: "fleet_inv s" and eq: "fleet_claim hex clk worker_id (Some wid) s = (Inr (Some l), s')"
    and "wid \<noteq> []"
  shows "l_workflow_id l = wid" "l_node_id l \<notin> completed_in wid s"
proof -
  let ?s1 = "snd (sweep_expired clk s)"
  obtain row where row: "row \<in> set (f_nodes ?s1)" "n_status row = N_QUEUED" "in_scope (Some wid) row"
    "node_key row = (l_workflow_id l, l_node_id l)"
    using eq by (cases rule: claim_cases) auto
  show w: "l_workflow_id l = wid"
    using row(3,4) assms(3) by (simp add: in_scope_def)
  have inv1: "fleet_inv ?s1" by (rule quiet_inv [OF sweep_quiet [OF inv] inv])
  have "l_node_id l \<notin> completed_in wid ?s1"
  proof
    assume "l_node_id l \<in> completed_in wid ?s1"
    then obtain n where n: "n \<in> set (f_nodes ?s1)" "node_key n = (wid, l_node_id l)"
      "n_status n = N_COMPLETED"
      unfolding completed_in_def by blast
    have "n = row"
      by (rule key_unique [OF inv1 row(1) n(1)]) (use n(2) row(4) w in simp)
    with n(3) row(2) show False by simp
  qed
  then show "l_node_id l \<notin> completed_in wid s"
    by (simp add: sweep_completed [OF inv])
qed

lemma sweep_tokens: "fleet_inv s \<Longrightarrow> tokens_in (snd (sweep_expired clk s)) \<subseteq> tokens_in s"
  by (auto simp: tokens_in_def sweep_nodes [OF fleet_inv_nodes(1)] expire_node_def split: if_splits)

lemma claim_holder:
  assumes inv: "fleet_inv s" and eq: "fleet_claim hex clk worker_id scope s = (Inr (Some l), s')"
    and fresh: "identifier_of ''lease'' hex \<notin> tokens_in s"
  shows "l_lease_token l = identifier_of ''lease'' hex"
    and "tokens_in s' \<subseteq> insert (l_lease_token l) (tokens_in s)"
    and "lease_of t worker_id (l_lease_token l) s' = Inr row \<Longrightarrow>
      node_key row = (l_workflow_id l, l_node_id l)"
    and "\<forall>m \<in> set (f_nodes s'). n_lease_token m = Some (l_lease_token l) \<longrightarrow>
      node_key m = (l_workflow_id l, l_node_id l)"
proof -
  let ?s1 = "snd (sweep_expired clk s)"
  have old: "l_lease_token l \<notin> tokens_in ?s1 \<and> l_lease_token l = identifier_of ''lease'' hex
      \<and> (\<exists>row f. node_key row = (l_workflow_id l, l_node_id l) \<and> f_nodes s' = upd_where
        (\<lambda>n. is_node (n_workflow_id row) (n_node_id row) n \<and> n_status n = N_QUEUED)
        (lease_node worker_id (l_lease_token l) (l_lease_expires l) clk) (f_nodes ?s1))"
    using eq by (cases rule: claim_cases) (use fresh sweep_tokens [OF inv, of clk] in auto)
  then show "l_lease_token l = identifier_of ''lease'' hex" by simp
  have tok: "m \<in> set (f_nodes ?s1) \<or> node_key m = (l_workflow_id l, l_node_id l)
      \<and> n_lease_token m = Some (l_lease_token l)" if "m \<in> set (f_nodes s')" for m
    using old that by (auto simp: set_upd_where lease_node_def split: if_splits)
  then show "tokens_in s' \<subseteq> insert (l_lease_token l) (tokens_in s)"
    using sweep_tokens [OF inv, of clk] by (fastforce simp: tokens_in_def)
  show "\<forall>m \<in> set (f_nodes s'). n_lease_token m = Some (l_lease_token l) \<longrightarrow>
      node_key m = (l_workflow_id l, l_node_id l)"
  proof (intro ballI impI)
    fix m assume m: "m \<in> set (f_nodes s')" "n_lease_token m = Some (l_lease_token l)"
    then have "m \<notin> set (f_nodes ?s1)"
      using old by (auto simp: tokens_in_def)
    with tok [OF m(1)] show "node_key m = (l_workflow_id l, l_node_id l)" by blast
  qed
  assume "lease_of t worker_id (l_lease_token l) s' = Inr row"
  note row = lease_ofD(1,2) [OF this]
  then have "row \<notin> set (f_nodes ?s1)"
    using old by (auto simp: tokens_in_def holds_lease_def)
  with tok [OF row(1)] show "node_key row = (l_workflow_id l, l_node_id l)" by simp
qed

lemma complete_completed:
  assumes inv: "fleet_inv s" and eq: "fleet_complete sha uuid clk worker_id token result s = (Inr r, s')"
  obtains row where "lease_of clk worker_id token s = Inr row" "tokens_in s' \<subseteq> tokens_in s"
    "completed_in wid s' = completed_in wid s
      \<union> (if n_workflow_id row = wid then {n_node_id row} else {})"
proof (cases "\<exists>row as s1. lease_of clk worker_id token s = Inr row \<and> within_budget result row
     \<and> store_artifacts sha uuid clk (n_workflow_id row) (n_node_id row) (c_artifacts result) s = (Inr as, s1)")
  case False
  then have "\<exists>e. fst (fleet_complete sha uuid clk worker_id token result s) = Inl e"
    by (rule complete_refused(2))
  with eq show thesis by simp
next
  case True
  then obtain row as s1 where lease: "lease_of clk worker_id token s = Inr row"
    and bud: "within_budget result row"
    and st: "store_artifacts sha uuid clk (n_workflow_id row) (n_node_id row) (c_artifacts result) s
      = (Inr as, s1)" by blast
  have nodes: "f_nodes s' = advance_map clk (n_workflow_id row) (complete_map row result clk (f_nodes s))"
    using complete_effect(2) [OF inv lease bud st] eq by simp
  let ?c = "s\<lparr>f_nodes := complete_map row result clk (f_nodes s)\<rparr>"
  have row: "row \<in> set (f_nodes s)" by (rule lease_ofD(1) [OF lease])
  have map: "f_nodes s' = map (\<lambda>n. if ready_now (n_workflow_id row) (f_nodes ?c) n
      then make_ready clk n n else n) (f_nodes ?c)"
    by (simp add: nodes advance_map_def)
  have mapc: "f_nodes ?c = map (\<lambda>n. if node_key n = node_key row then complete_node result clk n else n) (f_nodes s)"
    by (simp add: complete_map_def)
  have "completed_in wid s' = completed_in wid ?c"
    by (rule completed_in_same [OF map]) (simp add: make_ready_def ready_now_def ready_status_def)
  also have "\<dots> = completed_in wid s \<union> {p. \<exists>n \<in> set (f_nodes s). node_key n = (wid, p) \<and> node_key n = node_key row}"
    by (rule completed_in_map [OF mapc]) (auto simp: complete_node_def)
  also have "{p. \<exists>n \<in> set (f_nodes s). node_key n = (wid, p) \<and> node_key n = node_key row}
      = (if n_workflow_id row = wid then {n_node_id row} else {})"
    using row by auto
  finally have c: "completed_in wid s' = completed_in wid s
      \<union> (if n_workflow_id row = wid then {n_node_id row} else {})" .
  have "tokens_in s' \<subseteq> tokens_in s"
    by (auto simp: tokens_in_def nodes advance_map_def complete_map_def make_ready_def complete_node_def
        split: if_splits)
  with lease c that show thesis by blast
qed

text \<open>Giving up the row that holds a token leaves no row with it.\<close>

definition token_free :: "string \<Rightarrow> node list \<Rightarrow> bool" where
  "token_free token ns \<longleftrightarrow> (\<forall>n \<in> set ns. n_lease_token n \<noteq> Some token)"

definition token_at :: "string \<Rightarrow> string \<times> string \<Rightarrow> node list \<Rightarrow> bool" where
  "token_at token k ns \<longleftrightarrow> (\<forall>n \<in> set ns. n_lease_token n = Some token \<longrightarrow> node_key n = k)"

lemma clear_token:
  assumes "token_at token (node_key row) ns" "\<And>n. n_lease_token (g n) = None"
  shows "token_free token (map (\<lambda>n. if node_key n = node_key row then g n else n) ns)"
  using assms by (auto simp: token_at_def token_free_def)

lemma complete_clears:
  assumes inv: "fleet_inv s" and one: "token_at token k (f_nodes s)"
    and eq: "fleet_complete sha uuid clk worker_id token result s = (Inr r, s')"
  shows "token_free token (f_nodes s')"
proof (cases "\<exists>row as s1. lease_of clk worker_id token s = Inr row \<and> within_budget result row
     \<and> store_artifacts sha uuid clk (n_workflow_id row) (n_node_id row) (c_artifacts result) s = (Inr as, s1)")
  case False
  then have "\<exists>e. fst (fleet_complete sha uuid clk worker_id token result s) = Inl e"
    by (rule complete_refused(2))
  with eq show ?thesis by simp
next
  case True
  then obtain row as s1 where lease: "lease_of clk worker_id token s = Inr row"
    and bud: "within_budget result row"
    and st: "store_artifacts sha uuid clk (n_workflow_id row) (n_node_id row) (c_artifacts result) s
      = (Inr as, s1)" by blast
  have nodes: "f_nodes s' = advance_map clk (n_workflow_id row) (complete_map row result clk (f_nodes s))"
    using complete_effect(2) [OF inv lease bud st] eq by simp
  have "node_key row = k"
    using lease_ofD(1,2) [OF lease] one by (auto simp: token_at_def holds_lease_def)
  then have "token_free token (complete_map row result clk (f_nodes s))"
    using one unfolding complete_map_def by (intro clear_token) (simp_all add: complete_node_def)
  then show ?thesis
    by (auto simp: nodes token_free_def advance_map_def make_ready_def)
qed

lemma fail_clears:
  assumes inv: "fleet_inv s" and one: "token_at token k (f_nodes s)"
    and eq: "fleet_fail clk worker_id token err retryable s = (Inr r, s')"
  shows "token_free token (f_nodes s')"
proof (cases "lease_of clk worker_id token s")
  case (Inl e)
  with eq show ?thesis by (simp add: fleet_fail_def)
next
  case (Inr row)
  have "node_key row = k"
    using lease_ofD(1,2) [OF Inr] one by (auto simp: token_at_def holds_lease_def)
  with one have "token_free token (f_nodes (snd (fleet_fail clk worker_id token err retryable s)))"
    unfolding fail_effect(2) [OF inv Inr refl] by (intro clear_token) (simp_all add: fail_node_def)
  with eq show ?thesis by simp
qed

lemma complete_error_nodes:
  assumes inv: "fleet_inv s" and eq: "fleet_complete sha uuid clk worker_id token result s = (Inl e, s')"
  shows "f_nodes s' = f_nodes s"
proof (cases "\<exists>row as s1. lease_of clk worker_id token s = Inr row \<and> within_budget result row
     \<and> store_artifacts sha uuid clk (n_workflow_id row) (n_node_id row) (c_artifacts result) s = (Inr as, s1)")
  case True
  then show ?thesis using complete_effect(1) [OF inv] eq by (metis Inl_Inr_False fst_conv)
next
  case False
  have frame: "f_nodes s1 = f_nodes s"
    if "store_artifacts sha uuid clk wid nid items s = (q, s1)" for wid nid items q s1
    using store_artifacts_frame [OF that] by simp
  show ?thesis
    using False eq frame
    by (auto simp: fleet_complete_def within_budget_def not_less split: sum.splits if_splits prod.splits)
qed

lemma drain_work:
  assumes ok: "drain_ok wid (t # ts) s" and claim: "drain_claim wid t s = (Inr (Some l), s1)"
    and complete: "drain_complete sha t l s1 = (Inr r, s2)"
  shows "drain_ok wid ts s2 \<and> l_node_id l \<notin> completed_in wid s
    \<and> completed_in wid s2 = insert (l_node_id l) (completed_in wid s)"
proof -
  obtain hex t1 t2 uuid where t: "t = (hex, t1, t2, uuid)" by (cases t)
  have inv: "fleet_inv s" and wid: "wid \<noteq> []" and fresh: "identifier_of ''lease'' hex \<notin> tokens_in s"
    using ok t by (auto simp: drain_ok_def tick_token_def)
  have c: "fleet_claim hex t1 demo_worker_id (Some wid) s = (Inr (Some l), s1)"
    using claim by (simp add: drain_claim_def t)
  have d: "fleet_complete sha uuid t2 demo_worker_id (l_lease_token l) (demo_completion (l_node_id l)) s1
      = (Inr r, s2)"
    using complete by (simp add: drain_complete_def t)
  have inv1: "fleet_inv s1"
    using claim_quiet [OF inv, of hex t1 demo_worker_id "Some wid"] quiet_inv inv c by (metis snd_conv)
  have inv2: "fleet_inv s2"
    using complete_inv [OF inv1, of sha uuid t2 demo_worker_id "l_lease_token l" "demo_completion (l_node_id l)"]
    by (simp add: d)
  note h = claim_holder [OF inv c fresh]
  note n = claim_not_completed [OF inv c wid]
  obtain row where row: "lease_of t2 demo_worker_id (l_lease_token l) s1 = Inr row"
    "tokens_in s2 \<subseteq> tokens_in s1"
    "completed_in wid s2 = completed_in wid s1 \<union> (if n_workflow_id row = wid then {n_node_id row} else {})"
    by (rule complete_completed [OF inv1 d])
  have "node_key row = (wid, l_node_id l)"
    using h(3) [OF row(1)] n(1) by simp
  then have "completed_in wid s2 = insert (l_node_id l) (completed_in wid s)"
    using row(3) claim_completed [OF inv, of wid hex t1 demo_worker_id "Some wid"] c by auto
  moreover have "drain_ok wid ts s2"
  proof -
    have "tick_token t = l_lease_token l"
      using h(1) by (simp add: t tick_token_def)
    with row(2) h(2) have "tokens_in s2 \<subseteq> insert (tick_token t) (tokens_in s)"
      by auto
    moreover have d: "\<forall>u \<in> set ts. tick_token u \<noteq> tick_token t" "distinct (map tick_token ts)"
      using ok by (auto simp: drain_ok_def image_iff)
    moreover have "\<forall>u \<in> set ts. tick_token u \<notin> tokens_in s"
      using ok by (simp add: drain_ok_def)
    ultimately have "\<forall>u \<in> set ts. tick_token u \<notin> tokens_in s2"
      by (meson insertE subsetD)
    with d(2) inv2 wid show ?thesis by (simp add: drain_ok_def)
  qed
  ultimately show ?thesis using n(2) by blast
qed

interpretation fleet_drain: lease_service "drain_ok wid" "drain_claim wid" "drain_complete sha" l_node_id
    "completed_in wid" for wid sha
proof unfold_locales
  show "completed_in wid s1 = completed_in wid s"
    if "drain_ok wid (t # ts) s" "drain_claim wid t s = (Inr None, s1)" for t ts s s1
  proof -
    obtain hex t1 t2 uuid where t: "t = (hex, t1, t2, uuid)" by (cases t)
    have "fleet_claim hex t1 demo_worker_id (Some wid) s = (Inr None, s1)" "fleet_inv s"
      using that by (simp_all add: drain_claim_def drain_ok_def t)
    with claim_completed show ?thesis by (metis snd_conv)
  qed
qed (rule drain_work)

lemma drain_eq: "drain sha wid ts s = fleet_drain.drain_all wid sha ts s"
  by (induction ts arbitrary: s) (simp_all split: prod.split sum.split option.split)

section \<open>Properties\<close>

text \<open>
  Draining. When the demo coordinator drains a workflow, the node ids it returns are pairwise
  different, none of them was completed before, and afterwards the completed nodes of the workflow
  are the earlier ones and exactly these.
\<close>

theorem drain_exact:
  assumes "drain_ok wid ts s" "drain sha wid ts s = (Inr ids, s')"
  shows "distinct ids \<and> set ids \<inter> completed_in wid s = {} \<and> completed_in wid s' = completed_in wid s \<union> set ids"
  using fleet_drain.drain_all_exact [OF assms(1)] assms(2) by (simp add: drain_eq)

definition market_sha :: "string \<Rightarrow> string" where
  "market_sha s = ''0123456789abcdef''"

definition market_ticks :: "tick list" where
  "market_ticks = map (\<lambda>h. (h, 1, 2, \<lambda>n. h @ replicate n CHR ''x'')) [''a'', ''b'', ''c'', ''d'', ''e'']"

definition market_start :: fleet where
  "market_start = snd (fleet_submit ''01'' 0 (market_spec ''ws'') (demo_coordinator 0 (new_fleet ''art'' 60)))"

lemma market_valid: "validate_workflow_spec (market_spec ws) = Inr ()"
proof -
  have dag: "validate_dag (market_spec ws) = Inr ()"
    by (simp add: validate_dag_def market_spec_def plain_node_def edges_of_def visit.simps Let_def)
  then show ?thesis
    by (simp add: validate_workflow_spec_def market_spec_def node_spec_valid_def budget_valid_def
        plain_node_def alnum_def)
qed

lemma market_start_reach: "fleet.reach sha market_start"
proof -
  have "fleet.reach sha (new_fleet ''art'' 60)"
    by (rule fleet.reach_init) (auto simp: fleet_init_def)
  moreover have "worker_registration_valid demo_registration"
    by (simp add: worker_registration_valid_def demo_registration_def demo_worker_id_def alnum_def)
  ultimately show ?thesis
    unfolding market_start_def demo_coordinator_def
    by (intro fleet.reach_step [OF _ step_register] fleet.reach_step [OF _ step_submit] market_valid)
qed

lemma market_tokens: "tokens_in market_start = {}"
proof -
  have "list_all (\<lambda>n. n_lease_token n = None) (f_nodes market_start)" by code_simp
  then show ?thesis by (auto simp: tokens_in_def list_all_iff)
qed

lemma market_drain_ok: "drain_ok ''wf_01'' market_ticks market_start"
proof -
  note market_tokens
  moreover have "distinct (map tick_token market_ticks)" by code_simp
  ultimately show ?thesis
    using fleet.reach_inv [OF market_start_reach] by (simp add: drain_ok_def)
qed

lemma market_drained: "fst (drain market_sha ''wf_01'' market_ticks market_start)
    = Inr [''research'', ''analysis'', ''draft'']"
  by code_simp

theorem drain_exact_witness:
  "completed_in ''wf_01'' (snd (drain market_sha ''wf_01'' market_ticks market_start))
     = completed_in ''wf_01'' market_start \<union> {''research'', ''analysis'', ''draft''}"
proof -
  have "drain market_sha ''wf_01'' market_ticks market_start = (Inr [''research'', ''analysis'', ''draft''],
      snd (drain market_sha ''wf_01'' market_ticks market_start))"
    using market_drained by (metis prod.collapse)
  from drain_exact [OF market_drain_ok this] show ?thesis by simp
qed

text \<open>
  The embedded worker. A call of \<open>run_once\<close> that returns normally never leaves the lease it took
  behind: whatever the handler did, the claimed node is no longer leased under the token drawn.
\<close>

theorem run_once_settles:
  assumes reach: "fleet.reach sha s" and valid: "worker_registration_valid reg"
    and fresh: "identifier_of ''lease'' hex \<notin> tokens_in s"
    and run: "run_once sha uuid hex t0 t1 t2 t3 reg handler s = (Inr b, s')"
  shows "\<forall>n \<in> set (f_nodes s'). n_lease_token n \<noteq> Some (identifier_of ''lease'' hex)"
proof -
  let ?s0 = "fleet_register t0 reg s" and ?w = "wr_worker_id reg"
  have inv0: "fleet_inv ?s0"
    using fleet.reach_inv [OF reach] quiet_inv [OF register_quiet] by blast
  have fresh0: "identifier_of ''lease'' hex \<notin> tokens_in ?s0"
    using fresh by (simp add: tokens_in_def fleet_register_def Let_def)
  obtain r s1 where c: "fleet_claim hex t1 ?w None ?s0 = (r, s1)" by fastforce
  consider "r = Inr None" | l where "r = Inr (Some l)"
    using run c by (cases r) (auto simp: run_once_def Let_def split: option.splits)
  then show ?thesis
  proof cases
    case 1
    have "tokens_in s1 \<subseteq> tokens_in ?s0"
      using c 1 by (cases rule: claim_cases) (use sweep_tokens [OF inv0, of t1] in auto)
    with fresh0 run c 1 show ?thesis by (auto simp: run_once_def Let_def tokens_in_def)
  next
    case (2 l)
    note c = c [unfolded 2]
    note h = claim_holder [OF inv0 c fresh0]
    have inv1: "fleet_inv s1"
      using claim_quiet [OF inv0, of hex t1 ?w None] quiet_inv inv0 c by (metis snd_conv)
    have one: "token_at (l_lease_token l) (l_workflow_id l, l_node_id l) (f_nodes s1)"
      using h(4) by (simp add: token_at_def)
    have free: "token_free (l_lease_token l) (f_nodes s')"
    proof -
      define attempt where "attempt = (case handler l of Inl e \<Rightarrow> (Inl e, s1)
        | Inr result \<Rightarrow> fleet_complete sha uuid t2 ?w (l_lease_token l) result s1)"
      obtain q s2 where a: "attempt = (q, s2)" by fastforce
      have run': "(case q of Inr _ \<Rightarrow> (Inr True, s2)
          | Inl e \<Rightarrow> (case fleet_fail t3 ?w (l_lease_token l) (exc_text e) True s2 of
              (Inl e', s3) \<Rightarrow> (Inl e', s3) | (Inr _, s3) \<Rightarrow> (Inr True, s3))) = (Inr b, s')"
        using run c a [unfolded attempt_def] by (simp add: run_once_def Let_def split: sum.splits)
      show ?thesis
      proof (cases q)
        case (Inr y)
        then show ?thesis
          using run' a complete_clears [OF inv1 one] by (auto simp: attempt_def split: sum.splits)
      next
        case (Inl e)
        have "fleet_inv s2"
          using a inv1 complete_inv [OF inv1] by (auto simp: attempt_def split: sum.splits) (metis snd_conv)
        moreover have "f_nodes s2 = f_nodes s1"
          using a Inl complete_error_nodes [OF inv1] by (auto simp: attempt_def split: sum.splits)
        ultimately show ?thesis
          using run' Inl one fail_clears [of s2 "l_lease_token l"] by (auto split: sum.splits prod.splits)
      qed
    qed
    then show ?thesis using h(1) by (simp add: token_free_def)
  qed
qed

theorem run_once_settles_witness:
  "list_all (\<lambda>n. n_lease_token n \<noteq> Some ''lease_0a'') (f_nodes (snd (run_once market_sha (\<lambda>_. ''1'') ''0a'' 1 2 3 4
     demo_registration (\<lambda>l. Inl (RuntimeError ''boom'')) market_start)))"
proof -
  let ?r = "run_once market_sha (\<lambda>_. ''1'') ''0a'' 1 2 3 4 demo_registration
     (\<lambda>l. Inl (RuntimeError ''boom'')) market_start"
  have "fst ?r = Inr True" by code_simp
  then have r: "?r = (Inr True, snd ?r)" by (metis prod.collapse)
  have "identifier_of ''lease'' ''0a'' \<notin> tokens_in market_start"
    by (simp add: market_tokens)
  moreover have "worker_registration_valid demo_registration"
    by (simp add: worker_registration_valid_def demo_registration_def demo_worker_id_def alnum_def)
  ultimately show ?thesis
    using run_once_settles [OF market_start_reach _ _ r] by (simp add: identifier_of_def list_all_iff)
qed

end
