(* ===== verification/RuntimeStore.thy ===== *)
theory RuntimeStore
  imports PyText
begin

text \<open>
  The store of the agent runtime (\<^verbatim>\<open>evoagent_runtime/store.py\<close>, with the models of
  \<^verbatim>\<open>evoagent_runtime/models.py\<close>): one list of rows per SQLite table, in insertion order, and the files
  of the workspace. Every operation that stamps a row takes the clock reading, every operation that
  draws an identifier its digits. The full-text index is an argument of the search. The foreign
  keys are not checked: sessions and runs are never deleted and every caller passes one it has
  just written or read.
\<close>

section \<open>Models\<close>

datatype risk_level = Risk_low | Risk_medium | Risk_high

definition risk_text :: "risk_level \<Rightarrow> string" where
  "risk_text r = (case r of Risk_low \<Rightarrow> ''low'' | Risk_medium \<Rightarrow> ''medium'' | Risk_high \<Rightarrow> ''high'')"

datatype run_status = R_accepted | R_running | R_awaiting_approval | R_completed | R_failed

datatype approval_status = A_pending | A_approved | A_denied

datatype prompt_state = P_active | P_retired

datatype candidate_status = C_proposed | C_passed | C_rejected | C_promoted

datatype chat_role = System | User | Assistant | Tool_role

record envelope =
  en_channel :: string
  en_peer_id :: string
  en_session_id :: "string option"
  en_text :: string
  en_metadata :: json

record tool_call =
  tc_id :: string
  tc_name :: string
  tc_arguments :: json

record model_turn =
  mt_text :: string
  mt_tool_calls :: "tool_call list"
  mt_input_tokens :: int
  mt_output_tokens :: int
  mt_model :: string

record chat_message =
  cm_role :: chat_role
  cm_content :: string
  cm_name :: "string option"
  cm_tool_call_id :: "string option"

record scenario =
  sc_input :: string
  sc_required :: "string list"
  sc_forbidden :: "string list"

section \<open>Tables\<close>

record session_row =
  se_id :: string
  se_channel :: string
  se_peer_id :: string
  se_created_at :: int
  se_updated_at :: int

record message_row =
  me_id :: nat
  me_session_id :: string
  me_role :: chat_role
  me_content :: string
  me_name :: "string option"
  me_tool_call_id :: "string option"
  me_created_at :: int

record run_row =
  ru_id :: string
  ru_session_id :: string
  ru_status :: run_status
  ru_input_text :: string
  ru_output_text :: "string option"
  ru_error :: "string option"
  ru_prompt_version :: nat
  ru_usage :: json
  ru_created_at :: int
  ru_updated_at :: int

record revent_row =
  ev_seq :: nat
  ev_run_id :: "string option"
  ev_session_id :: "string option"
  ev_kind :: string
  ev_payload :: json
  ev_created_at :: int

record memory_row =
  mm_id :: string
  mm_session_id :: string
  mm_text :: string
  mm_tags :: "string list"
  mm_created_at :: int

record approval_row =
  ap_id :: string
  ap_run_id :: string
  ap_session_id :: string
  ap_tool_name :: string
  ap_args :: json
  ap_reason :: string
  ap_status :: approval_status
  ap_actor :: "string option"
  ap_created_at :: int
  ap_decided_at :: "int option"

record prompt_row =
  pr_version :: nat
  pr_prompt :: string
  pr_state :: prompt_state
  pr_score :: "rat option"
  pr_parent :: "nat option"
  pr_created_at :: int

record feedback_row =
  fb_id :: string
  fb_run_id :: string
  fb_rating :: int
  fb_comment :: string
  fb_created_at :: int

record candidate_row =
  ca_id :: string
  ca_parent :: nat
  ca_prompt :: string
  ca_status :: candidate_status
  ca_baseline :: "rat option"
  ca_score :: "rat option"
  ca_safety :: "rat option"
  ca_report :: json
  ca_created_at :: int

record job_row =
  jo_id :: string
  jo_name :: string
  jo_interval :: int
  jo_message :: string
  jo_enabled :: bool
  jo_next_run :: clock
  jo_created_at :: int

record rt =
  rt_sessions :: "session_row list"
  rt_messages :: "message_row list"
  rt_runs :: "run_row list"
  rt_events :: "revent_row list"
  rt_memories :: "memory_row list"
  rt_approvals :: "approval_row list"
  rt_prompts :: "prompt_row list"
  rt_feedback :: "feedback_row list"
  rt_candidates :: "candidate_row list"
  rt_jobs :: "job_row list"
  rt_files :: "(string list \<times> string) list"

definition seed_prompt :: string where
  "seed_prompt = ''You are a careful local assistant. Use tools only when needed, '' @
     ''state uncertainty, and ask before consequential actions.''"

text \<open>The constructor: the first prompt is seeded when the table is empty.\<close>

definition open_store :: "clock \<Rightarrow> rt \<Rightarrow> rt" where
  "open_store clk s =
     (if rt_prompts s = []
      then s\<lparr>rt_prompts := [\<lparr>pr_version = 1, pr_prompt = seed_prompt, pr_state = P_active,
                pr_score = None, pr_parent = None, pr_created_at = iso clk\<rparr>]\<rparr>
      else s)"

definition empty_rt :: "(string list \<times> string) list \<Rightarrow> rt" where
  "empty_rt files = \<lparr>rt_sessions = [], rt_messages = [], rt_runs = [], rt_events = [],
     rt_memories = [], rt_approvals = [], rt_prompts = [], rt_feedback = [], rt_candidates = [],
     rt_jobs = [], rt_files = files\<rparr>"

section \<open>Operations\<close>

definition ensure_session :: "clock \<Rightarrow> string \<Rightarrow> string \<Rightarrow> string \<Rightarrow> (unit, rt) op" where
  "ensure_session clk session_id channel peer_id = op_upd (\<lambda>s.
     if \<exists>x \<in> set (rt_sessions s). se_id x = session_id
     then s\<lparr>rt_sessions := upd_where (\<lambda>x. se_id x = session_id)
              (\<lambda>x. x\<lparr>se_updated_at := iso clk\<rparr>) (rt_sessions s)\<rparr>
     else s\<lparr>rt_sessions := rt_sessions s @
              [\<lparr>se_id = session_id, se_channel = channel, se_peer_id = peer_id,
                se_created_at = iso clk, se_updated_at = iso clk\<rparr>]\<rparr>)"

definition add_message :: "clock \<Rightarrow> string \<Rightarrow> chat_role \<Rightarrow> string \<Rightarrow> string option \<Rightarrow> string option
    \<Rightarrow> (unit, rt) op" where
  "add_message clk session_id role content nm tool_call_id = op_upd (\<lambda>s.
     s\<lparr>rt_messages := rt_messages s @
        [\<lparr>me_id = next_rowid (map me_id (rt_messages s)), me_session_id = session_id,
          me_role = role, me_content = content, me_name = nm, me_tool_call_id = tool_call_id,
          me_created_at = iso clk\<rparr>]\<rparr>)"

definition history :: "string \<Rightarrow> int \<Rightarrow> rt \<Rightarrow> message_row list" where
  "history session_id limit s =
     rev (sql_limit limit (rev (sort_key me_id
       (filter (\<lambda>m. me_session_id m = session_id) (rt_messages s)))))"

definition create_run :: "string \<Rightarrow> clock \<Rightarrow> string \<Rightarrow> string \<Rightarrow> nat \<Rightarrow> (string, rt) op" where
  "create_run hex clk session_id input_text prompt_version s =
     (let row = \<lparr>ru_id = identifier_of ''run'' hex, ru_session_id = session_id,
            ru_status = R_accepted, ru_input_text = input_text, ru_output_text = None,
            ru_error = None, ru_prompt_version = prompt_version, ru_usage = JObj [],
            ru_created_at = iso clk, ru_updated_at = iso clk\<rparr> in
      case insert_row ru_id row (rt_runs s) of
        Inl e \<Rightarrow> (Inl e, s)
      | Inr rows \<Rightarrow> (Inr (ru_id row), s\<lparr>rt_runs := rows\<rparr>))"

text \<open>\<open>update_run\<close>: the columns given as keyword arguments, the others as they are.\<close>

definition update_run :: "clock \<Rightarrow> string \<Rightarrow> run_status \<Rightarrow> string option \<Rightarrow> string option
    \<Rightarrow> json option \<Rightarrow> (unit, rt) op" where
  "update_run clk run_id status output error usage = op_upd (\<lambda>s.
     s\<lparr>rt_runs := upd_where (\<lambda>r. ru_id r = run_id)
        (\<lambda>r. r\<lparr>ru_output_text := (case output of None \<Rightarrow> ru_output_text r | Some x \<Rightarrow> Some x),
               ru_error := (case error of None \<Rightarrow> ru_error r | Some x \<Rightarrow> Some x),
               ru_usage := (case usage of None \<Rightarrow> ru_usage r | Some x \<Rightarrow> x),
               ru_status := status, ru_updated_at := iso clk\<rparr>) (rt_runs s)\<rparr>)"

definition get_run :: "string \<Rightarrow> rt \<Rightarrow> run_row option" where
  "get_run run_id s = find (\<lambda>r. ru_id r = run_id) (rt_runs s)"

definition list_runs :: "int \<Rightarrow> rt \<Rightarrow> run_row list" where
  "list_runs limit s = sql_limit limit (sort_key (\<lambda>r. - ru_created_at r) (rt_runs s))"

definition rt_event :: "clock \<Rightarrow> string \<Rightarrow> json \<Rightarrow> string option \<Rightarrow> string option \<Rightarrow> rt \<Rightarrow> rt" where
  "rt_event clk kind payload run_id session_id s =
     s\<lparr>rt_events := rt_events s @
        [\<lparr>ev_seq = next_rowid (map ev_seq (rt_events s)), ev_run_id = run_id,
          ev_session_id = session_id, ev_kind = kind, ev_payload = payload,
          ev_created_at = iso clk\<rparr>]\<rparr>"

definition emit :: "clock \<Rightarrow> string \<Rightarrow> json \<Rightarrow> string \<Rightarrow> string \<Rightarrow> (unit, rt) op" where
  "emit clk kind payload run_id session_id =
     op_upd (rt_event clk kind payload (Some run_id) (Some session_id))"

definition rt_events_after :: "nat \<Rightarrow> int \<Rightarrow> rt \<Rightarrow> revent_row list" where
  "rt_events_after after limit s =
     sql_limit limit (sort_key ev_seq (filter (\<lambda>e. after < ev_seq e) (rt_events s)))"

definition remember :: "string \<Rightarrow> clock \<Rightarrow> string \<Rightarrow> string \<Rightarrow> string list \<Rightarrow> (string, rt) op" where
  "remember hex clk session_id txt tags s =
     (let row = \<lparr>mm_id = identifier_of ''mem'' hex, mm_session_id = session_id, mm_text = txt,
            mm_tags = tags, mm_created_at = iso clk\<rparr> in
      case insert_row mm_id row (rt_memories s) of
        Inl e \<Rightarrow> (Inl e, s)
      | Inr rows \<Rightarrow> (Inr (mm_id row), s\<lparr>rt_memories := rows\<rparr>))"

text \<open>
  \<open>search_memory\<close>: the query words, double quotes taken out, at most twelve, each quoted, joined
  by \<open>OR\<close>; \<open>fts\<close> is the ranked full-text match over the memory table.
\<close>

definition fts_query :: "string list \<Rightarrow> string" where
  "fts_query terms = join_with '' OR '' (map (\<lambda>t. [CHR 0x22] @ t @ [CHR 0x22]) (take 12 terms))"

definition search_memory :: "(string \<Rightarrow> memory_row list \<Rightarrow> (memory_row \<times> rat) list) \<Rightarrow> string \<Rightarrow> int
    \<Rightarrow> rt \<Rightarrow> (memory_row \<times> rat) list" where
  "search_memory fts query limit s =
     (let terms = py_split (replace_char CHR 0x22 CHR '' '' query) in
      if terms = [] then []
      else sql_limit limit (sort_key snd (fts (fts_query terms) (rt_memories s))))"

definition active_prompt :: "rt \<Rightarrow> py_error + (nat \<times> string)" where
  "active_prompt s =
     (case sort_key (\<lambda>p. - int (pr_version p)) (filter (\<lambda>p. pr_state p = P_active) (rt_prompts s)) of
        [] \<Rightarrow> Inl (RuntimeError ''No active prompt'')
      | p # _ \<Rightarrow> Inr (pr_version p, pr_prompt p))"

definition prompt_of :: "nat \<Rightarrow> rt \<Rightarrow> py_error + string" where
  "prompt_of version s =
     (case find (\<lambda>p. pr_version p = version) (rt_prompts s) of
        None \<Rightarrow> Inl (ValueError (''Unknown prompt version: '' @ nat_text version))
      | Some p \<Rightarrow> Inr (pr_prompt p))"

definition add_feedback :: "string \<Rightarrow> clock \<Rightarrow> string \<Rightarrow> int \<Rightarrow> string \<Rightarrow> (string, rt) op" where
  "add_feedback hex clk run_id rating comment s =
     (let row = \<lparr>fb_id = identifier_of ''fb'' hex, fb_run_id = run_id, fb_rating = rating,
            fb_comment = comment, fb_created_at = iso clk\<rparr> in
      case insert_row fb_id row (rt_feedback s) of
        Inl e \<Rightarrow> (Inl e, s)
      | Inr rows \<Rightarrow> (Inr (fb_id row), s\<lparr>rt_feedback := rows\<rparr>))"

definition negative_feedback :: "int \<Rightarrow> rt \<Rightarrow> feedback_row list" where
  "negative_feedback limit s =
     sql_limit limit (sort_key (\<lambda>f. - fb_created_at f)
       (filter (\<lambda>f. fb_rating f < 0 \<and> get_run (fb_run_id f) s \<noteq> None) (rt_feedback s)))"

definition create_approval :: "string \<Rightarrow> clock \<Rightarrow> string \<Rightarrow> string \<Rightarrow> string \<Rightarrow> json \<Rightarrow> string
    \<Rightarrow> (string, rt) op" where
  "create_approval hex clk run_id session_id tool_name arguments reason s =
     (let row = \<lparr>ap_id = identifier_of ''approval'' hex, ap_run_id = run_id,
            ap_session_id = session_id, ap_tool_name = tool_name, ap_args = arguments,
            ap_reason = reason, ap_status = A_pending, ap_actor = None, ap_created_at = iso clk,
            ap_decided_at = None\<rparr> in
      case insert_row ap_id row (rt_approvals s) of
        Inl e \<Rightarrow> (Inl e, s)
      | Inr rows \<Rightarrow> (Inr (ap_id row), s\<lparr>rt_approvals := rows\<rparr>))"

definition approval_of :: "string \<Rightarrow> rt \<Rightarrow> approval_row option" where
  "approval_of approval_id s = find (\<lambda>a. ap_id a = approval_id) (rt_approvals s)"

definition store_decision :: "clock \<Rightarrow> string \<Rightarrow> bool \<Rightarrow> string \<Rightarrow> (unit, rt) op" where
  "store_decision clk approval_id approved actor = op_upd (\<lambda>s.
     s\<lparr>rt_approvals := upd_where (\<lambda>a. ap_id a = approval_id \<and> ap_status a = A_pending)
        (\<lambda>a. a\<lparr>ap_status := (if approved then A_approved else A_denied), ap_actor := Some actor,
               ap_decided_at := Some (iso clk)\<rparr>) (rt_approvals s)\<rparr>)"

definition pending_approvals :: "rt \<Rightarrow> approval_row list" where
  "pending_approvals s =
     sort_key ap_created_at (filter (\<lambda>a. ap_status a = A_pending) (rt_approvals s))"

interpretation rt_ledger: event_ledger rt_events ev_seq
    "\<lambda>(clk, kind, payload, run_id, session_id). rt_event clk kind payload run_id session_id"
  by unfold_locales (auto simp: rt_event_def)

end
