(* ===== verification/RuntimeTools.thy ===== *)
theory RuntimeTools
  imports RuntimeStore
begin

text \<open>
  The tools of the runtime (\<^verbatim>\<open>evoagent_runtime/tools.py\<close>): the policy, the registry and the six
  built-in tools. What lies outside the program is an argument, grouped in one record: the
  full-text index, the rendering of floats, the URL parser, the resolver and the HTTP client.
  The workspace is a list of path components without links, so resolving a path only removes the
  \<open>.\<close> and \<open>..\<close> components.
\<close>

section \<open>Policy and registry\<close>

record address =
  ad_private :: bool
  ad_loopback :: bool
  ad_link_local :: bool
  ad_reserved :: bool

record http_response =
  hr_status :: int
  hr_content_type :: string
  hr_body :: string

record outside =
  os_fts :: "string \<Rightarrow> memory_row list \<Rightarrow> (memory_row \<times> rat) list"
  os_float :: "rat \<Rightarrow> string"
  os_parse_url :: "string \<Rightarrow> string \<times> string option"
  os_resolve :: "string \<Rightarrow> address list"
  os_fetch :: "string \<Rightarrow> http_response"
  os_utc :: "clock \<Rightarrow> string"
  os_decode :: "string \<Rightarrow> string"

record tool_context =
  cx_clock :: clock
  cx_uuid :: "string \<Rightarrow> nat \<Rightarrow> string"
  cx_session_id :: string
  cx_run_id :: string
  cx_workspace :: "string list"
  cx_allowed_hosts :: "string list"

record tool =
  to_name :: string
  to_description :: string
  to_schema :: json
  to_risk :: risk_level
  to_handler :: "outside \<Rightarrow> json \<Rightarrow> tool_context \<Rightarrow> (json, rt) op"

definition wire_schema :: "tool \<Rightarrow> json" where
  "wire_schema t = JObj [(''type'', JStr ''function''),
     (''function'', JObj [(''name'', JStr (to_name t)), (''description'', JStr (to_description t)),
        (''parameters'', to_schema t)])]"

datatype tool_action = Deny | Approve | Execute

definition action_text :: "tool_action \<Rightarrow> string" where
  "action_text a = (case a of Deny \<Rightarrow> ''deny'' | Approve \<Rightarrow> ''approve'' | Execute \<Rightarrow> ''execute'')"

record tool_policy =
  tp_denied :: "string list"
  tp_require_approval :: "risk_level list"

text \<open>The constructor: an empty set of risks is falsy, so it means the default.\<close>

definition new_policy :: "string list \<Rightarrow> risk_level list \<Rightarrow> tool_policy" where
  "new_policy denied require =
     \<lparr>tp_denied = denied, tp_require_approval = (if require = [] then [Risk_medium, Risk_high] else require)\<rparr>"

definition decide_tool :: "tool_policy \<Rightarrow> tool \<Rightarrow> tool_action \<times> string" where
  "decide_tool policy t =
     (if to_name t \<in> set (tp_denied policy)
      then (Deny, ''Tool '' @ to_name t @ '' is denied by operator policy'')
      else if to_risk t \<in> set (tp_require_approval policy)
      then (Approve, risk_text (to_risk t) @ ''-risk tool requires operator approval'')
      else (Execute, ''low-risk tool allowed''))"

record registry =
  re_policy :: tool_policy
  re_tools :: "tool list"

definition register_tool :: "tool \<Rightarrow> registry \<Rightarrow> py_error + registry" where
  "register_tool t r =
     (if to_name t \<in> to_name ` set (re_tools r)
      then Inl (ValueError (''Duplicate tool: '' @ to_name t))
      else Inr (r\<lparr>re_tools := re_tools r @ [t]\<rparr>))"

definition get_tool :: "registry \<Rightarrow> string \<Rightarrow> py_error + tool" where
  "get_tool r nm =
     (case find (\<lambda>t. to_name t = nm) (re_tools r) of
        None \<Rightarrow> Inl (ValueError (''Unknown tool: '' @ nm))
      | Some t \<Rightarrow> Inr t)"

definition tool_schemas :: "registry \<Rightarrow> json list" where
  "tool_schemas r = map wire_schema (re_tools r)"

definition execute_tool :: "outside \<Rightarrow> registry \<Rightarrow> tool_call \<Rightarrow> tool_context \<Rightarrow> (json, rt) op" where
  "execute_tool out r call cx =
     op_bind (op_lift (get_tool r (tc_name call))) (\<lambda>t. to_handler t out (tc_arguments call) cx)"

section \<open>Paths\<close>

fun split_path :: "string \<Rightarrow> string \<Rightarrow> string list" where
  "split_path acc [] = [rev acc]"
| "split_path acc (c # cs) = (if c = CHR ''/'' then rev acc # split_path [] cs else split_path (c # acc) cs)"

text \<open>Resolution walks the components with the part already resolved, innermost last.\<close>

fun resolve_parts :: "string list \<Rightarrow> string list \<Rightarrow> string list" where
  "resolve_parts done [] = done"
| "resolve_parts done (p # ps) =
     (if p = [] \<or> p = ''.'' then resolve_parts done ps
      else if p = ''..'' then resolve_parts (butlast done) ps
      else resolve_parts (done @ [p]) ps)"

definition is_absolute :: "string \<Rightarrow> bool" where
  "is_absolute p = starts_with p ''/''"

definition join_path :: "string list \<Rightarrow> string \<Rightarrow> string list" where
  "join_path workspace relative =
     resolve_parts (if is_absolute relative then [] else workspace) (split_path [] relative)"

fun prefix_of :: "string list \<Rightarrow> string list \<Rightarrow> bool" where
  "prefix_of [] ys = True"
| "prefix_of (x # xs) [] = False"
| "prefix_of (x # xs) (y # ys) \<longleftrightarrow> x = y \<and> prefix_of xs ys"

text \<open>\<open>candidate == root or root in candidate.parents\<close>.\<close>

definition safe_path :: "string list \<Rightarrow> string \<Rightarrow> py_error + string list" where
  "safe_path workspace relative =
     (let candidate = join_path workspace relative; base = resolve_parts [] workspace in
      if candidate \<noteq> base \<and> \<not> prefix_of base (butlast candidate)
      then Inl (ValueError ''Path escapes workspace'')
      else Inr candidate)"

section \<open>The built-in tools\<close>

definition clock_now :: "outside \<Rightarrow> json \<Rightarrow> tool_context \<Rightarrow> (json, rt) op" where
  "clock_now out args cx = op_ret (JObj [(''utc'', JStr (os_utc out (cx_clock cx)))])"

definition arg_text :: "outside \<Rightarrow> string \<Rightarrow> json \<Rightarrow> string" where
  "arg_text out k args = json_str (os_float out) (jget_or (JStr []) k args)"

definition memory_remember :: "outside \<Rightarrow> json \<Rightarrow> tool_context \<Rightarrow> (json, rt) op" where
  "memory_remember out args cx s =
     (let txt = py_strip (arg_text out ''text'' args) in
      if txt = [] then (Inl (ValueError ''text is required''), s)
      else op_bind (remember (cx_uuid cx ''mem'' (length (rt_memories s))) (cx_clock cx) (cx_session_id cx) txt [])
             (\<lambda>mid. op_ret (JObj [(''memory_id'', JStr mid)])) s)"

definition memory_json :: "memory_row \<times> rat \<Rightarrow> json" where
  "memory_json mr = (case mr of (m, rank) \<Rightarrow>
     JObj [(''memory_id'', JStr (mm_id m)), (''session_id'', JStr (mm_session_id m)),
       (''text'', JStr (mm_text m)), (''tags_json'', JArr (map JStr (mm_tags m))),
       (''created_at'', JInt (mm_created_at m)), (''rank'', JNum rank)])"

definition memory_search :: "outside \<Rightarrow> json \<Rightarrow> tool_context \<Rightarrow> (json, rt) op" where
  "memory_search out args cx s =
     (let query = py_strip (arg_text out ''query'' args) in
      (Inr (JObj [(''matches'', JArr (map memory_json (search_memory (os_fts out) query 5 s)))]), s))"

definition path_text :: "string list \<Rightarrow> string" where
  "path_text parts = (if parts = [] then ''.'' else join_with ''/'' parts)"

definition relative_to :: "string list \<Rightarrow> string list \<Rightarrow> string list" where
  "relative_to base parts = drop (length base) parts"

text \<open>
  Files are an association list from paths; every proper prefix of a file's path is a directory.
  Writing fails on a directory and below a file.
\<close>

definition put_file :: "string list \<Rightarrow> string \<Rightarrow> (string list \<times> string) list \<Rightarrow> (string list \<times> string) list" where
  "put_file path content files = (path, content) # filter (\<lambda>f. fst f \<noteq> path) files"

definition blocked_path :: "string list \<Rightarrow> string list \<Rightarrow> (string list \<times> string) list \<Rightarrow> bool" where
  "blocked_path workspace path files \<longleftrightarrow> path = workspace
     \<or> list_ex (\<lambda>f. fst f \<noteq> path \<and> (prefix_of path (fst f) \<or> prefix_of (fst f) path)) files"

definition workspace_read :: "outside \<Rightarrow> json \<Rightarrow> tool_context \<Rightarrow> (json, rt) op" where
  "workspace_read out args cx s =
     (case safe_path (cx_workspace cx) (arg_text out ''path'' args) of
        Inl e \<Rightarrow> (Inl e, s)
      | Inr path \<Rightarrow>
          (case map_of (rt_files s) path of
             None \<Rightarrow> (Inl (ValueError ''File does not exist''), s)
           | Some content \<Rightarrow>
               if 1000000 < utf8_length content then (Inl (ValueError ''File exceeds 1 MB read limit''), s)
               else (Inr (JObj [(''path'', JStr (path_text (relative_to (cx_workspace cx) path))),
                                (''content'', JStr content)]), s)))"

definition workspace_write :: "outside \<Rightarrow> json \<Rightarrow> tool_context \<Rightarrow> (json, rt) op" where
  "workspace_write out args cx s =
     (case safe_path (cx_workspace cx) (arg_text out ''path'' args) of
        Inl e \<Rightarrow> (Inl e, s)
      | Inr path \<Rightarrow>
          let content = arg_text out ''content'' args in
          if 1000000 < utf8_length content then (Inl (ValueError ''Content exceeds 1 MB write limit''), s)
          else if blocked_path (cx_workspace cx) path (rt_files s) then (Inl (OSError ''not a writable file''), s)
          else (Inr (JObj [(''path'', JStr (path_text (relative_to (cx_workspace cx) path))),
                           (''bytes'', JInt (int (utf8_length content)))]),
                s\<lparr>rt_files := put_file path content (rt_files s)\<rparr>))"

definition public_address :: "address \<Rightarrow> bool" where
  "public_address a \<longleftrightarrow> \<not> (ad_private a \<or> ad_loopback a \<or> ad_link_local a \<or> ad_reserved a)"

definition validate_host :: "outside \<Rightarrow> string \<Rightarrow> string list \<Rightarrow> py_error + unit" where
  "validate_host out host allowed =
     (if host \<notin> set allowed then Inl (ValueError ''Host is not in EVOAGENT_HTTP_ALLOWLIST'')
      else if list_all public_address (os_resolve out host) then Inr ()
      else Inl (ValueError ''Resolved host points to a non-public address''))"

definition http_get :: "outside \<Rightarrow> json \<Rightarrow> tool_context \<Rightarrow> (json, rt) op" where
  "http_get out args cx =
     (let url = arg_text out ''url'' args; parsed = os_parse_url out url in
      case snd parsed of
        None \<Rightarrow> op_raise (ValueError ''Only HTTPS URLs are allowed'')
      | Some host \<Rightarrow>
          if fst parsed \<noteq> ''https'' \<or> host = []
          then op_raise (ValueError ''Only HTTPS URLs are allowed'')
          else op_bind (op_lift (validate_host out host (cx_allowed_hosts cx)))
            (\<lambda>_. let response = os_fetch out url; body = take 1000000 (hr_body response) in
              op_ret (JObj [(''status'', JInt (hr_status response)),
                (''content_type'', JStr (hr_content_type response)), (''body'', JStr (os_decode out body)),
                (''truncated'', JBool (length body < length (hr_body response)))])))"

definition string_property :: "string list \<Rightarrow> json" where
  "string_property names = JObj ([(''type'', JStr ''object''),
     (''properties'', JObj (map (\<lambda>n. (n, JObj [(''type'', JStr ''string'')])) names))]
     @ (if names = [] then [] else [(''required'', JArr (map JStr names))]))"

definition builtin_tools :: "tool list" where
  "builtin_tools =
     [\<lparr>to_name = ''clock.now'', to_description = ''Return current UTC time'',
       to_schema = string_property [], to_risk = Risk_low, to_handler = clock_now\<rparr>,
      \<lparr>to_name = ''memory.remember'', to_description = ''Persist a useful fact or preference'',
       to_schema = string_property [''text''], to_risk = Risk_low, to_handler = memory_remember\<rparr>,
      \<lparr>to_name = ''memory.search'', to_description = ''Search persistent memory'',
       to_schema = string_property [''query''], to_risk = Risk_low, to_handler = memory_search\<rparr>,
      \<lparr>to_name = ''workspace.read'', to_description = ''Read a UTF-8 file inside the configured workspace'',
       to_schema = string_property [''path''], to_risk = Risk_medium, to_handler = workspace_read\<rparr>,
      \<lparr>to_name = ''workspace.write'', to_description = ''Write a UTF-8 file inside the configured workspace'',
       to_schema = string_property [''path'', ''content''], to_risk = Risk_high,
       to_handler = workspace_write\<rparr>,
      \<lparr>to_name = ''http.get'', to_description = ''Fetch an operator-allowlisted HTTPS URL'',
       to_schema = string_property [''url''], to_risk = Risk_high, to_handler = http_get\<rparr>]"

fun register_all :: "tool list \<Rightarrow> registry \<Rightarrow> py_error + registry" where
  "register_all [] r = Inr r"
| "register_all (t # ts) r =
     (case register_tool t r of Inl e \<Rightarrow> Inl e | Inr r' \<Rightarrow> register_all ts r')"

definition builtins :: "tool_policy \<Rightarrow> py_error + registry" where
  "builtins policy = register_all builtin_tools \<lparr>re_policy = policy, re_tools = []\<rparr>"

definition serialize_result :: "outside \<Rightarrow> json \<Rightarrow> string" where
  "serialize_result out result = json_text (os_float out) result"

section \<open>Registration and path containment\<close>

lemma register_all_distinct:
  "distinct (map to_name (re_tools r @ ts)) \<Longrightarrow>
     register_all ts r = Inr (r\<lparr>re_tools := re_tools r @ ts\<rparr>)"
proof (induction ts arbitrary: r)
  case (Cons t ts)
  have "to_name t \<notin> to_name ` set (re_tools r)"
    using Cons.prems by auto
  then show ?case
    using Cons.IH [of "r\<lparr>re_tools := re_tools r @ [t]\<rparr>"] Cons.prems by (simp add: register_tool_def)
qed simp

lemma builtin_names: "map to_name builtin_tools =
    [''clock.now'', ''memory.remember'', ''memory.search'', ''workspace.read'', ''workspace.write'', ''http.get'']"
  by (simp add: builtin_tools_def)

lemma builtins_eq: "builtins policy = Inr \<lparr>re_policy = policy, re_tools = builtin_tools\<rparr>"
  unfolding builtins_def by (subst register_all_distinct) (simp_all add: builtin_names)

lemma prefix_of_append: "prefix_of xs ys \<longleftrightarrow> (\<exists>zs. ys = xs @ zs)"
  by (induction xs ys rule: prefix_of.induct) auto

definition plain_part :: "string \<Rightarrow> bool" where
  "plain_part p \<longleftrightarrow> p \<noteq> [] \<and> p \<noteq> ''.'' \<and> p \<noteq> ''..''"

definition clean_path :: "string list \<Rightarrow> bool" where
  "clean_path ps \<longleftrightarrow> list_all plain_part ps"

lemma clean_path_simps [simp]:
  "clean_path []" "clean_path (p # ps) \<longleftrightarrow> plain_part p \<and> clean_path ps"
  "clean_path (ps @ qs) \<longleftrightarrow> clean_path ps \<and> clean_path qs"
  by (simp_all add: clean_path_def)

lemma clean_path_butlast: "clean_path ps \<Longrightarrow> clean_path (butlast ps)"
  by (induction ps) simp_all

lemma resolve_parts_clean: "clean_path base \<Longrightarrow> clean_path (resolve_parts base ps)"
proof (induction base ps rule: resolve_parts.induct)
  case (2 base p ps)
  consider "p = [] \<or> p = ''.''" | "p \<noteq> []" "p \<noteq> ''.''" "p = ''..''" | "plain_part p"
    unfolding plain_part_def by blast
  then show ?case
  proof cases
    case 3
    then have "\<not> (p = [] \<or> p = ''.'')" "p \<noteq> ''..''" by (simp_all add: plain_part_def)
    with 2 3 show ?thesis by simp
  qed (use 2 clean_path_butlast in simp_all)
qed simp

lemma resolve_parts_id: "clean_path ps \<Longrightarrow> resolve_parts base ps = base @ ps"
proof (induction ps arbitrary: base)
  case (Cons p ps)
  then have "\<not> (p = [] \<or> p = ''.'')" "p \<noteq> ''..''" by (simp_all add: plain_part_def)
  with Cons show ?case by simp
qed simp

text \<open>
  C9. Containment. For a resolved workspace root, a path the workspace tools accept is the root or
  lies below it, with no \<open>.\<close> or \<open>..\<close> left in it, whatever the caller passed; and every plain file
  name is accepted.
\<close>

theorem safe_path_contained:
  assumes "clean_path workspace"
  shows "(safe_path workspace relative = Inr path \<longrightarrow> clean_path path \<and> (\<exists>rest. path = workspace @ rest))
    \<and> (clean_path [nm] \<and> CHR ''/'' \<notin> set nm \<longrightarrow> safe_path workspace nm = Inr (workspace @ [nm]))"
proof (intro conjI impI)
  have root: "resolve_parts [] workspace = workspace"
    using assms resolve_parts_id [of workspace "[]"] by simp
  have clean: "clean_path (join_path workspace relative)"
    using assms by (simp add: join_path_def resolve_parts_clean)
  assume ok: "safe_path workspace relative = Inr path"
  then have path: "path = join_path workspace relative"
    "path = workspace \<or> prefix_of workspace (butlast path)"
    by (auto simp: safe_path_def Let_def root split: if_splits)
  show "clean_path path" using clean path(1) by simp
  show "\<exists>rest. path = workspace @ rest"
  proof (cases "path = workspace")
    case False
    then obtain zs where "butlast path = workspace @ zs"
      using path(2) by (auto simp: prefix_of_append)
    then show ?thesis
      by (metis append.assoc append_butlast_last_id append_is_Nil_conv append_self_conv2 butlast.simps(1))
  qed simp
next
  assume nm: "clean_path [nm] \<and> CHR ''/'' \<notin> set nm"
  have root: "resolve_parts [] workspace = workspace"
    using assms resolve_parts_id [of workspace "[]"] by simp
  have "split_path acc nm' = [rev acc @ nm']" if "CHR ''/'' \<notin> set nm'" for acc nm'
    using that by (induction nm' arbitrary: acc) auto
  then have "split_path [] nm = [nm]" using nm by simp
  moreover have "\<not> is_absolute nm"
    using nm by (cases nm) (auto simp: is_absolute_def)
  ultimately have "join_path workspace nm = workspace @ [nm]"
    using nm resolve_parts_id [of "[nm]" workspace] by (simp add: join_path_def del: resolve_parts.simps)
  then show "safe_path workspace nm = Inr (workspace @ [nm])"
    by (simp add: safe_path_def root prefix_of_append)
qed

theorem safe_path_contained_witness:
  "safe_path [''srv'', ''ws''] ''notes.md'' = Inr [''srv'', ''ws'', ''notes.md'']
   \<and> safe_path [''srv'', ''ws''] ''../../etc/passwd'' = Inl (ValueError ''Path escapes workspace'')"
proof
  have "clean_path [''srv'', ''ws'']" "clean_path [''notes.md'']" by code_simp+
  then show "safe_path [''srv'', ''ws''] ''notes.md'' = Inr [''srv'', ''ws'', ''notes.md'']"
    using safe_path_contained [of "[''srv'', ''ws'']" "''x''" "[]" "''notes.md''"] by simp
  show "safe_path [''srv'', ''ws''] ''../../etc/passwd'' = Inl (ValueError ''Path escapes workspace'')"
    by code_simp
qed

end
