(* ===== verification/RuntimeEngine.thy ===== *)
theory RuntimeEngine
  imports RuntimeTools
begin

text \<open>
  The agent loop (\<^verbatim>\<open>evoagent_runtime/runtime.py\<close>) and the offline provider
  (\<^verbatim>\<open>evoagent_runtime/providers.py\<close>). A provider is a function from the messages and the tool
  schemas to a turn; the model service behind the other provider is such an argument. One call of
  the loop reads the clock once, through its context.
\<close>

section \<open>The offline provider\<close>

definition plain_turn :: model_turn where
  "plain_turn = \<lparr>mt_text = [], mt_tool_calls = [], mt_input_tokens = 0, mt_output_tokens = 0,
     mt_model = ''offline''\<rparr>"

definition call_turn :: "string \<Rightarrow> string \<Rightarrow> (string \<times> string) list \<Rightarrow> model_turn" where
  "call_turn hex nm args = plain_turn\<lparr>mt_tool_calls := [\<lparr>tc_id = identifier_of ''call'' hex,
     tc_name = nm, tc_arguments = JObj (map (\<lambda>(k, v). (k, JStr v)) args)\<rparr>]\<rparr>"

fun last_index :: "('a \<Rightarrow> bool) \<Rightarrow> 'a list \<Rightarrow> nat option" where
  "last_index P [] = None"
| "last_index P (x # xs) =
     (case last_index P xs of Some i \<Rightarrow> Some (Suc i) | None \<Rightarrow> if P x then Some 0 else None)"

definition token_estimate :: "nat \<Rightarrow> int" where
  "token_estimate n = max 1 (int n div 4)"

definition total_content :: "chat_message list \<Rightarrow> nat" where
  "total_content messages = sum_list (map (\<lambda>m. length (cm_content m)) messages)"

definition after_colon :: "string \<Rightarrow> string" where
  "after_colon s = py_strip (snd (snd (py_partition CHR '':'' s)))"

definition offline_complete :: "string \<Rightarrow> chat_message list \<Rightarrow> json list \<Rightarrow> py_error + model_turn" where
  "offline_complete hex messages tools =
     (let latest_index = last_index (\<lambda>m. cm_role m = User) messages;
          latest = (case latest_index of None \<Rightarrow> [] | Some i \<Rightarrow> cm_content (messages ! i));
          lowered = py_strip (py_lower latest);
          rest = drop (case latest_index of None \<Rightarrow> 0 | Some i \<Rightarrow> Suc i) messages;
          tool_results = filter (\<lambda>m. cm_role m = Tool_role) rest in
      if tool_results \<noteq> [] then
        let result = last tool_results in
        Inr (plain_turn\<lparr>mt_text := ''Tool `'' @ (case cm_name result of None \<Rightarrow> ''None'' | Some n \<Rightarrow> n)
               @ ''` completed: '' @ cm_content result,
             mt_input_tokens := token_estimate (total_content messages),
             mt_output_tokens := token_estimate (length (cm_content result))\<rparr>)
      else if starts_with lowered ''remember:'' then
        Inr (call_turn hex ''memory.remember'' [(''text'', after_colon latest)])
      else if starts_with lowered ''recall:'' then
        Inr (call_turn hex ''memory.search'' [(''query'', after_colon latest)])
      else if starts_with lowered ''read:'' then
        Inr (call_turn hex ''workspace.read'' [(''path'', after_colon latest)])
      else if starts_with lowered ''write:'' then
        (case py_partition CHR ''='' (after_colon latest) of
           (path, _, content) \<Rightarrow>
             Inr (call_turn hex ''workspace.write'' [(''path'', py_strip path), (''content'', content)]))
      else
        Inr (plain_turn\<lparr>mt_text := ''Offline agent received: '' @ latest,
             mt_input_tokens := token_estimate (total_content messages),
             mt_output_tokens := token_estimate (length latest)\<rparr>))"

section \<open>The runtime\<close>

type_synonym provider = "chat_message list \<Rightarrow> json list \<Rightarrow> py_error + model_turn"

record runtime =
  ag_outside :: outside
  ag_provider :: provider
  ag_tools :: registry
  ag_workspace :: "string list"
  ag_allowed_hosts :: "string list"
  ag_max_tool_steps :: nat

text \<open>The constructor when no registry is passed: the built-in tools under the default policy.\<close>

definition default_runtime :: "outside \<Rightarrow> provider \<Rightarrow> string list \<Rightarrow> string list \<Rightarrow> nat \<Rightarrow> runtime" where
  "default_runtime out prov workspace hosts steps =
     \<lparr>ag_outside = out, ag_provider = prov,
      ag_tools = (case builtins (new_policy [] []) of Inr r \<Rightarrow> r | Inl _ \<Rightarrow> \<lparr>re_policy = new_policy [] [], re_tools = []\<rparr>),
      ag_workspace = workspace, ag_allowed_hosts = hosts, ag_max_tool_steps = steps\<rparr>"

definition session_id_of :: "(string \<Rightarrow> string) \<Rightarrow> envelope \<Rightarrow> string" where
  "session_id_of sha en =
     (case en_session_id en of
        Some sid \<Rightarrow> if sid \<noteq> [] then sid
                   else ''session_'' @ take 20 (sha (en_channel en @ '':'' @ en_peer_id en))
      | None \<Rightarrow> ''session_'' @ take 20 (sha (en_channel en @ '':'' @ en_peer_id en)))"

definition accept_run :: "(string \<Rightarrow> string) \<Rightarrow> string \<Rightarrow> clock \<Rightarrow> envelope
    \<Rightarrow> (string \<times> string \<times> nat \<times> string, rt) op" where
  "accept_run sha hex clk en =
     (let sid = session_id_of sha en in
      op_bind (ensure_session clk sid (en_channel en) (en_peer_id en)) (\<lambda>_.
      op_bind (op_gets active_prompt) (\<lambda>r. op_bind (op_lift r) (\<lambda>(version, prompt).
      op_bind (create_run hex clk sid (en_text en) version) (\<lambda>run_id.
      op_bind (add_message clk sid User (en_text en) None None) (\<lambda>_.
      op_bind (emit clk ''run.accepted'' (JObj [(''channel'', JStr (en_channel en))]) run_id sid) (\<lambda>_.
      op_ret (run_id, sid, version, prompt))))))))"

definition run_view :: "string \<Rightarrow> rt \<Rightarrow> py_error + run_row" where
  "run_view run_id s =
     (case get_run run_id s of None \<Rightarrow> Inl (ValueError ''Run not found'') | Some r \<Rightarrow> Inr r)"

definition run_context :: "runtime \<Rightarrow> (string \<Rightarrow> nat \<Rightarrow> string) \<Rightarrow> clock \<Rightarrow> string \<Rightarrow> string \<Rightarrow> tool_context" where
  "run_context ag uuid clk run_id session_id =
     \<lparr>cx_clock = clk, cx_uuid = uuid, cx_session_id = session_id, cx_run_id = run_id,
      cx_workspace = ag_workspace ag, cx_allowed_hosts = ag_allowed_hosts ag\<rparr>"

definition run_messages :: "runtime \<Rightarrow> string \<Rightarrow> string \<Rightarrow> string \<Rightarrow> rt \<Rightarrow> chat_message list" where
  "run_messages ag session_id prompt query s =
     (let memory = search_memory (os_fts (ag_outside ag)) query 5 s;
          memory_text = join_with [CHR 0x0A] (map (\<lambda>(m, _). ''- '' @ mm_text m) memory);
          system = (if memory_text = [] then prompt
            else prompt @ [CHR 0x0A, CHR 0x0A] @ ''Relevant operator memory:'' @ [CHR 0x0A] @ memory_text) in
      \<lparr>cm_role = System, cm_content = system, cm_name = None, cm_tool_call_id = None\<rparr>
      # map (\<lambda>m. \<lparr>cm_role = me_role m, cm_content = me_content m, cm_name = me_name m,
               cm_tool_call_id = me_tool_call_id m\<rparr>) (history session_id 40 s))"

text \<open>
  The calls of one turn. The result is \<open>None\<close> when a call waits for an approval, which ends the
  loop and drops the calls after it, and the extended messages otherwise.
\<close>

definition finish_call :: "runtime \<Rightarrow> tool_context \<Rightarrow> tool_call \<Rightarrow> json \<Rightarrow> (chat_message, rt) op" where
  "finish_call ag cx call result =
     (let serialized = serialize_result (ag_outside ag) result in
      op_bind (add_message (cx_clock cx) (cx_session_id cx) Tool_role serialized
                 (Some (tc_name call)) (Some (tc_id call))) (\<lambda>_.
      op_bind (emit (cx_clock cx) ''tool.completed''
                 (JObj [(''tool'', JStr (tc_name call)), (''result'', result)])
                 (cx_run_id cx) (cx_session_id cx)) (\<lambda>_.
      op_ret \<lparr>cm_role = Tool_role, cm_content = serialized, cm_name = Some (tc_name call),
               cm_tool_call_id = Some (tc_id call)\<rparr>)))"

definition request_approval :: "tool_context \<Rightarrow> tool_call \<Rightarrow> string \<Rightarrow> (unit, rt) op" where
  "request_approval cx call reason =
     op_bind (op_gets (\<lambda>s. cx_uuid cx ''approval'' (length (rt_approvals s)))) (\<lambda>hex.
     op_bind (create_approval hex (cx_clock cx) (cx_run_id cx) (cx_session_id cx) (tc_name call)
                (tc_arguments call) reason) (\<lambda>approval_id.
     op_bind (update_run (cx_clock cx) (cx_run_id cx) R_awaiting_approval None None None) (\<lambda>_.
     emit (cx_clock cx) ''approval.requested''
       (JObj [(''approval_id'', JStr approval_id), (''tool'', JStr (tc_name call)), (''reason'', JStr reason)])
       (cx_run_id cx) (cx_session_id cx))))"

fun run_calls :: "runtime \<Rightarrow> tool_context \<Rightarrow> tool_call list \<Rightarrow> chat_message list
    \<Rightarrow> (chat_message list option, rt) op" where
  "run_calls ag cx [] messages = op_ret (Some messages)"
| "run_calls ag cx (call # calls) messages =
     op_bind (op_lift (get_tool (ag_tools ag) (tc_name call))) (\<lambda>t.
       let (action, reason) = decide_tool (re_policy (ag_tools ag)) t in
       op_bind (emit (cx_clock cx) ''tool.requested''
          (JObj [(''tool'', JStr (tc_name call)), (''risk'', JStr (risk_text (to_risk t))),
                 (''decision'', JStr (action_text action))]) (cx_run_id cx) (cx_session_id cx)) (\<lambda>_.
       if action = Approve
       then op_bind (request_approval cx call reason) (\<lambda>_. op_ret None)
       else op_bind (if action = Deny then op_ret (JObj [(''error'', JStr reason)])
                     else execute_tool (ag_outside ag) (ag_tools ag) call cx) (\<lambda>result.
            op_bind (finish_call ag cx call result) (\<lambda>m. run_calls ag cx calls (messages @ [m])))))"

definition usage_json :: "int \<times> int \<Rightarrow> json" where
  "usage_json u = JObj [(''input_tokens'', JInt (fst u)), (''output_tokens'', JInt (snd u))]"

text \<open>
  \<open>_drive\<close>: the first argument counts the iterations of \<open>range(max_tool_steps + 1)\<close> that are
  left.
\<close>

fun drive :: "runtime \<Rightarrow> tool_context \<Rightarrow> nat \<Rightarrow> nat \<Rightarrow> int \<times> int \<Rightarrow> chat_message list
    \<Rightarrow> (unit, rt) op" where
  "drive ag cx 0 step usage messages =
     op_raise (RuntimeError (''Tool step budget exceeded ('' @ nat_text (ag_max_tool_steps ag) @ '')''))"
| "drive ag cx (Suc left) step usage messages =
     op_bind (op_lift (ag_provider ag messages (tool_schemas (ag_tools ag)))) (\<lambda>turn.
       let usage1 = (fst usage + mt_input_tokens turn, snd usage + mt_output_tokens turn);
           messages1 = (if mt_text turn = [] then messages
             else messages @ [\<lparr>cm_role = Assistant, cm_content = mt_text turn, cm_name = None,
                               cm_tool_call_id = None\<rparr>]) in
       op_bind (emit (cx_clock cx) ''model.completed''
          (JObj [(''model'', JStr (mt_model turn)), (''tool_calls'', JInt (int (length (mt_tool_calls turn)))),
                 (''step'', JInt (int step))]) (cx_run_id cx) (cx_session_id cx)) (\<lambda>_.
       op_bind (if mt_text turn = [] then op_ret ()
                else add_message (cx_clock cx) (cx_session_id cx) Assistant (mt_text turn) None None) (\<lambda>_.
       if mt_tool_calls turn = []
       then op_bind (update_run (cx_clock cx) (cx_run_id cx) R_completed (Some (mt_text turn)) None
                       (Some (usage_json usage1))) (\<lambda>_.
            emit (cx_clock cx) ''run.completed'' (JObj [(''usage'', usage_json usage1)])
              (cx_run_id cx) (cx_session_id cx))
       else op_bind (run_calls ag cx (mt_tool_calls turn) messages1) (\<lambda>outcome.
            case outcome of
              None \<Rightarrow> op_ret ()
            | Some messages2 \<Rightarrow> drive ag cx left (Suc step) usage1 messages2))))"

definition drive_run :: "runtime \<Rightarrow> tool_context \<Rightarrow> string \<Rightarrow> string \<Rightarrow> (unit, rt) op" where
  "drive_run ag cx prompt query =
     op_bind (op_gets (run_messages ag (cx_session_id cx) prompt query)) (\<lambda>messages.
       drive ag cx (Suc (ag_max_tool_steps ag)) 0 (0, 0) messages)"

definition execute_run :: "runtime \<Rightarrow> tool_context \<Rightarrow> string \<Rightarrow> string \<Rightarrow> (unit, rt) op" where
  "execute_run ag cx prompt query =
     op_bind (update_run (cx_clock cx) (cx_run_id cx) R_running None None None) (\<lambda>_.
     op_bind (emit (cx_clock cx) ''run.started'' (JObj []) (cx_run_id cx) (cx_session_id cx)) (\<lambda>_.
     op_try (drive_run ag cx prompt query) (\<lambda>exc.
       op_bind (update_run (cx_clock cx) (cx_run_id cx) R_failed None (Some (exc_text exc)) None) (\<lambda>_.
       emit (cx_clock cx) ''run.failed'' (JObj [(''error'', JStr (exc_text exc))])
         (cx_run_id cx) (cx_session_id cx)))))"

text \<open>\<open>run_once\<close>; \<open>submit\<close> is \<open>accept\<close> followed, as a task of its own, by the same execution.\<close>

definition run_envelope :: "(string \<Rightarrow> string) \<Rightarrow> runtime \<Rightarrow> string \<Rightarrow> (string \<Rightarrow> nat \<Rightarrow> string) \<Rightarrow> clock
    \<Rightarrow> envelope \<Rightarrow> (run_row, rt) op" where
  "run_envelope sha ag hex uuid clk en =
     op_bind (accept_run sha hex clk en) (\<lambda>(run_id, sid, version, prompt).
     op_bind (execute_run ag (run_context ag uuid clk run_id sid) prompt (en_text en)) (\<lambda>_.
     op_bind (op_gets (run_view run_id)) op_lift))"

text \<open>\<open>decide_approval\<close>; what follows the stored decision is a definition of its own.\<close>

definition apply_decision :: "runtime \<Rightarrow> (string \<Rightarrow> nat \<Rightarrow> string) \<Rightarrow> clock \<Rightarrow> bool \<Rightarrow> string
    \<Rightarrow> approval_row \<Rightarrow> run_row \<Rightarrow> (run_row, rt) op" where
  "apply_decision ag uuid clk approved actor approval run =
     (let cx = run_context ag uuid clk (ru_id run) (ru_session_id run);
          call = \<lparr>tc_id = identifier_of ''call'' (uuid ''call'' 0),
                  tc_name = ap_tool_name approval, tc_arguments = ap_args approval\<rparr> in
      op_bind (if approved then execute_tool (ag_outside ag) (ag_tools ag) call cx
               else op_ret (JObj [(''error'', JStr (''Operator '' @ actor @ '' denied this tool call''))])) (\<lambda>result.
      op_bind (add_message clk (ru_session_id run) Tool_role
                 (serialize_result (ag_outside ag) result) (Some (tc_name call)) (Some (tc_id call))) (\<lambda>_.
      op_bind (emit clk ''approval.decided''
                 (JObj [(''approval_id'', JStr (ap_id approval)), (''approved'', JBool approved),
                        (''actor'', JStr actor)]) (ru_id run) (ru_session_id run)) (\<lambda>_.
      op_bind (update_run clk (ru_id run) R_running None None None) (\<lambda>_.
      op_bind (op_gets (prompt_of (ru_prompt_version run))) (\<lambda>r.
      op_bind (op_lift r) (\<lambda>prompt.
      op_bind (drive_run ag cx prompt (ru_input_text run)) (\<lambda>_.
      op_bind (op_gets (run_view (ru_id run))) op_lift))))))))"

definition decide_approval :: "runtime \<Rightarrow> (string \<Rightarrow> nat \<Rightarrow> string) \<Rightarrow> clock \<Rightarrow> string \<Rightarrow> bool \<Rightarrow> string
    \<Rightarrow> (run_row, rt) op" where
  "decide_approval ag uuid clk approval_id approved actor =
     op_bind (op_gets (approval_of approval_id)) (\<lambda>found.
     case found of
       None \<Rightarrow> op_raise (ValueError ''Approval not found'')
     | Some approval \<Rightarrow>
         if ap_status approval \<noteq> A_pending
         then op_raise (ValueError ''Approval has already been decided'')
         else
           op_bind (store_decision clk approval_id approved actor) (\<lambda>_.
           op_bind (op_gets (get_run (ap_run_id approval))) (\<lambda>row.
           case row of
             None \<Rightarrow> op_raise (ValueError ''Run not found'')
           | Some run \<Rightarrow> apply_decision ag uuid clk approved actor approval run)))"

end
