(* ===== verification/RuntimeProperties.thy ===== *)
theory RuntimeProperties
  imports RuntimeEngine
begin

text \<open>
  Properties of the agent loop: what a model can and cannot cause without an operator, how a run
  ends, and how often an approval can be used.
\<close>

section \<open>What the loop leaves alone\<close>

text \<open>
  A predicate on the store that the bookkeeping operations keep, and that every tool the policy
  executes without asking keeps, is kept by the whole loop, whatever the model answers.
\<close>

locale run_frame =
  fixes ag :: runtime and P :: "rt \<Rightarrow> bool"
  assumes frame_message: "keeps P (add_message clk sid role content label tid)"
    and frame_emit: "keeps P (emit clk kind payload run_id sid)"
    and frame_update: "keeps P (update_run clk run_id status output err usage)"
    and frame_approval: "keeps P (create_approval hex clk run_id sid nm args reason)"
    and frame_tool: "get_tool (ag_tools ag) nm = Inr t \<Longrightarrow>
      fst (decide_tool (re_policy (ag_tools ag)) t) = Execute \<Longrightarrow> keeps P (to_handler t out args cx)"
begin

lemmas frame_intros = frame_message frame_emit frame_update frame_approval keeps_intros

lemma keeps_finish: "keeps P (finish_call ag cx call result)"
  unfolding finish_call_def Let_def by (intro frame_intros)

lemma keeps_request: "keeps P (request_approval cx call reason)"
  unfolding request_approval_def by (intro frame_intros)

lemma op_bind_lift_Inr: "op_bind (op_lift (Inr a)) f = f a"
  by (simp add: op_bind_def op_lift_def fun_eq_iff)

lemma op_bind_lift_Inl: "op_bind (op_lift (Inl e)) f = op_raise e"
  by (simp add: op_bind_def op_lift_def op_raise_def fun_eq_iff)

lemma keeps_calls: "keeps P (run_calls ag cx calls messages)"
proof (induction calls arbitrary: messages)
  case (Cons call calls)
  show ?case
  proof (cases "get_tool (ag_tools ag) (tc_name call)")
    case (Inl e)
    then show ?thesis by (simp add: op_bind_lift_Inl keeps_raise)
  next
    case (Inr t)
    obtain action reason where d: "decide_tool (re_policy (ag_tools ag)) t = (action, reason)"
      by fastforce
    have "keeps P (execute_tool (ag_outside ag) (ag_tools ag) call cx)" if "action = Execute"
      unfolding execute_tool_def Inr op_bind_lift_Inr using frame_tool [OF Inr] d that by simp
    moreover have "action = Execute" if "action \<noteq> Approve" "action \<noteq> Deny"
      using that by (cases action) auto
    ultimately have "keeps P (if action = Deny then op_ret (JObj [(''error'', JStr reason)])
        else execute_tool (ag_outside ag) (ag_tools ag) call cx)" if "action \<noteq> Approve"
      using that by (auto intro: keeps_ret)
    then show ?thesis
      unfolding run_calls.simps Inr op_bind_lift_Inr d Let_def prod.case
      by (cases "action = Approve")
        (auto intro!: frame_intros keeps_request keeps_finish Cons.IH)
  qed
qed (simp add: keeps_ret)

lemma keeps_drive: "keeps P (drive ag cx left step usage messages)"
proof (induction left arbitrary: step usage messages)
  case (Suc left)
  show ?case
    unfolding drive.simps Let_def
    by (intro frame_intros keeps_calls Suc.IH)
qed (simp add: keeps_raise)

lemma keeps_drive_run: "keeps P (drive_run ag cx prompt query)"
  unfolding drive_run_def by (intro frame_intros keeps_drive)

lemma keeps_execute_run: "keeps P (execute_run ag cx prompt query)"
  unfolding execute_run_def by (intro frame_intros keeps_drive_run)

lemma keeps_denied:
  assumes "\<And>id actor. keeps P (store_decision clk id False actor)"
  shows "keeps P (decide_approval ag uuid clk approval_id False actor)"
  unfolding decide_approval_def apply_decision_def Let_def if_False
  by (intro frame_intros assms keeps_drive_run)

end

lemma default_tools: "ag_tools (default_runtime out prov ws hosts n)
    = \<lparr>re_policy = \<lparr>tp_denied = [], tp_require_approval = [Risk_medium, Risk_high]\<rparr>, re_tools = builtin_tools\<rparr>"
  by (simp add: default_runtime_def builtins_eq new_policy_def)

text \<open>Under the default policy only the three low-risk tools run without an approval.\<close>

lemma default_executable:
  assumes "get_tool (ag_tools (default_runtime out prov ws hosts n)) nm = Inr t"
    "fst (decide_tool (re_policy (ag_tools (default_runtime out prov ws hosts n))) t) = Execute"
  shows "to_handler t \<in> {clock_now, memory_remember, memory_search}"
proof -
  have "t \<in> set builtin_tools"
    using assms(1) by (auto simp: get_tool_def default_tools split: option.splits dest!: find_SomeD)
  moreover have "to_risk t = Risk_low"
    using assms(2) by (cases "to_risk t") (auto simp: default_tools decide_tool_def)
  ultimately show ?thesis by (auto simp: builtin_tools_def)
qed

lemma keeps_low_risk:
  assumes "\<And>hex clk sid txt tags. keeps P (remember hex clk sid txt tags)"
    and "h \<in> {clock_now, memory_remember, memory_search}"
  shows "keeps P (h out args cx)"
proof -
  have "P (snd (memory_remember out args cx s))" if "P s" for s
  proof (cases "py_strip (arg_text out ''text'' args) = []")
    case False
    have "keeps P (op_bind (remember (cx_uuid cx ''mem'' (length (rt_memories s))) (cx_clock cx)
        (cx_session_id cx) (py_strip (arg_text out ''text'' args)) [])
        (\<lambda>mid. op_ret (JObj [(''memory_id'', JStr mid)])))"
      by (intro keeps_intros assms(1))
    from keepsD [OF this that] False show ?thesis by (simp add: memory_remember_def Let_def)
  qed (simp add: memory_remember_def that)
  moreover have "P (snd (memory_search out args cx s))" if "P s" for s
    using that by (simp add: memory_search_def Let_def)
  ultimately show ?thesis
    using assms(2) by (auto simp: clock_now_def keeps_ret) (auto simp: keeps_def)
qed

lemma files_kept:
  "keeps (\<lambda>s. rt_files s = F) (add_message clk sid role content label tid)"
  "keeps (\<lambda>s. rt_files s = F) (emit clk kind payload run_id sid)"
  "keeps (\<lambda>s. rt_files s = F) (update_run clk run_id status output err usage)"
  "keeps (\<lambda>s. rt_files s = F) (create_approval hex clk run_id sid nm args reason)"
  "keeps (\<lambda>s. rt_files s = F) (remember hex clk sid txt tags)"
  "keeps (\<lambda>s. rt_files s = F) (store_decision clk aid ok actor)"
  by (simp_all add: keeps_def add_message_def op_upd_def emit_def rt_event_def update_run_def
      create_approval_def remember_def store_decision_def Let_def split: sum.split)

interpretation files: run_frame "default_runtime out prov ws hosts n" "\<lambda>s. rt_files s = F"
  for out prov ws hosts n F
  by unfold_locales (intro files_kept | metis keeps_low_risk default_executable files_kept(5))+


section \<open>How a run ends\<close>

definition pending_for :: "string \<Rightarrow> rt \<Rightarrow> bool" where
  "pending_for rid s \<longleftrightarrow> list_ex (\<lambda>a. ap_run_id a = rid \<and> ap_status a = A_pending) (rt_approvals s)"

definition settled_run :: "string \<Rightarrow> rt \<Rightarrow> bool" where
  "settled_run rid s \<longleftrightarrow> list_all (\<lambda>r. ru_id r = rid \<longrightarrow>
     ru_status r \<in> {R_completed, R_failed} \<or> ru_status r = R_awaiting_approval \<and> pending_for rid s)
     (rt_runs s)"

text \<open>\<open>post Q m\<close>: when the operation returns normally, the value and the store satisfy \<open>Q\<close>.\<close>

definition post :: "('a \<Rightarrow> 's \<Rightarrow> bool) \<Rightarrow> ('a, 's) op \<Rightarrow> bool" where
  "post Q m \<longleftrightarrow> (\<forall>s a s'. m s = (Inr a, s') \<longrightarrow> Q a s')"

lemma postD: "post Q m \<Longrightarrow> m s = (Inr a, s') \<Longrightarrow> Q a s'"
  by (simp add: post_def)

lemma post_bind: "(\<And>a. post Q (f a)) \<Longrightarrow> post Q (op_bind m f)"
  unfolding post_def op_bind_def by (auto split: prod.splits sum.splits)

lemma post_raise: "post Q (op_raise e)"
  by (simp add: post_def op_raise_def)

lemma settled_emit: "keeps (settled_run rid) (emit clk kind payload run_id sid)"
  by (simp add: keeps_def emit_def op_upd_def rt_event_def settled_run_def pending_for_def)

lemma update_run_status:
  assumes "update_run clk rid status output err usage s = (r, s')" "x \<in> set (rt_runs s')" "ru_id x = rid"
  shows "ru_status x = status"
proof -
  have "x \<in> set (upd_where (\<lambda>r. ru_id r = rid)
        (\<lambda>r. r\<lparr>ru_output_text := (case output of None \<Rightarrow> ru_output_text r | Some x \<Rightarrow> Some x),
               ru_error := (case err of None \<Rightarrow> ru_error r | Some x \<Rightarrow> Some x),
               ru_usage := (case usage of None \<Rightarrow> ru_usage r | Some x \<Rightarrow> x),
               ru_status := status, ru_updated_at := iso clk\<rparr>) (rt_runs s))"
    using assms(1,2) by (auto simp: update_run_def op_upd_def)
  then show ?thesis
    by (rule upd_where_field) (use assms(3) in simp_all)
qed

lemma settled_update:
  "status \<in> {R_completed, R_failed} \<Longrightarrow>
     post (\<lambda>_. settled_run rid) (update_run clk rid status output err usage)"
  by (auto simp: post_def settled_run_def list_all_iff dest: update_run_status)

lemma post_then_keep:
  assumes "post (\<lambda>_. Q) m" "\<And>a. keeps Q (f a)"
  shows "post (\<lambda>_. Q) (op_bind m f)"
  unfolding post_def
proof (intro allI impI)
  fix s b s' assume eq: "op_bind m f s = (Inr b, s')"
  obtain r s1 where m: "m s = (r, s1)" by fastforce
  obtain a where a: "r = Inr a" using eq m by (cases r) (auto simp: op_bind_def)
  have "Q s1" using postD [OF assms(1)] m a by blast
  then have "Q (snd (f a s1))" by (rule keepsD [OF assms(2)])
  then show "Q s'" using eq m a by (simp add: op_bind_def)
qed

lemma settled_request: "post (\<lambda>_. settled_run (cx_run_id cx)) (request_approval cx call reason)"
proof -
  let ?rid = "cx_run_id cx"
  let ?tail = "\<lambda>approval_id. op_bind (update_run (cx_clock cx) ?rid R_awaiting_approval None None None) (\<lambda>_.
     emit (cx_clock cx) ''approval.requested''
       (JObj [(''approval_id'', JStr approval_id), (''tool'', JStr (tc_name call)), (''reason'', JStr reason)])
       ?rid (cx_session_id cx))"
  have mid: "settled_run ?rid (snd (?tail aid s1))" if "pending_for ?rid s1" for aid s1
    using that by (auto simp: op_bind_def update_run_def op_upd_def emit_def rt_event_def settled_run_def
        pending_for_def list_all_iff set_upd_where split: if_splits)
  have create: "post (\<lambda>_. pending_for ?rid)
      (create_approval hex (cx_clock cx) ?rid (cx_session_id cx) (tc_name call) (tc_arguments call) reason)" for hex
    by (auto simp: post_def create_approval_def insert_row_def Let_def pending_for_def)
  have step: "post (\<lambda>_. settled_run ?rid) (op_bind (create_approval hex (cx_clock cx) ?rid (cx_session_id cx)
      (tc_name call) (tc_arguments call) reason) ?tail)" for hex
    unfolding post_def
  proof (intro allI impI)
    fix s b s'
    assume eq: "op_bind (create_approval hex (cx_clock cx) ?rid (cx_session_id cx) (tc_name call)
      (tc_arguments call) reason) ?tail s = (Inr b, s')"
    obtain r s1 where c: "create_approval hex (cx_clock cx) ?rid (cx_session_id cx) (tc_name call)
        (tc_arguments call) reason s = (r, s1)" by fastforce
    obtain aid where r: "r = Inr aid"
      using eq c by (cases r) (auto simp: op_bind_def [of "create_approval _ _ _ _ _ _ _"])
    have "?tail aid s1 = (Inr b, s')"
      using eq c r by (simp add: op_bind_def [of "create_approval _ _ _ _ _ _ _"])
    then show "settled_run ?rid s'"
      using mid [OF postD [OF create c [unfolded r]], of aid] by simp
  qed
  show ?thesis
    unfolding request_approval_def by (rule post_bind) (rule step)
qed

lemma settled_calls:
  "post (\<lambda>r s. r = None \<longrightarrow> settled_run (cx_run_id cx) s) (run_calls ag cx calls messages)"
proof (induction calls arbitrary: messages)
  case Nil
  then show ?case by (simp add: post_def op_ret_def)
next
  case (Cons call calls)
  have req: "post (\<lambda>r s. r = None \<longrightarrow> settled_run (cx_run_id cx) s)
      (op_bind (request_approval cx call reason) (\<lambda>_. op_ret None))" for reason
    using settled_request [of cx call reason]
    by (auto simp: post_def op_bind_def op_ret_def split: prod.splits sum.splits)
  have rest: "post (\<lambda>r s. r = None \<longrightarrow> settled_run (cx_run_id cx) s)
      (op_bind m (\<lambda>result. op_bind (finish_call ag cx call result)
         (\<lambda>m. run_calls ag cx calls (messages @ [m]))))" for m
    by (intro post_bind Cons.IH)
  show ?case
    unfolding run_calls.simps
  proof (rule post_bind)
    fix t
    obtain action reason where d: "decide_tool (re_policy (ag_tools ag)) t = (action, reason)"
      by fastforce
    show "post (\<lambda>r s. r = None \<longrightarrow> settled_run (cx_run_id cx) s)
      (let (action, reason) = decide_tool (re_policy (ag_tools ag)) t in
       op_bind (emit (cx_clock cx) ''tool.requested''
          (JObj [(''tool'', JStr (tc_name call)), (''risk'', JStr (risk_text (to_risk t))),
                 (''decision'', JStr (action_text action))]) (cx_run_id cx) (cx_session_id cx)) (\<lambda>_.
       if action = Approve
       then op_bind (request_approval cx call reason) (\<lambda>_. op_ret None)
       else op_bind (if action = Deny then op_ret (JObj [(''error'', JStr reason)])
                     else execute_tool (ag_outside ag) (ag_tools ag) call cx) (\<lambda>result.
            op_bind (finish_call ag cx call result) (\<lambda>m. run_calls ag cx calls (messages @ [m])))))"
      unfolding d Let_def prod.case
      by (rule post_bind) (simp only: req rest split: if_split, blast)
  qed
qed

lemma settled_drive: "post (\<lambda>_. settled_run (cx_run_id cx)) (drive ag cx left step usage messages)"
proof (induction left arbitrary: step usage messages)
  case 0
  then show ?case by (simp add: post_raise)
next
  case (Suc left)
  have fin: "post (\<lambda>_. settled_run (cx_run_id cx))
      (op_bind (update_run (cx_clock cx) (cx_run_id cx) R_completed tx None u)
        (\<lambda>_. emit (cx_clock cx) kind payload (cx_run_id cx) sid))" for tx u kind payload sid
    by (rule post_then_keep) (simp_all add: settled_update settled_emit)
  have calls: "post (\<lambda>_. settled_run (cx_run_id cx))
      (op_bind (run_calls ag cx cs ms) (\<lambda>outcome. case outcome of None \<Rightarrow> op_ret ()
         | Some ms2 \<Rightarrow> drive ag cx left (Suc step) us ms2))" for cs ms us
    unfolding post_def
  proof (intro allI impI)
    fix s b s'
    assume eq: "op_bind (run_calls ag cx cs ms) (\<lambda>outcome. case outcome of None \<Rightarrow> op_ret ()
         | Some ms2 \<Rightarrow> drive ag cx left (Suc step) us ms2) s = (Inr b, s')"
    obtain r s1 where c: "run_calls ag cx cs ms s = (r, s1)" by fastforce
    obtain x where r: "r = Inr x" using eq c by (cases r) (auto simp: op_bind_def)
    show "settled_run (cx_run_id cx) s'"
    proof (cases x)
      case None
      then show ?thesis
        using eq c r postD [OF settled_calls c [unfolded r]] by (simp add: op_bind_def op_ret_def)
    next
      case (Some ms2)
      then have "drive ag cx left (Suc step) us ms2 s1 = (Inr b, s')"
        using eq c r by (simp add: op_bind_def)
      then show ?thesis by (rule postD [OF Suc.IH])
    qed
  qed
  show ?case
    unfolding drive.simps Let_def
    by (intro post_bind) (simp add: fin calls)
qed

text \<open>
  C11. Every run comes to rest. Executing a run never raises, whatever the provider or a tool does, and
  ends with the run completed, failed, or awaiting an approval that is pending; the number of model
  turns is bounded by the step budget.
\<close>

theorem execute_run_settles:
  "fst (execute_run ag cx prompt query s) = Inr ()
   \<and> settled_run (cx_run_id cx) (snd (execute_run ag cx prompt query s))"
proof -
  let ?fail = "\<lambda>exc. op_bind (update_run (cx_clock cx) (cx_run_id cx) R_failed None (Some (exc_text exc)) None) (\<lambda>_.
       emit (cx_clock cx) ''run.failed'' (JObj [(''error'', JStr (exc_text exc))])
         (cx_run_id cx) (cx_session_id cx))"
  have fail: "fst (?fail e s1) = Inr () \<and> settled_run (cx_run_id cx) (snd (?fail e s1))" for e s1
  proof -
    have "post (\<lambda>_. settled_run (cx_run_id cx)) (?fail e)"
      by (rule post_then_keep) (simp_all add: settled_update settled_emit)
    moreover have "fst (?fail e s1) = Inr ()"
      by (simp add: op_bind_def update_run_def emit_def op_upd_def)
    moreover obtain r s2 where "?fail e s1 = (r, s2)" by fastforce
    ultimately show ?thesis using postD by fastforce
  qed
  have drive: "settled_run (cx_run_id cx) s2" if "drive_run ag cx prompt query s1 = (Inr u, s2)" for s1 u s2
    using that postD [OF settled_drive] by (simp add: drive_run_def op_bind_def op_gets_def del: drive.simps)
  have "fst (op_try (drive_run ag cx prompt query) ?fail s1) = Inr ()
      \<and> settled_run (cx_run_id cx) (snd (op_try (drive_run ag cx prompt query) ?fail s1))" for s1
  proof (cases "drive_run ag cx prompt query s1")
    case (Pair r s2)
    then show ?thesis
      using fail drive by (cases r) (simp_all add: op_try_def)
  qed
  then show ?thesis
    by (simp add: execute_run_def op_bind_def update_run_def emit_def op_upd_def)
qed

section \<open>Approvals are used once\<close>

definition decided :: "string \<Rightarrow> rt \<Rightarrow> bool" where
  "decided aid s \<longleftrightarrow> (\<exists>a. approval_of aid s = Some a \<and> ap_status a \<noteq> A_pending)"

lemma decided_cong: "rt_approvals s' = rt_approvals s \<Longrightarrow> decided aid s' = decided aid s"
  by (simp add: decided_def approval_of_def)

lemma decided_kept:
  "keeps (decided aid) (add_message clk sid role content label tid)"
  "keeps (decided aid) (emit clk kind payload run_id sid)"
  "keeps (decided aid) (update_run clk run_id status output err usage)"
  "keeps (decided aid) (create_approval hex clk run_id sid nm args reason)"
  "keeps (decided aid) (remember hex clk sid txt tags)"
  by (auto simp: keeps_def add_message_def op_upd_def emit_def rt_event_def update_run_def
      create_approval_def remember_def Let_def decided_def approval_of_def find_append insert_row_def
      split: sum.splits if_splits)

lemma decided_builtin: "t \<in> set builtin_tools \<Longrightarrow> keeps (decided aid) (to_handler t out args cx)"
proof -
  have rd: "keeps (decided aid) (workspace_read out args cx)"
    by (auto simp: keeps_def workspace_read_def split: sum.splits option.splits)
  have wr: "keeps (decided aid) (workspace_write out args cx)"
    by (auto simp: keeps_def workspace_write_def Let_def decided_def approval_of_def split: sum.splits)
  have ht: "keeps (decided aid) (http_get out args cx)"
    unfolding http_get_def Let_def by (intro keeps_intros)
  have low: "h \<in> {clock_now, memory_remember, memory_search} \<Longrightarrow> keeps (decided aid) (h out args cx)" for h
    by (rule keeps_low_risk [OF decided_kept(5)])
  assume "t \<in> set builtin_tools"
  then have "to_handler t \<in> {clock_now, memory_remember, memory_search, workspace_read, workspace_write, http_get}"
    by (auto simp: builtin_tools_def)
  then show ?thesis
    by (elim insertE emptyE) (simp_all add: rd wr ht low)
qed

lemma decided_execute: "keeps (decided aid) (execute_tool out (ag_tools (default_runtime o1 prov ws hosts n)) call cx)"
proof (cases "get_tool (ag_tools (default_runtime o1 prov ws hosts n)) (tc_name call)")
  case (Inl e)
  then show ?thesis by (simp add: execute_tool_def op_bind_def op_lift_def keeps_def)
next
  case (Inr t)
  then have "t \<in> set builtin_tools"
    by (auto simp: get_tool_def default_tools split: option.splits dest!: find_SomeD)
  from decided_builtin [OF this] Inr show ?thesis
    by (simp add: execute_tool_def op_bind_def op_lift_def keeps_def)
qed

interpretation once: run_frame "default_runtime out prov ws hosts n" "decided aid"
  for out prov ws hosts n aid
  by unfold_locales (intro decided_kept | metis keeps_low_risk default_executable decided_kept(5))+

lemma store_decision_decides:
  assumes "approval_of aid s = Some a" "ap_status a = A_pending"
  shows "decided aid (snd (store_decision clk aid ok actor s))"
proof -
  define f where "f = (\<lambda>a::approval_row. a\<lparr>ap_status := (if ok then A_approved else A_denied), ap_actor := Some actor,
      ap_decided_at := Some (iso clk)\<rparr>)"
  have id: "ap_id (f a) = ap_id a" and st: "ap_status (f a) \<noteq> A_pending" for a
    by (simp_all add: f_def)
  have "find (\<lambda>a. ap_id a = aid) (upd_where (\<lambda>a. ap_id a = aid \<and> ap_status a = A_pending) f as)
      = map_option (\<lambda>a. if ap_status a = A_pending then f a else a) (find (\<lambda>a. ap_id a = aid) as)" for as
    by (induction as) (auto simp: id)
  moreover have "rt_approvals (snd (store_decision clk aid ok actor s)) =
      upd_where (\<lambda>a. ap_id a = aid \<and> ap_status a = A_pending) f (rt_approvals s)"
    by (simp add: store_decision_def op_upd_def f_def)
  ultimately show ?thesis
    using assms st by (simp add: decided_def approval_of_def)
qed

lemma decided_apply:
  "keeps (decided aid) (apply_decision (default_runtime out prov ws hosts n) uuid clk ok actor a run)"
  unfolding apply_decision_def Let_def
  by (intro keeps_intros decided_kept decided_execute once.keeps_drive_run)


section \<open>An approved call that fails\<close>

definition plain_outside :: outside where
  "plain_outside = \<lparr>os_fts = (\<lambda>_ _. []), os_float = (\<lambda>_. ''0.0''), os_parse_url = (\<lambda>_. ([], None)),
     os_resolve = (\<lambda>_. []), os_fetch = (\<lambda>_. \<lparr>hr_status = 200, hr_content_type = [], hr_body = []\<rparr>),
     os_utc = (\<lambda>_. ''now''), os_decode = (\<lambda>s. s)\<rparr>"

definition offline_runtime :: runtime where
  "offline_runtime = default_runtime plain_outside (offline_complete ''07'') [''ws''] [] 8"

definition plain_ids :: "string \<Rightarrow> nat \<Rightarrow> string" where
  "plain_ids kind n = ''1''"

definition read_run :: "(py_error + run_row) \<times> rt" where
  "read_run = run_envelope (\<lambda>_. ''abc'') offline_runtime ''2'' plain_ids 1
     \<lparr>en_channel = ''api'', en_peer_id = ''local'', en_session_id = None, en_text = ''read: missing.txt'',
      en_metadata = JObj []\<rparr> (open_store 0 (empty_rt []))"

definition read_approved :: "(py_error + run_row) \<times> rt" where
  "read_approved = decide_approval offline_runtime plain_ids 2 ''approval_1'' True ''ann'' (snd read_run)"

text \<open>
  An approved call that fails strands its run. The offline agent asks to read a file; the operator
  approves; the file does not exist, so the decision raises: the approval is used up, the run
  still says that it awaits an approval, and none is pending for it.
\<close>

theorem failed_approval_strands_run:
  "map ru_status (rt_runs (snd read_run)) = [R_awaiting_approval]
   \<and> pending_for ''run_2'' (snd read_run)
   \<and> fst read_approved = Inl (ValueError ''File does not exist'')
   \<and> map ru_status (rt_runs (snd read_approved)) = [R_awaiting_approval]
   \<and> \<not> pending_for ''run_2'' (snd read_approved)"
proof (intro conjI)
  show "map ru_status (rt_runs (snd read_run)) = [R_awaiting_approval]" by code_simp
  show "pending_for ''run_2'' (snd read_run)" by code_simp
  show "fst read_approved = Inl (ValueError ''File does not exist'')" by code_simp
  show "map ru_status (rt_runs (snd read_approved)) = [R_awaiting_approval]" by code_simp
  show "\<not> pending_for ''run_2'' (snd read_approved)" by code_simp
qed


end
