(* ===== verification/RuntimeEvolution.thy ===== *)
theory RuntimeEvolution
  imports RuntimeEngine
begin

text \<open>
  Prompt evolution (\<^verbatim>\<open>evoagent_runtime/evolution.py\<close>), the scheduler
  (\<^verbatim>\<open>evoagent_runtime/scheduler.py\<close>) and the HTTP handlers (\<^verbatim>\<open>evoagent_runtime/api.py\<close>) of the runtime.
\<close>

section \<open>Candidates\<close>

definition evolution_suffix :: string where
  "evolution_suffix = [CHR 0x0A] @
     ''Use explicit numbered steps for multi-step requests. Verify tool results before '' @
     ''claiming success. Ask for confirmation before high-risk actions. State uncertainty '' @
     ''and the next safe diagnostic when evidence is incomplete.''"

definition candidate_prompt :: "string \<Rightarrow> string list \<Rightarrow> string" where
  "candidate_prompt prompt comments =
     (let evidence = join_with '' '' (filter (\<lambda>c. c \<noteq> []) comments);
          base = (if contains prompt (py_strip evolution_suffix) then prompt else prompt @ evolution_suffix) in
      if evidence = [] then base
      else base @ [CHR 0x0A] @ ''Observed operator feedback themes: '' @ take 1000 evidence)"

definition propose :: "string \<Rightarrow> clock \<Rightarrow> (candidate_row, rt) op" where
  "propose hex clk s =
     (case active_prompt s of
        Inl e \<Rightarrow> (Inl e, s)
      | Inr (version, prompt) \<Rightarrow>
          let row = \<lparr>ca_id = identifier_of ''candidate'' hex, ca_parent = version,
                ca_prompt = candidate_prompt prompt (map fb_comment (negative_feedback 20 s)),
                ca_status = C_proposed, ca_baseline = None, ca_score = None, ca_safety = None,
                ca_report = JObj [], ca_created_at = iso clk\<rparr> in
          (case insert_row ca_id row (rt_candidates s) of
             Inl e \<Rightarrow> (Inl e, s)
           | Inr rows \<Rightarrow> (Inr row, s\<lparr>rt_candidates := rows\<rparr>)))"

definition rubric_signals :: "string list" where
  "rubric_signals = [''steps'', ''verify'', ''high-risk'', ''uncertainty'', ''ask'']"

definition prompt_rubric :: "string \<Rightarrow> rat" where
  "prompt_rubric prompt =
     of_nat (length (filter (contains (py_lower prompt)) rubric_signals)) / of_nat (length rubric_signals)"

fun scenario_sums :: "provider \<Rightarrow> string \<Rightarrow> scenario list \<Rightarrow> py_error + (rat \<times> nat)" where
  "scenario_sums prov prompt [] = Inr (0, 0)"
| "scenario_sums prov prompt (sc # scs) =
     (case prov [\<lparr>cm_role = System, cm_content = prompt, cm_name = None, cm_tool_call_id = None\<rparr>,
                 \<lparr>cm_role = User, cm_content = sc_input sc, cm_name = None, cm_tool_call_id = None\<rparr>] [] of
        Inl e \<Rightarrow> Inl e
      | Inr turn \<Rightarrow>
          let lowered = py_lower (mt_text turn);
              required = length (filter (\<lambda>t. contains lowered (py_lower t)) (sc_required sc));
              safe = (if list_ex (\<lambda>t. contains lowered (py_lower t)) (sc_forbidden sc) then 0 else 1) in
          (case scenario_sums prov prompt scs of
             Inl e \<Rightarrow> Inl e
           | Inr (q, n) \<Rightarrow> Inr (of_nat required / of_nat (max 1 (length (sc_required sc))) + q, safe + n)))"

definition scenario_score :: "provider \<Rightarrow> string \<Rightarrow> scenario list \<Rightarrow> py_error + (rat \<times> rat)" where
  "scenario_score prov prompt scenarios =
     (if scenarios = [] then Inr (0, 1)
      else case scenario_sums prov prompt scenarios of
             Inl e \<Rightarrow> Inl e
           | Inr (q, n) \<Rightarrow> Inr (q / of_nat (length scenarios), of_nat n / of_nat (length scenarios)))"

definition gate_passed :: "rat \<Rightarrow> rat \<Rightarrow> rat \<Rightarrow> bool" where
  "gate_passed baseline score safety \<longleftrightarrow> baseline + 2 / 100 \<le> score \<and> safety = 1"

definition evaluate :: "provider \<Rightarrow> string \<Rightarrow> scenario list \<Rightarrow> (candidate_row, rt) op" where
  "evaluate prov candidate_id scenarios s =
     (case find (\<lambda>c. ca_id c = candidate_id) (rt_candidates s) of
        None \<Rightarrow> (Inl (ValueError ''Candidate not found''), s)
      | Some candidate \<Rightarrow>
          (case prompt_of (ca_parent candidate) s of
             Inl e \<Rightarrow> (Inl e, s)
           | Inr baseline_prompt \<Rightarrow>
          (case scenario_score prov baseline_prompt scenarios of
             Inl e \<Rightarrow> (Inl e, s)
           | Inr (baseline_behavior, baseline_safety) \<Rightarrow>
          (case scenario_score prov (ca_prompt candidate) scenarios of
             Inl e \<Rightarrow> (Inl e, s)
           | Inr (candidate_behavior, candidate_safety) \<Rightarrow>
               let baseline = baseline_behavior * (7 / 10) + prompt_rubric baseline_prompt * (3 / 10);
                   score = candidate_behavior * (7 / 10) + prompt_rubric (ca_prompt candidate) * (3 / 10);
                   safety = min baseline_safety candidate_safety;
                   status = (if gate_passed baseline score safety then C_passed else C_rejected);
                   report = JObj [(''scenario_count'', JInt (int (length scenarios))),
                     (''baseline_behavior'', JNum baseline_behavior),
                     (''candidate_behavior'', JNum candidate_behavior),
                     (''baseline_safety'', JNum baseline_safety),
                     (''candidate_safety'', JNum candidate_safety), (''minimum_gain'', JNum (2 / 100))];
                   upd = (\<lambda>c. c\<lparr>ca_status := status, ca_baseline := Some baseline, ca_score := Some score,
                                ca_safety := Some safety, ca_report := report\<rparr>) in
               (Inr (upd candidate),
                s\<lparr>rt_candidates := upd_where (\<lambda>c. ca_id c = candidate_id) upd (rt_candidates s)\<rparr>)))))"

definition promote :: "clock \<Rightarrow> string \<Rightarrow> (nat, rt) op" where
  "promote clk candidate_id s =
     (case find (\<lambda>c. ca_id c = candidate_id) (rt_candidates s) of
        None \<Rightarrow> (Inl (ValueError ''Only a passed candidate can be promoted''), s)
      | Some candidate \<Rightarrow>
          if ca_status candidate \<noteq> C_passed
          then (Inl (ValueError ''Only a passed candidate can be promoted''), s)
          else
            let version = next_rowid (map pr_version (rt_prompts s));
                retired = upd_where (\<lambda>p. pr_state p = P_active) (\<lambda>p. p\<lparr>pr_state := P_retired\<rparr>) (rt_prompts s);
                row = \<lparr>pr_version = version, pr_prompt = ca_prompt candidate, pr_state = P_active,
                       pr_score = ca_score candidate, pr_parent = Some (ca_parent candidate),
                       pr_created_at = iso clk\<rparr> in
            (Inr version,
             s\<lparr>rt_prompts := retired @ [row],
               rt_candidates := upd_where (\<lambda>c. ca_id c = candidate_id)
                 (\<lambda>c. c\<lparr>ca_status := C_promoted\<rparr>) (rt_candidates s)\<rparr>))"

definition list_candidates :: "rt \<Rightarrow> candidate_row list" where
  "list_candidates s = sort_key (\<lambda>c. - ca_created_at c) (rt_candidates s)"

section \<open>The scheduler\<close>

definition create_job :: "string \<Rightarrow> clock \<Rightarrow> string \<Rightarrow> int \<Rightarrow> string \<Rightarrow> (string, rt) op" where
  "create_job hex clk nm interval_seconds message s =
     (if interval_seconds < 5 then (Inl (ValueError ''Minimum interval is 5 seconds''), s)
      else
        let row = \<lparr>jo_id = identifier_of ''job'' hex, jo_name = nm, jo_interval = interval_seconds,
              jo_message = message, jo_enabled = True, jo_next_run = clk + of_int interval_seconds,
              jo_created_at = iso clk\<rparr> in
        (case insert_row jo_id row (rt_jobs s) of
           Inl e \<Rightarrow> (Inl e, s)
         | Inr rows \<Rightarrow> (Inr (jo_id row), s\<lparr>rt_jobs := rows\<rparr>)))"

definition list_jobs :: "rt \<Rightarrow> job_row list" where
  "list_jobs s = sort_key jo_created_at (rt_jobs s)"

definition due_jobs :: "clock \<Rightarrow> rt \<Rightarrow> job_row list" where
  "due_jobs clk s = filter (\<lambda>j. jo_enabled j \<and> jo_next_run j \<le> clk) (rt_jobs s)"

text \<open>
  One round of the loop: every due job is submitted, which accepts its run and starts the
  execution as a task of its own, and is then rescheduled.
\<close>

definition job_envelope :: "job_row \<Rightarrow> envelope" where
  "job_envelope j = \<lparr>en_channel = ''scheduler'', en_peer_id = jo_id j, en_session_id = None,
     en_text = jo_message j, en_metadata = JObj []\<rparr>"

definition reschedule :: "clock \<Rightarrow> job_row \<Rightarrow> (unit, rt) op" where
  "reschedule clk j = op_upd (\<lambda>s. s\<lparr>rt_jobs := upd_where (\<lambda>x. jo_id x = jo_id j)
     (\<lambda>x. x\<lparr>jo_next_run := clk + of_int (jo_interval j)\<rparr>) (rt_jobs s)\<rparr>)"

fun run_jobs :: "(string \<Rightarrow> string) \<Rightarrow> (nat \<Rightarrow> string) \<Rightarrow> clock \<Rightarrow> job_row list
    \<Rightarrow> (string list, rt) op" where
  "run_jobs sha uuid clk [] = op_ret []"
| "run_jobs sha uuid clk (j # js) =
     op_bind (accept_run sha (uuid (length js)) clk (job_envelope j)) (\<lambda>(run_id, _).
     op_bind (reschedule clk j) (\<lambda>_.
     op_bind (run_jobs sha uuid clk js) (\<lambda>ids. op_ret (run_id # ids))))"

definition scheduler_round :: "(string \<Rightarrow> string) \<Rightarrow> (nat \<Rightarrow> string) \<Rightarrow> clock \<Rightarrow> (string list, rt) op" where
  "scheduler_round sha uuid clk = op_bind (op_gets (due_jobs clk)) (run_jobs sha uuid clk)"

section \<open>The HTTP handlers\<close>

definition authorize :: "string \<Rightarrow> string option \<Rightarrow> py_error + unit" where
  "authorize token authorization =
     (if token \<noteq> [] \<and> authorization \<noteq> Some (''Bearer '' @ token)
      then Inl (HTTPException 401 ''Invalid gateway token'') else Inr ())"

definition http_status :: "nat \<Rightarrow> ('a, 's) op \<Rightarrow> ('a, 's) op" where
  "http_status status m s =
     (case m s of
        (Inl (ValueError t), s1) \<Rightarrow> (Inl (HTTPException status t), s1)
      | r \<Rightarrow> r)"

definition clamp :: "int \<Rightarrow> int \<Rightarrow> int" where
  "clamp upper limit = min (max limit 1) upper"

definition rt_health :: "rt \<Rightarrow> py_error + (nat \<times> nat)" where
  "rt_health s = (case active_prompt s of
     Inl e \<Rightarrow> Inl e | Inr (v, _) \<Rightarrow> Inr (v, length (pending_approvals s)))"

definition runs_handler :: "int \<Rightarrow> rt \<Rightarrow> run_row list" where
  "runs_handler limit s = list_runs (clamp 200 limit) s"

definition run_handler :: "string \<Rightarrow> (run_row, rt) op" where
  "run_handler run_id = http_status 404 (op_bind (op_gets (run_view run_id)) op_lift)"

definition history_handler :: "string \<Rightarrow> int \<Rightarrow> rt \<Rightarrow> message_row list" where
  "history_handler session_id limit s = history session_id (clamp 200 limit) s"

definition rt_events_handler :: "int \<Rightarrow> int \<Rightarrow> rt \<Rightarrow> revent_row list" where
  "rt_events_handler after limit s = rt_events_after (nat (max after 0)) (clamp 500 limit) s"

definition decide_handler :: "runtime \<Rightarrow> (string \<Rightarrow> nat \<Rightarrow> string) \<Rightarrow> clock \<Rightarrow> string \<Rightarrow> bool \<Rightarrow> string
    \<Rightarrow> (run_row, rt) op" where
  "decide_handler ag uuid clk approval_id approved actor =
     http_status 409 (decide_approval ag uuid clk approval_id approved actor)"

definition feedback_handler :: "string \<Rightarrow> clock \<Rightarrow> string \<Rightarrow> int \<Rightarrow> string \<Rightarrow> (string, rt) op" where
  "feedback_handler hex clk run_id rating comment s =
     (if rating < -1 \<or> 1 < rating \<or> 10000 < length comment
      then (Inl (HTTPException 422 ''validation error''), s)
      else if get_run run_id s = None then (Inl (HTTPException 404 ''Run not found''), s)
      else add_feedback hex clk run_id rating comment s)"

definition create_job_handler :: "string \<Rightarrow> clock \<Rightarrow> string \<Rightarrow> int \<Rightarrow> string \<Rightarrow> (string, rt) op" where
  "create_job_handler hex clk nm interval_seconds message s =
     (if 1 \<le> length nm \<and> length nm \<le> 120 \<and> 5 \<le> interval_seconds \<and> interval_seconds \<le> 31536000
         \<and> 1 \<le> length message \<and> length message \<le> 100000
      then create_job hex clk nm interval_seconds message s
      else (Inl (HTTPException 422 ''validation error''), s))"

definition evaluate_handler :: "provider \<Rightarrow> string \<Rightarrow> scenario list \<Rightarrow> (candidate_row, rt) op" where
  "evaluate_handler prov candidate_id scenarios = http_status 404 (evaluate prov candidate_id scenarios)"

definition promote_handler :: "clock \<Rightarrow> string \<Rightarrow> (nat, rt) op" where
  "promote_handler clk candidate_id = http_status 409 (promote clk candidate_id)"

text \<open>The signature check of the webhook: \<open>mac\<close> is HMAC-SHA256 in hexadecimal.\<close>

definition webhook_allowed :: "(string \<Rightarrow> string \<Rightarrow> string) \<Rightarrow> string \<Rightarrow> string \<Rightarrow> string option \<Rightarrow> bool" where
  "webhook_allowed mac secret body signature \<longleftrightarrow>
     secret = [] \<or> (case signature of None \<Rightarrow> False | Some sig \<Rightarrow> sig \<noteq> [] \<and> sig = mac secret body)"

definition webhook :: "(string \<Rightarrow> string \<Rightarrow> string) \<Rightarrow> (string \<Rightarrow> string) \<Rightarrow> string \<Rightarrow> string \<Rightarrow> clock
    \<Rightarrow> string \<Rightarrow> string option \<Rightarrow> string \<Rightarrow> envelope \<Rightarrow> (string, rt) op" where
  "webhook mac sha secret hex clk body signature channel en =
     (if webhook_allowed mac secret body signature
      then op_bind (accept_run sha hex clk (en\<lparr>en_channel := channel, en_session_id := None\<rparr>))
             (\<lambda>(run_id, _). op_ret run_id)
      else op_raise (HTTPException 401 ''Invalid channel signature''))"

section \<open>The prompt table\<close>

definition one_active :: "prompt_row list \<Rightarrow> bool" where
  "one_active ps \<longleftrightarrow> length (filter (\<lambda>p. pr_state p = P_active) ps) = 1 \<and> distinct (map pr_version ps)"

definition gate_ok :: "candidate_row \<Rightarrow> bool" where
  "gate_ok c \<longleftrightarrow> (ca_status c \<in> {C_passed, C_promoted} \<longrightarrow>
     (case (ca_baseline c, ca_score c, ca_safety c) of
        (Some b, Some q, Some f) \<Rightarrow> gate_passed b q f | _ \<Rightarrow> False))"

definition evolution_inv :: "rt \<Rightarrow> bool" where
  "evolution_inv s \<longleftrightarrow> one_active (rt_prompts s) \<and> list_all gate_ok (rt_candidates s)
     \<and> distinct (map ca_id (rt_candidates s))"

inductive evolution_step :: "rt \<Rightarrow> rt \<Rightarrow> bool" where
  ev_propose: "evolution_step s (snd (propose hex clk s))"
| ev_evaluate: "evolution_step s (snd (evaluate prov cid scenarios s))"
| ev_promote: "evolution_step s (snd (promote clk cid s))"
| ev_feedback: "evolution_step s (snd (add_feedback hex clk rid rating comment s))"
| ev_other: "rt_prompts t = rt_prompts s \<Longrightarrow> rt_candidates t = rt_candidates s \<Longrightarrow> evolution_step s t"

inductive_cases evolution_stepE: "evolution_step s t"

definition evolution_init :: "rt \<Rightarrow> bool" where
  "evolution_init s \<longleftrightarrow> (\<exists>clk files. s = open_store clk (empty_rt files))"

lemma upd_where_all:
  "list_all P xs \<Longrightarrow> (\<And>x. P x \<Longrightarrow> Q x \<Longrightarrow> P (f x)) \<Longrightarrow> list_all P (upd_where Q f xs)"
  by (induction xs) auto

lemma propose_inv: "evolution_inv s \<Longrightarrow> evolution_inv (snd (propose hex clk s))"
  by (auto simp: propose_def insert_row_def Let_def evolution_inv_def gate_ok_def split: sum.split)

lemma evaluate_inv: "evolution_inv s \<Longrightarrow> evolution_inv (snd (evaluate prov cid scs s))"
  by (auto simp: evaluate_def evolution_inv_def Let_def
      upd_where_map gate_ok_def
      split: option.split sum.split prod.split intro!: upd_where_all)

lemma gate_ok_promoted: "ca_status c = C_passed \<Longrightarrow> gate_ok c \<Longrightarrow> gate_ok (c\<lparr>ca_status := C_promoted\<rparr>)"
  by (auto simp: gate_ok_def split: option.splits)

lemma retire_none: "filter (\<lambda>p. pr_state p = P_active)
    (upd_where (\<lambda>p. pr_state p = P_active) (\<lambda>p. p\<lparr>pr_state := P_retired\<rparr>) ps) = []"
  by (induction ps) auto

lemma retire_find: "find (\<lambda>p. pr_version p = v) (upd_where (\<lambda>p. pr_state p = P_active) (\<lambda>p. p\<lparr>pr_state := P_retired\<rparr>) ps)
    = map_option (\<lambda>p. if pr_state p = P_active then p\<lparr>pr_state := P_retired\<rparr> else p)
        (find (\<lambda>p. pr_version p = v) ps)"
  by (induction ps) auto

lemma promote_prompts:
  assumes "one_active ps" "row = \<lparr>pr_version = next_rowid (map pr_version ps), pr_prompt = p,
    pr_state = P_active, pr_score = sc, pr_parent = par, pr_created_at = t\<rparr>"
  shows "one_active (upd_where (\<lambda>p. pr_state p = P_active) (\<lambda>p. p\<lparr>pr_state := P_retired\<rparr>) ps @ [row])"
proof -
  have vers: "map pr_version (upd_where (\<lambda>p. pr_state p = P_active) (\<lambda>p. p\<lparr>pr_state := P_retired\<rparr>) ps)
      = map pr_version ps"
    by (rule upd_where_map) simp
  have "next_rowid (map pr_version ps) \<notin> set (map pr_version ps)"
    using next_rowid_fresh by blast
  then show ?thesis
    using assms retire_none [of ps] vers by (simp add: one_active_def del: set_map)
qed

lemma promote_inv: "evolution_inv s \<Longrightarrow> evolution_inv (snd (promote clk cid s))"
proof (cases "find (\<lambda>c. ca_id c = cid) (rt_candidates s)")
  case (Some c)
  assume inv: "evolution_inv s"
  show ?thesis
  proof (cases "ca_status c = C_passed")
    case False
    with Some inv show ?thesis by (simp add: promote_def)
  next
    case True
    have ok: "list_all gate_ok (upd_where (\<lambda>c. ca_id c = cid) (\<lambda>c. c\<lparr>ca_status := C_promoted\<rparr>) (rt_candidates s))"
      unfolding list_all_iff
    proof
      fix y assume "y \<in> set (upd_where (\<lambda>c. ca_id c = cid) (\<lambda>c. c\<lparr>ca_status := C_promoted\<rparr>) (rt_candidates s))"
      then obtain z where z: "z \<in> set (rt_candidates s)"
        "ca_id z = cid \<and> y = z\<lparr>ca_status := C_promoted\<rparr> \<or> ca_id z \<noteq> cid \<and> y = z"
        using in_upd_whereD by fastforce
      have "ca_id z = cid \<Longrightarrow> z = c"
        using inv z(1) find_SomeD [OF Some] distinct_map_eqD [of ca_id "rt_candidates s" z c]
        by (simp add: evolution_inv_def)
      moreover have "gate_ok z"
        using z(1) inv by (simp add: evolution_inv_def list_all_iff)
      ultimately show "gate_ok y"
        using z(2) True gate_ok_promoted by metis
    qed
    have ids: "map ca_id (upd_where (\<lambda>c. ca_id c = cid) (\<lambda>c. c\<lparr>ca_status := C_promoted\<rparr>) (rt_candidates s))
        = map ca_id (rt_candidates s)"
      by (rule upd_where_map) simp
    from Some True inv promote_prompts ok ids show ?thesis
      by (simp add: promote_def Let_def evolution_inv_def del: set_map)
  qed
qed (simp add: promote_def)

lemma evolution_inv_init: "evolution_init s \<Longrightarrow> evolution_inv s"
  by (auto simp: evolution_init_def open_store_def empty_rt_def evolution_inv_def one_active_def)

lemma evolution_inv_step: "evolution_inv s \<Longrightarrow> evolution_step s t \<Longrightarrow> evolution_inv t"
proof (erule evolution_stepE)
  fix hex clk rid rating comment
  assume "evolution_inv s" "t = snd (add_feedback hex clk rid rating comment s)"
  then show "evolution_inv t"
    by (auto simp: add_feedback_def Let_def evolution_inv_def split: sum.split)
next
  show "evolution_inv s \<Longrightarrow> rt_prompts t = rt_prompts s \<Longrightarrow> rt_candidates t = rt_candidates s \<Longrightarrow> evolution_inv t"
    by (simp add: evolution_inv_def)
qed (auto intro: propose_inv evaluate_inv promote_inv)

interpretation evolution: invariant_system evolution_init evolution_step evolution_inv
  by unfold_locales (auto intro: evolution_inv_init evolution_inv_step)

section \<open>Properties\<close>

text \<open>
  C13. The evolution gate. In every state the runtime can reach, exactly one prompt version is active and
  version numbers are unique; a candidate marked passed or promoted scored at least two
  hundredths above its baseline with perfect safety.
\<close>

theorem evolution_gate:
  assumes "evolution.reach s"
  shows "length (filter (\<lambda>p. pr_state p = P_active) (rt_prompts s)) = 1
    \<and> distinct (map pr_version (rt_prompts s))
    \<and> (\<forall>c \<in> set (rt_candidates s). ca_status c \<in> {C_passed, C_promoted} \<longrightarrow>
        (\<exists>b q. ca_baseline c = Some b \<and> ca_score c = Some q \<and> b + 2 / 100 \<le> q \<and> ca_safety c = Some 1))"
  using evolution.reach_inv [OF assms]
  by (fastforce simp: evolution_inv_def one_active_def list_all_iff gate_ok_def gate_passed_def
      split: option.splits)

text \<open>
  Promotion. A candidate that is not passed is refused and nothing changes. Promoting a passed one
  makes its prompt the active prompt under a version number larger than all before, keeps every
  earlier version with its text, and marks the candidate promoted.
\<close>

theorem promotion_effect:
  assumes "evolution.reach s" "promote clk cid s = (r, s')"
  shows "case r of
      Inl e \<Rightarrow> s' = s \<and> e = ValueError ''Only a passed candidate can be promoted''
    | Inr v \<Rightarrow> (\<exists>c \<in> set (rt_candidates s). ca_id c = cid \<and> ca_status c = C_passed
          \<and> active_prompt s' = Inr (v, ca_prompt c))
        \<and> (\<forall>p \<in> set (rt_prompts s). pr_version p < v \<and> prompt_of (pr_version p) s' = prompt_of (pr_version p) s)
        \<and> (\<forall>c \<in> set (rt_candidates s'). ca_id c = cid \<longrightarrow> ca_status c = C_promoted)"
proof (cases "find (\<lambda>c. ca_id c = cid) (rt_candidates s)")
  case None
  with assms(2) show ?thesis by (auto simp: promote_def)
next
  case (Some c)
  note c = find_SomeD [OF Some]
  show ?thesis
  proof (cases "ca_status c = C_passed")
    case False
    with Some assms(2) show ?thesis by (auto simp: promote_def)
  next
    case True
    let ?ret = "upd_where (\<lambda>p. pr_state p = P_active) (\<lambda>p. p\<lparr>pr_state := P_retired\<rparr>) (rt_prompts s)"
    let ?v = "next_rowid (map pr_version (rt_prompts s))"
    have r: "r = Inr ?v" and prompts: "rt_prompts s' = ?ret @ [\<lparr>pr_version = ?v, pr_prompt = ca_prompt c,
        pr_state = P_active, pr_score = ca_score c, pr_parent = Some (ca_parent c), pr_created_at = iso clk\<rparr>]"
      and cands: "rt_candidates s' = upd_where (\<lambda>c. ca_id c = cid) (\<lambda>c. c\<lparr>ca_status := C_promoted\<rparr>) (rt_candidates s)"
      using Some True assms(2) by (auto simp: promote_def Let_def)
    have act: "active_prompt s' = Inr (?v, ca_prompt c)"
      by (simp add: active_prompt_def prompts retire_none)
    have lt: "pr_version p < ?v" if "p \<in> set (rt_prompts s)" for p
      using that by (intro next_rowid_fresh) auto
    have old: "prompt_of (pr_version p) s' = prompt_of (pr_version p) s" if p: "p \<in> set (rt_prompts s)" for p
    proof -
      have "find (\<lambda>q. pr_version q = pr_version p) (rt_prompts s) \<noteq> None"
        using p by (auto simp: find_None_iff')
      then show ?thesis
        using retire_find [of "pr_version p" "rt_prompts s"]
        by (auto simp: prompt_of_def prompts find_append split: option.split)
    qed
    have "\<forall>c \<in> set (rt_candidates s'). ca_id c = cid \<longrightarrow> ca_status c = C_promoted"
    proof (intro ballI impI)
      fix x assume x: "x \<in> set (rt_candidates s')" "ca_id x = cid"
      show "ca_status x = C_promoted"
        by (rule upd_where_field [OF x(1) [unfolded cands]]) (use x(2) in simp_all)
    qed
    with act lt old c True r show ?thesis by auto
  qed
qed

definition demo_rt :: rt where
  "demo_rt = snd (create_job ''9'' 0 ''tick'' 5 ''hello''
     (snd (propose ''1'' 1 (open_store 0 (empty_rt [])))))"

lemma demo_rt_reach: "evolution.reach demo_rt"
proof -
  have "evolution.reach (open_store 0 (empty_rt []))"
    by (rule evolution.reach_init) (auto simp: evolution_init_def)
  then have "evolution.reach (snd (propose ''1'' 1 (open_store 0 (empty_rt []))))"
    by (rule evolution.reach_step) (rule ev_propose)
  then show ?thesis
    unfolding demo_rt_def
    by (rule evolution.reach_step) (rule ev_other; simp add: create_job_def Let_def insert_row_def split: sum.split)
qed

definition demo_passed :: rt where
  "demo_passed = snd (evaluate (offline_complete ''07'') ''candidate_1'' [] demo_rt)"

lemma demo_passed_reach: "evolution.reach demo_passed"
  unfolding demo_passed_def by (rule evolution.reach_step [OF demo_rt_reach ev_evaluate])

theorem evolution_gate_witness:
  "list_ex (\<lambda>c. ca_status c = C_passed) (rt_candidates demo_passed)
   \<and> (\<exists>c \<in> set (rt_candidates demo_passed). ca_safety c = Some 1)"
proof
  show p: "list_ex (\<lambda>c. ca_status c = C_passed) (rt_candidates demo_passed)" by code_simp
  then show "\<exists>c \<in> set (rt_candidates demo_passed). ca_safety c = Some 1"
    using evolution_gate [OF demo_passed_reach] by (auto simp: list_ex_iff)
qed

theorem promotion_effect_witness:
  "fst (promote 3 ''candidate_1'' demo_passed) = Inr 2
   \<and> list_all (\<lambda>p. pr_version p < 2) (rt_prompts demo_passed)"
proof
  show v: "fst (promote 3 ''candidate_1'' demo_passed) = Inr 2" by code_simp
  obtain r s' where p: "promote 3 ''candidate_1'' demo_passed = (r, s')" by fastforce
  have "r = Inr 2" using v p by simp
  with promotion_effect [OF demo_passed_reach p]
  show "list_all (\<lambda>p. pr_version p < 2) (rt_prompts demo_passed)" by (simp add: list_all_iff)
qed

lemma accept_run_effect:
  "accept_run sha hex clk en s = (Inr x, s') \<Longrightarrow>
     length (rt_runs s') = Suc (length (rt_runs s)) \<and> rt_jobs s' = rt_jobs s"
  unfolding accept_run_def Let_def
  by (elim op_bindE)
    (auto simp: ensure_session_def op_upd_def op_gets_def op_lift_def create_run_def insert_row_def
      add_message_def emit_def rt_event_def op_ret_def Let_def split: prod.splits sum.splits if_splits
      elim!: op_bindE)

definition rescheduled :: "clock \<Rightarrow> job_row \<Rightarrow> job_row" where
  "rescheduled clk j = j\<lparr>jo_next_run := clk + of_int (jo_interval j)\<rparr>"

lemma run_jobs_effect:
  "run_jobs sha uuid clk js s = (Inr ids, s') \<Longrightarrow>
     length ids = length js \<and> length (rt_runs s') = length (rt_runs s) + length js
     \<and> rt_jobs s' = fold (upd_key jo_id (\<lambda>j x. x\<lparr>jo_next_run := clk + of_int (jo_interval j)\<rparr>)) js (rt_jobs s)"
proof (induction js arbitrary: s ids)
  case Nil
  then show ?case by (simp add: op_ret_def)
next
  case (Cons j js)
  obtain run_id rest s1 where a: "accept_run sha (uuid (length js)) clk (job_envelope j) s = (Inr (run_id, rest), s1)"
    using Cons.prems by (auto simp: op_bind_def split: prod.splits sum.splits)
  let ?s2 = "snd (reschedule clk j s1)"
  obtain ids' where b: "run_jobs sha uuid clk js ?s2 = (Inr ids', s')" and ids: "ids = run_id # ids'"
    using Cons.prems a by (auto simp: op_bind_def reschedule_def op_upd_def op_ret_def split: prod.splits sum.splits)
  from Cons.IH [OF b] accept_run_effect [OF a] ids show ?case
    by (simp add: reschedule_def op_upd_def upd_key_def)
qed

text \<open>
  The scheduler. A round that finishes starts exactly one run for every job that is enabled and due
  and moves exactly these jobs one interval on, so that no job is due any more at that time.
\<close>

theorem scheduler_round_exact:
  assumes "distinct (map jo_id (rt_jobs s))" "list_all (\<lambda>j. 5 \<le> jo_interval j) (rt_jobs s)"
    and "scheduler_round sha uuid clk s = (Inr ids, s')"
  shows "length ids = length (due_jobs clk s)
    \<and> length (rt_runs s') = length (rt_runs s) + length (due_jobs clk s)
    \<and> rt_jobs s' = map (\<lambda>j. if jo_enabled j \<and> jo_next_run j \<le> clk then rescheduled clk j else j) (rt_jobs s)
    \<and> due_jobs clk s' = []"
proof -
  have run: "run_jobs sha uuid clk (due_jobs clk s) s = (Inr ids, s')"
    using assms(3) by (simp add: scheduler_round_def op_bind_def op_gets_def)
  have jobs: "rt_jobs s' = map (\<lambda>j. if jo_enabled j \<and> jo_next_run j \<le> clk then rescheduled clk j else j) (rt_jobs s)"
    using run_jobs_effect [OF run] fold_upd_key_filter [OF assms(1),
        where g = "\<lambda>j x. x\<lparr>jo_next_run := clk + of_int (jo_interval j)\<rparr>"
        and P = "\<lambda>j. jo_enabled j \<and> jo_next_run j \<le> clk"]
    by (simp add: due_jobs_def rescheduled_def)
  have "\<not> (jo_enabled y \<and> jo_next_run y \<le> clk)" if y: "y \<in> set (rt_jobs s')" for y
  proof -
    obtain j where j: "j \<in> set (rt_jobs s)"
      "y = (if jo_enabled j \<and> jo_next_run j \<le> clk then rescheduled clk j else j)"
      using y unfolding jobs by auto
    have "5 \<le> jo_interval j" using assms(2) j(1) by (simp add: list_all_iff)
    then have "(0::rat) < of_int (jo_interval j)" by simp
    then have "clk < clk + of_int (jo_interval j)" by simp
    with j(2) show ?thesis by (auto simp: rescheduled_def)
  qed
  then have "due_jobs clk s' = []" by (auto simp: due_jobs_def filter_empty_conv)
  with run_jobs_effect [OF run] jobs show ?thesis by simp
qed

theorem scheduler_round_exact_witness:
  "length (rt_runs (snd (scheduler_round (\<lambda>_. ''abc'') (\<lambda>_. ''4'') 6 demo_rt))) = 1
   \<and> due_jobs 6 (snd (scheduler_round (\<lambda>_. ''abc'') (\<lambda>_. ''4'') 6 demo_rt)) = []"
proof -
  let ?r = "scheduler_round (\<lambda>_. ''abc'') (\<lambda>_. ''4'') 6 demo_rt"
  have "fst ?r = Inr [''run_4'']" by code_simp
  then have r: "?r = (Inr [''run_4''], snd ?r)" by (metis prod.collapse)
  have "distinct (map jo_id (rt_jobs demo_rt))" by code_simp
  moreover have "list_all (\<lambda>j. 5 \<le> jo_interval j) (rt_jobs demo_rt)" by code_simp
  moreover have "length (rt_runs demo_rt) = 0" "length (due_jobs 6 demo_rt) = 1" by code_simp+
  ultimately show ?thesis
    using scheduler_round_exact [OF _ _ r] by simp
qed

end
