(* ===== verification/HarnessTrace.thy ===== *)
theory HarnessTrace
  imports PyText
begin

text \<open>
  The trace contract of the observability service
  (\<^verbatim>\<open>services/observability/src/harnesslab/models.py\<close>, \<^verbatim>\<open>trace_contract.py\<close>): run records and events,
  redaction of credentials, the projection of a run's events, the invariants it is checked
  against, portable artifacts and their comparison. The digest and the similarity ratio of
  \<open>difflib\<close> are arguments, as is the rendering of floating point numbers.
\<close>

section \<open>Data\<close>

datatype harness_status = H_queued | H_running | H_completed | H_failed | H_cancelled

fun harness_status_text :: "harness_status \<Rightarrow> string" where
  "harness_status_text H_queued = ''queued''"
| "harness_status_text H_running = ''running''"
| "harness_status_text H_completed = ''completed''"
| "harness_status_text H_failed = ''failed''"
| "harness_status_text H_cancelled = ''cancelled''"

record hmessage =
  hm_role :: string
  hm_content :: string
  hm_name :: "string option"
  hm_tool_call_id :: "string option"
  hm_tool_calls :: "json option"

record tool_spec =
  ts_name :: string
  ts_description :: string
  ts_schema :: json
  ts_read_only :: bool
  ts_source :: string

record hcall =
  hc_id :: string
  hc_name :: string
  hc_arguments :: json

record adapter_turn =
  at_text :: string
  at_calls :: "hcall list"
  at_finish :: string
  at_usage :: json

record trace_event =
  te_run_id :: string
  te_sequence :: nat
  te_type :: string
  te_at :: clock
  te_duration :: "rat option"
  te_payload :: "(string \<times> json) list"

record run_record =
  hr_id :: string
  hr_task :: string
  hr_adapter :: string
  hr_status :: harness_status
  hr_started :: clock
  hr_completed :: "clock option"
  hr_answer :: string
  hr_error :: "string option"
  hr_messages :: "hmessage list"
  hr_events :: "trace_event list"
  hr_metadata :: json

section \<open>Redaction\<close>

text \<open>
  \<open>pattern.sub(replacement, text)\<close>: a matcher gets the character before the position, if any, and
  the rest of the text, and returns the length of the match that starts there.
\<close>

type_synonym matcher = "char option \<Rightarrow> string \<Rightarrow> nat option"

function re_sub :: "matcher \<Rightarrow> string \<Rightarrow> char option \<Rightarrow> string \<Rightarrow> string" where
  "re_sub m rep before [] = []"
| "re_sub m rep before (c # cs) =
     (case m before (c # cs) of
        None \<Rightarrow> c # re_sub m rep (Some c) cs
      | Some n \<Rightarrow> rep @ re_sub m rep (Some ((c # cs) ! (n - 1))) (drop (n - 1) cs))"
  by pat_completeness auto

termination re_sub
  by (relation "measure (\<lambda>(_, _, _, s). length s)") auto

text \<open>The class \<open>\w\<close>: alphanumeric characters and the underscore.\<close>

definition word_char :: "char \<Rightarrow> bool" where
  "word_char c \<longleftrightarrow> letter c \<or> digit c \<or> c = CHR ''_''
     \<or> ord_of c \<in> {170, 178, 179, 181, 185, 186, 188, 189, 190}
     \<or> (192 \<le> ord_of c \<and> ord_of c \<noteq> 215 \<and> ord_of c \<noteq> 247)"

definition word_at :: "char option \<Rightarrow> bool" where
  "word_at c = (case c of None \<Rightarrow> False | Some x \<Rightarrow> word_char x)"

definition head_of :: "string \<Rightarrow> char option" where
  "head_of s = (case s of [] \<Rightarrow> None | c # cs \<Rightarrow> Some c)"

text \<open>\<open>(?i)\bbearer\s+[a-z0-9._~+/=-]+\<close>.\<close>

definition bearer_char :: "char \<Rightarrow> bool" where
  "bearer_char c \<longleftrightarrow> letter c \<or> digit c \<or> c \<in> set ''._~+/=-''"

definition bearer_match :: matcher where
  "bearer_match before s =
     (if word_at before \<or> py_lower (take 6 s) \<noteq> ''bearer'' then None
      else
        let spaces = length (takeWhile is_space (drop 6 s));
            chars = length (takeWhile bearer_char (drop (6 + spaces) s)) in
        if spaces = 0 \<or> chars = 0 then None else Some (6 + spaces + chars))"

lemma lower_char_b: "lower_char c = CHR ''b'' \<longleftrightarrow> c = CHR ''b'' \<or> c = CHR ''B''"
  by (cases c) (auto simp: lower_char_code letter_bits_def)

definition bearer_rest :: "char option \<Rightarrow> string \<Rightarrow> nat option" where
  "bearer_rest before cs =
     (if word_at before then None
      else if py_lower (take 5 cs) \<noteq> ''earer'' then None
      else let spaces = length (takeWhile is_space (drop 5 cs));
               chars = length (takeWhile bearer_char (drop (5 + spaces) cs)) in
           if spaces = 0 \<or> chars = 0 then None else Some (6 + spaces + chars))"

lemma bearer_match_code [code]:
  "bearer_match before s = (case s of [] \<Rightarrow> None | c # cs \<Rightarrow>
     if c = CHR ''b'' then bearer_rest before cs else if c = CHR ''B'' then bearer_rest before cs else None)"
proof (cases s)
  case (Cons c cs)
  have "py_lower (take 6 s) = lower_char c # py_lower (take 5 cs)" "drop 6 s = drop 5 cs"
    "drop (6 + n) s = drop (5 + n) cs" for n
    using Cons by (simp_all add: py_lower_def take_Cons' drop_Cons')
  then show ?thesis
    unfolding bearer_match_def bearer_rest_def
    by (simp add: Cons lower_char_b [of c] del: take_Suc_Cons drop_Suc_Cons cong: if_cong)
qed (simp add: bearer_match_def py_lower_def)

text \<open>
  \<open>\b(?:sk|key|token)-[a-zA-Z0-9_-]{12,}\b\<close>: the longest run of at least twelve characters of
  the class that ends at a word boundary.
\<close>

definition key_char :: "char \<Rightarrow> bool" where
  "key_char c \<longleftrightarrow> letter c \<or> digit c \<or> c = CHR ''_'' \<or> c = CHR ''-''"

definition boundary_after :: "string \<Rightarrow> nat \<Rightarrow> bool" where
  "boundary_after s n \<longleftrightarrow> word_at (head_of (drop (n - 1) s)) \<noteq> word_at (head_of (drop n s))"

definition key_prefix :: "string \<Rightarrow> nat option" where
  "key_prefix s =
     (if starts_with s ''sk-'' then Some 3
      else if starts_with s ''key-'' then Some 4
      else if starts_with s ''token-'' then Some 6 else None)"

definition key_match :: matcher where
  "key_match before s =
     (if word_at before then None
      else case key_prefix s of
        None \<Rightarrow> None
      | Some p \<Rightarrow>
          let n = length (takeWhile key_char (drop p s)) in
          map_option (\<lambda>k. p + k) (find (\<lambda>k. boundary_after s (p + k)) (rev [12..<Suc n])))"

definition key_rest :: "char option \<Rightarrow> string \<Rightarrow> nat option" where
  "key_rest before s =
     (if word_at before then None
      else case key_prefix s of None \<Rightarrow> None | Some p \<Rightarrow>
        let n = length (takeWhile key_char (drop p s)) in
        map_option (\<lambda>k. p + k) (find (\<lambda>k. boundary_after s (p + k)) (rev [12..<Suc n])))"

lemma key_match_code [code]:
  "key_match before s = (case s of [] \<Rightarrow> None | c # cs \<Rightarrow>
     if c = CHR ''s'' then key_rest before s else if c = CHR ''k'' then key_rest before s
     else if c = CHR ''t'' then key_rest before s else None)"
  by (cases s) (auto simp: key_match_def key_rest_def key_prefix_def)

definition redact_text :: "string \<Rightarrow> string" where
  "redact_text s =
     re_sub key_match ''[REDACTED]'' None (re_sub bearer_match ''Bearer [REDACTED]'' None s)"

definition sensitive_keys :: "string list" where
  "sensitive_keys = [''access_token'', ''api_key'', ''apikey'', ''authorization'', ''cookie'', ''password'',
     ''private_key'', ''refresh_token'', ''secret'', ''token'']"

definition is_sensitive_key :: "string \<Rightarrow> bool" where
  "is_sensitive_key key =
     (let normalized = replace_char CHR ''-'' CHR ''_'' (py_lower key) in
      normalized \<in> set sensitive_keys
      \<or> list_ex (ends_with normalized) [''_token'', ''_secret'', ''_password''])"

text \<open>\<open>redact_data(value)\<close>; the entry of an object is redacted by its key first.\<close>

fun redact_data :: "json \<Rightarrow> json" where
  "redact_data (JStr s) = JStr (redact_text s)"
| "redact_data (JArr xs) = JArr (map redact_data xs)"
| "redact_data (JObj kvs) =
     JObj (map (\<lambda>(k, v). (k, if is_sensitive_key k then JStr ''[REDACTED]'' else redact_data v)) kvs)"
| "redact_data v = v"

definition redact_payload :: "(string \<times> json) list \<Rightarrow> (string \<times> json) list" where
  "redact_payload kvs =
     map (\<lambda>(k, v). (k, if is_sensitive_key k then JStr ''[REDACTED]'' else redact_data v)) kvs"

section \<open>The projection and its invariants\<close>

definition payload_or :: "json \<Rightarrow> string \<Rightarrow> trace_event \<Rightarrow> json" where
  "payload_or d k e = jget_or d k (JObj (te_payload e))"

record call_index =
  ci_requested :: "(string \<times> nat) list"
  ci_policy :: "(string \<times> nat) list"
  ci_kind :: "(string \<times> string) list"
  ci_resolved :: "(string \<times> nat) list"

definition in_dict :: "string \<Rightarrow> (string \<times> 'v) list \<Rightarrow> bool" where
  "in_dict k d \<longleftrightarrow> k \<in> set (map fst d)"

text \<open>One step of the loop that indexes the events of each tool call.\<close>

definition index_event :: "(rat \<Rightarrow> string) \<Rightarrow> nat \<times> trace_event \<Rightarrow> call_index \<times> string list
    \<Rightarrow> call_index \<times> string list" where
  "index_event ft ie cv =
     (let (index, e) = ie; (c, violations) = cv; v = payload_or JNull ''call_id'' e; i = json_str ft v in
      if \<not> truthy v then cv
      else if te_type e = ''tool.requested''
      then (c\<lparr>ci_requested := dict_set i index (ci_requested c)\<rparr>,
            violations @ (if in_dict i (ci_requested c) then [''duplicate-request:'' @ i] else []))
      else if te_type e = ''tool.approved'' \<or> te_type e = ''tool.denied''
      then (c\<lparr>ci_policy := dict_set i index (ci_policy c), ci_kind := dict_set i (te_type e) (ci_kind c)\<rparr>,
            violations @ (if in_dict i (ci_policy c) then [''duplicate-policy:'' @ i] else []))
      else if te_type e = ''tool.completed''
      then (c\<lparr>ci_resolved := dict_set i index (ci_resolved c)\<rparr>,
            violations @ (if in_dict i (ci_resolved c) then [''duplicate-completion:'' @ i] else []))
      else cv)"

definition no_calls :: call_index where
  "no_calls = \<lparr>ci_requested = [], ci_policy = [], ci_kind = [], ci_resolved = []\<rparr>"

definition index_events :: "(rat \<Rightarrow> string) \<Rightarrow> trace_event list \<Rightarrow> call_index \<times> string list" where
  "index_events ft es = fold (index_event ft) (zip [0..<length es] es) (no_calls, [])"

text \<open>The checks of one requested call.\<close>

definition call_violations :: "call_index \<Rightarrow> string \<times> nat \<Rightarrow> string list" where
  "call_violations c ri =
     (let (i, request_index) = ri; policy_index = map_of (ci_policy c) i;
          completion_index = map_of (ci_resolved c) i; kind = map_of (ci_kind c) i in
      (case policy_index of
         None \<Rightarrow> [''missing-policy:'' @ i]
       | Some p \<Rightarrow> if p \<le> request_index then [''policy-before-request:'' @ i] else [])
      @ (if kind = Some ''tool.approved'' \<and> completion_index = None then [''missing-completion:'' @ i] else [])
      @ (if kind = Some ''tool.denied'' \<and> completion_index \<noteq> None then [''denied-tool-completed:'' @ i] else [])
      @ (case (completion_index, policy_index) of
           (Some d, Some p) \<Rightarrow> if d \<le> p then [''completion-before-policy:'' @ i] else []
         | _ \<Rightarrow> []))"

text \<open>
  The last two loops range over set differences; the model lists them in the order of the
  dictionaries.
\<close>

definition stray_violations :: "call_index \<Rightarrow> string list" where
  "stray_violations c =
     map (\<lambda>(i, _). ''policy-without-request:'' @ i) (filter (\<lambda>(i, _). \<not> in_dict i (ci_requested c)) (ci_policy c))
     @ map (\<lambda>(i, _). ''completion-without-request:'' @ i)
         (filter (\<lambda>(i, _). \<not> in_dict i (ci_requested c)) (ci_resolved c))"

definition order_violations :: "trace_event list \<Rightarrow> string list \<Rightarrow> string list" where
  "order_violations es terminal =
     (if map te_sequence es \<noteq> [1..<Suc (length es)] then [''non-monotonic-sequence''] else [])
     @ (if length terminal \<noteq> 1 then [''terminal-event-count'']
        else if es = [] \<or> te_type (last es) \<noteq> hd terminal then [''terminal-event-not-last''] else [])"

definition trace_violations :: "(rat \<Rightarrow> string) \<Rightarrow> trace_event list \<Rightarrow> string list \<Rightarrow> string list" where
  "trace_violations ft es terminal =
     (let (c, duplicates) = index_events ft es in
      order_violations es terminal @ duplicates
      @ concat (map (call_violations c) (ci_requested c)) @ stray_violations c)"

record trace_projection =
  tp_event_types :: "string list"
  tp_model_path :: "string list"
  tp_tool_path :: "string list"
  tp_policy_path :: "string list"
  tp_terminal_event :: "string option"
  tp_terminal_status :: string
  tp_violations :: "string list"

definition terminal_events :: "trace_event list \<Rightarrow> string list" where
  "terminal_events es =
     filter (\<lambda>t. t \<in> set [''run.completed'', ''run.failed'', ''run.cancelled'']) (map te_type es)"

definition project_trace :: "(rat \<Rightarrow> string) \<Rightarrow> trace_event list \<Rightarrow> string \<Rightarrow> trace_projection" where
  "project_trace ft es status =
     \<lparr>tp_event_types = map te_type es,
      tp_model_path =
        map (\<lambda>e. te_type e @ '':'' @
               json_str ft (payload_or (payload_or (JStr ''-'') ''tool_count'' e) ''finish_reason'' e))
          (filter (\<lambda>e. starts_with (te_type e) ''model.'') es),
      tp_tool_path =
        map (\<lambda>e. te_type e @ '':'' @ json_str ft (payload_or (JStr ''unknown'') ''name'' e))
          (filter (\<lambda>e. te_type e \<in> set [''tool.requested'', ''tool.completed'']) es),
      tp_policy_path =
        map (\<lambda>e. join_with '':'' [te_type e, json_str ft (payload_or (JStr ''unknown'') ''name'' e),
               json_str ft (payload_or (payload_or (JStr ''-'') ''reason'' e) ''policy'' e)])
          (filter (\<lambda>e. te_type e \<in> set [''tool.approved'', ''tool.denied'']) es),
      tp_terminal_event = (if terminal_events es = [] then None else Some (last (terminal_events es))),
      tp_terminal_status = status,
      tp_violations = trace_violations ft es (terminal_events es)\<rparr>"

section \<open>Artifacts\<close>

record trace_artifact =
  ta_created_at :: clock
  ta_source_run_id :: string
  ta_task :: string
  ta_adapter :: string
  ta_status :: string
  ta_protocol_fingerprint :: string
  ta_content_fingerprint :: string
  ta_projection :: trace_projection
  ta_events :: "trace_event list"

definition fingerprint :: "(string \<Rightarrow> string) \<Rightarrow> (rat \<Rightarrow> string) \<Rightarrow> json \<Rightarrow> string" where
  "fingerprint sha ft v = ''sha256:'' @ sha (json_text ft (sort_keys v))"

definition strings_json :: "string list \<Rightarrow> json" where
  "strings_json xs = JArr (map JStr xs)"

definition projection_json :: "trace_projection \<Rightarrow> json" where
  "projection_json p =
     JObj [(''event_types'', strings_json (tp_event_types p)), (''model_path'', strings_json (tp_model_path p)),
       (''tool_path'', strings_json (tp_tool_path p)), (''policy_path'', strings_json (tp_policy_path p)),
       (''terminal_event'', opt_str (tp_terminal_event p)), (''terminal_status'', JStr (tp_terminal_status p)),
       (''violations'', strings_json (tp_violations p))]"

definition redacted_event :: "trace_event \<Rightarrow> trace_event" where
  "redacted_event e = e\<lparr>te_payload := redact_payload (te_payload e)\<rparr>"

definition stable_payload :: "(string \<times> json) list \<Rightarrow> (string \<times> json) list" where
  "stable_payload kvs = filter (\<lambda>(k, v). k \<notin> set [''usage'', ''text'', ''answer'']) (redact_payload kvs)"

definition build_trace_artifact :: "(string \<Rightarrow> string) \<Rightarrow> (rat \<Rightarrow> string) \<Rightarrow> clock \<Rightarrow> run_record
    \<Rightarrow> trace_artifact" where
  "build_trace_artifact sha ft clk run =
     (let es = map redacted_event (hr_events run); status = harness_status_text (hr_status run);
          projection = project_trace ft es status in
      \<lparr>ta_created_at = clk, ta_source_run_id = hr_id run, ta_task = redact_text (hr_task run),
       ta_adapter = hr_adapter run, ta_status = status,
       ta_protocol_fingerprint = fingerprint sha ft (projection_json projection),
       ta_content_fingerprint = fingerprint sha ft
         (JArr (map (\<lambda>e. JObj [(''type'', JStr (te_type e)), (''payload'', JObj (stable_payload (te_payload e)))]) es)),
       ta_projection = projection, ta_events = es\<rparr>)"

datatype severity = Breaking | Notice

record trace_difference =
  td_area :: string
  td_severity :: severity
  td_expected :: json
  td_actual :: json
  td_detail :: string

record trace_comparison =
  tc_compatible :: bool
  tc_score :: int
  tc_baseline_run :: string
  tc_candidate_run :: string
  tc_baseline_fingerprint :: string
  tc_candidate_fingerprint :: string
  tc_content_match :: bool
  tc_differences :: "trace_difference list"

definition difference :: "string \<Rightarrow> severity \<Rightarrow> json \<Rightarrow> json \<Rightarrow> string \<Rightarrow> trace_difference" where
  "difference area severity expected actual detail =
     \<lparr>td_area = area, td_severity = severity, td_expected = expected, td_actual = actual, td_detail = detail\<rparr>"

definition compare_path :: "string \<Rightarrow> string list \<Rightarrow> string list \<Rightarrow> string \<Rightarrow> trace_difference list" where
  "compare_path area expected actual detail =
     (if expected \<noteq> actual
      then [difference area Breaking (strings_json expected) (strings_json actual) detail] else [])"

definition terminal_json :: "trace_projection \<Rightarrow> json" where
  "terminal_json p = JObj [(''event'', opt_str (tp_terminal_event p)), (''status'', JStr (tp_terminal_status p))]"

definition trace_differences :: "trace_artifact \<Rightarrow> trace_artifact \<Rightarrow> trace_difference list" where
  "trace_differences baseline candidate =
     (let b = ta_projection baseline; c = ta_projection candidate in
      (if tp_violations b \<noteq> []
       then [difference ''baseline-invariants'' Breaking (JArr []) (strings_json (tp_violations b))
               ''Baseline violates Trace Contract invariants''] else [])
      @ compare_path ''event-sequence'' (tp_event_types b) (tp_event_types c) ''Lifecycle event order changed''
      @ compare_path ''tool-path'' (tp_tool_path b) (tp_tool_path c) ''Tool request/completion path changed''
      @ compare_path ''policy-path'' (tp_policy_path b) (tp_policy_path c) ''Approval path changed''
      @ (if (tp_terminal_event b, tp_terminal_status b) \<noteq> (tp_terminal_event c, tp_terminal_status c)
         then [difference ''terminal-state'' Breaking (terminal_json b) (terminal_json c)
                 ''Run terminal event or status changed''] else [])
      @ (if tp_violations c \<noteq> []
         then [difference ''invariants'' Breaking (JArr []) (strings_json (tp_violations c))
                 ''Candidate violates Trace Contract invariants''] else [])
      @ (if ta_content_fingerprint baseline \<noteq> ta_content_fingerprint candidate
         then [difference ''content'' Notice (JStr (ta_content_fingerprint baseline))
                 (JStr (ta_content_fingerprint candidate)) ''Redacted event payloads changed''] else []))"

definition compare_trace_artifacts :: "(string list \<Rightarrow> string list \<Rightarrow> rat) \<Rightarrow> trace_artifact \<Rightarrow> trace_artifact
    \<Rightarrow> trace_comparison" where
  "compare_trace_artifacts ratio baseline candidate =
     (let ds = trace_differences baseline candidate in
      \<lparr>tc_compatible = \<not> list_ex (\<lambda>d. td_severity d = Breaking) ds,
       tc_score = py_round (100 * ratio (tp_event_types (ta_projection baseline)) (tp_event_types (ta_projection candidate))),
       tc_baseline_run = ta_source_run_id baseline, tc_candidate_run = ta_source_run_id candidate,
       tc_baseline_fingerprint = ta_protocol_fingerprint baseline,
       tc_candidate_fingerprint = ta_protocol_fingerprint candidate,
       tc_content_match = (ta_content_fingerprint baseline = ta_content_fingerprint candidate),
       tc_differences = ds\<rparr>)"

section \<open>What redaction guarantees\<close>

text \<open>
  \<open>masked v\<close>: no object of \<open>v\<close>, at any depth, shows a value under a sensitive key; and every
  string not under such a key went through the text patterns.
\<close>

fun masked :: "json \<Rightarrow> bool" where
  "masked (JStr s) = True"
| "masked (JArr xs) = list_all masked xs"
| "masked (JObj kvs) =
     list_all (\<lambda>(k, v). if is_sensitive_key k then v = JStr ''[REDACTED]'' else masked v) kvs"
| "masked v = True"

lemma redact_data_masked: "masked (redact_data v)"
  by (induction v rule: redact_data.induct) (auto simp: list_all_iff)

end
