(* ===== verification/HarnessRuntime.thy ===== *)
theory HarnessRuntime
  imports HarnessTrace
begin

text \<open>
  The harness of the observability service (\<^verbatim>\<open>services/observability/src/harnesslab/events.py\<close>,
  \<^verbatim>\<open>tools.py\<close>, \<^verbatim>\<open>runtime.py\<close>, \<^verbatim>\<open>adapters/demo.py\<close>, \<^verbatim>\<open>conformance.py\<close>): the event bus with its
  subscriptions, the tool registry, the agent loop with its read-only policy, the two
  deterministic adapters and the conformance report. A tool handler acts on a world of type
  \<open>'w\<close>; an adapter is a function of the conversation, which grows with every turn.
\<close>

section \<open>The event bus\<close>

record 'w harness =
  hb_events :: "string \<Rightarrow> trace_event list"
  hb_queues :: "string \<Rightarrow> (nat \<times> trace_event list) list"
  hs_runs :: "(string \<times> run_record) list"
  hs_world :: 'w

definition new_harness :: "'w \<Rightarrow> 'w harness" where
  "new_harness w = \<lparr>hb_events = \<lambda>_. [], hb_queues = \<lambda>_. [], hs_runs = [], hs_world = w\<rparr>"

text \<open>\<open>publish\<close>: appended under the lock, then put on the queue of every subscriber of the run.\<close>

definition publish :: "clock \<Rightarrow> string \<Rightarrow> string \<Rightarrow> (string \<times> json) list \<Rightarrow> rat option \<Rightarrow> 'w harness
    \<Rightarrow> trace_event \<times> 'w harness" where
  "publish clk run_id ty payload duration st =
     (let e = \<lparr>te_run_id = run_id, te_sequence = length (hb_events st run_id) + 1, te_type = ty,
               te_at = clk, te_duration = duration, te_payload = payload\<rparr> in
      (e, st\<lparr>hb_events := (hb_events st)(run_id := hb_events st run_id @ [e]),
             hb_queues := (hb_queues st)(run_id := map (\<lambda>(q, es). (q, es @ [e])) (hb_queues st run_id))\<rparr>))"

definition bus_history :: "string \<Rightarrow> 'w harness \<Rightarrow> trace_event list" where
  "bus_history run_id st = hb_events st run_id"

text \<open>
  \<open>subscribe\<close> up to its first wait: the backlog is read and the queue registered under the lock;
  \<open>next_event\<close> is one \<open>await queue.get()\<close> of queue \<open>q\<close>, \<open>unsubscribe\<close> the \<open>finally\<close> clause.
\<close>

definition subscribe :: "nat \<Rightarrow> string \<Rightarrow> nat \<Rightarrow> 'w harness \<Rightarrow> trace_event list \<times> 'w harness" where
  "subscribe q run_id after st =
     (filter (\<lambda>e. after < te_sequence e) (hb_events st run_id),
      st\<lparr>hb_queues := (hb_queues st)(run_id := hb_queues st run_id @ [(q, [])])\<rparr>)"

definition next_event :: "nat \<Rightarrow> string \<Rightarrow> 'w harness \<Rightarrow> trace_event option \<times> 'w harness" where
  "next_event q run_id st =
     (case map_of (hb_queues st run_id) q of
        Some (e # es) \<Rightarrow> (Some e, st\<lparr>hb_queues := (hb_queues st)(run_id := dict_set q es (hb_queues st run_id))\<rparr>)
      | _ \<Rightarrow> (None, st))"

definition unsubscribe :: "nat \<Rightarrow> string \<Rightarrow> 'w harness \<Rightarrow> 'w harness" where
  "unsubscribe q run_id st =
     st\<lparr>hb_queues := (hb_queues st)(run_id := filter (\<lambda>(q', _). q' \<noteq> q) (hb_queues st run_id))\<rparr>"

section \<open>The tool registry\<close>

type_synonym 'w handler = "json \<Rightarrow> 'w \<Rightarrow> (py_error + json) \<times> 'w"

record 'w tool_registry =
  tr_specs :: "(string \<times> tool_spec) list"
  tr_handlers :: "(string \<times> 'w handler) list"

definition register_spec :: "tool_spec \<Rightarrow> 'w handler \<Rightarrow> 'w tool_registry \<Rightarrow> py_error + 'w tool_registry" where
  "register_spec spec h reg =
     (if ts_name spec \<in> set (map fst (tr_specs reg))
      then Inl (ValueError (''Tool already registered: '' @ ts_name spec))
      else Inr (reg\<lparr>tr_specs := dict_set (ts_name spec) spec (tr_specs reg),
                    tr_handlers := dict_set (ts_name spec) h (tr_handlers reg)\<rparr>))"

definition registry_specs :: "'w tool_registry \<Rightarrow> tool_spec list" where
  "registry_specs reg = map snd (tr_specs reg)"

definition registry_get :: "'w tool_registry \<Rightarrow> string \<Rightarrow> py_error + tool_spec" where
  "registry_get reg name =
     (case map_of (tr_specs reg) name of None \<Rightarrow> Inl (LookupError name) | Some spec \<Rightarrow> Inr spec)"

definition registry_call :: "'w tool_registry \<Rightarrow> string \<Rightarrow> 'w handler" where
  "registry_call reg name arguments w =
     (case registry_get reg name of
        Inl e \<Rightarrow> (Inl e, w)
      | Inr _ \<Rightarrow> (case map_of (tr_handlers reg) name of
                   None \<Rightarrow> (Inl (KeyError name), w)
                 | Some h \<Rightarrow> h arguments w))"

section \<open>The agent loop\<close>

type_synonym hadapter = "hmessage list \<Rightarrow> tool_spec list \<Rightarrow> py_error + adapter_turn"

text \<open>
  What a runtime is built from, and the measurements it takes: the clock when an event of a run
  is created and the milliseconds measured around a call, by the number of the event.
\<close>

record 'w harness_env =
  he_tools :: "'w tool_registry"
  he_adapters :: "(string \<times> hadapter) list"
  he_now :: "nat \<Rightarrow> clock"
  he_ms :: "nat \<Rightarrow> rat"
  he_float :: "rat \<Rightarrow> string"

definition register_adapter :: "string \<Rightarrow> hadapter \<Rightarrow> 'w harness_env \<Rightarrow> py_error + 'w harness_env" where
  "register_adapter name adapter env =
     (if name \<in> set (map fst (he_adapters env))
      then Inl (ValueError (''Adapter already registered: '' @ name))
      else Inr (env\<lparr>he_adapters := dict_set name adapter (he_adapters env)\<rparr>))"

definition list_harness_runs :: "'w harness \<Rightarrow> run_record list" where
  "list_harness_runs st = rev (sort_key hr_started (rev (map snd (hs_runs st))))"

definition get_harness_run :: "string \<Rightarrow> 'w harness \<Rightarrow> (py_error + run_record) \<times> 'w harness" where
  "get_harness_run run_id st =
     (case map_of (hs_runs st) run_id of
        None \<Rightarrow> (Inl (LookupError run_id), st)
      | Some run \<Rightarrow>
          let run' = run\<lparr>hr_events := bus_history run_id st\<rparr> in
          (Inr run', st\<lparr>hs_runs := dict_set run_id run' (hs_runs st)\<rparr>))"

text \<open>The operations of one run act on its record and the service's state.\<close>

type_synonym ('a, 'w) run_op = "('a, run_record \<times> 'w harness) op"

definition h_emit :: "'w harness_env \<Rightarrow> string \<Rightarrow> (string \<times> json) list \<Rightarrow> bool \<Rightarrow> (unit, 'w) run_op" where
  "h_emit env ty payload timed = op_upd (\<lambda>(run, st).
     let n = length (hb_events st (hr_id run));
         (e, st') = publish (he_now env n) (hr_id run) ty (redact_payload payload)
           (if timed then Some (he_ms env n) else None) st in
     (run\<lparr>hr_events := hr_events run @ [e]\<rparr>, st'))"

definition metadata_of :: "nat \<Rightarrow> nat \<Rightarrow> json" where
  "metadata_of max_turns count =
     JObj [(''max_turns'', JInt (int max_turns)), (''message_count'', JInt (int count))]"

text \<open>\<open>run.messages.append(m)\<close> followed by the update of the message count.\<close>

definition h_message :: "nat \<Rightarrow> hmessage \<Rightarrow> (unit, 'w) run_op" where
  "h_message max_turns m = op_upd (\<lambda>(run, st).
     (run\<lparr>hr_messages := hr_messages run @ [m],
          hr_metadata := metadata_of max_turns (length (hr_messages run) + 1)\<rparr>, st))"

definition h_call :: "'w harness_env \<Rightarrow> hcall \<Rightarrow> (json, 'w) run_op" where
  "h_call env call s =
     (case s of (run, st) \<Rightarrow>
        case registry_call (he_tools env) (hc_name call) (hc_arguments call) (hs_world st) of
          (r, w) \<Rightarrow> (r, (run, st\<lparr>hs_world := w\<rparr>)))"

definition fail_closed_text :: "string \<Rightarrow> string" where
  "fail_closed_text name = ''Tool '' @ [CHR 0x27] @ name @ [CHR 0x27]
     @ '' requires an explicit approval provider; fail-closed by default''"

text \<open>\<open>_execute_tool\<close>: the request, then the denial of a tool that may write, or the approved call.\<close>

definition h_denied :: "'w harness_env \<Rightarrow> hcall \<Rightarrow> (unit, 'w) run_op" where
  "h_denied env call =
     op_bind (h_emit env ''tool.denied''
       [(''call_id'', JStr (hc_id call)), (''name'', JStr (hc_name call)), (''policy'', JStr ''fail-closed''),
        (''reason'', JStr ''explicit approval provider required'')] False) (\<lambda>_.
     op_raise (PermissionError (fail_closed_text (hc_name call))))"

definition h_approved :: "'w harness_env \<Rightarrow> nat \<Rightarrow> hcall \<Rightarrow> (unit, 'w) run_op" where
  "h_approved env max_turns call =
     op_bind (h_emit env ''tool.approved''
       [(''call_id'', JStr (hc_id call)), (''name'', JStr (hc_name call)),
        (''policy'', JStr ''read-only-auto'')] False) (\<lambda>_.
     op_bind (h_call env call) (\<lambda>result.
     op_bind (h_emit env ''tool.completed''
       [(''call_id'', JStr (hc_id call)), (''name'', JStr (hc_name call)), (''result'', result)] True) (\<lambda>_.
     h_message max_turns \<lparr>hm_role = ''tool'', hm_content = json_text (he_float env) result,
       hm_name = Some (hc_name call), hm_tool_call_id = Some (hc_id call), hm_tool_calls = None\<rparr>)))"

definition h_execute_tool :: "'w harness_env \<Rightarrow> nat \<Rightarrow> nat \<Rightarrow> hcall \<Rightarrow> (unit, 'w) run_op" where
  "h_execute_tool env max_turns turn_index call =
     op_bind (op_lift (registry_get (he_tools env) (hc_name call))) (\<lambda>spec.
     op_bind (h_emit env ''tool.requested''
       [(''turn'', JInt (int turn_index)), (''call_id'', JStr (hc_id call)), (''name'', JStr (hc_name call)),
        (''arguments'', hc_arguments call), (''source'', JStr (ts_source spec))] False) (\<lambda>_.
     if \<not> ts_read_only spec then h_denied env call else h_approved env max_turns call))"

definition openai_tool_call :: "(rat \<Rightarrow> string) \<Rightarrow> hcall \<Rightarrow> json" where
  "openai_tool_call ft call =
     JObj [(''id'', JStr (hc_id call)), (''type'', JStr ''function''),
       (''function'', JObj [(''name'', JStr (hc_name call)),
         (''arguments'', JStr (json_ascii ft (hc_arguments call)))])]"

fun h_execute_tools :: "'w harness_env \<Rightarrow> nat \<Rightarrow> nat \<Rightarrow> hcall list \<Rightarrow> (unit, 'w) run_op" where
  "h_execute_tools env max_turns turn_index [] = op_ret ()"
| "h_execute_tools env max_turns turn_index (call # calls) =
     op_bind (h_execute_tool env max_turns turn_index call) (\<lambda>_.
     h_execute_tools env max_turns turn_index calls)"

text \<open>The messages an adapter is shown.\<close>

definition h_complete :: "'w harness_env \<Rightarrow> hadapter \<Rightarrow> (adapter_turn, 'w) run_op" where
  "h_complete env adapter =
     op_bind (op_gets (\<lambda>(run, st). adapter (hr_messages run) (registry_specs (he_tools env)))) op_lift"

definition h_requested :: "'w harness_env \<Rightarrow> nat \<Rightarrow> (unit, 'w) run_op" where
  "h_requested env turn_index =
     op_bind (op_gets (\<lambda>(run, st). length (hr_messages run))) (\<lambda>count.
     h_emit env ''model.requested''
       [(''turn'', JInt (int turn_index)), (''message_count'', JInt (int count)),
        (''tool_count'', JInt (int (length (registry_specs (he_tools env)))))] False)"

text \<open>The loop over the remaining turns; the number of the turn is \<open>max_turns\<close> less what remains.\<close>

fun h_turns :: "'w harness_env \<Rightarrow> hadapter \<Rightarrow> nat \<Rightarrow> nat \<Rightarrow> (unit, 'w) run_op" where
  "h_turns env adapter max_turns 0 =
     op_raise (RuntimeError (''Maximum turn limit reached ('' @ nat_text max_turns @ '')''))"
| "h_turns env adapter max_turns (Suc rest) =
     (let turn_index = max_turns - rest in
      op_bind (h_requested env turn_index) (\<lambda>_.
      op_bind (h_complete env adapter) (\<lambda>turn.
      op_bind (h_emit env ''model.completed''
        [(''turn'', JInt (int turn_index)), (''finish_reason'', JStr (at_finish turn)),
         (''tool_calls'', JInt (int (length (at_calls turn)))), (''usage'', at_usage turn),
         (''text'', JStr (at_text turn))] True) (\<lambda>_.
      op_bind (h_message max_turns \<lparr>hm_role = ''assistant'', hm_content = at_text turn, hm_name = None,
        hm_tool_call_id = None,
        hm_tool_calls = (if at_calls turn = [] then None
                         else Some (JArr (map (openai_tool_call (he_float env)) (at_calls turn))))\<rparr>) (\<lambda>_.
      if at_calls turn = []
      then op_bind (op_upd (\<lambda>(run, st). (run\<lparr>hr_answer := at_text turn, hr_status := H_completed,
                       hr_completed := Some (he_now env (length (hr_events run)))\<rparr>, st))) (\<lambda>_.
           h_emit env ''run.completed''
             [(''turns'', JInt (int turn_index)), (''answer'', JStr (at_text turn))] False)
      else op_bind (h_execute_tools env max_turns turn_index (at_calls turn)) (\<lambda>_.
           h_turns env adapter max_turns rest))))))"

definition h_failed :: "'w harness_env \<Rightarrow> py_error \<Rightarrow> (unit, 'w) run_op" where
  "h_failed env exc =
     op_bind (op_upd (\<lambda>(run, st). (run\<lparr>hr_status := H_failed, hr_error := Some (redact_text (exc_text exc)),
                hr_completed := Some (he_now env (length (hr_events run)))\<rparr>, st))) (\<lambda>_.
     h_emit env ''run.failed'' [(''error'', JStr (exc_text exc))] False)"

definition system_prompt :: string where
  "system_prompt = ''You are an evidence-first engineering agent. Use tools before making '' @
     ''claims, keep tool arguments minimal, and report file-level evidence.''"

definition new_run :: "'w harness_env \<Rightarrow> string \<Rightarrow> string \<Rightarrow> string \<Rightarrow> nat \<Rightarrow> run_record" where
  "new_run env run_id adapter_name task max_turns =
     \<lparr>hr_id = run_id, hr_task = task, hr_adapter = adapter_name, hr_status = H_running,
      hr_started = he_now env 0, hr_completed = None, hr_answer = [], hr_error = None,
      hr_messages = [\<lparr>hm_role = ''system'', hm_content = system_prompt, hm_name = None, hm_tool_call_id = None,
                      hm_tool_calls = None\<rparr>,
                     \<lparr>hm_role = ''user'', hm_content = task, hm_name = None, hm_tool_call_id = None,
                      hm_tool_calls = None\<rparr>],
      hr_events = [], hr_metadata = metadata_of max_turns 2\<rparr>"

definition h_body :: "'w harness_env \<Rightarrow> hadapter \<Rightarrow> string \<Rightarrow> string \<Rightarrow> nat \<Rightarrow> (unit, 'w) run_op" where
  "h_body env adapter adapter_name task max_turns =
     op_bind (h_emit env ''run.started''
       [(''adapter'', JStr adapter_name), (''task'', JStr task), (''max_turns'', JInt (int max_turns))] False) (\<lambda>_.
     op_try (h_turns env adapter max_turns max_turns) (h_failed env))"

text \<open>
  \<open>run\<close>: the record enters the table before the first event; the table holds the record itself,
  so what the loop changes is what the table shows.
\<close>

definition harness_run :: "'w harness_env \<Rightarrow> string \<Rightarrow> string \<Rightarrow> string \<Rightarrow> nat \<Rightarrow> 'w harness
    \<Rightarrow> (py_error + run_record) \<times> 'w harness" where
  "harness_run env run_id adapter_name task max_turns st =
     (case map_of (he_adapters env) adapter_name of
        None \<Rightarrow> (Inl (ValueError (''Unknown adapter: '' @ adapter_name)), st)
      | Some adapter \<Rightarrow>
          let run = new_run env run_id adapter_name task max_turns;
              (r, run', st') = h_body env adapter adapter_name task max_turns
                (run, st\<lparr>hs_runs := dict_set run_id run (hs_runs st)\<rparr>) in
          (Inr run', st'\<lparr>hs_runs := dict_set run_id run' (hs_runs st')\<rparr>))"

end
