(* ===== verification/HarnessContract.thy ===== *)
theory HarnessContract
  imports HarnessRuntime
begin

text \<open>
  The runtime of the observability service against its own trace contract. The lemmas follow the
  index of tool calls that \<open>trace_violations\<close> builds while the agent loop appends events: a call
  that was requested, approved and completed in this order is closed and leaves no violation.
\<close>

section \<open>The index of calls\<close>

definition call_of :: "trace_event \<Rightarrow> json" where
  "call_of e = payload_or JNull ''call_id'' e"

definition requested_ids :: "trace_event list \<Rightarrow> string list" where
  "requested_ids es = map (\<lambda>e. case call_of e of JStr i \<Rightarrow> i | _ \<Rightarrow> [])
     (filter (\<lambda>e. te_type e = ''tool.requested'') es)"

definition plain_id :: "string \<Rightarrow> bool" where
  "plain_id i \<longleftrightarrow> i \<noteq> [] \<and> redact_text i = i"

definition all_violations :: "call_index \<Rightarrow> string list" where
  "all_violations c = concat (map (call_violations c) (ci_requested c)) @ stray_violations c"

definition call_closed :: "call_index \<Rightarrow> string \<Rightarrow> bool" where
  "call_closed c i \<longleftrightarrow> (\<exists>r p d. map_of (ci_requested c) i = Some r \<and> map_of (ci_policy c) i = Some p
     \<and> map_of (ci_kind c) i = Some ''tool.approved'' \<and> map_of (ci_resolved c) i = Some d \<and> r < p \<and> p < d)"

definition calls_closed :: "call_index \<Rightarrow> bool" where
  "calls_closed c \<longleftrightarrow> distinct (map fst (ci_requested c))
     \<and> set (map fst (ci_policy c)) = set (map fst (ci_requested c))
     \<and> set (map fst (ci_kind c)) = set (map fst (ci_requested c))
     \<and> set (map fst (ci_resolved c)) = set (map fst (ci_requested c))
     \<and> (\<forall>i \<in> set (map fst (ci_requested c)). call_closed c i)"

text \<open>A call that was requested at \<open>r\<close> and decided at \<open>p\<close> on top of closed calls.\<close>

definition with_request :: "string \<Rightarrow> nat \<Rightarrow> call_index \<Rightarrow> call_index" where
  "with_request i r c = c\<lparr>ci_requested := ci_requested c @ [(i, r)]\<rparr>"

definition with_policy :: "string \<Rightarrow> nat \<Rightarrow> string \<Rightarrow> call_index \<Rightarrow> call_index" where
  "with_policy i p k c = c\<lparr>ci_policy := ci_policy c @ [(i, p)], ci_kind := ci_kind c @ [(i, k)]\<rparr>"

definition with_completion :: "string \<Rightarrow> nat \<Rightarrow> call_index \<Rightarrow> call_index" where
  "with_completion i d c = c\<lparr>ci_resolved := ci_resolved c @ [(i, d)]\<rparr>"

lemmas with_defs = with_request_def with_policy_def with_completion_def

lemma map_of_snoc: "map_of (d @ [(k, v)]) j = (case map_of d j of None \<Rightarrow> if j = k then Some v else None | Some x \<Rightarrow> Some x)"
  by (induction d) auto

lemma map_of_missing: "k \<notin> set (map fst d) \<Longrightarrow> map_of d k = None"
  by (simp add: map_of_eq_None_iff)

lemma dict_set_fresh: "k \<notin> set (map fst d) \<Longrightarrow> dict_set k v d = d @ [(k, v)]"
  by (induction k v d rule: dict_set.induct) auto

lemma closed_no_violations:
  assumes "calls_closed c"
  shows "all_violations c = []"
proof -
  have "call_violations c (i, r) = []" if "(i, r) \<in> set (ci_requested c)" for i r
  proof -
    from that have "i \<in> set (map fst (ci_requested c))" by force
    then have "call_closed c i" using assms unfolding calls_closed_def by blast
    moreover have "map_of (ci_requested c) i = Some r"
      using assms that by (simp add: calls_closed_def)
    ultimately show ?thesis
      by (auto simp: call_closed_def call_violations_def)
  qed
  then have "concat (map (call_violations c) (ci_requested c)) = []" by auto
  moreover have "in_dict i (ci_requested c)" if "(i, x) \<in> set (ci_policy c)" for i x
    using assms that unfolding calls_closed_def in_dict_def by (metis fst_conv image_eqI set_map)
  moreover have "in_dict i (ci_requested c)" if "(i, x) \<in> set (ci_resolved c)" for i x
    using assms that unfolding calls_closed_def in_dict_def by (metis fst_conv image_eqI set_map)
  ultimately show ?thesis
    by (auto simp: all_violations_def stray_violations_def filter_empty_conv)
qed

lemma closed_missing:
  assumes "calls_closed c" "i \<notin> set (map fst (ci_requested c))"
  shows "map_of (ci_requested c) i = None" "map_of (ci_policy c) i = None"
    "map_of (ci_kind c) i = None" "map_of (ci_resolved c) i = None"
  using assms by (auto simp: calls_closed_def map_of_eq_None_iff)

lemma closed_extend:
  assumes "calls_closed c" "i \<notin> set (map fst (ci_requested c))" "r < p" "p < d"
  shows "calls_closed (with_completion i d (with_policy i p ''tool.approved'' (with_request i r c)))"
    (is "calls_closed ?c")
proof -
  have "call_closed ?c i"
    using assms(3,4) closed_missing [OF assms(1,2)] by (simp add: call_closed_def with_defs map_of_snoc del: map_of_append)
  moreover have "call_closed ?c j" if "j \<in> set (map fst (ci_requested c))" for j
  proof -
    have "call_closed c j" using assms(1) that unfolding calls_closed_def by blast
    then show ?thesis by (auto simp: call_closed_def with_defs map_of_snoc del: map_of_append)
  qed
  ultimately show ?thesis
    using assms(1,2) by (simp add: calls_closed_def with_defs)
qed

text \<open>What is reported when the last call was decided and has no completion.\<close>

lemma open_violations:
  assumes "calls_closed c" "i \<notin> set (map fst (ci_requested c))" "r < p"
  shows "all_violations (with_policy i p k (with_request i r c)) =
    (if k = ''tool.approved'' then [''missing-completion:'' @ i] else [])" (is "all_violations ?c = _")
proof -
  have "call_violations ?c (j, x) = call_violations c (j, x)" if "(j, x) \<in> set (ci_requested c)" for j x
  proof -
    from that have "j \<in> set (map fst (ci_requested c))" by force
    then have "call_closed c j" "j \<noteq> i" using assms(1,2) unfolding calls_closed_def by blast+
    then show ?thesis by (auto simp: call_closed_def call_violations_def with_defs map_of_snoc del: map_of_append)
  qed
  then have old: "map (call_violations ?c) (ci_requested c) = map (call_violations c) (ci_requested c)"
    by auto
  have new: "call_violations ?c (i, r) = (if k = ''tool.approved'' then [''missing-completion:'' @ i] else [])"
    using assms(3) closed_missing [OF assms(1,2)]
    by (simp add: call_violations_def with_defs map_of_snoc del: map_of_append)
  have none: "concat (map (call_violations c) (ci_requested c)) = []" "stray_violations c = []"
    using closed_no_violations [OF assms(1)] by (simp_all add: all_violations_def)
  have "stray_violations ?c = []"
    using none(2) by (auto simp: stray_violations_def with_defs in_dict_def filter_empty_conv)
  then show ?thesis
    using old new none(1) by (simp add: all_violations_def with_defs)
qed

lemma index_events_snoc:
  "index_events ft (es @ [e]) = index_event ft (length es, e) (index_events ft es)"
  by (simp add: index_events_def zip_append1 upt_rec [of "length es" "Suc (length es)"])

lemma index_silent: "call_of e = JNull \<Longrightarrow> index_event ft (n, e) cv = cv"
  by (cases cv) (simp add: index_event_def call_of_def)

lemma index_requested:
  assumes "te_type e = ''tool.requested''" "call_of e = JStr i" "i \<noteq> []" "i \<notin> set (map fst (ci_requested c))"
  shows "index_event ft (n, e) (c, []) = (with_request i n c, [])"
  using assms dict_set_fresh [OF assms(4)]
  by (simp add: index_event_def call_of_def json_str_def in_dict_def with_defs)

lemma index_decided:
  assumes "te_type e = k" "k = ''tool.approved'' \<or> k = ''tool.denied''" "call_of e = JStr i" "i \<noteq> []"
    "i \<notin> set (map fst (ci_policy c))" "i \<notin> set (map fst (ci_kind c))"
  shows "index_event ft (n, e) (c, []) = (with_policy i n k c, [])"
  using assms dict_set_fresh [OF assms(5)] dict_set_fresh [OF assms(6)]
  by (auto simp: index_event_def call_of_def json_str_def in_dict_def with_defs)

lemma index_completed:
  assumes "te_type e = ''tool.completed''" "call_of e = JStr i" "i \<noteq> []" "i \<notin> set (map fst (ci_resolved c))"
  shows "index_event ft (n, e) (c, []) = (with_completion i n c, [])"
  using assms dict_set_fresh [OF assms(4)]
  by (simp add: index_event_def call_of_def json_str_def in_dict_def with_defs)

section \<open>The trace while the loop runs\<close>

definition id_of :: "json \<Rightarrow> string" where
  "id_of v = (case v of JStr i \<Rightarrow> i | _ \<Rightarrow> [])"

definition plain_call :: "json \<Rightarrow> bool" where
  "plain_call v \<longleftrightarrow> v = JNull \<or> (\<exists>i. plain_id i \<and> v = JStr i)"

text \<open>
  The record and the bus agree on the events of the run, which are numbered from one; the run has
  emitted the terminal events \<open>ts\<close>; and, provided no call id was requested twice, the index of its
  calls satisfies \<open>S\<close> and no duplicate was found.
\<close>

definition indexed :: "(rat \<Rightarrow> string) \<Rightarrow> (nat \<Rightarrow> call_index \<Rightarrow> bool) \<Rightarrow> trace_event list \<Rightarrow> bool" where
  "indexed ft S es \<longleftrightarrow> (\<exists>c. index_events ft es = (c, [])
     \<and> set (map fst (ci_requested c)) = set (requested_ids es) \<and> S (length es) c)"

definition traced :: "(rat \<Rightarrow> string) \<Rightarrow> string \<Rightarrow> string list \<Rightarrow> (nat \<Rightarrow> call_index \<Rightarrow> bool)
    \<Rightarrow> run_record \<times> 'w harness \<Rightarrow> bool" where
  "traced ft rid ts S s \<longleftrightarrow>
     hr_id (fst s) = rid \<and> hb_events (snd s) rid = hr_events (fst s)
     \<and> map te_sequence (hr_events (fst s)) = [1..<Suc (length (hr_events (fst s)))]
     \<and> terminal_events (hr_events (fst s)) = ts
     \<and> (ts \<noteq> [] \<longrightarrow> hr_events (fst s) \<noteq> [] \<and> te_type (last (hr_events (fst s))) = hd ts)
     \<and> (\<forall>e \<in> set (hr_events (fst s)). plain_call (call_of e))
     \<and> (distinct (requested_ids (hr_events (fst s))) \<longrightarrow> indexed ft S (hr_events (fst s)))"

lemma requested_ids_snoc:
  "requested_ids (es @ [e]) =
     requested_ids es @ (if te_type e = ''tool.requested'' then [id_of (call_of e)] else [])"
  by (simp add: requested_ids_def id_of_def)

lemma terminal_events_snoc:
  "terminal_events (es @ [e]) = terminal_events es
     @ (if te_type e \<in> set [''run.completed'', ''run.failed'', ''run.cancelled''] then [te_type e] else [])"
  by (simp add: terminal_events_def)

definition index_step :: "(rat \<Rightarrow> string) \<Rightarrow> (nat \<Rightarrow> call_index \<Rightarrow> bool) \<Rightarrow> (nat \<Rightarrow> call_index \<Rightarrow> bool)
    \<Rightarrow> trace_event \<Rightarrow> bool" where
  "index_step ft S S' e \<longleftrightarrow> (\<forall>n c. S n c \<longrightarrow>
     (te_type e = ''tool.requested'' \<longrightarrow> id_of (call_of e) \<notin> set (map fst (ci_requested c))) \<longrightarrow>
     (\<exists>c'. index_event ft (n, e) (c, []) = (c', []) \<and> S' (Suc n) c'
        \<and> set (map fst (ci_requested c')) = set (map fst (ci_requested c))
            \<union> (if te_type e = ''tool.requested'' then {id_of (call_of e)} else {})))"

lemma indexed_snoc:
  assumes ix: "indexed ft S es" and d: "distinct (requested_ids (es @ [e]))" and step: "index_step ft S S' e"
  shows "indexed ft S' (es @ [e])"
proof -
  obtain c where c: "index_events ft es = (c, [])"
    "set (map fst (ci_requested c)) = set (requested_ids es)" "S (length es) c"
    using ix unfolding indexed_def by blast
  have "id_of (call_of e) \<notin> set (map fst (ci_requested c))" if "te_type e = ''tool.requested''"
    using d that c(2) by (simp add: requested_ids_snoc del: set_map)
  then obtain c' where c': "index_event ft (length es, e) (c, []) = (c', [])" "S' (Suc (length es)) c'"
    "set (map fst (ci_requested c')) = set (map fst (ci_requested c))
       \<union> (if te_type e = ''tool.requested'' then {id_of (call_of e)} else {})"
    using step c(3) unfolding index_step_def by blast
  have "set (map fst (ci_requested c')) = set (requested_ids (es @ [e]))"
    using c'(3) c(2) by (simp add: requested_ids_snoc del: set_map)
  moreover have "index_events ft (es @ [e]) = (c', [])"
    using c(1) c'(1) by (simp add: index_events_snoc)
  ultimately show ?thesis
    using c'(2) unfolding indexed_def by (intro exI [of _ c']) simp
qed

lemma call_id_redacted:
  "jget_or JNull ''call_id'' (JObj (redact_payload kvs)) =
     (case map_of kvs ''call_id'' of None \<Rightarrow> JNull | Some v \<Rightarrow> redact_data v)"
proof -
  have "\<not> is_sensitive_key ''call_id''" by code_simp
  then have "map_of (redact_payload kvs) ''call_id'' = map_option redact_data (map_of kvs ''call_id'')"
    by (induction kvs) (auto simp: redact_payload_def)
  then show ?thesis by (simp add: jget_or_def split: option.split)
qed

definition emitted_call :: "(string \<times> json) list \<Rightarrow> json" where
  "emitted_call payload = (case map_of payload ''call_id'' of None \<Rightarrow> JNull | Some v \<Rightarrow> redact_data v)"

definition terminal_type :: "string \<Rightarrow> string list" where
  "terminal_type ty = (if ty \<in> set [''run.completed'', ''run.failed'', ''run.cancelled''] then [ty] else [])"

definition emitted :: "'w harness_env \<Rightarrow> string \<Rightarrow> (string \<times> json) list \<Rightarrow> bool \<Rightarrow> run_record \<times> 'w harness
    \<Rightarrow> trace_event" where
  "emitted env ty payload timed s =
     (let run = fst s; n = length (hb_events (snd s) (hr_id run)) in
      \<lparr>te_run_id = hr_id run, te_sequence = n + 1, te_type = ty, te_at = he_now env n,
       te_duration = (if timed then Some (he_ms env n) else None), te_payload = redact_payload payload\<rparr>)"

lemma h_emit_effect:
  assumes "h_emit env ty payload timed s = (r, t)"
  shows "r = Inr () \<and> fst t = (fst s)\<lparr>hr_events := hr_events (fst s) @ [emitted env ty payload timed s]\<rparr>
    \<and> hb_events (snd t) = (hb_events (snd s))(hr_id (fst s) :=
         hb_events (snd s) (hr_id (fst s)) @ [emitted env ty payload timed s])
    \<and> hs_world (snd t) = hs_world (snd s)"
  using assms by (cases s) (auto simp: h_emit_def op_upd_def publish_def Let_def emitted_def)

lemma h_emit_traced:
  assumes "plain_call (emitted_call payload)"
    "\<And>e. te_type e = ty \<Longrightarrow> call_of e = emitted_call payload \<Longrightarrow> index_step ft S S' e"
  shows "triple (traced ft rid [] S) (h_emit env ty payload timed) (\<lambda>_. traced ft rid (terminal_type ty) S') E"
proof (rule tripleI)
  fix s a t assume tr: "traced ft rid [] S s" and em: "h_emit env ty payload timed s = (Inr a, t)"
  let ?es = "hr_events (fst s)"
  define e where "e = emitted env ty payload timed s"
  have e: "te_type e = ty" "te_sequence e = Suc (length ?es)" "te_payload e = redact_payload payload"
    using tr by (simp_all add: e_def emitted_def traced_def Let_def)
  have t: "hr_events (fst t) = ?es @ [e]" "hb_events (snd t) rid = ?es @ [e]" "hr_id (fst t) = rid"
    using tr h_emit_effect [OF em] by (simp_all add: e_def traced_def)
  have call: "call_of e = emitted_call payload"
    using e(3) call_id_redacted [of payload] by (simp add: call_of_def payload_or_def emitted_call_def)
  have "indexed ft S' (?es @ [e])" if "distinct (requested_ids (?es @ [e]))"
  proof (rule indexed_snoc [OF _ that assms(2) [OF e(1) call]])
    show "indexed ft S ?es" using tr that by (simp add: traced_def requested_ids_snoc)
  qed
  moreover have "terminal_events (?es @ [e]) = terminal_type ty"
    using tr e(1) by (simp add: terminal_events_snoc terminal_type_def traced_def)
  moreover have "map te_sequence (?es @ [e]) = [1..<Suc (length (?es @ [e]))]"
    using tr e(2) by (simp add: traced_def)
  moreover have "\<forall>x \<in> set (?es @ [e]). plain_call (call_of x)"
    using tr call assms(1) by (simp add: traced_def)
  ultimately show "traced ft rid (terminal_type ty) S' t"
    using t e(1) unfolding traced_def by (auto simp: terminal_type_def)
next
  fix s e t assume "h_emit env ty payload timed s = (Inl e, t)"
  then show "E e t" by (simp add: h_emit_def op_upd_def)
qed

section \<open>The operations of the loop\<close>

definition closed_at :: "nat \<Rightarrow> call_index \<Rightarrow> bool" where
  "closed_at n c \<longleftrightarrow> calls_closed c"

definition requested_at :: "string \<Rightarrow> nat \<Rightarrow> call_index \<Rightarrow> bool" where
  "requested_at i n c \<longleftrightarrow> (\<exists>c0 r. calls_closed c0 \<and> i \<notin> set (map fst (ci_requested c0)) \<and> r < n
     \<and> c = with_request i r c0)"

definition decided_at :: "string \<Rightarrow> string \<Rightarrow> nat \<Rightarrow> call_index \<Rightarrow> bool" where
  "decided_at i k n c \<longleftrightarrow> (\<exists>c0 r p. calls_closed c0 \<and> i \<notin> set (map fst (ci_requested c0)) \<and> r < p \<and> p < n
     \<and> c = with_policy i p k (with_request i r c0))"

definition ended_at :: "nat \<Rightarrow> call_index \<Rightarrow> bool" where
  "ended_at n c \<longleftrightarrow> all_violations c = [] \<or> (\<exists>i. all_violations c = [''missing-completion:'' @ i])"

lemma closed_ended: "closed_at n c \<Longrightarrow> ended_at n c"
  by (simp add: closed_at_def ended_at_def closed_no_violations)

lemma decided_ended: "decided_at i k n c \<Longrightarrow> ended_at n c"
  unfolding decided_at_def ended_at_def using open_violations by fastforce

lemma traced_weaken:
  assumes "traced ft rid ts S s" "\<And>n c. S n c \<Longrightarrow> S' n c"
  shows "traced ft rid ts S' s"
  using assms unfolding traced_def indexed_def by blast

lemma traced_cong:
  assumes "traced ft rid ts S s" "hr_id (fst t) = hr_id (fst s)" "hr_events (fst t) = hr_events (fst s)"
    "hb_events (snd t) = hb_events (snd s)"
  shows "traced ft rid ts S t"
  using assms unfolding traced_def by simp

lemma step_silent:
  assumes "te_type e \<noteq> ''tool.requested''" "call_of e = JNull" "\<And>n c. S n c \<Longrightarrow> S (Suc n) c"
  shows "index_step ft S S e"
  using assms by (simp add: index_step_def index_silent)

lemma step_request:
  assumes "te_type e = ''tool.requested''" "call_of e = JStr i" "i \<noteq> []"
  shows "index_step ft closed_at (requested_at i) e"
  unfolding index_step_def
proof (intro allI impI)
  fix n c assume c: "closed_at n c"
    and "te_type e = ''tool.requested'' \<longrightarrow> id_of (call_of e) \<notin> set (map fst (ci_requested c))"
  then have i: "i \<notin> set (map fst (ci_requested c))"
    using assms by (simp add: id_of_def)
  have "requested_at i (Suc n) (with_request i n c)"
    using c i unfolding requested_at_def closed_at_def by blast
  moreover have "index_event ft (n, e) (c, []) = (with_request i n c, [])"
    by (rule index_requested [OF assms i])
  ultimately show "\<exists>c'. index_event ft (n, e) (c, []) = (c', []) \<and> requested_at i (Suc n) c'
      \<and> set (map fst (ci_requested c')) = set (map fst (ci_requested c))
          \<union> (if te_type e = ''tool.requested'' then {id_of (call_of e)} else {})"
    using assms by (intro exI [of _ "with_request i n c"]) (simp add: with_request_def id_of_def)
qed

lemma step_decide:
  assumes "te_type e = k" "k = ''tool.approved'' \<or> k = ''tool.denied''" "call_of e = JStr i" "i \<noteq> []"
  shows "index_step ft (requested_at i) (decided_at i k) e"
  unfolding index_step_def
proof (intro allI impI)
  fix n c assume "requested_at i n c"
  then obtain c0 r where c: "calls_closed c0" "i \<notin> set (map fst (ci_requested c0))" "r < n"
    "c = with_request i r c0" unfolding requested_at_def by blast
  have new: "i \<notin> set (map fst (ci_policy c))" "i \<notin> set (map fst (ci_kind c))"
    using c by (simp_all add: with_request_def calls_closed_def)
  have "index_event ft (n, e) (c, []) = (with_policy i n k c, [])"
    by (rule index_decided [OF assms new])
  moreover have "decided_at i k (Suc n) (with_policy i n k c)"
    using c unfolding decided_at_def by blast
  ultimately show "\<exists>c'. index_event ft (n, e) (c, []) = (c', []) \<and> decided_at i k (Suc n) c'
      \<and> set (map fst (ci_requested c')) = set (map fst (ci_requested c))
          \<union> (if te_type e = ''tool.requested'' then {id_of (call_of e)} else {})"
    using assms(1,2) by (intro exI [of _ "with_policy i n k c"]) (auto simp: with_policy_def)
qed

lemma step_complete:
  assumes "te_type e = ''tool.completed''" "call_of e = JStr i" "i \<noteq> []"
  shows "index_step ft (decided_at i ''tool.approved'') closed_at e"
  unfolding index_step_def
proof (intro allI impI)
  fix n c assume "decided_at i ''tool.approved'' n c"
  then obtain c0 r p where c: "calls_closed c0" "i \<notin> set (map fst (ci_requested c0))" "r < p" "p < n"
    "c = with_policy i p ''tool.approved'' (with_request i r c0)" unfolding decided_at_def by blast
  have new: "i \<notin> set (map fst (ci_resolved c))"
    using c by (simp add: with_defs calls_closed_def)
  have "index_event ft (n, e) (c, []) = (with_completion i n c, [])"
    by (rule index_completed [OF assms new])
  moreover have "closed_at (Suc n) (with_completion i n c)"
    using closed_extend [OF c(1-4)] c(5) by (simp add: closed_at_def)
  ultimately show "\<exists>c'. index_event ft (n, e) (c, []) = (c', []) \<and> closed_at (Suc n) c'
      \<and> set (map fst (ci_requested c')) = set (map fst (ci_requested c))
          \<union> (if te_type e = ''tool.requested'' then {id_of (call_of e)} else {})"
    using assms(1) by (intro exI [of _ "with_completion i n c"]) (simp add: with_completion_def)
qed

lemma emit_silent:
  assumes "map_of payload ''call_id'' = None" "ty \<noteq> ''tool.requested''" "\<And>n c. S n c \<Longrightarrow> S (Suc n) c"
  shows "triple (traced ft rid [] S) (h_emit env ty payload timed) (\<lambda>_. traced ft rid (terminal_type ty) S) E"
proof (rule h_emit_traced)
  have v: "emitted_call payload = JNull" using assms(1) by (simp add: emitted_call_def)
  then show "plain_call (emitted_call payload)" by (simp add: plain_call_def)
  fix e assume "te_type e = ty" "call_of e = emitted_call payload"
  with v assms show "index_step ft S S e" by (intro step_silent) simp_all
qed

lemma emit_call:
  assumes "map_of payload ''call_id'' = Some (JStr i)" "plain_id i"
    "\<And>e. te_type e = ty \<Longrightarrow> call_of e = JStr i \<Longrightarrow> i \<noteq> [] \<Longrightarrow> index_step ft S S' e"
    "terminal_type ty = []"
  shows "triple (traced ft rid [] S) (h_emit env ty payload timed) (\<lambda>_. traced ft rid [] S') E"
proof -
  have v: "emitted_call payload = JStr i" "i \<noteq> []"
    using assms(1,2) by (simp_all add: emitted_call_def plain_id_def)
  have "triple (traced ft rid [] S) (h_emit env ty payload timed) (\<lambda>_. traced ft rid (terminal_type ty) S') E"
    by (rule h_emit_traced) (use v assms in \<open>auto simp: plain_call_def\<close>)
  then show ?thesis using assms(4) by simp
qed

lemma message_traced: "triple (traced ft rid ts S) (h_message max_turns m) (\<lambda>_. traced ft rid ts S) E"
  unfolding h_message_def by (rule triple_upd) (auto elim: traced_cong)

lemma h_call_traced:
  "triple (traced ft rid ts S) (h_call env call) (\<lambda>_. traced ft rid ts S) (\<lambda>_. traced ft rid ts S)"
proof (rule tripleI)
  fix s a t assume tr: "traced ft rid ts S s" and c: "h_call env call s = (Inr a, t)"
  show "traced ft rid ts S t"
    by (rule traced_cong [OF tr]) (use c in \<open>auto simp: h_call_def split: prod.splits\<close>)
next
  fix s e t assume tr: "traced ft rid ts S s" and c: "h_call env call s = (Inl e, t)"
  show "traced ft rid ts S t"
    by (rule traced_cong [OF tr]) (use c in \<open>auto simp: h_call_def split: prod.splits\<close>)
qed

definition tool_ended :: "(rat \<Rightarrow> string) \<Rightarrow> string \<Rightarrow> py_error \<Rightarrow> run_record \<times> 'w harness \<Rightarrow> bool" where
  "tool_ended ft rid e = traced ft rid [] ended_at"

lemma tool_ended_closed: "traced ft rid [] closed_at s \<Longrightarrow> tool_ended ft rid e s"
  unfolding tool_ended_def by (erule traced_weaken) (rule closed_ended)

lemma tool_ended_decided: "traced ft rid [] (decided_at i k) s \<Longrightarrow> tool_ended ft rid e s"
  unfolding tool_ended_def by (erule traced_weaken) (rule decided_ended)

lemma h_denied_traced:
  assumes i: "plain_id (hc_id call)"
  shows "triple (traced ft rid [] (requested_at (hc_id call))) (h_denied env call)
    (\<lambda>_. traced ft rid [] closed_at) (tool_ended ft rid)"
  unfolding h_denied_def
  by (rule triple_bind, rule emit_call [where i = "hc_id call" and S' = "decided_at (hc_id call) ''tool.denied''"])
    (auto simp: i terminal_type_def intro: step_decide triple_raise tool_ended_decided)

lemma h_approved_traced:
  assumes i: "plain_id (hc_id call)"
  shows "triple (traced ft rid [] (requested_at (hc_id call))) (h_approved env max_turns call)
    (\<lambda>_. traced ft rid [] closed_at) (tool_ended ft rid)"
  unfolding h_approved_def
proof (rule triple_bind, rule emit_call [where i = "hc_id call" and S' = "decided_at (hc_id call) ''tool.approved''"],
    goal_cases)
  case (5 a)
  show ?case
  proof (rule triple_bind [where R = "\<lambda>_. traced ft rid [] (decided_at (hc_id call) ''tool.approved'')"], goal_cases)
    case 1
    show ?case
      by (rule triple_weaken [OF h_call_traced]) (auto intro: tool_ended_decided)
  next
    case (2 result)
    show ?case
      by (rule triple_bind, rule emit_call [where i = "hc_id call" and S' = closed_at])
        (auto simp: i terminal_type_def intro: step_complete message_traced)
  qed
qed (auto simp: i terminal_type_def intro: step_decide)

lemma h_execute_tool_traced:
  assumes i: "plain_id (hc_id call)"
  shows "triple (traced ft rid [] closed_at) (h_execute_tool env max_turns turn_index call)
    (\<lambda>_. traced ft rid [] closed_at) (tool_ended ft rid)"
  unfolding h_execute_tool_def
proof (rule triple_bind [where R = "\<lambda>_. traced ft rid [] closed_at"], goal_cases)
  case 1
  show ?case by (rule triple_lift) (auto intro: tool_ended_closed)
next
  case (2 spec)
  show ?case
    by (rule triple_bind [where R = "\<lambda>_. traced ft rid [] (requested_at (hc_id call))"],
        rule emit_call [where i = "hc_id call"])
      (auto simp: i terminal_type_def intro: step_request h_denied_traced h_approved_traced)
qed

lemma h_execute_tools_traced:
  assumes "\<forall>call \<in> set calls. plain_id (hc_id call)"
  shows "triple (traced ft rid [] closed_at) (h_execute_tools env max_turns turn_index calls)
    (\<lambda>_. traced ft rid [] closed_at) (tool_ended ft rid)"
  using assms
proof (induction calls)
  case Nil
  then show ?case by (simp add: triple_ret)
next
  case (Cons call calls)
  then show ?case
    by (auto intro!: triple_bind [where R = "\<lambda>_. traced ft rid [] closed_at"] h_execute_tool_traced)
qed

text \<open>The ids an adapter gives its calls are not empty and redaction leaves them alone.\<close>

definition plain_adapter :: "hadapter \<Rightarrow> bool" where
  "plain_adapter adapter \<longleftrightarrow> (\<forall>messages specs turn. adapter messages specs = Inr turn \<longrightarrow>
     (\<forall>call \<in> set (at_calls turn). plain_id (hc_id call)))"

lemma closed_silent: "closed_at n c \<Longrightarrow> closed_at (Suc n) c"
  by (simp add: closed_at_def)

lemma ended_silent: "ended_at n c \<Longrightarrow> ended_at (Suc n) c"
  by (simp add: ended_at_def)

definition has_status :: "harness_status \<Rightarrow> run_record \<times> 'w harness \<Rightarrow> bool" where
  "has_status v s \<longleftrightarrow> hr_status (fst s) = v"

lemma h_emit_status: "triple (has_status v) (h_emit env ty payload timed) (\<lambda>_. has_status v) E"
  by (rule tripleI) (auto simp: has_status_def dest!: h_emit_effect)

lemma h_complete_traced:
  assumes "plain_adapter adapter"
  shows "triple (traced ft rid [] closed_at) (h_complete env adapter)
    (\<lambda>turn s. traced ft rid [] closed_at s \<and> (\<forall>call \<in> set (at_calls turn). plain_id (hc_id call)))
    (tool_ended ft rid)"
  unfolding h_complete_def
proof (rule triple_bind [where R = "\<lambda>r s. traced ft rid [] closed_at s
    \<and> (\<forall>turn. r = Inr turn \<longrightarrow> (\<forall>call \<in> set (at_calls turn). plain_id (hc_id call)))"], goal_cases)
  case 1
  show ?case by (rule triple_gets) (use assms in \<open>auto simp: plain_adapter_def split: prod.split\<close>)
next
  case (2 r)
  show ?case by (rule triple_lift) (auto intro: tool_ended_closed)
qed

lemma terminal_none [simp]:
  "terminal_type ''run.started'' = []" "terminal_type ''model.requested'' = []"
  "terminal_type ''model.completed'' = []" "terminal_type ''run.completed'' = [''run.completed'']"
  "terminal_type ''run.failed'' = [''run.failed'']"
  by (simp_all add: terminal_type_def)

definition completed_run :: "(rat \<Rightarrow> string) \<Rightarrow> string \<Rightarrow> run_record \<times> 'w harness \<Rightarrow> bool" where
  "completed_run ft rid s \<longleftrightarrow> traced ft rid [''run.completed''] closed_at s \<and> hr_status (fst s) = H_completed"

definition failed_run :: "(rat \<Rightarrow> string) \<Rightarrow> string \<Rightarrow> run_record \<times> 'w harness \<Rightarrow> bool" where
  "failed_run ft rid s \<longleftrightarrow> traced ft rid [''run.failed''] ended_at s \<and> hr_status (fst s) = H_failed"

lemma emit_terminal:
  assumes "map_of payload ''call_id'' = None" "ty \<noteq> ''tool.requested''" "\<And>n c. S n c \<Longrightarrow> S (Suc n) c"
  shows "triple (\<lambda>s. traced ft rid [] S s \<and> has_status v s) (h_emit env ty payload timed)
    (\<lambda>_ s. traced ft rid (terminal_type ty) S s \<and> hr_status (fst s) = v) E"
  by (rule triple_weaken [OF triple_conj [OF emit_silent [where S = S, OF assms] h_emit_status]])
    (auto simp: has_status_def)

lemma h_turns_traced:
  assumes "plain_adapter adapter"
  shows "triple (traced ft rid [] closed_at) (h_turns env adapter max_turns rest)
    (\<lambda>_. completed_run ft rid) (tool_ended ft rid)"
proof (induction rest)
  case 0
  show ?case by (simp add: triple_raise tool_ended_closed)
next
  case (Suc rest)
  let ?C = "traced ft rid [] closed_at"
  have finish: "triple ?C (op_bind (op_upd (\<lambda>(run, st). (run\<lparr>hr_answer := a, hr_status := H_completed,
                       hr_completed := Some (he_now env (length (hr_events run)))\<rparr>, st))) (\<lambda>_.
           h_emit env ''run.completed'' [(''turns'', JInt k), (''answer'', JStr b)] False))
       (\<lambda>_. completed_run ft rid) (tool_ended ft rid)" for a b k
    by (rule triple_bind [where R = "\<lambda>_ s. ?C s \<and> has_status H_completed s"], rule triple_upd)
      (auto simp: completed_run_def [abs_def] has_status_def closed_silent elim!: traced_cong
        intro!: emit_terminal [where S = closed_at and ty = "''run.completed''" and v = H_completed,
          unfolded terminal_none has_status_def])
  have go_on: "triple (\<lambda>s. ?C s \<and> (\<forall>call \<in> set calls. plain_id (hc_id call)))
      (op_bind (h_execute_tools env max_turns k calls) (\<lambda>_. h_turns env adapter max_turns rest))
       (\<lambda>_. completed_run ft rid) (tool_ended ft rid)" for calls k
  proof (cases "\<forall>call \<in> set calls. plain_id (hc_id call)")
    case True
    show ?thesis
      by (rule triple_bind [OF _ Suc], rule triple_weaken [OF h_execute_tools_traced [OF True]]) auto
  qed (auto intro: tripleI)
  show ?case
    unfolding h_turns.simps Let_def
  proof (rule triple_bind [where R = "\<lambda>_. ?C"], goal_cases)
    case 1
    show ?case unfolding h_requested_def
      by (rule triple_bind [where R = "\<lambda>_. ?C"], rule triple_gets, assumption)
        (use emit_silent [where ty = "''model.requested''" and S = closed_at] closed_silent in force)
  next
    case (2 _)
    show ?case
    proof (rule triple_bind, rule h_complete_traced [OF assms], goal_cases)
      case (1 turn)
      let ?K = "\<lambda>s. ?C s \<and> (\<forall>call \<in> set (at_calls turn). plain_id (hc_id call))"
      have keep: "triple ?K m (\<lambda>_. ?K) (tool_ended ft rid)" if "triple ?C m (\<lambda>_. ?C) (tool_ended ft rid)"
        for m :: "(unit, 'a) run_op"
        using that by (cases "\<forall>call \<in> set (at_calls turn). plain_id (hc_id call)") (auto intro: tripleI)
      have said: "triple ?C (h_emit env ''model.completed'' [(''turn'', JInt k), (''finish_reason'', JStr (at_finish turn)),
           (''tool_calls'', JInt c), (''usage'', at_usage turn), (''text'', JStr (at_text turn))] True)
         (\<lambda>_. ?C) (tool_ended ft rid)" for k c
        using emit_silent [where ty = "''model.completed''" and S = closed_at] closed_silent by force
      show ?case
      proof (rule triple_bind [OF keep [OF said]], rule triple_bind [OF keep [OF message_traced]], goal_cases)
        case (1 _ _)
        show ?case
        proof (cases "at_calls turn = []")
          case True
          then show ?thesis using finish by simp
        next
          case False
          then show ?thesis using go_on by simp
        qed
      qed
    qed
  qed
qed

lemma h_failed_traced:
  "triple (tool_ended ft rid e) (h_failed env exc) (\<lambda>_. failed_run ft rid) E"
  unfolding h_failed_def tool_ended_def
  by (rule triple_bind [where R = "\<lambda>_ s. traced ft rid [] ended_at s \<and> has_status H_failed s"], rule triple_upd)
    (auto simp: failed_run_def [abs_def] has_status_def ended_silent elim!: traced_cong
      intro!: emit_terminal [where S = ended_at and ty = "''run.failed''" and v = H_failed,
        unfolded terminal_none has_status_def])

lemma h_body_traced:
  assumes "plain_adapter adapter"
  shows "triple (traced ft rid [] closed_at) (h_body env adapter name task max_turns)
    (\<lambda>_ s. completed_run ft rid s \<or> failed_run ft rid s) (\<lambda>_ _. False)"
  unfolding h_body_def
proof (rule triple_bind [where R = "\<lambda>_. traced ft rid [] closed_at"], goal_cases)
  case 1
  show ?case
    using emit_silent [where ty = "''run.started''" and S = closed_at] closed_silent by force
next
  case (2 _)
  show ?case
  proof (rule triple_try [where R = "tool_ended ft rid"], goal_cases)
    case 1
    show ?case by (rule triple_weaken [OF h_turns_traced [OF assms]]) auto
  next
    case (2 e)
    show ?case by (rule triple_weaken [OF h_failed_traced]) auto
  qed
qed

lemma new_run_traced:
  assumes "hb_events st run_id = []"
  shows "traced ft run_id [] closed_at (new_run env run_id name task max_turns, st)"
  using assms by (simp add: traced_def new_run_def terminal_events_def requested_ids_def indexed_def
    index_events_def no_calls_def closed_at_def calls_closed_def)

text \<open>The index of an exported artifact is that of the run: its call ids are redacted already.\<close>

lemma redacted_same:
  assumes "plain_call (call_of e)"
  shows "te_type (redacted_event e) = te_type e" "te_sequence (redacted_event e) = te_sequence e"
    "call_of (redacted_event e) = call_of e"
proof -
  have "jget_or JNull ''call_id'' (JObj (te_payload e)) = JNull \<or>
      (\<exists>i. map_of (te_payload e) ''call_id'' = Some (JStr i) \<and> redact_text i = i)"
    using assms unfolding plain_call_def plain_id_def call_of_def payload_or_def jget_or_def
    by (auto split: option.splits)
  then show "call_of (redacted_event e) = call_of e"
    using call_id_redacted [of "te_payload e"]
    by (auto simp: call_of_def payload_or_def redacted_event_def jget_or_def split: option.splits)
qed (simp_all add: redacted_event_def)

lemma index_redacted:
  assumes "plain_call (call_of e)"
  shows "index_event ft (n, redacted_event e) cv = index_event ft (n, e) cv"
  by (simp only: index_event_def Let_def prod.case call_of_def [symmetric] redacted_same [OF assms])

lemma index_events_redacted:
  "\<forall>e \<in> set es. plain_call (call_of e) \<Longrightarrow> index_events ft (map redacted_event es) = index_events ft es"
proof (induction es rule: rev_induct)
  case (snoc e es)
  then show ?case
    using index_events_snoc [of ft "map redacted_event es" "redacted_event e"]
    by (simp add: index_events_snoc index_redacted)
qed (simp add: index_events_def)

lemma artifact_violations:
  assumes tr: "traced ft rid [t] S (run, st)" and d: "distinct (requested_ids (hr_events run))"
  shows "\<exists>c. S (length (hr_events run)) c
    \<and> tp_violations (ta_projection (build_trace_artifact sha ft clk run)) = all_violations c"
proof -
  let ?es = "hr_events run" and ?rs = "map redacted_event (hr_events run)"
  have plain: "\<forall>e \<in> set ?es. plain_call (call_of e)" and ne: "?es \<noteq> []" and last: "te_type (last ?es) = t"
    and seq: "map te_sequence ?es = [1..<Suc (length ?es)]" and fin: "terminal_events ?es = [t]"
    using tr by (simp_all add: traced_def)
  obtain c where c: "index_events ft ?es = (c, [])" "S (length ?es) c"
    using tr d by (auto simp: traced_def indexed_def)
  have types: "map te_type ?rs = map te_type ?es" "map te_sequence ?rs = map te_sequence ?es"
    by (simp_all add: redacted_event_def)
  have "terminal_events ?rs = [t]"
    using fin types(1) by (simp add: terminal_events_def del: map_map)
  moreover have "te_type (last ?rs) = t"
    using last ne by (simp add: last_map redacted_event_def)
  ultimately have "order_violations ?rs (terminal_events ?rs) = []"
    using seq types(2) ne by (simp add: order_violations_def del: map_map)
  then have "trace_violations ft ?rs (terminal_events ?rs) = all_violations c"
    using c(1) index_events_redacted [OF plain, of ft] by (simp add: trace_violations_def all_violations_def)
  with c(2) show ?thesis
    by (auto simp: build_trace_artifact_def project_trace_def Let_def)
qed

lemma traced_table:
  "traced ft rid ts S (run, st) \<Longrightarrow> hb_events st rid = hr_events run"
  by (simp add: traced_def)

section \<open>Whole runs\<close>

lemma harness_run_cases:
  assumes "harness_run env rid name task max_turns st = (Inr run, st')"
  obtains adapter st1 where "map_of (he_adapters env) name = Some adapter"
    "h_body env adapter name task max_turns
       (new_run env rid name task max_turns,
        st\<lparr>hs_runs := dict_set rid (new_run env rid name task max_turns) (hs_runs st)\<rparr>) = (Inr (), run, st1)
     \<or> (\<exists>e. h_body env adapter name task max_turns
       (new_run env rid name task max_turns,
        st\<lparr>hs_runs := dict_set rid (new_run env rid name task max_turns) (hs_runs st)\<rparr>) = (Inl e, run, st1))"
    "st' = st1\<lparr>hs_runs := dict_set rid run (hs_runs st1)\<rparr>"
proof -
  obtain adapter where a: "map_of (he_adapters env) name = Some adapter"
    using assms by (auto simp: harness_run_def split: option.splits)
  obtain r run1 st1 where b: "h_body env adapter name task max_turns
       (new_run env rid name task max_turns,
        st\<lparr>hs_runs := dict_set rid (new_run env rid name task max_turns) (hs_runs st)\<rparr>) = (r, run1, st1)"
    by (metis surj_pair)
  have "run1 = run" "st' = st1\<lparr>hs_runs := dict_set rid run (hs_runs st1)\<rparr>"
    using assms a b by (auto simp: harness_run_def Let_def)
  with a b that show ?thesis by (cases r) auto
qed

definition lab_float :: "rat \<Rightarrow> string" where
  "lab_float q = int_text (fst (quotient_of q)) @ ''/'' @ int_text (snd (quotient_of q))"

text \<open>
  A small environment: an adapter that asks for one call of the tool it names and then stops, a
  read-only tool that counts, one that raises, and one that may write.
\<close>

definition count_handler :: "nat handler" where
  "count_handler args n = (Inr (JInt (int n)), Suc n)"

definition broken_handler :: "nat handler" where
  "broken_handler args n = (Inl (ValueError ''boom''), n)"

definition lab_spec :: "string \<Rightarrow> bool \<Rightarrow> tool_spec" where
  "lab_spec name read_only = \<lparr>ts_name = name, ts_description = [], ts_schema = JObj [], ts_read_only = read_only,
     ts_source = ''local''\<rparr>"

definition lab_adapter :: "string \<Rightarrow> hadapter" where
  "lab_adapter name messages specs =
     (if length messages = 2
      then Inr \<lparr>at_text = [], at_calls = [\<lparr>hc_id = ''c1'', hc_name = name, hc_arguments = JObj []\<rparr>],
                at_finish = ''t'', at_usage = JObj []\<rparr>
      else Inr \<lparr>at_text = ''ok'', at_calls = [], at_finish = ''s'', at_usage = JObj []\<rparr>)"

definition lab_env :: "nat harness_env" where
  "lab_env = \<lparr>he_tools = \<lparr>tr_specs = [(''n'', lab_spec ''n'' True), (''x'', lab_spec ''x'' True), (''w'', lab_spec ''w'' False)],
       tr_handlers = [(''n'', count_handler), (''x'', broken_handler), (''w'', count_handler)]\<rparr>,
     he_adapters = [(''n'', lab_adapter ''n''), (''x'', lab_adapter ''x''), (''w'', lab_adapter ''w'')],
     he_now = of_nat, he_ms = \<lambda>_. 1, he_float = \<lambda>_. []\<rparr>"

lemma lab_plain: "\<forall>x \<in> set (he_adapters lab_env). plain_adapter (snd x)"
proof -
  have "plain_id ''c1''" by code_simp
  then have "plain_adapter (lab_adapter name)" for name
    by (auto simp: plain_adapter_def lab_adapter_def)
  then show ?thesis by (simp add: lab_env_def)
qed

definition lab_run :: "string \<Rightarrow> (py_error + run_record) \<times> nat harness" where
  "lab_run name = harness_run lab_env ''r'' name ''go'' 3 (new_harness 7)"

definition lab_record :: "string \<Rightarrow> run_record" where
  "lab_record name = (case fst (lab_run name) of Inr run \<Rightarrow> run | Inl e \<Rightarrow> new_run lab_env [] [] [] 0)"

lemma lab_runs: "harness_run lab_env ''r'' name ''go'' 3 (new_harness 7) = (Inr (lab_record name), snd (lab_run name))"
  if "name \<in> set [''n'', ''x'', ''w'']"
  using that by (auto simp: lab_record_def lab_run_def harness_run_def lab_env_def Let_def split: prod.splits)

end
