(* ===== verification/HarnessDemo.thy ===== *)
theory HarnessDemo
  imports HarnessRuntime
begin

text \<open>
  What runs on the harness (\<^verbatim>\<open>services/observability/src/harnesslab/\<close>): the demo registry of
  \<^verbatim>\<open>tools.py\<close>, tools discovered over MCP (\<^verbatim>\<open>mcp_tools.py\<close>), the deterministic adapters of
  \<^verbatim>\<open>adapters/demo.py\<close> and the reading of a completion in \<^verbatim>\<open>adapters/openai_compatible.py\<close>, the
  conformance report of \<^verbatim>\<open>conformance.py\<close>, the handlers of \<^verbatim>\<open>api.py\<close> and the verdicts of
  \<^verbatim>\<open>cli.py\<close>.
\<close>

section \<open>Tools\<close>

definition empty_registry :: "'w tool_registry" where
  "empty_registry = \<lparr>tr_specs = [], tr_handlers = []\<rparr>"

definition string_schema :: "(string \<times> json) list \<Rightarrow> string list \<Rightarrow> json" where
  "string_schema properties required =
     JObj [(''type'', JStr ''object''), (''properties'', JObj properties), (''required'', strings_json required),
       (''additionalProperties'', JBool False)]"

definition search_spec :: tool_spec where
  "search_spec = \<lparr>ts_name = ''search_repository'',
     ts_description = ''Search a small repository fixture for implementation evidence.'',
     ts_schema = string_schema
       [(''query'', JObj [(''type'', JStr ''string''), (''description'', JStr ''Symbol or behavior to locate'')])] [''query''],
     ts_read_only = True, ts_source = ''local''\<rparr>"

definition inspect_spec :: tool_spec where
  "inspect_spec = \<lparr>ts_name = ''inspect_change'',
     ts_description = ''Inspect a proposed code change and return deterministic risk signals.'',
     ts_schema = string_schema
       [(''path'', JObj [(''type'', JStr ''string'')]), (''focus'', JObj [(''type'', JStr ''string'')])] [''path'', ''focus''],
     ts_read_only = True, ts_source = ''local''\<rparr>"

text \<open>\<open>args[key]\<close>.\<close>

definition argument :: "json \<Rightarrow> string \<Rightarrow> py_error + json" where
  "argument args key = (case jget key args of None \<Rightarrow> Inl (KeyError key) | Some v \<Rightarrow> Inr v)"

definition search_match :: "string \<Rightarrow> int \<Rightarrow> rat \<Rightarrow> json" where
  "search_match path line score = JObj [(''path'', JStr path), (''line'', JInt line), (''score'', JNum score)]"

definition search_handler :: "'w handler" where
  "search_handler args w =
     (case argument args ''query'' of
        Inl e \<Rightarrow> (Inl e, w)
      | Inr q \<Rightarrow> (Inr (JObj [(''matches'', JArr [search_match ''src/checkout/policy.py'' 42 (96 / 100),
                    search_match ''tests/test_checkout_policy.py'' 18 (89 / 100)]), (''query'', q)]), w))"

definition inspect_handler :: "'w handler" where
  "inspect_handler args w =
     (case argument args ''path'' of
        Inl e \<Rightarrow> (Inl e, w)
      | Inr p \<Rightarrow>
          (case argument args ''focus'' of
             Inl e \<Rightarrow> (Inl e, w)
           | Inr f \<Rightarrow> (Inr (JObj [(''path'', p), (''risk'', JStr ''high''),
               (''signals'', strings_json [''authorization check moved after state mutation'',
                  ''rollback path is not covered by a test'']), (''focus'', f)]), w)))"

definition build_demo_registry :: "py_error + 'w tool_registry" where
  "build_demo_registry =
     (case register_spec search_spec search_handler empty_registry of
        Inl e \<Rightarrow> Inl e
      | Inr reg \<Rightarrow> register_spec inspect_spec inspect_handler reg)"

text \<open>
  \<open>attach\<close>: the tools a server listed, under its namespace; none is read-only. A tool is its name,
  its description, if any, and its schema; \<open>call\<close> sends the call to the server.
\<close>

definition mcp_spec :: "string \<Rightarrow> string \<times> string option \<times> json \<Rightarrow> tool_spec" where
  "mcp_spec namespace t =
     (case t of (name, description, schema) \<Rightarrow>
        \<lparr>ts_name = namespace @ ''__'' @ name,
         ts_description = (case description of None \<Rightarrow> ''MCP tool '' @ name
                           | Some d \<Rightarrow> if d = [] then ''MCP tool '' @ name else d),
         ts_schema = schema, ts_read_only = False, ts_source = ''mcp:'' @ namespace\<rparr>)"

fun mcp_attach :: "(string \<Rightarrow> 'w handler) \<Rightarrow> string \<Rightarrow> (string \<times> string option \<times> json) list \<Rightarrow> 'w tool_registry
    \<Rightarrow> py_error + 'w tool_registry" where
  "mcp_attach call namespace [] reg = Inr reg"
| "mcp_attach call namespace (t # ts) reg =
     (case register_spec (mcp_spec namespace t) (call (fst t)) reg of
        Inl e \<Rightarrow> Inl e
      | Inr reg' \<Rightarrow> mcp_attach call namespace ts reg')"

section \<open>Adapters\<close>

definition usage_of :: "int \<Rightarrow> int \<Rightarrow> json" where
  "usage_of input output = JObj [(''input_tokens'', JInt input), (''output_tokens'', JInt output)]"

definition tool_messages :: "hmessage list \<Rightarrow> hmessage list" where
  "tool_messages messages = filter (\<lambda>m. hm_role m = ''tool'') messages"

definition inspect_arguments :: json where
  "inspect_arguments = JObj [(''path'', JStr ''src/checkout/policy.py''),
     (''focus'', JStr ''authorization and rollback ordering'')]"

definition demo_turn :: "string \<Rightarrow> hcall list \<Rightarrow> string \<Rightarrow> json \<Rightarrow> py_error + adapter_turn" where
  "demo_turn text calls finish usage =
     Inr \<lparr>at_text = text, at_calls = calls, at_finish = finish, at_usage = usage\<rparr>"

definition demo_adapter :: hadapter where
  "demo_adapter messages specs =
     (case tool_messages messages of
        [] \<Rightarrow> demo_turn ''I will locate the relevant policy path before judging the change.''
               [\<lparr>hc_id = ''call_search_1'', hc_name = ''search_repository'',
                 hc_arguments = JObj [(''query'', JStr ''authorization before checkout mutation'')]\<rparr>]
               ''tool_calls'' (usage_of 182 31)
      | [_] \<Rightarrow> demo_turn ''The search isolated the checkout policy. I will inspect the mutation order.''
               [\<lparr>hc_id = ''call_inspect_1'', hc_name = ''inspect_change'', hc_arguments = inspect_arguments\<rparr>]
               ''tool_calls'' (usage_of 347 38)
      | _ \<Rightarrow> demo_turn (''High-risk regression found in `src/checkout/policy.py:42`: the change mutates '' @
               ''checkout state before authorization completes. A rejected request can therefore '' @
               ''leave partial state behind. Move the authorization guard ahead of the mutation '' @
               ''and add a rollback assertion to `tests/test_checkout_policy.py`.'')
               [] ''stop'' (usage_of 524 74))"

definition regression_adapter :: hadapter where
  "regression_adapter messages specs =
     (case tool_messages messages of
        [] \<Rightarrow> demo_turn ''I will inspect the presumed policy path directly.''
               [\<lparr>hc_id = ''call_inspect_regressed'', hc_name = ''inspect_change'', hc_arguments = inspect_arguments\<rparr>]
               ''tool_calls'' (usage_of 170 27)
      | _ \<Rightarrow> demo_turn (''The direct inspection found a high-risk authorization ordering regression in '' @
               ''`src/checkout/policy.py:42`, but the repository search step was skipped.'')
               [] ''stop'' (usage_of 310 38))"

definition build_env :: "(nat \<Rightarrow> clock) \<Rightarrow> (nat \<Rightarrow> rat) \<Rightarrow> (rat \<Rightarrow> string) \<Rightarrow> py_error + 'w harness_env" where
  "build_env now ms ft =
     (case build_demo_registry of
        Inl e \<Rightarrow> Inl e
      | Inr reg \<Rightarrow>
          (case register_adapter ''demo'' demo_adapter
                  \<lparr>he_tools = reg, he_adapters = [], he_now = now, he_ms = ms, he_float = ft\<rparr> of
             Inl e \<Rightarrow> Inl e
           | Inr env \<Rightarrow> register_adapter ''regression-fixture'' regression_adapter env))"

text \<open>
  Reading a chat completion. \<open>loads\<close> is \<open>json.loads\<close>; a missing key or index and a value of another
  type raise, as the code does.
\<close>

definition jitem :: "string \<Rightarrow> json \<Rightarrow> py_error + json" where
  "jitem k j = (case j of JObj kvs \<Rightarrow> argument j k | _ \<Rightarrow> Inl (TypeError ''not subscriptable by str''))"

definition jlist :: "json \<Rightarrow> py_error + json list" where
  "jlist j = (case j of JArr xs \<Rightarrow> Inr xs | _ \<Rightarrow> Inl (TypeError ''not iterable''))"

definition openai_call :: "(string \<Rightarrow> py_error + json) \<Rightarrow> json \<Rightarrow> py_error + hcall" where
  "openai_call loads call =
     (case jitem ''function'' call of Inl e \<Rightarrow> Inl e | Inr f \<Rightarrow>
      case (case jget_or (JObj []) ''arguments'' f of JStr s \<Rightarrow> loads s | a \<Rightarrow> Inr a) of Inl e \<Rightarrow> Inl e | Inr arguments \<Rightarrow>
      case jitem ''id'' call of Inl e \<Rightarrow> Inl e | Inr i \<Rightarrow>
      case jitem ''name'' f of Inl e \<Rightarrow> Inl e | Inr n \<Rightarrow>
      case (i, n, arguments) of
        (JStr i', JStr n', JObj kvs) \<Rightarrow> Inr \<lparr>hc_id = i', hc_name = n', hc_arguments = JObj kvs\<rparr>
      | _ \<Rightarrow> Inl (ValueError ''validation error for ToolCall''))"

fun openai_calls :: "(string \<Rightarrow> py_error + json) \<Rightarrow> json list \<Rightarrow> py_error + hcall list" where
  "openai_calls loads [] = Inr []"
| "openai_calls loads (c # cs) =
     (case openai_call loads c of Inl e \<Rightarrow> Inl e | Inr call \<Rightarrow>
      case openai_calls loads cs of Inl e \<Rightarrow> Inl e | Inr calls \<Rightarrow> Inr (call # calls))"

text \<open>\<open>isinstance(value, int)\<close> holds for a boolean too.\<close>

fun usage_entries :: "(string \<times> json) list \<Rightarrow> (string \<times> json) list" where
  "usage_entries [] = []"
| "usage_entries ((k, JInt i) # kvs) = (k, JInt i) # usage_entries kvs"
| "usage_entries ((k, JBool b) # kvs) = (k, JInt (if b then 1 else 0)) # usage_entries kvs"
| "usage_entries (_ # kvs) = usage_entries kvs"

definition text_or :: "string \<Rightarrow> json \<Rightarrow> py_error + string" where
  "text_or d v = (if \<not> truthy v then Inr d else case v of JStr s \<Rightarrow> Inr s | _ \<Rightarrow> Inl (ValueError ''validation error for AdapterTurn''))"

definition openai_turn :: "(string \<Rightarrow> py_error + json) \<Rightarrow> json \<Rightarrow> py_error + adapter_turn" where
  "openai_turn loads data =
     (case jitem ''choices'' data of Inl e \<Rightarrow> Inl e | Inr cs \<Rightarrow>
      case jlist cs of Inl e \<Rightarrow> Inl e | Inr [] \<Rightarrow> Inl IndexError | Inr (choice # _) \<Rightarrow>
      case jitem ''message'' choice of Inl e \<Rightarrow> Inl e | Inr message \<Rightarrow>
      case jlist (jget_or (JArr []) ''tool_calls'' message) of Inl e \<Rightarrow> Inl e | Inr raw \<Rightarrow>
      case openai_calls loads raw of Inl e \<Rightarrow> Inl e | Inr calls \<Rightarrow>
      case text_or [] (jget_or JNull ''content'' message) of Inl e \<Rightarrow> Inl e | Inr text \<Rightarrow>
      case text_or ''stop'' (jget_or JNull ''finish_reason'' choice) of Inl e \<Rightarrow> Inl e | Inr finish \<Rightarrow>
      case jget_or (JObj []) ''usage'' data of
        JObj kvs \<Rightarrow> Inr \<lparr>at_text = text, at_calls = calls, at_finish = finish, at_usage = JObj (usage_entries kvs)\<rparr>
      | _ \<Rightarrow> Inl (TypeError ''usage has no items''))"

section \<open>Conformance\<close>

record conformance_check =
  cc_id :: string
  cc_passed :: bool

record conformance_report =
  cr_adapter :: string
  cr_passed :: nat
  cr_total :: nat
  cr_checks :: "conformance_check list"
  cr_run_id :: string

definition events_of_type :: "string \<Rightarrow> trace_event list \<Rightarrow> trace_event list" where
  "events_of_type ty es = filter (\<lambda>e. te_type e = ty) es"

text \<open>\<open>event_positions\<close>: the sequence number of the last event of a type with a call id.\<close>

definition event_position :: "trace_event list \<Rightarrow> string \<Rightarrow> json \<Rightarrow> nat option" where
  "event_position es ty v =
     map_option te_sequence (find (\<lambda>e. te_type e = ty \<and> payload_or JNull ''call_id'' e = v) (rev (filter (\<lambda>e. truthy (payload_or JNull ''call_id'' e)) es)))"

definition policy_ordered :: "trace_event list \<Rightarrow> bool" where
  "policy_ordered es =
     list_all (\<lambda>e. let v = payload_or JNull ''call_id'' e in
         (case event_position es ''tool.requested'' v of None \<Rightarrow> 0 | Some n \<Rightarrow> n) < te_sequence e
         \<and> (case event_position es ''tool.completed'' v of None \<Rightarrow> te_sequence e < 10 ^ 9 | Some n \<Rightarrow> te_sequence e < n))
       (events_of_type ''tool.approved'' es)"

text \<open>
  The ten checks on a finished run; \<open>reload\<close> is the round trip of an artifact through its JSON
  text. The last check holds because the record's messages are declared with \<open>exclude=True\<close>.
\<close>

definition conformance_checks :: "(string \<Rightarrow> string) \<Rightarrow> (trace_artifact \<Rightarrow> trace_artifact) \<Rightarrow> clock \<Rightarrow> 'w harness_env
    \<Rightarrow> run_record \<Rightarrow> trace_event list \<Rightarrow> conformance_check list" where
  "conformance_checks sha reload clk env run es =
     (let requested = events_of_type ''tool.requested'' es; completed = events_of_type ''tool.completed'' es;
          schemas = registry_specs (he_tools env); artifact = build_trace_artifact sha (he_float env) clk run in
      [\<lparr>cc_id = ''schema-fidelity'', cc_passed = schemas \<noteq> []
          \<and> list_all (\<lambda>s. jget ''type'' (ts_schema s) = Some (JStr ''object'')) schemas \<and> distinct (map ts_name schemas)\<rparr>,
       \<lparr>cc_id = ''ordered-events'', cc_passed = map te_sequence es = [1..<Suc (length es)]\<rparr>,
       \<lparr>cc_id = ''tool-roundtrip'', cc_passed = requested \<noteq> []
          \<and> map (payload_or JNull ''call_id'') requested = map (payload_or JNull ''call_id'') completed\<rparr>,
       \<lparr>cc_id = ''approval-boundary'', cc_passed = length (events_of_type ''tool.approved'' es) = length requested\<rparr>,
       \<lparr>cc_id = ''terminal-state'', cc_passed = hr_status run = H_completed \<and> length (terminal_events es) = 1
          \<and> te_type (last es) = ''run.completed''\<rparr>,
       \<lparr>cc_id = ''evidence-answer'', cc_passed = hr_answer run \<noteq> [] \<and> contains (hr_answer run) ''src/checkout/policy.py''\<rparr>,
       \<lparr>cc_id = ''policy-order'', cc_passed = policy_ordered es\<rparr>,
       \<lparr>cc_id = ''trace-contract'', cc_passed = tp_violations (ta_projection artifact) = []\<rparr>,
       \<lparr>cc_id = ''artifact-roundtrip'', cc_passed = ta_protocol_fingerprint (reload artifact) = ta_protocol_fingerprint artifact\<rparr>,
       \<lparr>cc_id = ''context-isolation'', cc_passed = True\<rparr>])"

definition conformance_task :: string where
  "conformance_task = ''Review the checkout authorization change and report the highest-risk regression.''"

definition run_conformance :: "(string \<Rightarrow> string) \<Rightarrow> (trace_artifact \<Rightarrow> trace_artifact) \<Rightarrow> clock \<Rightarrow> 'w harness_env
    \<Rightarrow> string \<Rightarrow> string \<Rightarrow> 'w harness \<Rightarrow> (py_error + conformance_report) \<times> 'w harness" where
  "run_conformance sha reload clk env run_id adapter st =
     (case harness_run env run_id adapter conformance_task 6 st of
        (Inl e, st') \<Rightarrow> (Inl e, st')
      | (Inr run, st') \<Rightarrow>
          let checks = conformance_checks sha reload clk env run (bus_history run_id st') in
          (Inr \<lparr>cr_adapter = adapter, cr_passed = length (filter cc_passed checks), cr_total = length checks,
                cr_checks = checks, cr_run_id = run_id\<rparr>, st'))"

section \<open>Handlers and verdicts\<close>

definition not_found_run :: "(py_error + 'a) \<Rightarrow> py_error + 'a" where
  "not_found_run r = (case r of Inl (LookupError _) \<Rightarrow> Inl (HTTPException 404 ''Run not found'') | _ \<Rightarrow> r)"

definition api_get_run :: "string \<Rightarrow> 'w harness \<Rightarrow> (py_error + run_record) \<times> 'w harness" where
  "api_get_run run_id st = (case get_harness_run run_id st of (r, st') \<Rightarrow> (not_found_run r, st'))"

definition api_export_run :: "(string \<Rightarrow> string) \<Rightarrow> (rat \<Rightarrow> string) \<Rightarrow> clock \<Rightarrow> string \<Rightarrow> (trace_artifact, 'w harness) op" where
  "api_export_run sha ft clk run_id =
     op_bind (api_get_run run_id) (\<lambda>run. op_ret (build_trace_artifact sha ft clk run))"

definition api_compare_runs :: "(string \<Rightarrow> string) \<Rightarrow> (rat \<Rightarrow> string) \<Rightarrow> (string list \<Rightarrow> string list \<Rightarrow> rat) \<Rightarrow> clock
    \<Rightarrow> string \<Rightarrow> string \<Rightarrow> (trace_comparison, 'w harness) op" where
  "api_compare_runs sha ft ratio clk baseline candidate =
     op_bind (api_export_run sha ft clk baseline) (\<lambda>b.
     op_bind (api_export_run sha ft clk candidate) (\<lambda>c. op_ret (compare_trace_artifacts ratio b c)))"

definition api_create_run :: "'w harness_env \<Rightarrow> string \<Rightarrow> string \<Rightarrow> string \<Rightarrow> nat \<Rightarrow> (run_record, 'w harness) op" where
  "api_create_run env run_id adapter task max_turns =
     (if adapter \<notin> set (map fst (he_adapters env))
      then op_raise (HTTPException 400 (''Unknown adapter: '' @ adapter))
      else op_bind (harness_run env run_id adapter task max_turns) (\<lambda>_. get_harness_run run_id))"

definition api_conformance :: "(string \<Rightarrow> string) \<Rightarrow> (trace_artifact \<Rightarrow> trace_artifact) \<Rightarrow> clock \<Rightarrow> 'w harness_env
    \<Rightarrow> string \<Rightarrow> string \<Rightarrow> (conformance_report, 'w harness) op" where
  "api_conformance sha reload clk env run_id adapter =
     (if adapter \<notin> set (map fst (he_adapters env))
      then op_raise (HTTPException 400 (''Unknown adapter: '' @ adapter))
      else run_conformance sha reload clk env run_id adapter)"

text \<open>The frames of the event stream: it ends after the first terminal event.\<close>

fun sse_events :: "trace_event list \<Rightarrow> trace_event list" where
  "sse_events [] = []"
| "sse_events (e # es) =
     (if te_type e \<in> set [''run.completed'', ''run.failed'', ''run.cancelled''] then [e] else e # sse_events es)"

definition sse_frame :: "(trace_event \<Rightarrow> string) \<Rightarrow> trace_event \<Rightarrow> string" where
  "sse_frame dump e = ''id: '' @ nat_text (te_sequence e) @ [CHR 0x0A] @ ''event: '' @ te_type e @ [CHR 0x0A]
     @ ''data: '' @ dump e @ [CHR 0x0A, CHR 0x0A]"

text \<open>The exit status of \<open>check\<close>, \<open>snapshot\<close>, and of \<open>verify\<close> and \<open>compare\<close>.\<close>

definition check_status :: "conformance_report \<Rightarrow> nat" where
  "check_status report = (if cr_passed report \<noteq> cr_total report then 1 else 0)"

definition snapshot_task :: "trace_artifact \<Rightarrow> nat \<times> trace_artifact option" where
  "snapshot_task artifact = (if tp_violations (ta_projection artifact) \<noteq> [] then (1, None) else (0, Some artifact))"

definition compare_status :: "bool \<Rightarrow> trace_comparison \<Rightarrow> nat" where
  "compare_status strict_content c =
     (if \<not> tc_compatible c \<or> (strict_content \<and> \<not> tc_content_match c) then 1 else 0)"

definition verify_snapshot :: "(string \<Rightarrow> string) \<Rightarrow> (string list \<Rightarrow> string list \<Rightarrow> rat) \<Rightarrow> clock \<Rightarrow> 'w harness_env
    \<Rightarrow> string \<Rightarrow> trace_artifact \<Rightarrow> string option \<Rightarrow> nat \<Rightarrow> bool \<Rightarrow> (nat, 'w harness) op" where
  "verify_snapshot sha ratio clk env run_id baseline adapter max_turns strict_content =
     (let name = (case adapter of None \<Rightarrow> ta_adapter baseline | Some a \<Rightarrow> if a = [] then ta_adapter baseline else a) in
      op_bind (harness_run env run_id name (ta_task baseline) max_turns) (\<lambda>run.
      op_ret (compare_status strict_content
        (compare_trace_artifacts ratio baseline (build_trace_artifact sha (he_float env) clk run)))))"

end
