(* ===== verification/HarnessTheorems.thy ===== *)
theory HarnessTheorems
  imports HarnessContract HarnessDemo
begin

text \<open>
  The runtime of the observability service keeps its own trace contract, except when a tool raises.
\<close>

section \<open>A run against the trace contract\<close>

lemma harness_run_traced:
  assumes plain: "\<forall>x \<in> set (he_adapters env). plain_adapter (snd x)"
    and fresh: "hb_events st rid = []"
    and run: "harness_run env rid name task max_turns st = (Inr run, st')"
  shows "completed_run ft rid (run, st') \<or> failed_run ft rid (run, st')"
proof -
  let ?s = "(new_run env rid name task max_turns,
        st\<lparr>hs_runs := dict_set rid (new_run env rid name task max_turns) (hs_runs st)\<rparr>)"
  from run obtain adapter st1 where a: "map_of (he_adapters env) name = Some adapter"
    and b: "h_body env adapter name task max_turns ?s = (Inr (), run, st1)
      \<or> (\<exists>e. h_body env adapter name task max_turns ?s = (Inl e, run, st1))"
    and st': "st' = st1\<lparr>hs_runs := dict_set rid run (hs_runs st1)\<rparr>"
    by (rule harness_run_cases)
  have pa: "plain_adapter adapter"
    using plain map_of_SomeD [OF a] by force
  have s: "traced ft rid [] closed_at ?s"
    by (rule new_run_traced) (use fresh in simp)
  note body = triple_retD [OF h_body_traced [OF pa] s] triple_excD [OF h_body_traced [OF pa] s]
  from b have "completed_run ft rid (run, st1) \<or> failed_run ft rid (run, st1)"
    using body by blast
  then show ?thesis
    unfolding st' completed_run_def failed_run_def traced_def by simp
qed


lemmas redact_eval = redact_text_def bearer_match_code bearer_rest_def key_match_code key_rest_def key_prefix_def
  bearer_char_def word_at_def key_char_def head_of_def boundary_after_def letter_code digit_code is_space_code
  lower_char_code py_lower_def word_char_def letter_bits_def is_sensitive_key_def replace_char_def ends_with_def
  sensitive_keys_def redact_payload_def

lemmas run_eval = lab_record_def lab_run_def harness_run_def h_body_def h_requested_def h_complete_def h_message_def
  h_call_def h_execute_tool_def h_denied_def h_approved_def h_failed_def h_emit_def publish_def new_run_def
  metadata_of_def op_bind_def op_ret_def op_raise_def op_upd_def op_lift_def op_gets_def op_try_def
  registry_get_def registry_call_def registry_specs_def lab_env_def lab_spec_def lab_adapter_def new_harness_def
  count_handler_def broken_handler_def numeral_3_eq_3 Let_def

lemmas trace_eval = requested_ids_def call_of_def payload_or_def jget_or_def

lemma lab_n_facts:
  "(hr_status (lab_record ''n''), requested_ids (hr_events (lab_record ''n''))) = (H_completed, [''c1''])"
  by (simp add: run_eval redact_eval trace_eval)


text \<open>
  A tool that raises breaks the contract. The run of an approved call whose tool raises ends as
  failed with \<open>run.failed\<close> as its last event, and its artifact reports the approved call as one
  without completion, so the runtime's own trace violates the contract it is checked by.
\<close>

theorem raising_tool_breaks_contract:
  "hr_status (lab_record ''x'') = H_failed
   \<and> map te_type (hr_events (lab_record ''x'')) =
       [''run.started'', ''model.requested'', ''model.completed'', ''tool.requested'', ''tool.approved'', ''run.failed'']
   \<and> trace_violations lab_float (hr_events (lab_record ''x'')) (terminal_events (hr_events (lab_record ''x''))) =
       [''missing-completion:c1'']"
proof -
  have "(hr_status (lab_record ''x''), map te_type (hr_events (lab_record ''x''))) = (H_failed,
       [''run.started'', ''model.requested'', ''model.completed'', ''tool.requested'', ''tool.approved'', ''run.failed''])"
    by (simp add: run_eval redact_eval)
  moreover have "trace_violations lab_float (hr_events (lab_record ''x'')) (terminal_events (hr_events (lab_record ''x''))) =
       [''missing-completion:c1'']"
    by (simp add: run_eval redact_eval trace_eval trace_violations_def index_events_def index_event_def no_calls_def
      order_violations_def terminal_events_def call_violations_def stray_violations_def in_dict_def json_str_def upt_rec)
  ultimately show ?thesis by simp
qed

end
