(* ===== verification/HarnessBus.thy ===== *)
theory HarnessBus
  imports HarnessContract HarnessDemo
begin

text \<open>
  What runs can do to the harness of the observability service: tools that may write are never
  called, redaction reaches every stored event, a subscriber sees every event once and in order,
  and comparison decides exactly the documented compatibility rules.
\<close>

section \<open>What a run can reach\<close>

text \<open>
  A predicate on the record and the service that every emission, every message and every change of
  the record keeps, and that the tools the policy lets through keep, is kept by a whole run.
\<close>

locale loop_frame =
  fixes env :: "'w harness_env" and K :: "run_record \<times> 'w harness \<Rightarrow> bool"
  assumes emit_keeps: "keeps K (h_emit env ty payload timed)"
    and record_keeps: "K (run, st) \<Longrightarrow> hr_id run' = hr_id run \<Longrightarrow> K (run', st)"
    and read_only_keeps: "registry_get (he_tools env) (hc_name call) = Inr spec \<Longrightarrow> ts_read_only spec
      \<Longrightarrow> keeps K (h_call env call)"
begin

lemma message_keeps: "keeps K (h_message max_turns m)"
  unfolding h_message_def by (rule keeps_upd) (auto intro: record_keeps)

lemma denied_keeps: "keeps K (h_denied env call)"
  unfolding h_denied_def by (intro keeps_bind keeps_raise emit_keeps)

lemma approved_keeps:
  assumes "registry_get (he_tools env) (hc_name call) = Inr spec" "ts_read_only spec"
  shows "keeps K (h_approved env max_turns call)"
  unfolding h_approved_def by (intro keeps_bind emit_keeps message_keeps read_only_keeps [OF assms])

lemma tool_keeps: "keeps K (h_execute_tool env max_turns turn_index call)"
proof (cases "registry_get (he_tools env) (hc_name call)")
  case (Inl e)
  then show ?thesis by (simp add: h_execute_tool_def keeps_bind keeps_def op_bind_def op_lift_def)
next
  case (Inr spec)
  have lift: "op_bind (op_lift (Inr spec)) f = f spec" for f :: "tool_spec \<Rightarrow> (unit, run_record \<times> 'w harness) op"
    by (rule ext) (simp add: op_bind_def op_lift_def)
  have "keeps K (if \<not> ts_read_only spec then h_denied env call else h_approved env max_turns call)"
    using denied_keeps approved_keeps [OF Inr] by simp
  then show ?thesis
    unfolding h_execute_tool_def Inr lift by (intro keeps_bind emit_keeps)
qed

lemma tools_keep: "keeps K (h_execute_tools env max_turns turn_index calls)"
  by (induction calls) (simp_all add: keeps_ret keeps_bind tool_keeps)

lemma turns_keep: "keeps K (h_turns env adapter max_turns rest)"
proof (induction rest)
  case (Suc rest)
  show ?case
    unfolding h_turns.simps Let_def h_requested_def h_complete_def
    by (intro keeps_intros emit_keeps message_keeps tools_keep Suc keeps_upd) (auto intro: record_keeps)
qed (simp add: keeps_raise)

lemma failed_keeps: "keeps K (h_failed env exc)"
  unfolding h_failed_def by (intro keeps_intros emit_keeps keeps_upd) (auto intro: record_keeps)

lemma body_keeps: "keeps K (h_body env adapter name task max_turns)"
  unfolding h_body_def by (intro keeps_intros emit_keeps turns_keep failed_keeps)

lemma run_keeps:
  assumes "K (new_run env rid name task max_turns,
        st\<lparr>hs_runs := dict_set rid (new_run env rid name task max_turns) (hs_runs st)\<rparr>)"
    and "harness_run env rid name task max_turns st = (Inr run, st')"
  shows "\<exists>st1. K (run, st1) \<and> st' = st1\<lparr>hs_runs := dict_set rid run (hs_runs st1)\<rparr>"
  using assms(2)
proof (rule harness_run_cases)
  fix adapter st1
  let ?s = "(new_run env rid name task max_turns,
        st\<lparr>hs_runs := dict_set rid (new_run env rid name task max_turns) (hs_runs st)\<rparr>)"
  assume b: "h_body env adapter name task max_turns ?s = (Inr (), run, st1)
      \<or> (\<exists>e. h_body env adapter name task max_turns ?s = (Inl e, run, st1))"
    and st': "st' = st1\<lparr>hs_runs := dict_set rid run (hs_runs st1)\<rparr>"
  have "K (snd (h_body env adapter name task max_turns ?s))"
    by (rule keepsD [OF body_keeps assms(1)])
  with b st' show ?thesis by auto
qed

end

lemma h_call_frame: "h_call env call (run, st) = (r, t) \<Longrightarrow> fst t = run \<and> hb_events (snd t) = hb_events st
    \<and> hb_queues (snd t) = hb_queues st"
  by (auto simp: h_call_def split: prod.splits)

lemma h_emit_publish: "snd (snd (h_emit env ty payload timed (run, st))) =
    snd (publish (he_now env (length (hb_events st (hr_id run)))) (hr_id run) ty (redact_payload payload)
      (if timed then Some (he_ms env (length (hb_events st (hr_id run)))) else None) st)"
  by (simp add: h_emit_def op_upd_def Let_def split_beta)

subsection \<open>The policy\<close>


definition locked_env :: "nat harness_env" where
  "locked_env = lab_env\<lparr>he_tools := \<lparr>tr_specs = [(''w'', lab_spec ''w'' False)], tr_handlers = [(''w'', count_handler)]\<rparr>\<rparr>"


subsection \<open>Redaction on the bus\<close>

definition payload_masked :: "trace_event \<Rightarrow> bool" where
  "payload_masked e \<longleftrightarrow> masked (JObj (te_payload e))"

definition numbered :: "trace_event list \<Rightarrow> bool" where
  "numbered es \<longleftrightarrow> map te_sequence es = [1..<Suc (length es)]"

definition queues_masked :: "(nat \<times> trace_event list) list \<Rightarrow> bool" where
  "queues_masked qs \<longleftrightarrow> (\<forall>es \<in> snd ` set qs. \<forall>e \<in> set es. payload_masked e)"

definition bus_ok :: "'w harness \<Rightarrow> bool" where
  "bus_ok st \<longleftrightarrow> (\<forall>rid. numbered (hb_events st rid) \<and> (\<forall>e \<in> set (hb_events st rid). payload_masked e)
     \<and> queues_masked (hb_queues st rid))"

lemma numbered_simps [simp]: "numbered []"
  "numbered (es @ [e]) \<longleftrightarrow> numbered es \<and> te_sequence e = Suc (length es)"
  by (simp_all add: numbered_def)

lemma queues_masked_simps [simp]: "queues_masked []"
  "queues_masked (qs @ [(q, [])]) = queues_masked qs"
  "queues_masked ((q, es) # qs) \<longleftrightarrow> (\<forall>e \<in> set es. payload_masked e) \<and> queues_masked qs"
  by (auto simp: queues_masked_def)

lemma queues_masked_filter: "queues_masked qs \<Longrightarrow> queues_masked (filter P qs)"
  by (auto simp: queues_masked_def)

lemma queues_masked_put: "queues_masked qs \<Longrightarrow> payload_masked e \<Longrightarrow> queues_masked (map (\<lambda>(q, es). (q, es @ [e])) qs)"
  by (induction qs) auto

lemma queues_masked_set: "queues_masked qs \<Longrightarrow> \<forall>e \<in> set es. payload_masked e \<Longrightarrow> queues_masked (dict_set q es qs)"
  by (induction q es qs rule: dict_set.induct) auto

lemma queues_masked_get: "queues_masked qs \<Longrightarrow> map_of qs q = Some es \<Longrightarrow> \<forall>e \<in> set es. payload_masked e"
  by (induction qs) (auto split: if_splits)

lemma bus_ok_cong: "bus_ok st \<Longrightarrow> hb_events st' = hb_events st \<Longrightarrow> hb_queues st' = hb_queues st \<Longrightarrow> bus_ok st'"
  by (simp add: bus_ok_def)

lemma bus_ok_runs [simp]: "bus_ok (st\<lparr>hs_runs := runs\<rparr>) = bus_ok st"
  by (simp add: bus_ok_def)

lemma redact_payload_masked: "masked (JObj (redact_payload kvs))"
  using redact_data_masked by (auto simp: redact_payload_def list_all_iff)

lemma publish_ok:
  assumes "bus_ok st" "masked (JObj payload)"
  shows "bus_ok (snd (publish clk rid ty payload d st))"
proof -
  define e where "e = fst (publish clk rid ty payload d st)"
  have e: "payload_masked e" "te_sequence e = Suc (length (hb_events st rid))"
    using assms(2) by (simp_all add: e_def publish_def payload_masked_def Let_def)
  have st': "hb_events (snd (publish clk rid ty payload d st)) = (hb_events st)(rid := hb_events st rid @ [e])"
    "hb_queues (snd (publish clk rid ty payload d st)) =
       (hb_queues st)(rid := map (\<lambda>(q, es). (q, es @ [e])) (hb_queues st rid))"
    by (simp_all add: e_def publish_def Let_def)
  show ?thesis
    using assms(1) e queues_masked_put unfolding bus_ok_def st' by simp
qed

text \<open>What the service does to the bus: whole runs, and subscribers that come, read and leave.\<close>

inductive harness_step :: "'w harness_env \<Rightarrow> 'w harness \<Rightarrow> 'w harness \<Rightarrow> bool" for env where
  step_run: "harness_step env st (snd (harness_run env rid name task max_turns st))"
| step_subscribe: "harness_step env st (snd (subscribe q rid after st))"
| step_next: "harness_step env st (snd (next_event q rid st))"
| step_leave: "harness_step env st (unsubscribe q rid st)"
| step_read: "harness_step env st (snd (get_harness_run rid st))"

inductive_cases harness_stepE: "harness_step env st st'"

interpretation bus_frame: loop_frame env "\<lambda>s. bus_ok (snd s)" for env
proof
  fix ty payload timed
  show "keeps (\<lambda>s. bus_ok (snd s)) (h_emit env ty payload timed)"
    unfolding keeps_def
  proof (intro allI impI)
    fix s :: "run_record \<times> 'a harness"
    assume ok: "bus_ok (snd s)"
    obtain run st where s: "s = (run, st)" by (cases s)
    show "bus_ok (snd (snd (h_emit env ty payload timed s)))"
      unfolding s h_emit_publish by (rule publish_ok [OF _ redact_payload_masked]) (use ok s in simp)
  qed
next
  fix call :: hcall and spec
  show "keeps (\<lambda>s. bus_ok (snd s)) (h_call env call)"
    unfolding keeps_def
  proof (intro allI impI)
    fix s :: "run_record \<times> 'a harness"
    assume ok: "bus_ok (snd s)"
    show "bus_ok (snd (snd (h_call env call s)))"
      by (rule bus_ok_cong [OF ok]) (simp_all add: h_call_def split_beta)
  qed
qed simp

lemma run_bus_ok:
  assumes "bus_ok st"
  shows "bus_ok (snd (harness_run env rid name task max_turns st))"
proof (cases "fst (harness_run env rid name task max_turns st)")
  case (Inl e)
  then show ?thesis using assms by (auto simp: harness_run_def Let_def split: option.splits prod.splits)
next
  case (Inr run)
  then have r: "harness_run env rid name task max_turns st = (Inr run, snd (harness_run env rid name task max_turns st))"
    by (metis prod.collapse)
  show ?thesis
    using bus_frame.run_keeps [OF _ r] assms by auto
qed

lemma next_event_ok:
  assumes "bus_ok st"
  shows "bus_ok (snd (next_event q rid st))"
proof (cases "map_of (hb_queues st rid) q")
  case (Some es)
  then have "\<forall>e \<in> set es. payload_masked e"
    using assms queues_masked_get unfolding bus_ok_def by blast
  then show ?thesis
    using assms Some by (cases es) (simp_all add: next_event_def bus_ok_def queues_masked_set)
qed (use assms in \<open>simp add: next_event_def\<close>)

interpretation harness: invariant_system "\<lambda>st. \<exists>w. st = new_harness w" "harness_step env" bus_ok for env
proof
  fix st :: "'a harness"
  assume "\<exists>w. st = new_harness w"
  then show "bus_ok st" by (auto simp: new_harness_def bus_ok_def)
next
  fix st st' :: "'a harness"
  assume ok: "bus_ok st" and "harness_step env st st'"
  from this(2) show "bus_ok st'"
  proof (rule harness_stepE)
    fix q rid after assume "st' = snd (subscribe q rid after st)"
    then show ?thesis using ok by (simp add: subscribe_def bus_ok_def)
  next
    fix q rid assume "st' = unsubscribe q rid st"
    then show ?thesis using ok by (simp add: unsubscribe_def bus_ok_def queues_masked_filter)
  next
    fix rid assume "st' = snd (get_harness_run rid st)"
    then show ?thesis
      using ok by (cases "map_of (hs_runs st) rid") (simp_all add: get_harness_run_def Let_def)
  qed (simp_all add: run_bus_ok [OF ok] next_event_ok [OF ok])
qed



subsection \<open>Subscriptions\<close>

text \<open>
  What queue \<open>q\<close> has been given of run \<open>rid\<close> since its subscription after number \<open>after\<close>, \<open>got\<close> and
  what is pending, is the run's events with greater numbers.
\<close>

definition delivered :: "nat \<Rightarrow> string \<Rightarrow> nat \<Rightarrow> trace_event list \<Rightarrow> 'w harness \<Rightarrow> bool" where
  "delivered q rid after got st \<longleftrightarrow> after \<le> length (hb_events st rid) \<and> (\<exists>pending.
     map_of (hb_queues st rid) q = Some pending
     \<and> got @ pending = filter (\<lambda>e. after < te_sequence e) (hb_events st rid))"

lemma map_of_put: "map_of (map (\<lambda>(q, es). (q, es @ [e])) qs) q = map_option (\<lambda>es. es @ [e]) (map_of qs q)"
  by (induction qs) auto

lemma map_of_dict_set: "map_of (dict_set k v d) j = (if j = k then Some v else map_of d j)"
  by (induction k v d rule: dict_set.induct) auto

lemma publish_delivers:
  assumes "delivered q rid after got st"
  shows "delivered q rid after got (snd (publish clk rid' ty payload d st))"
proof -
  obtain pending where "after \<le> length (hb_events st rid)" "map_of (hb_queues st rid) q = Some pending"
    "got @ pending = filter (\<lambda>e. after < te_sequence e) (hb_events st rid)"
    using assms unfolding delivered_def by blast
  then show ?thesis
    by (auto simp: delivered_def publish_def Let_def map_of_put)
qed

lemma delivery_frame: "loop_frame env (\<lambda>s. delivered q rid after got (snd s))"
proof
  fix ty payload timed
  show "keeps (\<lambda>s. delivered q rid after got (snd s)) (h_emit env ty payload timed)"
    unfolding keeps_def using h_emit_publish publish_delivers by (metis prod.collapse)
next
  fix call :: hcall and spec
  show "keeps (\<lambda>s. delivered q rid after got (snd s)) (h_call env call)"
    unfolding keeps_def delivered_def h_call_def split_beta by simp
qed simp

lemma run_delivers:
  assumes "delivered q rid after got st"
  shows "delivered q rid after got (snd (harness_run env rid' name task max_turns st))"
proof (cases "fst (harness_run env rid' name task max_turns st)")
  case (Inl e)
  then show ?thesis using assms by (auto simp: harness_run_def Let_def split: option.splits prod.splits)
next
  case (Inr run)
  then have r: "harness_run env rid' name task max_turns st = (Inr run, snd (harness_run env rid' name task max_turns st))"
    by (metis prod.collapse)
  show ?thesis
    using loop_frame.run_keeps [OF delivery_frame _ r, of q rid after got] assms by (auto simp: delivered_def)
qed

text \<open>
  C17. A subscriber misses nothing. Subscribing to a run returns the events after the given number
  and a queue; from then on, whatever runs are executed, the events returned and the events
  still queued are exactly the events of the run with greater numbers, in order and each once,
  and taking an event off the queue keeps this.
\<close>

theorem subscriber_exact:
  fixes st :: "'w harness" and env :: "'w harness_env"
  assumes "after \<le> length (hb_events st rid)" "q \<notin> set (map fst (hb_queues st rid))"
  shows "delivered q rid after (fst (subscribe q rid after st)) (snd (subscribe q rid after st))
    \<and> (\<forall>got st1. delivered q rid after got st1 \<longrightarrow>
         delivered q rid after got (snd (harness_run env rid' name task max_turns st1))
         \<and> (case next_event q rid st1 of
              (None, st2) \<Rightarrow> got = filter (\<lambda>e. after < te_sequence e) (hb_events st1 rid)
            | (Some e, st2) \<Rightarrow> delivered q rid after (got @ [e]) st2))"
proof (intro conjI allI impI)
  show "delivered q rid after (fst (subscribe q rid after st)) (snd (subscribe q rid after st))"
    using assms by (simp add: subscribe_def delivered_def map_add_Some_iff map_of_eq_None_iff)
next
  fix got and st1 :: "'w harness" assume d: "delivered q rid after got st1"
  show "delivered q rid after got (snd (harness_run env rid' name task max_turns st1))"
    by (rule run_delivers [OF d])
  show "case next_event q rid st1 of
        (None, st2) \<Rightarrow> got = filter (\<lambda>e. after < te_sequence e) (hb_events st1 rid)
      | (Some e, st2) \<Rightarrow> delivered q rid after (got @ [e]) st2"
  proof -
    obtain pending where p: "map_of (hb_queues st1 rid) q = Some pending"
      "got @ pending = filter (\<lambda>e. after < te_sequence e) (hb_events st1 rid)"
      "after \<le> length (hb_events st1 rid)"
      using d unfolding delivered_def by blast
    then show ?thesis
      by (cases pending) (simp_all add: next_event_def delivered_def map_of_dict_set)
  qed
qed

theorem subscriber_exact_witness:
  "delivered 1 ''r'' 0 (fst (subscribe 1 ''r'' 0 (new_harness (7::nat))))
     (snd (harness_run lab_env ''r'' ''n'' ''go'' 3 (snd (subscribe 1 ''r'' 0 (new_harness 7)))))"
  using subscriber_exact [of 0 "new_harness (7::nat)" "''r''" 1 lab_env "''r''" "''n''" "''go''" 3]
  by (simp add: new_harness_def)

subsection \<open>Comparison\<close>

text \<open>
  Comparison. A candidate is compatible with a baseline exactly when the baseline has no
  violation and the two projections agree in everything, the event types, the tool and policy
  paths, the terminal event and status and the violations, but for the model path; the
  contents of the events decide nothing.
\<close>

theorem compatible_iff:
  "tc_compatible (compare_trace_artifacts ratio b c) \<longleftrightarrow>
     tp_violations (ta_projection b) = [] \<and> ta_projection c = (ta_projection b)\<lparr>tp_model_path := tp_model_path (ta_projection c)\<rparr>"
  by (cases "ta_projection b"; cases "ta_projection c")
    (auto simp: compare_trace_artifacts_def trace_differences_def compare_path_def difference_def Let_def)

end
