(* ===== verification/ForgeSkill.thy ===== *)
theory ForgeSkill
  imports PyText
begin

text \<open>
  Skills and their scanner (\<^verbatim>\<open>services/forge/src/evoagent_forge/models.py\<close>, \<^verbatim>\<open>skill.py\<close>,
  \<^verbatim>\<open>scanner.py\<close>). A skill is a directory: its files by the parts of their relative paths, with their
  bytes. The YAML reader, the decoding of bytes and the Python parser are arguments; a syntax
  tree is the list of the nodes \<open>ast.walk\<close> visits, reduced to those the scanner looks at.
\<close>

section \<open>Data\<close>

record capability =
  cp_name :: string
  cp_reason :: string
  cp_required :: bool

record finding =
  fi_severity :: string
  fi_code :: string
  fi_message :: string
  fi_path :: string
  fi_line :: nat

record manifest =
  mf_name :: string
  mf_version :: string
  mf_description :: string
  mf_license :: string
  mf_entrypoint :: "string option"
  mf_capabilities :: "capability list"
  mf_compatibility :: "(string \<times> string) list"
  mf_metadata :: "(string \<times> json) list"

definition manifest_dict :: "manifest \<Rightarrow> json" where
  "manifest_dict m =
     JObj [(''name'', JStr (mf_name m)), (''version'', JStr (mf_version m)), (''description'', JStr (mf_description m)),
       (''license'', JStr (mf_license m)), (''entrypoint'', opt_str (mf_entrypoint m)),
       (''capabilities'', JArr (map (\<lambda>c. JObj [(''name'', JStr (cp_name c)), (''reason'', JStr (cp_reason c)),
          (''required'', JBool (cp_required c))]) (mf_capabilities m))),
       (''compatibility'', JObj (map (\<lambda>(k, v). (k, JStr v)) (mf_compatibility m))),
       (''metadata'', JObj (mf_metadata m))]"

section \<open>The manifest\<close>

definition lower_or_digit :: "char \<Rightarrow> bool" where
  "lower_or_digit c \<longleftrightarrow> (97 \<le> ord_of c \<and> ord_of c \<le> 122) \<or> digit c"

text \<open>\<open>^[a-z0-9][a-z0-9-]{1,62}$\<close> and \<open>^\d+\.\d+\.\d+(?:[-+][0-9A-Za-z.-]+)?$\<close>, matched in full.\<close>

definition name_match :: "string \<Rightarrow> bool" where
  "name_match s =
     (case s of [] \<Rightarrow> False
      | c # cs \<Rightarrow> lower_or_digit c \<and> list_all (\<lambda>x. lower_or_digit x \<or> x = CHR ''-'') cs
          \<and> 1 \<le> length cs \<and> length cs \<le> 62)"

text \<open>A run of at least one digit: what follows it.\<close>

definition after_digits :: "string \<Rightarrow> string option" where
  "after_digits s = (case s of [] \<Rightarrow> None | c # cs \<Rightarrow> if digit c then Some (dropWhile digit cs) else None)"

definition after_dot :: "string \<Rightarrow> string option" where
  "after_dot s = (case s of [] \<Rightarrow> None | c # cs \<Rightarrow> if c = CHR ''.'' then after_digits cs else None)"

definition version_suffix :: "string \<Rightarrow> bool" where
  "version_suffix s =
     (case s of [] \<Rightarrow> True
      | c # cs \<Rightarrow> (c = CHR ''-'' \<or> c = CHR ''+'') \<and> cs \<noteq> []
          \<and> list_all (\<lambda>x. digit x \<or> letter x \<or> x = CHR ''.'' \<or> x = CHR ''-'') cs)"

definition version_match :: "string \<Rightarrow> bool" where
  "version_match s =
     (case after_digits s of None \<Rightarrow> False | Some s1 \<Rightarrow>
      case after_dot s1 of None \<Rightarrow> False | Some s2 \<Rightarrow>
      case after_dot s2 of None \<Rightarrow> False | Some s3 \<Rightarrow> version_suffix s3)"

text \<open>What a \<open>for\<close> loop over a decoded value visits.\<close>

fun iterate :: "json \<Rightarrow> py_error + json list" where
  "iterate (JArr xs) = Inr xs"
| "iterate (JObj kvs) = Inr (map (JStr \<circ> fst) kvs)"
| "iterate (JStr s) = Inr (map (\<lambda>c. JStr [c]) s)"
| "iterate _ = Inl (TypeError ''object is not iterable'')"

definition or_empty :: "json \<Rightarrow> string \<Rightarrow> json \<Rightarrow> json" where
  "or_empty d k j = (let v = jget_or JNull k j in if truthy v then v else d)"

fun capability_of :: "(rat \<Rightarrow> string) \<Rightarrow> json \<Rightarrow> capability list" where
  "capability_of ft (JStr s) = [\<lparr>cp_name = s, cp_reason = ''declared by author'', cp_required = True\<rparr>]"
| "capability_of ft (JObj kvs) =
     [\<lparr>cp_name = json_str ft (jget_or (JStr []) ''name'' (JObj kvs)),
       cp_reason = json_str ft (jget_or (JStr ''declared by author'') ''reason'' (JObj kvs)),
       cp_required = truthy (jget_or (JBool True) ''required'' (JObj kvs))\<rparr>]"
| "capability_of ft _ = []"

definition known_keys :: "string list" where
  "known_keys = [''name'', ''version'', ''description'', ''license'', ''entrypoint'', ''capabilities'', ''compatibility'']"

definition manifest_of :: "(rat \<Rightarrow> string) \<Rightarrow> (string \<Rightarrow> bool) \<Rightarrow> (string \<times> json) list \<Rightarrow> py_error + manifest" where
  "manifest_of ft is_file data =
     (let j = JObj data;
          name = json_str ft (jget_or (JStr []) ''name'' j);
          version = json_str ft (jget_or (JStr []) ''version'' j);
          description = py_strip (json_str ft (jget_or (JStr []) ''description'' j));
          entrypoint = jget_or JNull ''entrypoint'' j in
      if \<not> name_match name then Inl (ValueError ''name must be 2-63 lowercase letters, digits or hyphens'')
      else if \<not> version_match version then Inl (ValueError ''version must be semantic x.y.z'')
      else if description = [] then Inl (ValueError ''description is required'')
      else case iterate (or_empty (JArr []) ''capabilities'' j) of Inl e \<Rightarrow> Inl e | Inr items \<Rightarrow>
        if truthy entrypoint \<and> \<not> is_file (json_str ft entrypoint)
        then Inl (ValueError (''entrypoint does not exist: '' @ json_str ft entrypoint))
        else case or_empty (JObj []) ''compatibility'' j of
          JObj kvs \<Rightarrow> Inr \<lparr>mf_name = name, mf_version = version, mf_description = description,
            mf_license = json_str ft (jget_or (JStr ''NOASSERTION'') ''license'' j),
            mf_entrypoint = (if truthy entrypoint then Some (json_str ft entrypoint) else None),
            mf_capabilities = concat (map (capability_of ft) items),
            mf_compatibility = map (\<lambda>(k, v). (k, json_str ft v)) kvs,
            mf_metadata = filter (\<lambda>(k, v). k \<notin> set known_keys) data\<rparr>
        | _ \<Rightarrow> Inl (AttributeError ''object has no attribute items''))"

text \<open>\<open>text.split(sep, 1)\<close> unpacked into two parts.\<close>

fun split_once :: "string \<Rightarrow> string \<Rightarrow> (string \<times> string) option" where
  "split_once sep [] = (if sep = [] then Some ([], []) else None)"
| "split_once sep (c # cs) =
     (if starts_with (c # cs) sep then Some ([], drop (length sep) (c # cs))
      else map_option (\<lambda>(a, b). (c # a, b)) (split_once sep cs))"

text \<open>\<open>load_skill\<close> on the text of \<^verbatim>\<open>SKILL.md\<close>, if there is one.\<close>

definition load_skill :: "(rat \<Rightarrow> string) \<Rightarrow> (string \<Rightarrow> py_error + json) \<Rightarrow> (string \<Rightarrow> bool) \<Rightarrow> string option
    \<Rightarrow> py_error + (manifest \<times> string)" where
  "load_skill ft yaml is_file skill_md =
     (case skill_md of None \<Rightarrow> Inl (ValueError ''SKILL.md is required'') | Some text \<Rightarrow>
      if \<not> starts_with text (''---'' @ [CHR 0x0A])
      then Inl (ValueError ''SKILL.md must start with YAML frontmatter'')
      else case split_once ([CHR 0x0A] @ ''---'' @ [CHR 0x0A]) (drop 4 text) of
        None \<Rightarrow> Inl (ValueError ''SKILL.md frontmatter is not closed'')
      | Some (raw, body) \<Rightarrow>
          (case yaml raw of Inl e \<Rightarrow> Inl e | Inr v \<Rightarrow>
           case (if truthy v then v else JObj []) of
             JObj data \<Rightarrow>
               (case manifest_of ft is_file data of Inl e \<Rightarrow> Inl e | Inr m \<Rightarrow> Inr (m, py_strip body))
           | _ \<Rightarrow> Inl (TypeError ''SKILL.md frontmatter must be an object'')))"

section \<open>A new skill\<close>

type_synonym tree = "(string list \<times> string) list"

definition scaffold :: "string \<Rightarrow> tree option \<Rightarrow> string \<Rightarrow> py_error + tree" where
  "scaffold target existing name =
     (case existing of
        Some _ \<Rightarrow> Inl (ValueError (''Target already exists: '' @ target))
      | None \<Rightarrow> Inr
         [([''SKILL.md''], text_lines [''---'', ''name: '' @ name, ''version: 0.1.0'',
             ''description: Describe when this skill should run'', ''license: Apache-2.0'', ''entrypoint: main.py'',
             ''capabilities:'', ''  - name: filesystem.read'', ''    reason: Read operator-selected input files'',
             ''---'', [], ''# Instructions'', [], ''Describe a bounded workflow.'']),
          ([''main.py''], text_lines [''def run(payload: dict) -> dict:'',
             ''    return {'' @ py_repr ''ok'' @ '': True, '' @ py_repr ''input'' @ '': payload}'']),
          ([''tests'', ''cases.yaml''], text_lines [''cases:'', ''  - name: smoke'', ''    input: {}'', ''    expect:'',
             ''      ok: true''])])"

section \<open>The scanner\<close>

datatype syntax_node =
    Import "string list"
  | ImportFrom "string option"
  | CallName string nat
  | CallAttribute string nat

definition import_capabilities :: "(string \<times> string) list" where
  "import_capabilities = [(''requests'', ''network.http''), (''httpx'', ''network.http''), (''socket'', ''network.raw''),
     (''subprocess'', ''process.exec''), (''sqlite3'', ''database.local'')]"

definition dangerous_calls :: "(string \<times> string) list" where
  "dangerous_calls = [(''eval'', ''dynamic eval''), (''exec'', ''dynamic exec''), (''compile'', ''dynamic compile'')]"

text \<open>
  \<open>(?i)(api[_-]?key|secret|token|password)\s*[=:]\s*['"][^'"]{8,}\<close>: the length of the match that
  starts here, if one does.
\<close>

definition quote :: "char \<Rightarrow> bool" where
  "quote c \<longleftrightarrow> c = CHR 0x27 \<or> c = CHR 0x22"

definition secret_word :: "string \<Rightarrow> nat option" where
  "secret_word s =
     (let l = py_lower s in
      if starts_with l ''apikey'' then Some 6
      else if starts_with l ''api_key'' \<or> starts_with l ''api-key'' then Some 7
      else if starts_with l ''secret'' then Some 6
      else if starts_with l ''token'' then Some 5
      else if starts_with l ''password'' then Some 8 else None)"

definition secret_match :: "string \<Rightarrow> nat option" where
  "secret_match s =
     (case secret_word s of None \<Rightarrow> None | Some w \<Rightarrow>
      let a = length (takeWhile is_space (drop w s)) in
      case drop (w + a) s of [] \<Rightarrow> None | sep # rest \<Rightarrow>
      if \<not> (sep = CHR ''='' \<or> sep = CHR '':'') then None
      else let b = length (takeWhile is_space rest) in
        case drop b rest of [] \<Rightarrow> None | q # value \<Rightarrow>
          let n = length (takeWhile (\<lambda>c. \<not> quote c) value) in
          if quote q \<and> 8 \<le> n then Some (w + a + 1 + b + 1 + n) else None)"

text \<open>\<open>SECRET.finditer(text)\<close>: the line of each match, where \<open>line\<close> counts the newlines so far.\<close>

function secret_lines :: "nat \<Rightarrow> string \<Rightarrow> nat list" where
  "secret_lines line [] = []"
| "secret_lines line (c # cs) =
     (case secret_match (c # cs) of
        None \<Rightarrow> secret_lines (if c = CHR 0x0A then Suc line else line) cs
      | Some n \<Rightarrow> line # secret_lines (line + length (filter (\<lambda>x. x = CHR 0x0A) (take n (c # cs)))) (drop (n - 1) cs))"
  by pat_completeness auto

termination secret_lines
  by (relation "measure (\<lambda>(_, s). length s)") auto

text \<open>\<open>name.split(".")[0]\<close>.\<close>

definition root_name :: "string \<Rightarrow> string" where
  "root_name s = takeWhile (\<lambda>c. c \<noteq> CHR ''.'') s"

fun node_capabilities :: "syntax_node \<Rightarrow> string list" where
  "node_capabilities (Import names) = concat (map (\<lambda>n. case map_of import_capabilities (root_name n) of None \<Rightarrow> [] | Some c \<Rightarrow> [c]) names)"
| "node_capabilities (ImportFrom m) =
     (case map_of import_capabilities (root_name (case m of None \<Rightarrow> [] | Some n \<Rightarrow> n)) of None \<Rightarrow> [] | Some c \<Rightarrow> [c])"
| "node_capabilities (CallName f line) = []"
| "node_capabilities (CallAttribute a line) = (if a = ''system'' \<or> a = ''popen'' then [''process.exec''] else [])"

definition make_finding :: "string \<Rightarrow> string \<Rightarrow> string \<Rightarrow> string \<Rightarrow> nat \<Rightarrow> finding" where
  "make_finding severity code_id message path line =
     \<lparr>fi_severity = severity, fi_code = code_id, fi_message = message, fi_path = path, fi_line = line\<rparr>"

fun node_findings :: "string \<Rightarrow> syntax_node \<Rightarrow> finding list" where
  "node_findings path (CallName f line) =
     (case map_of dangerous_calls f of None \<Rightarrow> [] | Some m \<Rightarrow> [make_finding ''critical'' ''P002'' m path line])"
| "node_findings path (CallAttribute a line) =
     (if a = ''system'' \<or> a = ''popen'' then [make_finding ''high'' ''P003'' ''Shell process execution'' path line] else [])"
| "node_findings path _ = []"

text \<open>\<open>ast.parse\<close> gives the nodes, or the message and the line of a syntax error.\<close>

type_synonym parser = "string \<Rightarrow> (string \<times> nat option) + syntax_node list"

definition scan_python :: "parser \<Rightarrow> string \<Rightarrow> string \<Rightarrow> finding list \<times> string list" where
  "scan_python parse text path =
     (case parse text of
        Inl (msg, line) \<Rightarrow>
          ([make_finding ''high'' ''P001'' (''Python syntax error: '' @ msg) path
              (case line of None \<Rightarrow> 1 | Some 0 \<Rightarrow> 1 | Some n \<Rightarrow> n)], [])
      | Inr nodes \<Rightarrow> (concat (map (node_findings path) nodes), concat (map node_capabilities nodes)))"

definition hidden_part :: "string \<Rightarrow> bool" where
  "hidden_part part = starts_with part ''.''"

definition posix_path :: "string list \<Rightarrow> string" where
  "posix_path parts = join_with ''/'' parts"

text \<open>\<open>path.suffix\<close>: from the last dot of the name, unless the dot is its first or last character.\<close>

definition suffix_of :: "string \<Rightarrow> string" where
  "suffix_of name =
     (let back = takeWhile (\<lambda>c. c \<noteq> CHR ''.'') (rev name) in
      if back = [] \<or> length name \<le> Suc (length back) then [] else CHR ''.'' # rev back)"

definition scan_file :: "parser \<Rightarrow> (string \<Rightarrow> string) \<Rightarrow> string list \<times> string \<Rightarrow> finding list \<times> string list" where
  "scan_file parse decode f =
     (case f of (parts, bytes) \<Rightarrow>
        let relative = posix_path parts; text = decode bytes in
        if 5000000 < length bytes
        then ([make_finding ''high'' ''F003'' ''File exceeds 5 MB package limit'' relative 1], [])
        else
          let secrets = map (make_finding ''critical'' ''S001'' ''Possible embedded credential'' relative) (secret_lines 1 text);
              (fs, caps) = (if parts \<noteq> [] \<and> suffix_of (last parts) = ''.py'' then scan_python parse text relative else ([], [])) in
          (secrets @ fs, caps))"

definition visible :: "string list \<times> string \<Rightarrow> bool" where
  "visible f \<longleftrightarrow> \<not> list_ex hidden_part (fst f)"

definition scanned_files :: "tree \<Rightarrow> tree" where
  "scanned_files t = filter visible (sort_key fst t)"

definition scan :: "parser \<Rightarrow> (string \<Rightarrow> string) \<Rightarrow> tree \<Rightarrow> manifest \<Rightarrow> finding list" where
  "scan parse decode t m =
     (let results = map (scan_file parse decode) (scanned_files t);
          inferred = concat (map snd results);
          declared = map cp_name (mf_capabilities m) in
      concat (map fst results)
      @ map (\<lambda>c. make_finding ''high'' ''C001'' (''Undeclared inferred capability: '' @ c) ''SKILL.md'' 1)
          (sort (remdups (filter (\<lambda>c. c \<notin> set declared) inferred)))
      @ map (\<lambda>c. make_finding ''info'' ''C002'' (''Declared capability was not statically observed: '' @ c) ''SKILL.md'' 1)
          (sort (remdups (filter (\<lambda>c. c \<notin> set inferred) declared))))"

definition blocking :: "finding list \<Rightarrow> bool" where
  "blocking fs = list_ex (\<lambda>f. fi_severity f \<in> set [''critical'', ''high'']) fs"

section \<open>What blocks a package\<close>

text \<open>What the scanner finds in one file that blocks, and the capabilities it infers from it.\<close>

definition file_capabilities :: "parser \<Rightarrow> (string \<Rightarrow> string) \<Rightarrow> string list \<times> string \<Rightarrow> string list" where
  "file_capabilities parse decode f = snd (scan_file parse decode f)"

definition file_unsafe :: "parser \<Rightarrow> (string \<Rightarrow> string) \<Rightarrow> string list \<times> string \<Rightarrow> bool" where
  "file_unsafe parse decode f \<longleftrightarrow>
     5000000 < length (snd f) \<or> secret_lines 1 (decode (snd f)) \<noteq> []
     \<or> (fst f \<noteq> [] \<and> suffix_of (last (fst f)) = ''.py''
        \<and> (case parse (decode (snd f)) of Inl e \<Rightarrow> True
           | Inr nodes \<Rightarrow> (\<exists>x line. x \<in> fst ` set dangerous_calls \<and> CallName x line \<in> set nodes)
               \<or> (\<exists>line. CallAttribute ''system'' line \<in> set nodes \<or> CallAttribute ''popen'' line \<in> set nodes)))"

lemma blocking_append [simp]: "blocking (fs @ gs) \<longleftrightarrow> blocking fs \<or> blocking gs"
  by (simp add: blocking_def)

lemma blocking_concat: "blocking (concat fss) \<longleftrightarrow> (\<exists>fs \<in> set fss. blocking fs)"
  by (induction fss) (simp_all add: blocking_def)

lemma blocking_map: "blocking (map (make_finding severity c m p) xs) \<longleftrightarrow> (severity = ''critical'' \<or> severity = ''high'') \<and> xs \<noteq> []"
  by (induction xs) (auto simp: blocking_def make_finding_def)

lemma blocking_map_message:
  "blocking (map (\<lambda>x. make_finding severity c (g x) p n) xs) \<longleftrightarrow> (severity = ''critical'' \<or> severity = ''high'') \<and> xs \<noteq> []"
  by (induction xs) (auto simp: blocking_def make_finding_def)

lemma blocking_node:
  "blocking (node_findings path node) \<longleftrightarrow>
     (\<exists>x line. node = CallName x line \<and> x \<in> fst ` set dangerous_calls)
     \<or> (\<exists>line. node = CallAttribute ''system'' line \<or> node = CallAttribute ''popen'' line)"
proof (cases node)
  case (CallName x line)
  have "map_of dangerous_calls x = None \<longleftrightarrow> x \<notin> fst ` set dangerous_calls"
    by (simp add: map_of_eq_None_iff)
  with CallName show ?thesis
    by (cases "map_of dangerous_calls x") (auto simp: blocking_def make_finding_def)
qed (auto simp: blocking_def make_finding_def)

lemma blocking_file: "blocking (fst (scan_file parse decode f)) \<longleftrightarrow> file_unsafe parse decode f"
proof -
  obtain parts bytes where f: "f = (parts, bytes)" by (cases f) auto
  have py: "blocking (fst (scan_python parse code_text path)) \<longleftrightarrow>
      (case parse code_text of Inl e \<Rightarrow> True
       | Inr nodes \<Rightarrow> (\<exists>x line. x \<in> fst ` set dangerous_calls \<and> CallName x line \<in> set nodes)
           \<or> (\<exists>line. CallAttribute ''system'' line \<in> set nodes \<or> CallAttribute ''popen'' line \<in> set nodes))" for code_text path
  proof (cases "parse code_text")
    case (Inl e)
    then show ?thesis by (cases e) (simp add: scan_python_def blocking_def make_finding_def)
  next
    case (Inr nodes)
    have "blocking (concat (map (node_findings path) nodes)) \<longleftrightarrow> (\<exists>node \<in> set nodes. blocking (node_findings path node))"
      by (simp add: blocking_concat)
    then show ?thesis
      unfolding blocking_node using Inr by (auto simp: scan_python_def)
  qed
  have b: "blocking [] = False" "blocking [make_finding ''high'' c m p n]" for c m p n
    by (simp_all add: blocking_def make_finding_def)
  show ?thesis
    unfolding f scan_file_def file_unsafe_def
    by (simp add: Let_def split_beta blocking_map b py)
qed

text \<open>
  C18. The scanner. Its findings block the package exactly when a visible file is larger than the
  limit, holds text that looks like a credential, or is Python that does not parse, evaluates
  code or starts a shell, or when an import or a shell call of a visible Python file needs a
  capability the manifest does not declare. Whatever is hidden behind a dot is not looked at.
\<close>

theorem scan_blocks_iff:
  "blocking (scan parse decode t m) \<longleftrightarrow>
     (\<exists>f. f \<in> set t \<and> visible f \<and>
        (file_unsafe parse decode f \<or> (\<exists>c \<in> set (file_capabilities parse decode f). c \<notin> cp_name ` set (mf_capabilities m))))"
proof -
  let ?r = "map (scan_file parse decode) (scanned_files t)"
  have files: "set (scanned_files t) = {f \<in> set t. visible f}"
    by (auto simp: scanned_files_def)
  have "blocking (concat (map fst ?r)) \<longleftrightarrow> (\<exists>f \<in> set (scanned_files t). file_unsafe parse decode f)"
    by (simp add: blocking_concat blocking_file)
  moreover have "filter (\<lambda>c. c \<notin> D) (concat (map snd ?r)) \<noteq> [] \<longleftrightarrow>
      (\<exists>f \<in> set (scanned_files t). \<not> set (file_capabilities parse decode f) \<subseteq> D)" for D
    by (auto simp: filter_empty_conv file_capabilities_def)
  moreover have "sort (remdups xs) \<noteq> [] \<longleftrightarrow> xs \<noteq> []" for xs :: "string list"
    by (metis set_empty set_remdups set_sort)
  ultimately show ?thesis
    unfolding scan_def Let_def by (simp add: blocking_map_message files) blast
qed

end
