(* ===== verification/ForgeRegistry.thy ===== *)
theory ForgeRegistry
  imports ForgeSkill "HOL-Library.Multiset"
begin

text \<open>
  The supply chain of skills (\<^verbatim>\<open>services/forge/src/evoagent_forge/package.py\<close>, \<^verbatim>\<open>signing.py\<close>,
  \<^verbatim>\<open>registry.py\<close>, \<^verbatim>\<open>evolution.py\<close>, \<^verbatim>\<open>api.py\<close>, \<^verbatim>\<open>cli.py\<close>): packages, signatures, the registry of
  immutable releases, evaluation of a skill's cases and the gates of the command line. The
  digest, the archive format, the Ed25519 operations, base64 and the full-text index are arguments.
\<close>

section \<open>Packages\<close>

definition excluded_part :: "string \<Rightarrow> bool" where
  "excluded_part part \<longleftrightarrow>
     part \<in> set [''__pycache__'', ''.git'', ''.pytest_cache'', ''.ruff_cache''] \<or> hidden_part part"

definition packed :: "string list option \<Rightarrow> string list \<times> string \<Rightarrow> bool" where
  "packed output f \<longleftrightarrow> output \<noteq> Some (fst f) \<and> \<not> list_ex excluded_part (fst f)"

text \<open>The entries of the archive; \<open>output\<close> is where it is written, if inside the skill.\<close>

definition package_entries :: "(rat \<Rightarrow> string) \<Rightarrow> manifest \<Rightarrow> string list option \<Rightarrow> tree \<Rightarrow> (string \<times> string) list" where
  "package_entries ft m output t =
     (''forge-manifest.json'', json_ascii ft (sort_keys (manifest_dict m)))
     # map (\<lambda>f. (posix_path (fst f), snd f)) (sort_key (\<lambda>f. posix_path (fst f)) (filter (packed output) t))"

definition build_package :: "(string \<Rightarrow> string) \<Rightarrow> ((string \<times> string) list \<Rightarrow> string) \<Rightarrow> (rat \<Rightarrow> string) \<Rightarrow> manifest
    \<Rightarrow> string list option \<Rightarrow> tree \<Rightarrow> string \<times> string" where
  "build_package sha archive ft m output t =
     (let artifact = archive (package_entries ft m output t) in (artifact, sha artifact))"

section \<open>Signatures\<close>

text \<open>
  The Ed25519 operations of the library and base64. Loading gives \<open>None\<close> for a key of another kind;
  \<open>cr_b64decode\<close> raises on malformed text.
\<close>

record crypto =
  cr_sha :: "string \<Rightarrow> string"
  cr_fromhex :: "string \<Rightarrow> string"
  cr_load_private :: "string \<Rightarrow> py_error + string option"
  cr_public_pem :: "string \<Rightarrow> string"
  cr_sign :: "string \<Rightarrow> string \<Rightarrow> string"
  cr_load_public :: "string \<Rightarrow> py_error + string option"
  cr_verify :: "string \<Rightarrow> string \<Rightarrow> string \<Rightarrow> bool"
  cr_b64encode :: "string \<Rightarrow> string"
  cr_b64decode :: "string \<Rightarrow> py_error + string"

definition key_fingerprint :: "crypto \<Rightarrow> string \<Rightarrow> string" where
  "key_fingerprint cr public_bytes = ''sha256:'' @ cr_sha cr public_bytes"

definition sign_artifact :: "crypto \<Rightarrow> string \<Rightarrow> string \<Rightarrow> py_error + json" where
  "sign_artifact cr artifact private_pem =
     (case cr_load_private cr private_pem of
        Inl e \<Rightarrow> Inl e
      | Inr None \<Rightarrow> Inl (TypeError ''Expected an Ed25519 private key'')
      | Inr (Some key) \<Rightarrow>
          let digest = cr_sha cr artifact; public_bytes = cr_public_pem cr key in
          Inr (JObj [(''algorithm'', JStr ''ed25519''), (''digest'', JStr (''sha256:'' @ digest)),
            (''key_fingerprint'', JStr (key_fingerprint cr public_bytes)),
            (''public_key'', JStr (cr_b64encode cr public_bytes)),
            (''signature'', JStr (cr_b64encode cr (cr_sign cr key (cr_fromhex cr digest))))]))"

text \<open>\<open>payload[key]\<close> as text for \<open>b64decode\<close>.\<close>

definition decode_field :: "crypto \<Rightarrow> string \<Rightarrow> json \<Rightarrow> py_error + string" where
  "decode_field cr key payload =
     (case jget key payload of
        None \<Rightarrow> Inl (KeyError key)
      | Some (JStr s) \<Rightarrow> cr_b64decode cr s
      | Some _ \<Rightarrow> Inl (TypeError ''argument should be a bytes-like object or ASCII string''))"

text \<open>\<open>except (ValueError, TypeError): return False\<close>.\<close>

fun refuse_malformed :: "py_error + bool \<Rightarrow> py_error + bool" where
  "refuse_malformed (Inl (ValueError m)) = Inr False"
| "refuse_malformed (Inl (TypeError m)) = Inr False"
| "refuse_malformed r = r"

definition check_signature :: "crypto \<Rightarrow> json \<Rightarrow> string \<Rightarrow> string \<Rightarrow> py_error + bool" where
  "check_signature cr payload public_bytes digest =
     (case cr_load_public cr public_bytes of
        Inl e \<Rightarrow> Inl e
      | Inr None \<Rightarrow> Inr False
      | Inr (Some public) \<Rightarrow>
          (case decode_field cr ''signature'' payload of
             Inl e \<Rightarrow> Inl e
           | Inr signature \<Rightarrow>
               if cr_verify cr public signature (cr_fromhex cr digest) then Inr True else Inl InvalidSignature))"

definition verify_artifact :: "crypto \<Rightarrow> string \<Rightarrow> json \<Rightarrow> string option \<Rightarrow> py_error + bool" where
  "verify_artifact cr artifact payload trusted =
     (let digest = cr_sha cr artifact in
      if jget ''digest'' payload \<noteq> Some (JStr (''sha256:'' @ digest)) then Inr False
      else case decode_field cr ''public_key'' payload of
        Inl e \<Rightarrow> Inl e
      | Inr public_bytes \<Rightarrow>
          if (case trusted of None \<Rightarrow> False | Some f \<Rightarrow> f \<noteq> [] \<and> key_fingerprint cr public_bytes \<noteq> f) then Inr False
          else refuse_malformed (check_signature cr payload public_bytes digest))"

section \<open>The registry\<close>

record release_row =
  rl_name :: string
  rl_version :: string
  rl_digest :: string
  rl_description :: string
  rl_manifest :: json
  rl_signature :: "string option"
  rl_published :: clock

record forge =
  fo_blobs :: "(string \<times> string) list"
  fo_releases :: "release_row list"

definition new_registry :: forge where
  "new_registry = \<lparr>fo_blobs = [], fo_releases = []\<rparr>"

definition blob_name :: "string \<Rightarrow> string" where
  "blob_name digest = ''sha256-'' @ digest @ ''.evoskill''"

definition release_key :: "release_row \<Rightarrow> string \<times> string" where
  "release_key r = (rl_name r, rl_version r)"

text \<open>
  \<open>publish\<close>: the blob is stored first, unless it is there; then the row is inserted, with the
  primary key and the unique digest enforced by the database.
\<close>

definition publish_release :: "(string \<Rightarrow> string) \<Rightarrow> clock \<Rightarrow> manifest \<Rightarrow> string \<Rightarrow> string option \<Rightarrow> (release_row, forge) op" where
  "publish_release sha clk m artifact signature s =
     (let digest = sha artifact; dest = blob_name digest;
          s1 = (if dest \<in> set (map fst (fo_blobs s)) then s else s\<lparr>fo_blobs := fo_blobs s @ [(dest, artifact)]\<rparr>);
          row = \<lparr>rl_name = mf_name m, rl_version = mf_version m, rl_digest = digest,
                 rl_description = mf_description m, rl_manifest = manifest_dict m, rl_signature = signature,
                 rl_published = clk\<rparr> in
      if release_key row \<in> set (map release_key (fo_releases s1)) \<or> digest \<in> set (map rl_digest (fo_releases s1))
      then (Inl (ValueError ''Name/version or artifact digest is already published''), s1)
      else (Inr row, s1\<lparr>fo_releases := fo_releases s1 @ [row]\<rparr>))"

definition search_terms :: "string \<Rightarrow> string" where
  "search_terms query = join_with '' OR '' (map (\<lambda>t. CHR 0x22 # t @ [CHR 0x22])
     (take 10 (py_split (replace_char CHR 0x22 CHR 0x20 query))))"

text \<open>The index answers a query with the positions of the matching rows, best first.\<close>

type_synonym release_index = "string \<Rightarrow> (string \<times> string) list \<Rightarrow> py_error + nat list"

definition decode_release :: "(string \<Rightarrow> py_error + json) \<Rightarrow> release_row \<Rightarrow> py_error + json" where
  "decode_release loads r =
     (case (case rl_signature r of None \<Rightarrow> Inr JNull | Some t \<Rightarrow> if t = [] then Inr JNull else loads t) of
        Inl e \<Rightarrow> Inl e
      | Inr signature \<Rightarrow> Inr (JObj [(''name'', JStr (rl_name r)), (''version'', JStr (rl_version r)),
          (''digest'', JStr (rl_digest r)), (''description'', JStr (rl_description r)),
          (''published_at'', JInt (iso (rl_published r))), (''manifest'', rl_manifest r), (''signature'', signature)]))"

fun decode_releases :: "(string \<Rightarrow> py_error + json) \<Rightarrow> release_row list \<Rightarrow> py_error + json list" where
  "decode_releases loads [] = Inr []"
| "decode_releases loads (r # rs) =
     (case decode_release loads r of Inl e \<Rightarrow> Inl e | Inr j \<Rightarrow>
      case decode_releases loads rs of Inl e \<Rightarrow> Inl e | Inr js \<Rightarrow> Inr (j # js))"

definition search_releases :: "release_index \<Rightarrow> (string \<Rightarrow> py_error + json) \<Rightarrow> string \<Rightarrow> int \<Rightarrow> forge \<Rightarrow> py_error + json list" where
  "search_releases index loads query limit s =
     (if py_strip query \<noteq> []
      then case index (search_terms query) (map (\<lambda>r. (rl_name r, rl_description r)) (fo_releases s)) of
             Inl e \<Rightarrow> Inl e
           | Inr ids \<Rightarrow> decode_releases loads
               (sql_limit limit (map (\<lambda>i. fo_releases s ! i) (filter (\<lambda>i. i < length (fo_releases s)) ids)))
      else decode_releases loads
             (sql_limit limit (rev (sort_key (\<lambda>r. iso (rl_published r)) (rev (fo_releases s))))))"

definition get_release :: "(string \<Rightarrow> py_error + json) \<Rightarrow> string \<Rightarrow> string \<Rightarrow> forge \<Rightarrow> py_error + json option" where
  "get_release loads name version s =
     (case find (\<lambda>r. rl_name r = name \<and> rl_version r = version) (fo_releases s) of
        None \<Rightarrow> Inr None
      | Some r \<Rightarrow> (case decode_release loads r of Inl e \<Rightarrow> Inl e | Inr j \<Rightarrow> Inr (Some j)))"

definition releases_handler :: "release_index \<Rightarrow> (string \<Rightarrow> py_error + json) \<Rightarrow> string \<Rightarrow> int \<Rightarrow> forge \<Rightarrow> py_error + json list" where
  "releases_handler index loads q limit s = search_releases index loads q (min (max limit 1) 100) s"

definition release_handler :: "(string \<Rightarrow> py_error + json) \<Rightarrow> string \<Rightarrow> string \<Rightarrow> forge \<Rightarrow> py_error + json" where
  "release_handler loads name version s =
     (case get_release loads name version s of
        Inl e \<Rightarrow> Inl e
      | Inr None \<Rightarrow> Inl (HTTPException 404 ''Release not found'')
      | Inr (Some j) \<Rightarrow> Inr j)"

section \<open>Evaluation\<close>

text \<open>Equality of decoded values: booleans and numbers compare by value, objects by key.\<close>

definition number_of :: "json \<Rightarrow> rat option" where
  "number_of j = (case j of JBool b \<Rightarrow> Some (if b then 1 else 0) | JInt i \<Rightarrow> Some (of_int i) | JNum q \<Rightarrow> Some q | _ \<Rightarrow> None)"

lemma zip_size [termination_simp]: "(a, b) \<in> set (zip xs ys) \<Longrightarrow> size a < Suc (size_list size xs)"
  using set_zip_leftD [of a b xs ys] size_list_estimation' [of a xs "size a" size] by force

fun py_eq :: "json \<Rightarrow> json \<Rightarrow> bool" where
  "py_eq JNull b \<longleftrightarrow> b = JNull"
| "py_eq (JStr s) b \<longleftrightarrow> b = JStr s"
| "py_eq (JArr xs) b \<longleftrightarrow> (case b of JArr ys \<Rightarrow> length xs = length ys \<and> list_all (\<lambda>(x, y). py_eq x y) (zip xs ys) | _ \<Rightarrow> False)"
| "py_eq (JObj xs) b \<longleftrightarrow> (case b of JObj ys \<Rightarrow> length xs = length ys
     \<and> list_all (\<lambda>(k, x). case map_of ys k of None \<Rightarrow> False | Some y \<Rightarrow> py_eq x y) xs | _ \<Rightarrow> False)"
| "py_eq a b \<longleftrightarrow> number_of a = number_of b"

record forge_evaluation =
  ev_suite :: string
  ev_passed :: nat
  ev_total :: nat
  ev_score :: rat
  ev_failures :: "json list"

text \<open>\<open>value.get(key)\<close> of a value that may not be an object.\<close>

definition get_attr :: "string \<Rightarrow> json \<Rightarrow> py_error + json" where
  "get_attr key v = (case v of JObj kvs \<Rightarrow> Inr (jget_or JNull key v) | _ \<Rightarrow> Inl (AttributeError ''object has no attribute get''))"

definition or_dict :: "json \<Rightarrow> json" where
  "or_dict v = (if truthy v then v else JObj [])"

fun mismatches :: "json \<Rightarrow> (string \<times> json) list \<Rightarrow> py_error + (string \<times> json) list" where
  "mismatches result [] = Inr []"
| "mismatches result ((k, v) # kvs) =
     (case get_attr k result of Inl e \<Rightarrow> Inl e | Inr got \<Rightarrow>
      case mismatches result kvs of Inl e \<Rightarrow> Inl e | Inr ms \<Rightarrow> Inr (if py_eq got v then ms else (k, v) # ms))"

text \<open>The body of the \<open>try\<close>: the failure it records, if any, or the exception it raises.\<close>

definition try_case :: "(json \<Rightarrow> py_error + json) \<Rightarrow> json \<Rightarrow> py_error + json option" where
  "try_case run c =
     (case get_attr ''input'' c of Inl e \<Rightarrow> Inl e | Inr input \<Rightarrow>
      case run (or_dict input) of Inl e \<Rightarrow> Inl e | Inr result \<Rightarrow>
      case get_attr ''expect'' c of Inl e \<Rightarrow> Inl e | Inr expect \<Rightarrow>
      case or_dict expect of
        JObj expected \<Rightarrow>
          (case mismatches result expected of Inl e \<Rightarrow> Inl e | Inr ms \<Rightarrow>
           if ms = [] then Inr None
           else case get_attr ''name'' c of Inl e \<Rightarrow> Inl e | Inr name \<Rightarrow>
             Inr (Some (JObj [(''case'', name), (''expected'', JObj ms), (''actual'', result)])))
      | _ \<Rightarrow> Inl (AttributeError ''object has no attribute items''))"

definition run_case :: "(json \<Rightarrow> py_error + json) \<Rightarrow> json \<Rightarrow> py_error + json option" where
  "run_case run c =
     (case try_case run c of
        Inr r \<Rightarrow> Inr r
      | Inl exc \<Rightarrow>
          (case get_attr ''name'' c of Inl e \<Rightarrow> Inl e
           | Inr name \<Rightarrow> Inr (Some (JObj [(''case'', name), (''error'', JStr (exc_text exc))]))))"

fun run_cases :: "(json \<Rightarrow> py_error + json) \<Rightarrow> json list \<Rightarrow> py_error + json list" where
  "run_cases run [] = Inr []"
| "run_cases run (c # cs) =
     (case run_case run c of Inl e \<Rightarrow> Inl e | Inr r \<Rightarrow>
      case run_cases run cs of Inl e \<Rightarrow> Inl e | Inr fs \<Rightarrow>
      Inr ((case r of None \<Rightarrow> [] | Some f \<Rightarrow> [f]) @ fs))"

text \<open>
  \<open>evaluate\<close>: \<open>load\<close> executes the entry point and returns its \<open>run\<close>, if it has a callable one;
  \<open>cases_yaml\<close> is the decoded case file, if there is one.
\<close>

definition evaluate_skill :: "(string \<Rightarrow> py_error + (json \<Rightarrow> py_error + json) option) \<Rightarrow> json option \<Rightarrow> manifest
    \<Rightarrow> py_error + forge_evaluation" where
  "evaluate_skill load cases_yaml m =
     (case (cases_yaml, mf_entrypoint m) of
        (Some doc, Some entrypoint) \<Rightarrow>
          (case load entrypoint of
             Inl e \<Rightarrow> Inl e
           | Inr None \<Rightarrow> Inl (TypeError ''Entrypoint must expose run(payload: dict) -> dict'')
           | Inr (Some run) \<Rightarrow>
               (case get_attr ''cases'' (or_dict doc) of Inl e \<Rightarrow> Inl e | Inr _ \<Rightarrow>
                case iterate (jget_or (JArr []) ''cases'' (or_dict doc)) of Inl e \<Rightarrow> Inl e | Inr cs \<Rightarrow>
                case run_cases run cs of Inl e \<Rightarrow> Inl e | Inr fs \<Rightarrow>
                  let total = length cs; passed = total - length fs in
                  Inr \<lparr>ev_suite = ''tests/cases.yaml'', ev_passed = passed, ev_total = total,
                       ev_score = of_nat passed / of_nat (max 1 total), ev_failures = fs\<rparr>))
      | _ \<Rightarrow> Inl (ValueError ''An entrypoint and tests/cases.yaml are required''))"

definition evolution_proposal :: "forge_evaluation \<Rightarrow> string list \<Rightarrow> json" where
  "evolution_proposal baseline feedback =
     JObj [(''kind'', JStr ''skill-evolution-proposal/v1''),
       (''baseline'', JObj [(''suite'', JStr (ev_suite baseline)), (''passed'', JInt (int (ev_passed baseline))),
          (''total'', JInt (int (ev_total baseline))), (''score'', JNum (ev_score baseline)),
          (''failures'', JArr (ev_failures baseline))]),
       (''evidence'', JArr (map JStr feedback)),
       (''acceptance_gate'', JObj [(''minimum_score'', JNum (max (ev_score baseline) (8 / 10))),
          (''no_new_high_findings'', JBool True)]),
       (''instructions'', JArr (map JStr [''Change a copy of the skill, never the published source artifact.'',
          ''Add a regression case for each accepted feedback item.'',
          ''Publish only when evaluation and security gates both pass.'']))]"

section \<open>The command line\<close>

definition cli_scan :: "parser \<Rightarrow> (string \<Rightarrow> string) \<Rightarrow> tree \<Rightarrow> manifest \<Rightarrow> nat" where
  "cli_scan parse decode t m = (if blocking (scan parse decode t m) then 1 else 0)"

definition cli_package :: "parser \<Rightarrow> (string \<Rightarrow> string) \<Rightarrow> (string \<Rightarrow> string) \<Rightarrow> ((string \<times> string) list \<Rightarrow> string)
    \<Rightarrow> (rat \<Rightarrow> string) \<Rightarrow> tree \<Rightarrow> manifest \<Rightarrow> string list option \<Rightarrow> py_error + (string \<times> string)" where
  "cli_package parse decode sha archive ft t m output =
     (if blocking (scan parse decode t m)
      then Inl (RuntimeError ''Packaging blocked by high/critical scanner findings'')
      else Inr (build_package sha archive ft m output t))"

definition cli_verify :: "crypto \<Rightarrow> string \<Rightarrow> json \<Rightarrow> py_error + nat" where
  "cli_verify cr artifact payload =
     (case verify_artifact cr artifact payload None of Inl e \<Rightarrow> Inl e | Inr valid \<Rightarrow> Inr (if valid then 0 else 1))"

end
