(* ===== verification/ForgeTheorems.thy ===== *)
theory ForgeTheorems
  imports ForgeRegistry
begin

text \<open>
  The properties of the supply chain of skills: packages do not depend on how the directory is
  listed, signatures verify exactly what was signed, releases are immutable and their blobs are
  addressed by content, and evaluation counts every case.
\<close>

section \<open>Packages\<close>

text \<open>
  Deterministic packages. The artifact and its digest depend only on the files of the skill, not on
  the order in which the directory lists them; every entry after the manifest is a file of the
  skill no part of whose path is hidden or excluded, and every such file but the output is there.
\<close>

theorem package_deterministic:
  assumes "mset t = mset t'" "inj_on (\<lambda>f. posix_path (fst f)) (set t)"
  shows "build_package sha archive ft m output t = build_package sha archive ft m output t'
    \<and> set (tl (package_entries ft m output t)) =
        {(posix_path parts, bytes) | parts bytes. (parts, bytes) \<in> set t \<and> output \<noteq> Some parts
           \<and> \<not> list_ex excluded_part parts}"
proof
  let ?k = "\<lambda>f. posix_path (fst f)" and ?f = "filter (packed output) t" and ?g = "filter (packed output) t'"
  have "mset ?f = mset ?g"
    using assms(1) by (simp add: mset_filter)
  moreover have "inj_on ?k (set (sort_key ?k ?g))"
    using assms mset_eq_setD [OF assms(1)] by (auto intro: inj_on_subset)
  ultimately have "sort_key ?k ?f = sort_key ?k ?g"
    using sort_key_inj_key_eq [of ?f "sort_key ?k ?g" ?k] mset_eq_setD [OF \<open>mset ?f = mset ?g\<close>] by simp
  then show "build_package sha archive ft m output t = build_package sha archive ft m output t'"
    by (simp add: build_package_def package_entries_def)
  show "set (tl (package_entries ft m output t)) =
        {(posix_path parts, bytes) | parts bytes. (parts, bytes) \<in> set t \<and> output \<noteq> Some parts
           \<and> \<not> list_ex excluded_part parts}"
    by (force simp: package_entries_def packed_def)
qed

definition small_manifest :: "string \<Rightarrow> string \<Rightarrow> manifest" where
  "small_manifest name version = \<lparr>mf_name = name, mf_version = version, mf_description = ''d'', mf_license = ''MIT'',
     mf_entrypoint = None, mf_capabilities = [], mf_compatibility = [], mf_metadata = []\<rparr>"

theorem package_deterministic_witness:
  "build_package id (\<lambda>es. concat (map snd es)) (\<lambda>_. []) (small_manifest ''ab'' ''1.0.0'') None [([''b''], ''2''), ([''a''], ''1'')]
   = build_package id (\<lambda>es. concat (map snd es)) (\<lambda>_. []) (small_manifest ''ab'' ''1.0.0'') None [([''a''], ''1''), ([''b''], ''2'')]"
  using package_deterministic [of "[([''b''], ''2''), ([''a''], ''1'')]" "[([''a''], ''1''), ([''b''], ''2'')]"]
  by (simp add: posix_path_def inj_on_def add_mset_commute)

section \<open>Signatures\<close>

text \<open>What the code relies on: the keys load, base64 decodes what it encoded, Ed25519 is correct.\<close>

definition sound_key :: "crypto \<Rightarrow> string \<Rightarrow> string \<Rightarrow> string \<Rightarrow> bool" where
  "sound_key cr pem key public \<longleftrightarrow> cr_load_private cr pem = Inr (Some key)
     \<and> cr_load_public cr (cr_public_pem cr key) = Inr (Some public)
     \<and> (\<forall>x. cr_b64decode cr (cr_b64encode cr x) = Inr x)
     \<and> (\<forall>m. cr_verify cr public (cr_sign cr key m) m)"

text \<open>
  Signatures. The payload a key signs for an artifact verifies for that artifact, alone and with
  the key's fingerprint pinned; it is refused with any other fingerprint pinned, and for every
  artifact with another digest.
\<close>

theorem verify_of_sign:
  assumes "sound_key cr pem key public" "sign_artifact cr artifact pem = Inr payload"
  shows "verify_artifact cr artifact payload None = Inr True
    \<and> (\<forall>f. verify_artifact cr artifact payload (Some f) =
          Inr (f = [] \<or> f = key_fingerprint cr (cr_public_pem cr key)))
    \<and> (\<forall>other trusted. cr_sha cr other \<noteq> cr_sha cr artifact \<longrightarrow> verify_artifact cr other payload trusted = Inr False)"
  using assms
  by (auto simp: sound_key_def sign_artifact_def verify_artifact_def decode_field_def check_signature_def Let_def)

definition toy_crypto :: crypto where
  "toy_crypto = \<lparr>cr_sha = \<lambda>s. nat_text (length s), cr_fromhex = id,
     cr_load_private = \<lambda>s. if s = ''pem'' then Inr (Some ''k'') else Inl (ValueError ''bad''),
     cr_public_pem = \<lambda>k. ''pub:'' @ k, cr_sign = \<lambda>k m. k @ m,
     cr_load_public = \<lambda>s. if s = ''pub:k'' then Inr (Some ''k'') else Inl (ValueError ''bad''),
     cr_verify = \<lambda>p s m. s = p @ m, cr_b64encode = id, cr_b64decode = Inr\<rparr>"

definition toy_payload :: json where
  "toy_payload = (case sign_artifact toy_crypto ''abc'' ''pem'' of Inr p \<Rightarrow> p | Inl _ \<Rightarrow> JNull)"

lemma toy_sound: "sound_key toy_crypto ''pem'' ''k'' ''k''" "sign_artifact toy_crypto ''abc'' ''pem'' = Inr toy_payload"
  by (simp_all add: sound_key_def toy_crypto_def toy_payload_def sign_artifact_def Let_def)

theorem verify_of_sign_witness:
  "verify_artifact toy_crypto ''abc'' toy_payload None = Inr True
   \<and> verify_artifact toy_crypto ''abcd'' toy_payload None = Inr False"
proof -
  have "cr_sha toy_crypto ''abcd'' \<noteq> cr_sha toy_crypto ''abc''"
    by code_simp
  then show ?thesis using verify_of_sign [OF toy_sound] by blast
qed

text \<open>
  A forged signature is not refused but raises. When the digest and the key of a payload are right
  and the signature is not the key's, \<open>verify\<close> does not return false: the exception of the library
  leaves it, because it is neither of the two the code catches.
\<close>

theorem forged_signature_raises:
  assumes "jget ''digest'' payload = Some (JStr (''sha256:'' @ cr_sha cr artifact))"
    and "decode_field cr ''public_key'' payload = Inr public_bytes" "cr_load_public cr public_bytes = Inr (Some public)"
    and "decode_field cr ''signature'' payload = Inr signature"
    and "\<not> cr_verify cr public signature (cr_fromhex cr (cr_sha cr artifact))"
  shows "verify_artifact cr artifact payload None = Inl InvalidSignature
    \<and> cli_verify cr artifact payload = Inl InvalidSignature"
  using assms by (simp add: verify_artifact_def check_signature_def cli_verify_def Let_def)

definition forged_payload :: json where
  "forged_payload = JObj [(''digest'', JStr ''sha256:3''), (''public_key'', JStr ''pub:k''), (''signature'', JStr ''forged'')]"

theorem forged_signature_raises_witness:
  "cli_verify toy_crypto ''abc'' forged_payload = Inl InvalidSignature"
proof -
  have "cr_sha toy_crypto ''abc'' = ''3''" by code_simp
  then show ?thesis
    using forged_signature_raises [of forged_payload toy_crypto "''abc''" "''pub:k''" "''k''" "''forged''"]
    by (simp add: forged_payload_def decode_field_def toy_crypto_def)
qed

section \<open>The registry\<close>

definition addressed :: "(string \<Rightarrow> string) \<Rightarrow> (string \<times> string) list \<Rightarrow> bool" where
  "addressed sha bs \<longleftrightarrow> list_all (\<lambda>(n, artifact). n = blob_name (sha artifact)) bs"

definition stored :: "(string \<times> string) list \<Rightarrow> release_row \<Rightarrow> bool" where
  "stored bs r \<longleftrightarrow> list_ex (\<lambda>(n, artifact). n = blob_name (rl_digest r)) bs"

definition forge_inv :: "(string \<Rightarrow> string) \<Rightarrow> forge \<Rightarrow> bool" where
  "forge_inv sha s \<longleftrightarrow> distinct (map release_key (fo_releases s)) \<and> distinct (map rl_digest (fo_releases s))
     \<and> addressed sha (fo_blobs s) \<and> list_all (stored (fo_blobs s)) (fo_releases s)"

lemma stored_append: "stored bs r \<Longrightarrow> stored (bs @ new) r"
  by (simp add: stored_def)

inductive forge_step :: "(string \<Rightarrow> string) \<Rightarrow> forge \<Rightarrow> forge \<Rightarrow> bool" for sha where
  step_publish: "forge_step sha s (snd (publish_release sha clk m artifact signature s))"

inductive_cases forge_stepE: "forge_step sha s s'"

text \<open>The store after a publication: a blob may be added, and a row unless it is refused.\<close>

lemma publish_effect:
  assumes "publish_release sha clk m artifact signature s = (r, s')"
  shows "\<exists>new. fo_blobs s' = fo_blobs s @ new \<and> addressed sha new
    \<and> list_ex (\<lambda>(n, a). n = blob_name (sha artifact)) (fo_blobs s')
    \<and> ((\<exists>e. r = Inl e \<and> fo_releases s' = fo_releases s)
     \<or> (\<exists>row. r = Inr row \<and> fo_releases s' = fo_releases s @ [row] \<and> rl_digest row = sha artifact
        \<and> release_key row \<notin> set (map release_key (fo_releases s)) \<and> rl_digest row \<notin> set (map rl_digest (fo_releases s))))"
proof -
  have ex: "list_ex (\<lambda>(n, a). n = d) bs \<longleftrightarrow> d \<in> set (map fst bs)" for d and bs :: "(string \<times> string) list"
    by (induction bs) auto
  show ?thesis
    using assms unfolding publish_release_def Let_def ex
    by (auto simp: release_key_def addressed_def simp del: set_map split: if_splits)
qed

interpretation registry: invariant_system "\<lambda>s. s = new_registry" "forge_step sha" "forge_inv sha" for sha
proof
  fix s :: forge
  assume "s = new_registry"
  then show "forge_inv sha s" by (simp add: new_registry_def forge_inv_def addressed_def)
next
  fix s s'
  assume inv: "forge_inv sha s" and "forge_step sha s s'"
  then obtain clk m artifact signature where s': "s' = snd (publish_release sha clk m artifact signature s)"
    by (auto elim: forge_stepE)
  then obtain r where "publish_release sha clk m artifact signature s = (r, s')"
    by (metis prod.collapse)
  from publish_effect [OF this] obtain new where new: "fo_blobs s' = fo_blobs s @ new" "addressed sha new"
    "list_ex (\<lambda>(n, a). n = blob_name (sha artifact)) (fo_blobs s')"
    "fo_releases s' = fo_releases s \<or> (\<exists>row. fo_releases s' = fo_releases s @ [row] \<and> rl_digest row = sha artifact
        \<and> release_key row \<notin> set (map release_key (fo_releases s)) \<and> rl_digest row \<notin> set (map rl_digest (fo_releases s)))"
    by blast
  have "addressed sha (fo_blobs s')"
    using inv new(1,2) by (simp add: forge_inv_def addressed_def)
  moreover have "list_all (stored (fo_blobs s')) (fo_releases s)"
    using inv new(1) stored_append by (auto simp: forge_inv_def list_all_iff)
  ultimately show "forge_inv sha s'"
    using inv new(3,4) by (auto simp: forge_inv_def stored_def)
qed

lemma publish_grows:
  "forge_step sha s s' \<Longrightarrow> (\<exists>bs. fo_blobs s' = fo_blobs s @ bs) \<and> (\<exists>rs. fo_releases s' = fo_releases s @ rs)"
proof (erule forge_stepE)
  fix clk m artifact signature
  assume "s' = snd (publish_release sha clk m artifact signature s)"
  then obtain r where "publish_release sha clk m artifact signature s = (r, s')"
    by (metis prod.collapse)
  from publish_effect [OF this] show ?thesis by auto
qed

lemma publishes_grow:
  "(forge_step sha)\<^sup>*\<^sup>* s s' \<Longrightarrow> (\<exists>bs. fo_blobs s' = fo_blobs s @ bs) \<and> (\<exists>rs. fo_releases s' = fo_releases s @ rs)"
  by (induction rule: rtranclp_induct) (use publish_grows in force)+

text \<open>
  C19. Immutable, content-addressed releases. Whatever has been published, no two releases share name
  and version, or digest; the first blob stored under a release's digest hashes to it; and
  whatever is published later, the release is what its name and version look up and that blob
  is what its digest names.
\<close>

theorem releases_immutable:
  assumes "registry.reach sha s" "(forge_step sha)\<^sup>*\<^sup>* s s'" "r \<in> set (fo_releases s)"
  shows "find (\<lambda>x. rl_name x = rl_name r \<and> rl_version x = rl_version r) (fo_releases s') = Some r
    \<and> inj_on release_key (set (fo_releases s')) \<and> inj_on rl_digest (set (fo_releases s'))
    \<and> (\<exists>artifact. map_of (fo_blobs s) (blob_name (rl_digest r)) = Some artifact
         \<and> map_of (fo_blobs s') (blob_name (rl_digest r)) = Some artifact \<and> sha artifact = rl_digest r)"
proof (intro conjI)
  have inv: "forge_inv sha s" by (rule registry.reach_inv [OF assms(1)])
  have inv': "forge_inv sha s'" by (rule registry.inv_steps [OF assms(2) inv])
  obtain bs rs where grow: "fo_blobs s' = fo_blobs s @ bs" "fo_releases s' = fo_releases s @ rs"
    using publishes_grow [OF assms(2)] by blast
  show inj: "inj_on release_key (set (fo_releases s'))" "inj_on rl_digest (set (fo_releases s'))"
    using inv' by (simp_all add: forge_inv_def distinct_map)
  have r: "r \<in> set (fo_releases s')" using assms(3) grow by simp
  show "find (\<lambda>x. rl_name x = rl_name r \<and> rl_version x = rl_version r) (fo_releases s') = Some r"
  proof (cases "find (\<lambda>x. rl_name x = rl_name r \<and> rl_version x = rl_version r) (fo_releases s')")
    case None
    with r show ?thesis by (auto simp: find_None_iff)
  next
    case (Some x)
    then have "x \<in> set (fo_releases s')" "release_key x = release_key r"
      using find_SomeD [OF Some] by (simp_all add: release_key_def)
    with inj(1) r Some show ?thesis by (simp add: inj_on_eq_iff)
  qed
  have "stored (fo_blobs s) r"
    using inv assms(3) by (simp add: forge_inv_def list_all_iff)
  then have "map_of (fo_blobs s) (blob_name (rl_digest r)) \<noteq> None"
    by (auto simp: stored_def list_ex_iff map_of_eq_None_iff intro: rev_image_eqI)
  then obtain artifact where a: "map_of (fo_blobs s) (blob_name (rl_digest r)) = Some artifact"
    by blast
  then have "blob_name (rl_digest r) = blob_name (sha artifact)"
    using inv map_of_SomeD [OF a] by (auto simp: forge_inv_def addressed_def list_all_iff)
  then have "sha artifact = rl_digest r" by (simp add: blob_name_def)
  with a grow(1) show "\<exists>artifact. map_of (fo_blobs s) (blob_name (rl_digest r)) = Some artifact
         \<and> map_of (fo_blobs s') (blob_name (rl_digest r)) = Some artifact \<and> sha artifact = rl_digest r"
    by auto
qed

definition one_release :: forge where
  "one_release = snd (publish_release id 1 (small_manifest ''ab'' ''1.0.0'') ''x'' None new_registry)"

theorem releases_immutable_witness:
  "map_of (fo_blobs (snd (publish_release id 2 (small_manifest ''ab'' ''1.0.0'') ''y'' None one_release))) (blob_name ''x'') = Some ''x''"
proof -
  have reach: "registry.reach id one_release"
    unfolding one_release_def by (rule registry.reach_step [OF registry.reach_init step_publish]) simp
  have steps: "(forge_step id)\<^sup>*\<^sup>* one_release (snd (publish_release id 2 (small_manifest ''ab'' ''1.0.0'') ''y'' None one_release))"
    by (rule r_into_rtranclp, rule step_publish)
  have row: "hd (fo_releases one_release) \<in> set (fo_releases one_release)" "rl_digest (hd (fo_releases one_release)) = ''x''"
    by (simp_all add: one_release_def publish_release_def new_registry_def Let_def)
  show ?thesis using releases_immutable [OF reach steps row(1)] row(2) by auto
qed

section \<open>Evaluation\<close>

lemma run_cases_length: "run_cases run cs = Inr fs \<Longrightarrow> length fs \<le> length cs"
proof (induction cs arbitrary: fs)
  case (Cons c cs)
  then show ?case by (fastforce split: sum.splits option.splits)
qed simp

lemma run_cases_all_pass:
  "run_cases run cs = Inr [] \<longleftrightarrow> list_all (\<lambda>c. run_case run c = Inr None) cs"
  by (induction cs) (auto split: sum.splits option.splits)

text \<open>
  Evaluation. An evaluation counts every case once, as passed or as a failure, and its score is
  between 0 and 1; the score is 1 exactly when there is a case and every case passes, which
  means that the skill returned every expected value; an empty case file scores 0. The gate of
  a proposal never asks for less than the baseline or than 0.8.
\<close>

theorem evaluation_score:
  assumes "evaluate_skill load (Some doc) m = Inr ev" "mf_entrypoint m = Some entrypoint"
    "load entrypoint = Inr (Some run)" "iterate (jget_or (JArr []) ''cases'' (or_dict doc)) = Inr cs"
  shows "ev_total ev = length cs \<and> ev_passed ev + length (ev_failures ev) = ev_total ev
    \<and> 0 \<le> ev_score ev \<and> ev_score ev \<le> 1
    \<and> (ev_score ev = 1 \<longleftrightarrow> cs \<noteq> [] \<and> list_all (\<lambda>c. run_case run c = Inr None) cs)
    \<and> jget ''minimum_score'' (jget_or JNull ''acceptance_gate'' (evolution_proposal ev feedback)) =
        Some (JNum (max (ev_score ev) (8 / 10)))"
proof -
  obtain fs where fs: "run_cases run cs = Inr fs"
    and ev: "ev = \<lparr>ev_suite = ''tests/cases.yaml'', ev_passed = length cs - length fs, ev_total = length cs,
       ev_score = of_nat (length cs - length fs) / of_nat (max 1 (length cs)), ev_failures = fs\<rparr>"
    using assms by (auto simp: evaluate_skill_def Let_def split: sum.splits)
  have le: "length fs \<le> length cs" by (rule run_cases_length [OF fs])
  have "(of_nat (length cs - length fs) / of_nat (max 1 (length cs)) :: rat) = 1 \<longleftrightarrow> cs \<noteq> [] \<and> fs = []"
    using le by (cases cs) (auto simp: of_nat_diff field_simps)
  moreover have "fs = [] \<longleftrightarrow> list_all (\<lambda>c. run_case run c = Inr None) cs"
    using run_cases_all_pass [of run cs] fs by simp
  moreover have "(of_nat (length cs - length fs) / of_nat (max 1 (length cs)) :: rat) \<le> 1"
    by (simp add: divide_le_eq) (simp add: max_def)
  ultimately show ?thesis
    using le unfolding ev by (simp add: evolution_proposal_def jget_or_def)
qed

definition echo_run :: "json \<Rightarrow> py_error + json" where
  "echo_run input = Inr (JObj [(''ok'', JBool True), (''input'', input)])"

definition echo_cases :: json where
  "echo_cases = JObj [(''cases'', JArr [JObj [(''name'', JStr ''a''), (''expect'', JObj [(''ok'', JInt 1)])],
     JObj [(''name'', JStr ''b''), (''expect'', JObj [(''ok'', JBool False)])]])]"

definition echo_evaluation :: forge_evaluation where
  "echo_evaluation = (case evaluate_skill (\<lambda>_. Inr (Some echo_run)) (Some echo_cases)
      (small_manifest ''ab'' ''1.0.0''\<lparr>mf_entrypoint := Some ''main.py''\<rparr>) of Inr ev \<Rightarrow> ev
    | Inl _ \<Rightarrow> \<lparr>ev_suite = [], ev_passed = 0, ev_total = 0, ev_score = 0, ev_failures = []\<rparr>)"

theorem evaluation_score_witness:
  "ev_total echo_evaluation = 2 \<and> ev_score echo_evaluation \<le> 1 \<and> ev_score echo_evaluation \<noteq> 1"
proof -
  let ?cs = "[JObj [(''name'', JStr ''a''), (''expect'', JObj [(''ok'', JInt 1)])],
     JObj [(''name'', JStr ''b''), (''expect'', JObj [(''ok'', JBool False)])]]"
  have it: "iterate (jget_or (JArr []) ''cases'' (or_dict echo_cases)) = Inr ?cs"
    by (simp add: echo_cases_def or_dict_def jget_or_def)
  have run: "run_case echo_run (?cs ! 0) = Inr None" "\<exists>f. run_case echo_run (?cs ! 1) = Inr (Some f)"
    by (simp_all add: run_case_def try_case_def echo_run_def get_attr_def or_dict_def jget_or_def number_of_def)
  have ev: "evaluate_skill (\<lambda>_. Inr (Some echo_run)) (Some echo_cases)
      (small_manifest ''ab'' ''1.0.0''\<lparr>mf_entrypoint := Some ''main.py''\<rparr>) = Inr echo_evaluation"
    using it run by (auto simp: echo_evaluation_def evaluate_skill_def get_attr_def or_dict_def echo_cases_def Let_def)
  show ?thesis
    using evaluation_score [OF ev _ _ it] run by auto
qed

end
