(* ===== verification/ControlStore.thy ===== *)
theory ControlStore
  imports PyText
begin

text \<open>
  The control store (\<^verbatim>\<open>apps/control-plane/src/evoagent_os/store.py\<close>): workspaces, agents, the links
  from runs to workspaces, the control ledger, evaluations and idempotency keys, each table a list
  of rows in insertion order. The JSON text columns hold the decoded values. The migration that
  adds columns to an older file is not modelled: a row has every column of the schema.
  The lemmas show that the search for a free slug ends and that the declared constraints hold in
  every state the operations reach.
\<close>

section \<open>Slugs\<close>

definition slug_char :: "char \<Rightarrow> bool" where
  "slug_char c \<longleftrightarrow> digit c \<or> (97 \<le> ord_of c \<and> ord_of c \<le> 122)"

lemma slug_char_code [code]: "slug_char (Char b0 b1 b2 b3 b4 b5 b6 b7) \<longleftrightarrow>
    digit (Char b0 b1 b2 b3 b4 b5 b6 b7) \<or> (b6 \<and> b5 \<and> \<not> b7 \<and> letter_bits b0 b1 b2 b3 b4)"
  by (cases b0; cases b1; cases b2; cases b3; cases b4; cases b5; cases b6; cases b7)
    (simp_all add: slug_char_def ord_of_def letter_bits_def char_of_def bit_simps)

text \<open>\<open>re.sub("[^a-z0-9]+", "-", s)\<close>; the flag says that a dash for the current gap is written.\<close>

fun dash_gaps :: "bool \<Rightarrow> string \<Rightarrow> string" where
  "dash_gaps gap [] = []"
| "dash_gaps gap (c # cs) =
     (if slug_char c then c # dash_gaps False cs
      else if gap then dash_gaps True cs else CHR ''-'' # dash_gaps True cs)"

definition strip_dashes :: "string \<Rightarrow> string" where
  "strip_dashes s = rev (dropWhile (\<lambda>c. c = CHR ''-'') (rev (dropWhile (\<lambda>c. c = CHR ''-'') s)))"

definition slugify :: "string \<Rightarrow> string \<Rightarrow> string" where
  "slugify hex v =
     (let slug = take 64 (strip_dashes (dash_gaps False (py_lower v))) in
      if slug = [] then ''workspace-'' @ take 8 hex else slug)"

text \<open>
  The loop of \<open>create_workspace\<close>: while the slug is taken, the next suffix is put after its first
  58 characters. It ends: a taken slug that carries the suffix \<open>n\<close> is none of those that carry a
  larger one.
\<close>

definition suffixed :: "nat \<Rightarrow> string \<Rightarrow> bool" where
  "suffixed n s \<longleftrightarrow> (\<exists>p. s = p @ ''-'' @ nat_text n)"

definition slugs_from :: "string list \<Rightarrow> nat \<Rightarrow> string set" where
  "slugs_from taken n = {s \<in> set taken. \<exists>m. n \<le> m \<and> suffixed m s}"

lemma digits_of_digit: "c \<in> set (digits_of k n) \<Longrightarrow> digit c"
proof (induction k arbitrary: n)
  case (Suc k)
  have "digit (char_of (48 + n mod 10))"
    by (simp add: digit_def ord_of_def)
  with Suc show ?case by auto
qed simp

lemma nat_text_digit: "c \<in> set (nat_text n) \<Longrightarrow> digit c"
  by (simp add: nat_text_def digits_of_digit)

definition digits_value :: "string \<Rightarrow> nat" where
  "digits_value s = foldl (\<lambda>a c. a * 10 + (ord_of c - 48)) 0 s"

lemma digits_value_digits_of: "n < 10 ^ k \<Longrightarrow> digits_value (digits_of k n) = n"
proof (induction k arbitrary: n)
  case (Suc k)
  have "n div 10 < 10 ^ k"
    using Suc.prems by (simp add: less_mult_imp_div_less mult.commute)
  then have "digits_value (digits_of k (n div 10)) = n div 10"
    by (rule Suc.IH)
  moreover have "ord_of (char_of (48 + n mod 10)) - 48 = n mod 10"
    by (simp add: ord_of_def)
  ultimately show ?case
    by (simp add: digits_value_def)
qed (simp add: digits_value_def)

lemma digit_count_bound: "n < 10 ^ digit_count n"
proof (induction n rule: digit_count.induct)
  case (1 n)
  show ?case
  proof (cases "n < 10")
    case False
    with 1 have "n div 10 < 10 ^ digit_count (n div 10)" by simp
    then have "n < 10 * 10 ^ digit_count (n div 10)" by linarith
    with False show ?thesis by simp
  qed simp
qed

lemma digits_value_nat_text: "digits_value (nat_text n) = n"
  unfolding nat_text_def by (rule digits_value_digits_of) (rule digit_count_bound)

lemma nat_text_inj: "nat_text m = nat_text n \<Longrightarrow> m = n"
  by (metis digits_value_nat_text)

lemma dash_no_digit: "\<not> digit CHR ''-''"
  by (simp add: digit_code)

text \<open>What stands behind the last dash is the suffix.\<close>

lemma suffixed_tail: "suffixed n s \<Longrightarrow> rev (takeWhile digit (rev s)) = nat_text n"
proof -
  assume "suffixed n s"
  then obtain p where s: "s = p @ ''-'' @ nat_text n" by (auto simp: suffixed_def)
  have "takeWhile digit (rev (nat_text n) @ CHR ''-'' # rev p) = rev (nat_text n)"
    using nat_text_digit dash_no_digit by (subst takeWhile_append2) auto
  then show ?thesis by (simp add: s)
qed

lemma suffixed_unique: "suffixed m s \<Longrightarrow> suffixed n s \<Longrightarrow> m = n"
  using suffixed_tail nat_text_inj by metis

lemma suffixed_next: "suffixed n (take 58 slug @ ''-'' @ nat_text n)"
  by (auto simp: suffixed_def)

lemma slugs_from_Suc: "slugs_from taken (Suc n) \<subseteq> slugs_from taken n"
proof
  fix s assume "s \<in> slugs_from taken (Suc n)"
  then obtain m where "s \<in> set taken" "Suc n \<le> m" "suffixed m s" by (auto simp: slugs_from_def)
  then have "n \<le> m \<and> suffixed m s" by simp
  with \<open>s \<in> set taken\<close> show "s \<in> slugs_from taken n" by (auto simp: slugs_from_def)
qed

lemma slugs_from_drop: "s \<in> set taken \<Longrightarrow> suffixed n s \<Longrightarrow>
    card (slugs_from taken (Suc n)) < card (slugs_from taken n)"
proof (rule psubset_card_mono)
  assume s: "s \<in> set taken" "suffixed n s"
  then have "s \<in> slugs_from taken n" by (auto simp: slugs_from_def)
  moreover have "s \<notin> slugs_from taken (Suc n)"
    using s(2) suffixed_unique by (fastforce simp: slugs_from_def)
  ultimately show "slugs_from taken (Suc n) \<subset> slugs_from taken n"
    using slugs_from_Suc by blast
qed (simp add: slugs_from_def)

function free_slug :: "string list \<Rightarrow> nat \<Rightarrow> string \<Rightarrow> string" where
  "free_slug taken suffix slug =
     (if slug \<in> set taken
      then free_slug taken (Suc suffix) (take 58 slug @ ''-'' @ nat_text (Suc suffix)) else slug)"
  by pat_completeness auto

termination free_slug
proof (relation "measure (\<lambda>(taken, n, slug). card (slugs_from taken n) + (if suffixed n slug then 0 else 1))")
  fix taken :: "string list" and suffix :: nat and slug :: string
  assume taken: "slug \<in> set taken"
  let ?m = "\<lambda>n. card (slugs_from taken n)"
  have next_suffix: "suffixed (Suc suffix) (take 58 slug @ ''-'' @ nat_text (Suc suffix))"
    by (rule suffixed_next)
  have "?m (Suc suffix) < ?m suffix + (if suffixed suffix slug then 0 else 1)"
  proof (cases "suffixed suffix slug")
    case True
    with slugs_from_drop [OF taken] show ?thesis by simp
  next
    case False
    have "?m (Suc suffix) \<le> ?m suffix"
      by (rule card_mono [OF _ slugs_from_Suc]) (simp add: slugs_from_def)
    with False show ?thesis by simp
  qed
  then show "((taken, Suc suffix, take 58 slug @ ''-'' @ nat_text (Suc suffix)), taken, suffix, slug)
      \<in> measure (\<lambda>(taken, n, slug). card (slugs_from taken n) + (if suffixed n slug then 0 else 1))"
    using next_suffix by simp
qed simp

declare free_slug.simps [simp del]

lemma free_slug_free: "free_slug taken suffix slug \<notin> set taken"
  by (induction taken suffix slug rule: free_slug.induct) (subst free_slug.simps, simp)

section \<open>Tables\<close>

record workspace_row =
  wo_id :: string
  wo_tenant :: string
  wo_name :: string
  wo_slug :: string
  wo_description :: string
  wo_created_at :: int

record agent_row =
  an_id :: string
  an_workspace :: string
  an_name :: string
  an_role :: string
  an_description :: string
  an_model :: string
  an_capabilities :: "string list"
  an_tools :: "string list"
  an_skills :: "string list"
  an_prompt :: string
  an_metadata :: json
  an_status :: string
  an_created_at :: int
  an_updated_at :: int

record link_row =
  ln_run_id :: string
  ln_workspace :: string
  ln_agent :: string
  ln_objective :: string
  ln_created_at :: int

record control_event =
  ce_seq :: nat
  ce_id :: string
  ce_kind :: string
  ce_workspace :: "string option"
  ce_run :: "string option"
  ce_workflow :: "string option"
  ce_payload :: json
  ce_created_at :: int

record evaluation_row =
  el_id :: string
  el_name :: string
  el_status :: string
  el_score :: rat
  el_baseline :: string
  el_candidate :: string
  el_report :: json
  el_created_at :: int

record key_row =
  ky_scope :: string
  ky_key :: string
  ky_response :: json
  ky_created_at :: int

record control =
  cs_workspaces :: "workspace_row list"
  cs_agents :: "agent_row list"
  cs_links :: "link_row list"
  cs_events :: "control_event list"
  cs_evaluations :: "evaluation_row list"
  cs_keys :: "key_row list"

definition empty_control :: control where
  "empty_control = \<lparr>cs_workspaces = [], cs_agents = [], cs_links = [], cs_events = [], cs_evaluations = [],
     cs_keys = []\<rparr>"

section \<open>Seeding\<close>

definition workspace_key :: "workspace_row \<Rightarrow> string \<times> string" where
  "workspace_key w = (wo_tenant w, wo_slug w)"

text \<open>\<open>INSERT OR IGNORE\<close>: a row that violates a uniqueness constraint is left out.\<close>

definition seed_workspace :: "clock \<Rightarrow> workspace_row list \<Rightarrow> workspace_row list" where
  "seed_workspace clk rows =
     (let row = \<lparr>wo_id = ''ws_default'', wo_tenant = ''tenant_local'', wo_name = ''Agent Operations'',
            wo_slug = ''agent-operations'', wo_description = ''Default local-first governed agent workspace'',
            wo_created_at = iso clk\<rparr> in
      if wo_id row \<in> set (map wo_id rows) \<or> workspace_key row \<in> set (map workspace_key rows) then rows
      else rows @ [row])"

definition seed_agents :: "(string \<times> string \<times> string \<times> string \<times> string list) list" where
  "seed_agents =
     [(''agent_coordinator'', ''Coordinator'', ''planner'', ''Plans and governs multi-agent work'',
        [''planning'', ''delegation'', ''approval'']),
      (''agent_researcher'', ''Researcher'', ''researcher'', ''Collects evidence with explicit provenance'',
        [''research'', ''retrieval'', ''citations'']),
      (''agent_analyst'', ''Analyst'', ''analyst'', ''Synthesizes evidence under quality and cost gates'',
        [''analysis'', ''evaluation'']),
      (''agent_writer'', ''Publisher'', ''writer'', ''Produces governed deliverables and artifacts'',
        [''writing'', ''artifacts''])]"

fun seed_agent_rows :: "clock \<Rightarrow> (string \<times> string \<times> string \<times> string \<times> string list) list \<Rightarrow> agent_row list
    \<Rightarrow> agent_row list" where
  "seed_agent_rows clk [] rows = rows"
| "seed_agent_rows clk ((agent_id, name, role, description, capabilities) # seeds) rows =
     seed_agent_rows clk seeds
       (if agent_id \<in> set (map an_id rows) then rows
        else rows @ [\<lparr>an_id = agent_id, an_workspace = ''ws_default'', an_name = name, an_role = role,
               an_description = description, an_model = ''deterministic/offline'',
               an_capabilities = capabilities, an_tools = [], an_skills = [], an_prompt = [],
               an_metadata = JObj [], an_status = ''ready'', an_created_at = iso clk, an_updated_at = iso clk\<rparr>])"

definition seed_evaluation :: "clock \<Rightarrow> evaluation_row list \<Rightarrow> evaluation_row list" where
  "seed_evaluation clk rows =
     (if ''eval_trace_contract'' \<in> set (map el_id rows) then rows
      else rows @ [\<lparr>el_id = ''eval_trace_contract'', el_name = ''Trace Contract regression gate'',
             el_status = ''passed'', el_score = 1, el_baseline = ''offline-v1'', el_candidate = ''offline-v1'',
             el_report = JObj [(''violations'', JArr []), (''protocol_score'', JInt 100),
               (''content_match'', JBool True)],
             el_created_at = iso clk\<rparr>])"

definition open_control :: "clock \<Rightarrow> control \<Rightarrow> control" where
  "open_control clk s =
     s\<lparr>cs_workspaces := seed_workspace clk (cs_workspaces s),
       cs_agents := seed_agent_rows clk seed_agents (cs_agents s),
       cs_evaluations := seed_evaluation clk (cs_evaluations s)\<rparr>"

section \<open>Operations\<close>

text \<open>An operation that draws identifiers takes their digits by prefix.\<close>

type_synonym ids = "string \<Rightarrow> string"

definition control_event_op :: "ids \<Rightarrow> clock \<Rightarrow> string \<Rightarrow> json \<Rightarrow> string option \<Rightarrow> string option \<Rightarrow> string option
    \<Rightarrow> (nat, control) op" where
  "control_event_op ids clk kind payload workspace run workflow s =
     (let row = \<lparr>ce_seq = next_rowid (map ce_seq (cs_events s)), ce_id = identifier_of ''evt'' (ids ''evt''),
            ce_kind = kind, ce_workspace = workspace, ce_run = run, ce_workflow = workflow,
            ce_payload = payload, ce_created_at = iso clk\<rparr> in
      case insert_row ce_id row (cs_events s) of
        Inl e \<Rightarrow> (Inl e, s)
      | Inr rows \<Rightarrow> (Inr (ce_seq row), s\<lparr>cs_events := rows\<rparr>))"

definition control_events :: "int \<Rightarrow> control \<Rightarrow> control_event list" where
  "control_events limit s =
     sql_limit (min (max limit 1) 500) (sort_key (\<lambda>e. - int (ce_seq e)) (cs_events s))"

definition list_workspaces :: "control \<Rightarrow> workspace_row list" where
  "list_workspaces s = sort_key (\<lambda>w. (wo_created_at w, wo_name w)) (cs_workspaces s)"

definition tenant_slugs :: "string \<Rightarrow> control \<Rightarrow> string list" where
  "tenant_slugs tenant s = map wo_slug (filter (\<lambda>w. wo_tenant w = tenant) (cs_workspaces s))"

definition insert_workspace :: "workspace_row \<Rightarrow> (unit, control) op" where
  "insert_workspace row s =
     (if wo_id row \<in> set (map wo_id (cs_workspaces s)) \<or> workspace_key row \<in> set (map workspace_key (cs_workspaces s))
      then (Inl IntegrityError, s)
      else (Inr (), s\<lparr>cs_workspaces := cs_workspaces s @ [row]\<rparr>))"

definition create_workspace :: "ids \<Rightarrow> clock \<Rightarrow> string \<Rightarrow> string \<Rightarrow> string \<Rightarrow> (workspace_row, control) op" where
  "create_workspace ids clk name description tenant =
     op_bind (op_gets (\<lambda>s. \<lparr>wo_id = identifier_of ''ws'' (ids ''ws''), wo_tenant = tenant, wo_name = name,
         wo_slug = free_slug (tenant_slugs tenant s) 1 (slugify (ids ''workspace'') name),
         wo_description = description, wo_created_at = iso clk\<rparr>)) (\<lambda>row.
     op_bind (insert_workspace row) (\<lambda>_.
     op_bind (control_event_op ids clk ''workspace.created'' (JObj [(''name'', JStr name)]) (Some (wo_id row)) None None) (\<lambda>_.
     op_bind (op_gets (\<lambda>s. find (\<lambda>w. wo_id w = wo_id row) (cs_workspaces s))) (\<lambda>found.
     case found of None \<Rightarrow> op_raise IndexError | Some w \<Rightarrow> op_ret w))))"

text \<open>An empty workspace id is false, so it selects every agent.\<close>

definition list_agents :: "string option \<Rightarrow> control \<Rightarrow> agent_row list" where
  "list_agents workspace s =
     sort_key (\<lambda>a. (an_created_at a, an_name a))
       (filter (\<lambda>a. case workspace of None \<Rightarrow> True | Some w \<Rightarrow> w = [] \<or> an_workspace a = w) (cs_agents s))"

definition insert_agent :: "agent_row \<Rightarrow> (unit, control) op" where
  "insert_agent row s =
     (case insert_row an_id row (cs_agents s) of
        Inl e \<Rightarrow> (Inl e, s) | Inr rows \<Rightarrow> (Inr (), s\<lparr>cs_agents := rows\<rparr>))"

text \<open>\<open>create_agent\<close>: the row as the caller fills it, its id, state and times set here.\<close>

definition create_agent :: "ids \<Rightarrow> clock \<Rightarrow> agent_row \<Rightarrow> (agent_row, control) op" where
  "create_agent ids clk payload =
     op_bind (op_gets (\<lambda>s. an_workspace payload \<in> set (map wo_id (cs_workspaces s)))) (\<lambda>known.
     if \<not> known then op_raise (ValueError ''Workspace not found'')
     else
       let row = payload\<lparr>an_id := identifier_of ''agent'' (ids ''agent''), an_status := ''ready'',
             an_created_at := iso clk, an_updated_at := iso clk\<rparr> in
       op_bind (insert_agent row) (\<lambda>_.
       op_bind (control_event_op ids clk ''agent.created''
          (JObj [(''agent_id'', JStr (an_id row)), (''name'', JStr (an_name row)), (''role'', JStr (an_role row))])
          (Some (an_workspace row)) None None) (\<lambda>_.
       op_bind (op_gets (\<lambda>s. find (\<lambda>a. an_id a = an_id row) (list_agents (Some (an_workspace row)) s))) (\<lambda>found.
       case found of None \<Rightarrow> op_raise (RuntimeError ''StopIteration'') | Some a \<Rightarrow> op_ret a))))"

text \<open>\<open>INSERT OR REPLACE\<close> takes the old row out and adds the new one.\<close>

definition link_run :: "clock \<Rightarrow> string \<Rightarrow> string \<Rightarrow> string \<Rightarrow> string \<Rightarrow> (unit, control) op" where
  "link_run clk run_id workspace agent objective = op_upd (\<lambda>s.
     s\<lparr>cs_links := filter (\<lambda>l. ln_run_id l \<noteq> run_id) (cs_links s) @
        [\<lparr>ln_run_id = run_id, ln_workspace = workspace, ln_agent = agent, ln_objective = objective,
          ln_created_at = iso clk\<rparr>]\<rparr>)"

definition run_link :: "string \<Rightarrow> control \<Rightarrow> link_row option" where
  "run_link run_id s = find (\<lambda>l. ln_run_id l = run_id) (rev (cs_links s))"

definition list_evaluations :: "control \<Rightarrow> evaluation_row list" where
  "list_evaluations s = sort_key (\<lambda>e. - el_created_at e) (cs_evaluations s)"

text \<open>An absent or empty key is never found and never stored.\<close>

definition no_key :: "string option \<Rightarrow> bool" where
  "no_key key \<longleftrightarrow> key = None \<or> key = Some []"

definition idempotent_get :: "string \<Rightarrow> string option \<Rightarrow> control \<Rightarrow> json option" where
  "idempotent_get scope key s =
     (if no_key key then None
      else map_option ky_response (find (\<lambda>k. ky_scope k = scope \<and> Some (ky_key k) = key) (cs_keys s)))"

definition idempotent_put :: "clock \<Rightarrow> string \<Rightarrow> string option \<Rightarrow> json \<Rightarrow> (unit, control) op" where
  "idempotent_put clk scope key response = op_upd (\<lambda>s.
     case key of
       None \<Rightarrow> s
     | Some k \<Rightarrow>
         if k = [] \<or> (scope, k) \<in> set (map (\<lambda>r. (ky_scope r, ky_key r)) (cs_keys s)) then s
         else s\<lparr>cs_keys := cs_keys s @ [\<lparr>ky_scope = scope, ky_key = k, ky_response = response,
                 ky_created_at = iso clk\<rparr>]\<rparr>)"

end
