(* ===== verification/ControlApi.thy ===== *)
theory ControlApi
  imports ControlStore FleetClients RuntimeEvolution ForgeRegistry
begin

text \<open>
  The control plane (\<^verbatim>\<open>apps/control-plane/src/evoagent_os/api.py\<close> with the request models of
  \<^verbatim>\<open>models.py\<close>): one process that composes the control store, the agent runtime, the fleet
  orchestrator with the demo coordinator, and the forge registry. The state of the process is the
  four stores. A request runs to its end before the next one starts; the event streams and the
  static console are not modelled.
\<close>

section \<open>The composed state\<close>

record plane =
  pl_control :: control
  pl_runtime :: rt
  pl_fleet :: fleet
  pl_forge :: forge

definition on_control :: "('a, control) op \<Rightarrow> ('a, plane) op" where
  "on_control m p = (case m (pl_control p) of (r, s) \<Rightarrow> (r, p\<lparr>pl_control := s\<rparr>))"

definition on_runtime :: "('a, rt) op \<Rightarrow> ('a, plane) op" where
  "on_runtime m p = (case m (pl_runtime p) of (r, s) \<Rightarrow> (r, p\<lparr>pl_runtime := s\<rparr>))"

definition on_fleet :: "('a, fleet) op \<Rightarrow> ('a, plane) op" where
  "on_fleet m p = (case m (pl_fleet p) of (r, s) \<Rightarrow> (r, p\<lparr>pl_fleet := s\<rparr>))"

text \<open>What the process is configured with, and what one request draws: a clock reading, the digits
  of its identifiers and what each round of the drain loop draws.\<close>

record plane_env =
  pe_sha :: "string \<Rightarrow> string"
  pe_agent :: runtime
  pe_token :: string
  pe_mode :: string
  pe_index :: release_index
  pe_loads :: "string \<Rightarrow> py_error + json"

record draws =
  dr_clock :: clock
  dr_ids :: ids
  dr_uuid :: "string \<Rightarrow> nat \<Rightarrow> string"
  dr_ticks :: "tick list"

text \<open>\<open>create_app\<close>: the stores are opened and seeded, the demo worker is registered.\<close>

definition open_plane :: "clock \<Rightarrow> string \<Rightarrow> (string list \<times> string) list \<Rightarrow> plane" where
  "open_plane clk artifact_root files =
     \<lparr>pl_control = open_control clk empty_control, pl_runtime = open_store clk (empty_rt files),
      pl_fleet = demo_coordinator clk (new_fleet artifact_root 60), pl_forge = new_registry\<rparr>"

definition plane_authorize :: "plane_env \<Rightarrow> string option \<Rightarrow> py_error + unit" where
  "plane_authorize env authorization =
     (if pe_token env \<noteq> [] \<and> authorization \<noteq> Some (''Bearer '' @ pe_token env)
      then Inl (HTTPException 401 ''Invalid control-plane token'') else Inr ())"

section \<open>Request models\<close>

text \<open>A body outside the declared bounds is refused before the handler runs.\<close>

definition validated :: "bool \<Rightarrow> ('a, 's) op \<Rightarrow> ('a, 's) op" where
  "validated ok m = (if ok then m else op_raise (HTTPException 422 ''validation error''))"

definition between :: "nat \<Rightarrow> nat \<Rightarrow> string \<Rightarrow> bool" where
  "between lo hi s \<longleftrightarrow> lo \<le> length s \<and> length s \<le> hi"

definition id_text :: "string \<Rightarrow> bool" where
  "id_text s \<longleftrightarrow> list_all (\<lambda>c. alnum c \<or> c = CHR ''_'' \<or> c = CHR ''.'' \<or> c = CHR ''-'') s"

definition workspace_body_valid :: "string \<Rightarrow> string \<Rightarrow> string \<Rightarrow> bool" where
  "workspace_body_valid name description tenant \<longleftrightarrow>
     between 2 120 name \<and> between 0 2000 description \<and> id_text tenant \<and> between 2 80 tenant"

definition agent_body_valid :: "agent_row \<Rightarrow> bool" where
  "agent_body_valid a \<longleftrightarrow> between 2 120 (an_name a) \<and> between 2 120 (an_role a)
     \<and> between 0 2000 (an_description a) \<and> length (an_capabilities a) \<le> 100 \<and> length (an_tools a) \<le> 100
     \<and> length (an_skills a) \<le> 100 \<and> between 0 20000 (an_prompt a)"

record run_body =
  rb_agent :: string
  rb_workspace :: string
  rb_input :: string
  rb_session :: "string option"
  rb_wait :: bool
  rb_metadata :: "(string \<times> json) list"

definition run_body_valid :: "run_body \<Rightarrow> bool" where
  "run_body_valid b \<longleftrightarrow> between 1 100000 (rb_input b)
     \<and> (case rb_session b of None \<Rightarrow> True | Some s \<Rightarrow> between 0 120 s)"

record workflow_body =
  wb_workspace :: string
  wb_name :: string
  wb_description :: string
  wb_nodes :: "node_spec list"
  wb_metadata :: "(string \<times> json) list"

definition workflow_body_valid :: "workflow_body \<Rightarrow> bool" where
  "workflow_body_valid b \<longleftrightarrow> between 2 120 (wb_name b) \<and> between 0 2000 (wb_description b)
     \<and> 1 \<le> length (wb_nodes b) \<and> length (wb_nodes b) \<le> 500 \<and> list_all node_spec_valid (wb_nodes b)"

definition decision_body_valid :: "string \<Rightarrow> string \<Rightarrow> bool" where
  "decision_body_valid actor reason \<longleftrightarrow> between 1 120 actor \<and> between 0 2000 reason"

definition worker_body_valid :: "worker_registration \<Rightarrow> bool" where
  "worker_body_valid w \<longleftrightarrow> worker_registration_valid w \<and> between 1 80 (wr_pool w)"

definition lease_worker_valid :: "string \<Rightarrow> bool" where
  "lease_worker_valid w \<longleftrightarrow> id_text w \<and> between 1 80 w"

section \<open>Lists over the stores\<close>

text \<open>\<open>{**a, k: v, ...}\<close>.\<close>

definition merge_dict :: "(string \<times> json) list \<Rightarrow> (string \<times> json) list \<Rightarrow> (string \<times> json) list" where
  "merge_dict d kvs = fold (\<lambda>(k, v). dict_set k v) kvs d"

definition obj_items :: "json \<Rightarrow> (string \<times> json) list" where
  "obj_items j = (case j of JObj kvs \<Rightarrow> kvs | _ \<Rightarrow> [])"

definition bundled_skill :: "string \<Rightarrow> string \<Rightarrow> string list \<Rightarrow> string \<Rightarrow> json" where
  "bundled_skill name description capabilities publisher =
     JObj [(''name'', JStr name), (''version'', JStr ''0.1.0''), (''description'', JStr description),
       (''capabilities'', JArr (map JStr capabilities)), (''publisher'', JStr publisher),
       (''trust'', JStr ''bundled''), (''signature'', JStr ''repository-provenance'')]"

definition bundled_skills :: "json list" where
  "bundled_skills =
     [bundled_skill ''durable-research''
        ''Evidence-led research with bounded retrieval and citation provenance'' [''research'', ''citations''] ''evoagent-os'',
      bundled_skill ''artifact-publisher''
        ''Approval-gated publication of content-addressed deliverables'' [''artifacts'', ''filesystem.write''] ''evoagent-os'',
      bundled_skill ''trace-regression''
        ''Executable lifecycle, tool, and policy trace regression gates'' [''evaluation'', ''trace-contract''] ''harnesslab'']"

definition skill_of :: "json \<Rightarrow> json" where
  "skill_of release =
     (let signature = jget_or JNull ''signature'' release in
      JObj (merge_dict (obj_items (jget_or JNull ''manifest'' release))
        [(''digest'', jget_or JNull ''digest'' release), (''published_at'', jget_or JNull ''published_at'' release),
         (''trust'', JStr (if truthy signature then ''signed'' else ''unsigned'')), (''signature'', signature)]))"

definition plane_skills :: "plane_env \<Rightarrow> plane \<Rightarrow> py_error + json list" where
  "plane_skills env p =
     (case search_releases (pe_index env) (pe_loads env) [] 100 (pl_forge p) of
        Inl e \<Rightarrow> Inl e | Inr published \<Rightarrow> Inr (bundled_skills @ map skill_of published))"

definition field_text :: "string \<Rightarrow> json \<Rightarrow> string" where
  "field_text k j = (case jget_or (JStr []) k j of JStr s \<Rightarrow> s | _ \<Rightarrow> [])"

definition list_skills :: "plane_env \<Rightarrow> string \<Rightarrow> plane \<Rightarrow> py_error + json list" where
  "list_skills env q p =
     (let lowered = py_strip (py_lower q) in
      case plane_skills env p of
        Inl e \<Rightarrow> Inl e
      | Inr skills \<Rightarrow> Inr (if lowered = [] then skills else
          filter (\<lambda>j. contains (py_lower (field_text ''name'' j)) lowered
                      \<or> contains (py_lower (field_text ''description'' j)) lowered) skills))"

record run_item =
  ri_run :: run_row
  ri_workspace :: "string option"
  ri_agent :: "string option"
  ri_objective :: string

definition run_item_of :: "control \<Rightarrow> run_row \<Rightarrow> run_item" where
  "run_item_of c r =
     (case run_link (ru_id r) c of
        None \<Rightarrow> \<lparr>ri_run = r, ri_workspace = None, ri_agent = None, ri_objective = ru_input_text r\<rparr>
      | Some l \<Rightarrow> \<lparr>ri_run = r, ri_workspace = Some (ln_workspace l), ri_agent = Some (ln_agent l),
                   ri_objective = ln_objective l\<rparr>)"

definition plane_runs :: "int \<Rightarrow> plane \<Rightarrow> run_item list" where
  "plane_runs limit p = map (run_item_of (pl_control p)) (list_runs (clamp 200 limit) (pl_runtime p))"

record workflow_item =
  wi_workflow :: workflow
  wi_counts :: "(node_status \<times> nat) list"
  wi_total :: nat
  wi_tokens :: int
  wi_cost :: rat
  wi_duration :: rat

text \<open>\<open>GROUP BY status\<close>, the groups in the order their first rows stand in the table.\<close>

definition status_counts :: "node list \<Rightarrow> (node_status \<times> nat) list" where
  "status_counts nodes = map (\<lambda>st. (st, rowcount (\<lambda>n. n_status n = st) nodes)) (remdups (map n_status nodes))"

definition workflow_item_of :: "fleet \<Rightarrow> workflow \<Rightarrow> workflow_item" where
  "workflow_item_of f w =
     (let nodes = workflow_nodes (w_workflow_id w) (f_nodes f); counts = status_counts nodes in
      \<lparr>wi_workflow = w, wi_counts = counts, wi_total = sum_list (map snd counts),
       wi_tokens = sum_list (map n_tokens_used nodes), wi_cost = round_to 4 (sum_list (map n_cost_usd nodes)),
       wi_duration = round_to 3 (sum_list (map n_duration_seconds nodes))\<rparr>)"

definition plane_workflows :: "int \<Rightarrow> plane \<Rightarrow> workflow_item list" where
  "plane_workflows limit p = map (workflow_item_of (pl_fleet p)) (list_workflows (clamp 100 limit) (pl_fleet p))"

section \<open>Approvals\<close>

record approval_item =
  ai_id :: string
  ai_source :: string
  ai_subject :: string
  ai_reason :: string
  ai_risk :: string
  ai_run :: "string option"
  ai_workflow :: "string option"
  ai_workflow_name :: "string option"
  ai_node :: "string option"
  ai_arguments :: json
  ai_created_at :: int

definition fleet_approval_id :: "string \<Rightarrow> string \<Rightarrow> string" where
  "fleet_approval_id workflow_id node_id = ''fleet:'' @ workflow_id @ '':'' @ node_id"

definition runtime_approval :: "approval_row \<Rightarrow> approval_item" where
  "runtime_approval a =
     \<lparr>ai_id = ap_id a, ai_source = ''runtime'', ai_subject = ''Run tool: '' @ ap_tool_name a,
      ai_reason = ap_reason a,
      ai_risk = (if ap_tool_name a = ''workspace.write'' \<or> ap_tool_name a = ''http.get'' then ''high'' else ''medium''),
      ai_run = Some (ap_run_id a), ai_workflow = None, ai_workflow_name = None, ai_node = None,
      ai_arguments = ap_args a, ai_created_at = ap_created_at a\<rparr>"

definition fleet_approval :: "fleet \<Rightarrow> node \<Rightarrow> approval_item list" where
  "fleet_approval f n =
     map (\<lambda>w. \<lparr>ai_id = fleet_approval_id (n_workflow_id n) (n_node_id n), ai_source = ''fleet'',
        ai_subject = ''Publish node: '' @ n_objective n,
        ai_reason = ''Workflow policy requires operator approval before release'', ai_risk = ''high'',
        ai_run = None, ai_workflow = Some (n_workflow_id n), ai_workflow_name = Some (w_name w),
        ai_node = Some (n_node_id n), ai_arguments = n_input n, ai_created_at = n_created_at n\<rparr>)
       (filter (\<lambda>w. w_workflow_id w = n_workflow_id n) (f_workflows f))"

definition approval_list :: "plane \<Rightarrow> approval_item list" where
  "approval_list p =
     map runtime_approval (pending_approvals (pl_runtime p))
     @ concat (map (fleet_approval (pl_fleet p))
         (sort_key n_created_at (filter (\<lambda>n. n_status n = N_AWAITING_APPROVAL) (f_nodes (pl_fleet p)))))"

section \<open>The unified ledger\<close>

record unified_event =
  ue_id :: string
  ue_sequence :: nat
  ue_source :: string
  ue_type :: string
  ue_workspace :: "string option"
  ue_run :: "string option"
  ue_workflow :: "string option"
  ue_node :: "string option"
  ue_payload :: json
  ue_created_at :: int

definition unify_control :: "control_event \<Rightarrow> unified_event" where
  "unify_control e = \<lparr>ue_id = ce_id e, ue_sequence = ce_seq e, ue_source = ''control'', ue_type = ce_kind e,
     ue_workspace = ce_workspace e, ue_run = ce_run e, ue_workflow = ce_workflow e, ue_node = None,
     ue_payload = ce_payload e, ue_created_at = ce_created_at e\<rparr>"

definition linked_workspace :: "control \<Rightarrow> string option \<Rightarrow> string option" where
  "linked_workspace c run = (case run of None \<Rightarrow> None | Some r \<Rightarrow> map_option ln_workspace (run_link r c))"

definition unify_runtime :: "control \<Rightarrow> revent_row \<Rightarrow> unified_event" where
  "unify_runtime c e = \<lparr>ue_id = ''runtime:'' @ nat_text (ev_seq e), ue_sequence = ev_seq e, ue_source = ''runtime'',
     ue_type = ev_kind e, ue_workspace = linked_workspace c (ev_run_id e), ue_run = ev_run_id e,
     ue_workflow = None, ue_node = None, ue_payload = ev_payload e, ue_created_at = ev_created_at e\<rparr>"

definition unify_fleet :: "event \<Rightarrow> unified_event" where
  "unify_fleet e = \<lparr>ue_id = ''fleet:'' @ nat_text (e_seq e), ue_sequence = e_seq e, ue_source = ''fleet'',
     ue_type = e_kind e, ue_workspace = None, ue_run = None, ue_workflow = e_workflow_id e,
     ue_node = e_node_id e, ue_payload = e_payload e, ue_created_at = e_created_at e\<rparr>"

definition gathered :: "int \<Rightarrow> plane \<Rightarrow> unified_event list" where
  "gathered limit p =
     map unify_control (control_events limit (pl_control p))
     @ map (unify_runtime (pl_control p)) (rt_events_after 0 limit (pl_runtime p))
     @ map unify_fleet (fleet_events 0 limit (pl_fleet p))"

text \<open>The callers pass a positive limit.\<close>

definition unified_events :: "int \<Rightarrow> plane \<Rightarrow> unified_event list" where
  "unified_events limit p = take (nat limit) (sort_key (\<lambda>e. - ue_created_at e) (gathered limit p))"

definition list_events :: "int \<Rightarrow> string option \<Rightarrow> plane \<Rightarrow> unified_event list" where
  "list_events limit source p =
     (let values = unified_events (clamp 500 limit) p in
      case source of None \<Rightarrow> values
      | Some src \<Rightarrow> if src = [] then values else filter (\<lambda>e. ue_source e = src) values)"

end
