(* ===== verification/ControlRequests.thy ===== *)
theory ControlRequests
  imports ControlApi
begin

text \<open>
  The requests of the control plane (\<^verbatim>\<open>apps/control-plane/src/evoagent_os/api.py\<close>) over the state of
  \<^verbatim>\<open>ControlApi\<close>: metrics and the overview, runs, workflows, approvals, workers and leases,
  evolution, and the demo. A request that may raise is an operation on the plane.
\<close>

section \<open>Metrics and overview\<close>

record plane_metrics =
  me_tokens :: int
  me_cost :: rat
  me_success :: rat
  me_quality :: rat
  me_latency :: rat

definition usage_count :: "string \<Rightarrow> json \<Rightarrow> int" where
  "usage_count k usage = (case jget_or (JInt 0) k usage of JInt i \<Rightarrow> i | _ \<Rightarrow> 0)"

definition run_tokens :: "run_row \<Rightarrow> int" where
  "run_tokens r = usage_count ''input_tokens'' (ru_usage r) + usage_count ''output_tokens'' (ru_usage r)"

definition success_share :: "run_row list \<Rightarrow> node list \<Rightarrow> rat" where
  "success_share runs nodes =
     (let completed = rowcount (\<lambda>r. ru_status r = R_completed) runs;
          done = rowcount (\<lambda>n. n_status n = N_COMPLETED) nodes;
          denominator = completed + rowcount (\<lambda>r. ru_status r = R_failed) runs + done
            + rowcount (\<lambda>n. n_status n = N_FAILED) nodes in
      if denominator = 0 then 1 else round_to 4 (of_nat (completed + done) / of_nat denominator))"

definition route_quality :: "route_metric list \<Rightarrow> rat" where
  "route_quality routes =
     (let runs = sum_list (map rm_runs routes) in
      round_to 4 (if runs = 0 then 1 else sum_list (map rm_quality_sum routes) / of_nat runs))"

definition mean_latency :: "node list \<Rightarrow> rat" where
  "mean_latency nodes =
     (let durations = map n_duration_seconds (filter (\<lambda>n. n_status n = N_COMPLETED) nodes) in
      if durations = [] then 0 else round_to 1 (1000 * sum_list durations / of_nat (length durations)))"

definition plane_metrics_of :: "plane \<Rightarrow> plane_metrics" where
  "plane_metrics_of p =
     (let runs = map ri_run (plane_runs 200 p); nodes = f_nodes (pl_fleet p) in
      \<lparr>me_tokens = sum_list (map run_tokens runs) + sum_list (map n_tokens_used nodes),
       me_cost = round_to 4 (sum_list (map n_cost_usd nodes)),
       me_success = success_share runs nodes,
       me_quality = route_quality (route_metrics (pl_fleet p)),
       me_latency = mean_latency nodes\<rparr>)"

record plane_overview =
  ov_workspaces :: nat
  ov_agents :: nat
  ov_runs :: nat
  ov_active_workflows :: nat
  ov_pending_approvals :: nat
  ov_skills :: nat
  ov_online_workers :: nat
  ov_metrics :: plane_metrics
  ov_recent_runs :: "run_item list"
  ov_workflows :: "workflow_item list"
  ov_approvals :: "approval_item list"
  ov_routes :: "route_metric list"
  ov_events :: "unified_event list"

definition plane_overview_of :: "plane_env \<Rightarrow> plane \<Rightarrow> py_error + plane_overview" where
  "plane_overview_of env p =
     (case plane_skills env p of
        Inl e \<Rightarrow> Inl e
      | Inr skills \<Rightarrow>
          let workflows = plane_workflows 20 p; approvals = approval_list p in
          Inr \<lparr>ov_workspaces = length (list_workspaces (pl_control p)),
               ov_agents = length (list_agents None (pl_control p)),
               ov_runs = length (rt_runs (pl_runtime p)),
               ov_active_workflows = rowcount (\<lambda>i. w_status (wi_workflow i) = W_RUNNING) workflows,
               ov_pending_approvals = length approvals, ov_skills = length skills,
               ov_online_workers = rowcount (\<lambda>w. wk_status w = ''online'') (f_workers (pl_fleet p)),
               ov_metrics = plane_metrics_of p, ov_recent_runs = take 8 (plane_runs 20 p),
               ov_workflows = take 8 workflows, ov_approvals = take 8 approvals,
               ov_routes = route_metrics (pl_fleet p), ov_events = unified_events 16 p\<rparr>)"

section \<open>Catalog requests\<close>

definition post_workspace :: "draws \<Rightarrow> string \<Rightarrow> string \<Rightarrow> string \<Rightarrow> (workspace_row, plane) op" where
  "post_workspace d name description tenant =
     validated (workspace_body_valid name description tenant)
       (on_control (create_workspace (dr_ids d) (dr_clock d) name description tenant))"

definition post_agent :: "draws \<Rightarrow> agent_row \<Rightarrow> (agent_row, plane) op" where
  "post_agent d body =
     validated (agent_body_valid body) (http_status 404 (on_control (create_agent (dr_ids d) (dr_clock d) body)))"

definition list_tools :: "plane_env \<Rightarrow> (tool \<times> tool_action \<times> string) list" where
  "list_tools env = map (\<lambda>t. (t, decide_tool (re_policy (ag_tools (pe_agent env))) t)) (re_tools (ag_tools (pe_agent env)))"

text \<open>\<open>artifact_list\<close>; an empty workflow id selects every artifact.\<close>

definition artifact_list :: "string option \<Rightarrow> plane \<Rightarrow> artifact list" where
  "artifact_list workflow_id p =
     sort_key (\<lambda>a. - a_created_at a)
       (filter (\<lambda>a. case workflow_id of None \<Rightarrow> True | Some w \<Rightarrow> w = [] \<or> a_workflow_id a = w)
          (f_artifacts (pl_fleet p)))"

definition artifact_content :: "string \<Rightarrow> plane \<Rightarrow> py_error + string" where
  "artifact_content artifact_id p =
     (case find (\<lambda>a. a_artifact_id a = artifact_id) (f_artifacts (pl_fleet p)) of
        None \<Rightarrow> Inl (HTTPException 404 ''Artifact not found'')
      | Some a \<Rightarrow>
          (case f_files (pl_fleet p) (a_path a) of
             None \<Rightarrow> Inl (HTTPException 410 ''Artifact content is unavailable'')
           | Some content \<Rightarrow> Inr content))"

section \<open>Runs\<close>

definition run_status_text :: "run_status \<Rightarrow> string" where
  "run_status_text st = (case st of R_accepted \<Rightarrow> ''accepted'' | R_running \<Rightarrow> ''running''
     | R_awaiting_approval \<Rightarrow> ''awaiting_approval'' | R_completed \<Rightarrow> ''completed'' | R_failed \<Rightarrow> ''failed'')"

text \<open>\<open>RunView.model_dump(mode="json")\<close>.\<close>

definition run_json :: "run_row \<Rightarrow> (string \<times> json) list" where
  "run_json r = [(''run_id'', JStr (ru_id r)), (''session_id'', JStr (ru_session_id r)),
     (''status'', JStr (run_status_text (ru_status r))), (''input_text'', JStr (ru_input_text r)),
     (''output_text'', opt_str (ru_output_text r)), (''error'', opt_str (ru_error r)),
     (''prompt_version'', JInt (int (ru_prompt_version r))), (''created_at'', JInt (ru_created_at r)),
     (''updated_at'', JInt (ru_updated_at r))]"

definition run_envelope_of :: "run_body \<Rightarrow> envelope" where
  "run_envelope_of b =
     \<lparr>en_channel = ''control-plane'', en_peer_id = rb_agent b, en_session_id = rb_session b, en_text = rb_input b,
      en_metadata = JObj (merge_dict (rb_metadata b)
        [(''workspace_id'', JStr (rb_workspace b)), (''agent_id'', JStr (rb_agent b))])\<rparr>"

text \<open>
  \<open>wait\<close> executes the run before the response; otherwise the run is accepted and its execution is
  a task of its own.
\<close>

definition start_run :: "plane_env \<Rightarrow> draws \<Rightarrow> bool \<Rightarrow> envelope \<Rightarrow> (string \<times> (string \<times> json) list, rt) op" where
  "start_run env d wait en =
     (if wait
      then op_bind (run_envelope (pe_sha env) (pe_agent env) (dr_ids d ''run'') (dr_uuid d) (dr_clock d) en) (\<lambda>r.
           op_ret (ru_id r, run_json r))
      else op_bind (accept_run (pe_sha env) (dr_ids d ''run'') (dr_clock d) en) (\<lambda>(run_id, _).
           op_ret (run_id, [(''run_id'', JStr run_id), (''status'', JStr ''accepted'')])))"

text \<open>\<open>cached = idempotent_get(...); if cached: return cached\<close>, and the put at the end of the request.\<close>

definition once_per_key :: "string \<Rightarrow> string option \<Rightarrow> clock \<Rightarrow> (json, plane) op \<Rightarrow> (json, plane) op" where
  "once_per_key scope key clk body p =
     (case idempotent_get scope key (pl_control p) of
        Some cached \<Rightarrow>
          if truthy cached then (Inr cached, p)
          else op_bind body (\<lambda>r. op_bind (on_control (idempotent_put clk scope key r)) (\<lambda>_. op_ret r)) p
      | None \<Rightarrow> op_bind body (\<lambda>r. op_bind (on_control (idempotent_put clk scope key r)) (\<lambda>_. op_ret r)) p)"

definition submit_run :: "plane_env \<Rightarrow> draws \<Rightarrow> run_body \<Rightarrow> (json, plane) op" where
  "submit_run env d b =
     op_bind (op_gets (\<lambda>p. rb_agent b \<in> set (map an_id (list_agents (Some (rb_workspace b)) (pl_control p))))) (\<lambda>known.
     if \<not> known then op_raise (HTTPException 404 ''Agent not found in workspace'')
     else
       op_bind (on_runtime (start_run env d (rb_wait b) (run_envelope_of b))) (\<lambda>(run_id, v).
       op_bind (on_control (link_run (dr_clock d) run_id (rb_workspace b) (rb_agent b) (rb_input b))) (\<lambda>_.
       op_bind (on_control (control_event_op (dr_ids d) (dr_clock d) ''run.submitted''
          (JObj [(''agent_id'', JStr (rb_agent b)), (''wait'', JBool (rb_wait b))])
          (Some (rb_workspace b)) (Some run_id) None)) (\<lambda>_.
       op_ret (JObj (merge_dict v [(''id'', JStr run_id), (''workspace_id'', JStr (rb_workspace b)),
          (''agent_id'', JStr (rb_agent b))]))))))"

definition post_run :: "plane_env \<Rightarrow> draws \<Rightarrow> string option \<Rightarrow> run_body \<Rightarrow> (json, plane) op" where
  "post_run env d key b =
     validated (run_body_valid b) (once_per_key ''runs'' key (dr_clock d) (submit_run env d b))"

definition get_run_item :: "string \<Rightarrow> plane \<Rightarrow> py_error + (run_item \<times> unified_event list)" where
  "get_run_item run_id p =
     (case find (\<lambda>i. ru_id (ri_run i) = run_id) (plane_runs 200 p) of
        None \<Rightarrow> Inl (HTTPException 404 ''Run not found'')
      | Some i \<Rightarrow> Inr (i, filter (\<lambda>e. ue_run e = Some run_id) (unified_events 500 p)))"

definition post_feedback :: "draws \<Rightarrow> string \<Rightarrow> int \<Rightarrow> string \<Rightarrow> (string, plane) op" where
  "post_feedback d run_id rating comment =
     on_runtime (feedback_handler (dr_ids d ''fb'') (dr_clock d) run_id rating comment)"

definition post_job :: "draws \<Rightarrow> string \<Rightarrow> int \<Rightarrow> string \<Rightarrow> (string, plane) op" where
  "post_job d name interval_seconds message =
     on_runtime (create_job_handler (dr_ids d ''job'') (dr_clock d) name interval_seconds message)"

definition plane_history :: "string \<Rightarrow> int \<Rightarrow> plane \<Rightarrow> message_row list" where
  "plane_history session_id limit p = RuntimeStore.history session_id (clamp 200 limit) (pl_runtime p)"

definition plane_memory :: "plane_env \<Rightarrow> string \<Rightarrow> int \<Rightarrow> plane \<Rightarrow> (memory_row \<times> rat) list" where
  "plane_memory env q limit p =
     search_memory (os_fts (ag_outside (pe_agent env))) q (clamp 50 limit) (pl_runtime p)"

section \<open>Workflows\<close>

definition submit_workflow :: "draws \<Rightarrow> workflow_body \<Rightarrow> (json, plane) op" where
  "submit_workflow d b =
     (let spec = \<lparr>ws_name = wb_name b, ws_nodes = wb_nodes b,
            ws_metadata = JObj (merge_dict (wb_metadata b) [(''workspace_id'', JStr (wb_workspace b))])\<rparr> in
      op_bind (http_status 422 (on_fleet (op_bind (op_lift (validate_workflow_spec spec)) (\<lambda>_.
         fleet_submit (dr_ids d ''wf'') (dr_clock d) spec)))) (\<lambda>workflow_id.
      op_bind (on_control (control_event_op (dr_ids d) (dr_clock d) ''workflow.submitted''
         (JObj [(''name'', JStr (wb_name b)), (''nodes'', JInt (int (length (wb_nodes b))))])
         (Some (wb_workspace b)) None (Some workflow_id))) (\<lambda>_.
      op_ret (JObj [(''workflow_id'', JStr workflow_id), (''id'', JStr workflow_id), (''status'', JStr ''running'')]))))"

definition post_workflow :: "draws \<Rightarrow> string option \<Rightarrow> workflow_body \<Rightarrow> (json, plane) op" where
  "post_workflow d key b =
     validated (workflow_body_valid b) (once_per_key ''workflows'' key (dr_clock d) (submit_workflow d b))"

definition get_workflow :: "string \<Rightarrow> plane
    \<Rightarrow> py_error + (workflow \<times> node list \<times> artifact list \<times> unified_event list)" where
  "get_workflow workflow_id p =
     (case value_error_as 404 (fleet_view workflow_id (pl_fleet p)) of
        Inl e \<Rightarrow> Inl e
      | Inr (w, nodes) \<Rightarrow> Inr (w, nodes, artifact_list (Some workflow_id) p,
          filter (\<lambda>e. ue_workflow e = Some workflow_id) (unified_events 500 p)))"

section \<open>Approvals\<close>

text \<open>\<open>s.split(c, n)\<close>.\<close>

fun split_max :: "nat \<Rightarrow> char \<Rightarrow> string \<Rightarrow> string list" where
  "split_max 0 c s = [s]"
| "split_max (Suc n) c s =
     (case py_partition c s of (a, m, b) \<Rightarrow> if m = [] then [a] else a # split_max n c b)"

datatype plane_decision =
    Fleet_decision string bool string "string list" workflow_status
  | Runtime_decision string bool run_row

definition approve_and_drain :: "plane_env \<Rightarrow> draws \<Rightarrow> string \<Rightarrow> string \<Rightarrow> bool \<Rightarrow> string \<Rightarrow> (string list, fleet) op" where
  "approve_and_drain env d workflow_id node_id approved actor =
     op_bind (fleet_approve (dr_clock d) workflow_id node_id approved actor) (\<lambda>_.
     if approved then drain (pe_sha env) workflow_id (dr_ticks d) else op_ret [])"

definition decide_fleet :: "plane_env \<Rightarrow> draws \<Rightarrow> string \<Rightarrow> string \<Rightarrow> string \<Rightarrow> bool \<Rightarrow> string \<Rightarrow> (plane_decision, plane) op" where
  "decide_fleet env d approval_id workflow_id node_id approved actor =
     op_bind (http_status 409 (on_fleet (approve_and_drain env d workflow_id node_id approved actor))) (\<lambda>completed.
     op_bind (on_control (control_event_op (dr_ids d) (dr_clock d) ''approval.decided''
        (JObj [(''approval_id'', JStr approval_id), (''approved'', JBool approved), (''actor'', JStr actor)])
        None None (Some workflow_id))) (\<lambda>_.
     op_bind (op_gets (\<lambda>p. fleet_view workflow_id (pl_fleet p))) (\<lambda>r.
     op_bind (op_lift r) (\<lambda>(w, _).
     op_ret (Fleet_decision approval_id approved workflow_id completed (w_status w))))))"

definition decide_runtime :: "plane_env \<Rightarrow> draws \<Rightarrow> string \<Rightarrow> bool \<Rightarrow> string \<Rightarrow> (plane_decision, plane) op" where
  "decide_runtime env d approval_id approved actor =
     op_bind (http_status 409 (on_runtime (decide_approval (pe_agent env) (dr_uuid d) (dr_clock d) approval_id approved actor)))
       (\<lambda>run. op_ret (Runtime_decision approval_id approved run))"

definition decide_plane :: "plane_env \<Rightarrow> draws \<Rightarrow> string \<Rightarrow> bool \<Rightarrow> string \<Rightarrow> (plane_decision, plane) op" where
  "decide_plane env d approval_id approved actor =
     (if starts_with approval_id ''fleet:''
      then case split_max 2 CHR '':'' approval_id of
             [_, workflow_id, node_id] \<Rightarrow> decide_fleet env d approval_id workflow_id node_id approved actor
           | _ \<Rightarrow> op_raise (HTTPException 404 ''Approval not found'')
      else decide_runtime env d approval_id approved actor)"

definition post_decision :: "plane_env \<Rightarrow> draws \<Rightarrow> string \<Rightarrow> bool \<Rightarrow> string \<Rightarrow> string \<Rightarrow> (plane_decision, plane) op" where
  "post_decision env d approval_id approved actor reason =
     validated (decision_body_valid actor reason) (decide_plane env d approval_id approved actor)"

section \<open>Workers and leases\<close>

definition list_workers :: "plane \<Rightarrow> worker list" where
  "list_workers p = sort_key (\<lambda>w. (wk_pool w, wk_worker_id w)) (f_workers (pl_fleet p))"

definition post_worker :: "draws \<Rightarrow> worker_registration \<Rightarrow> (string, plane) op" where
  "post_worker d w =
     validated (worker_body_valid w)
       (op_bind (on_fleet (op_upd (fleet_register (dr_clock d) w))) (\<lambda>_.
        op_bind (on_control (control_event_op (dr_ids d) (dr_clock d) ''worker.registered''
          (JObj [(''worker_id'', JStr (wr_worker_id w)), (''pool'', JStr (wr_pool w)),
             (''capabilities'', JArr (map JStr (wr_capabilities w)))]) None None None)) (\<lambda>_.
        op_ret (wr_worker_id w))))"

definition post_claim :: "draws \<Rightarrow> string \<Rightarrow> (lease option, plane) op" where
  "post_claim d worker_id =
     http_status 404 (on_fleet (fleet_claim (dr_ids d ''lease'') (dr_clock d) worker_id None))"

definition post_heartbeat :: "draws \<Rightarrow> string \<Rightarrow> string \<Rightarrow> (clock, plane) op" where
  "post_heartbeat d token worker_id =
     validated (lease_worker_valid worker_id) (http_status 409 (on_fleet (heartbeat (dr_clock d) worker_id token)))"

definition post_completion :: "plane_env \<Rightarrow> draws \<Rightarrow> string \<Rightarrow> string \<Rightarrow> completion
    \<Rightarrow> (string \<times> string \<times> artifact list, plane) op" where
  "post_completion env d token worker_id result =
     validated (lease_worker_valid worker_id \<and> completion_valid result)
       (http_status 409 (on_fleet (fleet_complete (pe_sha env) (dr_uuid d ''artifact'') (dr_clock d) worker_id token result)))"

definition post_failure :: "draws \<Rightarrow> string \<Rightarrow> string \<Rightarrow> string \<Rightarrow> bool \<Rightarrow> (string, plane) op" where
  "post_failure d token worker_id error retryable =
     validated (lease_worker_valid worker_id \<and> between 1 20000 error)
       (op_bind (http_status 409 (on_fleet (fleet_fail (dr_clock d) worker_id token error retryable))) (\<lambda>_.
        op_ret ''recorded''))"

section \<open>Evolution and the demo\<close>

definition post_candidate :: "draws \<Rightarrow> (candidate_row, plane) op" where
  "post_candidate d = on_runtime (propose (dr_ids d ''candidate'') (dr_clock d))"

definition post_evaluation :: "plane_env \<Rightarrow> string \<Rightarrow> scenario list \<Rightarrow> (candidate_row, plane) op" where
  "post_evaluation env candidate_id scenarios =
     http_status 404 (on_runtime (evaluate (ag_provider (pe_agent env)) candidate_id scenarios))"

definition post_promotion :: "draws \<Rightarrow> string \<Rightarrow> (nat, plane) op" where
  "post_promotion d candidate_id = http_status 409 (on_runtime (promote (dr_clock d) candidate_id))"

definition demo_envelope :: envelope where
  "demo_envelope = \<lparr>en_channel = ''demo'', en_peer_id = ''agent_coordinator'', en_session_id = None,
     en_text = ''Plan and govern an evidence-linked enterprise AI agent market brief'',
     en_metadata = JObj [(''workspace_id'', JStr ''ws_default''), (''scenario'', JStr ''market-research'')]\<rparr>"

definition workflow_status_text :: "workflow_status \<Rightarrow> string" where
  "workflow_status_text st = (case st of W_RUNNING \<Rightarrow> ''running'' | W_COMPLETED \<Rightarrow> ''completed'' | W_FAILED \<Rightarrow> ''failed'')"

definition start_demo :: "plane_env \<Rightarrow> draws \<Rightarrow> (json, plane) op" where
  "start_demo env d =
     op_bind (on_runtime (run_envelope (pe_sha env) (pe_agent env) (dr_ids d ''run'') (dr_uuid d) (dr_clock d) demo_envelope)) (\<lambda>run.
     op_bind (on_control (link_run (dr_clock d) (ru_id run) ''ws_default'' ''agent_coordinator'' (ru_input_text run))) (\<lambda>_.
     op_bind (on_fleet (launch (pe_sha env) (dr_ids d ''wf'') (dr_clock d) (dr_ticks d) ''ws_default'')) (\<lambda>(workflow_id, st, completed, approval_id).
     op_bind (on_control (control_event_op (dr_ids d) (dr_clock d) ''demo.launched''
        (JObj [(''scenario'', JStr ''market-research''), (''run_id'', JStr (ru_id run))])
        (Some ''ws_default'') (Some (ru_id run)) (Some workflow_id))) (\<lambda>_.
     op_ret (JObj [(''workflow_id'', JStr workflow_id), (''status'', JStr (workflow_status_text st)),
        (''completed_nodes'', JArr (map JStr completed)), (''approval_id'', JStr approval_id),
        (''run_id'', JStr (ru_id run)), (''workspace_id'', JStr ''ws_default''),
        (''next_action'', JStr ''Approve the publish node to resume and emit final artifacts'')])))))"

definition post_demo :: "plane_env \<Rightarrow> draws \<Rightarrow> string option \<Rightarrow> (json, plane) op" where
  "post_demo env d key = once_per_key ''demo'' key (dr_clock d) (start_demo env d)"

end
