(* ===== verification/ControlTheorems.thy ===== *)
theory ControlTheorems
  imports ControlStore
begin

text \<open>
  What holds of the control store (\<^verbatim>\<open>evoagent_os/store.py\<close>) in every state its operations reach, and
  that a new workspace always gets a slug of its own.
\<close>

section \<open>The declared constraints\<close>

definition events_numbered :: "control_event list \<Rightarrow> bool" where
  "events_numbered es \<longleftrightarrow> map ce_seq es = [1..<Suc (length es)]"

lemma events_numbered_Nil [simp]: "events_numbered []"
  by (simp add: events_numbered_def)

lemma events_numbered_snoc [simp]:
  "events_numbered es \<Longrightarrow> ce_seq e = next_rowid (map ce_seq es) \<Longrightarrow> events_numbered (es @ [e])"
proof -
  assume es: "events_numbered es" and e: "ce_seq e = next_rowid (map ce_seq es)"
  then have "ce_seq e = Suc (length es)" by (simp add: events_numbered_def del: upt_Suc)
  with es show ?thesis by (simp add: events_numbered_def)
qed

definition control_ok :: "control \<Rightarrow> bool" where
  "control_ok s \<longleftrightarrow>
     distinct (map wo_id (cs_workspaces s)) \<and> distinct (map workspace_key (cs_workspaces s))
     \<and> ''ws_default'' \<in> set (map wo_id (cs_workspaces s))
     \<and> distinct (map an_id (cs_agents s))
     \<and> set (map an_workspace (cs_agents s)) \<subseteq> set (map wo_id (cs_workspaces s))
     \<and> distinct (map ln_run_id (cs_links s))
     \<and> events_numbered (cs_events s) \<and> distinct (map ce_id (cs_events s))
     \<and> distinct (map el_id (cs_evaluations s))
     \<and> distinct (map (\<lambda>k. (ky_scope k, ky_key k)) (cs_keys s)) \<and> [] \<notin> set (map ky_key (cs_keys s))"

inductive control_step :: "control \<Rightarrow> control \<Rightarrow> bool" where
  step_open: "control_step s (open_control clk s)"
| step_workspace: "control_step s (snd (create_workspace ids clk name description tenant s))"
| step_agent: "control_step s (snd (create_agent ids clk payload s))"
| step_link: "control_step s (snd (link_run clk run_id workspace agent objective s))"
| step_event: "control_step s (snd (control_event_op ids clk kind payload wsp run wfl s))"
| step_key: "control_step s (snd (idempotent_put clk scope key response s))"

inductive_cases control_stepE: "control_step s t"

definition control_init :: "control \<Rightarrow> bool" where
  "control_init s \<longleftrightarrow> (\<exists>clk. s = open_control clk empty_control)"

lemma seed_agent_rows_ok:
  "distinct (map an_id rows) \<Longrightarrow> distinct (map an_id (seed_agent_rows clk seeds rows))
     \<and> set (map an_workspace (seed_agent_rows clk seeds rows)) \<subseteq> insert ''ws_default'' (set (map an_workspace rows))"
proof (induction clk seeds rows rule: seed_agent_rows.induct)
  case (2 clk agent_id name role description capabilities seeds rows)
  then show ?case by (auto simp del: set_map)
qed auto

lemma seed_workspace_ok:
  "distinct (map wo_id rows) \<Longrightarrow> distinct (map workspace_key rows) \<Longrightarrow>
     distinct (map wo_id (seed_workspace clk rows)) \<and> distinct (map workspace_key (seed_workspace clk rows))
     \<and> set (map wo_id rows) \<subseteq> set (map wo_id (seed_workspace clk rows))"
  unfolding seed_workspace_def Let_def by auto

lemma open_ok: "control_ok s \<Longrightarrow> control_ok (open_control clk s)"
  using seed_workspace_ok [of "cs_workspaces s" clk] seed_agent_rows_ok [of "cs_agents s" clk seed_agents]
  unfolding control_ok_def open_control_def by (auto simp: seed_evaluation_def simp del: set_map)

lemma init_ok: "control_init s \<Longrightarrow> control_ok s"
proof -
  assume "control_init s"
  then obtain clk where s: "s = open_control clk empty_control" by (auto simp: control_init_def)
  have "''ws_default'' \<in> set (map wo_id (seed_workspace clk []))"
    by (simp add: seed_workspace_def)
  then show ?thesis
    using seed_workspace_ok [of "[]" clk] seed_agent_rows_ok [of "[]" clk seed_agents]
    unfolding s control_ok_def open_control_def empty_control_def
    by (auto simp: seed_evaluation_def simp del: set_map)
qed

named_theorems control_keeps

lemma insert_workspace_keeps [control_keeps]: "keeps control_ok (insert_workspace row)"
  by (auto simp: keeps_def insert_workspace_def control_ok_def simp del: set_map)

lemma control_event_keeps [control_keeps]: "keeps control_ok (control_event_op ids clk kind payload wsp run wfl)"
  by (auto simp: keeps_def control_event_op_def insert_row_def Let_def control_ok_def simp del: upt_Suc
      split: sum.splits)

lemma link_run_keeps [control_keeps]: "keeps control_ok (link_run clk run_id workspace agent objective)"
  by (auto simp: keeps_def link_run_def op_upd_def control_ok_def distinct_map_filter)

lemma idempotent_put_keeps [control_keeps]: "keeps control_ok (idempotent_put clk scope key response)"
  by (auto simp: keeps_def idempotent_put_def op_upd_def control_ok_def simp del: set_map split: option.split)

lemma create_workspace_keeps: "keeps control_ok (create_workspace ids clk name description tenant)"
  unfolding create_workspace_def by (intro keeps_intros control_keeps)

lemma insert_agent_ok:
  "control_ok s \<Longrightarrow> an_workspace row \<in> set (map wo_id (cs_workspaces s)) \<Longrightarrow> control_ok (snd (insert_agent row s))"
  by (auto simp: insert_agent_def insert_row_def control_ok_def split: sum.splits)

lemma bind_keeps: "P (snd (m s)) \<Longrightarrow> (\<And>a. keeps P (f a)) \<Longrightarrow> P (snd (op_bind m f s))"
  using keepsD by (fastforce simp: op_bind_def split: prod.split sum.split)

lemma create_agent_ok: "control_ok s \<Longrightarrow> control_ok (snd (create_agent ids clk payload s))"
proof (cases "an_workspace payload \<in> set (map wo_id (cs_workspaces s))")
  case known: True
  assume ok: "control_ok s"
  let ?row = "payload\<lparr>an_id := identifier_of ''agent'' (ids ''agent''), an_status := ''ready'',
             an_created_at := iso clk, an_updated_at := iso clk\<rparr>"
  have "an_workspace ?row \<in> set (map wo_id (cs_workspaces s))" using known by simp
  note row = insert_agent_ok [OF ok this]
  show ?thesis
    unfolding create_agent_def op_bind_def [of "op_gets (\<lambda>s. _ \<in> _ s)"] op_gets_def [of "\<lambda>s. _ \<in> _ s"] Let_def
    using known by (simp del: set_map) (intro bind_keeps [where P = control_ok and m = "insert_agent ?row", OF row] keeps_intros control_keeps)
next
  case False
  then show "control_ok s \<Longrightarrow> ?thesis"
    by (simp add: create_agent_def op_bind_def op_gets_def op_raise_def)
qed

interpretation control: invariant_system control_init control_step control_ok
proof
  fix s t assume "control_ok s" "control_step s t"
  then show "control_ok t"
    by (elim control_stepE)
      (auto intro: open_ok create_agent_ok keepsD [OF create_workspace_keeps] keepsD [OF link_run_keeps]
        keepsD [OF control_event_keeps] keepsD [OF idempotent_put_keeps])
qed (rule init_ok)

lemmas control_defs = control_ok_def events_numbered_def

text \<open>
  C20. Well-formedness of the control store. In every state the operations reach, the seeded
  workspace exists, ids are unique in every table, no two workspaces of a tenant share a slug, every
  agent belongs to an existing workspace, the ledger is numbered without gaps from one, and an
  idempotency key is non-empty and stored once per scope.
\<close>

theorem control_tables:
  assumes "control.reach s"
  shows "distinct (map wo_id (cs_workspaces s)) \<and> distinct (map workspace_key (cs_workspaces s))
    \<and> ''ws_default'' \<in> set (map wo_id (cs_workspaces s))
    \<and> distinct (map an_id (cs_agents s))
    \<and> set (map an_workspace (cs_agents s)) \<subseteq> set (map wo_id (cs_workspaces s))
    \<and> distinct (map ln_run_id (cs_links s))
    \<and> map ce_seq (cs_events s) = [1..<Suc (length (cs_events s))] \<and> distinct (map ce_id (cs_events s))
    \<and> distinct (map (\<lambda>k. (ky_scope k, ky_key k)) (cs_keys s)) \<and> [] \<notin> set (map ky_key (cs_keys s))"
  using control.reach_inv [OF assms] unfolding control_defs by blast

section \<open>New workspaces\<close>

lemma insert_fresh: "key r \<notin> set (map key rows) \<Longrightarrow> insert_row key r rows = Inr (rows @ [r])"
  by (simp add: insert_row_def)

definition demo_control :: control where
  "demo_control = open_control 0 empty_control"

definition demo_ids :: "string \<Rightarrow> ids" where
  "demo_ids hex prefix = hex"

definition second_control :: control where
  "second_control = snd (create_workspace (demo_ids ''a1'') 1 ''Agent  Operations!'' [] ''tenant_local'' demo_control)"

lemma demo_reach: "control.reach demo_control"
  unfolding demo_control_def by (rule control.reach_init) (auto simp: control_init_def)

lemma second_reach: "control.reach second_control"
  unfolding second_control_def by (rule control.reach_step [OF demo_reach step_workspace])

theorem control_tables_witness:
  "distinct (map workspace_key (cs_workspaces second_control))
   \<and> map wo_slug (cs_workspaces second_control) = [''agent-operations'', ''agent-operations-2'']"
proof
  show "map wo_slug (cs_workspaces second_control) = [''agent-operations'', ''agent-operations-2'']"
    by code_simp
qed (use control_tables [OF second_reach] in blast)

text \<open>
  Creating a workspace. Whatever the name, the search for a slug ends; unless one of the drawn
  identifiers is already in use, the workspace is created with the asked tenant, the slug is the
  one of its name when that is free and in any case one no workspace of the tenant has, and the
  other workspaces are untouched.
\<close>

theorem workspace_created:
  assumes "control.reach s" "identifier_of ''ws'' (ids ''ws'') \<notin> set (map wo_id (cs_workspaces s))"
    "identifier_of ''evt'' (ids ''evt'') \<notin> set (map ce_id (cs_events s))"
  shows "\<exists>w. fst (create_workspace ids clk name description tenant s) = Inr w
    \<and> cs_workspaces (snd (create_workspace ids clk name description tenant s)) = cs_workspaces s @ [w]
    \<and> wo_tenant w = tenant \<and> wo_slug w \<notin> set (tenant_slugs tenant s)
    \<and> (slugify (ids ''workspace'') name \<notin> set (tenant_slugs tenant s)
        \<longrightarrow> wo_slug w = slugify (ids ''workspace'') name)"
proof -
  let ?slug = "free_slug (tenant_slugs tenant s) 1 (slugify (ids ''workspace'') name)"
  let ?row = "\<lparr>wo_id = identifier_of ''ws'' (ids ''ws''), wo_tenant = tenant, wo_name = name, wo_slug = ?slug,
    wo_description = description, wo_created_at = iso clk\<rparr>"
  have free: "?slug \<notin> set (tenant_slugs tenant s)" by (rule free_slug_free)
  then have key: "workspace_key ?row \<notin> set (map workspace_key (cs_workspaces s))"
    by (auto simp: tenant_slugs_def workspace_key_def)
  have "find (\<lambda>w. wo_id w = wo_id ?row) (cs_workspaces s) = None"
    unfolding find_None_iff' using assms(2) by (auto simp: image_iff)
  then have "find (\<lambda>w. wo_id w = wo_id ?row) (cs_workspaces s @ [?row]) = Some ?row"
    by (simp add: find_append)
  then have "fst (create_workspace ids clk name description tenant s) = Inr ?row
      \<and> cs_workspaces (snd (create_workspace ids clk name description tenant s)) = cs_workspaces s @ [?row]"
    using assms(2,3) key
    by (simp add: create_workspace_def op_bind_def op_gets_def op_ret_def insert_workspace_def
        control_event_op_def insert_fresh Let_def del: set_map)
  with free show ?thesis
    by (intro exI [of _ ?row]) (simp add: free_slug.simps [of "tenant_slugs tenant s" "Suc 0" "slugify (ids ''workspace'') name"])
qed

theorem workspace_created_witness:
  "\<exists>w. fst (create_workspace (demo_ids ''b2'') 2 ''agent operations'' [] ''tenant_local'' second_control) = Inr w
     \<and> wo_slug w \<notin> {''agent-operations'', ''agent-operations-2''}"
proof -
  have ids: "identifier_of ''ws'' (demo_ids ''b2'' ''ws'') \<notin> set (map wo_id (cs_workspaces second_control))"
    "identifier_of ''evt'' (demo_ids ''b2'' ''evt'') \<notin> set (map ce_id (cs_events second_control))"
    by code_simp+
  have slugs: "tenant_slugs ''tenant_local'' second_control = [''agent-operations'', ''agent-operations-2'']"
    by code_simp
  show ?thesis
    using workspace_created [OF second_reach ids, of 2 "''agent operations''" "[]" "''tenant_local''"]
    by (auto simp: slugs)
qed

lemma suffixes_pile_up:
  "map wo_slug (cs_workspaces (snd (create_workspace (demo_ids ''b2'') 2 ''agent operations'' [] ''tenant_local'' second_control)))
   = [''agent-operations'', ''agent-operations-2'', ''agent-operations-2-3'']"
  by code_simp

end
