(* ===== verification/ControlPlane.thy ===== *)
theory ControlPlane
  imports ControlRequests ControlTheorems
begin

text \<open>
  What the control plane promises (\<^verbatim>\<open>apps/control-plane/src/evoagent_os/api.py\<close>): a request that
  carries an idempotency key is executed once, a listed approval is decided for the node it names,
  and what the unified ledger shows.
\<close>

section \<open>Operations on one of the stores\<close>

lemma on_runtime_control [simp]: "pl_control (snd (on_runtime m p)) = pl_control p"
  by (simp add: on_runtime_def split: prod.split)

lemma on_fleet_control [simp]: "pl_control (snd (on_fleet m p)) = pl_control p"
  by (simp add: on_fleet_def split: prod.split)

lemma on_control_snd [simp]: "pl_control (snd (on_control m p)) = snd (m (pl_control p))"
  by (simp add: on_control_def split: prod.split)

lemma http_status_snd [simp]: "snd (http_status c m p) = snd (m p)"
  by (auto simp: http_status_def split: prod.split sum.split py_error.split)

section \<open>Requests with an idempotency key\<close>

text \<open>The bodies leave the keys alone and their responses are objects that are not empty.\<close>

abbreviation same_keys :: "key_row list \<Rightarrow> plane \<Rightarrow> bool" where
  "same_keys ks p \<equiv> cs_keys (pl_control p) = ks"

definition answers_stored :: "plane \<Rightarrow> bool" where
  "answers_stored p \<longleftrightarrow> list_all (\<lambda>k. truthy (ky_response k)) (cs_keys (pl_control p))"

locale keyed_request =
  fixes scope :: string and body :: "'d \<Rightarrow> 'b \<Rightarrow> (json, plane) op"
  assumes body_keys: "keeps (same_keys ks) (body d b)"
    and body_truthy: "fst (body d b p) = Inr r \<Longrightarrow> truthy r"
begin

lemma first_stores:
  assumes "answers_stored p" "k \<noteq> []" "once_per_key scope (Some k) clk (body d b) p = (Inr r, q)"
  shows "idempotent_get scope (Some k) (pl_control q) = Some r \<and> truthy r \<and> answers_stored q"
proof (cases "idempotent_get scope (Some k) (pl_control p)")
  case (Some cached)
  then have "cached \<in> ky_response ` set (cs_keys (pl_control p))"
    using assms(2) by (auto simp: idempotent_get_def no_key_def dest!: find_SomeD)
  then have "truthy cached" using assms(1) by (auto simp: answers_stored_def list_all_iff)
  with Some assms show ?thesis by (auto simp: once_per_key_def)
next
  case None
  with assms(3) obtain p1 where b: "body d b p = (Inr r, p1)"
    and q: "q = snd (on_control (idempotent_put clk scope (Some k) r) p1)"
    by (auto simp: once_per_key_def op_ret_def on_control_def idempotent_put_def op_upd_def elim!: op_bindE)
  have keys: "cs_keys (pl_control p1) = cs_keys (pl_control p)"
    using keepsD [OF body_keys [of "cs_keys (pl_control p)" d b], of p] b by simp
  have free: "find (\<lambda>r. ky_scope r = scope \<and> ky_key r = k) (cs_keys (pl_control p)) = None"
    using None assms(2) by (simp add: idempotent_get_def no_key_def)
  then have "(scope, k) \<notin> set (map (\<lambda>r. (ky_scope r, ky_key r)) (cs_keys (pl_control p1)))"
    by (auto simp: keys find_None_iff')
  then have "cs_keys (pl_control q) = cs_keys (pl_control p) @ [\<lparr>ky_scope = scope, ky_key = k, ky_response = r,
      ky_created_at = iso clk\<rparr>]"
    using assms(2) by (simp add: q idempotent_put_def op_upd_def keys del: set_map)
  moreover have "truthy r" using body_truthy [of d b p r] b by simp
  ultimately show ?thesis
    using assms(1,2) free
    by (simp add: idempotent_get_def no_key_def find_append answers_stored_def)
qed

lemma replayed:
  assumes "answers_stored p" "k \<noteq> []" "once_per_key scope (Some k) clk (body d b) p = (Inr r, q)"
  shows "once_per_key scope (Some k) clk' (body d' b') q = (Inr r, q) \<and> answers_stored q"
  using first_stores [OF assms] by (simp add: once_per_key_def)

end

named_theorems key_keeps

lemma event_keys [key_keeps]: "keeps (same_keys ks) (on_control (control_event_op ids clk kind payload w r f))"
  by (auto simp: keeps_def control_event_op_def Let_def split: sum.split)

lemma link_keys [key_keeps]: "keeps (same_keys ks) (on_control (link_run clk r w a obj))"
  by (simp add: keeps_def link_run_def op_upd_def)

lemma runtime_keys [key_keeps]: "keeps (same_keys ks) (on_runtime m)"
  by (simp add: keeps_def)

lemma fleet_keys [key_keeps]: "keeps (same_keys ks) (on_fleet m)"
  by (simp add: keeps_def)

lemma status_keys [key_keeps]: "keeps P m \<Longrightarrow> keeps P (http_status c m)"
  by (simp add: keeps_def)

lemma case_prod_keys [key_keeps]: "(\<And>a b. keeps P (f a b)) \<Longrightarrow> keeps P (case x of (a, b) \<Rightarrow> f a b)"
  by (cases x) simp

lemma dict_set_nonempty [simp]: "dict_set k v d \<noteq> []"
  by (cases "(k, v, d)" rule: dict_set.cases) auto

lemma merge_dict_nonempty: "kvs \<noteq> [] \<Longrightarrow> merge_dict d kvs \<noteq> []"
  by (induction kvs rule: rev_induct) (auto simp: merge_dict_def split: prod.split)

lemma op_bind_fst: "fst (op_bind m f p) = Inr r \<Longrightarrow> \<exists>a q. fst (f a q) = Inr r"
  by (auto simp: op_bind_def split: prod.splits sum.splits)

interpretation run_requests: keyed_request "''runs''" "\<lambda>(env, d). submit_run env d"
proof
  fix ks and d :: "plane_env \<times> draws" and b
  show "keeps (same_keys ks) ((case d of (env, d) \<Rightarrow> submit_run env d) b)"
    by (cases d) (simp add: submit_run_def, intro keeps_intros key_keeps)
next
  fix d :: "plane_env \<times> draws" and b p r
  assume "fst ((case d of (env, d) \<Rightarrow> submit_run env d) b p) = Inr r"
  then show "truthy r"
    by (cases d) (auto simp: submit_run_def op_ret_def op_raise_def merge_dict_nonempty
        split: if_splits prod.splits dest!: op_bind_fst)
qed

interpretation workflow_requests: keyed_request "''workflows''" submit_workflow
proof
  fix ks d b
  show "keeps (same_keys ks) (submit_workflow d b)"
    unfolding submit_workflow_def Let_def by (intro keeps_intros key_keeps)
next
  fix d b p r
  assume "fst (submit_workflow d b p) = Inr r"
  then show "truthy r" by (auto simp: submit_workflow_def Let_def op_ret_def dest!: op_bind_fst)
qed

interpretation demo_requests: keyed_request "''demo''" "\<lambda>env d. start_demo env d"
proof
  fix ks env d
  show "keeps (same_keys ks) (start_demo env d)"
    unfolding start_demo_def by (intro keeps_intros key_keeps)
next
  fix env d p r
  assume "fst (start_demo env d p) = Inr r"
  then show "truthy r" by (auto simp: start_demo_def op_ret_def split: prod.splits dest!: op_bind_fst)
qed

lemma open_plane_answers: "answers_stored (open_plane clk artifact_root files)"
  by (simp add: answers_stored_def open_plane_def open_control_def empty_control_def)


lemma workflow_request_once:
  assumes "answers_stored p" "k \<noteq> []" "post_workflow d (Some k) b p = (Inr r, q)" "workflow_body_valid b'"
  shows "post_workflow d' (Some k) b' q = (Inr r, q) \<and> answers_stored q"
proof -
  have "once_per_key ''workflows'' (Some k) (dr_clock d) (submit_workflow d b) p = (Inr r, q)"
    using assms(3) by (auto simp: post_workflow_def validated_def op_raise_def split: if_splits)
  from workflow_requests.replayed [OF assms(1,2) this, of "dr_clock d'" d' b'] assms(4)
  show ?thesis by (simp add: post_workflow_def validated_def)
qed

lemma demo_request_once:
  assumes "answers_stored p" "k \<noteq> []" "post_demo env d (Some k) p = (Inr r, q)"
  shows "post_demo env' d' (Some k) q = (Inr r, q) \<and> answers_stored q"
  using demo_requests.replayed [OF assms(1,2), of "dr_clock d" env d r q "dr_clock d'" env' d'] assms(3)
  by (simp add: post_demo_def)

section \<open>Approvals\<close>

lemma split_fleet_id:
  assumes "CHR '':'' \<notin> set workflow_id"
  shows "split_max 2 CHR '':'' (fleet_approval_id workflow_id node_id) = [''fleet'', workflow_id, node_id]"
proof -
  have part: "py_partition CHR '':'' (a @ CHR '':'' # b) = (a, [CHR '':''], b)" if "CHR '':'' \<notin> set a" for a b
    using that by (induction a) auto
  have "py_partition CHR '':'' (fleet_approval_id workflow_id node_id)
      = (''fleet'', [CHR '':''], workflow_id @ CHR '':'' # node_id)"
    using part [of "''fleet''"] by (simp add: fleet_approval_id_def)
  then show ?thesis
    using part [OF assms, of node_id] by (simp add: numeral_2_eq_2)
qed

lemma decide_fleet_id:
  assumes "CHR '':'' \<notin> set workflow_id"
  shows "decide_plane env d (fleet_approval_id workflow_id node_id) approved actor =
    decide_fleet env d (fleet_approval_id workflow_id node_id) workflow_id node_id approved actor"
proof -
  have "starts_with (fleet_approval_id workflow_id node_id) ''fleet:''"
    by (simp add: fleet_approval_id_def)
  then show ?thesis
    using split_fleet_id [OF assms] by (simp add: decide_plane_def)
qed

lemma approval_list_fleet:
  assumes "i \<in> set (approval_list p)" "ai_source i = ''fleet''"
  obtains n w where "n \<in> set (f_nodes (pl_fleet p))" "n_status n = N_AWAITING_APPROVAL"
    "w \<in> set (f_workflows (pl_fleet p))" "w_workflow_id w = n_workflow_id n"
    "ai_id i = fleet_approval_id (n_workflow_id n) (n_node_id n)"
    "ai_workflow i = Some (n_workflow_id n)" "ai_node i = Some (n_node_id n)"
proof -
  have "i \<notin> set (map runtime_approval (pending_approvals (pl_runtime p)))"
    using assms(2) by (auto simp: runtime_approval_def)
  then obtain n where n: "n \<in> set (f_nodes (pl_fleet p))" "n_status n = N_AWAITING_APPROVAL"
    "i \<in> set (fleet_approval (pl_fleet p) n)"
    using assms(1) by (auto simp: approval_list_def)
  then obtain w where "w \<in> set (f_workflows (pl_fleet p))" "w_workflow_id w = n_workflow_id n"
    "ai_id i = fleet_approval_id (n_workflow_id n) (n_node_id n)"
    "ai_workflow i = Some (n_workflow_id n)" "ai_node i = Some (n_node_id n)"
    by (auto simp: fleet_approval_def)
  with n show thesis using that by blast
qed

lemma rejected_effect:
  assumes "n \<in> set (f_nodes f)" "n_status n = N_AWAITING_APPROVAL" "wid = n_workflow_id n" "nid = n_node_id n"
  shows "fst (approve_and_drain env d wid nid False actor f) = Inr []"
    "f_nodes (snd (approve_and_drain env d wid nid False actor f)) =
       upd_where (\<lambda>m. is_node wid nid m \<and> n_status m = N_AWAITING_APPROVAL) (decide_node False actor (dr_clock d)) (f_nodes f)"
    "f_workflows (snd (approve_and_drain env d wid nid False actor f)) =
       upd_where (\<lambda>w. w_workflow_id w = wid) (\<lambda>w. w\<lparr>w_status := W_FAILED, w_updated_at := iso (dr_clock d)\<rparr>) (f_workflows f)"
proof -
  have "rowcount (\<lambda>m. is_node wid nid m \<and> n_status m = N_AWAITING_APPROVAL) (f_nodes f) \<noteq> 0"
    using assms by auto
  then show "fst (approve_and_drain env d wid nid False actor f) = Inr []"
    "f_nodes (snd (approve_and_drain env d wid nid False actor f)) =
       upd_where (\<lambda>m. is_node wid nid m \<and> n_status m = N_AWAITING_APPROVAL) (decide_node False actor (dr_clock d)) (f_nodes f)"
    "f_workflows (snd (approve_and_drain env d wid nid False actor f)) =
       upd_where (\<lambda>w. w_workflow_id w = wid) (\<lambda>w. w\<lparr>w_status := W_FAILED, w_updated_at := iso (dr_clock d)\<rparr>) (f_workflows f)"
    by (simp_all add: approve_and_drain_def op_bind_def op_ret_def fleet_approve_def Let_def
        fleet_event_def set_workflow_status_def del: rowcount_0_iff)
qed

text \<open>
  A listed approval of the fleet is answered for the node it names. Rejecting it by the id
  that the list shows, which the request takes apart again, succeeds when no workflow id has a
  colon, names the node's workflow, leaves that workflow failed, and takes the approval off the
  list: it can be decided once.
\<close>

theorem listed_approval_rejected:
  assumes listed: "i \<in> set (approval_list p)" "ai_source i = ''fleet''"
    and colon: "list_all (\<lambda>n. CHR '':'' \<notin> set (n_workflow_id n)) (f_nodes (pl_fleet p))"
    and fresh: "identifier_of ''evt'' (dr_ids d ''evt'') \<notin> set (map ce_id (cs_events (pl_control p)))"
  shows "\<exists>wid. ai_workflow i = Some wid
    \<and> fst (decide_plane env d (ai_id i) False actor p) = Inr (Fleet_decision (ai_id i) False wid [] W_FAILED)
    \<and> list_all (\<lambda>n. node_key n = (wid, the (ai_node i)) \<longrightarrow> n_status n \<noteq> N_AWAITING_APPROVAL)
        (f_nodes (pl_fleet (snd (decide_plane env d (ai_id i) False actor p))))"
proof -
  from listed obtain n w where n: "n \<in> set (f_nodes (pl_fleet p))" "n_status n = N_AWAITING_APPROVAL"
    and w: "w \<in> set (f_workflows (pl_fleet p))" "w_workflow_id w = n_workflow_id n"
    and i: "ai_id i = fleet_approval_id (n_workflow_id n) (n_node_id n)"
      "ai_workflow i = Some (n_workflow_id n)" "ai_node i = Some (n_node_id n)"
    by (rule approval_list_fleet)
  let ?wid = "n_workflow_id n" and ?nid = "n_node_id n"
  let ?m = "approve_and_drain env d ?wid ?nid False actor (pl_fleet p)"
  note r = rejected_effect [OF n refl refl, of env d actor]
  have "CHR '':'' \<notin> set ?wid" using colon n(1) by (simp add: list_all_iff)
  note dispatch = decide_fleet_id [OF this, of env d ?nid False actor]
  obtain w' ws where ws: "filter (\<lambda>w. w_workflow_id w = ?wid) (f_workflows (snd ?m)) = w' # ws"
    and w': "w_status w' = W_FAILED"
  proof -
    have "w\<lparr>w_status := W_FAILED, w_updated_at := iso (dr_clock d)\<rparr> \<in> set (f_workflows (snd ?m))"
      using w by (auto simp: r(3) set_upd_where)
    then have "w\<lparr>w_status := W_FAILED, w_updated_at := iso (dr_clock d)\<rparr>
        \<in> set (filter (\<lambda>w. w_workflow_id w = ?wid) (f_workflows (snd ?m)))"
      using w(2) by simp
    then obtain w' ws where f: "filter (\<lambda>w. w_workflow_id w = ?wid) (f_workflows (snd ?m)) = w' # ws"
      by (cases "filter (\<lambda>w. w_workflow_id w = ?wid) (f_workflows (snd ?m))") simp_all
    have "w' \<in> set (f_workflows (snd ?m)) \<and> w_workflow_id w' = ?wid" using filter_ConsD [OF f] .
    then have "w_status w' = W_FAILED"
      unfolding r(3) by (auto dest!: in_upd_whereD)
    with f show thesis using that by blast
  qed
  obtain f where m: "?m = (Inr [], f)" using r(1) by (metis prod.collapse)
  then have f: "snd ?m = f" by simp
  have "fst (decide_fleet env d (ai_id i) ?wid ?nid False actor p) = Inr (Fleet_decision (ai_id i) False ?wid [] W_FAILED)
      \<and> pl_fleet (snd (decide_fleet env d (ai_id i) ?wid ?nid False actor p)) = snd ?m"
    using w' fresh
    by (simp add: decide_fleet_def op_bind_def http_status_def on_fleet_def on_control_def control_event_op_def m
        insert_fresh Let_def op_gets_def op_lift_def op_ret_def fleet_view_def ws [unfolded f] del: set_map)
  moreover have "list_all (\<lambda>m. node_key m = (?wid, ?nid) \<longrightarrow> n_status m \<noteq> N_AWAITING_APPROVAL) (f_nodes (snd ?m))"
    unfolding r(2) list_all_iff by (auto simp: decide_node_def dest!: in_upd_whereD split: if_splits)
  ultimately show ?thesis
    using i dispatch by simp
qed

section \<open>The unified ledger\<close>

text \<open>A ledger read from its start with a limit is its oldest entries.\<close>

lemma oldest_entries:
  assumes "map seq es = [1..<Suc (length es)]" "0 < limit"
    and e: "e \<in> set (sql_limit limit (sort_key seq (filter (\<lambda>e. 0 < seq e) es)))"
  shows "int (seq e) \<le> limit \<and> e \<in> set es"
proof -
  have pos: "filter (\<lambda>e. 0 < seq e) es = es"
  proof (rule filter_True, rule ballI)
    fix x assume "x \<in> set es"
    then have "seq x \<in> set [1..<Suc (length es)]" unfolding assms(1) [symmetric] by simp
    then show "0 < seq x" by (simp del: upt_Suc)
  qed
  have "sorted (map seq es)" unfolding assms(1) by (rule sorted_upt)
  then have "e \<in> set (take (nat limit) es)"
    using e assms(2) by (simp add: pos sort_key_id_if_sorted sql_limit_def)
  then obtain i where i: "i < nat limit" "i < length es" "e = es ! i"
    by (auto simp: in_set_conv_nth)
  then have "seq e = map seq es ! i" by simp
  also have "\<dots> = Suc i" unfolding assms(1) using i(2) by (simp del: upt_Suc)
  finally show ?thesis using i by auto
qed

definition ledgers_numbered :: "plane \<Rightarrow> bool" where
  "ledgers_numbered p \<longleftrightarrow>
     map ev_seq (rt_events (pl_runtime p)) = [1..<Suc (length (rt_events (pl_runtime p)))]
     \<and> map e_seq (f_events (pl_fleet p)) = [1..<Suc (length (f_events (pl_fleet p)))]"

text \<open>
  The unified ledger holds at most as many events as it was asked for, newest first. But the
  runtime's and the fleet's ledgers are read from their starts: an event of either whose number is
  beyond the limit is never shown, so once a ledger has grown past the limit, none of its new events
  is, neither in the overview nor in the event streams, which ask for 16 and 100.
\<close>

theorem unified_ledger_window:
  assumes "ledgers_numbered p" "0 < limit"
  shows "int (length (unified_events limit p)) \<le> limit
    \<and> sorted (map (\<lambda>e. - ue_created_at e) (unified_events limit p))
    \<and> (\<forall>e \<in> set (unified_events limit p). ue_source e \<noteq> ''control'' \<longrightarrow> int (ue_sequence e) \<le> limit)"
proof (intro conjI ballI impI)
  show "int (length (unified_events limit p)) \<le> limit"
    using assms(2) by (simp add: unified_events_def)
  show "sorted (map (\<lambda>e. - ue_created_at e) (unified_events limit p))"
    unfolding unified_events_def take_map [symmetric] by (rule sorted_wrt_take) simp
  fix e assume "e \<in> set (unified_events limit p)" and src: "ue_source e \<noteq> ''control''"
  then have "e \<in> set (gathered limit p)"
    unfolding unified_events_def by (metis in_set_takeD set_sort)
  then consider r where "r \<in> set (rt_events_after 0 limit (pl_runtime p))" "e = unify_runtime (pl_control p) r"
    | f where "f \<in> set (fleet_events 0 limit (pl_fleet p))" "e = unify_fleet f"
    using src by (auto simp: gathered_def unify_control_def)
  then show "int (ue_sequence e) \<le> limit"
  proof cases
    case 1
    with oldest_entries [of ev_seq "rt_events (pl_runtime p)" limit r] assms show ?thesis
      by (simp add: rt_events_after_def ledgers_numbered_def unify_runtime_def)
  next
    case 2
    with oldest_entries [of e_seq "f_events (pl_fleet p)" limit f] assms show ?thesis
      by (simp add: fleet_events_def ledgers_numbered_def unify_fleet_def)
  qed
qed

section \<open>A small plane\<close>

definition small_env :: plane_env where
  "small_env = \<lparr>pe_sha = id, pe_agent = default_runtime
       \<lparr>os_fts = (\<lambda>_ _. []), os_float = (\<lambda>_. []), os_parse_url = (\<lambda>_. ([], None)), os_resolve = (\<lambda>_. []),
        os_fetch = (\<lambda>_. \<lparr>hr_status = 200, hr_content_type = [], hr_body = []\<rparr>), os_utc = (\<lambda>_. []), os_decode = id\<rparr>
       (offline_complete ''c'') [] [] 2,
     pe_token = [], pe_mode = ''offline'', pe_index = (\<lambda>_ _. Inr []), pe_loads = (\<lambda>_. Inr JNull)\<rparr>"

definition small_draws :: "string \<Rightarrow> clock \<Rightarrow> draws" where
  "small_draws hex clk = \<lparr>dr_clock = clk, dr_ids = (\<lambda>_. hex), dr_uuid = (\<lambda>_ n. nat_text n),
     dr_ticks = [(hex, clk, clk, nat_text), (hex @ ''0'', clk, clk, nat_text)]\<rparr>"

definition small_plane :: plane where
  "small_plane = open_plane 0 ''a'' []"

definition small_run :: "string \<Rightarrow> run_body" where
  "small_run input = \<lparr>rb_agent = ''agent_writer'', rb_workspace = ''ws_default'', rb_input = input,
     rb_session = Some ''s'', rb_wait = False, rb_metadata = []\<rparr>"

lemmas request_eval = post_run_def validated_def run_body_valid_def between_def once_per_key_def idempotent_get_def
  no_key_def submit_run_def start_run_def accept_run_def session_id_of_def run_envelope_of_def on_runtime_def on_control_def
  ensure_session_def active_prompt_def create_run_def add_message_def emit_def rt_event_def link_run_def
  control_event_op_def idempotent_put_def op_bind_def op_gets_def op_lift_def op_ret_def op_upd_def op_raise_def
  insert_row_def Let_def

theorem unified_ledger_window_witness:
  "map ue_id (unified_events 1 (small_plane\<lparr>pl_fleet := fleet_event ''b'' JNull None None 2
      (fleet_event ''a'' JNull None None 1 (pl_fleet small_plane))\<rparr>)) = [''fleet:1'']
   \<and> (\<exists>e. e \<in> set (unified_events 1 (small_plane\<lparr>pl_fleet := fleet_event ''b'' JNull None None 2
      (fleet_event ''a'' JNull None None 1 (pl_fleet small_plane))\<rparr>)) \<and> int (ue_sequence e) \<le> 1)"
  (is "map ue_id (unified_events 1 ?p) = _ \<and> _")
proof
  show *: "map ue_id (unified_events 1 ?p) = [''fleet:1'']" by code_simp
  then obtain e where e: "unified_events 1 ?p = [e]" by auto
  have "ledgers_numbered ?p" by code_simp
  moreover have "ue_source e \<noteq> ''control''"
  proof -
    have "map ue_source (unified_events 1 ?p) = [''fleet'']" by code_simp
    then show ?thesis by (simp add: e)
  qed
  ultimately have "int (ue_sequence e) \<le> 1"
    using unified_ledger_window [of ?p 1] e by simp
  with e show "\<exists>e. e \<in> set (unified_events 1 ?p) \<and> int (ue_sequence e) \<le> 1" by auto
qed

lemma small_agent: "''agent_writer'' \<in> set (map an_id (list_agents (Some ''ws_default'') (pl_control small_plane)))"
  by code_simp

lemma small_stores: "cs_keys (pl_control small_plane) = []" "cs_events (pl_control small_plane) = []"
  "pl_runtime small_plane = open_store 0 (empty_rt [])" "rt_sessions (open_store clk (empty_rt [])) = []"
  "rt_runs (open_store clk (empty_rt [])) = []" "rt_events (open_store clk (empty_rt [])) = []"
  "rt_prompts (open_store clk (empty_rt [])) = [\<lparr>pr_version = 1, pr_prompt = seed_prompt, pr_state = P_active,
     pr_score = None, pr_parent = None, pr_created_at = iso clk\<rparr>]"
  by (simp_all add: small_plane_def open_plane_def open_control_def empty_control_def open_store_def empty_rt_def)

lemma small_answers: "answers_stored small_plane"
  unfolding small_plane_def by (rule open_plane_answers)


definition plane_node :: "int \<Rightarrow> node_spec" where
  "plane_node tokens = (plain_node ''n'' ''release'')\<lparr>ns_budget := \<lparr>b_tokens = tokens, b_cost_usd = 1, b_seconds = 60\<rparr>\<rparr>"

definition gated_spec :: "string \<Rightarrow> int \<Rightarrow> workflow_spec" where
  "gated_spec name tokens = \<lparr>ws_name = name, ws_nodes = [(plane_node tokens)\<lparr>ns_approval_required := True\<rparr>],
     ws_metadata = JObj []\<rparr>"

definition gated_plane :: "int \<Rightarrow> plane" where
  "gated_plane tokens = small_plane\<lparr>pl_fleet :=
     snd (fleet_submit ''w1'' 1 (gated_spec ''g'' tokens) (pl_fleet small_plane))\<rparr>"

theorem listed_approval_rejected_witness:
  "fst (decide_plane small_env (small_draws ''b'' 2) ''fleet:wf_w1:n'' False ''op'' (gated_plane 5000))
   = Inr (Fleet_decision ''fleet:wf_w1:n'' False ''wf_w1'' [] W_FAILED)"
proof -
  have "map ai_id (approval_list (gated_plane 5000)) = [''fleet:wf_w1:n'']" by code_simp
  then obtain i where i: "approval_list (gated_plane 5000) = [i]" "ai_id i = ''fleet:wf_w1:n''" by auto
  have "map ai_source (approval_list (gated_plane 5000)) = [''fleet'']"
    "map ai_workflow (approval_list (gated_plane 5000)) = [Some ''wf_w1'']" by code_simp+
  then have "i \<in> set (approval_list (gated_plane 5000))" "ai_source i = ''fleet''" "ai_workflow i = Some ''wf_w1''"
    by (simp_all add: i(1))
  moreover have "list_all (\<lambda>n. CHR '':'' \<notin> set (n_workflow_id n)) (f_nodes (pl_fleet (gated_plane 5000)))"
    by code_simp
  moreover have "identifier_of ''evt'' (dr_ids (small_draws ''b'' 2) ''evt'') \<notin> set (map ce_id (cs_events (pl_control (gated_plane 5000))))"
    by (simp add: gated_plane_def small_stores)
  ultimately show ?thesis
    using listed_approval_rejected [of i "gated_plane 5000" "small_draws ''b'' 2" small_env "''op''"] i(2) by simp
qed

lemma over_budget_drain:
  "map_prod id (\<lambda>f. map (\<lambda>n. (n_status n, n_approval_actor n)) (f_nodes f))
     (approve_and_drain small_env (small_draws ''b'' 2) ''wf_w1'' ''n'' True ''op'' (pl_fleet (gated_plane 600)))
   = (Inl (ValueError ''Completion exceeds node budget''), [(N_LEASED, Some ''op'')])"
  by code_simp

text \<open>
  An approval that is lost. Approving a node makes the local demo worker run it, whatever the
  workflow, and that worker always reports 650 tokens: with a smaller budget the request answers
  409 as if nothing had happened, although the approval is stored, the node is leased to the demo
  worker, nothing is in the control ledger, and the approval is no longer listed.
\<close>

theorem approval_over_budget:
  "fst (decide_plane small_env (small_draws ''b'' 2) ''fleet:wf_w1:n'' True ''op'' (gated_plane 600))
     = Inl (HTTPException 409 ''Completion exceeds node budget'')
   \<and> map (\<lambda>n. (n_status n, n_approval_actor n))
       (f_nodes (pl_fleet (snd (decide_plane small_env (small_draws ''b'' 2) ''fleet:wf_w1:n'' True ''op'' (gated_plane 600)))))
     = [(N_LEASED, Some ''op'')]
   \<and> cs_events (pl_control (snd (decide_plane small_env (small_draws ''b'' 2) ''fleet:wf_w1:n'' True ''op'' (gated_plane 600)))) = []
   \<and> map ai_id (approval_list (gated_plane 600)) = [''fleet:wf_w1:n'']"
proof -
  have id: "''fleet:wf_w1:n'' = fleet_approval_id ''wf_w1'' ''n''" by (simp add: fleet_approval_id_def)
  have dispatch: "decide_plane small_env (small_draws ''b'' 2) ''fleet:wf_w1:n'' True ''op'' (gated_plane 600)
      = decide_fleet small_env (small_draws ''b'' 2) ''fleet:wf_w1:n'' ''wf_w1'' ''n'' True ''op'' (gated_plane 600)"
    unfolding id by (subst decide_fleet_id) simp_all
  obtain r f where m: "approve_and_drain small_env (small_draws ''b'' 2) ''wf_w1'' ''n'' True ''op'' (pl_fleet (gated_plane 600)) = (r, f)"
    by fastforce
  have "r = Inl (ValueError ''Completion exceeds node budget'')"
    "map (\<lambda>n. (n_status n, n_approval_actor n)) (f_nodes f) = [(N_LEASED, Some ''op'')]"
    using over_budget_drain unfolding m by simp_all
  moreover have "map ai_id (approval_list (gated_plane 600)) = [''fleet:wf_w1:n'']" by code_simp
  moreover have "cs_events (pl_control (gated_plane 600)) = []" by (simp add: gated_plane_def small_stores)
  ultimately show ?thesis
    unfolding dispatch by (simp add: decide_fleet_def op_bind_def http_status_def on_fleet_def m)
qed

end
