(* ===== verification/RealtimeWire.thy ===== *)
theory RealtimeWire
  imports PyText "HOL-Library.Word"
begin

text \<open>
  The media packets and the phrase chunker of the realtime service
  (\<^verbatim>\<open>services/realtime/src/echoweave/protocol.py\<close> and \<^verbatim>\<open>chunking.py\<close>). A byte is an \<open>8 word\<close>; the
  integer fields are Python integers, checked against their 32 bits before they are packed in
  little-endian order. The checks of the argument types hold by typing. The text the chunker cuts is
  a list of Unicode code points.
\<close>

section \<open>Media packets\<close>

type_synonym byte = "8 word"

datatype packet_kind = Mic_pcm16 | Tts_pcm16 | Video_fragment

definition kind_byte :: "packet_kind \<Rightarrow> byte" where
  "kind_byte k = (case k of Mic_pcm16 \<Rightarrow> 1 | Tts_pcm16 \<Rightarrow> 2 | Video_fragment \<Rightarrow> 3)"

text \<open>\<open>PacketKind(raw)\<close>.\<close>

definition kind_of_byte :: "byte \<Rightarrow> packet_kind option" where
  "kind_of_byte b =
     (if b = 1 then Some Mic_pcm16 else if b = 2 then Some Tts_pcm16 else if b = 3 then Some Video_fragment else None)"

record media_packet =
  mp_kind :: packet_kind
  mp_turn_id :: int
  mp_pts_ms :: int
  mp_payload :: "byte list"

definition magic_bytes :: "byte list" where
  "magic_bytes = [0x45, 0x57]"

definition uint32_max :: int where
  "uint32_max = 2 ^ 32 - 1"

definition header_size :: nat where
  "header_size = 12"

definition max_payload :: nat where
  "max_payload = 32 * 1024 * 1024"

text \<open>An unsigned 32-bit field of \<open>struct.Struct("<2sBBII")\<close>, lowest byte first.\<close>

definition le32 :: "int \<Rightarrow> byte list" where
  "le32 n = [word_of_int n, word_of_int (n div 2 ^ 8), word_of_int (n div 2 ^ 16), word_of_int (n div 2 ^ 24)]"

definition read32 :: "byte list \<Rightarrow> int" where
  "read32 bs = uint (bs ! 0) + 2 ^ 8 * uint (bs ! 1) + 2 ^ 16 * uint (bs ! 2) + 2 ^ 24 * uint (bs ! 3)"

definition pack_packet :: "packet_kind \<Rightarrow> int \<Rightarrow> int \<Rightarrow> byte list \<Rightarrow> py_error + byte list" where
  "pack_packet kind turn_id pts_ms payload =
     (if \<not> (0 \<le> turn_id \<and> turn_id \<le> uint32_max) \<or> \<not> (0 \<le> pts_ms \<and> pts_ms \<le> uint32_max)
      then Inl (ValueError ''turn_id and pts_ms must fit in unsigned 32-bit fields'')
      else if max_payload < length payload
      then Inl (ValueError ''media packet payload exceeds the protocol limit'')
      else Inr (magic_bytes @ [1, kind_byte kind] @ le32 turn_id @ le32 pts_ms @ payload))"

definition unpack_packet :: "byte list \<Rightarrow> py_error + media_packet" where
  "unpack_packet data =
     (if length data < header_size then Inl (ValueError ''media packet is shorter than the 12-byte header'')
      else if header_size + max_payload < length data then Inl (ValueError ''media packet exceeds the protocol limit'')
      else if take 2 data \<noteq> magic_bytes then Inl (ValueError ''invalid EchoWeave media packet magic'')
      else if data ! 2 \<noteq> 1
      then Inl (ValueError (''unsupported EchoWeave media protocol version: '' @ nat_text (unat (data ! 2))))
      else case kind_of_byte (data ! 3) of
        None \<Rightarrow> Inl (ValueError (''unknown media packet kind: '' @ nat_text (unat (data ! 3))))
      | Some kind \<Rightarrow> Inr \<lparr>mp_kind = kind, mp_turn_id = read32 (take 4 (drop 4 data)),
          mp_pts_ms = read32 (take 4 (drop 8 data)), mp_payload = drop header_size data\<rparr>)"

lemma kind_roundtrip [simp]: "kind_of_byte b = Some k \<longleftrightarrow> b = kind_byte k"
  by (cases k) (auto simp: kind_of_byte_def kind_byte_def)

lemma kind_of_kind_byte [simp]: "kind_of_byte (kind_byte k) = Some k"
  by simp

lemma byte_uint: "uint (word_of_int n :: byte) = n mod 2 ^ 8"
  by (simp add: uint_word_of_int)

lemma div_256_256: "n div 65536 = n div 256 div (256 :: int)" "n div 16777216 = n div 256 div 256 div (256 :: int)"
  using zdiv_zmult2_eq [of 256 n 256] zdiv_zmult2_eq [of 256 n 65536] zdiv_zmult2_eq [of 256 "n div 256" 256] by simp_all

lemma read_le32:
  assumes "0 \<le> n" "n \<le> uint32_max"
  shows "read32 (le32 n) = n"
proof -
  define q1 q2 q3 where q: "q1 = n div 256" "q2 = q1 div 256" "q3 = q2 div 256"
  have "q3 = n div 16777216" by (simp add: q div_256_256)
  moreover have "n < 16777216 * 256" using assms(2) by (simp add: uint32_max_def)
  ultimately have "0 \<le> q3 \<and> q3 < 256"
    using assms(1) mult_div_mod_eq [of 16777216 n] pos_mod_sign [of 16777216 n]
    by (simp add: pos_imp_zdiv_nonneg_iff)
  then have "q3 mod 256 = q3" by simp
  moreover have "n = 256 * q1 + n mod 256" "q1 = 256 * q2 + q1 mod 256" "q2 = 256 * q3 + q2 mod 256"
    by (simp_all add: q)
  moreover have "read32 (le32 n) = n mod 256 + 256 * (q1 mod 256) + 65536 * (q2 mod 256) + 16777216 * (q3 mod 256)"
    by (simp add: read32_def le32_def byte_uint q div_256_256)
  ultimately show ?thesis by linarith
qed

lemma uint_byte: "0 \<le> uint (b :: byte)" "uint (b :: byte) < 256"
  using uint_bounded [of b] by simp_all

lemma read32_range: "0 \<le> read32 bs \<and> read32 bs \<le> uint32_max"
  using uint_byte [of "bs ! 0"] uint_byte [of "bs ! 1"] uint_byte [of "bs ! 2"] uint_byte [of "bs ! 3"]
  by (simp add: read32_def uint32_max_def)

lemma le32_read:
  assumes "length bs = 4"
  shows "le32 (read32 bs) = bs"
proof -
  obtain a b c d where bs: "bs = [a, b, c, d]"
    using assms by (auto simp: length_Suc_conv numeral_eq_Suc)
  let ?n = "uint a + 256 * (uint b + 256 * (uint c + 256 * uint d))"
  have step: "(uint w + 256 * m) div 256 = m" "(uint w + 256 * m) mod 256 = uint w" for m and w :: byte
    using uint_byte [of w] by simp_all
  have digits: "?n mod 256 = uint a" "?n div 256 mod 256 = uint b" "?n div 65536 mod 256 = uint c"
    "?n div 16777216 mod 256 = uint d"
    unfolding div_256_256 step using uint_byte [of d] by simp_all
  have word: "word_of_int m = w" if "m mod 256 = uint w" for m and w :: byte
    by (rule word_uint_eqI) (simp add: uint_word_of_int that)
  have "read32 bs = ?n" by (simp add: bs read32_def)
  moreover have "le32 m = [word_of_int m, word_of_int (m div 256), word_of_int (m div 65536), word_of_int (m div 16777216)]" for m
    by (simp add: le32_def)
  ultimately show ?thesis
    by (simp only: word [OF digits(1)] word [OF digits(2)] word [OF digits(3)] word [OF digits(4)] bs)
qed

lemma length_le32 [simp]: "length (le32 n) = 4"
  by (simp add: le32_def)

text \<open>
  C22. Packets. Unpacking inverts packing, and packing inverts unpacking: a byte string is accepted
  with some fields exactly when it is the packet that packing those fields makes. So no two byte
  strings decode to the same packet, and whatever is malformed, too short, too long, of another
  version or kind, is refused.
\<close>

theorem packet_roundtrip:
  "unpack_packet data = Inr \<lparr>mp_kind = kind, mp_turn_id = turn_id, mp_pts_ms = pts_ms, mp_payload = payload\<rparr>
     \<longleftrightarrow> pack_packet kind turn_id pts_ms payload = Inr data"
proof
  assume "pack_packet kind turn_id pts_ms payload = Inr data"
  then have data: "data = magic_bytes @ [1, kind_byte kind] @ le32 turn_id @ le32 pts_ms @ payload"
    and range: "0 \<le> turn_id" "turn_id \<le> uint32_max" "0 \<le> pts_ms" "pts_ms \<le> uint32_max" "length payload \<le> max_payload"
    by (auto simp: pack_packet_def split: if_splits)
  have "take 2 data = magic_bytes" "data ! 2 = 1" "data ! 3 = kind_byte kind" "length data = 12 + length payload"
    by (simp_all add: data magic_bytes_def)
  moreover have "take 4 (drop 4 data) = le32 turn_id" "take 4 (drop 8 data) = le32 pts_ms" "drop 12 data = payload"
    by (simp_all add: data magic_bytes_def)
  ultimately show "unpack_packet data = Inr \<lparr>mp_kind = kind, mp_turn_id = turn_id, mp_pts_ms = pts_ms, mp_payload = payload\<rparr>"
    using range read_le32 by (simp add: unpack_packet_def header_size_def)
next
  assume "unpack_packet data = Inr \<lparr>mp_kind = kind, mp_turn_id = turn_id, mp_pts_ms = pts_ms, mp_payload = payload\<rparr>"
  then have len: "12 \<le> length data" "length data \<le> 12 + max_payload" and head: "take 2 data = magic_bytes" "data ! 2 = 1"
    and kind: "data ! 3 = kind_byte kind"
    and fields: "turn_id = read32 (take 4 (drop 4 data))" "pts_ms = read32 (take 4 (drop 8 data))" "payload = drop 12 data"
    by (auto simp: unpack_packet_def header_size_def split: if_splits option.splits)
  have four: "take 4 (drop 4 data) = le32 turn_id" "take 4 (drop 8 data) = le32 pts_ms"
    using fields le32_read len(1) by simp_all
  have "data = take 2 data @ [data ! 2, data ! 3] @ take 4 (drop 4 data) @ take 4 (drop 8 data) @ drop 12 data"
  proof (rule nth_equalityI)
    show "length data = length (take 2 data @ [data ! 2, data ! 3] @ take 4 (drop 4 data) @ take 4 (drop 8 data) @ drop 12 data)"
      using len(1) by simp
  next
    fix i assume "i < length data"
    moreover have "i = 2 \<or> i = 3 \<or> i < 2 \<or> 4 \<le> i \<and> i < 8 \<or> 8 \<le> i \<and> i < 12 \<or> 12 \<le> i" by arith
    ultimately show "data ! i = (take 2 data @ [data ! 2, data ! 3] @ take 4 (drop 4 data) @ take 4 (drop 8 data) @ drop 12 data) ! i"
      using len(1) by (auto simp: nth_append nth_Cons' min_def)
  qed
  then have "data = magic_bytes @ [1, kind_byte kind] @ le32 turn_id @ le32 pts_ms @ payload"
    unfolding head kind four fields(3) .
  moreover have "length payload \<le> max_payload" using len fields(3) by simp
  ultimately show "pack_packet kind turn_id pts_ms payload = Inr data"
    using read32_range fields by (simp add: pack_packet_def)
qed

section \<open>The phrase chunker\<close>

type_synonym utext = "nat list"

text \<open>The code points for which \<open>str.isspace\<close> holds.\<close>

definition uni_space :: "nat \<Rightarrow> bool" where
  "uni_space c \<longleftrightarrow> (9 \<le> c \<and> c \<le> 13) \<or> (28 \<le> c \<and> c \<le> 32) \<or> c = 133 \<or> c = 160 \<or> c = 5760
     \<or> (8192 \<le> c \<and> c \<le> 8202) \<or> c = 8232 \<or> c = 8233 \<or> c = 8239 \<or> c = 8287 \<or> c = 12288"

definition uni_strip :: "utext \<Rightarrow> utext" where
  "uni_strip s = rev (dropWhile uni_space (rev (dropWhile uni_space s)))"

text \<open>Full stop, exclamation and question mark and semicolon, full width or not, and the line feed;
  comma and colon.\<close>

definition strong_ending :: "nat \<Rightarrow> bool" where
  "strong_ending c \<longleftrightarrow> c \<in> {0x3002, 0xFF01, 0xFF1F, 0x21, 0x3F, 0xFF1B, 0x3B, 0x0A}"

definition soft_ending :: "nat \<Rightarrow> bool" where
  "soft_ending c \<longleftrightarrow> c \<in> {0xFF0C, 0x2C, 0xFF1A, 0x3A}"

record chunker =
  ck_min :: nat
  ck_max :: nat
  ck_buffer :: utext

definition new_chunker :: "int \<Rightarrow> int \<Rightarrow> py_error + chunker" where
  "new_chunker min_chars max_chars =
     (if min_chars < 1 then Inl (ValueError ''min_chars must be positive'')
      else if max_chars < min_chars
      then Inl (ValueError ''max_chars must be greater than or equal to min_chars'')
      else Inr \<lparr>ck_min = nat min_chars, ck_max = nat max_chars, ck_buffer = []\<rparr>)"

text \<open>\<open>_find_split\<close>; positions count from one.\<close>

definition strong_split :: "nat \<Rightarrow> nat \<Rightarrow> utext \<Rightarrow> nat option" where
  "strong_split mn mx buf =
     (if mn \<le> length buf
      then find (\<lambda>i. strong_ending (buf ! (i - 1)) \<and> mn \<le> i) [1..<Suc (min (length buf) mx)] else None)"

definition soft_splits :: "nat \<Rightarrow> utext \<Rightarrow> nat list" where
  "soft_splits mx buf = filter (\<lambda>i. soft_ending (buf ! (i - 1)) \<or> uni_space (buf ! (i - 1))) [1..<Suc mx]"

definition find_split :: "nat \<Rightarrow> nat \<Rightarrow> utext \<Rightarrow> nat option" where
  "find_split mn mx buf =
     (case strong_split mn mx buf of
        Some i \<Rightarrow> Some i
      | None \<Rightarrow>
          if mx \<le> length buf
          then (case soft_splits mx buf of [] \<Rightarrow> Some mx | is \<Rightarrow> Some (last is))
          else None)"

lemma strong_split_bounds: "strong_split mn mx buf = Some i \<Longrightarrow> 0 < i \<and> i \<le> mx \<and> i \<le> length buf"
  unfolding strong_split_def by (auto simp: min_def split: if_splits dest!: find_SomeD simp del: upt_Suc)

lemma find_split_bounds:
  assumes "find_split mn mx buf = Some i" "0 < mx"
  shows "0 < i \<and> i \<le> mx \<and> i \<le> length buf"
proof (cases "strong_split mn mx buf")
  case None
  with assms have len: "mx \<le> length buf"
    and i: "i = (case soft_splits mx buf of [] \<Rightarrow> mx | is \<Rightarrow> last is)"
    by (auto simp: find_split_def split: if_splits list.splits)
  have "last (soft_splits mx buf) \<in> set (soft_splits mx buf)" if "soft_splits mx buf \<noteq> []"
    using that by simp
  then have "i = mx \<or> 0 < i \<and> i \<le> mx"
    using i by (auto simp: soft_splits_def split: list.splits simp del: upt_Suc)
  with len assms(2) show ?thesis by auto
qed (use assms strong_split_bounds in \<open>simp add: find_split_def\<close>)

text \<open>
  The loop of \<open>push\<close>. The constructor refuses a largest size of zero, which would never end; a
  split position is positive otherwise, so the buffer shrinks.
\<close>

function take_phrases :: "nat \<Rightarrow> nat \<Rightarrow> utext \<Rightarrow> utext list \<times> utext" where
  "take_phrases mn mx buf =
     (if buf = [] \<or> mx = 0 then ([], buf)
      else case find_split mn mx buf of
        None \<Rightarrow> ([], buf)
      | Some i \<Rightarrow>
          let phrase = uni_strip (take i buf); (ready, rest) = take_phrases mn mx (drop i buf) in
          (if phrase = [] then ready else phrase # ready, rest))"
  by pat_completeness auto

termination take_phrases
proof (relation "measure (\<lambda>(mn, mx, buf). length buf)")
  fix mn mx :: nat and buf :: utext and i :: nat
  assume "\<not> (buf = [] \<or> mx = 0)" "find_split mn mx buf = Some i"
  then show "((mn, mx, drop i buf), mn, mx, buf) \<in> measure (\<lambda>(mn, mx, buf). length buf)"
    using find_split_bounds [of mn mx buf i] by auto
qed simp

declare take_phrases.simps [simp del]

definition push_delta :: "utext \<Rightarrow> chunker \<Rightarrow> utext list \<times> chunker" where
  "push_delta delta c =
     (if delta = [] then ([], c)
      else case take_phrases (ck_min c) (ck_max c) (ck_buffer c @ delta) of
        (ready, rest) \<Rightarrow> (ready, c\<lparr>ck_buffer := rest\<rparr>))"

definition flush_chunker :: "chunker \<Rightarrow> utext \<times> chunker" where
  "flush_chunker c = (uni_strip (ck_buffer c), c\<lparr>ck_buffer := []\<rparr>)"

definition visible_text :: "utext \<Rightarrow> utext" where
  "visible_text s = filter (\<lambda>c. \<not> uni_space c) s"

lemma visible_append [simp]: "visible_text (a @ b) = visible_text a @ visible_text b"
  by (simp add: visible_text_def)

lemma visible_dropWhile: "visible_text (dropWhile uni_space s) = visible_text s"
  by (induction s) (simp_all add: visible_text_def)

lemma visible_rev: "visible_text (rev s) = rev (visible_text s)"
  by (simp add: visible_text_def rev_filter)

lemma visible_strip [simp]: "visible_text (uni_strip s) = visible_text s"
  by (simp add: uni_strip_def visible_rev visible_dropWhile)

lemma visible_Nil [simp]: "visible_text [] = []"
  by (simp add: visible_text_def)

lemma length_strip: "length (uni_strip s) \<le> length s"
  unfolding uni_strip_def using length_dropWhile_le by (metis le_trans length_rev)

definition phrase_ok :: "nat \<Rightarrow> utext \<Rightarrow> bool" where
  "phrase_ok mx p \<longleftrightarrow> p \<noteq> [] \<and> length p \<le> mx \<and> \<not> uni_space (hd p) \<and> \<not> uni_space (last p)"

lemma strip_ends: "uni_strip s \<noteq> [] \<Longrightarrow> \<not> uni_space (hd (uni_strip s)) \<and> \<not> uni_space (last (uni_strip s))"
proof -
  assume ne: "uni_strip s \<noteq> []"
  let ?d = "dropWhile uni_space s"
  have "?d \<noteq> []"
  proof
    assume "?d = []"
    then have "uni_strip s = []" unfolding uni_strip_def by (simp only: rev.simps dropWhile.simps)
    with ne show False by blast
  qed
  then have hd: "\<not> uni_space (hd ?d)" by (rule hd_dropWhile)
  have e: "uni_strip s = rev (dropWhile uni_space (rev ?d))" by (simp add: uni_strip_def)
  have "dropWhile uni_space (rev ?d) \<noteq> []"
    using ne unfolding e by simp
  then have "\<not> uni_space (hd (dropWhile uni_space (rev ?d)))"
    by (rule hd_dropWhile)
  then have last: "\<not> uni_space (last (uni_strip s))"
    using ne by (simp add: e last_rev)
  obtain ys where ys: "rev ?d = ys @ dropWhile uni_space (rev ?d)"
    by (metis takeWhile_dropWhile_id)
  then have "?d = rev (dropWhile uni_space (rev ?d)) @ rev ys"
    by (metis rev_append rev_rev_ident)
  then have "?d = uni_strip s @ rev ys" by (simp add: uni_strip_def)
  then have "hd (uni_strip s) = hd ?d" using ne by (metis hd_append)
  with hd last show ?thesis by simp
qed

lemma take_phrases_props:
  "0 < mn \<Longrightarrow> mn \<le> mx \<Longrightarrow> take_phrases mn mx buf = (ready, rest) \<Longrightarrow>
     visible_text (concat ready) @ visible_text rest = visible_text buf
     \<and> list_all (phrase_ok mx) ready \<and> length rest < mx \<and> find_split mn mx rest = None"
proof (induction mn mx buf arbitrary: ready rest rule: take_phrases.induct)
  case (1 mn mx buf)
  show ?case
  proof (cases "buf = []")
    case True
    with 1 show ?thesis
      by (auto simp: take_phrases.simps [of mn mx "[]"] find_split_def strong_split_def)
  next
    case ne: False
    then have go: "\<not> (buf = [] \<or> mx = 0)" using 1(2,3) by simp
    show ?thesis
    proof (cases "find_split mn mx buf")
      case None
      then have "length buf < mx" by (auto simp: find_split_def split: option.splits if_splits list.splits)
      with None go 1(4) show ?thesis by (auto simp: take_phrases.simps [of mn mx buf])
    next
      case (Some i)
      obtain ready' rest' where rec: "take_phrases mn mx (drop i buf) = (ready', rest')" by fastforce
      have parts: "ready = (if uni_strip (take i buf) = [] then ready' else uni_strip (take i buf) # ready')" "rest = rest'"
        using 1(4) go Some rec by (auto simp: take_phrases.simps [of mn mx buf] Let_def)
      have ih: "visible_text (concat ready') @ visible_text rest' = visible_text (drop i buf)
          \<and> list_all (phrase_ok mx) ready' \<and> length rest' < mx \<and> find_split mn mx rest' = None"
        by (rule 1(1) [OF go Some refl 1(2,3) rec])
      have "length (take i buf) \<le> mx" using find_split_bounds [OF Some] go by simp
      then have phrase: "uni_strip (take i buf) \<noteq> [] \<Longrightarrow> phrase_ok mx (uni_strip (take i buf))"
        using length_strip [of "take i buf"] strip_ends by (auto simp: phrase_ok_def)
      have "visible_text (take i buf) = [] " if "uni_strip (take i buf) = []"
        using visible_strip [of "take i buf"] that by simp
      moreover have "visible_text buf = visible_text (take i buf) @ visible_text (drop i buf)"
        by (metis append_take_drop_id visible_append)
      ultimately show ?thesis using ih phrase by (auto simp: parts)
    qed
  qed
qed

definition chunker_ok :: "chunker \<Rightarrow> bool" where
  "chunker_ok c \<longleftrightarrow> 0 < ck_min c \<and> ck_min c \<le> ck_max c \<and> length (ck_buffer c) < ck_max c
     \<and> find_split (ck_min c) (ck_max c) (ck_buffer c) = None"

lemma new_chunker_ok: "new_chunker mn mx = Inr c \<Longrightarrow> chunker_ok c"
  by (auto simp: new_chunker_def chunker_ok_def find_split_def strong_split_def split: if_splits)

lemma chunker_lossless_step:
  assumes "chunker_ok c" "push_delta delta c = (ready, c')"
  shows "chunker_ok c'
    \<and> visible_text (concat ready) @ visible_text (ck_buffer c') = visible_text (ck_buffer c) @ visible_text delta
    \<and> list_all (phrase_ok (ck_max c)) ready
    \<and> visible_text (fst (flush_chunker c')) = visible_text (ck_buffer c')"
proof (cases "delta = []")
  case True
  with assms show ?thesis by (auto simp: push_delta_def flush_chunker_def)
next
  case False
  obtain rest where r: "take_phrases (ck_min c) (ck_max c) (ck_buffer c @ delta) = (ready, rest)"
    and c': "c' = c\<lparr>ck_buffer := rest\<rparr>"
    using assms(2) False by (auto simp: push_delta_def split: prod.splits)
  have "0 < ck_min c" "ck_min c \<le> ck_max c" using assms(1) by (simp_all add: chunker_ok_def)
  from take_phrases_props [OF this r] show ?thesis
    using assms(1) by (auto simp: c' chunker_ok_def flush_chunker_def)
qed

text \<open>
  C23. The chunker loses nothing and always ends. Every pushed character that is not white space is,
  in order, in the phrases handed out or still in the buffer; a phrase is not empty, not longer than
  the largest size, and has no white space at its ends; and what stays in the buffer is shorter than
  the largest size and holds no complete phrase.
\<close>

theorem chunker_lossless:
  assumes "chunker_ok c" "push_delta delta c = (ready, c')"
  shows "chunker_ok c'
    \<and> visible_text (concat ready) @ visible_text (ck_buffer c') = visible_text (ck_buffer c) @ visible_text delta
    \<and> list_all (phrase_ok (ck_max c)) ready
    \<and> visible_text (fst (flush_chunker c')) = visible_text (ck_buffer c')"
  using chunker_lossless_step [OF assms] .

theorem chunker_lossless_witness:
  "\<exists>ready c'. push_delta [0x48, 0x69, 0x21, 0x20, 0x59] \<lparr>ck_min = 2, ck_max = 4, ck_buffer = []\<rparr> = (ready, c')
     \<and> length ready = 1 \<and> list_all (phrase_ok 4) ready"
proof -
  let ?c = "\<lparr>ck_min = 2, ck_max = 4, ck_buffer = []\<rparr>" and ?d = "[0x48, 0x69, 0x21, 0x20, 0x59] :: utext"
  obtain ready c' where p: "push_delta ?d ?c = (ready, c')" by fastforce
  have upto: "[1..<5] = [1, 2, 3, 4 :: nat]" "[1..<3] = [1, 2 :: nat]" by (simp_all add: upt_rec)
  have "strong_split 2 4 ?d = find (\<lambda>i. strong_ending (?d ! (i - 1)) \<and> 2 \<le> i) [1..<5]"
    "strong_split 2 4 [0x20, 0x59] = find (\<lambda>i. strong_ending ([0x20, 0x59] ! (i - 1)) \<and> 2 \<le> i) [1..<3]"
    by (simp_all add: strong_split_def min_def eval_nat_numeral del: upt_Suc)
  then have "strong_split 2 4 ?d = Some 3" "strong_split 2 4 [0x20, 0x59] = None"
    unfolding upto by (simp_all add: strong_ending_def)
  then have "find_split 2 4 ?d = Some 3" "find_split 2 4 [0x20, 0x59] = None"
    by (simp_all add: find_split_def)
  moreover have "uni_strip [0x48, 0x69, 0x21] \<noteq> []"
    by (simp add: uni_strip_def uni_space_def)
  moreover have "take 3 ?d = [0x48, 0x69, 0x21]" "drop 3 ?d = [0x20, 0x59]" by simp_all
  ultimately have "length (fst (push_delta ?d ?c)) = 1"
    by (simp add: push_delta_def take_phrases.simps [of 2 4 ?d] take_phrases.simps [of 2 4 "[0x20, 0x59]"])
  moreover have "chunker_ok ?c" by (simp add: chunker_ok_def find_split_def strong_split_def)
  ultimately show ?thesis using chunker_lossless [OF _ p] p by auto
qed

end
