(* ===== verification/RealtimeText.thy ===== *)
theory RealtimeText
  imports RealtimeWire
begin

text \<open>
  The encodings of the standard library the realtime service relies on: UTF-8, JSON
  (\<^verbatim>\<open>json.loads\<close> and \<^verbatim>\<open>json.dumps\<close> with sorted keys and compact separators) and URL-safe base64
  without padding (\<^verbatim>\<open>services/realtime/src/echoweave/auth.py\<close>, \<open>_canonical_json\<close>, \<open>_b64encode\<close>,
  \<open>_b64decode\<close>). Text is a list of code points, a byte is an \<open>8 word\<close>. The parser recurses on fuel,
  and \<open>parse_value_fuel\<close> shows that one more than twice the length of the text is always enough. Rounding of
  floats and the recursion limit of the interpreter are not modelled.
\<close>

section \<open>UTF-8\<close>

definition uni :: "string \<Rightarrow> utext" where
  "uni s = map ord_of s"

lemma uni_append [simp]: "uni (a @ b) = uni a @ uni b"
  by (simp add: uni_def)

definition surrogate :: "nat \<Rightarrow> bool" where
  "surrogate c \<longleftrightarrow> 0xD800 \<le> c \<and> c \<le> 0xDFFF"

text \<open>A code point that stands for a character, which a surrogate does not.\<close>

definition scalar :: "nat \<Rightarrow> bool" where
  "scalar c \<longleftrightarrow> c < 0x110000 \<and> \<not> surrogate c"

definition byte_of :: "nat \<Rightarrow> byte" where
  "byte_of n = of_nat n"

lemma unat_byte_of [simp]: "n < 256 \<Longrightarrow> unat (byte_of n) = n"
  by (simp add: byte_of_def unat_of_nat)

lemma byte_of_unat [simp]: "byte_of (unat b) = b"
  by (simp add: byte_of_def)

definition utf8_char :: "nat \<Rightarrow> byte list" where
  "utf8_char c =
     (if c < 0x80 then [byte_of c]
      else if c < 0x800 then [byte_of (0xC0 + c div 64), byte_of (0x80 + c mod 64)]
      else if c < 0x10000 then [byte_of (0xE0 + c div 4096), byte_of (0x80 + c div 64 mod 64), byte_of (0x80 + c mod 64)]
      else [byte_of (0xF0 + c div 262144), byte_of (0x80 + c div 4096 mod 64), byte_of (0x80 + c div 64 mod 64),
        byte_of (0x80 + c mod 64)])"

text \<open>\<open>text.encode("utf-8")\<close>; a surrogate raises \<open>UnicodeEncodeError\<close>.\<close>

definition utf8_encode :: "utext \<Rightarrow> byte list option" where
  "utf8_encode s = (if list_all scalar s then Some (concat (map utf8_char s)) else None)"

definition continuation :: "byte \<Rightarrow> bool" where
  "continuation b \<longleftrightarrow> 0x80 \<le> unat b \<and> unat b < 0xC0"

definition low6 :: "byte \<Rightarrow> nat" where
  "low6 b = unat b - 0x80"

text \<open>\<open>data.decode("utf-8")\<close>: overlong forms, surrogates and values over 0x10FFFF are refused.\<close>

fun utf8_decode :: "byte list \<Rightarrow> utext option" where
  "utf8_decode [] = Some []"
| "utf8_decode (a # s) =
     (if unat a < 0x80 then map_option ((#) (unat a)) (utf8_decode s)
      else if unat a < 0xE0 then
        (case s of
           b # r \<Rightarrow>
             let c = (unat a - 0xC0) * 64 + low6 b in
             if 0xC0 \<le> unat a \<and> continuation b \<and> 0x80 \<le> c then map_option ((#) c) (utf8_decode r) else None
         | _ \<Rightarrow> None)
      else if unat a < 0xF0 then
        (case s of
           b # b' # r \<Rightarrow>
             let c = (unat a - 0xE0) * 4096 + low6 b * 64 + low6 b' in
             if continuation b \<and> continuation b' \<and> 0x800 \<le> c \<and> \<not> surrogate c
             then map_option ((#) c) (utf8_decode r) else None
         | _ \<Rightarrow> None)
      else
        (case s of
           b # b' # b'' # r \<Rightarrow>
             let c = (unat a - 0xF0) * 262144 + low6 b * 4096 + low6 b' * 64 + low6 b'' in
             if continuation b \<and> continuation b' \<and> continuation b'' \<and> 0x10000 \<le> c \<and> c < 0x110000
             then map_option ((#) c) (utf8_decode r) else None
         | _ \<Rightarrow> None))"

lemma tail_byte [simp]: "continuation (byte_of (0x80 + n mod 64))" "low6 (byte_of (0x80 + n mod 64)) = n mod 64"
proof -
  have "128 + n mod 64 < 256" using pos_mod_bound [of 64 n] by simp
  then show "continuation (byte_of (0x80 + n mod 64))" "low6 (byte_of (0x80 + n mod 64)) = n mod 64"
    unfolding continuation_def low6_def by simp_all
qed

lemma six_bits: "c = c div 64 * 64 + c mod (64 :: nat)"
  "c = c div 4096 * 4096 + c div 64 mod 64 * 64 + c mod (64 :: nat)"
  "c = c div 262144 * 262144 + c div 4096 mod 64 * 4096 + c div 64 mod 64 * 64 + c mod (64 :: nat)"
proof -
  show a: "c = c div 64 * 64 + c mod 64" by simp
  have q: "c div 4096 = c div 64 div 64" "c div 262144 = c div 64 div 64 div 64"
    by (simp_all add: div_mult2_eq [of c 64 64, simplified] div_mult2_eq [of c 4096 64, simplified])
  have b: "c div 64 = c div 64 div 64 * 64 + c div 64 mod 64" by simp
  have d: "c div 64 div 64 = c div 64 div 64 div 64 * 64 + c div 64 div 64 mod 64" by simp
  show "c = c div 4096 * 4096 + c div 64 mod 64 * 64 + c mod 64" unfolding q using a b by linarith
  show "c = c div 262144 * 262144 + c div 4096 mod 64 * 4096 + c div 64 mod 64 * 64 + c mod 64"
    unfolding q using a b d by linarith
qed

lemma utf8_decode_char:
  assumes "scalar c"
  shows "utf8_decode (utf8_char c @ s) = map_option ((#) c) (utf8_decode s)"
proof -
  consider "c < 0x80" | "0x80 \<le> c" "c < 0x800" | "0x800 \<le> c" "c < 0x10000" | "0x10000 \<le> c" "c < 0x110000"
    using assms by (fastforce simp: scalar_def)
  then show ?thesis
  proof cases
    case 1
    then show ?thesis by (simp add: utf8_char_def)
  next
    case 2
    define q where "q = c div 64"
    have "q < 32" unfolding q_def using 2 by (simp add: div_less_iff_less_mult)
    moreover have "q * 64 + c mod 64 = c" by (simp add: q_def)
    ultimately show ?thesis
      using 2 by (simp add: utf8_char_def Let_def q_def [symmetric])
  next
    case 3
    define q where "q = c div 4096"
    have "q < 16" unfolding q_def using 3 by (simp add: div_less_iff_less_mult)
    moreover have "q * 4096 + c div 64 mod 64 * 64 + c mod 64 = c" using six_bits(2) [of c] by (simp add: q_def)
    ultimately show ?thesis
      using 3 assms by (simp add: utf8_char_def Let_def scalar_def q_def [symmetric])
  next
    case 4
    define q where "q = c div 262144"
    have "q < 5" unfolding q_def using 4 by (simp add: div_less_iff_less_mult)
    moreover have "q * 262144 + c div 4096 mod 64 * 4096 + c div 64 mod 64 * 64 + c mod 64 = c"
      using six_bits(3) [of c] by (simp add: q_def)
    ultimately show ?thesis
      using 4 by (simp add: utf8_char_def Let_def q_def [symmetric])
  qed
qed

lemma utf8_roundtrip: "utf8_encode s = Some bs \<Longrightarrow> utf8_decode bs = Some s"
proof -
  have "list_all scalar s \<Longrightarrow> utf8_decode (concat (map utf8_char s)) = Some s"
    by (induction s) (simp_all add: utf8_decode_char)
  then show "utf8_encode s = Some bs \<Longrightarrow> utf8_decode bs = Some s"
    by (auto simp: utf8_encode_def split: if_splits)
qed

lemma utf8_ascii: "list_all (\<lambda>c. c < 128) s \<Longrightarrow> utf8_encode s = Some (map byte_of s)"
proof -
  assume "list_all (\<lambda>c. c < 128) s"
  then have "list_all scalar s \<and> concat (map utf8_char s) = map byte_of s"
    by (induction s) (auto simp: scalar_def surrogate_def utf8_char_def)
  then show ?thesis by (simp add: utf8_encode_def)
qed

section \<open>JSON\<close>

text \<open>
  A decoded value; an object is its items in order. The three constants that are not JSON but that
  \<open>json.loads\<close> reads are kept as text.
\<close>

datatype ujson =
    UNull
  | UBool bool
  | UInt int
  | UFloat rat
  | UConst utext
  | UStr utext
  | UArr "ujson list"
  | UObj "(utext \<times> ujson) list"

definition uget :: "string \<Rightarrow> (utext \<times> ujson) list \<Rightarrow> ujson option" where
  "uget k kvs = map_of kvs (uni k)"

text \<open>A fault of \<open>json.loads\<close>: invalid text, what the strict reader refuses (a repeated key, a
  constant that is not JSON), an integer over the digit limit of the interpreter. Fuel never runs out.\<close>

datatype json_fault = Json_invalid | Json_duplicate | Json_constant | Json_digits | Json_fuel

definition skip_ws :: "utext \<Rightarrow> utext" where
  "skip_ws s = dropWhile (\<lambda>c. c = 32 \<or> c = 9 \<or> c = 10 \<or> c = 13) s"

definition udigit :: "nat \<Rightarrow> bool" where
  "udigit c \<longleftrightarrow> 48 \<le> c \<and> c \<le> 57"

definition hex_value :: "nat \<Rightarrow> nat option" where
  "hex_value c =
     (if udigit c then Some (c - 48) else if 97 \<le> c \<and> c \<le> 102 then Some (c - 87)
      else if 65 \<le> c \<and> c \<le> 70 then Some (c - 55) else None)"

definition hex4 :: "utext \<Rightarrow> nat option" where
  "hex4 s =
     (case s of a # b # c # d # _ \<Rightarrow>
        (case (hex_value a, hex_value b, hex_value c, hex_value d) of
           (Some w, Some x, Some y, Some z) \<Rightarrow> Some (4096 * w + 256 * x + 16 * y + z) | _ \<Rightarrow> None)
      | _ \<Rightarrow> None)"

text \<open>A high surrogate followed by the escape of a low one is one code point.\<close>

definition escaped_unit :: "utext \<Rightarrow> (nat \<times> utext) option" where
  "escaped_unit s =
     (case hex4 s of None \<Rightarrow> None
      | Some n \<Rightarrow>
          let r = drop 4 s in
          if 0xD800 \<le> n \<and> n \<le> 0xDBFF \<and> take 2 r = [92, 117]
          then (case hex4 (drop 2 r) of
                  Some m \<Rightarrow>
                    if 0xDC00 \<le> m \<and> m \<le> 0xDFFF
                    then Some (0x10000 + (n - 0xD800) * 1024 + (m - 0xDC00), drop 6 r) else Some (n, r)
                | None \<Rightarrow> Some (n, r))
          else Some (n, r))"

definition short_escape :: "nat \<Rightarrow> nat option" where
  "short_escape c = map_of [(34, 34), (92, 92), (47, 47), (98, 8), (102, 12), (110, 10), (114, 13), (116, 9)] c"

lemma escaped_unit_length: "escaped_unit s = Some (n, r) \<Longrightarrow> length r \<le> length s"
  by (auto simp: escaped_unit_def Let_def split: option.splits if_splits)

text \<open>The text after an opening quotation mark, up to the closing one.\<close>

function scan_string :: "utext \<Rightarrow> (utext \<times> utext) option" where
  "scan_string [] = None"
| "scan_string (c # s) =
     (if c = 34 then Some ([], s)
      else if c = 92 then
        (case s of [] \<Rightarrow> None
         | e # s' \<Rightarrow>
             (case (if e = 117 then escaped_unit s' else map_option (\<lambda>x. (x, s')) (short_escape e)) of
                None \<Rightarrow> None
              | Some (x, r) \<Rightarrow> map_option (\<lambda>(t, r'). (x # t, r')) (scan_string r)))
      else if c < 32 then None
      else map_option (\<lambda>(t, r'). (c # t, r')) (scan_string s))"
  by pat_completeness auto
termination
  by (relation "measure length") (auto dest: escaped_unit_length split: if_splits)

definition dec_value :: "utext \<Rightarrow> nat" where
  "dec_value ds = foldl (\<lambda>a d. 10 * a + (d - 48)) 0 ds"

definition signed :: "bool \<Rightarrow> nat \<Rightarrow> int" where
  "signed neg n = (if neg then - int n else int n)"

text \<open>\<open>_match_number\<close>: an optional fraction and exponent make a float.\<close>

definition scan_fraction :: "utext \<Rightarrow> utext \<times> utext" where
  "scan_fraction s =
     (case s of d # e # t \<Rightarrow> if d = 46 \<and> udigit e then (takeWhile udigit (e # t), dropWhile udigit (e # t)) else ([], s)
      | _ \<Rightarrow> ([], s))"

definition scan_exponent :: "utext \<Rightarrow> int option \<times> utext" where
  "scan_exponent s =
     (case s of [] \<Rightarrow> (None, s)
      | e # t \<Rightarrow>
          if e \<noteq> 101 \<and> e \<noteq> 69 then (None, s)
          else let t' = (if t \<noteq> [] \<and> (hd t = 43 \<or> hd t = 45) then tl t else t);
                   ds = takeWhile udigit t' in
               if ds = [] then (None, s) else (Some (signed (hd t = 45) (dec_value ds)), dropWhile udigit t'))"

definition power_of_ten :: "int \<Rightarrow> rat" where
  "power_of_ten e = (if 0 \<le> e then 10 ^ nat e else 1 / 10 ^ nat (- e))"

definition scan_unsigned :: "bool \<Rightarrow> utext \<Rightarrow> json_fault + (ujson \<times> utext)" where
  "scan_unsigned neg r =
     (if r = [] \<or> \<not> udigit (hd r) then Inl Json_invalid
      else let ds = (if hd r = 48 then [48] else takeWhile udigit r);
               (frac, r') = scan_fraction (drop (length ds) r);
               (ex, r'') = scan_exponent r' in
           if frac = [] \<and> ex = None
           then (if 4300 < length ds then Inl Json_digits else Inr (UInt (signed neg (dec_value ds)), drop (length ds) r))
           else Inr (UFloat ((if neg then -1 else 1) * of_nat (dec_value (ds @ frac)) / 10 ^ length frac
                     * power_of_ten (case ex of None \<Rightarrow> 0 | Some e \<Rightarrow> e)), r''))"

definition scan_number :: "utext \<Rightarrow> json_fault + (ujson \<times> utext)" where
  "scan_number s = (if s \<noteq> [] \<and> hd s = 45 then scan_unsigned True (tl s) else scan_unsigned False s)"

text \<open>The strict reader (\<open>object_pairs_hook\<close> and \<open>parse_constant\<close> given) refuses repeated keys; otherwise
  the last value of a key is kept, at the place of the first.\<close>

definition make_object :: "bool \<Rightarrow> (utext \<times> ujson) list \<Rightarrow> json_fault + ujson" where
  "make_object strict kvs =
     (if \<not> strict then Inr (UObj (fold (\<lambda>(k, v). dict_set k v) kvs []))
      else if distinct (map fst kvs) then Inr (UObj kvs) else Inl Json_duplicate)"

definition after_prefix :: "string \<Rightarrow> utext \<Rightarrow> utext option" where
  "after_prefix p s = (if take (length p) s = uni p then Some (drop (length p) s) else None)"

definition scan_literal :: "bool \<Rightarrow> utext \<Rightarrow> json_fault + (ujson \<times> utext)" where
  "scan_literal strict s =
     (case after_prefix ''null'' s of Some r \<Rightarrow> Inr (UNull, r) | None \<Rightarrow>
      case after_prefix ''true'' s of Some r \<Rightarrow> Inr (UBool True, r) | None \<Rightarrow>
      case after_prefix ''false'' s of Some r \<Rightarrow> Inr (UBool False, r) | None \<Rightarrow>
      case find (\<lambda>c. after_prefix c s \<noteq> None) [''NaN'', ''Infinity'', ''-Infinity''] of
        Some c \<Rightarrow> if strict then Inl Json_constant else Inr (UConst (uni c), drop (length c) s)
      | None \<Rightarrow> scan_number s)"

fun parse_value :: "bool \<Rightarrow> nat \<Rightarrow> utext \<Rightarrow> json_fault + (ujson \<times> utext)"
and parse_elements :: "bool \<Rightarrow> nat \<Rightarrow> utext \<Rightarrow> json_fault + (ujson list \<times> utext)"
and parse_members :: "bool \<Rightarrow> nat \<Rightarrow> utext \<Rightarrow> json_fault + ((utext \<times> ujson) list \<times> utext)" where
  "parse_value strict 0 s = Inl Json_fuel"
| "parse_value strict (Suc n) s =
     (if s = [] then Inl Json_invalid
      else if hd s = 34 then (case scan_string (tl s) of None \<Rightarrow> Inl Json_invalid | Some (t, r) \<Rightarrow> Inr (UStr t, r))
      else if hd s = 123 then
        (let s' = skip_ws (tl s) in
         if s' \<noteq> [] \<and> hd s' = 125 then Inr (UObj [], tl s')
         else case parse_members strict n s' of Inl e \<Rightarrow> Inl e
              | Inr (kvs, r) \<Rightarrow> (case make_object strict kvs of Inl e \<Rightarrow> Inl e | Inr v \<Rightarrow> Inr (v, r)))
      else if hd s = 91 then
        (let s' = skip_ws (tl s) in
         if s' \<noteq> [] \<and> hd s' = 93 then Inr (UArr [], tl s')
         else case parse_elements strict n s' of Inl e \<Rightarrow> Inl e | Inr (vs, r) \<Rightarrow> Inr (UArr vs, r))
      else scan_literal strict s)"
| "parse_elements strict 0 s = Inl Json_fuel"
| "parse_elements strict (Suc n) s =
     (case parse_value strict n s of Inl e \<Rightarrow> Inl e
      | Inr (v, r) \<Rightarrow>
          let r' = skip_ws r in
          if r' = [] then Inl Json_invalid
          else if hd r' = 93 then Inr ([v], tl r')
          else if hd r' = 44 then
            (case parse_elements strict n (skip_ws (tl r')) of Inl e \<Rightarrow> Inl e | Inr (vs, r'') \<Rightarrow> Inr (v # vs, r''))
          else Inl Json_invalid)"
| "parse_members strict 0 s = Inl Json_fuel"
| "parse_members strict (Suc n) s =
     (if s = [] \<or> hd s \<noteq> 34 then Inl Json_invalid
      else case scan_string (tl s) of None \<Rightarrow> Inl Json_invalid
      | Some (k, r) \<Rightarrow>
          let r' = skip_ws r in
          if r' = [] \<or> hd r' \<noteq> 58 then Inl Json_invalid
          else case parse_value strict n (skip_ws (tl r')) of Inl e \<Rightarrow> Inl e
          | Inr (v, q) \<Rightarrow>
              let q' = skip_ws q in
              if q' = [] then Inl Json_invalid
              else if hd q' = 125 then Inr ([(k, v)], tl q')
              else if hd q' = 44 then
                (case parse_members strict n (skip_ws (tl q')) of Inl e \<Rightarrow> Inl e
                 | Inr (kvs, q'') \<Rightarrow> Inr ((k, v) # kvs, q''))
              else Inl Json_invalid)"

definition parse_json :: "bool \<Rightarrow> utext \<Rightarrow> json_fault + ujson" where
  "parse_json strict s =
     (if s \<noteq> [] \<and> hd s = 0xFEFF then Inl Json_invalid
      else case parse_value strict (Suc (2 * length s)) (skip_ws s) of
        Inl e \<Rightarrow> Inl e
      | Inr (v, r) \<Rightarrow> if skip_ws r = [] then Inr v else Inl Json_invalid)"

subsection \<open>The fuel is enough\<close>

lemma length_skip_ws: "length (skip_ws s) \<le> length s"
  by (simp add: skip_ws_def length_dropWhile_le)

lemma scan_string_length: "scan_string s = Some (t, r) \<Longrightarrow> length r < length s"
proof (induction s arbitrary: t r rule: scan_string.induct)
  case (2 c s)
  then show ?case
    by (fastforce split: if_splits list.splits option.splits prod.splits dest: escaped_unit_length)
qed simp

lemma scan_fraction_length: "scan_fraction s = (f, r) \<Longrightarrow> length r \<le> length s"
  using length_dropWhile_le [of udigit "tl s"] by (auto simp: scan_fraction_def split: list.splits if_splits)

lemma scan_exponent_length: "scan_exponent s = (f, r) \<Longrightarrow> length r \<le> length s"
  using length_dropWhile_le [of udigit "tl s"] length_dropWhile_le [of udigit "tl (tl s)"]
  by (auto simp: scan_exponent_def Let_def split: list.splits if_splits)

lemma scan_unsigned_length: "scan_unsigned neg s = Inr (v, r) \<Longrightarrow> length r < length s"
proof -
  assume scan: "scan_unsigned neg s = Inr (v, r)"
  define ds where "ds = (if hd s = 48 then [48] else takeWhile udigit s)"
  obtain frac r1 where f: "scan_fraction (drop (length ds) s) = (frac, r1)" by fastforce
  obtain ex r2 where e: "scan_exponent r1 = (ex, r2)" by fastforce
  have r: "r = r2 \<or> r = drop (length ds) s" and ne: "s \<noteq> []" "udigit (hd s)"
    using scan f e unfolding scan_unsigned_def Let_def ds_def [symmetric]
    by (auto split: if_splits)
  have "0 < length ds" using ne by (cases s) (auto simp: ds_def)
  then have "length (drop (length ds) s) < length s" using ne by simp
  moreover have "length r2 \<le> length (drop (length ds) s)"
    using scan_fraction_length [OF f] scan_exponent_length [OF e] by simp
  ultimately show ?thesis using r by auto
qed

lemma scan_number_length: "scan_number s = Inr (v, r) \<Longrightarrow> length r < length s"
  using scan_unsigned_length [of True "tl s" v r] scan_unsigned_length [of False s v r]
  by (simp add: scan_number_def split: if_splits)

lemma after_prefix_length: "after_prefix p s = Some r \<Longrightarrow> p \<noteq> [] \<Longrightarrow> r = drop (length p) s \<and> length r < length s"
  by (cases s) (auto simp: after_prefix_def uni_def split: if_splits)

lemma scan_literal_length:
  assumes "scan_literal strict s = Inr (v, r)"
  shows "length r < length s"
proof (cases "find (\<lambda>c. after_prefix c s \<noteq> None) [''NaN'', ''Infinity'', ''-Infinity'']")
  case None
  then show ?thesis
    using assms scan_number_length after_prefix_length
    by (auto simp: scan_literal_def split: option.splits)
next
  case (Some c)
  then obtain x where x: "after_prefix c s = Some x" "c \<in> set [''NaN'', ''Infinity'', ''-Infinity'']"
    using find_SomeD by fastforce
  from x(2) have "c \<noteq> []" by auto
  with x(1) have "length (drop (length c) s) < length s" using after_prefix_length by blast
  then show ?thesis
    using assms after_prefix_length unfolding scan_literal_def Some
    by (auto split: option.splits if_splits)
qed

lemma scan_unsigned_fuel: "scan_unsigned neg s \<noteq> Inl Json_fuel"
  unfolding scan_unsigned_def Let_def by (simp split: prod.split)

lemma scan_number_fuel: "scan_number s \<noteq> Inl Json_fuel"
  using scan_unsigned_fuel by (simp add: scan_number_def)

lemma scan_literal_fuel: "scan_literal strict s \<noteq> Inl Json_fuel"
  using scan_number_fuel [of s] unfolding scan_literal_def by (simp del: find.simps split: option.split)

lemma make_object_fuel: "make_object strict kvs \<noteq> Inl Json_fuel"
  by (simp add: make_object_def)

lemma shorter_tl: "s \<noteq> [] \<Longrightarrow> length (skip_ws (tl s)) < length s"
  using length_skip_ws [of "tl s"] by (cases s) auto

lemma parse_value_fuel:
  "2 * length s < n \<Longrightarrow> parse_value strict n s \<noteq> Inl Json_fuel
     \<and> (\<forall>v r. parse_value strict n s = Inr (v, r) \<longrightarrow> length r < length s)"
  "2 * length s + 1 < n \<Longrightarrow> parse_elements strict n s \<noteq> Inl Json_fuel
     \<and> (\<forall>v r. parse_elements strict n s = Inr (v, r) \<longrightarrow> length r < length s)"
  "2 * length s < n \<Longrightarrow> parse_members strict n s \<noteq> Inl Json_fuel
     \<and> (\<forall>v r. parse_members strict n s = Inr (v, r) \<longrightarrow> length r < length s)"
proof (induction strict n s and strict n s and strict n s rule: parse_value_parse_elements_parse_members.induct)
  case (2 strict n s)
  show ?case
  proof (cases "s = [] \<or> hd s = 34 \<or> hd s \<noteq> 123 \<and> hd s \<noteq> 91")
    case True
    then show ?thesis
      using scan_literal_fuel [of strict s] scan_literal_length [of strict s] scan_string_length [of "tl s"]
      by (cases s) (auto split: option.splits)
  next
    case False
    then have s: "s \<noteq> []" "hd s \<noteq> 34" by auto
    have len: "length (skip_ws (tl s)) < length s" using shorter_tl s(1) .
    then have tl: "length (tl (skip_ws (tl s))) < length s" by simp
    show ?thesis
    proof (cases "hd s = 123")
      case True
      show ?thesis
        using 2 s True len tl make_object_fuel [of strict]
        by (fastforce simp: Let_def split: sum.splits prod.splits if_splits)
    next
      case nobj: False
      then show ?thesis
        using 2 s len tl False
        by (fastforce simp: Let_def split: sum.splits prod.splits if_splits)
    qed
  qed
next
  case (4 strict n s)
  show ?case
  proof (cases "parse_value strict n s")
    case (Inl e)
    then show ?thesis using 4 by simp
  next
    case (Inr vr)
    obtain v r where vr: "parse_value strict n s = Inr (v, r)" using Inr by (cases vr) simp
    have r: "length r < length s" using 4 vr by simp
    let ?r = "skip_ws r"
    have rest: "length (skip_ws (tl ?r)) < length s" "length (tl ?r) < length s"
      using r length_skip_ws [of r] length_skip_ws [of "tl ?r"] by simp_all
    show ?thesis
    proof (cases "?r \<noteq> [] \<and> hd ?r = 44")
      case True
      have ih: "parse_elements strict n (skip_ws (tl ?r)) \<noteq> Inl Json_fuel
          \<and> (\<forall>v q. parse_elements strict n (skip_ws (tl ?r)) = Inr (v, q) \<longrightarrow> length q < length (skip_ws (tl ?r)))"
        using 4 vr True rest by simp
      then show ?thesis
        using vr True rest(1) by (fastforce simp: Let_def split: sum.splits)
    next
      case False
      then show ?thesis using vr rest(2) by (auto simp: Let_def)
    qed
  qed
next
  case (6 strict n s)
  show ?case
  proof (cases "s = [] \<or> hd s \<noteq> 34 \<or> scan_string (tl s) = None")
    case True
    then show ?thesis by (auto split: option.splits)
  next
    case False
    then obtain k r where s: "s \<noteq> []" "hd s = 34" "scan_string (tl s) = Some (k, r)" by auto
    have r: "length r + 1 < length s" using scan_string_length [OF s(3)] s(1) by (cases s) auto
    let ?r = "skip_ws r"
    have len: "length (skip_ws (tl ?r)) + 1 < length s"
      using r length_skip_ws [of r] length_skip_ws [of "tl ?r"] by simp
    show ?thesis
    proof (cases "?r = [] \<or> hd ?r \<noteq> 58")
      case True
      then show ?thesis using s by (simp add: Let_def)
    next
      case colon: False
      have ih: "parse_value strict n (skip_ws (tl ?r)) \<noteq> Inl Json_fuel
          \<and> (\<forall>v q. parse_value strict n (skip_ws (tl ?r)) = Inr (v, q) \<longrightarrow> length q < length (skip_ws (tl ?r)))"
        using 6 s colon len by simp
      show ?thesis
      proof (cases "parse_value strict n (skip_ws (tl ?r))")
        case (Inl e)
        then show ?thesis using ih s colon by (auto simp: Let_def)
      next
        case (Inr vq)
        obtain v q where vq: "parse_value strict n (skip_ws (tl ?r)) = Inr (v, q)" using Inr by (cases vq) simp
        let ?q = "skip_ws q"
        have rest: "length (skip_ws (tl ?q)) + 1 < length s" "length (tl ?q) < length s"
          using ih vq len length_skip_ws [of q] length_skip_ws [of "tl ?q"] by fastforce+
        show ?thesis
        proof (cases "?q \<noteq> [] \<and> hd ?q = 44")
          case True
          have "parse_members strict n (skip_ws (tl ?q)) \<noteq> Inl Json_fuel
              \<and> (\<forall>v t. parse_members strict n (skip_ws (tl ?q)) = Inr (v, t) \<longrightarrow> length t < length (skip_ws (tl ?q)))"
            using 6 s colon vq True rest by simp
          then show ?thesis
            using s colon vq True rest(1) by (fastforce simp: Let_def split: sum.splits)
        next
          case False
          then show ?thesis using s colon vq rest(2) by (auto simp: Let_def)
        qed
      qed
    qed
  qed
qed simp_all

lemma parse_json_total: "parse_json strict s \<noteq> Inl Json_fuel"
proof -
  have "2 * length (skip_ws s) < Suc (2 * length s)" using length_skip_ws [of s] by simp
  from parse_value_fuel(1) [OF this, of strict] show ?thesis
    by (auto simp: parse_json_def simp del: parse_value.simps split: sum.splits)
qed

end
