(* ===== verification/RealtimeJson.thy ===== *)
theory RealtimeJson
  imports RealtimeText
begin

text \<open>
  Writing JSON (\<^verbatim>\<open>json.dumps\<close> with \<open>ensure_ascii=False\<close>, sorted keys and the separators of
  \<open>_canonical_json\<close> in \<^verbatim>\<open>services/realtime/src/echoweave/auth.py\<close> and of \<open>_canonical_signed_json\<close> in
  \<^verbatim>\<open>persona.py\<close>), the round trip through the reader, and URL-safe base64 (\<open>_b64encode\<close>, \<open>_b64decode\<close>).
\<close>

section \<open>Writing\<close>

definition lower_hex :: "nat \<Rightarrow> nat" where
  "lower_hex n = (if n < 10 then 48 + n else 87 + n)"

definition esc_char :: "nat \<Rightarrow> utext" where
  "esc_char c =
     (if c = 34 then [92, 34] else if c = 92 then [92, 92]
      else if 32 \<le> c then [c]
      else if c = 10 then [92, 110] else if c = 13 then [92, 114] else if c = 9 then [92, 116]
      else if c = 8 then [92, 98] else if c = 12 then [92, 102]
      else [92, 117, 48, 48, lower_hex (c div 16), lower_hex (c mod 16)])"

definition quoted :: "utext \<Rightarrow> utext" where
  "quoted s = 34 # concat (map esc_char s) @ [34]"

fun dec_digits :: "nat \<Rightarrow> utext" where
  "dec_digits n = (if n < 10 then [48 + n] else dec_digits (n div 10) @ [48 + n mod 10])"

declare dec_digits.simps [simp del]

definition int_digits :: "int \<Rightarrow> utext" where
  "int_digits i = (if i < 0 then 45 # dec_digits (nat (- i)) else dec_digits (nat i))"

fun commas :: "utext list \<Rightarrow> utext" where
  "commas [] = []"
| "commas [s] = s"
| "commas (s # t # ss) = s @ 44 # commas (t # ss)"

text \<open>\<open>ft\<close> renders a float.\<close>

fun jprint :: "(rat \<Rightarrow> utext) \<Rightarrow> ujson \<Rightarrow> utext" where
  "jprint ft UNull = uni ''null''"
| "jprint ft (UBool b) = uni (if b then ''true'' else ''false'')"
| "jprint ft (UInt i) = int_digits i"
| "jprint ft (UFloat q) = ft q"
| "jprint ft (UConst s) = s"
| "jprint ft (UStr s) = quoted s"
| "jprint ft (UArr vs) = 91 # commas (map (jprint ft) vs) @ [93]"
| "jprint ft (UObj kvs) = 123 # commas (map (\<lambda>(k, v). quoted k @ 58 # jprint ft v) kvs) @ [125]"

fun key_sorted :: "ujson \<Rightarrow> ujson" where
  "key_sorted (UArr vs) = UArr (map key_sorted vs)"
| "key_sorted (UObj kvs) = UObj (sort_key fst (map (\<lambda>(k, v). (k, key_sorted v)) kvs))"
| "key_sorted v = v"

definition dumps_sorted :: "(rat \<Rightarrow> utext) \<Rightarrow> ujson \<Rightarrow> utext" where
  "dumps_sorted ft v = jprint ft (key_sorted v)"

section \<open>The round trip\<close>

text \<open>Values without floats whose objects repeat no key and whose integers are under the digit limit.\<close>

fun plain :: "ujson \<Rightarrow> bool" where
  "plain (UFloat q) = False"
| "plain (UConst s) = False"
| "plain (UInt i) = (length (dec_digits (nat \<bar>i\<bar>)) \<le> 4300)"
| "plain (UArr vs) = list_all plain vs"
| "plain (UObj kvs) = (distinct (map fst kvs) \<and> list_all (\<lambda>(k, v). plain v) kvs)"
| "plain v = True"

lemma hex_value_lower: "n < 16 \<Longrightarrow> hex_value (lower_hex n) = Some n"
  by (simp add: hex_value_def lower_hex_def udigit_def)

lemma scan_esc_char: "scan_string (esc_char c @ s) = map_option (\<lambda>(t, r). (c # t, r)) (scan_string s)"
proof -
  have hex: "escaped_unit (48 # 48 # lower_hex (c div 16) # lower_hex (c mod 16) # s) = Some (c, s)" if "c < 32"
  proof -
    have "c div 16 < 16" using that by simp
    moreover have "c mod 16 < 16" by simp
    moreover have "hex_value 48 = Some 0" by (simp add: hex_value_def udigit_def)
    ultimately show ?thesis
      using that by (simp add: escaped_unit_def hex4_def hex_value_lower Let_def)
  qed
  show ?thesis
    using hex by (auto simp: esc_char_def short_escape_def)
qed

lemma scan_quoted: "scan_string (concat (map esc_char t) @ 34 # r) = Some (t, r)"
  by (induction t) (simp_all add: scan_esc_char)

lemma dec_digits_props:
  "dec_digits n \<noteq> [] \<and> list_all udigit (dec_digits n) \<and> dec_value (dec_digits n) = n
     \<and> (hd (dec_digits n) = 48 \<longrightarrow> dec_digits n = [48])"
proof (induction n rule: dec_digits.induct)
  case (1 n)
  show ?case
  proof (cases "n < 10")
    case True
    then have "dec_digits n = [48 + n]" by (simp add: dec_digits.simps [of n])
    then show ?thesis using True by (auto simp: udigit_def dec_value_def)
  next
    case False
    with 1 have ih: "dec_digits (n div 10) \<noteq> []" "list_all udigit (dec_digits (n div 10))"
      "dec_value (dec_digits (n div 10)) = n div 10" "hd (dec_digits (n div 10)) = 48 \<longrightarrow> dec_digits (n div 10) = [48]"
      by blast+
    have "n div 10 \<noteq> 0" using False by simp
    then have "dec_digits (n div 10) \<noteq> [48]" using ih(3) by (auto simp: dec_value_def)
    moreover have "udigit (48 + n mod 10)" using mod_less_divisor [of 10 n] by (simp add: udigit_def)
    ultimately show ?thesis
      using False ih by (simp add: dec_digits.simps [of n] dec_value_def)
  qed
qed

text \<open>What may follow a value: nothing a number could swallow.\<close>

definition stops :: "utext \<Rightarrow> bool" where
  "stops r \<longleftrightarrow> r = [] \<or> hd r = 44 \<or> hd r = 93 \<or> hd r = 125 \<or> hd r = 10"

lemma takeWhile_digits:
  assumes "list_all udigit ds" "stops r"
  shows "takeWhile udigit (ds @ r) = ds" "dropWhile udigit (ds @ r) = r"
proof -
  have "r = [] \<or> \<not> udigit (hd r)" using assms(2) by (auto simp: stops_def udigit_def)
  with assms(1) show "takeWhile udigit (ds @ r) = ds" "dropWhile udigit (ds @ r) = r"
    by (cases r; induction ds; auto)+
qed

lemma scan_unsigned_digits:
  assumes "stops r" "length (dec_digits n) \<le> 4300"
  shows "scan_unsigned neg (dec_digits n @ r) = Inr (UInt (signed neg n), r)"
proof -
  let ?ds = "dec_digits n"
  have p: "?ds \<noteq> []" "list_all udigit ?ds" "dec_value ?ds = n" "hd ?ds = 48 \<Longrightarrow> ?ds = [48]"
    using dec_digits_props [of n] by blast+
  have hd: "udigit (hd ?ds)" "hd (?ds @ r) = hd ?ds" using p(1,2) by (cases ?ds; simp)+
  have frac: "scan_fraction r = ([], r)" "scan_exponent r = (None, r)"
    using assms(1) by (auto simp: scan_fraction_def scan_exponent_def stops_def split: list.splits)
  have ds: "(if hd (?ds @ r) = 48 then [48] else takeWhile udigit (?ds @ r)) = ?ds"
    using p(4) takeWhile_digits [OF p(2) assms(1)] hd(2) by auto
  have "?ds @ r \<noteq> []" "udigit (hd (?ds @ r))" using p(1) hd by auto
  then show ?thesis
    unfolding scan_unsigned_def ds Let_def using frac p(3) assms(2) by simp
qed

lemma dec_digits_head: "dec_digits n \<noteq> []" "udigit (hd (dec_digits n))" "hd (dec_digits n @ r) = hd (dec_digits n)"
  using dec_digits_props [of n] by (cases "dec_digits n"; simp)+

lemma scan_number_digits:
  assumes "stops r" "length (dec_digits (nat \<bar>i\<bar>)) \<le> 4300"
  shows "scan_number (int_digits i @ r) = Inr (UInt i, r)"
proof (cases "i < 0")
  case True
  then show ?thesis
    using scan_unsigned_digits [of r "nat (- i)" True] assms
    by (simp add: scan_number_def int_digits_def signed_def)
next
  case False
  have "hd (dec_digits (nat i)) \<noteq> 45" using dec_digits_head(2) [of "nat i"] by (auto simp: udigit_def)
  then show ?thesis
    using scan_unsigned_digits [of r "nat i" False] assms False dec_digits_head(3) [of "nat i" r]
    by (simp add: scan_number_def int_digits_def signed_def)
qed

lemma uni_simps [simp]: "uni [] = []" "uni (c # s) = ord_of c # uni s"
  by (simp_all add: uni_def)

lemma int_digits_head: "int_digits i \<noteq> [] \<and> (hd (int_digits i) = 45 \<or> udigit (hd (int_digits i)))"
  using dec_digits_props [of "nat i"] dec_digits_props [of "nat (- i)"]
  by (cases "dec_digits (nat i)") (auto simp: int_digits_def)

lemma uni_length [simp]: "length (uni s) = length s"
  by (simp add: uni_def)

definition value_start :: "nat \<Rightarrow> bool" where
  "value_start c \<longleftrightarrow> c = 34 \<or> c = 123 \<or> c = 91 \<or> c = 110 \<or> c = 116 \<or> c = 102 \<or> c = 45 \<or> udigit c"

lemma ord_letters [simp]:
  "ord_of (CHR ''n'') = 110" "ord_of (CHR ''u'') = 117" "ord_of (CHR ''l'') = 108" "ord_of (CHR ''t'') = 116"
  "ord_of (CHR ''r'') = 114" "ord_of (CHR ''e'') = 101" "ord_of (CHR ''f'') = 102" "ord_of (CHR ''a'') = 97"
  "ord_of (CHR ''s'') = 115" "ord_of (CHR ''N'') = 78" "ord_of (CHR ''I'') = 73" "ord_of (CHR ''-'') = 45"
  by (simp_all add: ord_of_def)

lemma jprint_head: "plain v \<Longrightarrow> jprint ft v \<noteq> [] \<and> value_start (hd (jprint ft v))"
  using int_digits_head by (cases v) (auto simp: value_start_def quoted_def)

lemma skip_start: "s \<noteq> [] \<Longrightarrow> value_start (hd s) \<Longrightarrow> skip_ws (s @ r) = s @ r"
  by (cases s) (auto simp: skip_ws_def value_start_def udigit_def)

lemma skip_punctuation [simp]: "skip_ws (44 # r) = 44 # r" "skip_ws (93 # r) = 93 # r" "skip_ws (125 # r) = 125 # r"
  "skip_ws (58 # r) = 58 # r" "skip_ws (34 # r) = 34 # r"
  by (simp_all add: skip_ws_def)

lemma scan_literal_number:
  assumes "stops r" "length (dec_digits (nat \<bar>i\<bar>)) \<le> 4300"
  shows "scan_literal strict (int_digits i @ r) = Inr (UInt i, r)"
proof -
  let ?s = "int_digits i @ r"
  have hd: "?s \<noteq> []" "hd ?s = 45 \<or> udigit (hd ?s)"
    using int_digits_head [of i] by auto
  have no: "after_prefix (c # p) ?s = None" if "ord_of c \<noteq> 45" "\<not> udigit (ord_of c)" for c p
    using hd that by (cases ?s) (auto simp: after_prefix_def)
  have "after_prefix ''-Infinity'' ?s = None"
  proof (cases "i < 0")
    case True
    then have "hd (dec_digits (nat (- i)) @ r) \<noteq> 73"
      using dec_digits_head(2,3) [of "nat (- i)"] by (auto simp: udigit_def)
    then show ?thesis
      using True by (cases "dec_digits (nat (- i)) @ r") (auto simp: after_prefix_def int_digits_def)
  next
    case False
    then have "hd ?s \<noteq> 45"
      using dec_digits_head(2,3) [of "nat i"] by (auto simp: int_digits_def udigit_def)
    then show ?thesis by (cases ?s) (simp_all add: after_prefix_def)
  qed
  moreover have "\<not> udigit 110" "\<not> udigit 116" "\<not> udigit 102" "\<not> udigit 78" "\<not> udigit 73"
    by (simp_all add: udigit_def)
  ultimately show ?thesis
    unfolding scan_literal_def using no scan_number_digits [OF assms] by simp
qed

lemma length_members:
  "(k, v) \<in> set kvs \<Longrightarrow> length (jprint ft v) < length (commas (map (\<lambda>(k, v). quoted k @ 58 # jprint ft v) kvs))"
  "v \<in> set vs \<Longrightarrow> length (jprint ft v) \<le> length (commas (map (jprint ft) vs))"
proof -
  show "(k, v) \<in> set kvs \<Longrightarrow> length (jprint ft v) < length (commas (map (\<lambda>(k, v). quoted k @ 58 # jprint ft v) kvs))"
  proof (induction kvs)
    case (Cons a kvs)
    then show ?case by (cases kvs) auto
  qed simp
  show "v \<in> set vs \<Longrightarrow> length (jprint ft v) \<le> length (commas (map (jprint ft) vs))"
  proof (induction vs)
    case (Cons a vs)
    then show ?case by (cases vs) auto
  qed simp
qed

definition json_members :: "(rat \<Rightarrow> utext) \<Rightarrow> (utext \<times> ujson) list \<Rightarrow> utext" where
  "json_members ft kvs = commas (map (\<lambda>(k, v). quoted k @ 58 # jprint ft v) kvs)"

definition json_items :: "(rat \<Rightarrow> utext) \<Rightarrow> ujson list \<Rightarrow> utext" where
  "json_items ft vs = commas (map (jprint ft) vs)"

lemma json_members_Cons: "json_members ft ((k, v) # kvs) =
    quoted k @ 58 # jprint ft v @ (if kvs = [] then [] else 44 # json_members ft kvs)"
  by (cases kvs) (auto simp: json_members_def)

lemma json_items_Cons: "json_items ft (v # vs) = jprint ft v @ (if vs = [] then [] else 44 # json_items ft vs)"
  by (cases vs) (auto simp: json_items_def)

lemma skip_value: "plain v \<Longrightarrow> skip_ws (jprint ft v @ r) = jprint ft v @ r"
  using jprint_head skip_start by blast

lemma skip_quoted: "skip_ws (quoted k @ r) = quoted k @ r"
  by (simp add: quoted_def)

lemma stops_punctuation [simp]: "stops (44 # r)" "stops (93 # r)" "stops (125 # r)" "stops []"
  by (simp_all add: stops_def)

text \<open>Reading back: with fuel for the printed length, a printed value followed by anything a number
  cannot swallow is read as itself, in the strict mode as well.\<close>

lemma parse_printed:
  "plain v \<Longrightarrow> stops r \<Longrightarrow> 2 * length (jprint ft v) < n \<Longrightarrow> parse_value True n (jprint ft v @ r) = Inr (v, r)"
  "vs \<noteq> [] \<Longrightarrow> list_all plain vs \<Longrightarrow> 2 * length (json_items ft vs) + 1 < n
     \<Longrightarrow> parse_elements True n (json_items ft vs @ 93 # r) = Inr (vs, r)"
  "kvs \<noteq> [] \<Longrightarrow> list_all (\<lambda>(k, v). plain v) kvs \<Longrightarrow> 2 * length (json_members ft kvs) < n
     \<Longrightarrow> parse_members True n (json_members ft kvs @ 125 # r) = Inr (kvs, r)"
proof (induction n arbitrary: v r vs kvs)
  case (Suc n)
  note ih = Suc.IH
  {
    case 1
    show ?case
    proof (cases v)
      case (UArr ws)
      show ?thesis
      proof (cases "ws = []")
        case False
        then obtain w ws' where ws: "ws = w # ws'" by (cases ws) auto
        have plain: "list_all plain ws" using 1 UArr by simp
        have items: "jprint ft v @ r = 91 # json_items ft ws @ 93 # r" "length (jprint ft v) = length (json_items ft ws) + 2"
          using UArr by (simp_all add: json_items_def)
        have start: "skip_ws (json_items ft ws @ 93 # r) = json_items ft ws @ 93 # r"
          "json_items ft ws \<noteq> []" "hd (json_items ft ws @ 93 # r) \<noteq> 93"
          using plain skip_value [of w ft] jprint_head [of w ft] by (auto simp: ws json_items_Cons value_start_def udigit_def)
        have "parse_elements True n (json_items ft ws @ 93 # r) = Inr (ws, r)"
          using ih(2) [of ws r] False plain 1(3) items(2) by simp
        then show ?thesis
          unfolding items(1) using start by (simp add: Let_def UArr)
      qed (use UArr in \<open>simp add: skip_ws_def\<close>)
    next
      case (UObj ks)
      show ?thesis
      proof (cases "ks = []")
        case False
        then obtain k w ks' where ks: "ks = (k, w) # ks'" by (cases ks) auto
        have plain: "list_all (\<lambda>(k, v). plain v) ks" "distinct (map fst ks)" using 1 UObj by simp_all
        have items: "jprint ft v @ r = 123 # json_members ft ks @ 125 # r" "length (jprint ft v) = length (json_members ft ks) + 2"
          using UObj by (simp_all add: json_members_def)
        have start: "skip_ws (json_members ft ks @ 125 # r) = json_members ft ks @ 125 # r"
          "json_members ft ks \<noteq> []" "hd (json_members ft ks @ 125 # r) \<noteq> 125"
          using skip_quoted [of k] by (auto simp: ks json_members_Cons quoted_def)
        have "parse_members True n (json_members ft ks @ 125 # r) = Inr (ks, r)"
          using ih(3) [of ks r] False plain(1) 1(3) items(2) by simp
        then show ?thesis
          unfolding items(1) using start plain(2) by (simp add: Let_def make_object_def UObj)
      qed (use UObj in \<open>simp add: skip_ws_def\<close>)
    next
      case (UStr t)
      then show ?thesis by (simp add: quoted_def scan_quoted)
    next
      case (UInt i)
      have "hd (int_digits i @ r) \<noteq> 34 \<and> hd (int_digits i @ r) \<noteq> 123 \<and> hd (int_digits i @ r) \<noteq> 91"
        using int_digits_head [of i] by (auto simp: udigit_def)
      then show ?thesis
        using UInt 1 int_digits_head [of i] scan_literal_number [of r i True] by simp
    qed (use 1 in \<open>simp_all add: scan_literal_def after_prefix_def\<close>)
  next
    case 2
    then obtain w ws' where ws: "vs = w # ws'" by (cases vs) auto
    have p: "plain w" using 2 ws by simp
    have len: "2 * length (jprint ft w) < n" using 2(3) by (simp add: ws json_items_Cons split: if_splits)
    show ?case
    proof (cases "ws' = []")
      case True
      then show ?thesis using ih(1) [OF p _ len, of "93 # r"] by (simp add: ws json_items_Cons Let_def)
    next
      case False
      then obtain w2 ws2 where w2: "ws' = w2 # ws2" by (cases ws') auto
      have "parse_elements True n (json_items ft ws' @ 93 # r) = Inr (ws', r)"
        using ih(2) [of ws' r] False 2 by (simp add: ws json_items_Cons)
      moreover have "skip_ws (json_items ft ws' @ 93 # r) = json_items ft ws' @ 93 # r"
        using skip_value [of w2 ft] 2(2) by (simp add: ws w2 json_items_Cons)
      ultimately show ?thesis
        using ih(1) [OF p _ len, of "44 # json_items ft ws' @ 93 # r"] False
        by (simp add: ws json_items_Cons Let_def)
    qed
  next
    case 3
    then obtain k w ks' where ks: "kvs = (k, w) # ks'" by (cases kvs) auto
    have p: "plain w" using 3 ks by simp
    have len: "2 * length (jprint ft w) < n" using 3(3) by (simp add: ks json_members_Cons quoted_def split: if_splits)
    have key: "scan_string (concat (map esc_char k) @ 34 # q) = Some (k, q)" for q by (rule scan_quoted)
    show ?case
    proof (cases "ks' = []")
      case True
      then show ?thesis
        using ih(1) [OF p _ len, of "125 # r"] skip_value [OF p]
        by (simp add: ks json_members_Cons quoted_def key Let_def)
    next
      case False
      then obtain k2 w2 ks2 where k2: "ks' = (k2, w2) # ks2" by (cases ks') auto
      have "parse_members True n (json_members ft ks' @ 125 # r) = Inr (ks', r)"
        using ih(3) [of ks' r] False 3 by (simp add: ks json_members_Cons)
      moreover have "skip_ws (json_members ft ks' @ 125 # r) = json_members ft ks' @ 125 # r"
        using skip_quoted [of k2] by (simp add: k2 json_members_Cons)
      ultimately show ?thesis
        using ih(1) [OF p _ len, of "44 # json_members ft ks' @ 125 # r"] False skip_value [OF p]
        by (simp add: ks json_members_Cons quoted_def key Let_def)
    qed
  }
qed simp_all

theorem json_roundtrip: "plain v \<Longrightarrow> parse_json True (jprint ft v) = Inr v"
proof -
  assume p: "plain v"
  have "hd (jprint ft v) \<noteq> 0xFEFF" using jprint_head [OF p, of ft] by (auto simp: value_start_def udigit_def)
  moreover have "parse_value True (Suc (2 * length (jprint ft v))) (jprint ft v @ []) = Inr (v, [])"
    by (rule parse_printed(1) [OF p]) simp_all
  moreover have "skip_ws (jprint ft v) = jprint ft v" using skip_value [OF p, of ft "[]"] by simp
  ultimately show ?thesis by (simp add: parse_json_def skip_ws_def del: parse_value.simps)
qed

section \<open>Base64\<close>

text \<open>
  \<open>_b64encode\<close> writes groups of three bytes as four characters of the URL-safe alphabet and drops the
  padding; \<open>_b64decode\<close> puts the padding back, so the last group has two, three or four characters. It is
  only called on segments of the token pattern, which hold no padding character themselves. The unused
  low bits of the last character are ignored, as \<open>binascii\<close> does.
\<close>

definition b64_digit :: "nat \<Rightarrow> nat" where
  "b64_digit n = (if n < 26 then 65 + n else if n < 52 then 71 + n else if n < 62 then n - 4 else if n = 62 then 45 else 95)"

definition b64_value :: "nat \<Rightarrow> nat option" where
  "b64_value c =
     (if 65 \<le> c \<and> c \<le> 90 then Some (c - 65) else if 97 \<le> c \<and> c \<le> 122 then Some (c - 71)
      else if 48 \<le> c \<and> c \<le> 57 then Some (c + 4) else if c = 45 \<or> c = 43 then Some 62
      else if c = 95 \<or> c = 47 then Some 63 else None)"

fun b64_groups :: "nat list \<Rightarrow> nat list" where
  "b64_groups (a # b # c # s) =
     a div 4 # (a mod 4 * 16 + b div 16) # (b mod 16 * 4 + c div 64) # c mod 64 # b64_groups s"
| "b64_groups [a, b] = [a div 4, a mod 4 * 16 + b div 16, b mod 16 * 4]"
| "b64_groups [a] = [a div 4, a mod 4 * 16]"
| "b64_groups [] = []"

definition b64encode :: "byte list \<Rightarrow> utext" where
  "b64encode bs = map b64_digit (b64_groups (map unat bs))"

fun b64_join :: "nat list \<Rightarrow> nat list option" where
  "b64_join (w # x # y # z # s) =
     map_option (\<lambda>t. (w * 4 + x div 16) # (x mod 16 * 16 + y div 4) # (y mod 4 * 64 + z) # t) (b64_join s)"
| "b64_join [w, x, y] = Some [w * 4 + x div 16, x mod 16 * 16 + y div 4]"
| "b64_join [w, x] = Some [w * 4 + x div 16]"
| "b64_join [w] = None"
| "b64_join [] = Some []"

definition b64decode :: "utext \<Rightarrow> byte list option" where
  "b64decode s =
     (if list_all (\<lambda>c. b64_value c \<noteq> None) s
      then map_option (map byte_of) (b64_join (map (\<lambda>c. the (b64_value c)) s)) else None)"

lemma b64_digit_value [simp]: "n < 64 \<Longrightarrow> b64_value (b64_digit n) = Some n"
  by (auto simp: b64_value_def b64_digit_def)

lemma b64_bounds:
  assumes "b < 256"
  shows "a mod 4 * 16 + b div 16 < (64 :: nat)" "a mod 16 * 4 + b div 64 < (64 :: nat)"
proof -
  have "b div 16 < 16" "b div 64 < 4" "a mod 4 < 4" "a mod 16 < 16"
    using assms by (simp_all add: div_less_iff_less_mult)
  then show "a mod 4 * 16 + b div 16 < 64" "a mod 16 * 4 + b div 64 < 64" by linarith+
qed

lemma b64_bounds': "b < 256 \<Longrightarrow> b div 4 < (64 :: nat)" "a mod 4 * 16 < (64 :: nat)" "a mod 16 * 4 < (64 :: nat)"
  using b64_bounds [of 0 a] by (simp_all add: div_less_iff_less_mult)

lemma b64_groups_bound: "list_all (\<lambda>n. n < 256) s \<Longrightarrow> list_all (\<lambda>n. n < 64) (b64_groups s)"
  by (induction s rule: b64_groups.induct) (simp_all add: b64_bounds b64_bounds' del: div_less_iff_less_mult)

lemma b64_join_groups: "list_all (\<lambda>n. n < 256) s \<Longrightarrow> b64_join (b64_groups s) = Some s"
proof (induction s rule: b64_groups.induct)
  case (1 a b c s)
  have "b div 16 < 16" "c div 64 < 4" using 1(2) by (simp_all add: div_less_iff_less_mult)
  then show ?case using 1 by simp
next
  case (2 a b)
  have "b div 16 < 16" using 2 by (simp add: div_less_iff_less_mult)
  then show ?case by simp
qed simp_all

lemma unat_bytes: "list_all (\<lambda>n. n < 256) (map unat (bs :: byte list))"
  using unsigned_less [where ?'b = 8 and ?'a = nat] by (simp add: list_all_iff)

lemma b64_roundtrip: "b64decode (b64encode bs) = Some bs"
proof -
  let ?g = "b64_groups (map unat bs)"
  have g: "list_all (\<lambda>n. n < 64) ?g" by (rule b64_groups_bound [OF unat_bytes])
  then have "list_all (\<lambda>c. b64_value c \<noteq> None) (map b64_digit ?g)" "map (\<lambda>c. the (b64_value c)) (map b64_digit ?g) = ?g"
    by (induction ?g arbitrary: bs rule: list.induct) (simp_all add: list_all_iff map_idI)
  then show ?thesis
    using b64_join_groups [OF unat_bytes, of bs]
    by (simp add: b64decode_def b64encode_def comp_def)
qed

text \<open>The characters of a token segment, and that the encoder writes no others.\<close>

definition segment_char :: "nat \<Rightarrow> bool" where
  "segment_char c \<longleftrightarrow> (65 \<le> c \<and> c \<le> 90) \<or> (97 \<le> c \<and> c \<le> 122) \<or> udigit c \<or> c = 95 \<or> c = 45"

lemma segment_digit: "n < 64 \<Longrightarrow> segment_char (b64_digit n)"
  by (auto simp: segment_char_def b64_digit_def udigit_def)

lemma b64encode_segment: "list_all segment_char (b64encode bs)"
  using b64_groups_bound [OF unat_bytes, of bs] segment_digit
  by (auto simp: b64encode_def list_all_iff)

lemma b64encode_Nil [simp]: "b64encode bs = [] \<longleftrightarrow> bs = []"
  by (cases bs; cases "tl bs"; cases "tl (tl bs)") (auto simp: b64encode_def neq_Nil_conv)

end
