(* ===== verification/RealtimeAuth.thy ===== *)
theory RealtimeAuth
  imports RealtimeJson
begin

text \<open>
  The tokens of the realtime service (\<^verbatim>\<open>services/realtime/src/echoweave/auth.py\<close>): session tokens and
  consent assertions, signed JSON objects with an expiry, and the cache that makes a token usable once.
  \<open>mac\<close> stands for HMAC-SHA256: the key and the message give 32 bytes. The module counts
  in whole seconds. Where an operation reads the clock twice, it takes both readings. A set of text
  is its sorted list. The argument type checks hold by typing.
\<close>

section \<open>Faults\<close>

text \<open>\<open>TokenValidationError\<close> and the other exceptions that leave the module.\<close>

datatype auth_fault = Token_fault string | Value_fault string | Unicode_fault

definition sbind :: "'e + 'a \<Rightarrow> ('a \<Rightarrow> 'e + 'b) \<Rightarrow> 'e + 'b" where
  "sbind m f = (case m of Inl e \<Rightarrow> Inl e | Inr a \<Rightarrow> f a)"

definition require :: "bool \<Rightarrow> 'e \<Rightarrow> 'e + unit" where
  "require b e = (if b then Inr () else Inl e)"

lemma sbind_Inr [simp]: "sbind m f = Inr b \<longleftrightarrow> (\<exists>a. m = Inr a \<and> f a = Inr b)"
  by (cases m) (simp_all add: sbind_def)

lemma sbind_simps [simp]: "sbind (Inr a) f = f a" "sbind (Inl e) f = Inl e"
  by (simp_all add: sbind_def)

lemma require_Inr [simp]: "require b e = Inr u \<longleftrightarrow> b"
  by (simp add: require_def)

lemma require_True [simp]: "require True e = Inr ()"
  by (simp add: require_def)

section \<open>The replay cache\<close>

record replay_cache =
  rc_max_entries :: nat
  rc_entries :: "(utext \<times> int) list"

definition new_replay_cache :: "int \<Rightarrow> auth_fault + replay_cache" where
  "new_replay_cache n =
     (if 1 \<le> n \<and> n \<le> 1000000 then Inr \<lparr>rc_max_entries = nat n, rc_entries = []\<rparr>
      else Inl (Value_fault ''max_entries is out of range''))"

text \<open>\<open>_unix_time\<close> of a clock reading.\<close>

definition unix_time :: "rat \<Rightarrow> auth_fault + int" where
  "unix_time now = (if now < 0 then Inl (Value_fault ''time is invalid'') else Inr \<lfloor>now\<rfloor>)"

definition live_entries :: "int \<Rightarrow> (utext \<times> int) list \<Rightarrow> (utext \<times> int) list" where
  "live_entries t es = filter (\<lambda>(k, expiry). \<not> expiry < t) es"

definition consume :: "utext \<Rightarrow> int \<Rightarrow> rat \<Rightarrow> replay_cache \<Rightarrow> (auth_fault + unit) \<times> replay_cache" where
  "consume jti expires_at now c =
     (case unix_time now of
        Inl e \<Rightarrow> (Inl e, c)
      | Inr t \<Rightarrow>
          let live = live_entries t (rc_entries c); c' = c\<lparr>rc_entries := live\<rparr> in
          if jti \<in> fst ` set live then (Inl (Token_fault ''token has already been used''), c')
          else if rc_max_entries c \<le> length live
          then (Inl (Token_fault ''token replay cache is at capacity''), c')
          else (Inr (), c\<lparr>rc_entries := live @ [(jti, expires_at)]\<rparr>))"

section \<open>Token text\<close>

definition max_token_bytes :: nat where
  "max_token_bytes = 16 * 1024"

definition max_token_lifetime :: int where
  "max_token_lifetime = 3600"

definition min_key_bytes :: nat where
  "min_key_bytes = 32"

definition signing_key :: "utext \<Rightarrow> auth_fault + byte list" where
  "signing_key value =
     (case utf8_encode value of
        None \<Rightarrow> Inl Unicode_fault
      | Some k \<Rightarrow> if length k < min_key_bytes then Inl (Value_fault ''signing key must be at least 32 bytes'') else Inr k)"

text \<open>The payloads of the module hold no floats.\<close>

definition canonical_json :: "(utext \<times> ujson) list \<Rightarrow> auth_fault + byte list" where
  "canonical_json payload =
     (case utf8_encode (dumps_sorted (\<lambda>_. []) (UObj payload)) of None \<Rightarrow> Inl Unicode_fault | Some bs \<Rightarrow> Inr bs)"

definition token_header :: "(utext \<times> ujson) list" where
  "token_header =
     [(uni ''alg'', UStr (uni ''HS256'')), (uni ''typ'', UStr (uni ''EWT'')), (uni ''v'', UInt 1)]"

text \<open>\<open>header != TOKEN_HEADER\<close>: numbers and booleans compare by value.\<close>

definition equals_one :: "ujson \<Rightarrow> bool" where
  "equals_one v = (case v of UInt i \<Rightarrow> i = 1 | UFloat q \<Rightarrow> q = 1 | UBool b \<Rightarrow> b | _ \<Rightarrow> False)"

definition header_matches :: "(utext \<times> ujson) list \<Rightarrow> bool" where
  "header_matches kvs \<longleftrightarrow>
     set (map fst kvs) = {uni ''alg'', uni ''typ'', uni ''v''}
     \<and> uget ''alg'' kvs = Some (UStr (uni ''HS256'')) \<and> uget ''typ'' kvs = Some (UStr (uni ''EWT''))
     \<and> (case uget ''v'' kvs of Some v \<Rightarrow> equals_one v | None \<Rightarrow> False)"

text \<open>The dot between the segments, and the bytes of ASCII text.\<close>

definition ascii_bytes :: "utext \<Rightarrow> byte list" where
  "ascii_bytes s = map byte_of s"

type_synonym mac = "byte list \<Rightarrow> byte list \<Rightarrow> byte list"

definition encode_token :: "mac \<Rightarrow> (utext \<times> ujson) list \<Rightarrow> utext \<Rightarrow> auth_fault + utext" where
  "encode_token mac payload key =
     sbind (signing_key key) (\<lambda>k.
     sbind (canonical_json token_header) (\<lambda>header.
     sbind (canonical_json payload) (\<lambda>body.
       let signing_input = b64encode header @ 46 # b64encode body in
       Inr (signing_input @ 46 # b64encode (mac k (ascii_bytes signing_input))))))"

text \<open>\<open>token.split(".")\<close>, and the token pattern: three segments that are not empty.\<close>

fun split_dots :: "utext \<Rightarrow> utext list" where
  "split_dots [] = [[]]"
| "split_dots (c # s) = (if c = 46 then [] # split_dots s else (c # hd (split_dots s)) # tl (split_dots s))"

definition token_pattern :: "utext \<Rightarrow> bool" where
  "token_pattern s \<longleftrightarrow> length (split_dots s) = 3 \<and> list_all (\<lambda>p. p \<noteq> [] \<and> list_all segment_char p) (split_dots s)"

definition decode_segment :: "utext \<Rightarrow> auth_fault + byte list" where
  "decode_segment s = (case b64decode s of None \<Rightarrow> Inl (Token_fault ''token encoding is invalid'') | Some bs \<Rightarrow> Inr bs)"

text \<open>\<open>_strict_json_object\<close>. An integer over the digit limit raises a plain \<open>ValueError\<close>.\<close>

definition strict_json_object :: "byte list \<Rightarrow> auth_fault + (utext \<times> ujson) list" where
  "strict_json_object bs =
     (case utf8_decode bs of
        None \<Rightarrow> Inl (Token_fault ''token payload is invalid'')
      | Some s \<Rightarrow>
          (case parse_json True s of
             Inr (UObj kvs) \<Rightarrow> Inr kvs
           | Inr _ \<Rightarrow> Inl (Token_fault ''token payload is invalid'')
           | Inl Json_duplicate \<Rightarrow> Inl (Token_fault ''token contains duplicate claims'')
           | Inl Json_constant \<Rightarrow> Inl (Token_fault ''token contains a non-finite number'')
           | Inl Json_digits \<Rightarrow> Inl (Value_fault ''Exceeds the limit (4300 digits) for integer string conversion'')
           | Inl _ \<Rightarrow> Inl (Token_fault ''token payload is invalid'')))"

definition whole :: "ujson option \<Rightarrow> int option" where
  "whole v = (case v of Some (UInt i) \<Rightarrow> Some i | _ \<Rightarrow> None)"

text \<open>The checks of the payload once the signature is right.\<close>

definition check_payload ::
    "(utext \<times> ujson) list \<Rightarrow> utext \<Rightarrow> string \<Rightarrow> string list \<Rightarrow> int \<Rightarrow> int \<Rightarrow> rat \<Rightarrow> auth_fault + (utext \<times> ujson) list" where
  "check_payload payload audience kind claims max_lifetime skew now =
     sbind (require (set (map fst payload) = uni ` set claims \<and> uget ''kind'' payload = Some (UStr (uni kind)))
         (Token_fault ''token claims are invalid'')) (\<lambda>_.
     sbind (require (uget ''aud'' payload = Some (UStr audience)) (Token_fault ''token audience is invalid'')) (\<lambda>_.
     (case (whole (uget ''iat'' payload), whole (uget ''exp'' payload)) of
        (Some issued_at, Some expires_at) \<Rightarrow>
          sbind (require (1 \<le> max_lifetime \<and> max_lifetime \<le> max_token_lifetime)
              (Value_fault ''max_lifetime_seconds is out of range'')) (\<lambda>_.
          sbind (require (0 \<le> skew \<and> skew \<le> 60) (Value_fault ''clock_skew_seconds is out of range'')) (\<lambda>_.
          sbind (unix_time now) (\<lambda>current.
          sbind (require (\<not> current + skew < issued_at) (Token_fault ''token is not yet valid'')) (\<lambda>_.
          sbind (require (\<not> expires_at < current - skew) (Token_fault ''token has expired'')) (\<lambda>_.
          sbind (require (\<not> (expires_at - issued_at < 1 \<or> max_lifetime < expires_at - issued_at))
              (Token_fault ''token lifetime is invalid'')) (\<lambda>_. Inr payload))))))
      | _ \<Rightarrow> Inl (Token_fault ''token timestamps are invalid''))))"

definition decode_token ::
    "mac \<Rightarrow> utext \<Rightarrow> utext \<Rightarrow> utext \<Rightarrow> string \<Rightarrow> string list \<Rightarrow> int \<Rightarrow> int \<Rightarrow> rat \<Rightarrow> auth_fault + (utext \<times> ujson) list" where
  "decode_token mac token key audience kind claims max_lifetime skew now =
     sbind (signing_key key) (\<lambda>k.
     sbind (require (token \<noteq> []) (Token_fault ''token is invalid'')) (\<lambda>_.
     sbind (case utf8_encode token of None \<Rightarrow> Inl Unicode_fault | Some bs \<Rightarrow> Inr bs) (\<lambda>bs.
     sbind (require (\<not> max_token_bytes < length bs) (Token_fault ''token is invalid'')) (\<lambda>_.
     sbind (require (token_pattern token) (Token_fault ''token is invalid'')) (\<lambda>_.
       let header_part = split_dots token ! 0; payload_part = split_dots token ! 1; signature_part = split_dots token ! 2 in
     sbind (decode_segment signature_part) (\<lambda>supplied.
     sbind (require (length supplied = 32) (Token_fault ''token signature is invalid'')) (\<lambda>_.
     sbind (require (supplied = mac k (ascii_bytes (header_part @ 46 # payload_part)))
         (Token_fault ''token signature is invalid'')) (\<lambda>_.
     sbind (decode_segment header_part) (\<lambda>hbytes.
     sbind (strict_json_object hbytes) (\<lambda>header.
     sbind (require (header_matches header) (Token_fault ''token header is invalid'')) (\<lambda>_.
     sbind (decode_segment payload_part) (\<lambda>pbytes.
     sbind (strict_json_object pbytes) (\<lambda>payload.
       check_payload payload audience kind claims max_lifetime skew now)))))))))))))"

section \<open>Claims\<close>

definition alnum_char :: "nat \<Rightarrow> bool" where
  "alnum_char c \<longleftrightarrow> (65 \<le> c \<and> c \<le> 90) \<or> (97 \<le> c \<and> c \<le> 122) \<or> udigit c"

text \<open>\<open>CLAIM_TOKEN_PATTERN\<close>, \<open>JTI_PATTERN\<close> and \<open>SHA256_PATTERN\<close>.\<close>

definition claim_text :: "utext \<Rightarrow> bool" where
  "claim_text s \<longleftrightarrow> s \<noteq> [] \<and> length s \<le> 128 \<and> alnum_char (hd s)
     \<and> list_all (\<lambda>c. alnum_char c \<or> c \<in> {46, 95, 58, 64, 47, 45}) (tl s)"

definition jti_text :: "utext \<Rightarrow> bool" where
  "jti_text s \<longleftrightarrow> 16 \<le> length s \<and> length s \<le> 128 \<and> list_all segment_char s"

definition sha256_text :: "utext \<Rightarrow> bool" where
  "sha256_text s \<longleftrightarrow> length s = 64 \<and> list_all (\<lambda>c. udigit c \<or> (97 \<le> c \<and> c \<le> 102)) s"

definition claim_string :: "ujson option \<Rightarrow> string \<Rightarrow> auth_fault + utext" where
  "claim_string value name =
     (case value of
        Some (UStr s) \<Rightarrow> if claim_text s then Inr s else Inl (Token_fault (name @ '' is invalid''))
      | _ \<Rightarrow> Inl (Token_fault (name @ '' is invalid'')))"

definition claim_jti :: "ujson option \<Rightarrow> auth_fault + utext" where
  "claim_jti value =
     (case value of Some (UStr s) \<Rightarrow> if jti_text s then Inr s else Inl (Token_fault ''jti is invalid'')
      | _ \<Rightarrow> Inl (Token_fault ''jti is invalid''))"

fun claim_strings :: "ujson list \<Rightarrow> string \<Rightarrow> auth_fault + utext list" where
  "claim_strings [] name = Inr []"
| "claim_strings (v # vs) name =
     sbind (claim_string (Some v) name) (\<lambda>s. sbind (claim_strings vs name) (\<lambda>ss. Inr (s # ss)))"

definition claim_set :: "ujson option \<Rightarrow> string \<Rightarrow> nat \<Rightarrow> auth_fault + utext list" where
  "claim_set value name max_items =
     (case value of
        Some (UArr vs) \<Rightarrow>
          if 1 \<le> length vs \<and> length vs \<le> max_items
          then sbind (claim_strings vs name) (\<lambda>parsed.
            if distinct parsed \<and> parsed = sort parsed then Inr parsed
            else Inl (Token_fault (name @ '' must be unique and sorted'')))
          else Inl (Token_fault (name @ '' is invalid''))
      | _ \<Rightarrow> Inl (Token_fault (name @ '' is invalid'')))"

definition issue_times :: "int \<Rightarrow> rat \<Rightarrow> auth_fault + int \<times> int" where
  "issue_times ttl now =
     sbind (require (1 \<le> ttl \<and> ttl \<le> max_token_lifetime) (Value_fault ''ttl_seconds is out of range'')) (\<lambda>_.
     sbind (unix_time now) (\<lambda>issued_at. Inr (issued_at, issued_at + ttl)))"

text \<open>\<open>jti or secrets.token_urlsafe(24)\<close>; \<open>drawn\<close> is the random value.\<close>

definition jti_or :: "utext option \<Rightarrow> utext \<Rightarrow> utext" where
  "jti_or jti drawn = (case jti of Some s \<Rightarrow> if s = [] then drawn else s | None \<Rightarrow> drawn)"

section \<open>Session tokens\<close>

record session_claims =
  sc_subject :: utext
  sc_audience :: utext
  sc_issued_at :: int
  sc_expires_at :: int
  sc_jti :: utext
  sc_persona_scope :: "utext list"
  sc_capabilities :: "utext list"

definition session_claim_names :: "string list" where
  "session_claim_names = [''kind'', ''sub'', ''aud'', ''iat'', ''exp'', ''jti'', ''persona_scope'', ''capabilities'']"

definition text_array :: "utext list \<Rightarrow> ujson" where
  "text_array ss = UArr (map UStr ss)"

definition issue_session_token ::
    "mac \<Rightarrow> utext \<Rightarrow> utext \<Rightarrow> utext \<Rightarrow> utext \<Rightarrow> utext list \<Rightarrow> utext list \<Rightarrow> int \<Rightarrow> utext option \<Rightarrow> rat \<Rightarrow> auth_fault + utext" where
  "issue_session_token mac drawn key subject audience persona_scope capabilities ttl jti now =
     sbind (issue_times ttl now) (\<lambda>(issued_at, expires_at).
     sbind (claim_string (Some (UStr subject)) ''subject'') (\<lambda>sub.
     sbind (claim_string (Some (UStr audience)) ''audience'') (\<lambda>aud.
     sbind (claim_jti (Some (UStr (jti_or jti drawn)))) (\<lambda>id.
     sbind (claim_set (Some (text_array (sort persona_scope))) ''persona_scope'' 64) (\<lambda>scope.
     sbind (claim_set (Some (text_array (sort capabilities))) ''capabilities'' 128) (\<lambda>caps.
       encode_token mac
         [(uni ''kind'', UStr (uni ''session'')), (uni ''sub'', UStr sub), (uni ''aud'', UStr aud),
          (uni ''iat'', UInt issued_at), (uni ''exp'', UInt expires_at), (uni ''jti'', UStr id),
          (uni ''persona_scope'', text_array scope), (uni ''capabilities'', text_array caps)] key))))))"

definition session_claims_of :: "(utext \<times> ujson) list \<Rightarrow> auth_fault + session_claims" where
  "session_claims_of payload =
     sbind (claim_string (uget ''sub'' payload) ''subject'') (\<lambda>sub.
     sbind (claim_string (uget ''aud'' payload) ''audience'') (\<lambda>aud.
     sbind (claim_jti (uget ''jti'' payload)) (\<lambda>id.
     sbind (claim_set (uget ''persona_scope'' payload) ''persona_scope'' 64) (\<lambda>scope.
     sbind (claim_set (uget ''capabilities'' payload) ''capabilities'' 128) (\<lambda>caps.
       Inr \<lparr>sc_subject = sub, sc_audience = aud, sc_issued_at = the (whole (uget ''iat'' payload)),
            sc_expires_at = the (whole (uget ''exp'' payload)), sc_jti = id, sc_persona_scope = scope,
            sc_capabilities = caps\<rparr>)))))"

text \<open>The last step of both verifications: the token is used up, if the caller asks for that. The cache
  keeps it until the later of its expiry and the end of the skew from now.\<close>

definition use_up ::
    "utext \<Rightarrow> int \<Rightarrow> int \<Rightarrow> rat \<Rightarrow> 'a \<Rightarrow> replay_cache option \<Rightarrow> bool \<Rightarrow> (auth_fault + 'a) \<times> replay_cache option" where
  "use_up jti expires_at skew again claims cache wanted =
     (case cache of
        Some c \<Rightarrow>
          if wanted
          then (case unix_time again of
                  Inl e \<Rightarrow> (Inl e, cache)
                | Inr current \<Rightarrow>
                    (case consume jti (max expires_at (current + skew)) (of_int current) c of
                       (r, c') \<Rightarrow> (sbind r (\<lambda>_. Inr claims), Some c')))
          else (Inr claims, cache)
      | None \<Rightarrow> (Inr claims, cache))"

definition verify_session_token ::
    "mac \<Rightarrow> utext \<Rightarrow> utext \<Rightarrow> utext \<Rightarrow> int \<Rightarrow> int \<Rightarrow> bool \<Rightarrow> rat \<Rightarrow> rat \<Rightarrow> replay_cache option
      \<Rightarrow> (auth_fault + session_claims) \<times> replay_cache option" where
  "verify_session_token mac token key audience max_lifetime skew wanted now again cache =
     (case sbind (decode_token mac token key audience ''session'' session_claim_names max_lifetime skew now)
             session_claims_of of
        Inl e \<Rightarrow> (Inl e, cache)
      | Inr claims \<Rightarrow> use_up (sc_jti claims) (sc_expires_at claims) skew again claims cache wanted)"

definition authorize_session_claims :: "session_claims \<Rightarrow> utext \<Rightarrow> utext list \<Rightarrow> auth_fault + unit" where
  "authorize_session_claims claims persona_id capabilities =
     sbind (require (persona_id \<in> set (sc_persona_scope claims)) (Token_fault ''token does not authorize this persona'')) (\<lambda>_.
     require (set capabilities \<subseteq> set (sc_capabilities claims))
       (Token_fault ''token does not authorize requested capabilities''))"

section \<open>Consent assertions\<close>

record consent_claims =
  cc_subject :: utext
  cc_audience :: utext
  cc_issued_at :: int
  cc_expires_at :: int
  cc_jti :: utext
  cc_persona_id :: utext
  cc_consent_id :: utext
  cc_revision :: int
  cc_manifest_digest :: utext
  cc_scopes :: "utext list"
  cc_reference_hashes :: "(utext \<times> utext) list"

definition consent_claim_names :: "string list" where
  "consent_claim_names =
     [''kind'', ''sub'', ''aud'', ''iat'', ''exp'', ''jti'', ''persona_id'', ''consent_id'', ''revision'',
      ''manifest_digest'', ''scopes'', ''reference_hashes'']"

definition hash_kind :: "utext \<Rightarrow> bool" where
  "hash_kind k \<longleftrightarrow> k = uni ''image'' \<or> k = uni ''voice''"

fun issued_hashes :: "(utext \<times> utext) list \<Rightarrow> auth_fault + (utext \<times> utext) list" where
  "issued_hashes [] = Inr []"
| "issued_hashes ((k, d) # s) =
     sbind (require (hash_kind k) (Value_fault ''reference hash kind is invalid'')) (\<lambda>_.
     sbind (require (sha256_text d) (Value_fault ''reference hash is invalid'')) (\<lambda>_.
     sbind (issued_hashes s) (\<lambda>hs. Inr ((k, d) # hs))))"

definition issue_consent_assertion ::
    "mac \<Rightarrow> utext \<Rightarrow> utext \<Rightarrow> utext \<Rightarrow> utext \<Rightarrow> utext \<Rightarrow> int \<Rightarrow> utext \<Rightarrow> utext list \<Rightarrow> (utext \<times> utext) list \<Rightarrow> int \<Rightarrow> utext option
      \<Rightarrow> rat \<Rightarrow> auth_fault + utext" where
  "issue_consent_assertion mac drawn key audience persona_id consent_id revision manifest_digest scopes hashes ttl jti now =
     sbind (issue_times ttl now) (\<lambda>(issued_at, expires_at).
     sbind (require (\<not> revision < 0) (Value_fault ''revision is invalid'')) (\<lambda>_.
     sbind (require (sha256_text manifest_digest) (Value_fault ''manifest_digest is invalid'')) (\<lambda>_.
     sbind (require (length hashes \<le> 2) (Value_fault ''reference_hashes is invalid'')) (\<lambda>_.
     sbind (issued_hashes (sort_key fst hashes)) (\<lambda>normalized.
     sbind (claim_string (Some (UStr persona_id)) ''persona_id'') (\<lambda>persona.
     sbind (claim_string (Some (UStr audience)) ''audience'') (\<lambda>aud.
     sbind (claim_jti (Some (UStr (jti_or jti drawn)))) (\<lambda>id.
     sbind (claim_string (Some (UStr consent_id)) ''consent_id'') (\<lambda>consent.
     sbind (claim_set (Some (text_array (sort scopes))) ''scopes'' 32) (\<lambda>granted.
       encode_token mac
         [(uni ''kind'', UStr (uni ''consent'')), (uni ''sub'', UStr persona), (uni ''aud'', UStr aud),
          (uni ''iat'', UInt issued_at), (uni ''exp'', UInt expires_at), (uni ''jti'', UStr id),
          (uni ''persona_id'', UStr persona), (uni ''consent_id'', UStr consent), (uni ''revision'', UInt revision),
          (uni ''manifest_digest'', UStr manifest_digest), (uni ''scopes'', text_array granted),
          (uni ''reference_hashes'', UObj (map (\<lambda>(k, d). (k, UStr d)) normalized))] key))))))))))"

fun claimed_hashes :: "(utext \<times> ujson) list \<Rightarrow> auth_fault + (utext \<times> utext) list" where
  "claimed_hashes [] = Inr []"
| "claimed_hashes ((k, v) # s) =
     sbind (require (hash_kind k) (Token_fault ''reference hash kind is invalid'')) (\<lambda>_.
     sbind (case v of UStr d \<Rightarrow> if sha256_text d then Inr d else Inl (Token_fault ''reference hash is invalid'')
            | _ \<Rightarrow> Inl (Token_fault ''reference hash is invalid'')) (\<lambda>d.
     sbind (claimed_hashes s) (\<lambda>hs. Inr ((k, d) # hs))))"

definition consent_claims_of :: "(utext \<times> ujson) list \<Rightarrow> auth_fault + consent_claims" where
  "consent_claims_of payload =
     sbind (claim_string (uget ''persona_id'' payload) ''persona_id'') (\<lambda>persona.
     sbind (claim_string (uget ''sub'' payload) ''subject'') (\<lambda>sub.
     sbind (require (sub = persona) (Token_fault ''consent subject is invalid'')) (\<lambda>_.
     sbind (case whole (uget ''revision'' payload) of
              Some r \<Rightarrow> if r < 0 then Inl (Token_fault ''consent revision is invalid'') else Inr r
            | None \<Rightarrow> Inl (Token_fault ''consent revision is invalid'')) (\<lambda>revision.
     sbind (case uget ''manifest_digest'' payload of
              Some (UStr d) \<Rightarrow> if sha256_text d then Inr d else Inl (Token_fault ''manifest digest is invalid'')
            | _ \<Rightarrow> Inl (Token_fault ''manifest digest is invalid'')) (\<lambda>digest.
     sbind (case uget ''reference_hashes'' payload of
              Some (UObj kvs) \<Rightarrow>
                if length kvs \<le> 2 then claimed_hashes kvs else Inl (Token_fault ''reference hashes are invalid'')
            | _ \<Rightarrow> Inl (Token_fault ''reference hashes are invalid'')) (\<lambda>hashes.
     sbind (claim_string (uget ''aud'' payload) ''audience'') (\<lambda>aud.
     sbind (claim_jti (uget ''jti'' payload)) (\<lambda>id.
     sbind (claim_string (uget ''consent_id'' payload) ''consent_id'') (\<lambda>consent.
     sbind (claim_set (uget ''scopes'' payload) ''scopes'' 32) (\<lambda>scopes.
       Inr \<lparr>cc_subject = sub, cc_audience = aud, cc_issued_at = the (whole (uget ''iat'' payload)),
            cc_expires_at = the (whole (uget ''exp'' payload)), cc_jti = id, cc_persona_id = persona,
            cc_consent_id = consent, cc_revision = revision, cc_manifest_digest = digest, cc_scopes = scopes,
            cc_reference_hashes = hashes\<rparr>))))))))))"

definition verify_consent_assertion ::
    "mac \<Rightarrow> utext \<Rightarrow> utext \<Rightarrow> utext \<Rightarrow> int \<Rightarrow> int \<Rightarrow> bool \<Rightarrow> rat \<Rightarrow> rat \<Rightarrow> replay_cache option
      \<Rightarrow> (auth_fault + consent_claims) \<times> replay_cache option" where
  "verify_consent_assertion mac token key audience max_lifetime skew wanted now again cache =
     (case sbind (decode_token mac token key audience ''consent'' consent_claim_names max_lifetime skew now)
             consent_claims_of of
        Inl e \<Rightarrow> (Inl e, cache)
      | Inr claims \<Rightarrow> use_up (cc_jti claims) (cc_expires_at claims) skew again claims cache wanted)"

fun hashes_agree :: "(utext \<times> utext) list \<Rightarrow> (utext \<times> utext) list \<Rightarrow> bool" where
  "hashes_agree claimed [] = True"
| "hashes_agree claimed ((k, d) # s) = ((case map_of claimed k of Some c \<Rightarrow> c | None \<Rightarrow> []) = d \<and> hashes_agree claimed s)"

definition authorize_consent_claims ::
    "consent_claims \<Rightarrow> utext \<Rightarrow> (utext \<times> utext) list option \<Rightarrow> auth_fault + unit" where
  "authorize_consent_claims claims required_scope reference_hashes =
     (let expected = (case reference_hashes of Some hs \<Rightarrow> hs | None \<Rightarrow> []) in
      sbind (require (required_scope \<in> set (cc_scopes claims)) (Token_fault ''consent assertion scope is insufficient'')) (\<lambda>_.
      sbind (require (set (map fst (cc_reference_hashes claims)) = set (map fst expected))
          (Token_fault ''consent assertion reference set does not match'')) (\<lambda>_.
      require (hashes_agree (cc_reference_hashes claims) expected)
        (Token_fault ''consent assertion reference hash does not match''))))"

end
