(* ===== verification/RealtimePretty.thy ===== *)
theory RealtimePretty
  imports RealtimeJson
begin

text \<open>
  \<^verbatim>\<open>json.dumps(value, ensure_ascii=False, indent=2)\<close>, which the realtime service writes its state file and
  its manifests with, and the round trip through \<open>json.loads\<close>.
\<close>

definition new_line :: "nat \<Rightarrow> utext" where
  "new_line level = 10 # replicate (2 * level) 32"

fun joined :: "utext \<Rightarrow> utext list \<Rightarrow> utext" where
  "joined sep [] = []"
| "joined sep [s] = s"
| "joined sep (s # t # ss) = s @ sep @ joined sep (t # ss)"

function jpretty :: "(rat \<Rightarrow> utext) \<Rightarrow> nat \<Rightarrow> ujson \<Rightarrow> utext" where
  "jpretty ft level (UArr vs) =
     (if vs = [] then [91, 93]
      else 91 # new_line (Suc level) @ joined (44 # new_line (Suc level)) (map (jpretty ft (Suc level)) vs)
             @ new_line level @ [93])"
| "jpretty ft level (UObj kvs) =
     (if kvs = [] then [123, 125]
      else 123 # new_line (Suc level)
             @ joined (44 # new_line (Suc level)) (map (\<lambda>(k, v). quoted k @ [58, 32] @ jpretty ft (Suc level) v) kvs)
             @ new_line level @ [125])"
| "jpretty ft level UNull = jprint ft UNull"
| "jpretty ft level (UBool b) = jprint ft (UBool b)"
| "jpretty ft level (UInt i) = jprint ft (UInt i)"
| "jpretty ft level (UFloat q) = jprint ft (UFloat q)"
| "jpretty ft level (UConst s) = jprint ft (UConst s)"
| "jpretty ft level (UStr s) = jprint ft (UStr s)"
  by pat_completeness auto
termination
proof (relation "measure (\<lambda>(ft, level, v). size v)")
  fix ft :: "rat \<Rightarrow> utext" and level kvs and z :: "utext \<times> ujson" and k v
  assume "z \<in> set kvs" "(k, v) = z"
  then show "((ft, Suc level, v), ft, level, UObj kvs) \<in> measure (\<lambda>(ft, level, v). size v)"
    using size_list_estimation' [of z kvs "size v" "size_prod (\<lambda>_. 0) size"] by auto
qed (auto simp: less_Suc_eq_le size_list_estimation')

definition pretty_items :: "(rat \<Rightarrow> utext) \<Rightarrow> nat \<Rightarrow> ujson list \<Rightarrow> utext" where
  "pretty_items ft level vs = joined (44 # new_line level) (map (jpretty ft level) vs)"

definition pretty_members :: "(rat \<Rightarrow> utext) \<Rightarrow> nat \<Rightarrow> (utext \<times> ujson) list \<Rightarrow> utext" where
  "pretty_members ft level kvs = joined (44 # new_line level) (map (\<lambda>(k, v). quoted k @ [58, 32] @ jpretty ft level v) kvs)"

lemma joined_Cons: "joined sep (s # ss) = s @ (if ss = [] then [] else sep @ joined sep ss)"
  by (cases ss) simp_all

lemma pretty_members_Cons: "pretty_members ft level ((k, v) # kvs) =
    quoted k @ 58 # 32 # jpretty ft level v @ (if kvs = [] then [] else 44 # new_line level @ pretty_members ft level kvs)"
  by (simp add: pretty_members_def joined_Cons)

lemma pretty_items_Cons: "pretty_items ft level (v # vs) =
    jpretty ft level v @ (if vs = [] then [] else 44 # new_line level @ pretty_items ft level vs)"
  by (simp add: pretty_items_def joined_Cons)

lemma skip_new_line [simp]: "skip_ws (new_line level @ s) = skip_ws s"
  by (induction level) (simp_all add: new_line_def skip_ws_def replicate_add [symmetric])

lemma skip_space [simp]: "skip_ws (32 # s) = skip_ws s"
  by (simp add: skip_ws_def)

lemma stops_new_line [simp]: "stops (new_line level @ s)"
  by (simp add: stops_def new_line_def)

lemma jpretty_head: "plain v \<Longrightarrow> jpretty ft level v \<noteq> [] \<and> value_start (hd (jpretty ft level v))"
  using jprint_head [of v ft] by (cases v) (auto simp: value_start_def)

lemma skip_pretty: "plain v \<Longrightarrow> skip_ws (jpretty ft level v @ r) = jpretty ft level v @ r"
  using jpretty_head skip_start by blast

lemma fold_dict_set: "distinct (map fst (acc @ kvs)) \<Longrightarrow> fold (\<lambda>(k, v). dict_set k v) kvs acc = acc @ kvs"
proof (induction kvs arbitrary: acc)
  case (Cons a kvs)
  obtain k v where a: "a = (k, v)" by (cases a)
  have "k \<notin> fst ` set acc \<Longrightarrow> dict_set k v acc = acc @ [(k, v)]" for acc
    by (induction acc) auto
  with Cons show ?case by (simp add: a)
qed simp

lemma make_object_distinct: "distinct (map fst kvs) \<Longrightarrow> make_object strict kvs = Inr (UObj kvs)"
  using fold_dict_set [of "[]" kvs] by (simp add: make_object_def)

lemma parse_pretty:
  "plain v \<Longrightarrow> stops r \<Longrightarrow> 2 * length (jpretty ft level v) < n
     \<Longrightarrow> parse_value strict n (jpretty ft level v @ r) = Inr (v, r)"
  "vs \<noteq> [] \<Longrightarrow> list_all plain vs \<Longrightarrow> 2 * length (pretty_items ft level vs) + 1 < n
     \<Longrightarrow> parse_elements strict n (pretty_items ft level vs @ new_line k @ 93 # r) = Inr (vs, r)"
  "kvs \<noteq> [] \<Longrightarrow> list_all (\<lambda>(k, v). plain v) kvs \<Longrightarrow> 2 * length (pretty_members ft level kvs) < n
     \<Longrightarrow> parse_members strict n (pretty_members ft level kvs @ new_line k @ 125 # r) = Inr (kvs, r)"
proof (induction n arbitrary: v r vs kvs level k)
  case (Suc n)
  note ih = Suc.IH
  {
    case 1
    show ?case
    proof (cases v)
      case (UArr ws)
      show ?thesis
      proof (cases "ws = []")
        case False
        then obtain w ws' where ws: "ws = w # ws'" by (cases ws) auto
        have plain: "list_all plain ws" using 1 UArr by simp
        let ?i = "pretty_items ft (Suc level) ws"
        have items: "jpretty ft level v @ r = 91 # new_line (Suc level) @ ?i @ new_line level @ 93 # r"
          "2 * length ?i + 1 < n"
          using UArr False 1(3) by (simp_all add: pretty_items_def)
        have start: "skip_ws (?i @ s) = ?i @ s" "?i \<noteq> []" "hd (?i @ s) \<noteq> 93" for s
          using plain skip_pretty [of w ft] jpretty_head [of w ft "Suc level"]
          by (auto simp: ws pretty_items_Cons value_start_def udigit_def)
        show ?thesis
          unfolding items(1) using start ih(2) [OF False plain items(2), of level r] by (simp add: Let_def UArr)
      qed (use UArr in \<open>simp add: skip_ws_def\<close>)
    next
      case (UObj ks)
      show ?thesis
      proof (cases "ks = []")
        case False
        then obtain k' w ks' where ks: "ks = (k', w) # ks'" by (cases ks) auto
        have plain: "list_all (\<lambda>(k, v). plain v) ks" "distinct (map fst ks)" using 1 UObj by simp_all
        let ?i = "pretty_members ft (Suc level) ks"
        have items: "jpretty ft level v @ r = 123 # new_line (Suc level) @ ?i @ new_line level @ 125 # r"
          "2 * length ?i < n"
          using UObj False 1(3) by (simp_all add: pretty_members_def)
        have start: "skip_ws (?i @ s) = ?i @ s" "?i \<noteq> []" "hd (?i @ s) \<noteq> 125" for s
          using skip_quoted [of k'] by (auto simp: ks pretty_members_Cons quoted_def)
        show ?thesis
          unfolding items(1) using start ih(3) [OF False plain(1) items(2), of level r] plain(2)
          by (simp add: Let_def make_object_distinct UObj)
      qed (use UObj in \<open>simp add: skip_ws_def\<close>)
    next
      case (UStr t)
      then show ?thesis by (simp add: quoted_def scan_quoted)
    next
      case (UInt i)
      have "hd (int_digits i @ r) \<noteq> 34 \<and> hd (int_digits i @ r) \<noteq> 123 \<and> hd (int_digits i @ r) \<noteq> 91"
        using int_digits_head [of i] by (auto simp: udigit_def)
      then show ?thesis
        using UInt 1 int_digits_head [of i] scan_literal_number [of r i strict] by simp
    qed (use 1 in \<open>simp_all add: scan_literal_def after_prefix_def\<close>)
  next
    case 2
    then obtain w ws' where ws: "vs = w # ws'" by (cases vs) auto
    have p: "plain w" using 2 ws by simp
    have len: "2 * length (jpretty ft level w) < n" using 2(3) by (simp add: ws pretty_items_Cons split: if_splits)
    show ?case
    proof (cases "ws' = []")
      case True
      then show ?thesis using ih(1) [OF p _ len, of "new_line k @ 93 # r"] by (simp add: ws pretty_items_Cons Let_def)
    next
      case False
      then obtain w2 ws2 where w2: "ws' = w2 # ws2" by (cases ws') auto
      have "parse_elements strict n (pretty_items ft level ws' @ new_line k @ 93 # r) = Inr (ws', r)"
        using ih(2) [of ws' level k r] False 2 by (simp add: ws pretty_items_Cons)
      moreover have "skip_ws (pretty_items ft level ws' @ s) = pretty_items ft level ws' @ s" for s
        using skip_pretty [of w2 ft] 2(2) by (simp add: ws w2 pretty_items_Cons)
      ultimately show ?thesis
        using ih(1) [OF p _ len, of "44 # new_line level @ pretty_items ft level ws' @ new_line k @ 93 # r"] False
        by (simp add: ws pretty_items_Cons Let_def)
    qed
  next
    case 3
    then obtain k' w ks' where ks: "kvs = (k', w) # ks'" by (cases kvs) auto
    have p: "plain w" using 3 ks by simp
    have len: "2 * length (jpretty ft level w) < n"
      using 3(3) by (simp add: ks pretty_members_Cons quoted_def split: if_splits)
    have key: "scan_string (concat (map esc_char k') @ 34 # q) = Some (k', q)" for q by (rule scan_quoted)
    show ?case
    proof (cases "ks' = []")
      case True
      then show ?thesis
        using ih(1) [OF p _ len, of "new_line k @ 125 # r"] skip_pretty [OF p]
        by (simp add: ks pretty_members_Cons quoted_def key Let_def)
    next
      case False
      then obtain k2 w2 ks2 where k2: "ks' = (k2, w2) # ks2" by (cases ks') auto
      have "parse_members strict n (pretty_members ft level ks' @ new_line k @ 125 # r) = Inr (ks', r)"
        using ih(3) [of ks' level k r] False 3 by (simp add: ks pretty_members_Cons)
      moreover have "skip_ws (pretty_members ft level ks' @ s) = pretty_members ft level ks' @ s" for s
        using skip_quoted [of k2] by (simp add: k2 pretty_members_Cons)
      ultimately show ?thesis
        using ih(1) [OF p _ len, of "44 # new_line level @ pretty_members ft level ks' @ new_line k @ 125 # r"] False
          skip_pretty [OF p]
        by (simp add: ks pretty_members_Cons quoted_def key Let_def)
    qed
  }
qed simp_all

lemma pretty_roundtrip: "plain v \<Longrightarrow> parse_json strict (jpretty ft 0 v @ [10]) = Inr v"
proof -
  assume p: "plain v"
  have "hd (jpretty ft 0 v) \<noteq> 0xFEFF" "jpretty ft 0 v \<noteq> []"
    using jpretty_head [OF p, of ft 0] by (auto simp: value_start_def udigit_def)
  moreover have "parse_value strict (Suc (2 * length (jpretty ft 0 v @ [10]))) (jpretty ft 0 v @ [10]) = Inr (v, [10])"
    by (rule parse_pretty(1) [OF p]) (simp_all add: stops_def)
  ultimately show ?thesis
    using skip_pretty [OF p, of ft 0 "[10]"] by (simp add: parse_json_def skip_ws_def del: parse_value.simps)
qed

end
