(* ===== verification/RealtimeTokens.thy ===== *)
theory RealtimeTokens
  imports RealtimeAuth
begin

text \<open>
  What the tokens of the realtime service promise (\<^verbatim>\<open>services/realtime/src/echoweave/auth.py\<close>): a token
  that is accepted was signed with the key for this audience and is inside its time window; what is
  issued is accepted with the claims it was issued for; a token is used once while the cache remembers
  it, and how long that is.
\<close>

section \<open>The replay cache refines a register\<close>

text \<open>
  The abstract register: for every token the last second for which it is remembered. Redeeming a
  token forgets what has lapsed, refuses a remembered token and one over the capacity, and remembers
  the others.
\<close>

definition forget :: "int \<Rightarrow> (utext \<rightharpoonup> int) \<Rightarrow> (utext \<rightharpoonup> int)" where
  "forget t m = (\<lambda>k. case m k of Some e \<Rightarrow> if e < t then None else Some e | None \<Rightarrow> None)"

definition redeem :: "nat \<Rightarrow> utext \<Rightarrow> int \<Rightarrow> int \<Rightarrow> (utext \<rightharpoonup> int) \<Rightarrow> bool \<times> (utext \<rightharpoonup> int)" where
  "redeem capacity jti expires_at t m =
     (let m' = forget t m in
      if jti \<in> dom m' \<or> capacity \<le> card (dom m') then (False, m') else (True, m'(jti \<mapsto> expires_at)))"

definition cache_ok :: "replay_cache \<Rightarrow> bool" where
  "cache_ok c \<longleftrightarrow> distinct (map fst (rc_entries c)) \<and> length (rc_entries c) \<le> rc_max_entries c"

definition remembered :: "replay_cache \<Rightarrow> (utext \<rightharpoonup> int)" where
  "remembered c = map_of (rc_entries c)"

lemma distinct_live: "distinct (map fst es) \<Longrightarrow> distinct (map fst (live_entries t es))"
  unfolding live_entries_def by (rule distinct_map_filter)

lemma length_live: "length (live_entries t es) \<le> length es"
  by (simp add: live_entries_def)

lemma map_of_live: "distinct (map fst es) \<Longrightarrow> map_of (live_entries t es) = forget t (map_of es)"
proof (induction es)
  case (Cons a es)
  obtain k e where a: "a = (k, e)" by (cases a)
  have "map_of es k = None" using Cons.prems by (simp add: a map_of_eq_None_iff)
  with Cons show ?case
    by (auto simp: a live_entries_def forget_def fun_eq_iff split: option.splits)
qed (simp add: live_entries_def forget_def)

lemma unix_time_nonneg: "0 \<le> now \<Longrightarrow> unix_time now = Inr \<lfloor>now\<rfloor>"
  by (simp add: unix_time_def)

lemma consume_refines:
  assumes "cache_ok c" "0 \<le> now"
  shows "redeem (rc_max_entries c) jti e \<lfloor>now\<rfloor> (remembered c)
    = (fst (consume jti e now c) = Inr (), remembered (snd (consume jti e now c)))"
proof -
  let ?live = "live_entries \<lfloor>now\<rfloor> (rc_entries c)"
  have d: "distinct (map fst (rc_entries c))" using assms(1) by (simp add: cache_ok_def)
  have m: "forget \<lfloor>now\<rfloor> (map_of (rc_entries c)) = map_of ?live" using map_of_live [OF d] by simp
  have card: "card (fst ` set ?live) = length ?live"
    using distinct_card [OF distinct_live [OF d]] by simp
  have upd: "map_of (?live @ [(jti, e)]) = (map_of ?live)(jti \<mapsto> e)" if "jti \<notin> fst ` set ?live"
  proof
    have none: "map_of ?live jti = None" using that by (simp add: map_of_eq_None_iff)
    show "map_of (?live @ [(jti, e)]) k = ((map_of ?live)(jti \<mapsto> e)) k" for k
      by (cases "k = jti") (simp_all add: none map_add_def split: option.splits)
  qed
  show ?thesis
    using upd by (simp add: redeem_def consume_def Let_def unix_time_nonneg assms(2) remembered_def m card dom_map_of_conv_image_fst)
qed

lemma consume_keeps: "cache_ok c \<Longrightarrow> cache_ok (snd (consume jti e now c)) \<and> rc_max_entries (snd (consume jti e now c)) = rc_max_entries c"
proof -
  assume ok: "cache_ok c"
  have "distinct (map fst (live_entries t (rc_entries c)))" "length (live_entries t (rc_entries c)) \<le> rc_max_entries c" for t
    using ok distinct_live length_live [of t "rc_entries c"] by (auto simp: cache_ok_def intro: le_trans)
  then show ?thesis
    using ok by (auto simp: consume_def Let_def cache_ok_def split: sum.splits)
qed

text \<open>
  C26. The replay cache refines the register: whatever the clock shows, one call answers and leaves
  behind what redeeming does to the tokens remembered, and the cache stays without duplicates and
  within its capacity.
\<close>

theorem cache_refines_register:
  assumes "cache_ok c" "0 \<le> now"
  shows "redeem (rc_max_entries c) jti e \<lfloor>now\<rfloor> (remembered c)
      = (fst (consume jti e now c) = Inr (), remembered (snd (consume jti e now c)))
    \<and> cache_ok (snd (consume jti e now c)) \<and> rc_max_entries (snd (consume jti e now c)) = rc_max_entries c"
  using consume_refines [OF assms] consume_keeps [OF assms(1)] by blast

theorem cache_refines_register_witness:
  "redeem 2 [1] 9 5 (remembered \<lparr>rc_max_entries = 2, rc_entries = [([1], 4), ([2], 7)]\<rparr>)
    = (fst (consume [1] 9 5 \<lparr>rc_max_entries = 2, rc_entries = [([1], 4), ([2], 7)]\<rparr>) = Inr (),
       remembered (snd (consume [1] 9 5 \<lparr>rc_max_entries = 2, rc_entries = [([1], 4), ([2], 7)]\<rparr>)))"
  using cache_refines_register [of "\<lparr>rc_max_entries = 2, rc_entries = [([1], 4), ([2], 7)]\<rparr>" 5 "[1]" 9]
  by (simp add: cache_ok_def)

text \<open>Calls of the cache one after the other.\<close>

definition consume_all :: "(utext \<times> int \<times> rat) list \<Rightarrow> replay_cache \<Rightarrow> replay_cache" where
  "consume_all calls c = fold (\<lambda>(jti, e, now) c. snd (consume jti e now c)) calls c"

lemma consume_remembers:
  assumes "(k, x) \<in> set (rc_entries c)" "\<lfloor>now\<rfloor> \<le> x"
  shows "(k, x) \<in> set (rc_entries (snd (consume jti e now c)))"
  using assms by (auto simp: consume_def unix_time_def Let_def live_entries_def split: sum.splits if_splits)

lemma consume_all_remembers:
  "(k, x) \<in> set (rc_entries c) \<Longrightarrow> list_all (\<lambda>(jti, e, now). \<lfloor>now\<rfloor> \<le> x) calls
     \<Longrightarrow> (k, x) \<in> set (rc_entries (consume_all calls c))"
proof (induction calls arbitrary: c)
  case (Cons a calls)
  obtain jti e now where a: "a = (jti, e, now)" by (cases a)
  show ?case
    using Cons.IH [OF consume_remembers [OF Cons.prems(1), of now jti e]] Cons.prems(2)
    by (simp add: a consume_all_def)
qed (simp add: consume_all_def)

lemma consume_refuses:
  assumes "(k, x) \<in> set (rc_entries c)" "0 \<le> now" "\<lfloor>now\<rfloor> \<le> x"
  shows "fst (consume k e now c) = Inl (Token_fault ''token has already been used'')"
proof -
  have "(k, x) \<in> set (live_entries \<lfloor>now\<rfloor> (rc_entries c))" using assms(1,3) by (simp add: live_entries_def)
  then have "k \<in> fst ` set (live_entries \<lfloor>now\<rfloor> (rc_entries c))" by (force simp: image_iff)
  then show ?thesis by (simp add: consume_def unix_time_nonneg assms(2) Let_def)
qed

lemma consume_accepts: "consume k e now c = (Inr (), c') \<Longrightarrow> (k, e) \<in> set (rc_entries c')"
  by (auto simp: consume_def Let_def split: sum.splits if_splits)

text \<open>
  C27. A token identifier is accepted once: after a call that accepted it, it is refused by every
  call up to the expiry it was stored with, whatever other tokens were used in between and whether
  they were accepted or not.
\<close>

theorem token_used_once:
  assumes "consume jti e now c = (Inr (), c')" "list_all (\<lambda>(j, x, t). \<lfloor>t\<rfloor> \<le> e) calls"
    and "0 \<le> later" "\<lfloor>later\<rfloor> \<le> e"
  shows "fst (consume jti e' later (consume_all calls c')) = Inl (Token_fault ''token has already been used'')"
  using consume_refuses [OF consume_all_remembers [OF consume_accepts [OF assms(1)] assms(2)] assms(3,4)] .

theorem token_used_once_witness:
  "fst (consume [7] 9 3 (consume_all [([8], 2, 1), ([7], 5, 2)] (snd (consume [7] 9 0 \<lparr>rc_max_entries = 5, rc_entries = []\<rparr>))))
     = Inl (Token_fault ''token has already been used'')"
proof -
  let ?c = "\<lparr>rc_max_entries = 5, rc_entries = []\<rparr>"
  have "consume [7] 9 0 ?c = (Inr (), snd (consume [7] 9 0 ?c))"
    by (simp add: consume_def unix_time_def live_entries_def)
  then show ?thesis by (rule token_used_once) simp_all
qed

section \<open>What is accepted\<close>

lemma check_payload_same: "check_payload payload audience kind claims max_lifetime skew now = Inr payload' \<Longrightarrow> payload' = payload"
  by (auto simp: check_payload_def split: option.splits)

lemma split_dots_join: "\<exists>h t. split_dots s = h # t \<and> s = h @ concat (map ((#) 46) t)"
  by (induction s) auto

lemma decode_token_contract:
  assumes "decode_token mac token key audience kind claims max_lifetime skew now = Inr payload"
  shows "\<exists>k header body supplied.
      signing_key key = Inr k \<and> token = header @ 46 # body @ 46 # supplied
    \<and> b64decode supplied = Some (mac k (ascii_bytes (header @ 46 # body)))
    \<and> sbind (decode_segment body) strict_json_object = Inr payload
    \<and> check_payload payload audience kind claims max_lifetime skew now = Inr payload"
proof -
  obtain h p q where parts: "split_dots token = [h, p, q]"
    using assms by (auto simp: decode_token_def token_pattern_def Let_def length_Suc_conv numeral_3_eq_3)
  then have "token = h @ 46 # p @ 46 # q" using split_dots_join [of token] by auto
  moreover from assms parts obtain k bs where "signing_key key = Inr k" "b64decode q = Some (mac k (ascii_bytes (h @ 46 # p)))"
    "decode_segment p = Inr bs" "strict_json_object bs = Inr payload"
    "check_payload payload audience kind claims max_lifetime skew now = Inr payload"
    by (auto simp: decode_token_def Let_def decode_segment_def dest: check_payload_same split: option.splits)
  ultimately show ?thesis
    by (intro exI [of _ k] exI [of _ h] exI [of _ p] exI [of _ q]) simp
qed

lemma check_payload_contract:
  assumes "check_payload payload audience kind claims max_lifetime skew now = Inr payload'"
  shows "\<exists>iat exp. uget ''iat'' payload = Some (UInt iat) \<and> uget ''exp'' payload = Some (UInt exp)
    \<and> uget ''aud'' payload = Some (UStr audience) \<and> uget ''kind'' payload = Some (UStr (uni kind))
    \<and> 0 \<le> now \<and> iat \<le> \<lfloor>now\<rfloor> + skew \<and> \<lfloor>now\<rfloor> - skew \<le> exp \<and> 1 \<le> exp - iat \<and> exp - iat \<le> max_lifetime
    \<and> max_lifetime \<le> 3600 \<and> 0 \<le> skew \<and> skew \<le> 60"
  using assms
  by (auto simp: check_payload_def whole_def unix_time_def max_token_lifetime_def
      split: option.splits ujson.splits if_splits)

lemma claim_string_Inr: "claim_string v name = Inr s \<longleftrightarrow> v = Some (UStr s) \<and> claim_text s"
  by (auto simp: claim_string_def split: option.splits ujson.splits)

lemma claim_jti_Inr: "claim_jti v = Inr s \<longleftrightarrow> v = Some (UStr s) \<and> jti_text s"
  by (auto simp: claim_jti_def split: option.splits ujson.splits)

lemma claim_strings_Inr: "claim_strings vs name = Inr ss \<longleftrightarrow> vs = map UStr ss \<and> list_all claim_text ss"
proof (induction vs arbitrary: ss)
  case (Cons v vs)
  then show ?case by (cases ss) (auto simp: claim_string_Inr)
qed auto

lemma eq_sort_iff: "s = sort s \<longleftrightarrow> sorted s"
  by (metis sorted_sort sorted_sort_id)

lemma claim_set_Inr:
  "claim_set v name n = Inr ss \<longleftrightarrow> v = Some (text_array ss) \<and> ss \<noteq> [] \<and> length ss \<le> n \<and> list_all claim_text ss
     \<and> distinct ss \<and> sorted ss"
proof -
  have "claim_set (Some (UArr vs)) name n = Inr ss \<longleftrightarrow> UArr vs = text_array ss \<and> ss \<noteq> [] \<and> length ss \<le> n
      \<and> list_all claim_text ss \<and> distinct ss \<and> sorted ss" for vs
    using eq_sort_iff [of ss] by (auto simp: claim_set_def claim_strings_Inr text_array_def Suc_le_eq)
  then show ?thesis
    by (cases v; cases "the v") (auto simp: claim_set_def text_array_def)
qed

text \<open>
  C24. An accepted session token was signed: its signature is the authentication code, under the key
  of the service, of exactly the bytes before it; the claims handed out are those of the signed
  payload; and they are for this audience, inside the time window with the allowed skew, with a
  lifetime within the limit, a sorted scope of at most 64 personas and at most 128 capabilities.
\<close>

theorem session_token_sound:
  assumes "verify_session_token mac token key audience max_lifetime skew wanted now again cache = (Inr claims, cache')"
  shows "\<exists>k header body supplied payload.
      signing_key key = Inr k \<and> token = header @ 46 # body @ 46 # supplied
    \<and> b64decode supplied = Some (mac k (ascii_bytes (header @ 46 # body)))
    \<and> sbind (decode_segment body) strict_json_object = Inr payload
    \<and> uget ''kind'' payload = Some (UStr (uni ''session'')) \<and> uget ''sub'' payload = Some (UStr (sc_subject claims))
    \<and> uget ''jti'' payload = Some (UStr (sc_jti claims))
    \<and> uget ''persona_scope'' payload = Some (text_array (sc_persona_scope claims))
    \<and> uget ''capabilities'' payload = Some (text_array (sc_capabilities claims))
    \<and> sc_audience claims = audience
    \<and> sc_issued_at claims \<le> \<lfloor>now\<rfloor> + skew \<and> \<lfloor>now\<rfloor> - skew \<le> sc_expires_at claims
    \<and> 1 \<le> sc_expires_at claims - sc_issued_at claims \<and> sc_expires_at claims - sc_issued_at claims \<le> max_lifetime
    \<and> sorted (sc_persona_scope claims) \<and> length (sc_persona_scope claims) \<le> 64 \<and> length (sc_capabilities claims) \<le> 128"
proof -
  obtain payload where d: "decode_token mac token key audience ''session'' session_claim_names max_lifetime skew now = Inr payload"
    and c: "session_claims_of payload = Inr claims"
    using assms
    by (auto simp: verify_session_token_def use_up_def split: sum.splits option.splits prod.splits if_splits)
  obtain k header body supplied where t: "signing_key key = Inr k" "token = header @ 46 # body @ 46 # supplied"
    "b64decode supplied = Some (mac k (ascii_bytes (header @ 46 # body)))"
    "sbind (decode_segment body) strict_json_object = Inr payload"
    and p: "check_payload payload audience ''session'' session_claim_names max_lifetime skew now = Inr payload"
    using decode_token_contract [OF d] by blast
  from check_payload_contract [OF p] c have "uget ''kind'' payload = Some (UStr (uni ''session''))
      \<and> uget ''sub'' payload = Some (UStr (sc_subject claims)) \<and> uget ''jti'' payload = Some (UStr (sc_jti claims))
      \<and> uget ''persona_scope'' payload = Some (text_array (sc_persona_scope claims))
      \<and> uget ''capabilities'' payload = Some (text_array (sc_capabilities claims)) \<and> sc_audience claims = audience
      \<and> sc_issued_at claims \<le> \<lfloor>now\<rfloor> + skew \<and> \<lfloor>now\<rfloor> - skew \<le> sc_expires_at claims
      \<and> 1 \<le> sc_expires_at claims - sc_issued_at claims \<and> sc_expires_at claims - sc_issued_at claims \<le> max_lifetime
      \<and> sorted (sc_persona_scope claims) \<and> length (sc_persona_scope claims) \<le> 64 \<and> length (sc_capabilities claims) \<le> 128"
    by (auto simp: session_claims_of_def claim_string_Inr claim_jti_Inr claim_set_Inr whole_def)
  with t show ?thesis by blast
qed

section \<open>What is issued is accepted\<close>

definition sorted_payload :: "(utext \<times> ujson) list \<Rightarrow> (utext \<times> ujson) list" where
  "sorted_payload kvs = sort_key fst (map (\<lambda>(k, v). (k, key_sorted v)) kvs)"

lemma distinct_sort_key: "distinct (map fst (sort_key fst kvs)) \<longleftrightarrow> distinct (map fst kvs)"
  by (simp add: distinct_map)

lemma plain_key_sorted: "plain v \<Longrightarrow> plain (key_sorted v)"
proof (induction v rule: key_sorted.induct)
  case (2 kvs)
  have "map fst (map (\<lambda>(k, v). (k, key_sorted v)) kvs) = map fst kvs" by (simp add: comp_def case_prod_beta)
  then have "distinct (map fst (sort_key fst (map (\<lambda>(k, v). (k, key_sorted v)) kvs)))"
    using 2(2) distinct_sort_key by (metis plain.simps(5))
  then show ?case using 2 by (auto simp: list_all_iff)
qed (auto simp: list_all_iff)

lemma map_of_sorted:
  assumes "distinct (map fst kvs)"
  shows "map_of (sorted_payload kvs) k = map_option key_sorted (map_of kvs k)"
proof -
  let ?m = "map (\<lambda>(k, v). (k, key_sorted v)) kvs"
  have d: "distinct (map fst ?m)" using assms by (simp add: comp_def case_prod_beta)
  have "map_of (sort_key fst ?m) = map_of ?m"
    using map_of_inject_set [OF iffD2 [OF distinct_sort_key d] d] by simp
  then show ?thesis unfolding sorted_payload_def by (simp add: map_of_map)
qed

lemma uget_sorted: "distinct (map fst kvs) \<Longrightarrow> uget k (sorted_payload kvs) = map_option key_sorted (uget k kvs)"
  by (simp add: uget_def map_of_sorted)

lemma keys_sorted: "set (map fst (sorted_payload kvs)) = set (map fst kvs)"
  by (force simp: sorted_payload_def)

lemma canonical_read:
  assumes "canonical_json kvs = Inr bs" "plain (UObj kvs)"
  shows "strict_json_object bs = Inr (sorted_payload kvs)" "bs \<noteq> []"
proof -
  let ?v = "key_sorted (UObj kvs)" and ?ft = "\<lambda>_. []"
  have e: "utf8_encode (jprint ?ft ?v) = Some bs"
    using assms(1) by (auto simp: canonical_json_def dumps_sorted_def split: option.splits)
  have "parse_json True (jprint ?ft ?v) = Inr ?v" by (rule json_roundtrip [OF plain_key_sorted [OF assms(2)]])
  then show "strict_json_object bs = Inr (sorted_payload kvs)"
    using utf8_roundtrip [OF e] by (simp add: strict_json_object_def sorted_payload_def)
  show "bs \<noteq> []" using utf8_roundtrip [OF e] by auto
qed

lemma split_dots_segment: "46 \<notin> set h \<Longrightarrow> split_dots (h @ 46 # r) = h # split_dots r" "46 \<notin> set h \<Longrightarrow> split_dots h = [h]"
  by (induction h) auto

lemma segment_no_dot: "list_all segment_char h \<Longrightarrow> 46 \<notin> set h"
  by (auto simp: list_all_iff segment_char_def udigit_def)

lemma segment_ascii: "list_all segment_char s \<Longrightarrow> list_all (\<lambda>c. c < 128) s"
  by (auto simp: list_all_iff segment_char_def udigit_def)

lemma header_sorted: "sorted_payload token_header = token_header"
  by (simp add: sorted_payload_def token_header_def uni_def ord_of_def)

lemma header_plain: "plain (UObj token_header)"
  by (simp add: token_header_def uni_def ord_of_def dec_digits.simps)

lemma header_ok: "header_matches token_header"
  by (simp add: header_matches_def token_header_def uget_def uni_def ord_of_def equals_one_def insert_commute)

lemma decode_encode:
  assumes enc: "encode_token mac payload key = Inr token" and plain: "plain (UObj payload)"
    and mac: "\<And>k m. length (mac k m) = 32" and size: "length token \<le> max_token_bytes"
  shows "decode_token mac token key audience kind claims max_lifetime skew now
    = check_payload (sorted_payload payload) audience kind claims max_lifetime skew now"
proof -
  obtain k hb pb where k: "signing_key key = Inr k" and hb: "canonical_json token_header = Inr hb"
    and pb: "canonical_json payload = Inr pb"
    and token: "token = (b64encode hb @ 46 # b64encode pb) @ 46 # b64encode (mac k (ascii_bytes (b64encode hb @ 46 # b64encode pb)))"
    using enc by (auto simp: encode_token_def Let_def)
  let ?h = "b64encode hb" and ?p = "b64encode pb" and ?m = "mac k (ascii_bytes (b64encode hb @ 46 # b64encode pb))"
  have seg: "46 \<notin> set ?h" "46 \<notin> set ?p" "46 \<notin> set (b64encode ?m)"
    using segment_no_dot b64encode_segment by blast+
  have split: "split_dots token = [?h, ?p, b64encode ?m]"
    using seg by (simp add: token split_dots_segment)
  have read: "strict_json_object hb = Inr token_header" "hb \<noteq> []" "strict_json_object pb = Inr (sorted_payload payload)" "pb \<noteq> []"
    using canonical_read [OF hb header_plain] canonical_read [OF pb plain] by (simp_all add: header_sorted)
  have ne: "?m \<noteq> []" using mac [of k] by (metis list.size(3) zero_neq_numeral)
  have pattern: "token_pattern token"
    using read ne b64encode_segment by (simp add: token_pattern_def split)
  have "list_all (\<lambda>c. c < 128) token"
    using segment_ascii b64encode_segment by (auto simp: token)
  then have utf: "utf8_encode token = Some (map byte_of token)" by (rule utf8_ascii)
  have "token \<noteq> []" by (simp add: token)
  with k utf size pattern split mac read header_ok show ?thesis
    by (simp add: decode_token_def decode_segment_def b64_roundtrip)
qed

declare uni_simps [simp del]

lemma text_array_inject [simp]: "text_array a = text_array b \<longleftrightarrow> a = b"
  by (simp add: text_array_def inj_map_eq_map inj_def)

lemma uni_inject [simp]: "uni a = uni b \<longleftrightarrow> a = b"
proof -
  have "inj ord_of" by (auto simp: inj_def ord_of_def)
  then show ?thesis by (simp add: uni_def inj_map_eq_map)
qed

lemma uget_simps [simp]: "uget k [] = None" "uget k ((uni k', v) # kvs) = (if k' = k then Some v else uget k kvs)"
  by (simp_all add: uget_def)

lemma key_sorted_text_array [simp]: "key_sorted (text_array ss) = text_array ss"
  by (simp add: text_array_def comp_def)

lemma dec_digits_length: "0 < k \<Longrightarrow> n < 10 ^ k \<Longrightarrow> length (dec_digits n) \<le> k"
proof (induction n arbitrary: k rule: dec_digits.induct)
  case (1 n)
  show ?case
  proof (cases "n < 10")
    case False
    then obtain j where k: "k = Suc j" "0 < j" using 1(2,3) by (cases k; cases "k - 1") auto
    have "n div 10 < 10 ^ j" using 1(3) by (simp add: k(1) div_less_iff_less_mult mult.commute)
    with 1(1) [OF False k(2)] show ?thesis by (simp add: dec_digits.simps [of n] k(1))
  qed (use 1 in \<open>simp add: dec_digits.simps [of n]\<close>)
qed

lemma plain_time: "0 \<le> i \<Longrightarrow> i < 10 ^ 18 \<Longrightarrow> plain (UInt i)"
  using dec_digits_length [of 18 "nat i"] by (simp add: nat_less_iff)

lemma plain_text_array [simp]: "plain (text_array ss)"
  by (simp add: text_array_def list_all_iff)

lemma issued_session_accepted:
  assumes "issue_session_token mac drawn key subject audience scope caps ttl jti now = Inr token"
    and "\<And>k m. length (mac k m) = 32" "length token \<le> max_token_bytes" "now < 10 ^ 17"
    and "ttl \<le> max_lifetime" "max_lifetime \<le> 3600" "0 \<le> skew" "skew \<le> 60" "0 \<le> later"
    and "\<lfloor>now\<rfloor> \<le> \<lfloor>later\<rfloor> + skew" "\<lfloor>later\<rfloor> - skew \<le> \<lfloor>now\<rfloor> + ttl"
  shows "verify_session_token mac token key audience max_lifetime skew False later again cache
    = (Inr \<lparr>sc_subject = subject, sc_audience = audience, sc_issued_at = \<lfloor>now\<rfloor>, sc_expires_at = \<lfloor>now\<rfloor> + ttl,
            sc_jti = jti_or jti drawn, sc_persona_scope = sort scope, sc_capabilities = sort caps\<rparr>, cache)"
proof -
  define payload where "payload =
    [(uni ''kind'', UStr (uni ''session'')), (uni ''sub'', UStr subject), (uni ''aud'', UStr audience),
     (uni ''iat'', UInt \<lfloor>now\<rfloor>), (uni ''exp'', UInt (\<lfloor>now\<rfloor> + ttl)), (uni ''jti'', UStr (jti_or jti drawn)),
     (uni ''persona_scope'', text_array (sort scope)), (uni ''capabilities'', text_array (sort caps))]"
  have issued: "1 \<le> ttl" "0 \<le> now" "claim_text subject" "claim_text audience" "jti_text (jti_or jti drawn)"
    "claim_set (Some (text_array (sort scope))) ''persona_scope'' 64 = Inr (sort scope)"
    "claim_set (Some (text_array (sort caps))) ''capabilities'' 128 = Inr (sort caps)"
    "encode_token mac payload key = Inr token"
    using assms(1)
    by (auto simp: issue_session_token_def issue_times_def unix_time_def claim_string_Inr claim_jti_Inr claim_set_Inr
        payload_def max_token_lifetime_def split: if_splits)
  have floor: "0 \<le> \<lfloor>now\<rfloor>" "\<lfloor>now\<rfloor> < 10 ^ 17" using issued(2) assms(4) by (simp_all add: floor_less_iff)
  have distinct: "distinct (map fst payload)" by (simp add: payload_def)
  have "(10 :: int) ^ 17 + 3600 \<le> 10 ^ 18" by simp
  then have "plain (UInt \<lfloor>now\<rfloor>)" "plain (UInt (\<lfloor>now\<rfloor> + ttl))"
    using floor assms(5,6) issued(1) by (intro plain_time; linarith)+
  then have plain: "plain (UObj payload)"
    using distinct by (simp add: payload_def del: plain.simps(3))
  have get: "uget k (sorted_payload payload) = map_option key_sorted (uget k payload)" for k
    by (rule uget_sorted [OF distinct])
  have "set (map fst (sorted_payload payload)) = uni ` set session_claim_names"
    unfolding keys_sorted by (auto simp: payload_def session_claim_names_def)
  then have "check_payload (sorted_payload payload) audience ''session'' session_claim_names max_lifetime skew later
      = Inr (sorted_payload payload)"
    using assms(5-11) issued(1)
    by (simp add: check_payload_def get) (simp add: payload_def whole_def max_token_lifetime_def unix_time_def)
  moreover have "session_claims_of (sorted_payload payload)
      = Inr \<lparr>sc_subject = subject, sc_audience = audience, sc_issued_at = \<lfloor>now\<rfloor>, sc_expires_at = \<lfloor>now\<rfloor> + ttl,
            sc_jti = jti_or jti drawn, sc_persona_scope = sort scope, sc_capabilities = sort caps\<rparr>"
    using issued by (simp add: session_claims_of_def get) (simp add: payload_def claim_string_def claim_jti_def whole_def)
  ultimately show ?thesis
    using decode_encode [OF issued(8) plain assms(2,3)]
    by (simp add: verify_session_token_def use_up_def split: option.splits)
qed

definition sample_mac :: mac where
  "sample_mac k m = replicate 32 (byte_of (length m))"

definition sample_key :: utext where
  "sample_key = replicate 32 107"

definition sample_token :: utext where
  "sample_token = projr (issue_session_token sample_mac (replicate 16 97) sample_key [115] [97] [[112]] [[99]] 300 None 1000)"


fun ascii_json :: "ujson \<Rightarrow> bool" where
  "ascii_json (UFloat q) = False"
| "ascii_json (UConst s) = False"
| "ascii_json (UStr s) = list_all (\<lambda>c. c < 128) s"
| "ascii_json (UArr vs) = list_all ascii_json vs"
| "ascii_json (UObj kvs) = list_all (\<lambda>(k, v). list_all (\<lambda>c. c < 128) k \<and> ascii_json v) kvs"
| "ascii_json v = True"

lemma quoted_ascii: "list_all (\<lambda>c. c < 128) s \<Longrightarrow> list_all (\<lambda>c. c < 128) (quoted s)"
proof -
  have "list_all (\<lambda>c. c < 128) (esc_char c)" if "c < 128" for c
    using that by (auto simp: esc_char_def lower_hex_def less_mult_imp_div_less)
  then show "list_all (\<lambda>c. c < 128) s \<Longrightarrow> list_all (\<lambda>c. c < 128) (quoted s)"
    by (auto simp: quoted_def list_all_iff)
qed

lemma commas_all: "P 44 \<Longrightarrow> list_all (list_all P) ss \<Longrightarrow> list_all P (commas ss)"
  by (induction ss rule: commas.induct) auto

lemma digits_ascii: "list_all (\<lambda>c. c < 128) (int_digits i)"
proof -
  have "list_all (\<lambda>c. c < 128) (dec_digits n)" for n
    using dec_digits_props [of n] by (auto simp: list_all_iff udigit_def)
  then show ?thesis by (simp add: int_digits_def)
qed

lemma jprint_ascii: "ascii_json v \<Longrightarrow> list_all (\<lambda>c. c < 128) (jprint ft v)"
proof (induction v rule: ascii_json.induct)
  case (4 vs)
  have "list_all (list_all (\<lambda>c. c < 128)) (map (jprint ft) vs)"
    using 4 by (auto simp: list_all_iff)
  then show ?case using commas_all [of "\<lambda>c. c < 128"] by simp
next
  case (5 kvs)
  have "list_all (list_all (\<lambda>c. c < 128)) (map (\<lambda>(k, v). quoted k @ 58 # jprint ft v) kvs)"
    using 5 quoted_ascii by (auto simp: list_all_iff)
  then show ?case using commas_all [of "\<lambda>c. c < 128"] by simp
qed (simp_all add: quoted_ascii digits_ascii uni_def ord_of_def)

lemma ascii_sorted: "ascii_json v \<Longrightarrow> ascii_json (key_sorted v)"
  by (induction v rule: key_sorted.induct) (auto simp: list_all_iff)

lemma canonical_ascii:
  assumes "ascii_json (UObj kvs)"
  shows "canonical_json kvs = Inr (map byte_of (dumps_sorted (\<lambda>_. []) (UObj kvs)))"
  using utf8_ascii [OF jprint_ascii [OF ascii_sorted [OF assms]]] by (simp add: canonical_json_def dumps_sorted_def)

lemma length_b64encode: "length (b64encode bs) \<le> 2 * length bs"
proof -
  have "length (b64_groups s) \<le> 2 * length s" for s by (induction s rule: b64_groups.induct) auto
  then show ?thesis by (simp add: b64encode_def) (metis length_map)
qed

lemma encode_token_ascii:
  assumes "signing_key key = Inr k" "ascii_json (UObj payload)" "\<And>m. length (mac k m) = 32"
    and "length (dumps_sorted (\<lambda>_. []) (UObj payload)) \<le> 8000"
  shows "\<exists>token. encode_token mac payload key = Inr token \<and> length token \<le> max_token_bytes"
proof -
  have h: "ascii_json (UObj token_header)" by (simp add: token_header_def uni_def ord_of_def)
  have l: "length (dumps_sorted (\<lambda>_. []) (UObj token_header)) \<le> 50"
    by (simp add: dumps_sorted_def token_header_def uni_def ord_of_def quoted_def esc_char_def int_digits_def dec_digits.simps)
  let ?h = "map byte_of (dumps_sorted (\<lambda>_. []) (UObj token_header))" and ?p = "map byte_of (dumps_sorted (\<lambda>_. []) (UObj payload))"
  let ?m = "mac k (ascii_bytes (b64encode ?h @ 46 # b64encode ?p))"
  have "length (b64encode ?h) \<le> 100" "length (b64encode ?p) \<le> 16000" "length (b64encode ?m) \<le> 64"
    using length_b64encode [of ?h] length_b64encode [of ?p] length_b64encode [of ?m] l assms(3,4) by simp_all
  then show ?thesis
    using assms(1) canonical_ascii [OF h] canonical_ascii [OF assms(2)]
    by (simp add: encode_token_def Let_def max_token_bytes_def)
qed

lemma sample_issued:
  "issue_session_token sample_mac (replicate 16 97) sample_key [115] [97] [[112]] [[99]] 300 None 1000 = Inr sample_token"
  "length sample_token \<le> max_token_bytes"
proof -
  let ?payload = "[(uni ''kind'', UStr (uni ''session'')), (uni ''sub'', UStr [115]), (uni ''aud'', UStr [97]),
     (uni ''iat'', UInt 1000), (uni ''exp'', UInt 1300), (uni ''jti'', UStr (replicate 16 97)),
     (uni ''persona_scope'', text_array [[112]]), (uni ''capabilities'', text_array [[99]])]"
  have "utf8_encode sample_key = Some (map byte_of sample_key)" by (rule utf8_ascii) (simp add: sample_key_def list_all_iff)
  then have key: "signing_key sample_key = Inr (map byte_of sample_key)"
    by (simp add: signing_key_def min_key_bytes_def sample_key_def)
  have ascii: "ascii_json (UObj ?payload)" by (simp add: text_array_def uni_def ord_of_def list_all_iff)
  have "length (dumps_sorted (\<lambda>_. []) (UObj ?payload)) \<le> 8000"
    by (simp add: dumps_sorted_def text_array_def uni_def ord_of_def quoted_def esc_char_def int_digits_def dec_digits.simps)
  then obtain token where t: "encode_token sample_mac ?payload sample_key = Inr token" "length token \<le> max_token_bytes"
    using encode_token_ascii [OF key ascii, of sample_mac] by (auto simp: sample_mac_def)
  have claims: "claim_text [115]" "claim_text [97]" "claim_text [112]" "claim_text [99]"
    by (simp_all add: claim_text_def alnum_char_def)
  have jti: "jti_text (replicate 16 97)" by (simp add: jti_text_def segment_char_def list_all_iff)
  have "issue_session_token sample_mac (replicate 16 97) sample_key [115] [97] [[112]] [[99]] 300 None 1000 = Inr token"
    using t(1) claims jti
    by (simp add: issue_session_token_def issue_times_def unix_time_def max_token_lifetime_def claim_string_def jti_or_def
        claim_jti_def claim_set_def text_array_def)
  then show "issue_session_token sample_mac (replicate 16 97) sample_key [115] [97] [[112]] [[99]] 300 None 1000 = Inr sample_token"
    "length sample_token \<le> max_token_bytes"
    using t(2) by (simp_all add: sample_token_def)
qed

text \<open>
  C25. What is issued is accepted, and grants what it was issued for: a session token of at most
  16 KiB is accepted in its time window by a service that allows its lifetime, and its claims
  authorize a persona and capabilities exactly when they are among those it was issued for.
\<close>

theorem session_token_roundtrip:
  assumes "issue_session_token mac drawn key subject audience scope caps ttl jti now = Inr token"
    and "\<And>k m. length (mac k m) = 32" "length token \<le> max_token_bytes" "now < 10 ^ 17"
    and "ttl \<le> max_lifetime" "max_lifetime \<le> 3600" "0 \<le> skew" "skew \<le> 60" "0 \<le> later"
    and "\<lfloor>now\<rfloor> \<le> \<lfloor>later\<rfloor> + skew" "\<lfloor>later\<rfloor> - skew \<le> \<lfloor>now\<rfloor> + ttl"
  shows "\<exists>claims. verify_session_token mac token key audience max_lifetime skew False later again cache = (Inr claims, cache)
    \<and> sc_subject claims = subject \<and> sc_jti claims = jti_or jti drawn \<and> sc_expires_at claims = \<lfloor>now\<rfloor> + ttl
    \<and> (authorize_session_claims claims persona wanted = Inr () \<longleftrightarrow> persona \<in> set scope \<and> set wanted \<subseteq> set caps)"
  using issued_session_accepted [OF assms] by (auto simp: authorize_session_claims_def)

theorem session_token_roundtrip_witness:
  "\<exists>claims. fst (verify_session_token sample_mac sample_token sample_key [97] 300 5 False 1299 1299 None) = Inr claims
    \<and> authorize_session_claims claims [112] [[99]] = Inr ()"
proof -
  have "length (sample_mac k m) = 32" for k m by (simp add: sample_mac_def)
  from session_token_roundtrip [OF sample_issued(1) this sample_issued(2), of 300 5 1299 1299 None "[112]" "[[99]]"]
  show ?thesis by auto
qed

theorem session_token_sound_witness:
  "\<exists>header body supplied. sample_token = header @ 46 # body @ 46 # supplied
    \<and> b64decode supplied = Some (sample_mac (map byte_of sample_key) (ascii_bytes (header @ 46 # body)))"
proof -
  have "utf8_encode sample_key = Some (map byte_of sample_key)" by (rule utf8_ascii) (simp add: sample_key_def list_all_iff)
  then have "signing_key sample_key = Inr (map byte_of sample_key)"
    by (simp add: signing_key_def min_key_bytes_def sample_key_def)
  moreover have "verify_session_token sample_mac sample_token sample_key [97] 300 5 False 1299 1299 None
    = (Inr \<lparr>sc_subject = [115], sc_audience = [97], sc_issued_at = 1000, sc_expires_at = 1300,
           sc_jti = replicate 16 97, sc_persona_scope = [[112]], sc_capabilities = [[99]]\<rparr>, None)"
    using issued_session_accepted [OF sample_issued(1) _ sample_issued(2), of 300 5 1299 1299 None]
    by (simp add: sample_mac_def jti_or_def)
  ultimately show ?thesis using session_token_sound by fastforce
qed

section \<open>How long a token is remembered\<close>

lemma check_payload_later:
  assumes "check_payload payload audience kind claims max_lifetime skew now = Inr payload"
    and "uget ''iat'' payload = Some (UInt iat)" "uget ''exp'' payload = Some (UInt ends)"
    and "0 \<le> later" "iat \<le> \<lfloor>later\<rfloor> + skew" "\<lfloor>later\<rfloor> - skew \<le> ends"
  shows "check_payload payload audience kind claims max_lifetime skew later = Inr payload"
  using assms by (auto simp: check_payload_def whole_def unix_time_def)

lemma decode_token_later:
  assumes d: "decode_token mac token key audience kind claims max_lifetime skew now = Inr payload"
    and later: "uget ''iat'' payload = Some (UInt iat)" "uget ''exp'' payload = Some (UInt ends)"
      "0 \<le> later" "iat \<le> \<lfloor>later\<rfloor> + skew" "\<lfloor>later\<rfloor> - skew \<le> ends"
  shows "decode_token mac token key audience kind claims max_lifetime skew later = Inr payload"
proof -
  obtain payload' where p: "check_payload payload' audience kind claims max_lifetime skew now = Inr payload"
    "check_payload payload' audience kind claims max_lifetime skew later = Inr payload
      \<Longrightarrow> decode_token mac token key audience kind claims max_lifetime skew later = Inr payload"
    using d unfolding decode_token_def Let_def sbind_Inr by blast
  have "payload' = payload" using check_payload_same [OF p(1)] by simp
  with p check_payload_later [OF _ later] show ?thesis by blast
qed

lemma consume_again:
  assumes "consume jti e again c = (Inr (), c')" "e < \<lfloor>later\<rfloor>" "0 \<le> later"
  shows "fst (consume jti e' later c') = Inr ()"
proof -
  obtain t where t: "unix_time again = Inr t" using assms(1) by (auto simp: consume_def split: sum.splits)
  let ?live = "live_entries t (rc_entries c)" and ?later = "\<lfloor>later\<rfloor>"
  have c': "c' = c\<lparr>rc_entries := ?live @ [(jti, e)]\<rparr>" and new: "jti \<notin> fst ` set ?live" "length ?live < rc_max_entries c"
    using assms(1) t by (auto simp: consume_def Let_def split: if_splits)
  have live: "live_entries ?later (rc_entries c') = live_entries ?later ?live"
    using assms(2) by (simp add: c' live_entries_def)
  have "jti \<notin> fst ` set (live_entries ?later ?live)" using new(1) by (auto simp: live_entries_def)
  moreover have "length (live_entries ?later ?live) < rc_max_entries c" using new(2) length_live le_less_trans by blast
  ultimately show ?thesis
    using assms(3) by (simp add: consume_def unix_time_def Let_def live) (simp add: c')
qed

text \<open>
  The cache forgets a token before the token stops being accepted. A token that was used up is
  accepted a second time, with the same claims, when the clock has passed both its expiry and the
  skew after its first use and is still within the skew after its expiry.
\<close>

theorem replay_after_expiry:
  assumes "verify_session_token mac token key audience max_lifetime skew True now again (Some c) = (Inr claims, Some c')"
    and "max (sc_expires_at claims) (\<lfloor>again\<rfloor> + skew) < \<lfloor>later\<rfloor>" "\<lfloor>later\<rfloor> \<le> sc_expires_at claims + skew" "0 \<le> later"
  shows "fst (verify_session_token mac token key audience max_lifetime skew True later later (Some c')) = Inr claims"
proof -
  obtain payload where d: "decode_token mac token key audience ''session'' session_claim_names max_lifetime skew now = Inr payload"
    and c: "session_claims_of payload = Inr claims"
    and u: "use_up (sc_jti claims) (sc_expires_at claims) skew again claims (Some c) True = (Inr claims, Some c')"
    using assms(1)
    by (auto simp: verify_session_token_def split: sum.splits)
      (auto simp: use_up_def split: sum.splits prod.splits)
  have p: "check_payload payload audience ''session'' session_claim_names max_lifetime skew now = Inr payload"
    using decode_token_contract [OF d] by blast
  obtain iat ends where t: "uget ''iat'' payload = Some (UInt iat)" "uget ''exp'' payload = Some (UInt ends)"
      "1 \<le> ends - iat" "0 \<le> skew"
    using check_payload_contract [OF p] by blast
  have ends: "sc_expires_at claims = ends"
    using c t(2) by (auto simp: session_claims_of_def whole_def)
  have "decode_token mac token key audience ''session'' session_claim_names max_lifetime skew later = Inr payload"
    using decode_token_later [OF d t(1,2) assms(4)] assms(2,3) t(3,4) ends by simp
  moreover have again: "unix_time again = Inr \<lfloor>again\<rfloor>"
    using u by (auto simp: use_up_def unix_time_def split: if_splits)
  then have "consume (sc_jti claims) (max ends (\<lfloor>again\<rfloor> + skew)) (of_int \<lfloor>again\<rfloor>) c = (Inr (), c')"
    using u ends by (auto simp: use_up_def split: prod.splits sum.splits)
  then have "fst (consume (sc_jti claims) e' (of_int \<lfloor>later\<rfloor>) c') = Inr ()" for e'
    by (rule consume_again) (use assms(2,4) ends in simp_all)
  then have "\<exists>c''. consume (sc_jti claims) e' (of_int \<lfloor>later\<rfloor>) c' = (Inr (), c'')" for e'
    by (metis prod.collapse)
  then obtain c'' where "consume (sc_jti claims) (max (sc_expires_at claims) (\<lfloor>later\<rfloor> + skew)) (of_int \<lfloor>later\<rfloor>) c' = (Inr (), c'')"
    by blast
  ultimately show ?thesis
    using c assms(4) by (simp add: verify_session_token_def use_up_def unix_time_def)
qed

theorem replay_after_expiry_witness:
  "\<exists>claims c'. verify_session_token sample_mac sample_token sample_key [97] 300 5 True 1299 1299
        (Some \<lparr>rc_max_entries = 4, rc_entries = []\<rparr>) = (Inr claims, Some c')
    \<and> fst (verify_session_token sample_mac sample_token sample_key [97] 300 5 True 1304 1304 (Some c'))
        = Inl (Token_fault ''token has already been used'')
    \<and> fst (verify_session_token sample_mac sample_token sample_key [97] 300 5 True 1305 1305 (Some c')) = Inr claims"
proof -
  define claims where "claims = \<lparr>sc_subject = [115], sc_audience = [97], sc_issued_at = 1000, sc_expires_at = 1300,
           sc_jti = replicate 16 97, sc_persona_scope = [[112]], sc_capabilities = [[99 :: nat]]\<rparr>"
  have v: "verify_session_token sample_mac sample_token sample_key [97] 300 5 False t t None = (Inr claims, None)"
    if "0 \<le> t" "1000 \<le> \<lfloor>t\<rfloor> + 5" "\<lfloor>t\<rfloor> - 5 \<le> 1300" for t
    using issued_session_accepted [OF sample_issued(1) _ sample_issued(2), of 300 5 t t None] that
    by (simp add: sample_mac_def jti_or_def claims_def)
  have v': "verify_session_token sample_mac sample_token sample_key [97] 300 5 True t t cache
      = use_up (sc_jti claims) 1300 5 t claims cache True"
    if "0 \<le> t" "1000 \<le> \<lfloor>t\<rfloor> + 5" "\<lfloor>t\<rfloor> - 5 \<le> 1300" for t cache
    using v [OF that] by (cases cache) (auto simp: verify_session_token_def use_up_def claims_def split: sum.splits)
  let ?c' = "\<lparr>rc_max_entries = 4, rc_entries = [(replicate 16 97, 1304)]\<rparr>"
  have first: "verify_session_token sample_mac sample_token sample_key [97] 300 5 True 1299 1299
      (Some \<lparr>rc_max_entries = 4, rc_entries = []\<rparr>) = (Inr claims, Some ?c')"
    using v' [of 1299] by (simp add: use_up_def unix_time_def consume_def live_entries_def claims_def)
  moreover have "fst (verify_session_token sample_mac sample_token sample_key [97] 300 5 True 1304 1304 (Some ?c'))
      = Inl (Token_fault ''token has already been used'')"
    using v' [of 1304] by (simp add: use_up_def unix_time_def consume_def live_entries_def claims_def)
  moreover have "fst (verify_session_token sample_mac sample_token sample_key [97] 300 5 True 1305 1305 (Some ?c')) = Inr claims"
    by (rule replay_after_expiry [OF first]) (simp_all add: claims_def)
  ultimately show ?thesis by blast
qed

section \<open>Consent assertions\<close>

lemma claimed_hashes_issued: "issued_hashes hs = Inr hs' \<Longrightarrow> hs' = hs \<and> claimed_hashes (map (\<lambda>(k, d). (k, UStr d)) hs) = Inr hs"
  by (induction hs arbitrary: hs' rule: issued_hashes.induct) auto

lemma claimed_hashes_ok:
  "claimed_hashes kvs = Inr hs \<Longrightarrow> map fst hs = map fst kvs \<and> list_all (\<lambda>(k, d). hash_kind k \<and> sha256_text d) hs"
proof (induction kvs arbitrary: hs rule: claimed_hashes.induct)
  case (2 k v s)
  then show ?case by (auto split: ujson.splits if_splits)
qed simp

lemma hashes_agree_iff:
  "distinct (map fst expected) \<Longrightarrow> hashes_agree claimed expected \<longleftrightarrow>
     list_all (\<lambda>(k, d). (case map_of claimed k of Some c \<Rightarrow> c | None \<Rightarrow> []) = d) expected"
  by (induction claimed expected rule: hashes_agree.induct) auto

lemma sorted_hashes:
  "key_sorted (UObj (map (\<lambda>(k, d). (k, UStr d)) (sort_key fst hs))) = UObj (map (\<lambda>(k, d). (k, UStr d)) (sort_key fst hs))"
proof -
  let ?m = "map (\<lambda>(k, d). (k, UStr d)) (sort_key fst hs)"
  have m: "map (\<lambda>(k, v). (k, key_sorted v)) ?m = ?m" by (simp add: comp_def case_prod_beta)
  have "sorted (map fst ?m)" by (simp add: comp_def case_prod_beta sorted_sort_key)
  then have "sort_key fst ?m = ?m" by (rule sort_key_id_if_sorted)
  then show ?thesis unfolding key_sorted.simps m by simp
qed

lemma plain_hashes: "distinct (map fst hs) \<Longrightarrow> plain (UObj (map (\<lambda>(k, d). (k, UStr d)) (sort_key fst hs)))"
  using distinct_sort_key [of hs] by (auto simp: comp_def case_prod_beta list_all_iff)

text \<open>What is issued is accepted, with the references in the order of their kinds.\<close>

theorem consent_roundtrip:
  assumes "issue_consent_assertion mac drawn key audience persona_id consent_id revision digest scopes hashes ttl jti now = Inr token"
    and "\<And>k m. length (mac k m) = 32" "length token \<le> max_token_bytes" "now < 10 ^ 17" "revision < 10 ^ 18"
    and "distinct (map fst hashes)" "ttl \<le> max_lifetime" "max_lifetime \<le> 3600" "0 \<le> skew" "skew \<le> 60" "0 \<le> later"
    and "\<lfloor>now\<rfloor> \<le> \<lfloor>later\<rfloor> + skew" "\<lfloor>later\<rfloor> - skew \<le> \<lfloor>now\<rfloor> + ttl"
  shows "verify_consent_assertion mac token key audience max_lifetime skew False later again cache
    = (Inr \<lparr>cc_subject = persona_id, cc_audience = audience, cc_issued_at = \<lfloor>now\<rfloor>, cc_expires_at = \<lfloor>now\<rfloor> + ttl,
            cc_jti = jti_or jti drawn, cc_persona_id = persona_id, cc_consent_id = consent_id, cc_revision = revision,
            cc_manifest_digest = digest, cc_scopes = sort scopes, cc_reference_hashes = sort_key fst hashes\<rparr>, cache)"
proof -
  let ?hs = "UObj (map (\<lambda>(k, d). (k, UStr d)) (sort_key fst hashes))"
  define payload where "payload =
    [(uni ''kind'', UStr (uni ''consent'')), (uni ''sub'', UStr persona_id), (uni ''aud'', UStr audience),
     (uni ''iat'', UInt \<lfloor>now\<rfloor>), (uni ''exp'', UInt (\<lfloor>now\<rfloor> + ttl)), (uni ''jti'', UStr (jti_or jti drawn)),
     (uni ''persona_id'', UStr persona_id), (uni ''consent_id'', UStr consent_id), (uni ''revision'', UInt revision),
     (uni ''manifest_digest'', UStr digest), (uni ''scopes'', text_array (sort scopes)), (uni ''reference_hashes'', ?hs)]"
  have issued: "1 \<le> ttl" "0 \<le> now" "0 \<le> revision" "sha256_text digest" "length hashes \<le> 2"
    "issued_hashes (sort_key fst hashes) = Inr (sort_key fst hashes)"
    "claim_text persona_id" "claim_text audience" "jti_text (jti_or jti drawn)" "claim_text consent_id"
    "claim_set (Some (text_array (sort scopes))) ''scopes'' 32 = Inr (sort scopes)"
    "encode_token mac payload key = Inr token"
    using assms(1)
    by (auto simp: issue_consent_assertion_def issue_times_def unix_time_def claim_string_Inr claim_jti_Inr claim_set_Inr
        payload_def max_token_lifetime_def dest: claimed_hashes_issued split: if_splits)
  have floor: "0 \<le> \<lfloor>now\<rfloor>" "\<lfloor>now\<rfloor> < 10 ^ 17" using issued(2) assms(4) by (simp_all add: floor_less_iff)
  have distinct: "distinct (map fst payload)" by (simp add: payload_def)
  have "(10 :: int) ^ 17 + 3600 \<le> 10 ^ 18" by simp
  then have "plain (UInt \<lfloor>now\<rfloor>)" "plain (UInt (\<lfloor>now\<rfloor> + ttl))" "plain (UInt revision)"
    using floor assms(5,7,8) issued(1,3) by (intro plain_time; linarith)+
  then have "list_all (\<lambda>(k, v). plain v) payload"
    using plain_hashes [OF assms(6)] by (simp add: payload_def del: plain.simps(3,5))
  with distinct have plain: "plain (UObj payload)" by simp
  have get: "uget k (sorted_payload payload) = map_option key_sorted (uget k payload)" for k
    by (rule uget_sorted [OF distinct])
  have "set (map fst (sorted_payload payload)) = uni ` set consent_claim_names"
    unfolding keys_sorted by (auto simp: payload_def consent_claim_names_def)
  then have "check_payload (sorted_payload payload) audience ''consent'' consent_claim_names max_lifetime skew later
      = Inr (sorted_payload payload)"
    using assms(7-13) issued(1)
    by (simp add: check_payload_def get) (simp add: payload_def whole_def max_token_lifetime_def unix_time_def)
  moreover have "claimed_hashes (map (\<lambda>(k, d). (k, UStr d)) (sort_key fst hashes)) = Inr (sort_key fst hashes)"
    using claimed_hashes_issued issued(6) by blast
  then have "consent_claims_of (sorted_payload payload)
      = Inr \<lparr>cc_subject = persona_id, cc_audience = audience, cc_issued_at = \<lfloor>now\<rfloor>, cc_expires_at = \<lfloor>now\<rfloor> + ttl,
            cc_jti = jti_or jti drawn, cc_persona_id = persona_id, cc_consent_id = consent_id, cc_revision = revision,
            cc_manifest_digest = digest, cc_scopes = sort scopes, cc_reference_hashes = sort_key fst hashes\<rparr>"
    using issued sorted_hashes [of hashes]
    by (simp add: consent_claims_of_def get del: key_sorted.simps(2))
      (simp add: payload_def claim_string_def claim_jti_def whole_def del: key_sorted.simps(2))
  ultimately show ?thesis
    using decode_encode [OF issued(12) plain assms(2,3)]
    by (simp add: verify_consent_assertion_def use_up_def split: option.splits)
qed

text \<open>
  Consent. An accepted consent assertion names one persona as both its subject and its persona,
  and authorizing with it succeeds only for a granted scope and for exactly the reference files it
  was signed for: the same kinds, image or voice, with the same digests.
\<close>

theorem consent_binds_references:
  assumes "verify_consent_assertion mac token key audience max_lifetime skew wanted now again cache = (Inr claims, cache')"
    and "authorize_consent_claims claims required_scope (Some expected) = Inr ()"
    and "distinct (map fst expected)"
  shows "cc_subject claims = cc_persona_id claims \<and> cc_audience claims = audience \<and> 0 \<le> cc_revision claims
    \<and> sha256_text (cc_manifest_digest claims) \<and> required_scope \<in> set (cc_scopes claims)
    \<and> map_of (cc_reference_hashes claims) = map_of expected
    \<and> list_all (\<lambda>(k, d). hash_kind k \<and> sha256_text d) expected"
proof -
  obtain payload where d: "decode_token mac token key audience ''consent'' consent_claim_names max_lifetime skew now = Inr payload"
    and c: "consent_claims_of payload = Inr claims"
    using assms(1)
    by (auto simp: verify_consent_assertion_def use_up_def split: sum.splits option.splits prod.splits if_splits)
  have p: "check_payload payload audience ''consent'' consent_claim_names max_lifetime skew now = Inr payload"
    using decode_token_contract [OF d] by blast
  have aud: "uget ''aud'' payload = Some (UStr audience)" using check_payload_contract [OF p] by blast
  obtain kvs where h: "claimed_hashes kvs = Inr (cc_reference_hashes claims)"
    and rest: "cc_subject claims = cc_persona_id claims" "cc_audience claims = audience" "0 \<le> cc_revision claims"
      "sha256_text (cc_manifest_digest claims)"
    using c aud
    by (auto simp: consent_claims_of_def claim_string_Inr split: option.splits ujson.splits if_splits)
  have auth: "required_scope \<in> set (cc_scopes claims)" "set (map fst (cc_reference_hashes claims)) = set (map fst expected)"
    "hashes_agree (cc_reference_hashes claims) expected"
    using assms(2) by (auto simp: authorize_consent_claims_def Let_def)
  have agree: "map_of (cc_reference_hashes claims) k = map_of expected k" for k
  proof (cases "map_of expected k")
    case None
    then show ?thesis using auth(2) by (metis map_of_eq_None_iff set_map)
  next
    case (Some d)
    then have "(k, d) \<in> set expected" by (rule map_of_SomeD)
    moreover have "k \<in> set (map fst (cc_reference_hashes claims))" using auth(2) Some
      by (metis map_of_eq_None_iff option.distinct(1) set_map)
    then obtain x where "map_of (cc_reference_hashes claims) k = Some x"
      by (metis map_of_eq_None_iff not_Some_eq set_map)
    ultimately show ?thesis
      using auth(3) hashes_agree_iff [OF assms(3)] Some by (force simp: list_all_iff)
  qed
  have "list_all (\<lambda>(k, d). hash_kind k \<and> sha256_text d) expected"
  proof -
    have "hash_kind k \<and> sha256_text d" if "(k, d) \<in> set expected" for k d
    proof -
      have "map_of (cc_reference_hashes claims) k = Some d" using agree that assms(3) by simp
      then have "(k, d) \<in> set (cc_reference_hashes claims)" by (rule map_of_SomeD)
      then show ?thesis using claimed_hashes_ok [OF h] by (auto simp: list_all_iff)
    qed
    then show ?thesis by (auto simp: list_all_iff)
  qed
  with rest auth(1) agree show ?thesis by auto
qed

definition sample_hashes :: "(utext \<times> utext) list" where
  "sample_hashes = [(uni ''voice'', replicate 64 97)]"

definition sample_assertion :: utext where
  "sample_assertion = projr (issue_consent_assertion sample_mac (replicate 16 97) sample_key [97] [112] [99] 1
     (replicate 64 48) [[115]] sample_hashes 120 None 1000)"

lemma sample_assertion_issued:
  "issue_consent_assertion sample_mac (replicate 16 97) sample_key [97] [112] [99] 1 (replicate 64 48) [[115]] sample_hashes
     120 None 1000 = Inr sample_assertion"
  "length sample_assertion \<le> max_token_bytes"
proof -
  let ?hs = "UObj [(uni ''voice'', UStr (replicate 64 97))]"
  let ?payload = "[(uni ''kind'', UStr (uni ''consent'')), (uni ''sub'', UStr [112]), (uni ''aud'', UStr [97]),
     (uni ''iat'', UInt 1000), (uni ''exp'', UInt 1120), (uni ''jti'', UStr (replicate 16 97)),
     (uni ''persona_id'', UStr [112]), (uni ''consent_id'', UStr [99]), (uni ''revision'', UInt 1),
     (uni ''manifest_digest'', UStr (replicate 64 48)), (uni ''scopes'', text_array [[115]]), (uni ''reference_hashes'', ?hs)]"
  have "utf8_encode sample_key = Some (map byte_of sample_key)" by (rule utf8_ascii) (simp add: sample_key_def list_all_iff)
  then have key: "signing_key sample_key = Inr (map byte_of sample_key)"
    by (simp add: signing_key_def min_key_bytes_def sample_key_def)
  have ascii: "ascii_json (UObj ?payload)" by (simp add: text_array_def uni_def ord_of_def list_all_iff)
  have "length (dumps_sorted (\<lambda>_. []) (UObj ?payload)) \<le> 8000"
    by (simp add: dumps_sorted_def text_array_def uni_def ord_of_def quoted_def esc_char_def int_digits_def dec_digits.simps
        length_concat sum_list_triv)
  then obtain token where t: "encode_token sample_mac ?payload sample_key = Inr token" "length token \<le> max_token_bytes"
    using encode_token_ascii [OF key ascii, of sample_mac] by (auto simp: sample_mac_def)
  have claims: "claim_text [115]" "claim_text [97]" "claim_text [112]" "claim_text [99]"
    by (simp_all add: claim_text_def alnum_char_def)
  have jti: "jti_text (replicate 16 97)" by (simp add: jti_text_def segment_char_def list_all_iff)
  have sha: "sha256_text (replicate 64 48)" "sha256_text (replicate 64 97)" "hash_kind (uni ''voice'')"
    by (simp_all add: sha256_text_def udigit_def list_all_iff hash_kind_def)
  have "issue_consent_assertion sample_mac (replicate 16 97) sample_key [97] [112] [99] 1 (replicate 64 48) [[115]] sample_hashes
     120 None 1000 = Inr token"
    using t(1) claims jti sha
    by (simp add: issue_consent_assertion_def issue_times_def unix_time_def max_token_lifetime_def claim_string_def jti_or_def
        claim_jti_def claim_set_def text_array_def sample_hashes_def)
  then show "issue_consent_assertion sample_mac (replicate 16 97) sample_key [97] [112] [99] 1 (replicate 64 48) [[115]] sample_hashes
     120 None 1000 = Inr sample_assertion" "length sample_assertion \<le> max_token_bytes"
    using t(2) by (simp_all add: sample_assertion_def)
qed

lemma sample_assertion_verified:
  "verify_consent_assertion sample_mac sample_assertion sample_key [97] 300 5 False 1050 1050 None
    = (Inr \<lparr>cc_subject = [112], cc_audience = [97], cc_issued_at = 1000, cc_expires_at = 1120, cc_jti = replicate 16 97,
            cc_persona_id = [112], cc_consent_id = [99], cc_revision = 1, cc_manifest_digest = replicate 64 48,
            cc_scopes = [[115]], cc_reference_hashes = sample_hashes\<rparr>, None)"
  using consent_roundtrip [OF sample_assertion_issued(1) _ sample_assertion_issued(2), of 300 5 1050 1050 None]
  by (simp add: sample_mac_def sample_hashes_def jti_or_def)

theorem consent_binds_references_witness:
  "list_all (\<lambda>(k, d). hash_kind k \<and> sha256_text d) sample_hashes"
proof -
  have "authorize_consent_claims \<lparr>cc_subject = [112], cc_audience = [97], cc_issued_at = 1000, cc_expires_at = 1120,
      cc_jti = replicate 16 97, cc_persona_id = [112], cc_consent_id = [99], cc_revision = 1,
      cc_manifest_digest = replicate 64 48, cc_scopes = [[115]], cc_reference_hashes = sample_hashes\<rparr> [115] (Some sample_hashes)
      = Inr ()"
    by (simp add: authorize_consent_claims_def sample_hashes_def)
  moreover have "distinct (map fst sample_hashes)" by (simp add: sample_hashes_def)
  ultimately show ?thesis using consent_binds_references [OF sample_assertion_verified] by blast
qed

end
