(* ===== verification/RealtimeConsent.thy ===== *)
theory RealtimeConsent
  imports RealtimePersona RealtimeTokens
begin

text \<open>
  What the persona registry guarantees (\<^verbatim>\<open>services/realtime/src/echoweave/persona.py\<close>): the record of a
  consent only moves forward and a withdrawal is final, a persona is granted only for a manifest that
  is signed, valid at that time and covers the required scopes, the state file survives a restart, and
  one way in which a withdrawal does not.
\<close>

declare uni_simps [simp del]

section \<open>The ledger of consents\<close>

text \<open>How the record of a consent may change: the revision does not fall, the persona stays, a withdrawal
  stays, and the same revision stands for the same content while the consent is active.\<close>

definition consent_le :: "consent_state \<Rightarrow> consent_state \<Rightarrow> bool" where
  "consent_le s t \<longleftrightarrow>
     cs_revision s \<le> cs_revision t \<and> cs_persona s = cs_persona t \<and> (cs_withdrawn s \<longrightarrow> cs_withdrawn t)
     \<and> (\<not> cs_withdrawn t \<and> cs_revision s = cs_revision t \<longrightarrow> cs_digest s = cs_digest t)"

definition ledger_le :: "(utext \<rightharpoonup> consent_state) \<Rightarrow> (utext \<rightharpoonup> consent_state) \<Rightarrow> bool" where
  "ledger_le m m' \<longleftrightarrow> (\<forall>k s. m k = Some s \<longrightarrow> (\<exists>t. m' k = Some t \<and> consent_le s t))"

definition consents :: "persona_registry \<Rightarrow> (utext \<rightharpoonup> consent_state)" where
  "consents r = map_of (pr_states r)"

lemma consent_le_refl [simp]: "consent_le s s"
  by (simp add: consent_le_def)

lemma consent_le_trans: "consent_le s t \<Longrightarrow> consent_le t u \<Longrightarrow> consent_le s u"
  by (auto simp: consent_le_def)

lemma ledger_le_refl [simp]: "ledger_le m m"
  by (simp add: ledger_le_def)

lemma ledger_le_trans: "ledger_le m m' \<Longrightarrow> ledger_le m' m'' \<Longrightarrow> ledger_le m m''"
  unfolding ledger_le_def by (metis consent_le_trans)

lemma ledger_le_upd: "(\<And>t. m k = Some t \<Longrightarrow> consent_le t s) \<Longrightarrow> ledger_le m (m(k \<mapsto> s))"
  by (auto simp: ledger_le_def)

lemma map_of_drop_key: "map_of (drop_key k kvs) = (map_of kvs)(k := None)"
  by (induction kvs) (auto simp: drop_key_def fun_eq_iff)

lemma map_of_restore: "map_of (restore_key k (map_of kvs k) (dict_set k v kvs)) = map_of kvs"
  by (auto simp: restore_key_def dict_set_update map_of_drop_key fun_eq_iff split: option.splits)

lemma persist_states [simp]: "pr_states (snd (persist_state env w r)) = pr_states r"
  by (simp add: persist_state_def split: sum.split write_outcome.split)

lemma persist_fixed [simp]: "pr_id (snd (persist_state env w r)) = pr_id r" "pr_key (snd (persist_state env w r)) = pr_key r"
  "pr_third_party (snd (persist_state env w r)) = pr_third_party r" "pr_root (snd (persist_state env w r)) = pr_root r"
  "pr_persistent (snd (persist_state env w r)) = pr_persistent r"
  by (simp_all add: persist_state_def split: sum.split write_outcome.split)

text \<open>An entry is stored or nothing changes; when the call succeeds it is stored.\<close>

lemma store_entry_effect:
  assumes "store_entry env w k s r = (result, r')"
  shows "consents r' = consents r \<or> consents r' = (consents r)(k \<mapsto> s)"
    and "result = Inr () \<Longrightarrow> consents r' = (consents r)(k \<mapsto> s)"
    and "pr_id r' = pr_id r \<and> pr_key r' = pr_key r \<and> pr_third_party r' = pr_third_party r \<and> pr_root r' = pr_root r
      \<and> pr_persistent r' = pr_persistent r"
proof -
  obtain res q where p: "persist_state env w (r\<lparr>pr_states := dict_set k s (pr_states r)\<rparr>) = (res, q)" by fastforce
  have q: "pr_states q = dict_set k s (pr_states r)" "pr_id q = pr_id r" "pr_key q = pr_key r"
    "pr_third_party q = pr_third_party r" "pr_root q = pr_root r" "pr_persistent q = pr_persistent r"
    using persist_states [of env w "r\<lparr>pr_states := dict_set k s (pr_states r)\<rparr>"]
      persist_fixed [of env w "r\<lparr>pr_states := dict_set k s (pr_states r)\<rparr>"] p by simp_all
  show "consents r' = consents r \<or> consents r' = (consents r)(k \<mapsto> s)" "result = Inr () \<Longrightarrow> consents r' = (consents r)(k \<mapsto> s)"
    "pr_id r' = pr_id r \<and> pr_key r' = pr_key r \<and> pr_third_party r' = pr_third_party r \<and> pr_root r' = pr_root r
      \<and> pr_persistent r' = pr_persistent r"
    using assms p q map_of_restore [of k "pr_states r" s] dict_set_update [of k s "pr_states r"]
    by (auto simp: store_entry_def Let_def consents_def fun_upd_idem split: if_splits sum.splits persona_fault.splits)
qed

lemma commit_effect:
  assumes "commit_active env w k revision digest persona r = (result, r')"
  shows "ledger_le (consents r) (consents r')"
    and "result = Inr () \<Longrightarrow> consents r' k = Some \<lparr>cs_revision = revision, cs_digest = digest, cs_persona = persona, cs_withdrawn = False\<rparr>"
    and "result = Inr () \<Longrightarrow> check_active k revision digest persona r = Inr ()"
proof -
  let ?s = "\<lparr>cs_revision = revision, cs_digest = digest, cs_persona = persona, cs_withdrawn = False\<rparr>"
  show "ledger_le (consents r) (consents r')"
  proof (cases "check_active k revision digest persona r")
    case (Inl e)
    then show ?thesis using assms by (simp add: commit_active_def)
  next
    case (Inr u)
    then have "consent_le t ?s" if "consents r k = Some t" for t
      using that by (auto simp: check_active_def consents_def consent_le_def split: if_splits)
    then have "ledger_le (consents r) ((consents r)(k \<mapsto> ?s))" by (rule ledger_le_upd)
    moreover have "store_entry env w k ?s r = (result, r')" using assms Inr by (simp add: commit_active_def)
    ultimately show ?thesis using store_entry_effect(1) by (metis ledger_le_refl)
  qed
  show "result = Inr () \<Longrightarrow> consents r' k = Some ?s" "result = Inr () \<Longrightarrow> check_active k revision digest persona r = Inr ()"
    using assms store_entry_effect(2) [of env w k ?s r result r'] by (auto simp: commit_active_def split: sum.splits)
qed

lemma withdrawal_effect:
  assumes "record_withdrawal env w k revision digest persona r = (result, r')"
  shows "ledger_le (consents r) (consents r')"
    and "result = Inr () \<Longrightarrow> \<exists>s. consents r' k = Some s \<and> cs_withdrawn s"
proof -
  obtain s where s: "store_entry env w k s r = (result, r')" "cs_withdrawn s"
    and le: "\<And>t. consents r k = Some t \<Longrightarrow> consent_le t s"
    using assms by (auto simp: record_withdrawal_def Let_def consent_le_def consents_def)
  show "ledger_le (consents r) (consents r')"
    using store_entry_effect(1) [OF s(1)] ledger_le_upd [OF le] by (metis ledger_le_refl)
  show "result = Inr () \<Longrightarrow> \<exists>s. consents r' k = Some s \<and> cs_withdrawn s"
    using store_entry_effect(2) [OF s(1)] s(2) by auto
qed

lemma validate_effect:
  assumes "validate_manifest env w now p persona_id digest r = (result, r')"
  shows "ledger_le (consents r) (consents r')" and "result = Inr x \<Longrightarrow> r' = r"
  using assms withdrawal_effect(1)
  by (auto simp: validate_manifest_def split: sum.splits prod.splits if_splits)

text \<open>The operations of a registry, whatever the file system, the clock and the disk do.\<close>

inductive registry_step :: "persona_env \<Rightarrow> persona_registry \<Rightarrow> persona_registry \<Rightarrow> bool" for env where
  load: "load_persona env fs w now persona_id r = (result, r') \<Longrightarrow> registry_step env r r'"
| revalidate: "revalidate env fs w now g r = (result, r') \<Longrightarrow> registry_step env r r'"

text \<open>What an operation does to the registry: nothing, the check of a manifest, or the check and the commit.\<close>

inductive reviewed :: "persona_env \<Rightarrow> persona_registry \<Rightarrow> persona_registry \<Rightarrow> bool" for env r where
  unchanged: "reviewed env r r"
| checked: "validate_manifest env w now p persona_id (pe_sha256 env bytes) r = (result, r') \<Longrightarrow> reviewed env r r'"
| committed: "pe_sha256 env bytes = digest
    \<Longrightarrow> validate_manifest env w now p persona_id digest r = (Inr (revision, consent_id, persona, hashes), q)
    \<Longrightarrow> commit_active env w consent_id revision digest persona q = (result, r') \<Longrightarrow> reviewed env r r'"

lemma load_reviews: "load_persona env fs w now persona_id r = (result, r') \<Longrightarrow> reviewed env r r'"
  by (auto simp: load_persona_def intro: reviewed.intros split: if_splits sum.splits prod.splits)

lemma revalidate_reviews: "revalidate env fs w now g r = (result, r') \<Longrightarrow> reviewed env r r'"
  by (auto simp: revalidate_def intro: reviewed.intros split: if_splits sum.splits prod.splits)

lemma step_reviews: "registry_step env r r' \<Longrightarrow> reviewed env r r'"
  by (auto elim!: registry_step.cases intro: load_reviews revalidate_reviews)

lemma reviewed_le: "reviewed env r r' \<Longrightarrow> ledger_le (consents r) (consents r')"
  by (auto elim!: reviewed.cases intro: ledger_le_trans dest: validate_effect(1) commit_effect(1))

interpretation personas: invariant_system "\<lambda>r. r = r0" "registry_step env" "\<lambda>r. ledger_le (consents r0) (consents r)" for r0 env
proof unfold_locales
  fix r r' assume "ledger_le (consents r0) (consents r)" "registry_step env r r'"
  then show "ledger_le (consents r0) (consents r')"
    by (auto dest!: step_reviews reviewed_le intro: ledger_le_trans)
qed simp

section \<open>What a grant stands for\<close>

lemma load_cases:
  assumes "load_persona env fs w now persona_id r = (Inr g, r')" "persona_id \<noteq> uni ''demo''"
  obtains dir bytes p revision consent_id persona hashes where
    "open_manifest fs r persona_id ''persona has no server-side consent manifest'' = Inr (dir, bytes, p)"
    "validate_manifest env w now p persona_id (pe_sha256 env bytes) r = (Inr (revision, consent_id, persona, hashes), r)"
    "build_grant env fs r persona_id dir p revision consent_id (pe_sha256 env bytes) hashes = Inr g"
    "commit_active env w consent_id revision (pe_sha256 env bytes) persona r = (Inr (), r')"
proof -
  obtain dir bytes p where o: "open_manifest fs r persona_id ''persona has no server-side consent manifest'' = Inr (dir, bytes, p)"
    using assms by (auto simp: load_persona_def split: if_splits sum.splits)
  obtain v q where v: "validate_manifest env w now p persona_id (pe_sha256 env bytes) r = (v, q)" by fastforce
  obtain revision consent_id persona hashes where x: "v = Inr (revision, consent_id, persona, hashes)"
    using assms o v by (auto simp: load_persona_def split: if_splits sum.splits)
  have q: "q = r" using validate_effect(2) [OF v x] .
  obtain g' where b: "build_grant env fs r persona_id dir p revision consent_id (pe_sha256 env bytes) hashes = Inr g'"
    using assms o v x q by (auto simp: load_persona_def split: if_splits sum.splits)
  obtain c q' where c: "commit_active env w consent_id revision (pe_sha256 env bytes) persona r = (c, q')" by fastforce
  have "c = Inr ()" "q' = r'" "g' = g"
    using assms o v x q b c by (auto simp: load_persona_def split: if_splits)
  with o v x q b c that show thesis by blast
qed

lemma revalidate_cases:
  assumes "revalidate env fs w now g r = (Inr g', r')" "pg_persona_id g \<noteq> uni ''demo''"
  obtains dir bytes p persona hashes where
    "open_manifest fs r (pg_persona_id g) ''persona consent manifest was removed'' = Inr (dir, bytes, p)"
    "validate_manifest env w now p (pg_persona_id g) (pe_sha256 env bytes) r
       = (Inr (pg_revision g, the (pg_consent_id g), persona, hashes), r)"
    "pe_sha256 env bytes = pg_digest g" "pg_consent_id g = Some (the (pg_consent_id g))" "g' = g"
    "commit_active env w (the (pg_consent_id g)) (pg_revision g) (pg_digest g) persona r = (Inr (), r')"
proof -
  obtain dir bytes p where o: "open_manifest fs r (pg_persona_id g) ''persona consent manifest was removed'' = Inr (dir, bytes, p)"
    using assms by (auto simp: revalidate_def split: if_splits sum.splits)
  obtain v q where v: "validate_manifest env w now p (pg_persona_id g) (pe_sha256 env bytes) r = (v, q)" by fastforce
  obtain revision consent_id persona hashes where x: "v = Inr (revision, consent_id, persona, hashes)"
    using assms o v by (auto simp: revalidate_def split: if_splits sum.splits)
  have q: "q = r" using validate_effect(2) [OF v x] .
  obtain c q' where c: "commit_active env w consent_id revision (pe_sha256 env bytes) persona r = (c, q')" by fastforce
  have "pe_sha256 env bytes = pg_digest g \<and> pg_consent_id g = Some consent_id \<and> revision = pg_revision g
      \<and> c = Inr () \<and> q' = r' \<and> g' = g"
    using assms o v x q c by (auto simp: revalidate_def split: if_splits sum.splits)
  with o v x q c that show thesis by auto
qed

lemma build_grant_fields:
  "build_grant env fs r persona_id dir p revision consent_id digest hashes = Inr g \<Longrightarrow>
     pg_persona_id g = persona_id \<and> pg_consent_id g = Some consent_id \<and> pg_revision g = revision \<and> pg_digest g = digest
     \<and> pg_registry g = pr_id r \<and> (\<exists>skill. pg_system_prompt g = prompt_before @ escape_markup skill @ prompt_after)"
  by (auto simp: build_grant_def Let_def)

text \<open>
  C29. A consent record only moves forward, and a withdrawal is final. Whatever sequence of loads and
  revalidations is run, with whatever manifests, clocks and disk failures, the revision of a consent
  never falls, its persona never changes and its content changes only with its revision; and once it
  is withdrawn no persona is granted under it and no grant under it is confirmed again.
\<close>

theorem withdrawal_final:
  assumes "(registry_step env)\<^sup>*\<^sup>* r r'"
  shows "ledger_le (consents r) (consents r')
    \<and> (case consents r k of
         Some s \<Rightarrow> cs_withdrawn s \<longrightarrow>
           (\<forall>fs w now persona_id g. fst (load_persona env fs w now persona_id r') = Inr g \<longrightarrow> pg_consent_id g \<noteq> Some k)
           \<and> (\<forall>fs w now g. pg_consent_id g = Some k \<and> pg_persona_id g \<noteq> uni ''demo''
                \<longrightarrow> fst (revalidate env fs w now g r') \<noteq> Inr g)
       | None \<Rightarrow> True)"
proof -
  have le: "ledger_le (consents r) (consents r')"
    using personas.inv_steps [OF assms] by simp
  have refused: "check_active k revision digest persona r' \<noteq> Inr ()"
    if "consents r k = Some s" "cs_withdrawn s" for s revision digest persona
  proof -
    have "\<exists>t. consents r' k = Some t \<and> cs_withdrawn t"
      using le that unfolding ledger_le_def consent_le_def by blast
    then show ?thesis by (auto simp: check_active_def consents_def)
  qed
  have "pg_consent_id g \<noteq> Some k"
    if "consents r k = Some s" "cs_withdrawn s" "fst (load_persona env fs w now persona_id r') = Inr g" for s fs w now persona_id g
  proof (cases "persona_id = uni ''demo''")
    case True
    then show ?thesis using that(3) by (auto simp: load_persona_def demo_grant_def)
  next
    case False
    have l: "load_persona env fs w now persona_id r' = (Inr g, snd (load_persona env fs w now persona_id r'))"
      using that(3) by (metis prod.collapse)
    show ?thesis
      using load_cases [OF l False] build_grant_fields commit_effect(3) refused [OF that(1,2)] by (metis option.inject)
  qed
  moreover have "fst (revalidate env fs w now g r') \<noteq> Inr g"
    if "consents r k = Some s" "cs_withdrawn s" "pg_consent_id g = Some k" "pg_persona_id g \<noteq> uni ''demo''" for s fs w now g
  proof
    assume "fst (revalidate env fs w now g r') = Inr g"
    then have l: "revalidate env fs w now g r' = (Inr g, snd (revalidate env fs w now g r'))" by (metis prod.collapse)
    show False
      using revalidate_cases [OF l that(4)] commit_effect(3) refused [OF that(1,2)] that(3) by (metis option.sel)
  qed
  ultimately show ?thesis using le by (auto split: option.split)
qed

lemma verify_signature_ok:
  assumes "verify_signature env key p = Inr ()"
  obtains k signed where "utf8_encode key = Some k" "canonical_signed_json env p = Inr signed"
    "uget ''hmac_sha256'' p = Some (UStr (pe_hmac env k signed))"
proof -
  obtain k signed where k: "(case utf8_encode key of None \<Rightarrow> Inl Encode_error
            | Some k \<Rightarrow> if length k < 32 then Inl (consent_error ''consent signing key must be at least 32 bytes'') else Inr k) = Inr k"
      "canonical_signed_json env p = Inr signed"
      "case uget ''hmac_sha256'' p of Some (UStr s) \<Rightarrow> sha256_text s \<and> s = pe_hmac env k signed | _ \<Rightarrow> False"
    using assms unfolding verify_signature_def sbind_Inr require_Inr by blast
  have "utf8_encode key = Some k" using k(1) by (simp split: option.splits if_splits)
  moreover have "uget ''hmac_sha256'' p = Some (UStr (pe_hmac env k signed))"
    using k(3) by (simp split: option.splits ujson.splits)
  ultimately show thesis using that k(2) by blast
qed

lemma strict_string_ok: "strict_string env p key n = Inr s \<Longrightarrow> uget key p = Some (UStr s)"
  by (simp add: strict_string_def split: option.splits ujson.splits if_splits)

lemma manifest_header_ok:
  assumes "manifest_header env p expected = Inr (revision, consent_id, persona_id, inactive)"
  shows "uget ''consent_id'' p = Some (UStr consent_id)"
    and "\<not> inactive \<Longrightarrow> uget ''consent_granted'' p = Some (UBool True) \<and> uget ''consent_withdrawn'' p = Some (UBool False)"
    and "case expected of None \<Rightarrow> True | Some e \<Rightarrow> persona_id = e"
proof -
  obtain granted withdrawn where h: "(case expected of None \<Rightarrow> True | Some e \<Rightarrow> persona_id = e)"
      "strict_string env p ''consent_id'' 200 = Inr consent_id"
      "(case uget ''consent_granted'' p of
          Some (UBool b) \<Rightarrow> Inr b | _ \<Rightarrow> Inl (consent_error ''consent_granted must be a JSON boolean'')) = Inr granted"
      "(case uget ''consent_withdrawn'' p of
          Some (UBool b) \<Rightarrow> Inr b | _ \<Rightarrow> Inl (consent_error ''consent_withdrawn must be a JSON boolean'')) = Inr withdrawn"
      "inactive = (\<not> granted \<or> withdrawn)"
    using assms unfolding manifest_header_def Let_def sbind_Inr require_Inr by blast
  show "uget ''consent_id'' p = Some (UStr consent_id)" using h(2) by (rule strict_string_ok)
  show "\<not> inactive \<Longrightarrow> uget ''consent_granted'' p = Some (UBool True) \<and> uget ''consent_withdrawn'' p = Some (UBool False)"
    using h(3-5) by (simp split: option.splits ujson.splits)
  show "case expected of None \<Rightarrow> True | Some e \<Rightarrow> persona_id = e" by (rule h(1))
qed

lemma check_period_ok:
  assumes "check_period env now p = Inr ()"
  obtains issued valid_until where "parse_time env (ustr (the (uget ''issued_at'' p))) = Some issued"
    "parse_time env (ustr (the (uget ''valid_until'' p))) = Some valid_until"
    "issued \<le> now" "now < valid_until" "valid_until \<le> issued + 366 * 86400"
proof -
  obtain a b where s: "strict_string env p ''issued_at'' 64 = Inr a" "strict_string env p ''valid_until'' 64 = Inr b"
    and c: "(case (parse_time env a, parse_time env b) of
        (Some issued, Some valid) \<Rightarrow>
          sbind (require (\<not> now < issued) (consent_error ''consent issue time is in the future'')) (\<lambda>_.
          sbind (require (\<not> valid \<le> now) (consent_error ''consent has expired'')) (\<lambda>_.
          require (\<not> 366 * 86400 < valid - issued) (consent_error ''consent validity exceeds one year'')))
      | _ \<Rightarrow> Inl (consent_error ''consent timestamps are invalid'')) = Inr ()"
    using assms unfolding check_period_def sbind_Inr by blast
  obtain issued valid where t: "parse_time env a = Some issued" "parse_time env b = Some valid"
    using c by (cases "parse_time env a"; cases "parse_time env b") auto
  have "issued \<le> now" "now < valid" "valid \<le> issued + 366 * 86400"
    using c unfolding t prod.case option.case sbind_Inr require_Inr by auto
  with t that [of issued valid] show thesis
    using strict_string_ok [OF s(1)] strict_string_ok [OF s(2)] by (simp add: ustr_def)
qed

lemma check_scopes_ok:
  "check_scopes third_party p = Inr () \<Longrightarrow>
     \<exists>scopes. uget ''consent_scope'' p = Some (UArr (map UStr scopes)) \<and> set required_scopes \<subseteq> set scopes
       \<and> (third_party \<longrightarrow> third_party_scope \<in> set scopes)"
proof -
  assume c: "check_scopes third_party p = Inr ()"
  then obtain vs where vs: "uget ''consent_scope'' p = Some (UArr vs)" "list_all canonical_scope vs"
    and rest: "filter (\<lambda>s. s \<notin> set (map ustr vs)) (sort required_scopes) = []"
      "\<not> (third_party \<and> third_party_scope \<notin> set (map ustr vs))"
    by (auto simp: check_scopes_def Let_def split: option.splits ujson.splits if_splits)
  have "map UStr (map ustr vs) = vs"
    using vs(2) by (induction vs) (auto simp: canonical_scope_def ustr_def split: ujson.splits)
  moreover have "set required_scopes \<subseteq> set (map ustr vs)"
    using rest(1) by (auto simp: filter_empty_conv)
  ultimately show ?thesis using vs(1) rest(2) by (intro exI [of _ "map ustr vs"]) simp
qed

lemma manifest_body_ok:
  assumes "manifest_body env now third_party p = Inr hashes"
  shows "check_period env now p = Inr ()" and "check_scopes third_party p = Inr ()"
proof -
  obtain u v where "check_period env now p = Inr u" "check_scopes third_party p = Inr v"
    using assms unfolding manifest_body_def sbind_Inr by blast
  then show "check_period env now p = Inr ()" "check_scopes third_party p = Inr ()" by simp_all
qed

lemma escape_markup_clean: "60 \<notin> set (escape_markup s) \<and> 62 \<notin> set (escape_markup s)"
  by (auto simp: escape_markup_def uni_def ord_of_def)

text \<open>
  C28. A grant is backed by a valid consent. A persona other than the demonstration is granted only
  if its manifest, at that moment, carries the authentication code of its own content under the key
  of the service, is granted and not withdrawn, is inside its period of at most 366 days and covers
  the required scopes and, where the service demands it, third-party processing; the revision is then
  recorded as active; and the profile enters the prompt without any angle bracket of its own.
\<close>

theorem grant_backed_by_consent:
  assumes "load_persona env fs w now persona_id r = (Inr g, r')" "persona_id \<noteq> uni ''demo''"
  shows "\<exists>dir bytes p k signed consent_id scopes issued valid_until skill.
      open_manifest fs r persona_id ''persona has no server-side consent manifest'' = Inr (dir, bytes, p)
    \<and> pg_digest g = pe_sha256 env bytes
    \<and> utf8_encode (pr_key r) = Some k \<and> canonical_signed_json env p = Inr signed
    \<and> uget ''hmac_sha256'' p = Some (UStr (pe_hmac env k signed))
    \<and> uget ''consent_granted'' p = Some (UBool True) \<and> uget ''consent_withdrawn'' p = Some (UBool False)
    \<and> parse_time env (ustr (the (uget ''issued_at'' p))) = Some issued
    \<and> parse_time env (ustr (the (uget ''valid_until'' p))) = Some valid_until
    \<and> issued \<le> now \<and> now < valid_until \<and> valid_until \<le> issued + 366 * 86400
    \<and> uget ''consent_scope'' p = Some (UArr (map UStr scopes)) \<and> set required_scopes \<subseteq> set scopes
    \<and> (pr_third_party r \<longrightarrow> third_party_scope \<in> set scopes)
    \<and> uget ''consent_id'' p = Some (UStr consent_id) \<and> pg_consent_id g = Some consent_id
    \<and> consents r' consent_id = Some \<lparr>cs_revision = pg_revision g, cs_digest = pg_digest g, cs_persona = persona_id, cs_withdrawn = False\<rparr>
    \<and> pg_system_prompt g = prompt_before @ escape_markup skill @ prompt_after
    \<and> 60 \<notin> set (escape_markup skill) \<and> 62 \<notin> set (escape_markup skill)"
proof -
  obtain dir bytes p revision consent_id persona hashes where
    o: "open_manifest fs r persona_id ''persona has no server-side consent manifest'' = Inr (dir, bytes, p)"
    and v: "validate_manifest env w now p persona_id (pe_sha256 env bytes) r = (Inr (revision, consent_id, persona, hashes), r)"
    and b: "build_grant env fs r persona_id dir p revision consent_id (pe_sha256 env bytes) hashes = Inr g"
    and c: "commit_active env w consent_id revision (pe_sha256 env bytes) persona r = (Inr (), r')"
    using load_cases [OF assms] by blast
  have h: "manifest_header env p (Some persona_id) = Inr (revision, consent_id, persona, False)"
    and s: "verify_signature env (pr_key r) p = Inr ()" and m: "manifest_body env now (pr_third_party r) p = Inr hashes"
    using v by (auto simp: validate_manifest_def split: sum.splits if_splits prod.splits)
  obtain k signed where sig: "utf8_encode (pr_key r) = Some k" "canonical_signed_json env p = Inr signed"
      "uget ''hmac_sha256'' p = Some (UStr (pe_hmac env k signed))"
    using verify_signature_ok [OF s] by blast
  have head: "uget ''consent_id'' p = Some (UStr consent_id)" "uget ''consent_granted'' p = Some (UBool True)"
    "uget ''consent_withdrawn'' p = Some (UBool False)" "persona = persona_id"
    using manifest_header_ok [OF h] by simp_all
  obtain issued valid_until where
    period: "parse_time env (ustr (the (uget ''issued_at'' p))) = Some issued"
      "parse_time env (ustr (the (uget ''valid_until'' p))) = Some valid_until"
      "issued \<le> now" "now < valid_until" "valid_until \<le> issued + 366 * 86400"
    using check_period_ok [OF manifest_body_ok(1) [OF m]] by metis
  obtain scopes where
    covers: "uget ''consent_scope'' p = Some (UArr (map UStr scopes))" "set required_scopes \<subseteq> set scopes"
      "pr_third_party r \<longrightarrow> third_party_scope \<in> set scopes"
    using check_scopes_ok [OF manifest_body_ok(2) [OF m]] by metis
  obtain skill where skill: "pg_system_prompt g = prompt_before @ escape_markup skill @ prompt_after"
    and g: "pg_consent_id g = Some consent_id" "pg_revision g = revision" "pg_digest g = pe_sha256 env bytes"
    using build_grant_fields [OF b] by blast
  have "consents r' consent_id = Some \<lparr>cs_revision = pg_revision g, cs_digest = pg_digest g, cs_persona = persona_id, cs_withdrawn = False\<rparr>"
    using commit_effect(2) [OF c] g head(4) by simp
  with o sig head period covers skill g escape_markup_clean [of skill, THEN conjunct1] escape_markup_clean [of skill, THEN conjunct2] show ?thesis
    by - (rule exI [of _ dir], rule exI [of _ bytes], rule exI [of _ p], rule exI [of _ k],
        rule exI [of _ signed], rule exI [of _ consent_id], rule exI [of _ scopes], rule exI [of _ issued],
        rule exI [of _ valid_until], rule exI [of _ skill], intro conjI; assumption)
qed

section \<open>The state file\<close>

definition strict_text :: "persona_env \<Rightarrow> utext \<Rightarrow> nat \<Rightarrow> bool" where
  "strict_text env s n \<longleftrightarrow> s = uni_strip s \<and> 1 \<le> length s \<and> length s \<le> n \<and> \<not> has_control env s"

definition entry_ok :: "persona_env \<Rightarrow> utext \<Rightarrow> consent_state \<Rightarrow> bool" where
  "entry_ok env k s \<longleftrightarrow> strict_text env k 200 \<and> strict_text env (cs_persona s) 80 \<and> list_all persona_letter (cs_persona s)
     \<and> 1 \<le> cs_revision s \<and> sha256_text (cs_digest s)"

text \<open>What holds of the entries of every registry: they are the ones its state file accepts.\<close>

definition registry_ok :: "persona_env \<Rightarrow> persona_registry \<Rightarrow> bool" where
  "registry_ok env r \<longleftrightarrow> distinct (map fst (pr_states r)) \<and> list_all (\<lambda>(k, s). entry_ok env k s) (pr_states r)"

lemma strict_string_text: "uget key p = Some (UStr s) \<Longrightarrow> strict_text env s n \<Longrightarrow> strict_string env p key n = Inr s"
  by (simp add: strict_string_def strict_text_def)

lemma strict_text_of: "strict_string env p key n = Inr s \<Longrightarrow> strict_text env s n"
  by (auto simp: strict_string_def strict_text_def split: option.splits ujson.splits if_splits)

lemma manifest_header_entry:
  assumes "manifest_header env p expected = Inr (revision, consent_id, persona_id, inactive)"
  shows "1 \<le> revision \<and> strict_text env consent_id 200 \<and> strict_text env persona_id 80 \<and> list_all persona_letter persona_id"
proof -
  obtain u where h: "strict_string env p ''persona_id'' 80 = Inr persona_id" "list_all persona_letter persona_id"
      "strict_string env p ''consent_id'' 200 = Inr consent_id"
      "(case uget ''manifest_revision'' p of
          Some (UInt r) \<Rightarrow> if r < 1 then Inl (consent_error ''manifest revision is invalid'') else Inr r
        | _ \<Rightarrow> Inl (consent_error ''manifest revision is invalid'')) = Inr revision"
    using assms unfolding manifest_header_def Let_def sbind_Inr require_Inr by blast
  have "1 \<le> revision" using h(4) by (simp split: option.splits ujson.splits if_splits)
  then show ?thesis using strict_text_of [OF h(1)] strict_text_of [OF h(3)] h(2) by simp
qed

lemma outside_none [simp]: "set names \<subseteq> set allowed \<Longrightarrow> outside_of names allowed = []"
proof -
  assume "set names \<subseteq> set allowed"
  then have "filter (\<lambda>k. k \<notin> set allowed) names = []" by (auto simp: filter_empty_conv)
  then show ?thesis by (simp add: outside_of_def)
qed

lemma load_entry_ok:
  assumes "entry_ok env k s"
  shows "load_entry env k (state_entry s) = Inr (k, s)"
proof -
  let ?h = "[(uni ''schema_version'', UInt 1), (uni ''manifest_revision'', UInt (cs_revision s)), (uni ''persona_id'', UStr (cs_persona s)),
          (uni ''consent_id'', UStr k), (uni ''consent_granted'', UBool (\<not> cs_withdrawn s)),
          (uni ''consent_withdrawn'', UBool (cs_withdrawn s))]"
  have names: "outside_of (map fst ?h) manifest_fields = []"
    by (rule outside_none) (simp add: manifest_fields_def)
  have texts: "strict_string env ?h ''persona_id'' 80 = Inr (cs_persona s)" "strict_string env ?h ''consent_id'' 200 = Inr k"
    "strict_string env [(uni ''consent_id'', UStr k)] ''consent_id'' 200 = Inr k"
    using assms by (auto intro!: strict_string_text simp: entry_ok_def)
  have "manifest_header env ?h (Some (cs_persona s)) = Inr (cs_revision s, k, cs_persona s, cs_withdrawn s)"
    unfolding manifest_header_def Let_def names texts using assms texts by (simp add: entry_ok_def)
  moreover have "outside_of (map fst [(uni ''highest_revision'', UInt (cs_revision s)), (uni ''manifest_digest'', UStr (cs_digest s)),
      (uni ''persona_id'', UStr (cs_persona s)), (uni ''withdrawn'', UBool (cs_withdrawn s))]) state_entry_fields = []"
    by (rule outside_none) (simp add: state_entry_fields_def)
  ultimately show ?thesis
    using assms texts(3) by (simp add: load_entry_def state_entry_def entry_ok_def Let_def)
qed

lemma load_entries_ok:
  "list_all (\<lambda>(k, s). entry_ok env k s) es \<Longrightarrow> load_entries env (map (\<lambda>(k, s). (k, state_entry s)) es) = Inr es"
  by (induction es) (auto simp: load_entry_ok)

lemma state_file_roundtrip:
  assumes "encode_state env k states = Inr bs" "distinct (map fst states)" "list_all (\<lambda>(k, s). entry_ok env k s) states"
    and digits: "list_all (\<lambda>(k, s). length (dec_digits (nat \<bar>cs_revision s\<bar>)) \<le> 4300) states"
    and hmac: "\<And>m. sha256_text (pe_hmac env k m)"
  shows "load_state env k (Some bs) = Inr (sort_key fst states)"
proof -
  obtain signed where signed: "canonical_signed_json env (state_payload states) = Inr signed"
    using assms(1) by (auto simp: encode_state_def)
  define full where "full = state_payload states @ [(uni ''hmac_sha256'', UStr (pe_hmac env k (state_context @ signed)))]"
  have bs: "utf8_encode (jpretty (pe_float env) 0 (UObj full) @ [10]) = Some bs" "\<not> max_state_bytes < length bs"
    using assms(1) signed by (auto simp: encode_state_def full_def Let_def split: option.splits if_splits)
  have dist: "distinct (map fst (sort_key fst states))"
    using assms(2) by (simp add: distinct_map)
  have all: "list_all (\<lambda>(k, s). entry_ok env k s) (sort_key fst states)"
    "list_all (\<lambda>(k, s). length (dec_digits (nat \<bar>cs_revision s\<bar>)) \<le> 4300) (sort_key fst states)"
    using assms(3) digits by (simp_all add: list_all_iff)
  have "plain (UObj full)"
    using dist all(2) by (simp add: full_def state_payload_def state_entry_def list_all_iff case_prod_unfold comp_def dec_digits.simps [of "Suc 0"])
  then have parsed: "parse_json False (jpretty (pe_float env) 0 (UObj full) @ [10]) = Inr (UObj full)"
    by (rule pretty_roundtrip)
  have same: "canonical_signed_json env full = Inr signed"
    using signed by (simp add: canonical_signed_json_def full_def state_payload_def)
  have names: "outside_of (map fst full) state_fields = []"
    by (rule outside_none) (simp add: full_def state_payload_def state_fields_def)
  have fields: "uget ''schema_version'' full = Some (UInt 1)"
    "uget ''hmac_sha256'' full = Some (UStr (pe_hmac env k (state_context @ signed)))"
    "uget ''consents'' full = Some (UObj (map (\<lambda>(k, s). (k, state_entry s)) (sort_key fst states)))"
    by (simp_all add: full_def state_payload_def)
  show ?thesis
    using bs(2) parsed
    by (simp add: load_state_def parse_object_def utf8_roundtrip [OF bs(1)] Let_def names fields same hmac load_entries_ok [OF all(1)])
qed

lemma drop_key_ok: "distinct (map fst kvs) \<Longrightarrow> distinct (map fst (drop_key k kvs))" "list_all P kvs \<Longrightarrow> list_all P (drop_key k kvs)"
  by (simp_all add: drop_key_def distinct_map_filter list_all_iff)

lemma store_entry_ok:
  assumes "registry_ok env r" "entry_ok env k s" "store_entry env w k s r = (result, r')"
  shows "registry_ok env r'"
proof -
  let ?d = "dict_set k s (pr_states r)"
  have d: "distinct (map fst ?d)" "list_all (\<lambda>(k, s). entry_ok env k s) ?d"
    using assms(1,2) by (simp_all add: registry_ok_def dict_set_distinct dict_set_all)
  have prev: "entry_ok env k t" if "map_of (pr_states r) k = Some t" for t
    using assms(1) map_of_SomeD [OF that] by (auto simp: registry_ok_def list_all_iff)
  have "distinct (map fst (restore_key k (map_of (pr_states r) k) ?d))
      \<and> list_all (\<lambda>(k, s). entry_ok env k s) (restore_key k (map_of (pr_states r) k) ?d)"
    using d prev by (auto simp: restore_key_def dict_set_distinct dict_set_all drop_key_ok split: option.split)
  moreover obtain res q where p: "persist_state env w (r\<lparr>pr_states := ?d\<rparr>) = (res, q)" by fastforce
  moreover have "pr_states q = ?d" using persist_states [of env w "r\<lparr>pr_states := ?d\<rparr>"] p by simp
  ultimately have "pr_states r' = pr_states r \<or> pr_states r' = ?d \<or> pr_states r' = restore_key k (map_of (pr_states r) k) ?d"
    using assms(3) by (auto simp: store_entry_def Let_def split: if_splits sum.splits persona_fault.splits)
  then show ?thesis
    using assms(1) d \<open>distinct (map fst (restore_key k (map_of (pr_states r) k) ?d)) \<and> _\<close> by (auto simp: registry_ok_def)
qed

lemma commit_ok:
  "registry_ok env r \<Longrightarrow> entry_ok env k \<lparr>cs_revision = revision, cs_digest = digest, cs_persona = persona, cs_withdrawn = False\<rparr>
    \<Longrightarrow> commit_active env w k revision digest persona r = (result, r') \<Longrightarrow> registry_ok env r'"
  using store_entry_ok by (auto simp: commit_active_def split: sum.splits)

lemma withdrawal_ok:
  assumes "registry_ok env r" "strict_text env k 200" "strict_text env persona 80" "list_all persona_letter persona"
    "1 \<le> revision" "sha256_text digest" "record_withdrawal env w k revision digest persona r = (result, r')"
  shows "registry_ok env r'"
proof -
  have "entry_ok env k t" if "map_of (pr_states r) k = Some t" for t
    using assms(1) map_of_SomeD [OF that] by (auto simp: registry_ok_def list_all_iff)
  then have "entry_ok env k \<lparr>cs_revision = max revision (case map_of (pr_states r) k of Some s \<Rightarrow> cs_revision s | None \<Rightarrow> 0),
      cs_digest = digest, cs_persona = (case map_of (pr_states r) k of Some s \<Rightarrow> cs_persona s | None \<Rightarrow> persona), cs_withdrawn = True\<rparr>"
    using assms(2-6) by (auto simp: entry_ok_def split: option.split)
  then show ?thesis using store_entry_ok [OF assms(1)] assms(7) by (simp add: record_withdrawal_def Let_def)
qed

lemma validate_ok:
  assumes "registry_ok env r" "sha256_text digest" "validate_manifest env w now p persona_id digest r = (result, r')"
  shows "registry_ok env r'"
    and "result = Inr (revision, consent_id, persona, hashes)
      \<Longrightarrow> entry_ok env consent_id \<lparr>cs_revision = revision, cs_digest = digest, cs_persona = persona, cs_withdrawn = False\<rparr>"
proof -
  show "registry_ok env r'"
    using assms manifest_header_entry withdrawal_ok
    by (fastforce simp: validate_manifest_def split: sum.splits if_splits prod.splits)
  assume "result = Inr (revision, consent_id, persona, hashes)"
  then have "manifest_header env p (Some persona_id) = Inr (revision, consent_id, persona, False)"
    using assms(3) by (auto simp: validate_manifest_def split: sum.splits if_splits prod.splits)
  from manifest_header_entry [OF this] assms(2)
  show "entry_ok env consent_id \<lparr>cs_revision = revision, cs_digest = digest, cs_persona = persona, cs_withdrawn = False\<rparr>"
    by (simp add: entry_ok_def)
qed

lemma reviewed_ok:
  assumes "reviewed env r r'" "registry_ok env r" "\<And>bs. sha256_text (pe_sha256 env bs)"
  shows "registry_ok env r'"
  using assms(1)
proof cases
  case (checked w now p persona_id bytes result)
  then show ?thesis using validate_ok(1) assms(2,3) by blast
next
  case (committed bytes digest w now p persona_id revision consent_id persona hashes q result)
  have d: "sha256_text digest" using assms(3) [of bytes] committed(1) by simp
  show ?thesis
    by (rule commit_ok [OF validate_ok(1) [OF assms(2) d committed(2)] validate_ok(2) [OF assms(2) d committed(2) refl] committed(3)])
qed (use assms(2) in simp)

lemma registry_ok_steps:
  assumes "(registry_step env)\<^sup>*\<^sup>* r r'" "registry_ok env r" "\<And>bs. sha256_text (pe_sha256 env bs)"
  shows "registry_ok env r'"
  using assms(1,2) by (induction rule: rtranclp_induct) (auto dest!: step_reviews intro: reviewed_ok assms(3))

lemma consents_sorted: "distinct (map fst es) \<Longrightarrow> map_of (sort_key fst es) = map_of es"
  by (subst map_of_inject_set) (simp_all add: distinct_map)

lemma persisted:
  assumes "persist_state env w r = (Inr (), r')" "pr_persistent r"
  obtains k bs where "strong_key (pr_key r) = Inr k" "encode_state env k (pr_states r) = Inr bs" "pr_disk r' = Some bs"
  using assms by (auto simp: persist_state_def split: sum.splits write_outcome.splits)

text \<open>
  C30. The consents of a registry survive a restart. Starting from a registry whose entries are well
  formed (a new one, or one read from its state file) and after any sequence of loads and revalidations,
  once the state is written the registry opened from that file holds exactly the same consents, again
  well formed. Digests are 64 hexadecimal digits; a revision has at most the digits JSON can carry.
\<close>

theorem consents_survive_restart:
  assumes "registry_ok env r0" "(registry_step env)\<^sup>*\<^sup>* r0 r" "pr_persistent r" "persist_state env w r = (Inr (), r')"
    and "\<And>bs. sha256_text (pe_sha256 env bs)" "\<And>k bs. sha256_text (pe_hmac env k bs)"
    and "list_all (\<lambda>(k, s). cs_revision s < 10 ^ 4300) (pr_states r)"
  shows "\<exists>r2. open_registry env i base (pr_key r) third_party True (pr_disk r') = Inr r2
    \<and> consents r2 = consents r' \<and> registry_ok env r2"
proof -
  have ok: "registry_ok env r" by (rule registry_ok_steps [OF assms(2,1,5)])
  obtain k bs where k: "strong_key (pr_key r) = Inr k" and bs: "encode_state env k (pr_states r) = Inr bs" "pr_disk r' = Some bs"
    by (rule persisted [OF assms(4,3)])
  have "length (dec_digits (nat \<bar>cs_revision s\<bar>)) \<le> 4300" if "(j, s) \<in> set (pr_states r)" for j s
  proof (rule dec_digits_length)
    have "1 \<le> cs_revision s" "cs_revision s < 10 ^ 4300"
      using that ok assms(7) by (auto simp: registry_ok_def list_all_iff entry_ok_def simp del: power_numeral)
    then show "nat \<bar>cs_revision s\<bar> < 10 ^ 4300" by (subst nat_less_iff) (simp_all del: power_numeral)
  qed simp
  then have digits: "list_all (\<lambda>(k, s). length (dec_digits (nat \<bar>cs_revision s\<bar>)) \<le> 4300) (pr_states r)"
    by (auto simp: list_all_iff)
  have read: "load_state env k (Some bs) = Inr (sort_key fst (pr_states r))"
    using state_file_roundtrip [OF bs(1) _ _ digits assms(6)] ok by (simp add: registry_ok_def)
  moreover have "consents r' = map_of (pr_states r)" using assms(4) persist_states [of env w r] by (simp add: consents_def)
  moreover have "map_of (sort_key fst (pr_states r)) = map_of (pr_states r)"
    using ok by (simp add: registry_ok_def consents_sorted)
  moreover have "distinct (map fst (sort_key fst (pr_states r)))" "list_all (\<lambda>(k, s). entry_ok env k s) (sort_key fst (pr_states r))"
    using ok by (simp_all add: registry_ok_def distinct_map list_all_iff)
  ultimately show ?thesis
    using k bs(2) by (simp add: open_registry_def Let_def consents_def registry_ok_def)
qed

text \<open>
  A withdrawal can be lost. When the directory or the temporary file of the state cannot be made,
  the exception is not the one the registry undoes its entry for: the withdrawal stays in memory
  without being on disk. The next attempt finds the entry already there, reports success and writes
  nothing, so a restart reads a state that never heard of the withdrawal.
\<close>

theorem withdrawal_lost:
  assumes "record_withdrawal env No_directory k revision digest persona r = (Inl Os_error, r1)"
  shows "record_withdrawal env Written k revision digest persona r1 = (Inr (), r1) \<and> pr_disk r1 = pr_disk r
    \<and> consents r1 \<noteq> consents r"
proof -
  define s where "s = \<lparr>cs_revision = max revision (case map_of (pr_states r) k of Some s \<Rightarrow> cs_revision s | None \<Rightarrow> 0), cs_digest = digest,
         cs_persona = (case map_of (pr_states r) k of Some s \<Rightarrow> cs_persona s | None \<Rightarrow> persona), cs_withdrawn = True\<rparr>"
  have st: "store_entry env No_directory k s r = (Inl Os_error, r1)"
    using assms by (simp add: record_withdrawal_def s_def Let_def)
  then have r1: "r1 = r\<lparr>pr_states := dict_set k s (pr_states r)\<rparr>" "map_of (pr_states r) k \<noteq> Some s"
    by (auto simp: store_entry_def Let_def persist_state_def split: if_splits sum.splits persona_fault.splits)
  then have m: "map_of (pr_states r1) k = Some s" by (simp add: dict_set_update)
  have "max revision (cs_revision s) = cs_revision s" by (simp add: s_def)
  then have again: "s = \<lparr>cs_revision = max revision (cs_revision s), cs_digest = digest, cs_persona = cs_persona s, cs_withdrawn = True\<rparr>"
    by (simp add: s_def)
  have "record_withdrawal env Written k revision digest persona r1 = (Inr (), r1)"
    using again by (simp add: record_withdrawal_def m store_entry_def)
  moreover have "consents r1 \<noteq> consents r" using m r1(2) by (metis consents_def)
  ultimately show ?thesis using r1(1) by simp
qed

section \<open>Instances\<close>

definition wit_env :: persona_env where
  "wit_env = \<lparr>pe_sha256 = (\<lambda>_. replicate 64 48), pe_hmac = (\<lambda>_ _. replicate 64 48), pe_control = (\<lambda>_. False),
     pe_fromiso = (\<lambda>s. Some (if s = uni ''from'' then 0 else 100, None)), pe_float = (\<lambda>_. [])\<rparr>"

definition wit_manifest :: payload where
  "wit_manifest =
     [(uni ''schema_version'', UInt 1), (uni ''manifest_revision'', UInt 1), (uni ''persona_id'', UStr (uni ''ada'')),
      (uni ''consent_id'', UStr (uni ''c1'')), (uni ''subject_display_name'', UStr (uni ''Ada'')),
      (uni ''profile_class'', UStr (uni ''fictional_original'')), (uni ''asset_rights_record_id'', UStr (uni ''r1'')),
      (uni ''consent_granted'', UBool True), (uni ''consent_withdrawn'', UBool False),
      (uni ''consent_scope'', UArr (map UStr required_scopes)), (uni ''issued_at'', UStr (uni ''from'')),
      (uni ''valid_until'', UStr (uni ''to'')), (uni ''nuwa_skill'', UStr (uni ''s'')),
      (uni ''reference_hashes'', UObj [(uni ''s'', UStr (replicate 64 48))]), (uni ''hmac_sha256'', UStr (replicate 64 48))]"

definition wit_text :: utext where
  "wit_text = jpretty (pe_float wit_env) 0 (UObj wit_manifest)"

definition wit_bytes :: "byte list" where
  "wit_bytes = map byte_of (wit_text @ [10])"

definition wit_fs :: persona_fs where
  "wit_fs = \<lparr>fs_resolve = (\<lambda>p. p), fs_exists = (\<lambda>_. True), fs_is_file = (\<lambda>_. True), fs_is_symlink = (\<lambda>_. False),
     fs_read = (\<lambda>p. Some (if last p = uni ''consent.json'' then wit_bytes else [65, 100, 97]))\<rparr>"

definition wit_registry :: persona_registry where
  "wit_registry = \<lparr>pr_id = 1, pr_root = [], pr_key = replicate 32 107, pr_third_party = False, pr_persistent = False,
     pr_states = [], pr_disk = None\<rparr>"

definition safe_char :: "nat \<Rightarrow> bool" where
  "safe_char c \<longleftrightarrow> 32 \<le> c \<and> c < 128 \<and> c \<noteq> 34 \<and> c \<noteq> 92"

lemma quoted_safe [simp]: "list_all safe_char s \<Longrightarrow> quoted s = 34 # s @ [34]"
proof -
  assume s: "list_all safe_char s"
  then have "concat (map esc_char s) = s" by (induction s) (simp_all add: safe_char_def esc_char_def)
  then show ?thesis by (simp add: quoted_def)
qed

lemma uni_all [simp]: "list_all P (uni s) \<longleftrightarrow> list_all (\<lambda>c. P (ord_of c)) s"
  by (simp add: uni_def list_all_iff)

lemma uni_Nil [simp]: "uni s = [] \<longleftrightarrow> s = []"
  by (simp add: uni_def)

lemma replicate_all [simp]: "list_all P (replicate n x) \<longleftrightarrow> n = 0 \<or> P x"
  by (auto simp: list_all_iff)

lemma wit_text: "length wit_text \<le> 2000 \<and> list_all (\<lambda>c. c < 128) wit_text"
  by (simp add: wit_text_def wit_manifest_def required_scopes_def new_line_def int_digits_def dec_digits.simps safe_char_def ord_of_def)

lemma wit_encoded: "utf8_encode (wit_text @ [10]) = Some wit_bytes"
  using wit_text by (simp add: wit_bytes_def utf8_ascii)

lemma wit_plain: "plain (UObj wit_manifest)" "ascii_json (UObj (filter (\<lambda>(k, v). k \<noteq> uni ''hmac_sha256'') wit_manifest))"
  by (simp_all add: wit_manifest_def dec_digits.simps required_scopes_def ord_of_def)

lemma wit_opens:
  "open_manifest wit_fs wit_registry (uni ''ada'') missing = Inr ([uni ''ada''], wit_bytes, wit_manifest)"
proof -
  have "split_slashes (uni ''ada'') = [uni ''ada'']" by (simp add: uni_simps ord_of_def)
  moreover have "wit_bytes \<noteq> []" "length wit_bytes \<le> 2001" using wit_text by (auto simp: wit_bytes_def)
  moreover have "parse_json False (wit_text @ [10]) = Inr (UObj wit_manifest)"
    unfolding wit_text_def by (rule pretty_roundtrip [OF wit_plain(1)])
  ultimately show ?thesis
    by (simp add: open_manifest_def wit_fs_def wit_registry_def safe_child_def Let_def read_manifest_def max_manifest_bytes_def
        parse_object_def utf8_roundtrip [OF wit_encoded])
qed

lemma wit_signed: "verify_signature wit_env (pr_key wit_registry) wit_manifest = Inr ()"
proof -
  have "canonical_signed_json wit_env wit_manifest
      = Inr (map byte_of (dumps_sorted (pe_float wit_env) (UObj (filter (\<lambda>(k, v). k \<noteq> uni ''hmac_sha256'') wit_manifest))))"
    using utf8_ascii [OF jprint_ascii [OF ascii_sorted [OF wit_plain(2)]]]
    by (simp add: canonical_signed_json_def dumps_sorted_def)
  moreover have "utf8_encode (pr_key wit_registry) = Some (map byte_of (pr_key wit_registry))"
    by (rule utf8_ascii) (simp add: wit_registry_def)
  moreover have "uget ''hmac_sha256'' wit_manifest = Some (UStr (replicate 64 48))" by (simp add: wit_manifest_def)
  moreover have "sha256_text (replicate 64 48)" by (simp add: sha256_text_def udigit_def)
  ultimately show ?thesis
    by (simp add: verify_signature_def wit_env_def) (simp add: wit_registry_def)
qed

lemma wit_control [simp]: "\<not> has_control wit_env s"
  by (simp add: has_control_def wit_env_def list_all_iff [symmetric] list_ex_iff)

lemma wit_strip [simp]: "list_all (\<lambda>c. 32 < ord_of c \<and> ord_of c < 128) s \<Longrightarrow> uni_strip (uni s) = uni s"
proof -
  assume "list_all (\<lambda>c. 32 < ord_of c \<and> ord_of c < 128) s"
  then have "list_all (\<lambda>c. \<not> uni_space c) (uni s)" by (auto simp: list_all_iff uni_space_def uni_def)
  moreover have keep: "dropWhile uni_space t = t" if "list_all (\<lambda>c. \<not> uni_space c) t" for t using that by (cases t) simp_all
  ultimately show ?thesis using keep [of "uni s"] keep [of "rev (uni s)"] by (simp add: uni_strip_def)
qed

lemma wit_dates [simp]: "parse_time wit_env (uni ''from'') = Some 0" "parse_time wit_env (uni ''to'') = Some 100"
  by (simp_all add: parse_time_def wit_env_def uni_simps ord_of_def)

lemma wit_header:
  "manifest_header wit_env wit_manifest (Some (uni ''ada'')) = Inr (1, uni ''c1'', uni ''ada'', False)"
  by (simp add: manifest_header_def wit_manifest_def Let_def manifest_fields_def strict_string_def persona_letter_def ord_of_def)

lemma wit_body: "manifest_body wit_env 50 False wit_manifest = Inr [(uni ''s'', replicate 64 48)]"
proof -
  have "check_period wit_env 50 wit_manifest = Inr ()"
    by (simp add: check_period_def wit_manifest_def strict_string_def ord_of_def)
  moreover have "check_scopes False wit_manifest = Inr ()"
  proof -
    have "list_all canonical_scope (map UStr required_scopes)" "distinct required_scopes" "length required_scopes = 4"
      by (simp_all add: required_scopes_def canonical_scope_def ord_of_def)
    moreover have "map (\<lambda>s. ustr (UStr s)) required_scopes = required_scopes" by (simp add: ustr_def)
    moreover have "filter (\<lambda>s. s \<notin> set required_scopes) (sort required_scopes) = []" by (simp add: filter_empty_conv)
    ultimately show ?thesis by (simp add: check_scopes_def wit_manifest_def Let_def comp_def)
  qed
  moreover have "canonical_asset_path wit_env (Some (UStr (uni ''s''))) what = Inr (uni ''s'')" for what
    by (simp add: canonical_asset_path_def posix_canonical_def ord_of_def) (simp add: uni_simps ord_of_def)
  then have "check_assets wit_env wit_manifest = Inr [(uni ''s'', replicate 64 48)]"
    by (simp add: check_assets_def wit_manifest_def optional_path_def pget_def sha256_text_def udigit_def Let_def)
  moreover have "check_identity wit_env wit_manifest (uni ''fictional_original'') = Inr ()" "transcript_ok wit_env wit_manifest"
    by (simp_all add: check_identity_def transcript_ok_def pget_def wit_manifest_def)
  ultimately show ?thesis
    by (simp add: manifest_body_def) (simp add: wit_manifest_def strict_string_def ord_of_def)
qed


lemma wit_loads:
  obtains g where "load_persona wit_env wit_fs Written 50 (uni ''ada'') wit_registry
    = (Inr g, wit_registry\<lparr>pr_states := [(uni ''c1'',
        \<lparr>cs_revision = 1, cs_digest = replicate 64 48, cs_persona = uni ''ada'', cs_withdrawn = False\<rparr>)]\<rparr>)"
proof -
  have v: "validate_manifest wit_env Written 50 wit_manifest (uni ''ada'') (replicate 64 48) wit_registry
      = (Inr (1, uni ''c1'', uni ''ada'', [(uni ''s'', replicate 64 48)]), wit_registry)"
    by (simp add: validate_manifest_def wit_header wit_signed check_active_def) (simp add: wit_registry_def wit_body)
  have "capture_asset wit_env wit_fs [uni ''ada''] (uni ''s'') (replicate 64 48) max_skill_bytes = Inr ([uni ''ada'', uni ''s''], [65, 100, 97])"
    by (simp add: capture_asset_def safe_child_def wit_fs_def wit_env_def max_skill_bytes_def Let_def uni_simps ord_of_def)
  moreover have "utf8_decode [65, 100, 97] = Some [65, 100, 97]" by simp
  ultimately obtain g where b: "build_grant wit_env wit_fs wit_registry (uni ''ada'') [uni ''ada''] wit_manifest 1 (uni ''c1'') (replicate 64 48)
      [(uni ''s'', replicate 64 48)] = Inr g"
    by (simp add: build_grant_def wit_manifest_def ustr_def optional_asset_def pget_def Let_def)
  have c: "commit_active wit_env Written (uni ''c1'') 1 (replicate 64 48) (uni ''ada'') wit_registry
      = (Inr (), wit_registry\<lparr>pr_states := [(uni ''c1'',
        \<lparr>cs_revision = 1, cs_digest = replicate 64 48, cs_persona = uni ''ada'', cs_withdrawn = False\<rparr>)]\<rparr>)"
    by (simp add: commit_active_def check_active_def store_entry_def persist_state_def wit_registry_def)
  have "pe_sha256 wit_env wit_bytes = replicate 64 48" by (simp add: wit_env_def)
  then show thesis
    using that [of g] by (simp add: load_persona_def wit_opens v b c persona_letter_def ord_of_def)
qed

lemma grant_backed_by_consent_witness:
  "\<exists>k signed. utf8_encode (pr_key wit_registry) = Some k \<and> canonical_signed_json wit_env wit_manifest = Inr signed
     \<and> uget ''hmac_sha256'' wit_manifest = Some (UStr (pe_hmac wit_env k signed))"
proof -
  obtain g r' where l: "load_persona wit_env wit_fs Written 50 (uni ''ada'') wit_registry = (Inr g, r')"
    by (rule wit_loads)
  show ?thesis
    using grant_backed_by_consent [OF l] wit_opens by auto
qed


definition wit_withdrawn :: persona_registry where
  "wit_withdrawn = wit_registry\<lparr>pr_persistent := True, pr_states := [(uni ''c1'',
     \<lparr>cs_revision = 2, cs_digest = replicate 64 48, cs_persona = uni ''ada'', cs_withdrawn = True\<rparr>)]\<rparr>"

lemma withdrawal_final_witness:
  "\<not> (\<exists>g. fst (load_persona wit_env wit_fs Written 50 (uni ''ada'') wit_withdrawn) = Inr g \<and> pg_consent_id g = Some (uni ''c1''))"
  using withdrawal_final [of wit_env wit_withdrawn wit_withdrawn "uni ''c1''"]
  by (auto simp: wit_withdrawn_def consents_def)

lemma wit_hmac [simp]: "pe_hmac wit_env k m = replicate 64 48"
  by (simp add: wit_env_def)

lemma wit_encodes:
  obtains k bs where "strong_key (replicate 32 107) = Inr k" "encode_state wit_env k (pr_states wit_withdrawn) = Inr bs"
proof -
  define p where "p = state_payload (pr_states wit_withdrawn)"
  have p: "filter (\<lambda>(k, v). k \<noteq> uni ''hmac_sha256'') p = p" "ascii_json (UObj p)"
    by (simp_all add: p_def state_payload_def state_entry_def wit_withdrawn_def ord_of_def)
  have signed: "canonical_signed_json wit_env p = Inr (map byte_of (dumps_sorted (pe_float wit_env) (UObj p)))"
    using utf8_ascii [OF jprint_ascii [OF ascii_sorted [OF p(2)]]] p(1) by (simp add: canonical_signed_json_def dumps_sorted_def)
  define t where "t = jpretty (pe_float wit_env) 0 (UObj (p @ [(uni ''hmac_sha256'', UStr (replicate 64 48))]))"
  have t: "length t \<le> 2000 \<and> list_all (\<lambda>c. c < 128) t"
    by (simp add: t_def p_def state_payload_def state_entry_def wit_withdrawn_def new_line_def int_digits_def dec_digits.simps
        safe_char_def ord_of_def)
  have "utf8_encode (t @ [10]) = Some (map byte_of (t @ [10]))" by (rule utf8_ascii) (simp add: t)
  then have "encode_state wit_env k (pr_states wit_withdrawn) = Inr (map byte_of (t @ [10]))" for k
    using t unfolding encode_state_def p_def [symmetric] signed sbind_simps Let_def wit_hmac t_def [symmetric]
    by (simp add: max_state_bytes_def)
  moreover have "utf8_encode (replicate 32 107) = Some (map byte_of (replicate 32 107))"
    by (rule utf8_ascii) simp
  then have "strong_key (replicate 32 107) = Inr (map byte_of (replicate 32 107))"
    by (simp add: strong_key_def)
  ultimately show thesis using that by simp
qed

lemma wit_persists: obtains r' where "persist_state wit_env Written wit_withdrawn = (Inr (), r')"
proof -
  obtain k bs where "strong_key (replicate 32 107) = Inr k" "encode_state wit_env k (pr_states wit_withdrawn) = Inr bs"
    by (rule wit_encodes)
  moreover have "pr_persistent wit_withdrawn" "pr_key wit_withdrawn = replicate 32 107"
    by (simp_all add: wit_withdrawn_def wit_registry_def)
  ultimately show thesis using that by (simp add: persist_state_def)
qed

lemma consents_survive_restart_witness:
  "\<exists>r' r2. persist_state wit_env Written wit_withdrawn = (Inr (), r')
     \<and> open_registry wit_env 2 [] (replicate 32 107) False True (pr_disk r') = Inr r2 \<and> consents r2 = consents r'"
proof -
  obtain r' where p: "persist_state wit_env Written wit_withdrawn = (Inr (), r')" by (rule wit_persists)
  have hex: "sha256_text (replicate 64 48)" by (simp add: sha256_text_def udigit_def)
  have ok: "registry_ok wit_env wit_withdrawn"
    by (simp add: registry_ok_def wit_withdrawn_def entry_ok_def strict_text_def hex ord_of_def persona_letter_def)
  have "\<exists>r2. open_registry wit_env 2 [] (pr_key wit_withdrawn) False True (pr_disk r') = Inr r2 \<and> consents r2 = consents r'
      \<and> registry_ok wit_env r2"
  proof (rule consents_survive_restart [OF ok rtranclp.rtrancl_refl _ p])
    show "list_all (\<lambda>(k, s). cs_revision s < 10 ^ 4300) (pr_states wit_withdrawn)"
      using one_less_power [of "10::int" 4300] power_increasing [of 1 4300 "10::int"]
      by (simp add: wit_withdrawn_def del: power_numeral)
  qed (simp_all add: wit_withdrawn_def wit_env_def hex)
  then show ?thesis using p by (auto simp: wit_withdrawn_def wit_registry_def)
qed

lemma withdrawal_lost_witness:
  "\<exists>r1. record_withdrawal wit_env No_directory (uni ''c1'') 2 (replicate 64 48) (uni ''ada'') (wit_registry\<lparr>pr_persistent := True\<rparr>)
       = (Inl Os_error, r1)
     \<and> record_withdrawal wit_env Written (uni ''c1'') 2 (replicate 64 48) (uni ''ada'') r1 = (Inr (), r1) \<and> pr_disk r1 = None"
proof -
  obtain k bs where bs: "strong_key (replicate 32 107) = Inr k" "encode_state wit_env k (pr_states wit_withdrawn) = Inr bs"
    by (rule wit_encodes)
  have l: "record_withdrawal wit_env No_directory (uni ''c1'') 2 (replicate 64 48) (uni ''ada'') (wit_registry\<lparr>pr_persistent := True\<rparr>)
      = (Inl Os_error, wit_withdrawn)"
    using bs by (simp add: record_withdrawal_def Let_def store_entry_def persist_state_def wit_withdrawn_def wit_registry_def)
  show ?thesis
    using withdrawal_lost [OF l] l by (intro exI [of _ wit_withdrawn]) (simp add: wit_withdrawn_def wit_registry_def)
qed

end
