(* ===== verification/RealtimeTasks.thy ===== *)
theory RealtimeTasks
  imports Prelude
begin

text \<open>
  Coroutines as data. A program looks at the shared state and writes it without interruption until it
  awaits an event; there every other task may run, and the scheduler answers. The combinators are the
  control structures of the language; a weakest precondition, relative to what a task guarantees of
  each of its writes and relies on of the others, follows them; and a locale turns programs that keep
  their contract into an invariant of every interleaving.
\<close>

section \<open>Programs\<close>

datatype ('s, 'e, 'r, 'x, 'a) prog =
  Ret 'a
| Raise 'x
| Look "'s \<Rightarrow> ('s, 'e, 'r, 'x, 'a) prog"
| Put "'s \<Rightarrow> 's" "('s, 'e, 'r, 'x, 'a) prog"
| Await 'e "'r \<Rightarrow> ('s, 'e, 'r, 'x, 'a) prog"

primrec bindp :: "('s, 'e, 'r, 'x, 'a) prog \<Rightarrow> ('a \<Rightarrow> ('s, 'e, 'r, 'x, 'b) prog) \<Rightarrow> ('s, 'e, 'r, 'x, 'b) prog" where
  "bindp (Ret a) k = k a"
| "bindp (Raise x) k = Raise x"
| "bindp (Look f) k = Look (\<lambda>s. bindp (f s) k)"
| "bindp (Put u p) k = Put u (bindp p k)"
| "bindp (Await e c) k = Await e (\<lambda>r. bindp (c r) k)"

definition seqp :: "('s, 'e, 'r, 'x, 'a) prog \<Rightarrow> ('s, 'e, 'r, 'x, 'b) prog \<Rightarrow> ('s, 'e, 'r, 'x, 'b) prog" where
  "seqp p q = bindp p (\<lambda>_. q)"

text \<open>\<open>try: p except x: h x\<close>.\<close>

primrec handlep :: "('s, 'e, 'r, 'x, 'a) prog \<Rightarrow> ('x \<Rightarrow> ('s, 'e, 'r, 'x, 'a) prog) \<Rightarrow> ('s, 'e, 'r, 'x, 'a) prog" where
  "handlep (Ret a) h = Ret a"
| "handlep (Raise x) h = h x"
| "handlep (Look f) h = Look (\<lambda>s. handlep (f s) h)"
| "handlep (Put u p) h = Put u (handlep p h)"
| "handlep (Await e c) h = Await e (\<lambda>r. handlep (c r) h)"

text \<open>\<open>try: p finally: q\<close>.\<close>

primrec finallyp :: "('s, 'e, 'r, 'x, 'a) prog \<Rightarrow> ('s, 'e, 'r, 'x, unit) prog \<Rightarrow> ('s, 'e, 'r, 'x, 'a) prog" where
  "finallyp (Ret a) q = bindp q (\<lambda>_. Ret a)"
| "finallyp (Raise x) q = bindp q (\<lambda>_. Raise x)"
| "finallyp (Look f) q = Look (\<lambda>s. finallyp (f s) q)"
| "finallyp (Put u p) q = Put u (finallyp p q)"
| "finallyp (Await e c) q = Await e (\<lambda>r. finallyp (c r) q)"

text \<open>Running a program up to its end or its next await.\<close>

primrec advance :: "('s, 'e, 'r, 'x, 'a) prog \<Rightarrow> 's \<Rightarrow> ('s, 'e, 'r, 'x, 'a) prog \<times> 's" where
  "advance (Ret a) = (\<lambda>s. (Ret a, s))"
| "advance (Raise x) = (\<lambda>s. (Raise x, s))"
| "advance (Look f) = (\<lambda>s. advance (f s) s)"
| "advance (Put u p) = (\<lambda>s. advance p (u s))"
| "advance (Await e c) = (\<lambda>s. (Await e c, s))"

section \<open>Weakest preconditions\<close>

primrec wlp ::
    "('s \<Rightarrow> 's \<Rightarrow> bool) \<Rightarrow> ('s \<Rightarrow> 's \<Rightarrow> bool) \<Rightarrow> ('e \<Rightarrow> 'r \<Rightarrow> 's \<Rightarrow> bool) \<Rightarrow> ('s, 'e, 'r, 'x, 'a) prog
      \<Rightarrow> ('a \<Rightarrow> 's \<Rightarrow> bool) \<Rightarrow> ('x \<Rightarrow> 's \<Rightarrow> bool) \<Rightarrow> 's \<Rightarrow> bool" where
  "wlp guar rely answers (Ret a) = (\<lambda>Q E s. Q a s)"
| "wlp guar rely answers (Raise x) = (\<lambda>Q E s. E x s)"
| "wlp guar rely answers (Look f) = (\<lambda>Q E s. wlp guar rely answers (f s) Q E s)"
| "wlp guar rely answers (Put u p) = (\<lambda>Q E s. guar s (u s) \<and> wlp guar rely answers p Q E (u s))"
| "wlp guar rely answers (Await e c) =
     (\<lambda>Q E s. \<forall>r s'. rely s s' \<longrightarrow> answers e r s' \<longrightarrow> wlp guar rely answers (c r) Q E s')"

lemma wlp_bindp: "wlp g r a (bindp p k) Q E s = wlp g r a p (\<lambda>x. wlp g r a (k x) Q E) E s"
  by (induction p arbitrary: s) simp_all

lemma wlp_seqp: "wlp g r a (seqp p q) Q E s = wlp g r a p (\<lambda>_. wlp g r a q Q E) E s"
  by (simp add: seqp_def wlp_bindp)

lemma wlp_handlep: "wlp g r a (handlep p h) Q E s = wlp g r a p Q (\<lambda>x. wlp g r a (h x) Q E) s"
  by (induction p arbitrary: s) simp_all

lemma wlp_finallyp: "wlp g r a (finallyp p q) Q E s =
    wlp g r a p (\<lambda>x. wlp g r a q (\<lambda>_. Q x) E) (\<lambda>x. wlp g r a q (\<lambda>_. E x) E) s"
  by (induction p arbitrary: s) (simp_all add: wlp_bindp)

lemmas wlp_simps = wlp_bindp wlp_seqp wlp_handlep wlp_finallyp

lemma wlp_mono:
  "wlp g r a p Q E s \<Longrightarrow> (\<And>x s. Q x s \<Longrightarrow> Q' x s) \<Longrightarrow> (\<And>x s. E x s \<Longrightarrow> E' x s) \<Longrightarrow> wlp g r a p Q' E' s"
  by (induction p arbitrary: s) auto

lemma advance_stops:
  "advance p s = (q, s') \<Longrightarrow> (\<exists>x. q = Ret x) \<or> (\<exists>x. q = Raise x) \<or> (\<exists>e c. q = Await e c)"
proof (induction p arbitrary: s)
  case (Look f)
  then show ?case by (metis advance.simps(3) rangeI)
qed auto

lemma advance_wlp:
  "wlp g r a p Q E s \<Longrightarrow> advance p s = (q, s') \<Longrightarrow> g\<^sup>*\<^sup>* s s' \<and> wlp g r a q Q E s'"
proof (induction p arbitrary: s)
  case (Put u p)
  then have "g s (u s)" "wlp g r a p Q E (u s)" "advance p (u s) = (q, s')" by simp_all
  then show ?case using Put.IH [of "u s"] by (meson converse_rtranclp_into_rtranclp)
next
  case (Look f)
  then show ?case by (metis advance.simps(3) rangeI wlp.simps(3))
qed auto

section \<open>Undisturbed runs\<close>

text \<open>A program run alone, every await answered at once by the given answers.\<close>

primrec runp :: "('e \<Rightarrow> 'r) \<Rightarrow> ('s, 'e, 'r, 'x, 'a) prog \<Rightarrow> 's \<Rightarrow> ('x + 'a) \<times> 's" where
  "runp ans (Ret a) = (\<lambda>s. (Inr a, s))"
| "runp ans (Raise x) = (\<lambda>s. (Inl x, s))"
| "runp ans (Look f) = (\<lambda>s. runp ans (f s) s)"
| "runp ans (Put u p) = (\<lambda>s. runp ans p (u s))"
| "runp ans (Await e c) = (\<lambda>s. runp ans (c (ans e)) s)"

lemma runp_bindp: "runp ans (bindp p k) s = (case runp ans p s of (Inl x, s') \<Rightarrow> (Inl x, s') | (Inr a, s') \<Rightarrow> runp ans (k a) s')"
  by (induction p arbitrary: s) simp_all

lemma runp_seqp: "runp ans (seqp p q) s = (case runp ans p s of (Inl x, s') \<Rightarrow> (Inl x, s') | (Inr a, s') \<Rightarrow> runp ans q s')"
  by (simp add: seqp_def runp_bindp)

lemma runp_handlep: "runp ans (handlep p h) s = (case runp ans p s of (Inl x, s') \<Rightarrow> runp ans (h x) s' | (Inr a, s') \<Rightarrow> (Inr a, s'))"
  by (induction p arbitrary: s) simp_all

lemma runp_finallyp: "runp ans (finallyp p q) s =
    (case runp ans p s of (r, s') \<Rightarrow> (case runp ans q s' of (Inl x, s'') \<Rightarrow> (Inl x, s'') | (Inr _, s'') \<Rightarrow> (r, s'')))"
  by (induction p arbitrary: s) (simp_all add: runp_bindp split: sum.split prod.split)

section \<open>Tasks\<close>

text \<open>The tasks of a system, each at its await, beside the shared state.\<close>

type_synonym ('t, 's, 'e, 'r, 'x) tasks = "'s \<times> ('t \<rightharpoonup> ('s, 'e, 'r, 'x, unit) prog)"

text \<open>Where a task has got to: it waits again, or it has ended and the state is told.\<close>

definition settle ::
    "('t \<Rightarrow> 'x option \<Rightarrow> 's \<Rightarrow> 's) \<Rightarrow> 't \<Rightarrow> ('s, 'e, 'r, 'x, unit) prog \<Rightarrow> ('t, 's, 'e, 'r, 'x) tasks \<Rightarrow> ('t, 's, 'e, 'r, 'x) tasks" where
  "settle finish t p c =
     (case p of
        Ret _ \<Rightarrow> (finish t None (fst c), (snd c)(t := None))
      | Raise x \<Rightarrow> (finish t (Some x) (fst c), (snd c)(t := None))
      | _ \<Rightarrow> (fst c, (snd c)(t \<mapsto> p)))"

inductive tasks_step ::
    "('t \<Rightarrow> 'e \<Rightarrow> 'r \<Rightarrow> 's \<Rightarrow> bool) \<Rightarrow> ('t \<Rightarrow> 'x option \<Rightarrow> 's \<Rightarrow> 's) \<Rightarrow> ('t \<Rightarrow> 's \<Rightarrow> ('s, 'e, 'r, 'x, unit) prog \<Rightarrow> bool)
      \<Rightarrow> ('s \<Rightarrow> 's \<Rightarrow> bool) \<Rightarrow> ('t, 's, 'e, 'r, 'x) tasks \<Rightarrow> ('t, 's, 'e, 'r, 'x) tasks \<Rightarrow> bool"
  for answers finish start outside where
  resume: "T t = Some (Await e c) \<Longrightarrow> answers t e r s \<Longrightarrow> advance (c r) s = (p, s')
    \<Longrightarrow> tasks_step answers finish start outside (s, T) (settle finish t p (s', T))"
| spawn: "T t = None \<Longrightarrow> start t s p \<Longrightarrow> advance p s = (p', s')
    \<Longrightarrow> tasks_step answers finish start outside (s, T) (settle finish t p' (s', T))"
| world: "outside s s' \<Longrightarrow> tasks_step answers finish start outside (s, T) (s', T)"

text \<open>
  The contract of a system of tasks: what a task guarantees of each write is what every other task
  relies on, and it keeps the invariant; a task that does not run is over, which the others do not change; the
  programs that are started satisfy their precondition, and the end of a task and the outside world are
  writes of the same kind.
\<close>

locale task_system =
  fixes answers :: "'t \<Rightarrow> 'e \<Rightarrow> 'r \<Rightarrow> 's \<Rightarrow> bool"
    and finish :: "'t \<Rightarrow> 'x option \<Rightarrow> 's \<Rightarrow> 's"
    and start :: "'t \<Rightarrow> 's \<Rightarrow> ('s, 'e, 'r, 'x, unit) prog \<Rightarrow> bool"
    and outside :: "'s \<Rightarrow> 's \<Rightarrow> bool"
    and guar :: "'t \<Rightarrow> 's \<Rightarrow> 's \<Rightarrow> bool"
    and rely :: "'t \<Rightarrow> 's \<Rightarrow> 's \<Rightarrow> bool"
    and over :: "'t \<Rightarrow> 's \<Rightarrow> bool"
    and inv :: "'s \<Rightarrow> bool"
  assumes rely_refl: "inv s \<Longrightarrow> rely t s s"
    and rely_trans: "rely t s s' \<Longrightarrow> rely t s' s'' \<Longrightarrow> rely t s s''"
    and guar_rely: "guar t s s' \<Longrightarrow> inv s \<Longrightarrow> t \<noteq> u \<Longrightarrow> rely u s s'"
    and guar_inv: "guar t s s' \<Longrightarrow> inv s \<Longrightarrow> inv s'"
    and finish_guar: "over t s \<Longrightarrow> inv s \<Longrightarrow> guar t s (finish t x s)"
    and outside_rely: "outside s s' \<Longrightarrow> inv s \<Longrightarrow> rely t s s' \<and> inv s'"
    and over_rely: "over t s \<Longrightarrow> rely t s s' \<Longrightarrow> over t s'"
    and over_finish: "over t s \<Longrightarrow> over t (finish t x s)"
    and start_wlp: "start t s p \<Longrightarrow> inv s \<Longrightarrow> over t s \<Longrightarrow> wlp (guar t) (rely t) (answers t) p (\<lambda>_. over t) (\<lambda>_. over t) s"
begin

definition waits :: "'t \<Rightarrow> 's \<Rightarrow> ('s, 'e, 'r, 'x, unit) prog \<Rightarrow> bool" where
  "waits t s p \<longleftrightarrow> (\<exists>e c. p = Await e c) \<and> wlp (guar t) (rely t) (answers t) p (\<lambda>_. over t) (\<lambda>_. over t) s"

text \<open>Where a task stands: it is over, or it waits.\<close>

definition stands :: "'t \<Rightarrow> 's \<Rightarrow> ('s, 'e, 'r, 'x, unit) prog option \<Rightarrow> bool" where
  "stands t s r \<longleftrightarrow> (case r of None \<Rightarrow> over t s | Some p \<Rightarrow> waits t s p)"

definition tasks_ok :: "('t, 's, 'e, 'r, 'x) tasks \<Rightarrow> bool" where
  "tasks_ok c \<longleftrightarrow> inv (fst c) \<and> (\<forall>t. stands t (fst c) (snd c t))"

text \<open>One step of the state: some task writes, or the outside world moves.\<close>

definition moves :: "'s \<Rightarrow> 's \<Rightarrow> bool" where
  "moves s s' \<longleftrightarrow> (\<exists>t. guar t s s') \<or> outside s s'"

lemma waits_rely: "waits t s p \<Longrightarrow> rely t s s' \<Longrightarrow> waits t s' p"
  unfolding waits_def by (elim conjE exE) (simp, blast intro: rely_trans)

lemma stands_rely: "stands t s r \<Longrightarrow> rely t s s' \<Longrightarrow> stands t s' r"
  by (auto simp: stands_def intro: over_rely waits_rely split: option.splits)

lemma stands_simps [simp]: "stands t s None = over t s" "stands t s (Some p) = waits t s p"
  by (simp_all add: stands_def)

lemma guars: "(guar t)\<^sup>*\<^sup>* s s' \<Longrightarrow> inv s \<Longrightarrow> inv s' \<and> moves\<^sup>*\<^sup>* s s' \<and> (t \<noteq> u \<longrightarrow> rely u s s')"
proof (induction rule: rtranclp_induct)
  case (step s' s'')
  then have "inv s'" "moves\<^sup>*\<^sup>* s s'" "t \<noteq> u \<longrightarrow> rely u s s'" by simp_all
  moreover have "moves s' s''" using step(2) by (auto simp: moves_def)
  ultimately show ?case
    using guar_inv [OF step(2)] guar_rely [OF step(2)] by (auto intro: rely_trans)
qed (simp add: rely_refl)

lemma settled:
  assumes "tasks_ok (s, T)" "wlp (guar t) (rely t) (answers t) p (\<lambda>_. over t) (\<lambda>_. over t) s" "advance p s = (q, s')"
  shows "tasks_ok (settle finish t q (s', T)) \<and> moves\<^sup>*\<^sup>* s (fst (settle finish t q (s', T)))"
proof -
  have inv: "inv s" and T: "\<And>u. stands u s (T u)" using assms(1) by (simp_all add: tasks_ok_def)
  have g: "(guar t)\<^sup>*\<^sup>* s s'" and w: "wlp (guar t) (rely t) (answers t) q (\<lambda>_. over t) (\<lambda>_. over t) s'"
    using advance_wlp [OF assms(2,3)] by simp_all
  have inv': "inv s'" "moves\<^sup>*\<^sup>* s s'" and others: "\<And>u. t \<noteq> u \<Longrightarrow> rely u s s'" using guars [OF g inv] by simp_all
  have ended: "tasks_ok (finish t x s', T(t := None)) \<and> moves\<^sup>*\<^sup>* s (finish t x s')" if o: "over t s'" for x
  proof -
    have f: "guar t s' (finish t x s')" by (rule finish_guar [OF o inv'(1)])
    then have "moves s' (finish t x s')" by (auto simp: moves_def)
    with inv'(2) have m: "moves\<^sup>*\<^sup>* s (finish t x s')" by simp
    have "rely u s (finish t x s')" if "t \<noteq> u" for u
      using guar_rely [OF f inv'(1) that] others [OF that] rely_trans by blast
    then have "stands u (finish t x s') (T u)" if "u \<noteq> t" for u using T stands_rely that by metis
    then show ?thesis using m guar_inv [OF f inv'(1)] over_finish [OF o] by (simp add: tasks_ok_def)
  qed
  consider (e) v where "q = Ret v" | (x) v where "q = Raise v" | (a) e c where "q = Await e c"
    using advance_stops [OF assms(3)] by blast
  then show ?thesis
  proof cases
    case a
    then have "waits t s' q" using w by (simp add: waits_def)
    moreover have "stands u s' (T u)" if "u \<noteq> t" for u using T others stands_rely that by metis
    ultimately show ?thesis using a inv' by (simp add: settle_def tasks_ok_def)
  qed (use w ended in \<open>simp_all add: settle_def\<close>)
qed

lemma tasks_ok_step:
  assumes "tasks_step answers finish start outside c c'" "tasks_ok c"
  shows "tasks_ok c' \<and> moves\<^sup>*\<^sup>* (fst c) (fst c')"
  using assms(1)
proof cases
  case (resume T t e k r s p s')
  have "stands t s (T t)" "inv s" using assms(2) resume(1) by (simp_all add: tasks_ok_def)
  then have "waits t s (Await e k)" "inv s" using resume(3) by simp_all
  then have "wlp (guar t) (rely t) (answers t) (k r) (\<lambda>_. over t) (\<lambda>_. over t) s"
    using resume(4) rely_refl by (auto simp: waits_def)
  with resume assms(2) settled show ?thesis by simp
next
  case (spawn T t s p p' s')
  have "wlp (guar t) (rely t) (answers t) p (\<lambda>_. over t) (\<lambda>_. over t) s"
    using start_wlp [OF spawn(4)] assms(2) spawn(1,3) stands_simps(1) by (metis fst_conv snd_conv tasks_ok_def)
  with spawn assms(2) settled show ?thesis by simp
next
  case (world s s' T)
  then have "moves s s'" by (simp add: moves_def)
  moreover have i: "inv s" and T: "\<And>t. stands t s (T t)" using assms(2) world(1) by (auto simp: tasks_ok_def)
  moreover have "inv s'" "\<And>t. stands t s' (T t)"
    using outside_rely [OF world(3) i] T stands_rely by blast+
  ultimately show ?thesis using world by (simp add: tasks_ok_def)
qed

lemma tasks_ok_steps:
  "(tasks_step answers finish start outside)\<^sup>*\<^sup>* c c' \<Longrightarrow> tasks_ok c \<Longrightarrow> tasks_ok c' \<and> moves\<^sup>*\<^sup>* (fst c) (fst c')"
proof (induction rule: rtranclp_induct)
  case (step c' c'')
  then show ?case using tasks_ok_step [OF step(2)] by (meson rtranclp_trans)
qed simp

text \<open>A system that starts without tasks keeps the invariant, and its state moves by the guarantees.\<close>

lemma runs_safely:
  "(tasks_step answers finish start outside)\<^sup>*\<^sup>* (s, Map.empty) c \<Longrightarrow> inv s \<Longrightarrow> (\<And>t. over t s)
    \<Longrightarrow> inv (fst c) \<and> moves\<^sup>*\<^sup>* s (fst c)"
  using tasks_ok_steps [of "(s, Map.empty)" c] by (simp add: tasks_ok_def)

end

end
