(* ===== verification/RealtimeSession.thy ===== *)
theory RealtimeSession
  imports RealtimeTasks RealtimePersona
begin

text \<open>
  The turn engine of the realtime service (\<^verbatim>\<open>services/realtime/src/echoweave/pipeline.py\<close>, with the
  data of \<^verbatim>\<open>contracts.py\<close>): the class \<^verbatim>\<open>RealtimeSession\<close>, its client operations, the response task and
  the speech worker, as coroutines over the state of the session. Every await of the code is an await
  of the model, answered by the scheduler: with a result, a timeout, a failure of the adapter or a
  cancellation. Taking a free lock is one more await, so the model allows more interleavings than the
  event loop. What the adapters stream is given with the task that reads it, as the list of what each
  read gives. The log of the model is of the calls of the two callbacks that hand messages over; what a
  callback, or an adapter call that was abandoned, does later is not modelled, so that only tasks of the
  session itself are retired. Metrics and log records are left out, and so are the fields that only
  report measured latencies and the references of internal errors.
\<close>

section \<open>Data\<close>

datatype session_state = S_ready | S_listening | S_user_speaking | S_transcribing | S_thinking | S_speaking | S_closed

record audio_frame =
  af_pcm :: "byte list"
  af_sample_rate :: int
  af_channels :: int
  af_codec :: utext
  af_pts_ms :: int

record avatar_segment =
  as_kind :: utext
  as_index :: int
  as_url :: "utext option"
  as_data :: "byte list option"
  as_mime_type :: utext
  as_duration_ms :: int
  as_metadata :: ujson

record persona_profile =
  pp_persona_id :: utext
  pp_display_name :: utext
  pp_system_prompt :: utext
  pp_disclosure :: utext
  pp_fictional :: bool
  pp_image :: "path option"
  pp_voice :: "path option"
  pp_image_data :: "byte list option"
  pp_image_name :: "utext option"
  pp_voice_data :: "byte list option"
  pp_voice_name :: "utext option"
  pp_transcript :: "utext option"
  pp_consent_id :: "utext option"

text \<open>\<open>PersonaGrant.as_profile\<close>.\<close>

definition as_profile :: "persona_grant \<Rightarrow> persona_profile" where
  "as_profile g =
     \<lparr>pp_persona_id = pg_persona_id g, pp_display_name = pg_display_name g, pp_system_prompt = pg_system_prompt g,
      pp_disclosure = pg_disclosure g, pp_fictional = pg_fictional g, pp_image = pg_image g, pp_voice = pg_voice g,
      pp_image_data = pg_image_data g, pp_image_name = pg_image_name g, pp_voice_data = pg_voice_data g,
      pp_voice_name = pg_voice_name g, pp_transcript = pg_transcript g, pp_consent_id = pg_consent_id g\<rparr>"

definition allowed_transitions :: "session_state \<Rightarrow> session_state list" where
  "allowed_transitions s =
     (case s of
        S_ready \<Rightarrow> [S_listening, S_closed]
      | S_listening \<Rightarrow> [S_listening, S_user_speaking, S_transcribing, S_thinking, S_closed]
      | S_user_speaking \<Rightarrow> [S_user_speaking, S_listening, S_transcribing, S_thinking, S_closed]
      | S_transcribing \<Rightarrow> [S_transcribing, S_listening, S_user_speaking, S_thinking, S_closed]
      | S_thinking \<Rightarrow> [S_thinking, S_listening, S_user_speaking, S_speaking, S_closed]
      | S_speaking \<Rightarrow> [S_speaking, S_listening, S_user_speaking, S_transcribing, S_thinking, S_closed]
      | S_closed \<Rightarrow> [S_closed])"

text \<open>Exceptions: the four classes of the module, cancellation, and every other one.\<close>

datatype session_fault = Stage_timeout string | Slow_consumer | Response_limit | Authorization_failure | Cancelled | Other_error

text \<open>What is handed to the client: the JSON messages by their type, and media packets.\<close>

datatype outbound =
  M_ready utext utext utext utext bool
| M_state session_state nat
| M_error string string nat
| M_internal_error string nat
| M_vad_level rat
| M_speech_started
| M_speech_ended
| M_asr_final nat utext "utext option"
| M_delta nat nat utext
| M_final nat nat utext
| M_turn_metrics nat nat nat
| M_turn_cancelled nat nat
| M_playout_clear string nat
| M_playout_fallback
| M_degraded string string
| M_tts_format nat nat int int utext
| M_tts_browser nat nat utext
| M_phrase_end nat nat utext
| M_segment nat nat avatar_segment
| M_sync_begin nat nat int int utext
| Packet "byte list"

datatype task = Client nat | Background nat

datatype lock = Turn_lock | State_lock | Adapter_lock

datatype task_status = Not_started | Running | Finished | Was_cancelled | Failed session_fault

text \<open>Tasks of the session that were created and have not been run yet: a text turn, an audio turn, the
  speech worker of a turn and the shutdown. A turn has its number, its generation and its deadline;
  its cancellation event is named by its number, since each turn creates one.\<close>

datatype job =
  J_text nat nat utext rat
| J_audio nat nat "byte list" rat
| J_speech nat nat rat
| J_close

record session_config =
  sc_session_id :: utext
  sc_persona :: persona_profile
  sc_sample_rate :: nat
  sc_max_utterance_seconds :: nat
  sc_max_text_chars :: nat
  sc_max_turns :: nat
  sc_queue_size :: nat
  sc_max_response_chars :: nat
  sc_authorized :: bool
  sc_check_interval :: rat
  sc_end_to_end :: rat
  sc_asr :: rat
  sc_first_token :: rat
  sc_idle :: rat
  sc_backpressure :: rat
  sc_tts :: rat
  sc_avatar :: rat
  sc_emit :: rat
  sc_cancellation :: rat
  sc_adapter_close :: rat
  sc_browser_fallback :: bool
  sc_synchronized :: bool
  sc_closable_adapters :: bool

text \<open>An entry of the log: what was handed over, the generation it was guarded by, and the generation
  and the state of the session at that moment. The last two fields of the session are the outside
  world: whether the authorization check would pass, and the clock.\<close>

record log_entry =
  le_out :: outbound
  le_guard :: "nat option"
  le_generation :: nat
  le_state :: session_state

record session =
  se_state :: session_state
  se_turn :: nat
  se_generation :: nat
  se_event :: nat
  se_set_events :: "nat list"
  se_speech_active :: bool
  se_utterance :: "byte list"
  se_pre_roll :: "byte list list"
  se_response :: "nat option"
  se_history :: "(string \<times> utext) list"
  se_last_check :: rat
  se_locks :: "lock \<Rightarrow> task option"
  se_queue :: "nat \<Rightarrow> utext option list"
  se_next_task :: nat
  se_jobs :: "(nat \<times> job) list"
  se_status :: "nat \<Rightarrow> task_status"
  se_requests :: "nat list"
  se_retired :: "nat list"
  se_shutdown :: "nat option"
  se_adapters_closed :: bool
  se_log :: "log_entry list"
  se_permitted :: bool
  se_now :: rat

text \<open>\<open>__init__\<close>: the limits are positive, and the interval of the authorization check not negative.\<close>

definition positive_limits :: "session_config \<Rightarrow> bool" where
  "positive_limits c \<longleftrightarrow>
     list_all (\<lambda>n. 0 < n) [sc_sample_rate c, sc_max_utterance_seconds c, sc_max_text_chars c, sc_max_turns c, sc_queue_size c,
       sc_max_response_chars c]
     \<and> list_all (\<lambda>t. 0 < t) [sc_end_to_end c, sc_asr c, sc_first_token c, sc_idle c, sc_backpressure c, sc_tts c, sc_avatar c,
       sc_emit c, sc_cancellation c, sc_adapter_close c]
     \<and> 0 \<le> sc_check_interval c"

definition new_session :: "session_config \<Rightarrow> bool \<Rightarrow> rat \<Rightarrow> session option" where
  "new_session c permitted now =
     (if \<not> positive_limits c then None
      else Some \<lparr>se_state = S_ready, se_turn = 0, se_generation = 0, se_event = 0, se_set_events = [], se_speech_active = False,
        se_utterance = [], se_pre_roll = [], se_response = None, se_history = [(''system'', pp_system_prompt (sc_persona c))],
        se_last_check = 0, se_locks = (\<lambda>_. None), se_queue = (\<lambda>_. []), se_next_task = 0, se_jobs = [],
        se_status = (\<lambda>_. Not_started), se_requests = [], se_retired = [], se_shutdown = None, se_adapters_closed = False,
        se_log = [], se_permitted = permitted, se_now = now\<rparr>)"

definition max_utterance_bytes :: "session_config \<Rightarrow> nat" where
  "max_utterance_bytes c = sc_sample_rate c * 2 * sc_max_utterance_seconds c"

definition max_phrase_audio :: nat where "max_phrase_audio = 16 * 1024 * 1024"

definition is_current :: "nat \<Rightarrow> nat \<Rightarrow> session \<Rightarrow> bool" where
  "is_current generation event s \<longleftrightarrow>
     se_state s \<noteq> S_closed \<and> generation = se_generation s \<and> event \<notin> set (se_set_events s)"

section \<open>Awaits\<close>

text \<open>What a task awaits, with the time it gives it, and how the scheduler can answer.\<close>

datatype event =
  E_send outbound rat
| E_lock lock
| E_vad "byte list"
| E_asr "byte list" rat
| E_next string rat
| E_put nat "utext option" rat
| E_get nat
| E_wait nat "rat option"
| E_wait_all "nat list" rat
| E_close_iterator string
| E_close_adapters rat

datatype answer = A_ok | A_timeout | A_failed | A_cancelled | A_over | A_decision rat bool bool | A_text utext "utext option"

type_synonym 'a sprog = "(session, event, answer, session_fault, 'a) prog"

definition over_status :: "task_status \<Rightarrow> bool" where
  "over_status st \<longleftrightarrow> st \<noteq> Not_started \<and> st \<noteq> Running"

text \<open>Which answers are possible. A lock is given when it is free, an item is put when the queue has
  room, a wait for a task succeeds when it is over; a task of the session is cancelled only on request,
  an operation of the client whenever its connection breaks.\<close>

definition answers :: "session_config \<Rightarrow> task \<Rightarrow> event \<Rightarrow> answer \<Rightarrow> session \<Rightarrow> bool" where
  "answers c t e a s =
     (if a = A_cancelled then (case t of Client n \<Rightarrow> True | Background n \<Rightarrow> n \<in> set (se_requests s))
      else case e of
        E_lock l \<Rightarrow> a = A_ok \<and> se_locks s l = None
      | E_vad bs \<Rightarrow> a = A_failed \<or> (\<exists>p b f. a = A_decision p b f)
      | E_asr bs d \<Rightarrow> a \<in> {A_timeout, A_failed} \<or> (\<exists>x l. a = A_text x l)
      | E_next stage d \<Rightarrow> a \<in> {A_ok, A_timeout}
      | E_put w item d \<Rightarrow> a = A_ok \<and> length (se_queue s w) < sc_queue_size c \<or> a = A_over \<and> over_status (se_status s w) \<or> a = A_timeout
      | E_get w \<Rightarrow> a = A_ok \<and> se_queue s w \<noteq> []
      | E_wait n d \<Rightarrow> a = A_ok \<and> over_status (se_status s n) \<or> a = A_timeout \<and> d \<noteq> None
      | E_wait_all ns d \<Rightarrow> a = A_ok \<and> list_all (\<lambda>n. over_status (se_status s n)) ns \<or> a = A_timeout
      | E_send m d \<Rightarrow> a \<in> {A_ok, A_timeout, A_failed}
      | E_close_iterator stage \<Rightarrow> a \<in> {A_ok, A_timeout, A_failed}
      | E_close_adapters d \<Rightarrow> a \<in> {A_ok, A_timeout})"

section \<open>Helpers\<close>

definition drop_request :: "task \<Rightarrow> session \<Rightarrow> session" where
  "drop_request me s = (case me of Client n \<Rightarrow> s | Background n \<Rightarrow> s\<lparr>se_requests := removeAll n (se_requests s)\<rparr>)"

text \<open>An await; a cancellation is raised there.\<close>

definition awaitp :: "task \<Rightarrow> event \<Rightarrow> (answer \<Rightarrow> 'a sprog) \<Rightarrow> 'a sprog" where
  "awaitp me e k = Await e (\<lambda>a. if a = A_cancelled then Put (drop_request me) (Raise Cancelled) else k a)"

definition acquire_lock :: "lock \<Rightarrow> task \<Rightarrow> session \<Rightarrow> session" where
  "acquire_lock l me s = s\<lparr>se_locks := (se_locks s)(l := Some me)\<rparr>"

definition release_lock :: "lock \<Rightarrow> session \<Rightarrow> session" where
  "release_lock l s = s\<lparr>se_locks := (se_locks s)(l := None)\<rparr>"

text \<open>\<open>async with lock: p\<close>.\<close>

definition with_lock :: "lock \<Rightarrow> task \<Rightarrow> 'a sprog \<Rightarrow> 'a sprog" where
  "with_lock l me p = awaitp me (E_lock l) (\<lambda>_. Put (acquire_lock l me) (finallyp p (Put (release_lock l) (Ret ()))))"

text \<open>\<open>_stage_timeout\<close>.\<close>

definition stage_timeout :: "rat \<Rightarrow> rat option \<Rightarrow> string \<Rightarrow> rat sprog" where
  "stage_timeout deadline cap stage =
     Look (\<lambda>s. let remaining = deadline - se_now s in
       if remaining \<le> 0 then Raise (Stage_timeout stage)
       else Ret (case cap of None \<Rightarrow> remaining | Some t \<Rightarrow> min remaining t))"

definition log_out :: "nat option \<Rightarrow> outbound \<Rightarrow> session \<Rightarrow> session" where
  "log_out guard m s =
     s\<lparr>se_log := se_log s @ [\<lparr>le_out = m, le_guard = guard, le_generation = se_generation s, le_state = se_state s\<rparr>]\<rparr>"

text \<open>\<open>_emit_json\<close> and \<open>_emit_binary\<close>: a guarded message is dropped unless its generation is current; a
  client that does not take the message in time is too slow.\<close>

definition guarded :: "(nat \<times> nat) option \<Rightarrow> session \<Rightarrow> bool" where
  "guarded guard s = (case guard of None \<Rightarrow> True | Some (generation, event) \<Rightarrow> is_current generation event s)"

definition emit :: "session_config \<Rightarrow> task \<Rightarrow> rat option \<Rightarrow> (nat \<times> nat) option \<Rightarrow> outbound \<Rightarrow> bool sprog" where
  "emit c me deadline guard m =
     Look (\<lambda>s. if \<not> guarded guard s then Ret False
       else bindp (case deadline of None \<Rightarrow> Ret (sc_emit c)
                   | Some d \<Rightarrow> stage_timeout d (Some (sc_emit c))
                       (case m of Packet b \<Rightarrow> ''outbound_binary'' | _ \<Rightarrow> ''outbound_json'')) (\<lambda>timeout.
         Put (log_out (map_option fst guard) m)
           (awaitp me (E_send m timeout) (\<lambda>a. if a = A_timeout then Raise Slow_consumer
              else if a = A_failed then Raise Other_error else Ret True))))"

definition set_state :: "session_config \<Rightarrow> task \<Rightarrow> session_state \<Rightarrow> nat option \<Rightarrow> (nat \<times> nat) option \<Rightarrow> bool sprog" where
  "set_state c me st turn guard =
     with_lock State_lock me (Look (\<lambda>s.
       if \<not> guarded guard s then Ret False
       else if se_state s = S_closed \<and> st \<noteq> S_closed then Ret False
       else if st \<notin> set (allowed_transitions (se_state s)) then Raise Other_error
       else Put (\<lambda>s. s\<lparr>se_state := st\<rparr>)
         (emit c me None guard (M_state st (case turn of Some t \<Rightarrow> t | None \<Rightarrow> se_turn s)))))"

definition report_error :: "session_config \<Rightarrow> task \<Rightarrow> string \<Rightarrow> string \<Rightarrow> nat option \<Rightarrow> rat option \<Rightarrow> bool sprog" where
  "report_error c me code message turn deadline =
     Look (\<lambda>s. emit c me deadline None (M_error code message (case turn of Some t \<Rightarrow> t | None \<Rightarrow> se_turn s)))"

definition internal_error :: "session_config \<Rightarrow> task \<Rightarrow> string \<Rightarrow> nat option \<Rightarrow> bool sprog" where
  "internal_error c me code turn =
     Look (\<lambda>s. emit c me None None (M_internal_error code (case turn of Some t \<Rightarrow> t | None \<Rightarrow> se_turn s)))"

text \<open>\<open>_authorize\<close>.\<close>

definition authorize :: "session_config \<Rightarrow> bool \<Rightarrow> unit sprog" where
  "authorize c force =
     Look (\<lambda>s. if \<not> sc_authorized c \<or> (\<not> force \<and> se_now s - se_last_check s < sc_check_interval c) then Ret ()
       else if \<not> se_permitted s then Raise Authorization_failure
       else Put (\<lambda>t. t\<lparr>se_last_check := se_now s\<rparr>) (Ret ()))"

definition retire :: "nat \<Rightarrow> session \<Rightarrow> session" where
  "retire n s = (if over_status (se_status s n) then s else s\<lparr>se_retired := n # se_retired s\<rparr>)"

definition request_cancel :: "nat \<Rightarrow> session \<Rightarrow> session" where
  "request_cancel n s = s\<lparr>se_requests := n # se_requests s\<rparr>"

definition create_task :: "job \<Rightarrow> nat sprog" where
  "create_task j =
     Look (\<lambda>s. Put (\<lambda>s. s\<lparr>se_next_task := Suc (se_next_task s), se_jobs := se_jobs s @ [(se_next_task s, j)]\<rparr>)
       (Ret (se_next_task s)))"

text \<open>\<open>_stop_task\<close> and \<open>_await_existing_task\<close>.\<close>

definition stop_task :: "session_config \<Rightarrow> task \<Rightarrow> nat \<Rightarrow> unit sprog" where
  "stop_task c me n =
     Look (\<lambda>s. if over_status (se_status s n) then Ret ()
       else Put (request_cancel n)
         (Await (E_wait n (Some (sc_cancellation c))) (\<lambda>a.
            if a = A_cancelled then Put (retire n) (Put (drop_request me) (Raise Cancelled))
            else if a = A_timeout then Put (retire n) (Ret ()) else Ret ())))"

definition task_result :: "nat \<Rightarrow> unit sprog" where
  "task_result n =
     Look (\<lambda>s. case se_status s n of Failed x \<Rightarrow> Raise x | Was_cancelled \<Rightarrow> Raise Cancelled | _ \<Rightarrow> Ret ())"

definition await_existing :: "task \<Rightarrow> nat \<Rightarrow> rat \<Rightarrow> string \<Rightarrow> unit sprog" where
  "await_existing me n timeout stage =
     awaitp me (E_wait n (Some timeout)) (\<lambda>a.
       if a = A_timeout then Put (request_cancel n) (Put (retire n) (Raise (Stage_timeout stage))) else task_result n)"

text \<open>\<open>_close_async_iterator\<close>: a failure to close is logged; an iterator that was never opened is closed
  at once.\<close>

definition close_iterator :: "task \<Rightarrow> string \<Rightarrow> unit sprog" where
  "close_iterator me stage = awaitp me (E_close_iterator stage) (\<lambda>_. Ret ())"

section \<open>Ending a generation\<close>

text \<open>\<open>_cancel_active_locked\<close>.\<close>

definition invalidate :: "session \<Rightarrow> session" where
  "invalidate s =
     s\<lparr>se_set_events := se_event s # se_set_events s,
       se_generation := (if 0 < se_generation s \<or> se_response s \<noteq> None then Suc (se_generation s) else se_generation s),
       se_response := None\<rparr>"

definition cancel_active :: "session_config \<Rightarrow> task \<Rightarrow> string \<Rightarrow> unit sprog" where
  "cancel_active c me reason =
     Look (\<lambda>s0. Put invalidate
       (bindp
         (case se_response s0 of
            None \<Rightarrow> Ret False
          | Some n \<Rightarrow>
              if over_status (se_status s0 n) \<or> me = Background n then Ret False
              else Put (request_cancel n)
                (Await (E_wait n (Some (sc_cancellation c))) (\<lambda>a.
                   if a = A_cancelled then Put (retire n) (Put (drop_request me) (Raise Cancelled))
                   else if a = A_timeout then Put (retire n) (Ret True) else Ret False)))
         (\<lambda>timed_out.
         seqp (if 0 < se_generation s0 \<or> se_response s0 \<noteq> None
               then seqp (emit c me None None (M_playout_clear reason (se_generation s0))) (Ret ()) else Ret ())
              (if timed_out then seqp (emit c me None None (M_degraded ''turn_cancel'' ''generation_quarantine'')) (Ret ())
               else Ret ()))))"

text \<open>\<open>if self._response_task is asyncio.current_task(): self._response_task = None\<close>.\<close>

definition end_generation :: "task \<Rightarrow> nat \<Rightarrow> session \<Rightarrow> session" where
  "end_generation me event s =
     s\<lparr>se_set_events := event # se_set_events s, se_generation := Suc (se_generation s),
       se_response := (case se_response s of Some n \<Rightarrow> if me = Background n then None else Some n | None \<Rightarrow> None)\<rparr>"

definition abort_generation ::
    "session_config \<Rightarrow> task \<Rightarrow> nat \<Rightarrow> nat \<Rightarrow> string \<Rightarrow> string \<Rightarrow> string \<Rightarrow> nat \<Rightarrow> unit sprog" where
  "abort_generation c me generation event reason code message turn =
     with_lock Turn_lock me (Look (\<lambda>s.
       if \<not> is_current generation event s then Ret ()
       else Put (end_generation me event)
         (seqp (emit c me None None (M_playout_clear reason generation))
         (seqp (report_error c me code message (Some turn) None)
         (Look (\<lambda>s. if se_state s \<noteq> S_closed then seqp (set_state c me S_listening (Some turn) None) (Ret ()) else Ret ()))))))"

definition handle_authorization_failure :: "session_config \<Rightarrow> task \<Rightarrow> nat \<Rightarrow> nat \<Rightarrow> nat \<Rightarrow> unit sprog" where
  "handle_authorization_failure c me turn generation event =
     abort_generation c me generation event ''authorization_revoked'' ''authorization_revoked''
       ''persona authorization is no longer valid'' turn"

definition handle_stage_timeout :: "session_config \<Rightarrow> task \<Rightarrow> string \<Rightarrow> nat \<Rightarrow> nat \<Rightarrow> nat \<Rightarrow> unit sprog" where
  "handle_stage_timeout c me stage turn generation event =
     abort_generation c me generation event ''latency_budget_exceeded'' ''latency_budget_exceeded''
       (''realtime stage exceeded its latency budget: '' @ stage) turn"

definition quarantine_slow_consumer :: "session_config \<Rightarrow> task \<Rightarrow> nat \<Rightarrow> nat \<Rightarrow> unit sprog" where
  "quarantine_slow_consumer c me generation event =
     with_lock Turn_lock me (Look (\<lambda>s.
       if generation \<noteq> se_generation s then Ret ()
       else Put (end_generation me event)
         (with_lock State_lock me (Put (\<lambda>s. s\<lparr>se_state := S_closed\<rparr>) (Ret ())))))"

section \<open>Speaking a phrase\<close>

text \<open>What a read of a stream gives: an item, or an exception (an item of the wrong type is one).\<close>

datatype 'a item = Item 'a | Broken

text \<open>\<open>_emit_binary(pack_packet(...))\<close>.\<close>

definition emit_packet ::
    "session_config \<Rightarrow> task \<Rightarrow> rat \<Rightarrow> (nat \<times> nat) \<Rightarrow> packet_kind \<Rightarrow> nat \<Rightarrow> int \<Rightarrow> byte list \<Rightarrow> unit sprog" where
  "emit_packet c me deadline guard kind turn pts payload =
     (case pack_packet kind (int turn) pts payload of
        Inl e \<Rightarrow> Raise Other_error
      | Inr bs \<Rightarrow> seqp (emit c me (Some deadline) (Some guard) (Packet bs)) (Ret ()))"

fun emit_frames :: "session_config \<Rightarrow> task \<Rightarrow> rat \<Rightarrow> (nat \<times> nat) \<Rightarrow> nat \<Rightarrow> audio_frame list \<Rightarrow> unit sprog" where
  "emit_frames c me deadline guard turn [] = Ret ()"
| "emit_frames c me deadline guard turn (f # fs) =
     seqp (emit_packet c me deadline guard Tts_pcm16 turn (af_pts_ms f) (af_pcm f)) (emit_frames c me deadline guard turn fs)"

text \<open>How the audio of a phrase ends: the turn is over, the adapter failed, or all frames were read.\<close>

datatype tts_end = Tts_stopped | Tts_failed | Tts_done "audio_frame list"

definition frame_ok :: "audio_frame \<Rightarrow> bool" where
  "frame_ok f \<longleftrightarrow> af_pcm f \<noteq> [] \<and> 0 < af_sample_rate f \<and> 0 < af_channels f \<and> 0 \<le> af_pts_ms f"

definition phrase_audio :: "audio_frame list \<Rightarrow> byte list" where
  "phrase_audio fs = concat (map af_pcm fs)"

fun read_frames ::
    "session_config \<Rightarrow> task \<Rightarrow> nat \<Rightarrow> nat \<Rightarrow> rat \<Rightarrow> rat \<Rightarrow> audio_frame item list \<Rightarrow> bool \<Rightarrow> audio_frame list \<Rightarrow> tts_end sprog" where
  "read_frames c me turn generation deadline phrase_deadline script sent frames =
     bindp (stage_timeout phrase_deadline None ''tts'') (\<lambda>timeout.
     awaitp me (E_next ''tts'' timeout) (\<lambda>a.
       if a = A_timeout then Raise (Stage_timeout ''tts'')
       else case script of
         [] \<Rightarrow> Ret (Tts_done frames)
       | i # rest \<Rightarrow>
           (case i of
              Broken \<Rightarrow> Raise Other_error
            | Item f \<Rightarrow>
                Look (\<lambda>s. if \<not> is_current generation turn s then Ret Tts_stopped
                  else seqp (authorize c False)
                    (if \<not> frame_ok f then Raise Other_error
                     else seqp (if sent then Ret ()
                                else seqp (emit c me (Some deadline) (Some (generation, turn))
                                  (M_tts_format turn generation (af_sample_rate f) (af_channels f) (af_codec f))) (Ret ()))
                       (if max_phrase_audio < length (phrase_audio (frames @ [f])) then Raise Other_error
                        else seqp (if sc_synchronized c then Ret ()
                               else emit_packet c me deadline (generation, turn) Tts_pcm16 turn (af_pts_ms f) (af_pcm f))
                          (read_frames c me turn generation deadline phrase_deadline rest True (frames @ [f]))))))))"

declare read_frames.simps [simp del]

definition synthesize_phrase ::
    "session_config \<Rightarrow> task \<Rightarrow> nat \<Rightarrow> nat \<Rightarrow> rat \<Rightarrow> utext \<Rightarrow> audio_frame item list \<Rightarrow> tts_end sprog" where
  "synthesize_phrase c me turn generation deadline phrase script =
     (let send = (\<lambda>m. emit c me (Some deadline) (Some (generation, turn)) m) in
      finallyp
        (bindp
          (handlep
            (Look (\<lambda>s. read_frames c me turn generation deadline (min deadline (se_now s + sc_tts c)) script False []))
            (\<lambda>x. if x \<noteq> Other_error then Raise x
                else seqp (send M_playout_fallback) (seqp (send (M_degraded ''tts'' ''browser_speech''))
                  (seqp (send (M_tts_browser turn generation phrase)) (Ret Tts_failed)))))
          (\<lambda>r. case r of
             Tts_done frames \<Rightarrow>
               if sc_browser_fallback c then seqp (send (M_tts_browser turn generation phrase)) (Ret r) else Ret r
           | _ \<Rightarrow> Ret r))
        (close_iterator me ''tts''))"

text \<open>The frames are sent once a segment with data comes; \<open>None\<close> when playback is not synchronized.\<close>

definition send_segment ::
    "session_config \<Rightarrow> task \<Rightarrow> nat \<Rightarrow> nat \<Rightarrow> rat \<Rightarrow> audio_frame list option \<Rightarrow> bool \<Rightarrow> int \<Rightarrow> avatar_segment \<Rightarrow> bool sprog" where
  "send_segment c me turn generation deadline frames started pts segment =
     seqp (emit c me (Some deadline) (Some (generation, turn)) (M_segment turn generation segment))
     (case as_data segment of
        None \<Rightarrow> Ret False
      | Some [] \<Rightarrow> Ret False
      | Some bs \<Rightarrow>
          seqp (case frames of
                  None \<Rightarrow> Ret ()
                | Some fs \<Rightarrow>
                    if started then Ret ()
                    else if fs = [] then Raise Other_error
                    else seqp (emit c me (Some deadline) (Some (generation, turn))
                           (M_sync_begin turn generation (af_sample_rate (hd fs)) (af_channels (hd fs)) (af_codec (hd fs))))
                         (emit_frames c me deadline (generation, turn) turn fs))
          (seqp (emit_packet c me deadline (generation, turn) Video_fragment turn pts bs) (Ret True)))"

text \<open>A failure of the avatar returns whether synchronized media had started by then.\<close>

definition avatar_failed :: "session_config \<Rightarrow> task \<Rightarrow> nat \<Rightarrow> nat \<Rightarrow> rat \<Rightarrow> bool \<Rightarrow> session_fault \<Rightarrow> (bool + bool) sprog" where
  "avatar_failed c me turn generation deadline started x =
     (if x \<in> {Authorization_failure, Slow_consumer, Cancelled} then Raise x
      else seqp (emit c me (Some deadline) (Some (generation, turn)) (M_degraded ''avatar'' ''static_avatar'')) (Ret (Inl started)))"

text \<open>One round of the loop: \<open>Inl\<close> is its result, \<open>Inr\<close> says whether the segment carried data.\<close>

definition read_segment ::
    "session_config \<Rightarrow> task \<Rightarrow> nat \<Rightarrow> nat \<Rightarrow> rat \<Rightarrow> rat \<Rightarrow> audio_frame list option \<Rightarrow> bool \<Rightarrow> int
      \<Rightarrow> avatar_segment item option \<Rightarrow> (bool + bool) sprog" where
  "read_segment c me turn generation deadline phrase_deadline frames started pts i =
     handlep
       (bindp (stage_timeout phrase_deadline None ''avatar'') (\<lambda>timeout.
        awaitp me (E_next ''avatar'' timeout) (\<lambda>a.
          if a = A_timeout then Raise (Stage_timeout ''avatar'')
          else case i of
            None \<Rightarrow> Ret (Inl (started \<or> frames = None))
          | Some Broken \<Rightarrow> Raise Other_error
          | Some (Item segment) \<Rightarrow>
              Look (\<lambda>s. if \<not> is_current generation turn s then Ret (Inl False)
                else seqp (authorize c False)
                  (bindp (send_segment c me turn generation deadline frames started pts segment) (\<lambda>data. Ret (Inr data)))))))
       (avatar_failed c me turn generation deadline started)"

fun read_segments ::
    "session_config \<Rightarrow> task \<Rightarrow> nat \<Rightarrow> nat \<Rightarrow> rat \<Rightarrow> rat \<Rightarrow> audio_frame list option \<Rightarrow> bool \<Rightarrow> int
      \<Rightarrow> avatar_segment item list \<Rightarrow> bool sprog" where
  "read_segments c me turn generation deadline phrase_deadline frames started pts [] =
     bindp (read_segment c me turn generation deadline phrase_deadline frames started pts None) (\<lambda>r.
       case r of Inl b \<Rightarrow> Ret b | Inr data \<Rightarrow> Ret started)"
| "read_segments c me turn generation deadline phrase_deadline frames started pts (i # rest) =
     bindp (read_segment c me turn generation deadline phrase_deadline frames started pts (Some i)) (\<lambda>r.
       case r of
         Inl b \<Rightarrow> Ret b
       | Inr data \<Rightarrow>
           read_segments c me turn generation deadline phrase_deadline frames (started \<or> data)
             (case i of Item segment \<Rightarrow> if data then pts + max 0 (as_duration_ms segment) else pts | Broken \<Rightarrow> pts) rest)"

definition animate_phrase ::
    "session_config \<Rightarrow> task \<Rightarrow> nat \<Rightarrow> nat \<Rightarrow> rat \<Rightarrow> audio_frame list option \<Rightarrow> avatar_segment item list \<Rightarrow> bool sprog" where
  "animate_phrase c me turn generation deadline frames script =
     finallyp
       (bindp (handlep (seqp (authorize c False) (Ret (Inr False))) (avatar_failed c me turn generation deadline False)) (\<lambda>r.
          case r of
            Inl b \<Rightarrow> Ret b
          | Inr data \<Rightarrow>
              Look (\<lambda>s. read_segments c me turn generation deadline (min deadline (se_now s + sc_avatar c)) frames False 0 script)))
       (close_iterator me ''avatar'')"

text \<open>The end of a phrase, once its audio was read.\<close>

definition speak_rest ::
    "session_config \<Rightarrow> task \<Rightarrow> nat \<Rightarrow> nat \<Rightarrow> rat \<Rightarrow> utext \<Rightarrow> avatar_segment item list \<Rightarrow> tts_end \<Rightarrow> unit sprog" where
  "speak_rest c me turn generation deadline phrase script r =
     (if r = Tts_stopped then Ret () else
      Look (\<lambda>s. if \<not> is_current generation turn s then Ret () else
        seqp (emit c me (Some deadline) (Some (generation, turn)) (M_phrase_end turn generation phrase))
        (case r of
           Tts_done frames \<Rightarrow>
             bindp (animate_phrase c me turn generation deadline (if sc_synchronized c then Some frames else None) script)
               (\<lambda>started. Look (\<lambda>s.
                 if sc_synchronized c \<and> \<not> started \<and> is_current generation turn s
                 then emit_frames c me deadline (generation, turn) turn frames else Ret ()))
         | _ \<Rightarrow> Ret ())))"

text \<open>\<open>_speak_phrase\<close>, with what the speech and the avatar adapter stream for this phrase.\<close>

definition speak_phrase ::
    "session_config \<Rightarrow> task \<Rightarrow> nat \<Rightarrow> nat \<Rightarrow> rat \<Rightarrow> utext \<Rightarrow> audio_frame item list \<times> avatar_segment item list \<Rightarrow> unit sprog" where
  "speak_phrase c me turn generation deadline phrase scripts =
     Look (\<lambda>s. if \<not> is_current generation turn s then Ret () else
       seqp (authorize c False)
       (bindp (set_state c me S_speaking (Some turn) (Some (generation, turn))) (\<lambda>ok. if \<not> ok then Ret () else
        bindp (synthesize_phrase c me turn generation deadline phrase (fst scripts)) (\<lambda>r.
          speak_rest c me turn generation deadline phrase (snd scripts) r))))"

definition queue_pop :: "nat \<Rightarrow> session \<Rightarrow> session" where
  "queue_pop w s = s\<lparr>se_queue := (se_queue s)(w := tl (se_queue s w))\<rparr>"

text \<open>\<open>_speech_worker\<close>, for as many phrases as there are scripts; a worker without a script waits.\<close>

fun speech_worker ::
    "session_config \<Rightarrow> nat \<Rightarrow> nat \<Rightarrow> nat \<Rightarrow> rat \<Rightarrow> (audio_frame item list \<times> avatar_segment item list) list \<Rightarrow> unit sprog" where
  "speech_worker c w turn generation deadline scripts =
     Look (\<lambda>s. if \<not> is_current generation turn s then Ret () else
       awaitp (Background w) (E_get w) (\<lambda>_. Look (\<lambda>s. Put (queue_pop w)
         (case hd (se_queue s w) of
            None \<Rightarrow> Ret ()
          | Some phrase \<Rightarrow>
              (case scripts of
                 [] \<Rightarrow> awaitp (Background w) (E_wait w None) (\<lambda>_. Ret ())
               | script # rest \<Rightarrow>
                   seqp (speak_phrase c (Background w) turn generation deadline phrase script)
                     (speech_worker c w turn generation deadline rest))))))"

declare speech_worker.simps [simp del]

section \<open>Answering\<close>

text \<open>\<open>_queue_speech\<close>; \<open>None\<close> ends the queue.\<close>

definition queue_push :: "nat \<Rightarrow> utext option \<Rightarrow> session \<Rightarrow> session" where
  "queue_push w item s = s\<lparr>se_queue := (se_queue s)(w := se_queue s w @ [item])\<rparr>"

definition queue_speech :: "session_config \<Rightarrow> task \<Rightarrow> nat \<Rightarrow> nat \<Rightarrow> nat \<Rightarrow> rat \<Rightarrow> utext option \<Rightarrow> unit sprog" where
  "queue_speech c me w turn generation deadline item =
     Look (\<lambda>s. if \<not> is_current generation turn s then Ret () else
       bindp (stage_timeout deadline (Some (sc_backpressure c)) ''speech_backpressure'') (\<lambda>timeout.
       awaitp me (E_put w item timeout) (\<lambda>a.
         if a = A_over
         then seqp (task_result w) (Raise Other_error)
         else if a = A_ok then Put (queue_push w item) (Ret ())
         else Raise (Stage_timeout ''speech_backpressure''))))"

fun queue_phrases :: "session_config \<Rightarrow> task \<Rightarrow> nat \<Rightarrow> nat \<Rightarrow> nat \<Rightarrow> rat \<Rightarrow> utext list \<Rightarrow> unit sprog" where
  "queue_phrases c me w turn generation deadline [] = Ret ()"
| "queue_phrases c me w turn generation deadline (p # ps) =
     seqp (queue_speech c me w turn generation deadline (Some p)) (queue_phrases c me w turn generation deadline ps)"

definition default_chunker :: chunker where
  "default_chunker = \<lparr>ck_min = 8, ck_max = 48, ck_buffer = []\<rparr>"

text \<open>The loop over the model's answer; \<open>None\<close> when the turn is over before its end.\<close>

fun stream_answer ::
    "session_config \<Rightarrow> task \<Rightarrow> nat \<Rightarrow> nat \<Rightarrow> nat \<Rightarrow> rat \<Rightarrow> utext item list \<Rightarrow> bool \<Rightarrow> utext \<Rightarrow> chunker
      \<Rightarrow> (utext \<times> chunker) option sprog" where
  "stream_answer c me w turn generation deadline script first text ck =
     (let stage = (if first then ''llm_first_token'' else ''llm_stream'') in
      bindp (stage_timeout deadline (Some (if first then sc_first_token c else sc_idle c)) stage) (\<lambda>timeout.
      awaitp me (E_next stage timeout) (\<lambda>a.
        if a = A_timeout then Raise (Stage_timeout stage)
        else case script of
          [] \<Rightarrow> Ret (Some (text, ck))
        | i # rest \<Rightarrow>
            (case i of
               Broken \<Rightarrow> Raise Other_error
             | Item delta \<Rightarrow>
                 Look (\<lambda>s. if \<not> is_current generation turn s then Ret None
                   else seqp (authorize c False)
                     (if delta = [] then stream_answer c me w turn generation deadline rest first text ck
                      else if sc_max_response_chars c < length text + length delta then Raise Response_limit
                      else seqp (emit c me (Some deadline) (Some (generation, turn)) (M_delta turn generation delta))
                        (case push_delta delta ck of (ready, ck') \<Rightarrow>
                           seqp (queue_phrases c me w turn generation deadline ready)
                             (stream_answer c me w turn generation deadline rest False (text @ delta) ck'))))))))"

declare stream_answer.simps [simp del]

definition keep_history :: "utext \<Rightarrow> session \<Rightarrow> session" where
  "keep_history answer s =
     (let h = se_history s @ [(''assistant'', answer)] in
      s\<lparr>se_history := hd h # drop (length (tl h) - 12) (tl h)\<rparr>)"

text \<open>What follows the last delta.\<close>

definition finish_answer ::
    "session_config \<Rightarrow> task \<Rightarrow> nat \<Rightarrow> nat \<Rightarrow> nat \<Rightarrow> rat \<Rightarrow> utext \<Rightarrow> chunker \<Rightarrow> unit sprog" where
  "finish_answer c me w turn generation deadline text ck =
     (let tail = fst (flush_chunker ck); answer = uni_strip text; send = emit c me (Some deadline) (Some (generation, turn)) in
      seqp (Look (\<lambda>s. if tail \<noteq> [] \<and> is_current generation turn s
              then queue_speech c me w turn generation deadline (Some tail) else Ret ()))
      (seqp (queue_speech c me w turn generation deadline None)
      (Look (\<lambda>s. if \<not> is_current generation turn s then Ret () else
        Put (keep_history answer)
        (seqp (send (M_final turn generation answer))
        (bindp (stage_timeout deadline None ''end_to_end'') (\<lambda>timeout.
         seqp (await_existing me w timeout ''end_to_end'')
         (Look (\<lambda>s. if \<not> is_current generation turn s then Ret () else
           seqp (send (M_turn_metrics turn generation (sc_queue_size c)))
           (seqp (set_state c me S_listening (Some turn) (Some (generation, turn))) (Ret ())))))))))))"

text \<open>Failures of a turn: a failure of its own is reported, and leads back to listening.\<close>

definition turn_failed :: "session_config \<Rightarrow> task \<Rightarrow> string \<Rightarrow> nat \<Rightarrow> nat \<Rightarrow> unit sprog" where
  "turn_failed c me code turn generation =
     Look (\<lambda>s. if \<not> is_current generation turn s then Ret () else
       handlep
         (seqp (internal_error c me code (Some turn))
           (seqp (set_state c me S_listening (Some turn) (Some (generation, turn))) (Ret ())))
         (\<lambda>x. if x = Slow_consumer then quarantine_slow_consumer c me generation turn else Raise x))"

definition respond_failed :: "session_config \<Rightarrow> task \<Rightarrow> nat \<Rightarrow> nat \<Rightarrow> session_fault \<Rightarrow> unit sprog" where
  "respond_failed c me turn generation x =
     (case x of
        Cancelled \<Rightarrow>
          seqp (handlep (seqp (emit c me None None (M_turn_cancelled turn generation)) (Ret ()))
                 (\<lambda>y. if y = Cancelled then Raise y else Ret ()))
            (Raise Cancelled)
      | Authorization_failure \<Rightarrow> handle_authorization_failure c me turn generation turn
      | Stage_timeout stage \<Rightarrow> handle_stage_timeout c me stage turn generation turn
      | Response_limit \<Rightarrow>
          abort_generation c me generation turn ''response_limit'' ''response_too_long''
            ''assistant response exceeded the configured limit'' turn
      | Slow_consumer \<Rightarrow> quarantine_slow_consumer c me generation turn
      | Other_error \<Rightarrow> turn_failed c me ''generation_failed'' turn generation)"

definition respond :: "session_config \<Rightarrow> task \<Rightarrow> nat \<Rightarrow> nat \<Rightarrow> utext \<Rightarrow> rat \<Rightarrow> utext item list \<Rightarrow> unit sprog" where
  "respond c me turn generation user_text deadline script =
     bindp (create_task (J_speech turn generation deadline)) (\<lambda>w.
     finallyp
       (handlep
         (seqp (authorize c True)
         (Put (\<lambda>s. s\<lparr>se_history := se_history s @ [(''user'', user_text)]\<rparr>)
         (bindp (set_state c me S_thinking (Some turn) (Some (generation, turn))) (\<lambda>ok. if \<not> ok then Ret () else
          bindp (stream_answer c me w turn generation deadline script True [] default_chunker) (\<lambda>r.
            case r of None \<Rightarrow> Ret () | Some (text, ck) \<Rightarrow> finish_answer c me w turn generation deadline text ck)))))
         (respond_failed c me turn generation))
       (seqp (close_iterator me ''llm_stream'') (stop_task c me w)))"

text \<open>\<open>_transcribe_and_respond\<close>.\<close>

definition transcribe_failed :: "session_config \<Rightarrow> task \<Rightarrow> nat \<Rightarrow> nat \<Rightarrow> session_fault \<Rightarrow> unit sprog" where
  "transcribe_failed c me turn generation x =
     (case x of
        Cancelled \<Rightarrow> Raise Cancelled
      | Stage_timeout stage \<Rightarrow> handle_stage_timeout c me stage turn generation turn
      | Slow_consumer \<Rightarrow> quarantine_slow_consumer c me generation turn
      | _ \<Rightarrow> turn_failed c me ''asr_failed'' turn generation)"

definition after_transcript ::
    "session_config \<Rightarrow> task \<Rightarrow> nat \<Rightarrow> nat \<Rightarrow> rat \<Rightarrow> utext item list \<Rightarrow> utext \<Rightarrow> utext option \<Rightarrow> unit sprog" where
  "after_transcript c me turn generation deadline script transcript language =
     Look (\<lambda>s. if \<not> is_current generation turn s then Ret () else
       let text = uni_strip transcript in
       seqp (emit c me (Some deadline) (Some (generation, turn)) (M_asr_final turn text language))
       (if text = []
        then seqp (report_error c me ''empty_transcript'' ''ASR returned no text'' (Some turn) (Some deadline))
               (seqp (set_state c me S_listening (Some turn) (Some (generation, turn))) (Ret ()))
        else respond c me turn generation text deadline script))"

definition transcribe_and_respond ::
    "session_config \<Rightarrow> task \<Rightarrow> nat \<Rightarrow> nat \<Rightarrow> byte list \<Rightarrow> rat \<Rightarrow> utext item list \<Rightarrow> unit sprog" where
  "transcribe_and_respond c me turn generation pcm deadline script =
     handlep
       (bindp (set_state c me S_transcribing (Some turn) (Some (generation, turn))) (\<lambda>ok. if \<not> ok then Ret () else
        bindp (stage_timeout deadline (Some (sc_asr c)) ''asr'') (\<lambda>timeout.
        awaitp me (E_asr pcm timeout) (\<lambda>a.
          case a of
            A_text transcript language \<Rightarrow> after_transcript c me turn generation deadline script transcript language
          | A_timeout \<Rightarrow> Raise (Stage_timeout ''asr'')
          | _ \<Rightarrow> Raise Other_error))))
       (transcribe_failed c me turn generation)"

section \<open>The operations of the client\<close>

definition start_session :: "session_config \<Rightarrow> task \<Rightarrow> unit sprog" where
  "start_session c me =
     with_lock Turn_lock me (Look (\<lambda>s.
       if se_state s = S_closed then Ret ()
       else if se_state s \<noteq> S_ready then Raise Other_error
       else seqp (set_state c me S_listening None None)
         (seqp (emit c me None None (M_ready (sc_session_id c) (pp_persona_id (sc_persona c)) (pp_display_name (sc_persona c))
           (pp_disclosure (sc_persona c)) (pp_fictional (sc_persona c)))) (Ret ()))))"

definition cancel_response :: "session_config \<Rightarrow> task \<Rightarrow> string \<Rightarrow> unit sprog" where
  "cancel_response c me reason =
     with_lock Turn_lock me (Look (\<lambda>s.
       if se_state s = S_closed then Ret ()
       else seqp (cancel_active c me reason)
         (if reason = ''client_cancelled'' then seqp (set_state c me S_listening None None) (Ret ()) else Ret ())))"

definition clear_input :: "session \<Rightarrow> session" where
  "clear_input s = s\<lparr>se_speech_active := False, se_utterance := [], se_pre_roll := []\<rparr>"

definition new_turn :: "session \<Rightarrow> session" where
  "new_turn s =
     s\<lparr>se_turn := Suc (se_turn s), se_generation := Suc (se_generation s), se_event := Suc (se_turn s)\<rparr>"

text \<open>\<open>_begin_turn\<close>: a turn of text, or of audio.\<close>

definition begin_turn :: "session_config \<Rightarrow> task \<Rightarrow> utext + byte list \<Rightarrow> unit sprog" where
  "begin_turn c me input =
     with_lock Turn_lock me (Look (\<lambda>s.
       if se_state s = S_closed then Ret ()
       else if sc_max_turns c \<le> se_turn s
       then seqp (report_error c me ''turn_limit'' ''session turn limit reached'' None None) (Ret ())
       else bindp (handlep (seqp (authorize c True) (Ret True)) (\<lambda>x. if x = Authorization_failure then Ret False else Raise x))
         (\<lambda>ok.
         if \<not> ok
         then seqp (cancel_active c me ''authorization_revoked'')
           (seqp (report_error c me ''authorization_revoked'' ''persona authorization is no longer valid'' None None)
           (seqp (set_state c me S_listening None None) (Ret ())))
         else seqp (cancel_active c me (case input of Inl text \<Rightarrow> ''new_text_turn'' | Inr pcm \<Rightarrow> ''new_audio_turn''))
           (Put (\<lambda>s. case input of Inl text \<Rightarrow> clear_input s | Inr pcm \<Rightarrow> s)
           (Put new_turn
           (Look (\<lambda>s. let deadline = se_now s + sc_end_to_end c in
              bindp (create_task (case input of
                  Inl text \<Rightarrow> J_text (se_turn s) (se_generation s) text deadline
                | Inr pcm \<Rightarrow> J_audio (se_turn s) (se_generation s) pcm deadline)) (\<lambda>n.
              Put (\<lambda>s. s\<lparr>se_response := Some n\<rparr>) (Ret ())))))))))"

definition submit_text :: "session_config \<Rightarrow> task \<Rightarrow> utext \<Rightarrow> unit sprog" where
  "submit_text c me text =
     Look (\<lambda>s.
       if se_state s = S_closed then Ret ()
       else if se_state s = S_ready
       then seqp (report_error c me ''session_not_started'' ''start the session before a turn'' None None) (Ret ())
       else if uni_strip text = [] then Ret ()
       else if sc_max_text_chars c < length (uni_strip text)
       then seqp (report_error c me ''text_too_long'' ''text turn exceeds the configured limit'' None None) (Ret ())
       else begin_turn c me (Inl (uni_strip text)))"

text \<open>\<open>deque(maxlen=8)\<close>.\<close>

definition push_roll :: "byte list \<Rightarrow> session \<Rightarrow> session" where
  "push_roll pcm s =
     (let roll = se_pre_roll s @ [pcm] in s\<lparr>se_pre_roll := drop (length roll - 8) roll\<rparr>)"

text \<open>\<open>ingest_pcm\<close>; what follows the decision of the voice activity detector.\<close>

definition speech_over :: "session_config \<Rightarrow> task \<Rightarrow> bool \<Rightarrow> unit sprog" where
  "speech_over c me ended =
     Look (\<lambda>s. if ended \<and> se_speech_active s
       then Put (\<lambda>s. s\<lparr>se_speech_active := False, se_utterance := []\<rparr>)
         (seqp (emit c me None None M_speech_ended) (begin_turn c me (Inr (se_utterance s))))
       else Ret ())"

definition heard :: "session_config \<Rightarrow> task \<Rightarrow> byte list \<Rightarrow> bool \<Rightarrow> bool \<Rightarrow> unit sprog" where
  "heard c me pcm started ended =
     Look (\<lambda>s.
       if started \<and> \<not> se_speech_active s
       then Put (\<lambda>s. s\<lparr>se_speech_active := True, se_utterance := concat (se_pre_roll s)\<rparr>)
         (seqp (cancel_response c me ''barge_in'')
         (seqp (set_state c me S_user_speaking None None)
         (seqp (emit c me None None M_speech_started) (speech_over c me ended))))
       else if se_speech_active s
       then Put (\<lambda>s. s\<lparr>se_utterance := se_utterance s @ pcm\<rparr>)
         (Look (\<lambda>s. if max_utterance_bytes c < length (se_utterance s)
           then Put (\<lambda>s. s\<lparr>se_speech_active := False, se_utterance := []\<rparr>)
             (seqp (report_error c me ''utterance_too_long'' ''speech exceeded the configured duration limit'' None None)
             (seqp (set_state c me S_listening None None) (Ret ())))
           else speech_over c me ended))
       else speech_over c me ended)"

definition ingest_pcm :: "session_config \<Rightarrow> task \<Rightarrow> byte list \<Rightarrow> nat \<Rightarrow> unit sprog" where
  "ingest_pcm c me pcm rate =
     Look (\<lambda>s.
       if se_state s = S_closed then Ret ()
       else if se_state s = S_ready
       then seqp (report_error c me ''session_not_started'' ''start the session before media'' None None) (Ret ())
       else if rate \<noteq> sc_sample_rate c
       then seqp (report_error c me ''invalid_audio_rate''
              (''expected '' @ nat_text (sc_sample_rate c) @ '' Hz PCM, got '' @ nat_text rate @ '' Hz'') None None) (Ret ())
       else if pcm = [] \<or> odd (length pcm)
       then seqp (report_error c me ''invalid_audio_frame'' ''audio frames must contain an even number of PCM16 bytes'' None None)
         (Ret ())
       else Put (push_roll pcm)
         (awaitp me (E_vad pcm) (\<lambda>a.
           case a of
             A_decision probability started ended \<Rightarrow>
               seqp (emit c me None None (M_vad_level (round_to 4 probability))) (heard c me pcm started ended)
           | _ \<Rightarrow> seqp (internal_error c me ''vad_failed'' None) (seqp (set_state c me S_listening None None) (Ret ())))))"

text \<open>\<open>close\<close>: the shutdown runs once, in a task of its own, which a cancellation does not interrupt.\<close>

definition raise_failure :: "nat \<Rightarrow> unit sprog" where
  "raise_failure n = Look (\<lambda>s. case se_status s n of Failed x \<Rightarrow> Raise x | _ \<Rightarrow> Ret ())"

definition close_session :: "task \<Rightarrow> unit sprog" where
  "close_session me =
     bindp (Look (\<lambda>s. case se_shutdown s of
              Some n \<Rightarrow> Ret n
            | None \<Rightarrow> bindp (create_task J_close) (\<lambda>n. Put (\<lambda>s. s\<lparr>se_shutdown := Some n\<rparr>) (Ret n)))) (\<lambda>n.
     Await (E_wait n None) (\<lambda>a.
       if a = A_cancelled
       then Put (drop_request me) (Await (E_wait n None) (\<lambda>b.
         if b = A_cancelled then Put (drop_request me) (Raise Cancelled)
         else seqp (raise_failure n) (Raise Cancelled)))
       else task_result n))"

text \<open>\<open>_cancel_retired_tasks\<close>, for at most the given number of rounds.\<close>

fun cancel_retired :: "task \<Rightarrow> rat \<Rightarrow> nat \<Rightarrow> unit sprog" where
  "cancel_retired me deadline 0 = Ret ()"
| "cancel_retired me deadline (Suc rounds) =
     Look (\<lambda>s. let tasks = filter (\<lambda>n. \<not> over_status (se_status s n) \<and> me \<noteq> Background n) (se_retired s) in
       if tasks = [] then Ret ()
       else Put (\<lambda>s. s\<lparr>se_requests := tasks @ se_requests s\<rparr>)
         (if deadline - se_now s \<le> 0 then Ret ()
          else awaitp me (E_wait_all tasks (deadline - se_now s)) (\<lambda>a.
            if a = A_timeout then Ret () else cancel_retired me deadline rounds)))"

text \<open>\<open>_close_adapters_once\<close>: the adapters' own methods to close are awaited together.\<close>

definition close_adapters :: "session_config \<Rightarrow> task \<Rightarrow> unit sprog" where
  "close_adapters c me =
     with_lock Adapter_lock me (Look (\<lambda>s.
       if se_adapters_closed s then Ret ()
       else Put (\<lambda>s. s\<lparr>se_adapters_closed := True\<rparr>)
         (if \<not> sc_closable_adapters c then Ret ()
          else awaitp me (E_close_adapters (sc_adapter_close c)) (\<lambda>_. Ret ()))))"

definition close_impl :: "session_config \<Rightarrow> task \<Rightarrow> nat \<Rightarrow> unit sprog" where
  "close_impl c me rounds =
     bindp
       (finallyp
         (handlep
           (with_lock Turn_lock me (Look (\<lambda>s.
             if se_state s = S_closed then Ret None
             else seqp (cancel_active c me ''session_closed'')
               (Put clear_input (seqp (set_state c me S_closed None None) (Ret None))))))
           (\<lambda>x. if x = Cancelled then Raise x
               else Put (\<lambda>s. s\<lparr>se_set_events := se_event s # se_set_events s\<rparr>)
                 (with_lock State_lock me (Put (\<lambda>s. s\<lparr>se_state := S_closed\<rparr>) (Ret (Some x))))))
         (finallyp (Look (\<lambda>s. cancel_retired me (se_now s + sc_cancellation c) rounds)) (close_adapters c me)))
       (\<lambda>primary. case primary of None \<Rightarrow> Ret () | Some x \<Rightarrow> Raise x)"

text \<open>\<open>wait_idle\<close>.\<close>

definition wait_idle :: "task \<Rightarrow> rat \<Rightarrow> unit sprog" where
  "wait_idle me timeout =
     (if timeout \<le> 0 then Raise Other_error
      else Look (\<lambda>s. case se_response s of
          None \<Rightarrow> Ret ()
        | Some n \<Rightarrow>
            seqp (if over_status (se_status s n) then Ret ()
                  else awaitp me (E_wait n (Some timeout)) (\<lambda>a. if a = A_timeout then Raise Other_error else Ret ()))
              (raise_failure n)))"

section \<open>The session as a system of tasks\<close>

text \<open>The operations the server calls.\<close>

datatype operation =
  Op_start | Op_audio "byte list" nat | Op_text utext | Op_cancel | Op_close | Op_wait rat

definition operation_prog :: "session_config \<Rightarrow> task \<Rightarrow> operation \<Rightarrow> unit sprog" where
  "operation_prog c me op =
     (case op of
        Op_start \<Rightarrow> start_session c me
      | Op_audio pcm rate \<Rightarrow> ingest_pcm c me pcm rate
      | Op_text text \<Rightarrow> submit_text c me text
      | Op_cancel \<Rightarrow> cancel_response c me ''client_cancelled''
      | Op_close \<Rightarrow> close_session me
      | Op_wait timeout \<Rightarrow> wait_idle me timeout)"

text \<open>What the adapters will give to a task: the answer of the model, the audio and the video of each
  phrase, and the rounds its clean-up goes through.\<close>

record scripts =
  sr_answer :: "utext item list"
  sr_phrases :: "(audio_frame item list \<times> avatar_segment item list) list"
  sr_rounds :: nat

definition job_prog :: "session_config \<Rightarrow> nat \<Rightarrow> job \<Rightarrow> scripts \<Rightarrow> unit sprog" where
  "job_prog c n j x =
     (case j of
        J_text turn generation text deadline \<Rightarrow> respond c (Background n) turn generation text deadline (sr_answer x)
      | J_audio turn generation pcm deadline \<Rightarrow>
          transcribe_and_respond c (Background n) turn generation pcm deadline (sr_answer x)
      | J_speech turn generation deadline \<Rightarrow> speech_worker c n turn generation deadline (sr_phrases x)
      | J_close \<Rightarrow> close_impl c (Background n) (sr_rounds x))"

definition set_status :: "nat \<Rightarrow> task_status \<Rightarrow> session \<Rightarrow> session" where
  "set_status n st s = s\<lparr>se_status := (se_status s)(n := st)\<rparr>"

text \<open>A task that was cancelled before its first step does not run.\<close>

definition first_step :: "session_config \<Rightarrow> nat \<Rightarrow> job \<Rightarrow> scripts \<Rightarrow> unit sprog" where
  "first_step c n j x =
     Put (set_status n Running) (Look (\<lambda>s.
       if n \<in> set (se_requests s) then Put (drop_request (Background n)) (Raise Cancelled) else job_prog c n j x))"

definition starts :: "session_config \<Rightarrow> task \<Rightarrow> session \<Rightarrow> unit sprog \<Rightarrow> bool" where
  "starts c t s p \<longleftrightarrow>
     (case t of
        Client n \<Rightarrow> \<exists>op. p = operation_prog c t op
      | Background n \<Rightarrow> \<exists>j x. (n, j) \<in> set (se_jobs s) \<and> se_status s n = Not_started \<and> p = first_step c n j x)"

text \<open>The end of a task, with \<open>_response_done\<close> and the callback of a retired task.\<close>

definition ends :: "task \<Rightarrow> session_fault option \<Rightarrow> session \<Rightarrow> session" where
  "ends t x s =
     (case t of
        Client n \<Rightarrow> s
      | Background n \<Rightarrow>
          (set_status n (case x of None \<Rightarrow> Finished | Some Cancelled \<Rightarrow> Was_cancelled | Some y \<Rightarrow> Failed y) s)
            \<lparr>se_response := (if se_response s = Some n then None else se_response s),
             se_retired := removeAll n (se_retired s)\<rparr>)"

definition world_moves :: "session \<Rightarrow> session \<Rightarrow> bool" where
  "world_moves s s' \<longleftrightarrow> (\<exists>permitted now. se_now s \<le> now \<and> s' = s\<lparr>se_permitted := permitted, se_now := now\<rparr>)"

type_synonym session_system = "session \<times> (task \<rightharpoonup> unit sprog)"

abbreviation session_step :: "session_config \<Rightarrow> session_system \<Rightarrow> session_system \<Rightarrow> bool" where
  "session_step c \<equiv> tasks_step (answers c) ends (starts c) world_moves"

end
