(* ===== verification/RealtimeTurns.thy ===== *)
theory RealtimeTurns
  imports RealtimeSession
begin

text \<open>
  What every interleaving of a session keeps: the contract each task relies on and guarantees, the
  rules that carry it through the control structures, and its proof for the operations of
  \<^verbatim>\<open>RealtimeSession\<close>.
\<close>

section \<open>The contract\<close>

definition held :: "task \<Rightarrow> session \<Rightarrow> bool" where
  "held t s \<longleftrightarrow> se_locks s Turn_lock = Some t"

text \<open>The log: generations do not fall along it, a guarded message was handed over while its generation
  was current and the session open, and the generation a message clears was over by then.\<close>

definition entry_ok :: "log_entry \<Rightarrow> bool" where
  "entry_ok e \<longleftrightarrow>
     (case le_guard e of None \<Rightarrow> True | Some g \<Rightarrow> g = le_generation e \<and> le_state e \<noteq> S_closed)
     \<and> (case le_out e of M_playout_clear reason g \<Rightarrow> le_guard e = None \<and> g < le_generation e | _ \<Rightarrow> True)"

definition log_ok :: "session \<Rightarrow> bool" where
  "log_ok s \<longleftrightarrow> sorted (map le_generation (se_log s)) \<and> list_all entry_ok (se_log s)
     \<and> list_all (\<lambda>e. le_generation e \<le> se_generation s) (se_log s)"

definition session_ok :: "session_config \<Rightarrow> session \<Rightarrow> bool" where
  "session_ok c s \<longleftrightarrow> log_ok s \<and> se_turn s \<le> sc_max_turns c \<and> length (se_pre_roll s) \<le> 8
     \<and> se_history s \<noteq> [] \<and> hd (se_history s) = (''system'', pp_system_prompt (sc_persona c))"

definition state_moves :: "session \<Rightarrow> session \<Rightarrow> bool" where
  "state_moves s s' \<longleftrightarrow> se_state s' = se_state s \<or> se_state s' \<in> set (allowed_transitions (se_state s))"

definition guar :: "session_config \<Rightarrow> task \<Rightarrow> session \<Rightarrow> session \<Rightarrow> bool" where
  "guar c t s s' \<longleftrightarrow> (session_ok c s \<longrightarrow> session_ok c s') \<and> state_moves s s' \<and> se_generation s \<le> se_generation s'
     \<and> (\<forall>u. u \<noteq> t \<longrightarrow> held u s = held u s') \<and> (se_turn s' \<noteq> se_turn s \<longrightarrow> held t s)"

definition rely :: "session_config \<Rightarrow> task \<Rightarrow> session \<Rightarrow> session \<Rightarrow> bool" where
  "rely c t s s' \<longleftrightarrow> (session_ok c s \<longrightarrow> session_ok c s') \<and> se_generation s \<le> se_generation s'
     \<and> held t s = held t s' \<and> (held t s \<longrightarrow> se_turn s' = se_turn s)"

text \<open>What a program keeps when it starts with or without the turn lock.\<close>

definition kept :: "session_config \<Rightarrow> task \<Rightarrow> bool \<Rightarrow> session \<Rightarrow> session \<Rightarrow> bool" where
  "kept c t b s s' \<longleftrightarrow> session_ok c s' \<and> held t s' = b \<and> se_generation s \<le> se_generation s'
     \<and> (b \<longrightarrow> se_turn s' = se_turn s)"

abbreviation swlp ::
    "session_config \<Rightarrow> task \<Rightarrow> 'a sprog \<Rightarrow> ('a \<Rightarrow> session \<Rightarrow> bool) \<Rightarrow> (session_fault \<Rightarrow> session \<Rightarrow> bool) \<Rightarrow> session \<Rightarrow> bool" where
  "swlp c t \<equiv> wlp (guar c t) (rely c t) (answers c t)"

definition keeps :: "session_config \<Rightarrow> task \<Rightarrow> bool \<Rightarrow> 'a sprog \<Rightarrow> bool" where
  "keeps c t b p \<longleftrightarrow>
     (\<forall>s. session_ok c s \<and> held t s = b \<longrightarrow> swlp c t p (\<lambda>_. kept c t b s) (\<lambda>_. kept c t b s) s)"

definition quiet :: "session_config \<Rightarrow> task \<Rightarrow> bool \<Rightarrow> (session \<Rightarrow> session) \<Rightarrow> bool" where
  "quiet c t b u \<longleftrightarrow> (\<forall>s. session_ok c s \<and> held t s = b \<longrightarrow> guar c t s (u s) \<and> kept c t b s (u s))"

named_theorems keeps_rules

lemma kept_refl: "session_ok c s \<Longrightarrow> held t s = b \<Longrightarrow> kept c t b s s"
  by (simp add: kept_def)

lemma kept_trans: "kept c t b s s' \<Longrightarrow> kept c t b s' s'' \<Longrightarrow> kept c t b s s''"
  by (auto simp: kept_def)

lemma keptD: "kept c t b s s' \<Longrightarrow> session_ok c s' \<and> held t s' = b"
  by (simp add: kept_def)

lemma turn_keepsD: "keeps c t b p \<Longrightarrow> session_ok c s \<Longrightarrow> held t s = b \<Longrightarrow> swlp c t p (\<lambda>_. kept c t b s) (\<lambda>_. kept c t b s) s"
  by (simp add: keeps_def)

text \<open>From a state the program has come to, back to the one it started in.\<close>

lemma keeps_from:
  "keeps c t b p \<Longrightarrow> kept c t b s s' \<Longrightarrow> swlp c t p (\<lambda>_. kept c t b s) (\<lambda>_. kept c t b s) s'"
  using keptD by (blast intro: wlp_mono turn_keepsD kept_trans)

lemma keeps_Ret [keeps_rules]: "keeps c t b (Ret a)" and keeps_Raise [keeps_rules]: "keeps c t b (Raise x)"
  by (simp_all add: keeps_def kept_refl)

lemma keeps_Look [keeps_rules]: "(\<And>s. keeps c t b (f s)) \<Longrightarrow> keeps c t b (Look f)"
  by (simp add: keeps_def)

lemma keeps_Put [keeps_rules]: "quiet c t b u \<Longrightarrow> keeps c t b p \<Longrightarrow> keeps c t b (Put u p)"
  by (auto simp: keeps_def [of c t b "Put u p"] quiet_def intro: keeps_from)

lemma keeps_Await [keeps_rules]: "(\<And>a. keeps c t b (k a)) \<Longrightarrow> keeps c t b (Await e k)"
  by (auto simp: keeps_def [of c t b "Await e k"] rely_def kept_def intro!: keeps_from)

lemma keeps_bindp [keeps_rules]: "keeps c t b p \<Longrightarrow> (\<And>a. keeps c t b (k a)) \<Longrightarrow> keeps c t b (bindp p k)"
  unfolding keeps_def [of c t b "bindp p k"] wlp_bindp by (blast intro: wlp_mono turn_keepsD keeps_from)

lemma keeps_seqp [keeps_rules]: "keeps c t b p \<Longrightarrow> keeps c t b q \<Longrightarrow> keeps c t b (seqp p q)"
  by (simp add: seqp_def keeps_bindp)

lemma keeps_handlep [keeps_rules]: "keeps c t b p \<Longrightarrow> (\<And>x. keeps c t b (h x)) \<Longrightarrow> keeps c t b (handlep p h)"
  unfolding keeps_def [of c t b "handlep p h"] wlp_handlep by (blast intro: wlp_mono turn_keepsD keeps_from)

lemma keeps_finallyp [keeps_rules]: "keeps c t b p \<Longrightarrow> keeps c t b q \<Longrightarrow> keeps c t b (finallyp p q)"
  unfolding keeps_def [of c t b "finallyp p q"] wlp_finallyp by (blast intro: wlp_mono turn_keepsD keeps_from)

lemma turn_keeps_if [keeps_rules]: "keeps c t b p \<Longrightarrow> keeps c t b q \<Longrightarrow> keeps c t b (if x then p else q)"
  by simp

lemma keeps_option [keeps_rules]:
  "keeps c t b p \<Longrightarrow> (\<And>y. keeps c t b (f y)) \<Longrightarrow> keeps c t b (case x of None \<Rightarrow> p | Some y \<Rightarrow> f y)"
  by (simp split: option.split)

lemma keeps_sum [keeps_rules]:
  "(\<And>y. keeps c t b (f y)) \<Longrightarrow> (\<And>y. keeps c t b (g y)) \<Longrightarrow> keeps c t b (case x of Inl y \<Rightarrow> f y | Inr y \<Rightarrow> g y)"
  by (simp split: sum.split)

lemma keeps_prod [keeps_rules]: "(\<And>y z. keeps c t b (f y z)) \<Longrightarrow> keeps c t b (case x of (y, z) \<Rightarrow> f y z)"
  by (simp split: prod.split)

lemma keeps_list [keeps_rules]:
  "keeps c t b p \<Longrightarrow> (\<And>y z. keeps c t b (f y z)) \<Longrightarrow> keeps c t b (case x of [] \<Rightarrow> p | y # z \<Rightarrow> f y z)"
  by (simp split: list.split)

lemma keeps_item [keeps_rules]:
  "(\<And>y. keeps c t b (f y)) \<Longrightarrow> keeps c t b p \<Longrightarrow> keeps c t b (case x of Item y \<Rightarrow> f y | Broken \<Rightarrow> p)"
  by (simp split: item.split)

text \<open>A write of fields the contract does not speak of.\<close>

lemma quiet_write:
  assumes "\<And>s. se_log (u s) = se_log s" "\<And>s. se_turn (u s) = se_turn s"
    "\<And>s. se_history s \<noteq> [] \<Longrightarrow> se_history (u s) \<noteq> [] \<and> hd (se_history (u s)) = hd (se_history s)"
    "\<And>s. se_state (u s) = se_state s" "\<And>s. se_locks (u s) = se_locks s"
    "\<And>s. se_generation s \<le> se_generation (u s)" "\<And>s. length (se_pre_roll s) \<le> 8 \<Longrightarrow> length (se_pre_roll (u s)) \<le> 8"
  shows "quiet c t b u"
proof -
  have "session_ok c (u s)" if "session_ok c s" for s
    using that assms(7) [of s] order_trans [OF _ assms(6) [of s]]
    by (simp add: session_ok_def log_ok_def assms(1-5)) (simp add: list_all_iff)
  then show ?thesis using assms by (simp add: quiet_def guar_def kept_def state_moves_def held_def)
qed

section \<open>Messages, states and locks\<close>

definition clears :: "outbound \<Rightarrow> nat option" where
  "clears m = (case m of M_playout_clear reason g \<Rightarrow> Some g | _ \<Rightarrow> None)"

lemma log_out_ok:
  assumes "session_ok c s" "guarded guard s" "\<And>g. clears m = Some g \<Longrightarrow> guard = None \<and> g < se_generation s"
  shows "guar c t s (log_out (map_option fst guard) m s) \<and> kept c t (held t s) s (log_out (map_option fst guard) m s)"
proof -
  let ?e = "\<lparr>le_out = m, le_guard = map_option fst guard, le_generation = se_generation s, le_state = se_state s\<rparr>"
  have "entry_ok ?e"
    using assms(2,3) by (auto simp: entry_ok_def guarded_def is_current_def clears_def split: option.splits outbound.splits)
  then have "log_ok (log_out (map_option fst guard) m s)"
    using assms(1) by (auto simp: session_ok_def log_ok_def log_out_def sorted_append list_all_iff)
  then have "session_ok c (log_out (map_option fst guard) m s)"
    using assms(1) by (simp add: session_ok_def log_out_def)
  then show ?thesis
    by (simp add: guar_def kept_def state_moves_def held_def) (simp add: log_out_def)
qed

lemma keeps_awaitp [keeps_rules]: "(\<And>a. keeps c t b (k a)) \<Longrightarrow> keeps c t b (awaitp t e k)"
proof -
  assume k: "\<And>a. keeps c t b (k a)"
  have "quiet c t b (drop_request t)" by (rule quiet_write) (simp_all add: drop_request_def split: task.split)
  then show ?thesis unfolding awaitp_def by (intro keeps_rules k)
qed

lemma keeps_stage_timeout [keeps_rules]: "keeps c t b (stage_timeout d cap stage)"
  unfolding stage_timeout_def Let_def by (intro keeps_rules)

text \<open>A message that is sent from a state: whatever it clears is over there.\<close>

lemma emit_from:
  assumes "session_ok c s" "held t s = b" "\<And>g. clears m = Some g \<Longrightarrow> guard = None \<and> g < se_generation s"
  shows "swlp c t (emit c t d guard m) (\<lambda>_. kept c t b s) (\<lambda>_. kept c t b s) s"
proof (cases "guarded guard s")
  case False
  then show ?thesis using assms(1,2) by (simp add: emit_def kept_refl)
next
  case True
  note sent = log_out_ok [OF assms(1) True, of m t, OF assms(3)]
  have "keeps c t b (awaitp t (E_send m timeout) (\<lambda>a. if a = A_timeout then Raise Slow_consumer
              else if a = A_failed then Raise Other_error else Ret True))" for timeout
    by (intro keeps_rules)
  from keeps_from [OF this] sent assms(2)
  have rest: "swlp c t (Put (log_out (map_option fst guard) m) (awaitp t (E_send m timeout) (\<lambda>a. if a = A_timeout then Raise Slow_consumer
              else if a = A_failed then Raise Other_error else Ret True))) (\<lambda>_. kept c t b s) (\<lambda>_. kept c t b s) s" for timeout
    by auto
  show ?thesis
    using True rest kept_refl [OF assms(1,2)]
    by (simp add: emit_def wlp_bindp stage_timeout_def Let_def del: wlp.simps(4) split: option.split)
qed

lemma keeps_emit [keeps_rules]: "clears m = None \<Longrightarrow> keeps c t b (emit c t d guard m)"
  unfolding keeps_def by (auto intro: emit_from)

lemma keeps_other_lock [keeps_rules]:
  assumes "keeps c t b p" "l \<noteq> Turn_lock"
  shows "keeps c t b (with_lock l t p)"
proof -
  have "quiet c t b (acquire_lock l t)" "quiet c t b (release_lock l)"
    using assms(2)
    by (auto simp: quiet_def guar_def kept_def held_def state_moves_def session_ok_def log_ok_def acquire_lock_def release_lock_def)
  with assms(1) show ?thesis unfolding with_lock_def by (auto intro!: keeps_rules)
qed

lemma keeps_set_state [keeps_rules]: "keeps c t b (set_state c t st turn guard)"
proof -
  have out: "keeps c t b (emit c t None guard (M_state st n))" for n by (intro keeps_rules) (simp add: clears_def)
  have "keeps c t b (Look (\<lambda>s.
       if \<not> guarded guard s then Ret False
       else if se_state s = S_closed \<and> st \<noteq> S_closed then Ret False
       else if st \<notin> set (allowed_transitions (se_state s)) then Raise Other_error
       else Put (\<lambda>s. s\<lparr>se_state := st\<rparr>)
         (emit c t None guard (M_state st (case turn of Some t \<Rightarrow> t | None \<Rightarrow> se_turn s)))))"
    unfolding keeps_def
  proof (intro allI impI, elim conjE)
    fix s assume s: "session_ok c s" "held t s = b"
    let ?s = "s\<lparr>se_state := st\<rparr>"
    have "st \<in> set (allowed_transitions (se_state s)) \<Longrightarrow> guar c t s ?s \<and> kept c t b s ?s"
      using s by (simp add: guar_def kept_def held_def state_moves_def session_ok_def log_ok_def)
    then show "swlp c t (Look (\<lambda>s.
       if \<not> guarded guard s then Ret False
       else if se_state s = S_closed \<and> st \<noteq> S_closed then Ret False
       else if st \<notin> set (allowed_transitions (se_state s)) then Raise Other_error
       else Put (\<lambda>s. s\<lparr>se_state := st\<rparr>)
         (emit c t None guard (M_state st (case turn of Some t \<Rightarrow> t | None \<Rightarrow> se_turn s))))) (\<lambda>_. kept c t b s) (\<lambda>_. kept c t b s) s"
      using kept_refl [OF s] keeps_from [OF out] by simp
  qed
  then show ?thesis unfolding set_state_def by (rule keeps_other_lock) simp
qed

lemma keeps_close [keeps_rules]: "quiet c t b (\<lambda>s. s\<lparr>se_state := S_closed\<rparr>)"
  by (auto simp: quiet_def guar_def kept_def held_def state_moves_def session_ok_def log_ok_def allowed_transitions_def
      split: session_state.split)

lemma keeps_reports [keeps_rules]: "keeps c t b (report_error c t code message turn d)" "keeps c t b (internal_error c t code turn)"
  unfolding report_error_def internal_error_def by (intro keeps_rules; simp add: clears_def)+

lemma keeps_authorize [keeps_rules]: "keeps c t b (authorize c force)"
  unfolding authorize_def by (intro keeps_rules quiet_write) simp_all

lemma keeps_task_writes [keeps_rules]:
  "quiet c t b (retire n)" "quiet c t b (request_cancel n)" "quiet c t b (queue_pop n)" "quiet c t b (queue_push n item)"
  "quiet c t b (drop_request u)" "quiet c t b clear_input" "quiet c t b (set_status n st)"
  by (rule quiet_write; simp add: retire_def request_cancel_def queue_pop_def queue_push_def drop_request_def clear_input_def
      set_status_def split: task.split)+

lemma keeps_history [keeps_rules]: "quiet c t b (keep_history answer)"
  by (rule quiet_write) (simp_all add: keep_history_def Let_def)

lemma keeps_roll [keeps_rules]: "quiet c t b (push_roll pcm)"
  by (rule quiet_write) (simp_all add: push_roll_def Let_def)

lemma keeps_create [keeps_rules]: "keeps c t b (create_task j)"
  unfolding create_task_def by (intro keeps_rules quiet_write) simp_all

lemma keeps_results [keeps_rules]: "keeps c t b (task_result n)" "keeps c t b (raise_failure n)"
  by (simp_all add: task_result_def raise_failure_def keeps_rules split: task_status.split)

section \<open>The tasks of a turn\<close>

text \<open>What needs no lock keeps the contract with and without the turn lock.\<close>

lemma keeps_let [keeps_rules]: "keeps c t b (f v) \<Longrightarrow> keeps c t b (let x = v in f x)"
  by simp

lemma clears_simps [simp]: "clears (M_delta i j text) = None" "clears (M_final i j text) = None" "clears (M_turn_metrics i j k) = None"
  "clears (M_turn_cancelled i j) = None" "clears (M_tts_format i j r ch codec) = None" "clears (M_tts_browser i j text) = None"
  "clears (M_phrase_end i j text) = None" "clears (M_segment i j seg) = None" "clears (M_sync_begin i j r ch codec) = None"
  "clears (Packet bs) = None" "clears M_playout_fallback = None" "clears (M_degraded what fallback) = None"
  "clears (M_asr_final i text lang) = None" "clears (M_vad_level p) = None" "clears M_speech_started = None" "clears M_speech_ended = None"
  "clears (M_ready a1 a2 a3 a4 fict) = None" "clears (M_playout_clear why g) = Some g"
  by (simp_all add: clears_def)

lemma keeps_stop [keeps_rules]: "keeps c t b (stop_task c t n)" "keeps c t b (await_existing t n timeout stage)"
    "keeps c t b (close_iterator t stage)"
  unfolding stop_task_def await_existing_def close_iterator_def by (intro keeps_rules)+

lemma keeps_emit_packet [keeps_rules]: "keeps c t b (emit_packet c t d guard kind turn pts bs)"
  unfolding emit_packet_def by (intro keeps_rules) simp

lemma keeps_emit_frames [keeps_rules]: "keeps c t b (emit_frames c t d guard turn fs)"
  by (induction fs) (simp_all add: keeps_rules)

lemma keeps_read_frames [keeps_rules]: "keeps c t b (read_frames c t turn g d pd script sent frames)"
proof (induction script arbitrary: sent frames)
  case (Cons i script)
  then show ?case unfolding read_frames.simps [where script = "i # script"] list.case Let_def by (intro keeps_rules; simp)
qed (subst read_frames.simps, simp only: list.case Let_def, intro keeps_rules)

lemma keeps_tts [keeps_rules]:
  "(\<And>frames. keeps c t b (f frames)) \<Longrightarrow> keeps c t b p \<Longrightarrow> keeps c t b (case r of Tts_done frames \<Rightarrow> f frames | _ \<Rightarrow> p)"
  by (simp split: tts_end.split)

lemma keeps_synthesize [keeps_rules]: "keeps c t b (synthesize_phrase c t turn g d phrase script)"
  unfolding synthesize_phrase_def Let_def by (intro keeps_rules; simp)

lemma keeps_send_segment [keeps_rules]: "keeps c t b (send_segment c t turn g d frames started pts seg)"
  unfolding send_segment_def by (intro keeps_rules; simp)

lemma keeps_avatar_failed [keeps_rules]: "keeps c t b (avatar_failed c t turn g d started x)"
  unfolding avatar_failed_def by (intro keeps_rules; simp)

lemma keeps_read_segment [keeps_rules]: "keeps c t b (read_segment c t turn g d pd frames started pts i)"
  unfolding read_segment_def by (intro keeps_rules)

lemma keeps_read_segments [keeps_rules]: "keeps c t b (read_segments c t turn g d pd frames started pts script)"
  by (induction script arbitrary: started pts) (simp_all, (intro keeps_rules | assumption)+)

lemma keeps_speak [keeps_rules]: "keeps c t b (speak_phrase c t turn g d phrase scripts)"
  unfolding speak_phrase_def speak_rest_def animate_phrase_def by (intro keeps_rules; simp)

lemma keeps_worker: "keeps c (Background w) b (speech_worker c w turn g d scripts)"
proof (induction scripts)
  case (Cons s scripts)
  then show ?case unfolding speech_worker.simps [where scripts = "s # scripts"] list.case by (intro keeps_rules; simp)
qed (subst speech_worker.simps, simp only: list.case, intro keeps_rules)

lemma keeps_queue [keeps_rules]: "keeps c t b (queue_speech c t w turn g d item)"
  unfolding queue_speech_def by (intro keeps_rules)

lemma keeps_queue_phrases [keeps_rules]: "keeps c t b (queue_phrases c t w turn g d ps)"
  by (induction ps) (simp_all add: keeps_rules)

lemma keeps_stream [keeps_rules]: "keeps c t b (stream_answer c t w turn g d script fresh answer ck)"
proof (induction script arbitrary: fresh answer ck)
  case (Cons i script)
  then show ?case unfolding stream_answer.simps [where script = "i # script"] list.case Let_def by (intro keeps_rules; simp)
qed (subst stream_answer.simps, simp only: list.case Let_def, intro keeps_rules)

lemma turn_keeps_finish [keeps_rules]: "keeps c t b (finish_answer c t w turn g d text ck)"
  unfolding finish_answer_def Let_def by (intro keeps_rules; simp)

section \<open>Code that takes the turn lock\<close>

definition held_on :: "session_config \<Rightarrow> task \<Rightarrow> session \<Rightarrow> session \<Rightarrow> bool" where
  "held_on c t s s' \<longleftrightarrow> session_ok c s' \<and> held t s' \<and> se_generation s \<le> se_generation s'"

lemma keeps_turn_lock:
  assumes "\<And>s. session_ok c s \<Longrightarrow> held t s \<Longrightarrow> swlp c t p (\<lambda>_. held_on c t s) (\<lambda>_. held_on c t s) s"
  shows "keeps c t False (with_lock Turn_lock t p)"
proof -
  have step: "if a = A_cancelled then guar c t s' (drop_request t s') \<and> kept c t False s (drop_request t s')
      else guar c t s' (acquire_lock Turn_lock t s')
        \<and> swlp c t p (\<lambda>x u. guar c t u (release_lock Turn_lock u) \<and> kept c t False s (release_lock Turn_lock u))
          (\<lambda>x u. guar c t u (release_lock Turn_lock u) \<and> kept c t False s (release_lock Turn_lock u)) (acquire_lock Turn_lock t s')"
    if s: "session_ok c s \<and> \<not> held t s" and r: "rely c t s s'" and a: "answers c t (E_lock Turn_lock) a s'" for s a s'
  proof -
  have s': "session_ok c s'" "\<not> held t s'" "se_generation s \<le> se_generation s'" using s r by (auto simp: rely_def)
  have drop: "guar c t s' (drop_request t s') \<and> kept c t False s (drop_request t s')"
    using keeps_task_writes(5) [of c t False t] s' by (auto simp: quiet_def kept_def)
  let ?l = "acquire_lock Turn_lock t s'"
  have l: "session_ok c ?l" "held t ?l" "se_generation ?l = se_generation s'"
    using s' by (simp_all add: session_ok_def log_ok_def held_def acquire_lock_def)
  have free: "se_locks s' Turn_lock = None" if "a \<noteq> A_cancelled" using a that by (simp add: answers_def)
  have acquire: "guar c t s' ?l" if "a \<noteq> A_cancelled"
    using free [OF that] l(1) by (simp add: guar_def state_moves_def held_def acquire_lock_def)
  have release: "guar c t u (release_lock Turn_lock u) \<and> kept c t False s (release_lock Turn_lock u)" if "held_on c t ?l u" for u
    using that s'(3) l(3)
    by (simp add: guar_def kept_def held_on_def state_moves_def session_ok_def log_ok_def held_def release_lock_def)
  have body: "swlp c t p (\<lambda>x u. guar c t u (release_lock Turn_lock u) \<and> kept c t False s (release_lock Turn_lock u))
      (\<lambda>x u. guar c t u (release_lock Turn_lock u) \<and> kept c t False s (release_lock Turn_lock u)) ?l"
    by (rule wlp_mono [OF assms [OF l(1,2)]]; use release in blast)
  show ?thesis using drop acquire body by simp
  qed
  show ?thesis
    unfolding keeps_def with_lock_def awaitp_def using step by (auto simp: wlp_finallyp split: if_splits)
qed

lemma held_onI: "kept c t True s s' \<Longrightarrow> held_on c t s s'"
  by (simp add: held_on_def kept_def)

lemma keeps_held: "keeps c t True p \<Longrightarrow> session_ok c s \<Longrightarrow> held t s \<Longrightarrow> swlp c t p (\<lambda>_. held_on c t s) (\<lambda>_. held_on c t s) s"
  by (rule wlp_mono [OF turn_keepsD]) (auto intro: held_onI)

lemma quiet_from: "quiet c t b u \<Longrightarrow> kept c t b s s' \<Longrightarrow> guar c t s' (u s') \<and> kept c t b s (u s')"
  using kept_trans [of c t b s s' "u s'"] by (auto simp: quiet_def dest: keptD)

lemma emit_after:
  assumes "kept c t b s s'" "\<And>g. clears m = Some g \<Longrightarrow> guard = None \<and> g < se_generation s'"
  shows "swlp c t (emit c t d guard m) (\<lambda>_. kept c t b s) (\<lambda>_. kept c t b s) s'"
  by (rule wlp_mono [OF emit_from [OF _ _ assms(2)]]) (use assms(1) keptD kept_trans in blast)+

lemma keeps_cancel_active [keeps_rules]: "keeps c t b (cancel_active c t reason)"
proof -
  have wait: "keeps c t b (case r of
            None \<Rightarrow> Ret False
          | Some n \<Rightarrow>
              if over n \<or> t = Background n then Ret False
              else Put (request_cancel n)
                (Await (E_wait n (Some (sc_cancellation c))) (\<lambda>a.
                   if a = A_cancelled then Put (retire n) (Put (drop_request t) (Raise Cancelled))
                   else if a = A_timeout then Put (retire n) (Ret True) else Ret False)))" for r over
    by (intro keeps_rules)
  have rest: "keeps c t b (if x then seqp (emit c t None None (M_degraded ''turn_cancel'' ''generation_quarantine'')) (Ret ()) else Ret ())" for x
    by (intro keeps_rules) simp
  show ?thesis unfolding keeps_def
  proof (intro allI impI, elim conjE)
    fix s assume s: "session_ok c s" "held t s = b"
    have inv: "quiet c t b invalidate" by (rule quiet_write) (simp_all add: invalidate_def)
    have i: "guar c t s (invalidate s)" "kept c t b s (invalidate s)" using inv s by (simp_all add: quiet_def)
    have gen: "0 < se_generation s \<or> se_response s \<noteq> None \<Longrightarrow> se_generation s < se_generation (invalidate s)"
      by (auto simp: invalidate_def)
    have tail: "swlp c t (seqp (if 0 < se_generation s \<or> se_response s \<noteq> None
               then seqp (emit c t None None (M_playout_clear reason (se_generation s))) (Ret ()) else Ret ())
              (if x then seqp (emit c t None None (M_degraded ''turn_cancel'' ''generation_quarantine'')) (Ret ())
               else Ret ())) (\<lambda>_. kept c t b s) (\<lambda>_. kept c t b s) s'" if "kept c t b (invalidate s) s'" for s' x
    proof -
      have k: "kept c t b s s'" using i(2) that kept_trans by blast
      have "se_generation (invalidate s) \<le> se_generation s'" using that by (simp add: kept_def)
      then have clear: "swlp c t (emit c t None None (M_playout_clear reason (se_generation s))) (\<lambda>_. kept c t b s) (\<lambda>_. kept c t b s) s'"
        if "0 < se_generation s \<or> se_response s \<noteq> None"
        using gen [OF that] by (intro emit_after [OF k]) (auto simp: clears_def)
      have "swlp c t (if 0 < se_generation s \<or> se_response s \<noteq> None
               then seqp (emit c t None None (M_playout_clear reason (se_generation s))) (Ret ()) else Ret ())
          (\<lambda>_. kept c t b s) (\<lambda>_. kept c t b s) s'"
        using clear k by (simp add: wlp_seqp)
      then show ?thesis unfolding wlp_seqp by (rule wlp_mono) (use keeps_from [OF rest] in \<open>simp_all add: wlp_seqp\<close>)
    qed
    show "swlp c t (cancel_active c t reason) (\<lambda>_. kept c t b s) (\<lambda>_. kept c t b s) s"
      unfolding cancel_active_def wlp.simps wlp_bindp
      by (intro conjI i(1) wlp_mono [OF turn_keepsD [OF wait]])
        (use i(2) keptD tail kept_trans in \<open>blast+\<close>)
  qed
qed

lemma abort_held:
  assumes "session_ok c s" "held t s" "keeps c t True p"
  shows "swlp c t (Put (end_generation t ev) (seqp (emit c t None None (M_playout_clear reason (se_generation s))) p))
      (\<lambda>_. held_on c t s) (\<lambda>_. held_on c t s) s"
proof -
  have q: "quiet c t True (end_generation t ev)" by (rule quiet_write) (simp_all add: end_generation_def)
  have k: "guar c t s (end_generation t ev s)" "kept c t True s (end_generation t ev s)" using q assms by (simp_all add: quiet_def)
  have "swlp c t (emit c t None None (M_playout_clear reason (se_generation s))) (\<lambda>_. kept c t True s) (\<lambda>_. kept c t True s)
      (end_generation t ev s)"
    by (rule emit_after [OF k(2)]) (simp add: clears_def end_generation_def)
  then have "swlp c t (seqp (emit c t None None (M_playout_clear reason (se_generation s))) p) (\<lambda>_. kept c t True s) (\<lambda>_. kept c t True s)
      (end_generation t ev s)"
    unfolding wlp_seqp by (rule wlp_mono) (use keeps_from [OF assms(3)] in blast)+
  then show ?thesis using k(1) by (auto intro: wlp_mono held_onI)
qed

lemma held_on_refl: "session_ok c s \<Longrightarrow> held t s \<Longrightarrow> held_on c t s s"
  by (simp add: held_on_def)

lemma keeps_abort [keeps_rules]: "keeps c t False (abort_generation c t g ev reason code message turn)"
proof -
  have rest: "keeps c t True (seqp (report_error c t code message (Some turn) None)
         (Look (\<lambda>s. if se_state s \<noteq> S_closed then seqp (set_state c t S_listening (Some turn) None) (Ret ()) else Ret ())))"
    by (intro keeps_rules)
  show ?thesis unfolding abort_generation_def
  proof (rule keeps_turn_lock)
    fix s assume s: "session_ok c s" "held t s"
    show "swlp c t (Look (\<lambda>s.
       if \<not> is_current g ev s then Ret ()
       else Put (end_generation t ev)
         (seqp (emit c t None None (M_playout_clear reason g))
         (seqp (report_error c t code message (Some turn) None)
         (Look (\<lambda>s. if se_state s \<noteq> S_closed then seqp (set_state c t S_listening (Some turn) None) (Ret ()) else Ret ()))))))
       (\<lambda>_. held_on c t s) (\<lambda>_. held_on c t s) s"
    proof (cases "is_current g ev s")
      case True
      then have "g = se_generation s" by (simp add: is_current_def)
      with True abort_held [OF s rest] show ?thesis by simp
    next
      case False
      then show ?thesis using held_on_refl [OF s] by simp
    qed
  qed
qed

lemma keeps_quarantine [keeps_rules]: "keeps c t False (quarantine_slow_consumer c t g ev)"
proof -
  have q: "quiet c t True (end_generation t ev)" by (rule quiet_write) (simp_all add: end_generation_def)
  have "keeps c t True (Look (\<lambda>s. if g \<noteq> se_generation s then Ret () else Put (end_generation t ev)
         (with_lock State_lock t (Put (\<lambda>s. s\<lparr>se_state := S_closed\<rparr>) (Ret ())))))"
    by (intro keeps_rules q) simp
  then show ?thesis unfolding quarantine_slow_consumer_def by (intro keeps_turn_lock keeps_held)
qed

lemma keeps_turn_failed [keeps_rules]: "keeps c t False (turn_failed c t code turn g)"
  unfolding turn_failed_def by (intro keeps_rules)

lemma keeps_respond_failed [keeps_rules]: "keeps c t False (respond_failed c t turn g x)"
proof (cases x)
  case Cancelled
  then show ?thesis by (simp add: respond_failed_def) (intro keeps_rules; simp)
qed (simp_all add: respond_failed_def handle_stage_timeout_def handle_authorization_failure_def keeps_rules)

lemma keeps_user [keeps_rules]: "quiet c t b (\<lambda>s. s\<lparr>se_history := se_history s @ h\<rparr>)"
  by (rule quiet_write) simp_all

lemma keeps_respond [keeps_rules]: "keeps c t False (respond c t turn g utterance d script)"
  unfolding respond_def by (intro keeps_rules)

lemma keeps_transcribe_failed [keeps_rules]: "keeps c t False (transcribe_failed c t turn g x)"
  by (cases x) (simp_all add: transcribe_failed_def handle_stage_timeout_def keeps_rules)

lemma keeps_answer_text [keeps_rules]:
  "(\<And>x l. keeps c t b (f x l)) \<Longrightarrow> keeps c t b p \<Longrightarrow> keeps c t b q
    \<Longrightarrow> keeps c t b (case a of A_text x l \<Rightarrow> f x l | A_timeout \<Rightarrow> p | _ \<Rightarrow> q)"
  by (cases a) simp_all

lemma keeps_transcribe [keeps_rules]: "keeps c t False (transcribe_and_respond c t turn g pcm d script)"
  unfolding transcribe_and_respond_def after_transcript_def Let_def by (intro keeps_rules; simp)

section \<open>The operations of the client\<close>

lemma keeps_locked [keeps_rules]: "keeps c t True p \<Longrightarrow> keeps c t False (with_lock Turn_lock t p)"
  by (intro keeps_turn_lock keeps_held)

lemma keeps_start [keeps_rules]: "keeps c t False (start_session c t)"
  unfolding start_session_def by (intro keeps_rules) simp

lemma keeps_cancel [keeps_rules]: "keeps c t False (cancel_response c t reason)"
  unfolding cancel_response_def by (intro keeps_rules)

lemma turn_starts:
  assumes "kept c t True s s'" "se_turn s < sc_max_turns c" "keeps c t True p"
  shows "swlp c t (Put new_turn p) (\<lambda>_. held_on c t s) (\<lambda>_. held_on c t s) s'"
proof -
  have s': "session_ok c s'" "held t s'" "se_turn s' < sc_max_turns c" "se_generation s \<le> se_generation s'"
    using assms(1,2) by (simp_all add: kept_def)
  have n: "session_ok c (new_turn s')" "held t (new_turn s')" "se_generation s' \<le> se_generation (new_turn s')"
    using s' by (auto simp: new_turn_def session_ok_def log_ok_def held_def list_all_iff)
  have "guar c t s' (new_turn s')" using s'(2) n by (simp add: guar_def held_def state_moves_def) (simp add: new_turn_def)
  moreover have "swlp c t p (\<lambda>_. held_on c t s) (\<lambda>_. held_on c t s) (new_turn s')"
    by (rule wlp_mono [OF keeps_held [OF assms(3) n(1,2)]]) (use n(3) s'(4) in \<open>auto simp: held_on_def\<close>)
  ultimately show ?thesis by simp
qed

lemma keepsD_held: "keeps c t True p \<Longrightarrow> session_ok c s \<Longrightarrow> held t s \<Longrightarrow> swlp c t p (\<lambda>_. kept c t True s) (\<lambda>_. kept c t True s) s"
  by (simp add: keeps_def)

lemma turn_accepted:
  assumes "quiet c t True clear" "keeps c t True p" "kept c t True s s'" "se_turn s < sc_max_turns c"
  shows "swlp c t (seqp (cancel_active c t reason) (Put clear (Put new_turn p))) (\<lambda>_. held_on c t s) (\<lambda>_. held_on c t s) s'"
  unfolding wlp_seqp
proof (rule wlp_mono [OF keeps_from [OF keeps_cancel_active assms(3)]])
  fix u assume u: "kept c t True s u"
  show "swlp c t (Put clear (Put new_turn p)) (\<lambda>_. held_on c t s) (\<lambda>_. held_on c t s) u"
    using quiet_from [OF assms(1) u] turn_starts [OF _ assms(4,2)] by simp
qed (rule held_onI)

lemma keeps_begin [keeps_rules]: "keeps c t False (begin_turn c t input)"
proof -
  define refused where "refused = seqp (cancel_active c t ''authorization_revoked'')
           (seqp (report_error c t ''authorization_revoked'' ''persona authorization is no longer valid'' None None)
           (seqp (set_state c t S_listening None None) (Ret ())))"
  define create where "create = (Look (\<lambda>s. let deadline = se_now s + sc_end_to_end c in
              bindp (create_task (case input of
                  Inl msg \<Rightarrow> J_text (se_turn s) (se_generation s) msg deadline
                | Inr pcm \<Rightarrow> J_audio (se_turn s) (se_generation s) pcm deadline)) (\<lambda>n.
              Put (\<lambda>s. s\<lparr>se_response := Some n\<rparr>) (Ret ()))))"
  define clear where "clear = (\<lambda>s. case input of Inl msg \<Rightarrow> clear_input s | Inr pcm \<Rightarrow> s)"
  define check where "check = handlep (seqp (authorize c True) (Ret True)) (\<lambda>x. if x = Authorization_failure then Ret False else Raise x)"
  have response: "quiet c t True (\<lambda>s. s\<lparr>se_response := Some n\<rparr>)" for n by (rule quiet_write) simp_all
  have keeps: "keeps c t True refused" "keeps c t True create" "keeps c t True check"
    unfolding refused_def create_def check_def Let_def by (intro keeps_rules response)+
  have quiet: "quiet c t True clear"
    by (rule quiet_write) (simp_all add: clear_def clear_input_def split: sum.split)
  have full: "keeps c t True (seqp (report_error c t ''turn_limit'' ''session turn limit reached'' None None) (Ret ()))"
    by (intro keeps_rules)
  have body: "swlp c t (Look (\<lambda>s.
       if se_state s = S_closed then Ret ()
       else if sc_max_turns c \<le> se_turn s
       then seqp (report_error c t ''turn_limit'' ''session turn limit reached'' None None) (Ret ())
       else bindp check (\<lambda>ok. if \<not> ok then refused
         else seqp (cancel_active c t (case input of Inl msg \<Rightarrow> ''new_text_turn'' | Inr pcm \<Rightarrow> ''new_audio_turn''))
           (Put clear (Put new_turn create))))) (\<lambda>_. held_on c t s) (\<lambda>_. held_on c t s) s"
    if s: "session_ok c s" "held t s" for s
  proof -
    have "swlp c t (bindp check (\<lambda>ok. if \<not> ok then refused
         else seqp (cancel_active c t (case input of Inl msg \<Rightarrow> ''new_text_turn'' | Inr pcm \<Rightarrow> ''new_audio_turn''))
           (Put clear (Put new_turn create)))) (\<lambda>_. held_on c t s) (\<lambda>_. held_on c t s) s" if n: "se_turn s < sc_max_turns c"
      unfolding wlp_bindp
    proof (rule wlp_mono [OF keepsD_held [OF keeps(3) s]])
      fix ok u assume u: "kept c t True s u"
      show "swlp c t (if \<not> ok then refused
         else seqp (cancel_active c t (case input of Inl msg \<Rightarrow> ''new_text_turn'' | Inr pcm \<Rightarrow> ''new_audio_turn''))
           (Put clear (Put new_turn create))) (\<lambda>_. held_on c t s) (\<lambda>_. held_on c t s) u"
        using wlp_mono [OF keeps_from [OF keeps(1) u] held_onI held_onI] turn_accepted [OF quiet keeps(2) u n] by (cases ok) simp_all
    qed (rule held_onI)
    then show ?thesis using held_on_refl [OF s] keeps_held [OF full s] by auto
  qed
  show ?thesis
    unfolding begin_turn_def
    using keeps_turn_lock [OF body] unfolding refused_def create_def clear_def check_def .
qed

lemma keeps_submit [keeps_rules]: "keeps c t False (submit_text c t msg)"
  unfolding submit_text_def by (intro keeps_rules)

lemma keeps_input [keeps_rules]:
  "quiet c t b (\<lambda>s. s\<lparr>se_speech_active := active, se_utterance := input s\<rparr>)" "quiet c t b (\<lambda>s. s\<lparr>se_utterance := input s\<rparr>)"
  by (rule quiet_write; simp)+

lemma keeps_speech_over [keeps_rules]: "keeps c t False (speech_over c t ended)"
  unfolding speech_over_def by (intro keeps_rules; simp)

lemma keeps_heard [keeps_rules]: "keeps c t False (heard c t pcm started ended)"
  unfolding heard_def by (intro keeps_rules; simp)

lemma keeps_ingest [keeps_rules]: "keeps c t False (ingest_pcm c t pcm rate)"
proof -
  have "keeps c t False (case a of
             A_decision p started ended \<Rightarrow> seqp (emit c t None None (M_vad_level (round_to 4 p))) (heard c t pcm started ended)
           | _ \<Rightarrow> seqp (internal_error c t ''vad_failed'' None) (seqp (set_state c t S_listening None None) (Ret ())))" for a
    by (cases a) (simp_all, (intro keeps_rules; simp)+)
  then show ?thesis unfolding ingest_pcm_def by (intro keeps_rules)
qed

lemma keeps_close_session [keeps_rules]: "keeps c t False (close_session t)"
proof -
  have "quiet c t b (\<lambda>s. s\<lparr>se_shutdown := Some n\<rparr>)" for b n by (rule quiet_write) simp_all
  then show ?thesis unfolding close_session_def by (intro keeps_rules)
qed

lemma keeps_cancel_retired [keeps_rules]: "keeps c t b (cancel_retired t d n)"
proof (induction n)
  case (Suc n)
  have "quiet c t b (\<lambda>s. s\<lparr>se_requests := ts @ se_requests s\<rparr>)" for ts by (rule quiet_write) simp_all
  with Suc show ?case unfolding cancel_retired.simps Let_def by (intro keeps_rules)
qed (simp add: keeps_rules)

lemma keeps_close_impl [keeps_rules]: "keeps c t False (close_impl c t rounds)"
proof -
  have "quiet c t b (\<lambda>s. s\<lparr>se_adapters_closed := True\<rparr>)" "quiet c t b (\<lambda>s. s\<lparr>se_set_events := se_event s # se_set_events s\<rparr>)" for b
    by (rule quiet_write; simp)+
  then show ?thesis unfolding close_impl_def close_adapters_def by (intro keeps_rules; simp)
qed

lemma keeps_operation: "keeps c t False (operation_prog c t op)"
  by (cases op) (simp_all add: operation_prog_def wait_idle_def keeps_rules)

lemma keeps_job: "keeps c (Background n) False (first_step c n j x)"
  by (cases j) (simp_all add: first_step_def job_prog_def keeps_rules keeps_worker)

section \<open>Every interleaving\<close>

lemma ends_quiet: "quiet c t b (ends u x)"
  by (rule quiet_write) (simp_all add: ends_def set_status_def split: task.split)

interpretation sessions: task_system "answers c" ends "starts c" world_moves "guar c" "rely c" "\<lambda>t s. \<not> held t s" "session_ok c" for c
proof unfold_locales
  fix t u s s' s''
  show "session_ok c s \<Longrightarrow> rely c t s s" by (simp add: rely_def)
  show "rely c t s s' \<Longrightarrow> rely c t s' s'' \<Longrightarrow> rely c t s s''" by (auto simp: rely_def)
  show "guar c t s s' \<Longrightarrow> session_ok c s \<Longrightarrow> t \<noteq> u \<Longrightarrow> rely c u s s'"
    by (auto simp: guar_def rely_def held_def)
  show "guar c t s s' \<Longrightarrow> session_ok c s \<Longrightarrow> session_ok c s'" by (simp add: guar_def)
  show "\<not> held t s \<Longrightarrow> session_ok c s \<Longrightarrow> guar c t s (ends t x s)" for x
    using ends_quiet [of c t False t x] by (auto simp: quiet_def)
  show "world_moves s s' \<Longrightarrow> session_ok c s \<Longrightarrow> rely c t s s' \<and> session_ok c s'"
    by (auto simp: world_moves_def rely_def session_ok_def log_ok_def held_def)
  show "\<not> held t s \<Longrightarrow> rely c t s s' \<Longrightarrow> \<not> held t s'" by (simp add: rely_def)
  show "\<not> held t s \<Longrightarrow> \<not> held t (ends t x s)" for x
    by (cases t) (simp_all add: held_def ends_def set_status_def)
  show "swlp c t p (\<lambda>_ s. \<not> held t s) (\<lambda>_ s. \<not> held t s) s" if "starts c t s p" "session_ok c s" "\<not> held t s" for p
  proof -
    have p: "keeps c t False p"
      using that(1) keeps_operation keeps_job by (auto simp: starts_def split: task.splits)
    show ?thesis
      by (rule wlp_mono [OF turn_keepsD [OF p that(2)]]) (use that(3) in \<open>auto simp: kept_def\<close>)
  qed
qed

end
