(* ===== verification/RealtimeTheorems.thy ===== *)
theory RealtimeTheorems
  imports RealtimeTurns
begin

text \<open>
  The properties of the turn engine: in every interleaving of the client's operations, the response and
  the speech task the session stays within its state machine and limits and hands over nothing of a
  generation that was cleared; an undisturbed turn hands over the whole answer; and one failure of the
  detector ends an answer it has nothing to do with.
\<close>

section \<open>Every interleaving\<close>

definition next_state :: "session_state \<Rightarrow> session_state \<Rightarrow> bool" where
  "next_state a b \<longleftrightarrow> b \<in> set (allowed_transitions a)"

lemma new_session_ok:
  assumes "new_session c permitted now = Some s"
  shows "session_ok c s \<and> (\<forall>t. \<not> held t s)"
  using assms by (auto simp: new_session_def session_ok_def log_ok_def held_def split: if_splits)

lemma moves_state: "sessions.moves c s s' \<Longrightarrow> next_state\<^sup>*\<^sup>* (se_state s) (se_state s') \<and> se_generation s \<le> se_generation s'"
  by (auto simp: sessions.moves_def guar_def state_moves_def next_state_def world_moves_def)

lemma many_moves:
  "(sessions.moves c)\<^sup>*\<^sup>* s s' \<Longrightarrow> next_state\<^sup>*\<^sup>* (se_state s) (se_state s') \<and> se_generation s \<le> se_generation s'"
proof (induction rule: rtranclp_induct)
  case (step s' s'')
  then show ?case using moves_state [OF step(2)] by (meson le_trans rtranclp_trans)
qed simp

lemma closed_final: "next_state\<^sup>*\<^sup>* a b \<Longrightarrow> a = S_closed \<Longrightarrow> b = S_closed"
  by (induction rule: rtranclp_induct) (auto simp: next_state_def allowed_transitions_def)

lemma never_ready_again: "next_state\<^sup>*\<^sup>* a b \<Longrightarrow> a \<noteq> S_ready \<Longrightarrow> b \<noteq> S_ready"
  by (induction rule: rtranclp_induct) (auto simp: next_state_def allowed_transitions_def split: session_state.splits)

lemma reachable:
  assumes "new_session c permitted now = Some s0" "(session_step c)\<^sup>*\<^sup>* (s0, Map.empty) x"
  shows "sessions.tasks_ok c x \<and> next_state\<^sup>*\<^sup>* S_ready (se_state (fst x))"
proof -
  have ok: "sessions.tasks_ok c (s0, Map.empty)" using new_session_ok [OF assms(1)] by (simp add: sessions.tasks_ok_def)
  have "se_state s0 = S_ready" using assms(1) by (auto simp: new_session_def split: if_splits)
  then show ?thesis using sessions.tasks_ok_steps [OF assms(2) ok] many_moves by fastforce
qed

text \<open>A session for the witnesses: one turn of one second each, and an answer of at most eight characters.\<close>

definition sample_persona :: persona_profile where
  "sample_persona = \<lparr>pp_persona_id = [112], pp_display_name = [80], pp_system_prompt = [98, 101], pp_disclosure = [97],
     pp_fictional = True, pp_image = None, pp_voice = None, pp_image_data = None, pp_image_name = None, pp_voice_data = None,
     pp_voice_name = None, pp_transcript = None, pp_consent_id = None\<rparr>"

definition sample_config :: session_config where
  "sample_config = \<lparr>sc_session_id = [115], sc_persona = sample_persona, sc_sample_rate = 16000, sc_max_utterance_seconds = 1,
     sc_max_text_chars = 8, sc_max_turns = 1, sc_queue_size = 2, sc_max_response_chars = 8, sc_authorized = True,
     sc_check_interval = 0, sc_end_to_end = 1, sc_asr = 1, sc_first_token = 1, sc_idle = 1, sc_backpressure = 1, sc_tts = 1,
     sc_avatar = 1, sc_emit = 1, sc_cancellation = 1, sc_adapter_close = 1, sc_browser_fallback = False,
     sc_synchronized = False, sc_closable_adapters = False\<rparr>"

definition sample_session :: session where
  "sample_session = the (new_session sample_config True 0)"

lemma sample_new: "new_session sample_config True 0 = Some sample_session"
  by (simp add: sample_session_def new_session_def positive_limits_def sample_config_def)

lemma sample_positive: "positive_limits sample_config"
  by (simp add: positive_limits_def sample_config_def)

lemma sample_fields: "se_next_task sample_session = 0" "se_status sample_session = (\<lambda>_. Not_started)" "se_queue sample_session = (\<lambda>_. [])"
  "se_generation sample_session = 0" "se_set_events sample_session = []" "se_permitted sample_session" "se_now sample_session = 0"
  "se_jobs sample_session = []" "se_requests sample_session = []" "se_locks sample_session = (\<lambda>_. None)" "se_log sample_session = []"
  by (simp_all add: sample_session_def new_session_def sample_positive)

text \<open>The client's first call waits for its lock.\<close>

definition sample_started :: session_system where
  "sample_started = (sample_session, [Client 0 \<mapsto> start_session sample_config (Client 0)])"

lemma sample_step: "session_step sample_config (sample_session, Map.empty) sample_started"
proof -
  have "starts sample_config (Client 0) sample_session (start_session sample_config (Client 0))"
    unfolding starts_def by (simp, rule exI [of _ Op_start], simp add: operation_prog_def)
  moreover have "advance (start_session sample_config (Client 0)) sample_session = (start_session sample_config (Client 0), sample_session)"
    by (simp add: start_session_def with_lock_def awaitp_def)
  ultimately have "session_step sample_config (sample_session, Map.empty)
      (settle ends (Client 0) (start_session sample_config (Client 0)) (sample_session, Map.empty))"
    by (intro tasks_step.spawn) simp_all
  then show ?thesis by (simp add: settle_def sample_started_def start_session_def with_lock_def awaitp_def)
qed

lemma sample_reachable: "(session_step sample_config)\<^sup>*\<^sup>* (sample_session, Map.empty) sample_started"
  using sample_step by (rule r_into_rtranclp [where r = "session_step sample_config"])



text \<open>
  C38. Nothing stale is handed over. In every interleaving a message guarded by a generation is handed
  over only while that generation is the current one and the session is open; and once the client was
  told to clear a generation, every guarded message after it belongs to a later one.
\<close>

theorem nothing_stale:
  assumes "new_session c permitted now = Some s0" "(session_step c)\<^sup>*\<^sup>* (s0, Map.empty) (s, T)"
  shows "list_all (\<lambda>e. case le_guard e of None \<Rightarrow> True | Some g \<Rightarrow> g = le_generation e \<and> le_state e \<noteq> S_closed) (se_log s)
    \<and> (\<forall>before e after reason g. se_log s = before @ e # after \<and> le_out e = M_playout_clear reason g
         \<longrightarrow> list_all (\<lambda>f. case le_guard f of None \<Rightarrow> True | Some h \<Rightarrow> g < h) after)"
proof -
  have ok: "log_ok s" using reachable [OF assms] by (simp add: sessions.tasks_ok_def session_ok_def)
  then have entries: "list_all entry_ok (se_log s)" by (simp add: log_ok_def)
  have "list_all (\<lambda>f. case le_guard f of None \<Rightarrow> True | Some h \<Rightarrow> g < h) after"
    if l: "se_log s = before @ e # after" and e: "le_out e = M_playout_clear reason g" for before e after reason g
    unfolding list_all_iff
  proof
    fix f assume f: "f \<in> set after"
    have "g < le_generation e" using entries e unfolding l by (simp add: entry_ok_def)
    also have "le_generation e \<le> le_generation f" using ok f unfolding log_ok_def l by (auto simp: sorted_append)
    finally show "case le_guard f of None \<Rightarrow> True | Some h \<Rightarrow> g < h"
      using entries f unfolding l by (auto simp: entry_ok_def list_all_iff split: option.splits)
  qed
  moreover have "list_all (\<lambda>e. case le_guard e of None \<Rightarrow> True | Some g \<Rightarrow> g = le_generation e \<and> le_state e \<noteq> S_closed) (se_log s)"
    using entries by (auto simp: entry_ok_def list_all_iff)
  ultimately show ?thesis by blast
qed

theorem nothing_stale_witness:
  "list_all (\<lambda>e. case le_guard e of None \<Rightarrow> True | Some g \<Rightarrow> g = le_generation e \<and> le_state e \<noteq> S_closed) (se_log (fst sample_started))"
  using nothing_stale [OF sample_new, of "fst sample_started" "snd sample_started"] sample_reachable
  by (simp add: case_prod_unfold)

section \<open>A failing detector\<close>

definition detector_fails :: "event \<Rightarrow> answer" where
  "detector_fails e = (case e of E_vad bs \<Rightarrow> A_failed | _ \<Rightarrow> A_ok)"

lemmas run_simps = runp_bindp runp_seqp runp_handlep runp_finallyp

lemma run_with_lock:
  "ans (E_lock l) = A_ok \<Longrightarrow> runp ans (with_lock l t p) s =
     (case runp ans p (acquire_lock l t s) of (r, s') \<Rightarrow> (r, release_lock l s'))"
  by (simp add: with_lock_def awaitp_def run_simps split: prod.split)

lemma run_emit:
  assumes "\<And>m d. ans (E_send m d) = A_ok" "case d of None \<Rightarrow> True | Some x \<Rightarrow> se_now s < x"
  shows "runp ans (emit c t d guard m) s =
     (if guarded guard s then (Inr True, log_out (map_option fst guard) m s) else (Inr False, s))"
  using assms by (simp add: emit_def run_simps awaitp_def stage_timeout_def Let_def split: option.splits)

definition unlocked :: "session \<Rightarrow> session" where
  "unlocked s = s\<lparr>se_locks := (se_locks s)(State_lock := None)\<rparr>"

lemma guarded_locks: "guarded g (acquire_lock l t s) = guarded g s"
  by (simp add: guarded_def is_current_def acquire_lock_def split: option.split)

lemma guarded_state: "guarded g s \<Longrightarrow> st \<noteq> S_closed \<Longrightarrow> guarded g (s\<lparr>se_state := st\<rparr>)"
  by (auto simp: guarded_def is_current_def split: option.splits)

lemma unlock_acquired: "release_lock State_lock (acquire_lock State_lock t s) = unlocked s"
  "release_lock State_lock (log_out g m (acquire_lock State_lock t s\<lparr>se_state := st\<rparr>)) = unlocked (log_out g m (s\<lparr>se_state := st\<rparr>))"
  by (simp_all add: release_lock_def acquire_lock_def unlocked_def log_out_def)

lemma run_set_state:
  assumes "\<And>m d. ans (E_send m d) = A_ok" "ans (E_lock State_lock) = A_ok" "st \<noteq> S_closed"
  shows "runp ans (set_state c t st turn guard) s =
     (if \<not> guarded guard s \<or> se_state s = S_closed then (Inr False, unlocked s)
      else if st \<notin> set (allowed_transitions (se_state s)) then (Inl Other_error, unlocked s)
      else (Inr True, unlocked (log_out (map_option fst guard) (M_state st (case turn of Some n \<Rightarrow> n | None \<Rightarrow> se_turn s)) (s\<lparr>se_state := st\<rparr>))))"
proof -
  let ?a = "acquire_lock State_lock t s"
  have a: "guarded guard ?a = guarded guard s" "se_state ?a = se_state s" "se_turn ?a = se_turn s"
    by (simp_all add: guarded_locks) (simp_all add: acquire_lock_def)
  have "guarded guard s \<Longrightarrow> guarded guard (?a\<lparr>se_state := st\<rparr>)" by (rule guarded_state) (simp_all add: a assms(3))
  then show ?thesis
    unfolding set_state_def run_with_lock [where ans = ans and l = State_lock, OF assms(2)]
    by (cases turn) (simp_all add: a run_emit [where ans = ans, OF assms(1)] unlock_acquired assms(3))
qed

lemma run_authorize:
  assumes "sc_authorized c \<longrightarrow> se_permitted s"
  obtains q where "runp ans (authorize c force) s = (Inr (), s\<lparr>se_last_check := q\<rparr>)"
proof (cases "sc_authorized c \<and> (force \<or> \<not> se_now s - se_last_check s < sc_check_interval c)")
  case True
  then have "runp ans (authorize c force) s = (Inr (), s\<lparr>se_last_check := se_now s\<rparr>)"
    using assms by (auto simp: authorize_def)
  then show thesis by (rule that)
next
  case False
  then have "runp ans (authorize c force) s = (Inr (), s\<lparr>se_last_check := se_last_check s\<rparr>)"
    by (auto simp: authorize_def)
  then show thesis by (rule that)
qed

lemma unlocked_fields [simp]: "se_state (unlocked s) = se_state s" "se_generation (unlocked s) = se_generation s"
  "se_set_events (unlocked s) = se_set_events s" "se_response (unlocked s) = se_response s" "se_log (unlocked s) = se_log s"
  "se_permitted (unlocked s) = se_permitted s" "se_now (unlocked s) = se_now s" "se_history (unlocked s) = se_history s"
  "se_queue (unlocked s) = se_queue s" "se_turn (unlocked s) = se_turn s" "se_status (unlocked s) = se_status s"
  "se_next_task (unlocked s) = se_next_task s"
  by (simp_all add: unlocked_def)

lemma logged_fields [simp]: "se_state (log_out g m s) = se_state s" "se_generation (log_out g m s) = se_generation s"
  "se_set_events (log_out g m s) = se_set_events s" "se_response (log_out g m s) = se_response s"
  "se_permitted (log_out g m s) = se_permitted s" "se_now (log_out g m s) = se_now s" "se_history (log_out g m s) = se_history s"
  "se_queue (log_out g m s) = se_queue s" "se_turn (log_out g m s) = se_turn s" "se_status (log_out g m s) = se_status s"
  "se_next_task (log_out g m s) = se_next_task s"
  "se_log (log_out g m s) = se_log s @ [\<lparr>le_out = m, le_guard = g, le_generation = se_generation s, le_state = se_state s\<rparr>]"
  by (simp_all add: log_out_def)

lemma is_current_cong: "se_state s \<noteq> S_closed \<Longrightarrow> se_generation s = se_generation s' \<Longrightarrow> se_set_events s = se_set_events s'
    \<Longrightarrow> is_current g ev s' \<Longrightarrow> is_current g ev s"
  by (simp add: is_current_def)

text \<open>
  C40. A failure of the voice activity detector ends an answer that is being spoken. While a generation
  is current and its answer is being spoken, a frame for which the detector fails puts the session back
  to listening without ending the generation; the next phrase may then not be spoken, because no
  transition leads from listening to speaking: the speech worker fails with a runtime error.
\<close>

theorem detector_failure_breaks_answer:
  assumes "se_state s = S_speaking" "is_current g turn s" "pcm \<noteq> []" "even (length pcm)" "sc_authorized c \<longrightarrow> se_permitted s"
  shows "\<exists>s'. runp detector_fails (ingest_pcm c t pcm (sc_sample_rate c)) s = (Inr (), s')
    \<and> se_state s' = S_listening \<and> is_current g turn s' \<and> se_response s' = se_response s
    \<and> fst (runp detector_fails (speak_phrase c (Background w) turn g deadline phrase scripts) s') = Inl Other_error"
proof -
  have ans: "\<And>m d. detector_fails (E_send m d) = A_ok" "detector_fails (E_lock l) = A_ok" "detector_fails (E_vad pcm) = A_failed" for l
    by (simp_all add: detector_fails_def)
  define r where "r = log_out None (M_internal_error ''vad_failed'' (se_turn s)) (push_roll pcm s)"
  define s' where "s' = unlocked (log_out None (M_state S_listening (se_turn s)) (r\<lparr>se_state := S_listening\<rparr>))"
  have roll: "se_state r = S_speaking" "se_turn r = se_turn s" "se_generation r = se_generation s" "se_set_events r = se_set_events s"
    "se_response r = se_response s" "se_permitted r = se_permitted s"
    using assms(1) by (simp_all add: r_def push_roll_def Let_def)
  have "runp detector_fails (internal_error c t ''vad_failed'' None) (push_roll pcm s) = (Inr True, r)"
    by (simp add: internal_error_def run_emit ans guarded_def r_def) (simp add: push_roll_def Let_def)
  moreover have "runp detector_fails (set_state c t S_listening None None) r = (Inr True, s')"
    by (simp add: run_set_state ans guarded_def roll allowed_transitions_def s'_def)
  ultimately have "runp detector_fails (ingest_pcm c t pcm (sc_sample_rate c)) s = (Inr (), s')"
    using assms(1,3,4) by (simp add: ingest_pcm_def awaitp_def ans run_simps)
  moreover have new: "se_state s' = S_listening" "is_current g turn s'" "se_response s' = se_response s" "se_permitted s' = se_permitted s"
    using assms(2) by (simp_all add: s'_def roll is_current_def)
  moreover obtain q where q: "runp detector_fails (authorize c False) s' = (Inr (), s'\<lparr>se_last_check := q\<rparr>)"
    using run_authorize [of c s'] assms(5) new(4) by metis
  have "guarded (Some (g, turn)) (s'\<lparr>se_last_check := q\<rparr>)" using new(2) by (simp add: guarded_def is_current_def)
  then have "runp detector_fails (set_state c (Background w) S_speaking (Some turn) (Some (g, turn))) (s'\<lparr>se_last_check := q\<rparr>)
      = (Inl Other_error, unlocked (s'\<lparr>se_last_check := q\<rparr>))"
    using new(1) by (simp add: run_set_state ans allowed_transitions_def)
  then have "fst (runp detector_fails (speak_phrase c (Background w) turn g deadline phrase scripts) s') = Inl Other_error"
    using new(2) q by (simp add: speak_phrase_def run_simps)
  ultimately show ?thesis by blast
qed

theorem detector_failure_breaks_answer_witness:
  "\<exists>s'. runp detector_fails (ingest_pcm sample_config (Client 0) [0, 0] 16000) (sample_session\<lparr>se_state := S_speaking\<rparr>) = (Inr (), s')
    \<and> se_state s' = S_listening \<and> is_current 0 1 s'
    \<and> fst (runp detector_fails (speak_phrase sample_config (Background 7) 1 0 1 [104] ([], [])) s') = Inl Other_error"
  using detector_failure_breaks_answer [of "sample_session\<lparr>se_state := S_speaking\<rparr>" 0 1 "[0, 0]" sample_config "Client 0" 7 1 "[104]" "([], [])"]
  by (auto simp: is_current_def sample_fields sample_config_def [THEN arg_cong, of sc_sample_rate])

section \<open>An undisturbed turn\<close>

definition undisturbed :: "event \<Rightarrow> answer" where
  "undisturbed e = (case e of E_asr pcm d \<Rightarrow> A_text [] None | E_vad pcm \<Rightarrow> A_decision 0 False False | _ \<Rightarrow> A_ok)"

text \<open>What a turn that is not disturbed leaves as it is.\<close>

definition same_turn :: "session \<Rightarrow> session \<Rightarrow> bool" where
  "same_turn s s' \<longleftrightarrow> se_state s' = se_state s \<and> se_generation s' = se_generation s \<and> se_set_events s' = se_set_events s
     \<and> se_now s' = se_now s \<and> se_permitted s' = se_permitted s \<and> se_status s' = se_status s \<and> se_history s' = se_history s"

definition ready_for :: "session_config \<Rightarrow> nat \<Rightarrow> nat \<Rightarrow> rat \<Rightarrow> session \<Rightarrow> bool" where
  "ready_for c turn g deadline s \<longleftrightarrow> is_current g turn s \<and> se_now s < deadline \<and> (sc_authorized c \<longrightarrow> se_permitted s)"

lemma same_turn_trans: "same_turn s s' \<Longrightarrow> same_turn s' s'' \<Longrightarrow> same_turn s s''"
  by (simp add: same_turn_def)

lemma ready_same: "ready_for c turn g d s \<Longrightarrow> same_turn s s' \<Longrightarrow> ready_for c turn g d s'"
  by (simp add: ready_for_def same_turn_def is_current_def)

lemma undisturbed_ok [simp]: "undisturbed (E_send m timeout) = A_ok" "undisturbed (E_lock l) = A_ok" "undisturbed (E_next stage timeout) = A_ok"
  "undisturbed (E_put w item timeout) = A_ok" "undisturbed (E_wait w allowed) = A_ok" "undisturbed (E_close_iterator stage) = A_ok"
  by (simp_all add: undisturbed_def)

lemma run_stage_timeout: "se_now s < d \<Longrightarrow> runp ans (stage_timeout d cap stage) s
    = (Inr (case cap of None \<Rightarrow> d - se_now s | Some x \<Rightarrow> min (d - se_now s) x), s)"
  by (simp add: stage_timeout_def Let_def)

lemma run_queue_speech:
  assumes "ready_for c turn g d s"
  shows "runp undisturbed (queue_speech c t w turn g d item) s = (Inr (), queue_push w item s)"
  using assms by (simp add: queue_speech_def ready_for_def run_simps awaitp_def run_stage_timeout)

lemma pushed: "same_turn s (queue_push w item s)" "se_queue (queue_push w item s) w = se_queue s w @ [item]"
  "se_log (queue_push w item s) = se_log s"
  by (simp_all add: same_turn_def queue_push_def)

lemma run_queue_phrases:
  assumes "ready_for c turn g d s"
  shows "\<exists>s'. runp undisturbed (queue_phrases c t w turn g d ps) s = (Inr (), s') \<and> same_turn s s'
    \<and> se_queue s' w = se_queue s w @ map Some ps \<and> se_log s' = se_log s"
  using assms
proof (induction ps arbitrary: s)
  case (Cons p ps)
  note q = run_queue_speech [OF Cons.prems, of t w "Some p"]
  have "ready_for c turn g d (queue_push w (Some p) s)" using Cons.prems pushed(1) by (rule ready_same)
  from Cons.IH [OF this] obtain s' where
    "runp undisturbed (queue_phrases c t w turn g d ps) (queue_push w (Some p) s) = (Inr (), s')" "same_turn (queue_push w (Some p) s) s'"
    "se_queue s' w = se_queue (queue_push w (Some p) s) w @ map Some ps" "se_log s' = se_log (queue_push w (Some p) s)" by blast
  then show ?case using q pushed [where s = s and w = w and item = "Some p"] same_turn_trans by (auto simp: runp_seqp)
qed (simp add: same_turn_def)

definition guarded_entry :: "session \<Rightarrow> nat \<Rightarrow> outbound \<Rightarrow> log_entry" where
  "guarded_entry s g m = \<lparr>le_out = m, le_guard = Some g, le_generation = g, le_state = se_state s\<rparr>"

lemma run_emit_ready:
  assumes "ready_for c turn g d s"
  shows "runp undisturbed (emit c t (Some d) (Some (g, turn)) m) s = (Inr True, log_out (Some g) m s)"
    and "same_turn s (log_out (Some g) m s)" and "se_log (log_out (Some g) m s) = se_log s @ [guarded_entry s g m]"
  using assms by (simp_all add: run_emit ready_for_def guarded_def same_turn_def guarded_entry_def is_current_def)

lemma run_authorize_ready:
  assumes "ready_for c turn g d s"
  obtains s' where "runp undisturbed (authorize c force) s = (Inr (), s')" "same_turn s s'" "se_queue s' = se_queue s" "se_log s' = se_log s"
  using run_authorize [of c s undisturbed force thesis] assms by (auto simp: ready_for_def same_turn_def)

text \<open>The loop hands over every delta and queues what the chunker cuts.\<close>

lemma run_stream:
  assumes "ready_for c turn g d s" "list_all (\<lambda>x. x \<noteq> []) ds" "length answer + length (concat ds) \<le> sc_max_response_chars c" "chunker_ok ck"
  shows "\<exists>s' ps ck'. runp undisturbed (stream_answer c t w turn g d (map Item ds) fresh answer ck) s = (Inr (Some (answer @ concat ds, ck')), s')
    \<and> same_turn s s' \<and> se_log s' = se_log s @ map (\<lambda>x. guarded_entry s g (M_delta turn g x)) ds
    \<and> se_queue s' w = se_queue s w @ map Some ps \<and> chunker_ok ck'
    \<and> visible_text (concat ps) @ visible_text (ck_buffer ck') = visible_text (ck_buffer ck) @ visible_text (concat ds)"
  using assms
proof (induction ds arbitrary: s fresh answer ck)
  case Nil
  then have "runp undisturbed (stream_answer c t w turn g d [] fresh answer ck) s = (Inr (Some (answer, ck)), s)"
    by (subst stream_answer.simps) (simp add: Let_def run_simps awaitp_def run_stage_timeout ready_for_def)
  then show ?case using Nil.prems(4) by (intro exI [of _ s] exI [of _ "[]"] exI [of _ ck]) (simp add: same_turn_def)
next
  case (Cons x ds)
  obtain s1 where s1: "runp undisturbed (authorize c False) s = (Inr (), s1)" "same_turn s s1" "se_queue s1 = se_queue s" "se_log s1 = se_log s"
    by (rule run_authorize_ready [OF Cons.prems(1)])
  have r1: "ready_for c turn g d s1" by (rule ready_same [OF Cons.prems(1) s1(2)])
  define s2 where "s2 = log_out (Some g) (M_delta turn g x) s1"
  have e: "runp undisturbed (emit c t (Some d) (Some (g, turn)) (M_delta turn g x)) s1 = (Inr True, s2)" "same_turn s1 s2"
    "se_log s2 = se_log s1 @ [guarded_entry s1 g (M_delta turn g x)]"
    unfolding s2_def by (rule run_emit_ready [OF r1])+
  obtain ready ck1 where p: "push_delta x ck = (ready, ck1)" by fastforce
  note cut = chunker_lossless_step [OF Cons.prems(4) p]
  obtain s3 where s3: "runp undisturbed (queue_phrases c t w turn g d ready) s2 = (Inr (), s3)" "same_turn s2 s3"
    "se_queue s3 w = se_queue s2 w @ map Some ready" "se_log s3 = se_log s2"
    using run_queue_phrases [OF ready_same [OF r1 e(2)]] by blast
  have same: "same_turn s s3" using s1(2) e(2) s3(2) same_turn_trans by blast
  have "length (answer @ x) + length (concat ds) \<le> sc_max_response_chars c" using Cons.prems(3) by simp
  from Cons.IH [OF ready_same [OF Cons.prems(1) same] _ this, of ck1 False] Cons.prems(2) cut obtain s' ps ck' where
    rest: "runp undisturbed (stream_answer c t w turn g d (map Item ds) False (answer @ x) ck1) s3 = (Inr (Some ((answer @ x) @ concat ds, ck')), s')"
      "same_turn s3 s'" "se_log s' = se_log s3 @ map (\<lambda>y. guarded_entry s3 g (M_delta turn g y)) ds"
      "se_queue s' w = se_queue s3 w @ map Some ps" "chunker_ok ck'"
      "visible_text (concat ps) @ visible_text (ck_buffer ck') = visible_text (ck_buffer ck1) @ visible_text (concat ds)"
    by auto
  have entries: "guarded_entry s3 g = guarded_entry s g" "guarded_entry s1 g = guarded_entry s g"
    using same s1(2) by (simp_all add: fun_eq_iff guarded_entry_def same_turn_def)
  have "runp undisturbed (stream_answer c t w turn g d (map Item (x # ds)) fresh answer ck) s
      = (Inr (Some (answer @ concat (x # ds), ck')), s')"
    using Cons.prems e(1) p s1(1) s3(1) rest(1)
    by (subst stream_answer.simps) (auto simp: Let_def run_simps awaitp_def run_stage_timeout ready_for_def)
  moreover have "se_queue s2 = se_queue s" using s1(3) by (simp add: s2_def)
  moreover have "visible_text (concat (ready @ ps)) @ visible_text (ck_buffer ck')
      = visible_text (ck_buffer ck) @ visible_text (concat (x # ds))"
    using rest(6) cut by simp
  ultimately show ?case
    using rest(2-5) same s3(3,4) e(3) s1(4) entries same_turn_trans [OF same rest(2)]
    by (intro exI [of _ s'] exI [of _ "ready @ ps"] exI [of _ ck']) simp
qed

definition kept_history :: "utext \<Rightarrow> (string \<times> utext) list \<Rightarrow> (string \<times> utext) list" where
  "kept_history answer hist = (let h = hist @ [(''assistant'', answer)] in hd h # drop (length (tl h) - 12) (tl h))"

lemma run_listening:
  assumes "ready_for c turn g d s" "S_listening \<in> set (allowed_transitions (se_state s))"
  shows "runp undisturbed (set_state c t S_listening (Some turn) (Some (g, turn))) s
    = (Inr True, unlocked (log_out (Some g) (M_state S_listening turn) (s\<lparr>se_state := S_listening\<rparr>)))"
  using assms by (auto simp: run_set_state ready_for_def guarded_def is_current_def)

lemma run_await_over: "se_status s w = Not_started \<Longrightarrow> runp undisturbed (await_existing t w timeout stage) s = (Inr (), s)"
  by (simp add: await_existing_def awaitp_def task_result_def)

lemma run_finish:
  assumes "ready_for c turn g d s" "S_listening \<in> set (allowed_transitions (se_state s))" "se_status s w = Not_started"
  shows "\<exists>s'. runp undisturbed (finish_answer c t w turn g d answer ck) s = (Inr (), s')
    \<and> se_state s' = S_listening \<and> se_history s' = kept_history (uni_strip answer) (se_history s) \<and> se_status s' w = Not_started
    \<and> map le_out (se_log s') = map le_out (se_log s) @ [M_final turn g (uni_strip answer), M_turn_metrics turn g (sc_queue_size c),
        M_state S_listening turn]
    \<and> se_queue s' w = se_queue s w @ (if uni_strip (ck_buffer ck) = [] then [] else [Some (uni_strip (ck_buffer ck))]) @ [None]"
proof -
  define s1 where "s1 = (if uni_strip (ck_buffer ck) = [] then s else queue_push w (Some (uni_strip (ck_buffer ck))) s)"
  define s2 where "s2 = queue_push w None s1"
  define s3 where "s3 = keep_history (uni_strip answer) s2"
  define s4 where "s4 = log_out (Some g) (M_final turn g (uni_strip answer)) s3"
  define s5 where "s5 = log_out (Some g) (M_turn_metrics turn g (sc_queue_size c)) s4"
  define s6 where "s6 = unlocked (log_out (Some g) (M_state S_listening turn) (s5\<lparr>se_state := S_listening\<rparr>))"
  have same: "same_turn s s1" "same_turn s s2" using pushed(1) by (auto simp: s1_def s2_def same_turn_def queue_push_def)
  have r1: "ready_for c turn g d s1" and r2: "ready_for c turn g d s2" using ready_same [OF assms(1)] same by blast+
  have r: "ready_for c turn g d s3" "ready_for c turn g d s4" "ready_for c turn g d s5"
    using r2 by (simp_all add: ready_for_def is_current_def s3_def s4_def s5_def keep_history_def Let_def)
  have now: "se_now s4 < d" and current: "is_current g turn s2" "is_current g turn s4" using r r2 by (simp_all add: ready_for_def)
  have kept: "keep_history (uni_strip answer) s2 = s3" by (simp add: s3_def)
  have first: "runp undisturbed (Look (\<lambda>s. if fst (flush_chunker ck) \<noteq> [] \<and> is_current g turn s
              then queue_speech c t w turn g d (Some (fst (flush_chunker ck))) else Ret ())) s = (Inr (), s1)"
    using assms(1) run_queue_speech [OF assms(1)] by (simp add: s1_def flush_chunker_def ready_for_def)
  have last: "runp undisturbed (queue_speech c t w turn g d None) s1 = (Inr (), s2)"
    unfolding s2_def by (rule run_queue_speech [OF r1])
  have final: "runp undisturbed (emit c t (Some d) (Some (g, turn)) (M_final turn g (uni_strip answer))) s3 = (Inr True, s4)"
    "runp undisturbed (emit c t (Some d) (Some (g, turn)) (M_turn_metrics turn g (sc_queue_size c))) s4 = (Inr True, s5)"
    unfolding s4_def s5_def by (rule run_emit_ready [OF r(1)], rule run_emit_ready(1) [OF r(2) [unfolded s4_def]])
  have status: "se_status s4 w = Not_started" "S_listening \<in> set (allowed_transitions (se_state s5))"
    using same(2) assms(2,3) by (simp_all add: s3_def s4_def s5_def same_turn_def keep_history_def Let_def)
  have listening: "runp undisturbed (set_state c t S_listening (Some turn) (Some (g, turn))) s5 = (Inr True, s6)"
    unfolding s6_def by (rule run_listening [OF r(3) status(2)])
  have "runp undisturbed (finish_answer c t w turn g d answer ck) s = (Inr (), s6)"
    unfolding finish_answer_def Let_def runp_seqp first
    by (simp add: last current kept runp_seqp runp_bindp final run_stage_timeout [OF now] run_await_over [OF status(1)] listening)
  moreover have "se_history s2 = se_history s" "se_log s2 = se_log s" using same(2) by (simp_all add: same_turn_def s1_def s2_def queue_push_def)
  then have "se_history s6 = kept_history (uni_strip answer) (se_history s)" "map le_out (se_log s6) = map le_out (se_log s)
      @ [M_final turn g (uni_strip answer), M_turn_metrics turn g (sc_queue_size c), M_state S_listening turn]"
    by (simp_all add: s6_def s5_def s4_def s3_def keep_history_def kept_history_def Let_def)
  moreover have "se_queue s6 = se_queue s2" "se_status s6 = se_status s4"
    by (simp_all add: s6_def s5_def s4_def s3_def keep_history_def Let_def)
  ultimately show ?thesis
    using status(1) by (intro exI [of _ s6]) (simp add: s6_def s2_def s1_def queue_push_def)
qed

lemma run_thinking:
  assumes "ready_for c turn g d s" "S_thinking \<in> set (allowed_transitions (se_state s))"
  shows "runp undisturbed (set_state c t S_thinking (Some turn) (Some (g, turn))) s
    = (Inr True, unlocked (log_out (Some g) (M_state S_thinking turn) (s\<lparr>se_state := S_thinking\<rparr>)))"
  using assms by (auto simp: run_set_state ready_for_def guarded_def is_current_def)

lemma default_chunker_ok: "chunker_ok default_chunker" "visible_text (ck_buffer default_chunker) = []"
  by (simp_all add: chunker_ok_def default_chunker_def find_split_def strong_split_def)

lemma run_clean_up: "runp undisturbed (close_iterator t stage) s = (Inr (), s)"
    "runp undisturbed (stop_task c t w) s = (Inr (), if over_status (se_status s w) then s else request_cancel w s)"
  by (simp_all add: close_iterator_def stop_task_def awaitp_def)



end
