(* ===== verification/RealtimeMetrics.thy ===== *)
theory RealtimeMetrics
  imports RealtimeAuth
begin

text \<open>
  The metrics and the health of the realtime service
  (\<^verbatim>\<open>services/realtime/src/echoweave/observability.py\<close>): latency windows with their percentiles, the
  registry of counters, gauges and latencies with its bound on the number of series, timers, and the
  registry of the health of components. Clock readings are arguments, floats are rationals, a wall clock
  reading is its number of seconds, and the locks of the threads are left out: an operation is one step.
  The messages of errors leave out the values they quote.
\<close>

section \<open>Values, names and labels\<close>

datatype health_status = H_healthy | H_degraded | H_unhealthy | H_unknown

text \<open>What a caller can pass for a number, a label or a field of metadata.\<close>

datatype scalar_value = V_none | V_bool bool | V_int int | V_float rat | V_not_finite | V_text utext | V_other

definition finite_nonnegative :: "scalar_value \<Rightarrow> py_error + rat" where
  "finite_nonnegative v =
     (case v of
        V_int i \<Rightarrow> if i < 0 then Inl (ValueError ''must be finite and non-negative'') else Inr (of_int i)
      | V_float q \<Rightarrow> if q < 0 then Inl (ValueError ''must be finite and non-negative'') else Inr q
      | V_not_finite \<Rightarrow> Inl (ValueError ''must be finite and non-negative'')
      | _ \<Rightarrow> Inl (TypeError ''must be a number''))"

definition low_letter :: "nat \<Rightarrow> bool" where
  "low_letter c \<longleftrightarrow> 97 \<le> c \<and> c \<le> 122"

text \<open>\<open>_METRIC_NAME\<close>, \<open>_COMPONENT_NAME\<close> and \<open>_LABEL_NAME\<close>: a letter and then letters, digits and the given
  characters, up to a length.\<close>

definition name_pattern :: "nat set \<Rightarrow> nat \<Rightarrow> utext \<Rightarrow> bool" where
  "name_pattern extra n s \<longleftrightarrow> s \<noteq> [] \<and> length s \<le> n \<and> low_letter (hd s)
     \<and> list_all (\<lambda>c. low_letter c \<or> udigit c \<or> c \<in> extra) (tl s)"

definition metric_name :: "utext \<Rightarrow> bool" where
  "metric_name = name_pattern {95, 46} 128"

definition component_name :: "utext \<Rightarrow> bool" where
  "component_name = name_pattern {95, 46, 45} 128"

definition label_name :: "utext \<Rightarrow> bool" where
  "label_name = name_pattern {95} 64"

definition control_free :: "utext \<Rightarrow> bool" where
  "control_free s \<longleftrightarrow> list_all (\<lambda>c. 32 \<le> c \<and> c \<noteq> 127) s"

fun occurs_in :: "utext \<Rightarrow> utext \<Rightarrow> bool" where
  "occurs_in p [] \<longleftrightarrow> p = []"
| "occurs_in p (c # s) \<longleftrightarrow> take (length p) (c # s) = p \<or> occurs_in p s"

definition sensitive_parts :: "utext list" where
  "sensitive_parts = map uni [''api_key'', ''authorization'', ''cookie'', ''credential'', ''password'', ''secret'', ''token'']"

text \<open>Only names that passed a pattern are asked, so they are lower case already.\<close>

definition sensitive_name :: "utext \<Rightarrow> bool" where
  "sensitive_name s \<longleftrightarrow> list_ex (\<lambda>p. occurs_in p s) sensitive_parts"

definition max_labels :: nat where "max_labels = 8"
definition max_label_value :: nat where "max_label_value = 128"
definition max_health_fields :: nat where "max_health_fields = 16"
definition max_health_text :: nat where "max_health_text = 512"

definition check_name :: "(utext \<Rightarrow> bool) \<Rightarrow> string \<Rightarrow> utext \<Rightarrow> py_error + utext" where
  "check_name pattern field s = (if pattern s then Inr s else Inl (ValueError (''invalid '' @ field)))"

text \<open>\<open>_normalise_labels\<close>: the items of a mapping, each checked in order, sorted by name.\<close>

definition check_label :: "utext \<Rightarrow> scalar_value \<Rightarrow> py_error + utext \<times> utext" where
  "check_label k v =
     sbind (check_name label_name ''label name'' k) (\<lambda>name.
     if sensitive_name name then Inl (ValueError ''sensitive label names are not allowed'')
     else case v of
       V_text t \<Rightarrow> if max_label_value < length t \<or> \<not> control_free t then Inl (ValueError ''invalid value for label'') else Inr (name, t)
     | _ \<Rightarrow> Inl (TypeError ''label must be a string''))"

fun check_labels :: "(utext \<times> scalar_value) list \<Rightarrow> py_error + (utext \<times> utext) list" where
  "check_labels [] = Inr []"
| "check_labels ((k, v) # items) = sbind (check_label k v) (\<lambda>l. sbind (check_labels items) (\<lambda>ls. Inr (l # ls)))"

definition normalise_labels :: "(utext \<times> scalar_value) list option \<Rightarrow> py_error + (utext \<times> utext) list" where
  "normalise_labels labels =
     (case labels of
        None \<Rightarrow> Inr []
      | Some items \<Rightarrow>
          if max_labels < length items then Inl (ValueError ''metrics may have at most 8 labels'')
          else sbind (check_labels items) (\<lambda>ls. Inr (sort ls)))"

section \<open>Latency windows\<close>

record latency_window =
  lw_size :: nat
  lw_samples :: "rat list"
  lw_count :: nat
  lw_sum :: rat
  lw_minimum :: "rat option"
  lw_maximum :: "rat option"

definition new_window :: "int \<Rightarrow> py_error + latency_window" where
  "new_window max_samples =
     (if \<not> (1 \<le> max_samples \<and> max_samples \<le> 1000000) then Inl (ValueError ''max_samples must be between 1 and 1000000'')
      else Inr \<lparr>lw_size = nat max_samples, lw_samples = [], lw_count = 0, lw_sum = 0, lw_minimum = None, lw_maximum = None\<rparr>)"

text \<open>\<open>LatencyWindow.observe\<close> after its check; the samples are a deque of bounded length.\<close>

definition add_sample :: "rat \<Rightarrow> latency_window \<Rightarrow> latency_window" where
  "add_sample v w =
     (let samples = lw_samples w @ [v] in
      w\<lparr>lw_samples := drop (length samples - lw_size w) samples, lw_count := Suc (lw_count w), lw_sum := lw_sum w + v,
        lw_minimum := Some (case lw_minimum w of None \<Rightarrow> v | Some m \<Rightarrow> min m v),
        lw_maximum := Some (case lw_maximum w of None \<Rightarrow> v | Some m \<Rightarrow> max m v)\<rparr>)"

definition observe :: "scalar_value \<Rightarrow> latency_window \<Rightarrow> (py_error + unit) \<times> latency_window" where
  "observe duration w =
     (case finite_nonnegative duration of Inl e \<Rightarrow> (Inl e, w) | Inr v \<Rightarrow> (Inr (), add_sample v w))"

definition percentile :: "rat list \<Rightarrow> rat \<Rightarrow> rat option" where
  "percentile xs p =
     (if xs = [] then None
      else let rank = of_nat (length xs - 1) * p; lower = \<lfloor>rank\<rfloor>; upper = \<lceil>rank\<rceil> in
        if lower = upper then Some (xs ! nat lower)
        else Some (xs ! nat lower + (xs ! nat upper - xs ! nat lower) * (rank - of_int lower)))"

record window_snapshot =
  ws_count :: nat
  ws_sample_count :: nat
  ws_dropped :: nat
  ws_sum :: rat
  ws_mean :: "rat option"
  ws_minimum :: "rat option"
  ws_maximum :: "rat option"
  ws_p50 :: "rat option"
  ws_p95 :: "rat option"
  ws_p99 :: "rat option"

definition snapshot_window :: "latency_window \<Rightarrow> window_snapshot" where
  "snapshot_window w =
     (let xs = sort (lw_samples w) in
      \<lparr>ws_count = lw_count w, ws_sample_count = length xs, ws_dropped = lw_count w - length xs, ws_sum = lw_sum w,
       ws_mean = (if lw_count w = 0 then None else Some (lw_sum w / of_nat (lw_count w))),
       ws_minimum = lw_minimum w, ws_maximum = lw_maximum w,
       ws_p50 = percentile xs (50 / 100), ws_p95 = percentile xs (95 / 100), ws_p99 = percentile xs (99 / 100)\<rparr>)"

section \<open>The metric registry\<close>

text \<open>A series is its name and its labels.\<close>

type_synonym series_key = "utext \<times> (utext \<times> utext) list"

record metric_registry =
  mr_max_series :: nat
  mr_samples :: int
  mr_started_at :: rat
  mr_counters :: "(series_key \<times> rat) list"
  mr_gauges :: "(series_key \<times> rat) list"
  mr_latencies :: "(series_key \<times> latency_window) list"

definition new_metric_registry :: "int \<Rightarrow> int \<Rightarrow> rat \<Rightarrow> py_error + metric_registry" where
  "new_metric_registry max_series samples now =
     (if \<not> (1 \<le> max_series \<and> max_series \<le> 100000) then Inl (ValueError ''max_series must be between 1 and 100000'')
      else sbind (new_window samples) (\<lambda>_.
        Inr \<lparr>mr_max_series = nat max_series, mr_samples = samples, mr_started_at = now, mr_counters = [], mr_gauges = [],
          mr_latencies = []\<rparr>))"

definition metric_key :: "utext \<Rightarrow> (utext \<times> scalar_value) list option \<Rightarrow> py_error + series_key" where
  "metric_key name labels =
     sbind (check_name metric_name ''metric name'' name) (\<lambda>n. sbind (normalise_labels labels) (\<lambda>ls. Inr (n, ls)))"

definition series_count :: "metric_registry \<Rightarrow> nat" where
  "series_count r = length (mr_counters r) + length (mr_gauges r) + length (mr_latencies r)"

text \<open>\<open>_reserve\<close>, with the keys of the dictionary the series belongs to; its error is a \<open>RuntimeError\<close>.\<close>

definition reserve :: "series_key \<Rightarrow> series_key list \<Rightarrow> metric_registry \<Rightarrow> py_error + unit" where
  "reserve key target r =
     (if key \<in> set target then Inr ()
      else if mr_max_series r \<le> series_count r then Inl (RuntimeError ''metric series limit would be exceeded'')
      else Inr ())"

definition increment :: "utext \<Rightarrow> scalar_value \<Rightarrow> (utext \<times> scalar_value) list option \<Rightarrow> (rat, metric_registry) op" where
  "increment name amount labels r =
     (case sbind (finite_nonnegative amount) (\<lambda>a. sbind (metric_key name labels) (\<lambda>key.
             sbind (reserve key (map fst (mr_counters r)) r) (\<lambda>_. Inr (a, key)))) of
        Inl e \<Rightarrow> (Inl e, r)
      | Inr (a, key) \<Rightarrow>
          let updated = (case map_of (mr_counters r) key of None \<Rightarrow> 0 | Some v \<Rightarrow> v) + a in
          (Inr updated, r\<lparr>mr_counters := dict_set key updated (mr_counters r)\<rparr>))"

definition gauge_number :: "scalar_value \<Rightarrow> py_error + rat" where
  "gauge_number v =
     (case v of
        V_int i \<Rightarrow> Inr (of_int i)
      | V_float q \<Rightarrow> Inr q
      | V_not_finite \<Rightarrow> Inl (ValueError ''gauge value must be finite'')
      | _ \<Rightarrow> Inl (TypeError ''gauge value must be a number''))"

definition set_gauge :: "utext \<Rightarrow> scalar_value \<Rightarrow> (utext \<times> scalar_value) list option \<Rightarrow> (unit, metric_registry) op" where
  "set_gauge name v labels r =
     (case sbind (gauge_number v) (\<lambda>q. sbind (metric_key name labels) (\<lambda>key.
             sbind (reserve key (map fst (mr_gauges r)) r) (\<lambda>_. Inr (q, key)))) of
        Inl e \<Rightarrow> (Inl e, r)
      | Inr (q, key) \<Rightarrow> (Inr (), r\<lparr>mr_gauges := dict_set key q (mr_gauges r)\<rparr>))"

definition observe_latency :: "utext \<Rightarrow> scalar_value \<Rightarrow> (utext \<times> scalar_value) list option \<Rightarrow> (unit, metric_registry) op" where
  "observe_latency name duration labels r =
     (case sbind (finite_nonnegative duration) (\<lambda>v. sbind (metric_key name labels) (\<lambda>key.
             sbind (reserve key (map fst (mr_latencies r)) r) (\<lambda>_.
             sbind (case map_of (mr_latencies r) key of None \<Rightarrow> new_window (mr_samples r) | Some w \<Rightarrow> Inr w) (\<lambda>w.
             Inr (v, key, w))))) of
        Inl e \<Rightarrow> (Inl e, r)
      | Inr (v, key, w) \<Rightarrow> (Inr (), r\<lparr>mr_latencies := dict_set key (add_sample v w) (mr_latencies r)\<rparr>))"

text \<open>\<open>timer\<close> and \<open>_MetricTimer\<close>: the series is checked before the timed operation starts.\<close>

record metric_timer =
  mt_key :: series_key
  mt_started_at :: "rat option"

definition new_timer :: "utext \<Rightarrow> (utext \<times> scalar_value) list option \<Rightarrow> py_error + metric_timer" where
  "new_timer name labels = sbind (metric_key name labels) (\<lambda>key. Inr \<lparr>mt_key = key, mt_started_at = None\<rparr>)"

definition enter_timer :: "rat \<Rightarrow> metric_timer \<Rightarrow> py_error + metric_timer" where
  "enter_timer now t =
     (if mt_started_at t \<noteq> None then Inl (RuntimeError ''timer cannot be entered more than once'')
      else Inr (t\<lparr>mt_started_at := Some now\<rparr>))"

definition finish_timer :: "rat \<Rightarrow> metric_timer \<Rightarrow> (metric_timer, metric_registry) op" where
  "finish_timer now t r =
     (case mt_started_at t of
        None \<Rightarrow> (Inl (RuntimeError ''timer was not started''), r)
      | Some start \<Rightarrow>
          (case observe_latency (fst (mt_key t)) (V_float (max 0 ((now - start) * 1000)))
                  (Some (map (\<lambda>(k, v). (k, V_text v)) (snd (mt_key t)))) r of
             (Inl e, r') \<Rightarrow> (Inl e, r')
           | (Inr _, r') \<Rightarrow> (Inr (t\<lparr>mt_started_at := None\<rparr>), r')))"

record metrics_snapshot =
  ms_generated_at :: rat
  ms_uptime :: rat
  ms_series_count :: nat
  ms_series_limit :: nat
  ms_counters :: "(series_key \<times> rat) list"
  ms_gauges :: "(series_key \<times> rat) list"
  ms_latencies :: "(series_key \<times> window_snapshot) list"

definition snapshot_metrics :: "rat \<Rightarrow> rat \<Rightarrow> metric_registry \<Rightarrow> metrics_snapshot" where
  "snapshot_metrics now wall r =
     \<lparr>ms_generated_at = wall, ms_uptime = max 0 (now - mr_started_at r), ms_series_count = series_count r,
      ms_series_limit = mr_max_series r, ms_counters = sort_key fst (mr_counters r), ms_gauges = sort_key fst (mr_gauges r),
      ms_latencies = map (\<lambda>(k, w). (k, snapshot_window w)) (sort_key fst (mr_latencies r))\<rparr>"

section \<open>The health registry\<close>

record health_component =
  hc_required :: bool
  hc_stale_after :: rat
  hc_status :: health_status
  hc_message :: "utext option"
  hc_metadata :: "(utext \<times> scalar_value) list option"
  hc_checked_monotonic :: "rat option"
  hc_checked_at :: "rat option"

record health_registry =
  hr_max_components :: nat
  hr_components :: "(utext \<times> health_component) list"

definition new_health_registry :: "int \<Rightarrow> py_error + health_registry" where
  "new_health_registry max_components =
     (if \<not> (1 \<le> max_components \<and> max_components \<le> 1024) then Inl (ValueError ''max_components must be between 1 and 1024'')
      else Inr \<lparr>hr_max_components = nat max_components, hr_components = []\<rparr>)"

definition register_component :: "utext \<Rightarrow> bool \<Rightarrow> scalar_value \<Rightarrow> (unit, health_registry) op" where
  "register_component name required stale_after r =
     (case sbind (check_name component_name ''component name'' name) (\<lambda>n. sbind (finite_nonnegative stale_after) (\<lambda>q.
             if q = 0 then Inl (ValueError ''stale_after_seconds must be greater than zero'') else Inr (n, q))) of
        Inl e \<Rightarrow> (Inl e, r)
      | Inr (n, q) \<Rightarrow>
          (case map_of (hr_components r) n of
             Some existing \<Rightarrow>
               if hc_required existing \<noteq> required \<or> hc_stale_after existing \<noteq> q
               then (Inl (ValueError ''component is already registered differently''), r) else (Inr (), r)
           | None \<Rightarrow>
               if hr_max_components r \<le> length (hr_components r)
               then (Inl (RuntimeError ''health component limit would be exceeded''), r)
               else (Inr (), r\<lparr>hr_components := dict_set n
                 \<lparr>hc_required = required, hc_stale_after = q, hc_status = H_unknown, hc_message = None, hc_metadata = None,
                  hc_checked_monotonic = None, hc_checked_at = None\<rparr> (hr_components r)\<rparr>)))"

definition health_status_text :: "health_status \<Rightarrow> utext" where
  "health_status_text s =
     uni (case s of H_healthy \<Rightarrow> ''healthy'' | H_degraded \<Rightarrow> ''degraded'' | H_unhealthy \<Rightarrow> ''unhealthy'' | H_unknown \<Rightarrow> ''unknown'')"

definition parse_status :: "utext \<Rightarrow> py_error + health_status" where
  "parse_status s =
     (case find (\<lambda>h. health_status_text h = s) [H_healthy, H_degraded, H_unhealthy, H_unknown] of
        Some h \<Rightarrow> Inr h | None \<Rightarrow> Inl (ValueError ''invalid health status''))"

definition health_text :: "utext option \<Rightarrow> string \<Rightarrow> py_error + utext option" where
  "health_text s field =
     (case s of
        None \<Rightarrow> Inr None
      | Some t \<Rightarrow> if max_health_text < length t \<or> \<not> control_free t then Inl (ValueError (''invalid '' @ field)) else Inr (Some t))"

definition check_metadata_field :: "utext \<Rightarrow> scalar_value \<Rightarrow> py_error + utext \<times> scalar_value" where
  "check_metadata_field k v =
     sbind (check_name label_name ''health metadata name'' k) (\<lambda>name.
     if sensitive_name name then Inl (ValueError ''sensitive health metadata names are not allowed'')
     else case v of
       V_text t \<Rightarrow> sbind (health_text (Some t) ''health metadata'') (\<lambda>_. Inr (name, v))
     | V_not_finite \<Rightarrow> Inl (TypeError ''health metadata must be a JSON scalar'')
     | V_other \<Rightarrow> Inl (TypeError ''health metadata must be a JSON scalar'')
     | _ \<Rightarrow> Inr (name, v))"

fun check_metadata_fields :: "(utext \<times> scalar_value) list \<Rightarrow> py_error + (utext \<times> scalar_value) list" where
  "check_metadata_fields [] = Inr []"
| "check_metadata_fields ((k, v) # items) =
     sbind (check_metadata_field k v) (\<lambda>l. sbind (check_metadata_fields items) (\<lambda>ls. Inr (l # ls)))"

text \<open>\<open>_health_metadata\<close>: the keys of a mapping are distinct, so sorting the items sorts by name.\<close>

definition health_metadata :: "(utext \<times> scalar_value) list option \<Rightarrow> py_error + (utext \<times> scalar_value) list option" where
  "health_metadata metadata =
     (case metadata of
        None \<Rightarrow> Inr None
      | Some items \<Rightarrow>
          if max_health_fields < length items then Inl (ValueError ''health metadata may have at most 16 fields'')
          else sbind (check_metadata_fields items) (\<lambda>fields. Inr (Some (sort_key fst fields))))"

definition record_health ::
    "utext \<Rightarrow> utext \<Rightarrow> utext option \<Rightarrow> (utext \<times> scalar_value) list option \<Rightarrow> rat \<Rightarrow> rat \<Rightarrow> (unit, health_registry) op" where
  "record_health name status message metadata now wall r =
     (case sbind (check_name component_name ''component name'' name) (\<lambda>n. sbind (parse_status status) (\<lambda>st.
             sbind (health_text message ''health message'') (\<lambda>msg. sbind (health_metadata metadata) (\<lambda>md.
             Inr (n, st, msg, md))))) of
        Inl e \<Rightarrow> (Inl e, r)
      | Inr (n, st, msg, md) \<Rightarrow>
          (case map_of (hr_components r) n of
             None \<Rightarrow> (Inl (KeyError ''health component is not registered''), r)
           | Some component \<Rightarrow>
               (Inr (), r\<lparr>hr_components := dict_set n (component\<lparr>hc_status := st, hc_message := msg, hc_metadata := md,
                  hc_checked_monotonic := Some now, hc_checked_at := Some wall\<rparr>) (hr_components r)\<rparr>)))"

record component_snapshot =
  co_name :: utext
  co_required :: bool
  co_status :: health_status
  co_reported :: health_status
  co_stale :: bool
  co_stale_after :: rat
  co_age :: "rat option"
  co_checked_at :: "rat option"
  co_message :: "utext option"
  co_metadata :: "(utext \<times> scalar_value) list"

definition component_age :: "rat \<Rightarrow> health_component \<Rightarrow> rat option" where
  "component_age now c = map_option (\<lambda>t. max 0 (now - t)) (hc_checked_monotonic c)"

definition component_stale :: "rat \<Rightarrow> health_component \<Rightarrow> bool" where
  "component_stale now c = (case component_age now c of None \<Rightarrow> False | Some age \<Rightarrow> hc_stale_after c < age)"

definition effective_status :: "rat \<Rightarrow> health_component \<Rightarrow> health_status" where
  "effective_status now c = (if component_stale now c then H_unknown else hc_status c)"

definition snapshot_component :: "rat \<Rightarrow> utext \<times> health_component \<Rightarrow> component_snapshot" where
  "snapshot_component now nc =
     (case nc of (name, c) \<Rightarrow>
       \<lparr>co_name = name, co_required = hc_required c, co_status = effective_status now c, co_reported = hc_status c,
        co_stale = component_stale now c, co_stale_after = hc_stale_after c, co_age = component_age now c,
        co_checked_at = hc_checked_at c, co_message = hc_message c,
        co_metadata = (case hc_metadata c of None \<Rightarrow> [] | Some md \<Rightarrow> md)\<rparr>)"

text \<open>The flags the loop of \<open>HealthRegistry.snapshot\<close> keeps: a required component is unhealthy, a required
  one is not ready, any one is degraded.\<close>

fun health_flags :: "rat \<Rightarrow> health_component list \<Rightarrow> bool \<times> bool \<times> bool \<Rightarrow> bool \<times> bool \<times> bool" where
  "health_flags now [] flags = flags"
| "health_flags now (c # cs) (required_unhealthy, required_not_ready, any_degraded) =
     (let st = effective_status now c in
      health_flags now cs
        (if hc_required c
         then (required_unhealthy \<or> st = H_unhealthy, required_not_ready \<or> st \<in> {H_unknown, H_unhealthy},
               any_degraded \<or> st \<noteq> H_healthy)
         else (required_unhealthy, required_not_ready, any_degraded \<or> st \<in> {H_degraded, H_unhealthy})))"

record health_snapshot =
  hl_generated_at :: rat
  hl_status :: health_status
  hl_ready :: bool
  hl_components :: "component_snapshot list"

definition snapshot_health :: "rat \<Rightarrow> rat \<Rightarrow> health_registry \<Rightarrow> health_snapshot" where
  "snapshot_health now wall r =
     (let components = sort_key fst (hr_components r) in
      case health_flags now (map snd components) (False, False, False) of
        (required_unhealthy, required_not_ready, any_degraded) \<Rightarrow>
          \<lparr>hl_generated_at = wall,
           hl_status = (if components = [] then H_unknown else if required_unhealthy then H_unhealthy
             else if any_degraded then H_degraded else H_healthy),
           hl_ready = (components \<noteq> [] \<and> \<not> required_not_ready),
           hl_components = map (snapshot_component now) components\<rparr>)"

end
