(* ===== verification/RealtimeMonitor.thy ===== *)
theory RealtimeMonitor
  imports RealtimeMetrics
begin

text \<open>
  The properties of the metrics and the health of the realtime service: the registry stays within its
  bounds and its counters do not fall, a latency window summarises exactly what it observed, and the
  readiness of the service is that of its required components.
\<close>

section \<open>Percentiles\<close>

text \<open>The value at a rank between the samples, by linear interpolation.\<close>

definition at_rank :: "rat list \<Rightarrow> rat \<Rightarrow> rat" where
  "at_rank xs r = xs ! nat \<lfloor>r\<rfloor> + (xs ! nat \<lceil>r\<rceil> - xs ! nat \<lfloor>r\<rfloor>) * (r - of_int \<lfloor>r\<rfloor>)"

lemma percentile_at_rank: "xs \<noteq> [] \<Longrightarrow> percentile xs p = Some (at_rank xs (of_nat (length xs - 1) * p))"
  by (simp add: percentile_def at_rank_def Let_def)

lemma rank_indices:
  assumes "0 \<le> r" "r \<le> of_nat (length xs - 1)" "xs \<noteq> []"
  shows "nat \<lfloor>r\<rfloor> \<le> nat \<lceil>r\<rceil>" "nat \<lceil>r\<rceil> < length xs"
proof -
  have "\<lceil>r\<rceil> \<le> int (length xs - 1)" using assms(2) by (simp add: ceiling_le_iff)
  with assms(3) show "nat \<lceil>r\<rceil> < length xs" by (cases xs) auto
  show "nat \<lfloor>r\<rfloor> \<le> nat \<lceil>r\<rceil>" by (simp add: nat_mono floor_le_ceiling)
qed

lemma at_rank_between:
  assumes "sorted xs" "0 \<le> r" "r \<le> of_nat (length xs - 1)" "xs \<noteq> []"
  shows "xs ! nat \<lfloor>r\<rfloor> \<le> at_rank xs r" "at_rank xs r \<le> xs ! nat \<lceil>r\<rceil>"
proof -
  define d where "d = xs ! nat \<lceil>r\<rceil> - xs ! nat \<lfloor>r\<rfloor>"
  define f where "f = r - of_int \<lfloor>r\<rfloor>"
  have d: "0 \<le> d" using rank_indices [OF assms(2-4)] assms(1) by (simp add: d_def sorted_nth_mono)
  have f: "0 \<le> f" "f \<le> 1" unfolding f_def by linarith+
  have "0 \<le> d * f" "d * f \<le> d" using d f by (simp_all add: mult_left_le)
  then show "xs ! nat \<lfloor>r\<rfloor> \<le> at_rank xs r" "at_rank xs r \<le> xs ! nat \<lceil>r\<rceil>"
    by (simp_all add: at_rank_def d_def f_def)
qed

lemma at_rank_mono:
  assumes "sorted xs" "0 \<le> r" "r \<le> s" "s \<le> of_nat (length xs - 1)" "xs \<noteq> []"
  shows "at_rank xs r \<le> at_rank xs s"
proof (cases "\<lfloor>r\<rfloor> = \<lfloor>s\<rfloor>")
  case True
  show ?thesis
  proof (cases "r = of_int \<lfloor>r\<rfloor>")
    case exact: True
    then have "at_rank xs r = xs ! nat \<lfloor>s\<rfloor>" using True by (simp add: at_rank_def)
    also have "\<dots> \<le> at_rank xs s" using assms by (intro at_rank_between) auto
    finally show ?thesis .
  next
    case False
    have "\<lceil>r\<rceil> = \<lfloor>r\<rfloor> + 1" using False by linarith
    moreover have "\<lceil>s\<rceil> = \<lfloor>s\<rfloor> + 1" using False True assms(3) by linarith
    ultimately have same: "\<lceil>r\<rceil> = \<lceil>s\<rceil>" using True by simp
    have "0 \<le> xs ! nat \<lceil>s\<rceil> - xs ! nat \<lfloor>s\<rfloor>"
      using rank_indices [of s xs] assms by (simp add: sorted_nth_mono)
    then have "(xs ! nat \<lceil>s\<rceil> - xs ! nat \<lfloor>s\<rfloor>) * (r - of_int \<lfloor>s\<rfloor>) \<le> (xs ! nat \<lceil>s\<rceil> - xs ! nat \<lfloor>s\<rfloor>) * (s - of_int \<lfloor>s\<rfloor>)"
      using assms(3) by (intro mult_left_mono) auto
    then show ?thesis using True same by (simp add: at_rank_def)
  qed
next
  case False
  then have "\<lfloor>r\<rfloor> < \<lfloor>s\<rfloor>" using floor_mono [OF assms(3)] by simp
  then have "\<lceil>r\<rceil> \<le> \<lfloor>s\<rfloor>" by linarith
  then have i: "nat \<lceil>r\<rceil> \<le> nat \<lfloor>s\<rfloor>" by (simp add: nat_mono)
  have "at_rank xs r \<le> xs ! nat \<lceil>r\<rceil>" using assms by (intro at_rank_between) auto
  also have "\<dots> \<le> xs ! nat \<lfloor>s\<rfloor>"
    using i rank_indices [of s xs] assms by (intro sorted_nth_mono) auto
  also have "\<dots> \<le> at_rank xs s" using assms by (intro at_rank_between) auto
  finally show ?thesis .
qed

lemma percentiles_ordered:
  assumes "sorted xs" "xs \<noteq> []"
  shows "\<exists>a b c. percentile xs (50 / 100) = Some a \<and> percentile xs (95 / 100) = Some b \<and> percentile xs (99 / 100) = Some c
    \<and> hd xs \<le> a \<and> a \<le> b \<and> b \<le> c \<and> c \<le> last xs"
proof -
  define n where "n = (of_nat (length xs - 1) :: rat)"
  have n: "0 \<le> n" by (simp add: n_def)
  have r: "0 \<le> n * (50 / 100)" "n * (50 / 100) \<le> n * (95 / 100)" "n * (95 / 100) \<le> n * (99 / 100)" "n * (99 / 100) \<le> n"
    "n * (95 / 100) \<le> n" "n * (50 / 100) \<le> n" "0 \<le> n * (95 / 100)"
    using n by simp_all
  have "hd xs = at_rank xs 0" using assms(2) by (simp add: at_rank_def hd_conv_nth)
  moreover have "last xs = at_rank xs n" using assms(2) by (simp add: n_def at_rank_def last_conv_nth)
  moreover have "at_rank xs 0 \<le> at_rank xs (n * (50 / 100))" "at_rank xs (n * (50 / 100)) \<le> at_rank xs (n * (95 / 100))"
    "at_rank xs (n * (95 / 100)) \<le> at_rank xs (n * (99 / 100))" "at_rank xs (n * (99 / 100)) \<le> at_rank xs n"
    using r n assms by (auto intro!: at_rank_mono simp: n_def)
  ultimately show ?thesis using assms(2) by (simp add: percentile_at_rank n_def)
qed

section \<open>A window\<close>

definition recent :: "nat \<Rightarrow> 'a list \<Rightarrow> 'a list" where
  "recent n xs = drop (length xs - n) xs"

lemma recent_step: "recent n (recent n xs @ [x]) = recent n (xs @ [x])"
  by (cases "length xs \<le> n") (auto simp: recent_def Suc_diff_le)

text \<open>What a window holds after some observations.\<close>

definition window_of :: "nat \<Rightarrow> rat list \<Rightarrow> latency_window" where
  "window_of n vs = \<lparr>lw_size = n, lw_samples = recent n vs, lw_count = length vs, lw_sum = sum_list vs,
     lw_minimum = (if vs = [] then None else Some (Min (set vs))), lw_maximum = (if vs = [] then None else Some (Max (set vs)))\<rparr>"

lemma add_window_of: "add_sample v (window_of n vs) = window_of n (vs @ [v])"
proof -
  have "Min (insert v (set vs)) = min (Min (set vs)) v" "Max (insert v (set vs)) = max (Max (set vs)) v" if "vs \<noteq> []"
    using that by (simp_all add: min.commute max.commute)
  then show ?thesis
    using recent_step [of n vs v] by (simp add: window_of_def add_sample_def Let_def recent_def)
qed

lemma fold_window_of: "fold add_sample us (window_of n vs) = window_of n (vs @ us)"
  by (induction us arbitrary: vs) (simp_all add: add_window_of)

text \<open>
  The summary of a latency window is exact: after any observations it counts all of them, with
  their sum, mean, least and greatest, its percentiles are those of the most recent ones that fit, and
  they are in order between the least and the greatest.
\<close>

theorem window_summary:
  assumes "new_window n = Inr w" "vs \<noteq> []"
  shows "\<exists>a b c. let x = snapshot_window (fold add_sample vs w); xs = sort (recent (nat n) vs) in
     ws_count x = length vs \<and> ws_sample_count x = min (nat n) (length vs) \<and> ws_dropped x = length vs - nat n
     \<and> ws_sum x = sum_list vs \<and> ws_mean x = Some (sum_list vs / of_nat (length vs))
     \<and> ws_minimum x = Some (Min (set vs)) \<and> ws_maximum x = Some (Max (set vs))
     \<and> ws_p50 x = Some a \<and> ws_p95 x = Some b \<and> ws_p99 x = Some c
     \<and> percentile xs (50 / 100) = Some a \<and> percentile xs (95 / 100) = Some b \<and> percentile xs (99 / 100) = Some c
     \<and> Min (set vs) \<le> a \<and> a \<le> b \<and> b \<le> c \<and> c \<le> Max (set vs)"
proof -
  have n: "1 \<le> nat n" and w: "w = window_of (nat n) []"
    using assms(1) by (auto simp: new_window_def window_of_def recent_def split: if_splits)
  define xs where "xs = sort (recent (nat n) vs)"
  have len: "length xs = min (nat n) (length vs)" by (auto simp: xs_def recent_def)
  then have "length xs \<noteq> 0" using assms(2) n by auto
  then have "xs \<noteq> []" by simp
  moreover have "sorted xs" "set xs \<subseteq> set vs" by (auto simp: xs_def recent_def dest: in_set_dropD)
  ultimately have xs: "xs \<noteq> []" "sorted xs" "set xs \<subseteq> set vs" by simp_all
  obtain a b c where p: "percentile xs (50 / 100) = Some a" "percentile xs (95 / 100) = Some b" "percentile xs (99 / 100) = Some c"
    "hd xs \<le> a" "a \<le> b" "b \<le> c" "c \<le> last xs"
    using percentiles_ordered [OF xs(2,1)] by blast
  have "Min (set vs) \<le> hd xs" "last xs \<le> Max (set vs)" using xs by (auto intro!: Min_le Max_ge)
  then have bounds: "Min (set vs) \<le> a" "c \<le> Max (set vs)" using p by linarith+
  have "fold add_sample vs w = window_of (nat n) vs" using fold_window_of [of vs "nat n" "[]"] w by simp
  then have x: "snapshot_window (fold add_sample vs w) = \<lparr>ws_count = length vs, ws_sample_count = length xs,
      ws_dropped = length vs - length xs, ws_sum = sum_list vs, ws_mean = Some (sum_list vs / of_nat (length vs)),
      ws_minimum = Some (Min (set vs)), ws_maximum = Some (Max (set vs)), ws_p50 = Some a, ws_p95 = Some b, ws_p99 = Some c\<rparr>"
    using assms(2) p by (simp add: snapshot_window_def Let_def window_of_def xs_def)
  have len: "length xs = min (nat n) (length vs)" "length vs - length xs = length vs - nat n" using len by simp_all
  show ?thesis
    unfolding x Let_def xs_def [symmetric]
    by (intro exI [of _ a] exI [of _ b] exI [of _ c]) (use p bounds len in simp)
qed

theorem window_summary_witness:
  "\<exists>a b c. let x = snapshot_window (fold add_sample [4, 1, 3] \<lparr>lw_size = 2, lw_samples = [], lw_count = 0, lw_sum = 0,
       lw_minimum = None, lw_maximum = None\<rparr>) in
     ws_count x = 3 \<and> ws_dropped x = 1 \<and> ws_minimum x = Some 1 \<and> ws_maximum x = Some 4
     \<and> ws_p50 x = Some a \<and> ws_p95 x = Some b \<and> ws_p99 x = Some c \<and> 1 \<le> a \<and> a \<le> b \<and> b \<le> c \<and> c \<le> 4"
proof -
  have w: "new_window 2 = Inr \<lparr>lw_size = 2, lw_samples = [], lw_count = 0, lw_sum = 0, lw_minimum = None, lw_maximum = None\<rparr>"
    by (simp add: new_window_def)
  show ?thesis
    using window_summary [OF w, of "[4, 1, 3]"] by (auto simp: Let_def)
qed

section \<open>The registry\<close>

definition label_ok :: "utext \<times> utext \<Rightarrow> bool" where
  "label_ok l \<longleftrightarrow> label_name (fst l) \<and> \<not> sensitive_name (fst l) \<and> length (snd l) \<le> max_label_value \<and> control_free (snd l)"

definition key_ok :: "series_key \<Rightarrow> bool" where
  "key_ok key \<longleftrightarrow> metric_name (fst key) \<and> length (snd key) \<le> max_labels \<and> sorted (snd key) \<and> list_all label_ok (snd key)"

lemma check_labels_ok: "check_labels items = Inr ls \<Longrightarrow> length ls = length items \<and> list_all label_ok ls"
  by (induction items arbitrary: ls rule: check_labels.induct)
    (auto simp: check_label_def check_name_def label_ok_def split: if_splits scalar_value.splits)

lemma metric_key_ok: "metric_key name labels = Inr key \<Longrightarrow> key_ok key"
  by (auto simp: metric_key_def check_name_def normalise_labels_def key_ok_def list_all_iff dest!: check_labels_ok
      split: if_splits option.splits)

definition table_ok :: "(series_key \<times> 'a) list \<Rightarrow> ('a \<Rightarrow> bool) \<Rightarrow> bool" where
  "table_ok t P \<longleftrightarrow> distinct (map fst t) \<and> list_all (\<lambda>(k, v). key_ok k \<and> P v) t"

definition metrics_ok :: "metric_registry \<Rightarrow> bool" where
  "metrics_ok r \<longleftrightarrow> series_count r \<le> mr_max_series r \<and> table_ok (mr_counters r) (\<lambda>v. 0 \<le> v) \<and> table_ok (mr_gauges r) (\<lambda>_. True)
     \<and> table_ok (mr_latencies r) (\<lambda>w. length (lw_samples w) \<le> lw_size w \<and> lw_size w = nat (mr_samples r))"

lemma table_ok_set: "table_ok t P \<Longrightarrow> key_ok k \<Longrightarrow> P v \<Longrightarrow> table_ok (dict_set k v t) P"
  by (simp add: table_ok_def dict_set_distinct dict_set_all)

lemma table_ok_get: "table_ok t P \<Longrightarrow> map_of t k = Some v \<Longrightarrow> P v"
  by (auto simp: table_ok_def list_all_iff dest!: map_of_SomeD)

lemma length_dict_set: "length (dict_set k v t) = (if k \<in> fst ` set t then length t else Suc (length t))"
  by (induction k v t rule: dict_set.induct) auto

lemma reserved: "reserve key (map fst t) r = Inr u \<Longrightarrow> key \<in> fst ` set t \<or> series_count r < mr_max_series r"
  by (auto simp: reserve_def split: if_splits)

lemma finite_nonnegative_ok: "finite_nonnegative v = Inr q \<Longrightarrow> 0 \<le> q"
  by (auto simp: finite_nonnegative_def split: scalar_value.splits if_splits)

text \<open>One call of a method.\<close>

inductive metrics_step :: "metric_registry \<Rightarrow> metric_registry \<Rightarrow> bool" where
  counter: "metrics_step r (snd (increment name v labels r))"
| gauge: "metrics_step r (snd (set_gauge name v labels r))"
| latency: "metrics_step r (snd (observe_latency name v labels r))"
| timed: "metrics_step r (snd (finish_timer now t r))"

lemma increment_cases:
  obtains "snd (increment name v labels r) = r"
  | a key old where "snd (increment name v labels r) = r\<lparr>mr_counters := dict_set key (old + a) (mr_counters r)\<rparr>"
      "0 \<le> a" "key_ok key" "reserve key (map fst (mr_counters r)) r = Inr ()"
      "old = (case map_of (mr_counters r) key of None \<Rightarrow> 0 | Some v \<Rightarrow> v)"
proof (cases "sbind (finite_nonnegative v) (\<lambda>a. sbind (metric_key name labels) (\<lambda>key.
             sbind (reserve key (map fst (mr_counters r)) r) (\<lambda>_. Inr (a, key))))")
  case (Inr x)
  then show ?thesis
    using that(2) by (cases x) (auto simp: increment_def Let_def finite_nonnegative_ok metric_key_ok)
qed (use that(1) in \<open>simp add: increment_def\<close>)

lemma set_gauge_cases:
  obtains "snd (set_gauge name v labels r) = r"
  | q key where "snd (set_gauge name v labels r) = r\<lparr>mr_gauges := dict_set key q (mr_gauges r)\<rparr>"
      "key_ok key" "reserve key (map fst (mr_gauges r)) r = Inr ()"
proof (cases "sbind (gauge_number v) (\<lambda>q. sbind (metric_key name labels) (\<lambda>key.
             sbind (reserve key (map fst (mr_gauges r)) r) (\<lambda>_. Inr (q, key))))")
  case (Inr x)
  then show ?thesis
    using that(2) by (cases x) (auto simp: set_gauge_def metric_key_ok)
qed (use that(1) in \<open>simp add: set_gauge_def\<close>)

lemma observe_latency_cases:
  obtains "snd (observe_latency name v labels r) = r"
  | q key w where "snd (observe_latency name v labels r) = r\<lparr>mr_latencies := dict_set key (add_sample q w) (mr_latencies r)\<rparr>"
      "key_ok key" "reserve key (map fst (mr_latencies r)) r = Inr ()"
      "map_of (mr_latencies r) key = Some w \<or> new_window (mr_samples r) = Inr w"
proof (cases "sbind (finite_nonnegative v) (\<lambda>v. sbind (metric_key name labels) (\<lambda>key.
             sbind (reserve key (map fst (mr_latencies r)) r) (\<lambda>_.
             sbind (case map_of (mr_latencies r) key of None \<Rightarrow> new_window (mr_samples r) | Some w \<Rightarrow> Inr w) (\<lambda>w.
             Inr (v, key, w)))))")
  case (Inr x)
  obtain q key w where x: "x = (q, key, w)" by (cases x)
  have "snd (observe_latency name v labels r) = r\<lparr>mr_latencies := dict_set key (add_sample q w) (mr_latencies r)\<rparr>"
    unfolding observe_latency_def Inr x by simp
  moreover have "key_ok key" "reserve key (map fst (mr_latencies r)) r = Inr ()" "map_of (mr_latencies r) key = Some w \<or> new_window (mr_samples r) = Inr w"
    using Inr x by (auto simp: metric_key_ok split: option.splits)
  ultimately show ?thesis by (rule that(2))
qed (use that(1) in \<open>simp add: observe_latency_def\<close>)

lemma increment_ok: "metrics_ok r \<Longrightarrow> metrics_ok (snd (increment name v labels r))"
proof (cases rule: increment_cases [of name v labels r])
  case (2 a key old)
  assume ok: "metrics_ok r"
  then have "0 \<le> old + a" using 2(2,5) table_ok_get [of "mr_counters r"] by (fastforce simp: metrics_ok_def split: option.split)
  then show ?thesis
    using ok 2(1,3) reserved [OF 2(4)] by (auto simp: metrics_ok_def table_ok_set series_count_def length_dict_set)
qed simp

lemma set_gauge_ok: "metrics_ok r \<Longrightarrow> metrics_ok (snd (set_gauge name v labels r))"
proof (cases rule: set_gauge_cases [of name v labels r])
  case (2 q key)
  assume "metrics_ok r"
  then show ?thesis
    using 2(1,2) reserved [OF 2(3)] by (auto simp: metrics_ok_def table_ok_set series_count_def length_dict_set)
qed simp

lemma observe_latency_ok: "metrics_ok r \<Longrightarrow> metrics_ok (snd (observe_latency name v labels r))"
proof (cases rule: observe_latency_cases [of name v labels r])
  case (2 q key w)
  assume ok: "metrics_ok r"
  have "lw_size w = nat (mr_samples r)"
    using 2(4) ok table_ok_get [of "mr_latencies r"] by (fastforce simp: metrics_ok_def new_window_def split: if_splits)
  then show ?thesis
    using ok 2(1,2) reserved [OF 2(3)]
    by (auto simp: metrics_ok_def table_ok_set series_count_def length_dict_set add_sample_def Let_def)
qed simp

lemma finish_timer_state: "\<exists>name v labels. snd (finish_timer now t r) = r \<or> snd (finish_timer now t r) = snd (observe_latency name v labels r)"
  by (auto simp: finish_timer_def split: option.split prod.split sum.split) (metis snd_conv)+

lemma metrics_step_ok:
  assumes "metrics_ok r" "metrics_step r r'"
  shows "metrics_ok r'"
  using assms(2)
proof cases
  case (timed now t)
  then show ?thesis using finish_timer_state [of now t r] observe_latency_ok [OF assms(1)] assms(1) by metis
qed (simp_all add: increment_ok set_gauge_ok observe_latency_ok assms(1))

definition counters_grow :: "metric_registry \<Rightarrow> metric_registry \<Rightarrow> bool" where
  "counters_grow r r' \<longleftrightarrow> (\<forall>key v. map_of (mr_counters r) key = Some v \<longrightarrow> (\<exists>v'. map_of (mr_counters r') key = Some v' \<and> v \<le> v'))
     \<and> mr_max_series r' = mr_max_series r \<and> mr_samples r' = mr_samples r"

lemma counters_grow_refl: "counters_grow r r"
  by (simp add: counters_grow_def)

lemma counters_grow_trans: "counters_grow r r' \<Longrightarrow> counters_grow r' r'' \<Longrightarrow> counters_grow r r''"
  unfolding counters_grow_def by (metis order_trans)

lemma observe_latency_grow: "counters_grow r (snd (observe_latency name v labels r))"
  by (cases rule: observe_latency_cases [of name v labels r]) (simp_all add: counters_grow_def)

lemma metrics_step_grow:
  assumes "metrics_step r r'"
  shows "counters_grow r r'"
  using assms
proof cases
  case (counter name v labels)
  then show ?thesis
    by (cases rule: increment_cases [of name v labels r]) (auto simp: counters_grow_def dict_set_update split: option.split)
next
  case (gauge name v labels)
  then show ?thesis by (cases rule: set_gauge_cases [of name v labels r]) (simp_all add: counters_grow_def)
next
  case (timed now t)
  then show ?thesis using finish_timer_state [of now t r] observe_latency_grow counters_grow_refl by metis
qed (simp add: observe_latency_grow)

lemma many_steps_grow: "metrics_step\<^sup>*\<^sup>* r r' \<Longrightarrow> counters_grow r r'"
  by (induction rule: rtranclp_induct) (auto intro: counters_grow_refl counters_grow_trans metrics_step_grow)

definition fresh_registry :: "metric_registry \<Rightarrow> bool" where
  "fresh_registry r \<longleftrightarrow> (\<exists>m n now. new_metric_registry m n now = Inr r)"

interpretation metrics: invariant_system fresh_registry metrics_step metrics_ok
proof
  show "fresh_registry r \<Longrightarrow> metrics_ok r" for r
    by (auto simp: fresh_registry_def new_metric_registry_def metrics_ok_def table_ok_def series_count_def split: if_splits)
qed (rule metrics_step_ok)

text \<open>
  The metric registry stays within its bounds: whatever is called on it, it never holds more series
  than its limit or a window more samples than its size, every label is well formed, at most eight to a
  series and none with a sensitive name, and no counter falls or disappears.
\<close>

theorem metrics_bounded:
  assumes "new_metric_registry m n now = Inr r0" "metrics_step\<^sup>*\<^sup>* r0 r" "metrics_step\<^sup>*\<^sup>* r r'"
  shows "series_count r \<le> nat m \<and> list_all (\<lambda>(key, w). length (lw_samples w) \<le> nat n) (mr_latencies r)
    \<and> list_all key_ok (map fst (mr_counters r) @ map fst (mr_gauges r) @ map fst (mr_latencies r))
    \<and> (\<forall>key v. map_of (mr_counters r) key = Some v \<longrightarrow> (\<exists>v'. map_of (mr_counters r') key = Some v' \<and> v \<le> v'))"
proof -
  have r0: "fresh_registry r0" "mr_max_series r0 = nat m" "mr_samples r0 = n"
    using assms(1) by (auto simp: fresh_registry_def new_metric_registry_def split: if_splits)
  have "metrics.reach r0" using r0(1) by (rule metrics.reach_init)
  then have "metrics_ok r" using metrics.reach_steps [OF assms(2)] metrics.reach_inv by blast
  then show ?thesis
    using many_steps_grow [OF assms(2)] many_steps_grow [OF assms(3)] r0
    by (auto simp: metrics_ok_def table_ok_def counters_grow_def list_all_iff)
qed

theorem metrics_bounded_witness:
  "series_count (snd (increment (uni ''turns'') (V_int 2) None (snd (increment (uni ''turns'') (V_int 1) None
     \<lparr>mr_max_series = 1, mr_samples = 1, mr_started_at = 0, mr_counters = [], mr_gauges = [], mr_latencies = []\<rparr>)))) \<le> 1"
proof -
  define r where "r = \<lparr>mr_max_series = 1, mr_samples = 1, mr_started_at = 0, mr_counters = [], mr_gauges = [], mr_latencies = []\<rparr>"
  define r1 where "r1 = snd (increment (uni ''turns'') (V_int 1) None r)"
  define r2 where "r2 = snd (increment (uni ''turns'') (V_int 2) None r1)"
  have new: "new_metric_registry 1 1 0 = Inr r" by (simp add: r_def new_metric_registry_def new_window_def)
  have "metrics_step r r1" "metrics_step r1 r2" unfolding r1_def r2_def by (rule metrics_step.counter)+
  then have steps: "metrics_step\<^sup>*\<^sup>* r r2" by (meson converse_rtranclp_into_rtranclp rtranclp.rtrancl_refl)
  show ?thesis
    using metrics_bounded [OF new steps rtranclp.rtrancl_refl] by (simp add: r2_def r1_def r_def)
qed

section \<open>Readiness\<close>

lemma health_flags_are: "health_flags now cs (a, b, d) =
    (a \<or> list_ex (\<lambda>c. hc_required c \<and> effective_status now c = H_unhealthy) cs,
     b \<or> list_ex (\<lambda>c. hc_required c \<and> effective_status now c \<in> {H_unknown, H_unhealthy}) cs,
     d \<or> list_ex (\<lambda>c. if hc_required c then effective_status now c \<noteq> H_healthy else effective_status now c \<in> {H_degraded, H_unhealthy}) cs)"
  by (induction cs arbitrary: a b d) (auto simp: Let_def)

text \<open>What one component says: it was checked, not longer ago than it may be, and with which result.\<close>

definition fresh_result :: "rat \<Rightarrow> health_component \<Rightarrow> health_status option" where
  "fresh_result now c =
     (case hc_checked_monotonic c of
        None \<Rightarrow> None
      | Some t \<Rightarrow> if now - t \<le> hc_stale_after c then Some (hc_status c) else None)"

definition health_ok :: "health_registry \<Rightarrow> bool" where
  "health_ok r \<longleftrightarrow> distinct (map fst (hr_components r)) \<and> length (hr_components r) \<le> hr_max_components r
     \<and> list_all (\<lambda>(n, c). component_name n \<and> 0 < hc_stale_after c \<and> (hc_checked_monotonic c = None \<longrightarrow> hc_status c = H_unknown))
         (hr_components r)"

inductive health_step :: "health_registry \<Rightarrow> health_registry \<Rightarrow> bool" where
  "health_step r (snd (register_component name required q r))"
| "health_step r (snd (record_health name status message metadata now wall r))"

lemma health_ok_set:
  assumes "health_ok r" "component_name n" "0 < hc_stale_after c" "hc_checked_monotonic c = None \<longrightarrow> hc_status c = H_unknown"
    "n \<in> fst ` set (hr_components r) \<or> length (hr_components r) < hr_max_components r"
  shows "health_ok (r\<lparr>hr_components := dict_set n c (hr_components r)\<rparr>)"
  using assms by (auto simp: health_ok_def dict_set_distinct dict_set_all length_dict_set)

lemma register_ok:
  assumes "health_ok r"
  shows "health_ok (snd (register_component name required q r))"
proof -
  have "0 \<le> x" if "finite_nonnegative q = Inr x" for x using that by (rule finite_nonnegative_ok)
  then show ?thesis
    using assms by (auto simp: register_component_def check_name_def less_le split: sum.split option.split if_splits prod.split
      intro!: health_ok_set)
qed

lemma record_ok:
  assumes "health_ok r"
  shows "health_ok (snd (record_health name status message metadata now wall r))"
proof -
  have "0 < hc_stale_after c \<and> name \<in> fst ` set (hr_components r)" if "map_of (hr_components r) name = Some c" for c
    using map_of_SomeD [OF that] assms by (force simp: health_ok_def list_all_iff)
  then show ?thesis
    using assms by (auto simp: record_health_def check_name_def split: sum.split option.split if_splits prod.split
      intro!: health_ok_set)
qed

interpretation health: invariant_system "\<lambda>r. \<exists>m. new_health_registry m = Inr r" health_step health_ok
proof
  show "\<exists>m. new_health_registry m = Inr r \<Longrightarrow> health_ok r" for r
    by (auto simp: new_health_registry_def health_ok_def split: if_splits)
  show "health_ok r \<Longrightarrow> health_step r r' \<Longrightarrow> health_ok r'" for r r'
    by (auto elim!: health_step.cases intro: register_ok record_ok)
qed

lemma effective_fresh:
  assumes "0 < hc_stale_after c" "hc_checked_monotonic c = None \<longrightarrow> hc_status c = H_unknown"
  shows "effective_status now c = (case fresh_result now c of None \<Rightarrow> H_unknown | Some st \<Rightarrow> st)"
  using assms by (cases "hc_checked_monotonic c") (auto simp: effective_status_def component_stale_def component_age_def fresh_result_def)

text \<open>
  In every state a registry of health can reach, the service is ready exactly when it has components
  and every required one was checked recently enough and was not unhealthy or unknown then, and it is
  healthy exactly when it has components, every required one is freshly healthy and no optional one
  freshly degraded or unhealthy.
\<close>

theorem readiness_exact:
  assumes "new_health_registry m = Inr r0" "health_step\<^sup>*\<^sup>* r0 r"
  shows "(hl_ready (snapshot_health now wall r) \<longleftrightarrow> hr_components r \<noteq> []
       \<and> list_all (\<lambda>(n, c). hc_required c \<longrightarrow> fresh_result now c \<in> {Some H_healthy, Some H_degraded}) (hr_components r))
    \<and> (hl_status (snapshot_health now wall r) = H_healthy \<longleftrightarrow> hr_components r \<noteq> []
       \<and> list_all (\<lambda>(n, c). if hc_required c then fresh_result now c = Some H_healthy
            else fresh_result now c \<notin> {Some H_degraded, Some H_unhealthy}) (hr_components r))"
proof -
  have "health.reach r0" using assms(1) by (intro health.reach_init) blast
  then have "health_ok r" using health.reach_steps [OF assms(2)] health.reach_inv by blast
  then have eff: "effective_status now c = (case fresh_result now c of None \<Rightarrow> H_unknown | Some st \<Rightarrow> st)"
    if "(n, c) \<in> set (hr_components r)" for n c
    using that by (intro effective_fresh) (auto simp: health_ok_def list_all_iff)
  have st: "effective_status now c = H_healthy \<longleftrightarrow> fresh_result now c = Some H_healthy"
    "effective_status now c \<in> {H_unknown, H_unhealthy} \<longleftrightarrow> fresh_result now c \<notin> {Some H_healthy, Some H_degraded}"
    "effective_status now c \<in> {H_degraded, H_unhealthy} \<longleftrightarrow> fresh_result now c \<in> {Some H_degraded, Some H_unhealthy}"
    if "(n, c) \<in> set (hr_components r)" for n c
    unfolding eff [OF that] by (auto split: option.splits) (metis health_status.exhaust)+
  have empty: "sort_key fst (hr_components r) = [] \<longleftrightarrow> hr_components r = []"
    by (metis length_0_conv length_sort)
  have unhealthy: "effective_status now c = H_unhealthy \<Longrightarrow> effective_status now c \<noteq> H_healthy" for c by simp
  have "hl_ready (snapshot_health now wall r) \<longleftrightarrow> hr_components r \<noteq> []
      \<and> (\<forall>(n, c) \<in> set (hr_components r). hc_required c \<longrightarrow> effective_status now c \<notin> {H_unknown, H_unhealthy})"
    unfolding snapshot_health_def Let_def health_flags_are by (auto simp: empty list_ex_iff)
  moreover have "hl_status (snapshot_health now wall r) = H_healthy \<longleftrightarrow> hr_components r \<noteq> []
      \<and> (\<forall>(n, c) \<in> set (hr_components r). if hc_required c then effective_status now c = H_healthy
           else effective_status now c \<notin> {H_degraded, H_unhealthy})"
    unfolding snapshot_health_def Let_def health_flags_are by (auto simp: empty list_ex_iff split: if_splits)
  moreover have "(\<forall>(n, c) \<in> set (hr_components r). hc_required c \<longrightarrow> effective_status now c \<notin> {H_unknown, H_unhealthy})
      \<longleftrightarrow> list_all (\<lambda>(n, c). hc_required c \<longrightarrow> fresh_result now c \<in> {Some H_healthy, Some H_degraded}) (hr_components r)"
    unfolding list_all_iff by (intro ball_cong refl) (use st(2) in \<open>clarsimp, blast\<close>)
  moreover have "(\<forall>(n, c) \<in> set (hr_components r). if hc_required c then effective_status now c = H_healthy
           else effective_status now c \<notin> {H_degraded, H_unhealthy})
      \<longleftrightarrow> list_all (\<lambda>(n, c). if hc_required c then fresh_result now c = Some H_healthy
            else fresh_result now c \<notin> {Some H_degraded, Some H_unhealthy}) (hr_components r)"
    unfolding list_all_iff by (intro ball_cong refl) (use st(1,3) in \<open>clarsimp, blast\<close>)
  ultimately show ?thesis by simp
qed

theorem readiness_exact_witness:
  "hl_ready (snapshot_health 30 0 (snd (record_health (uni ''runtime'') (uni ''healthy'') None None 0 0
     (snd (register_component (uni ''runtime'') True (V_int 60) \<lparr>hr_max_components = 4, hr_components = []\<rparr>)))))"
proof -
  define n where "n = uni ''runtime''"
  have name: "component_name n" unfolding n_def by code_simp
  define r0 where "r0 = \<lparr>hr_max_components = 4, hr_components = []\<rparr>"
  define r1 where "r1 = snd (register_component n True (V_int 60) r0)"
  define r2 where "r2 = snd (record_health n (uni ''healthy'') None None 0 0 r1)"
  have new: "new_health_registry 4 = Inr r0" by (simp add: r0_def new_health_registry_def)
  have "health_step r0 r1" "health_step r1 r2" unfolding r1_def r2_def by (rule health_step.intros)+
  then have steps: "health_step\<^sup>*\<^sup>* r0 r2" by (meson converse_rtranclp_into_rtranclp rtranclp.rtrancl_refl)
  have "r1 = \<lparr>hr_max_components = 4, hr_components = [(n, \<lparr>hc_required = True, hc_stale_after = 60,
      hc_status = H_unknown, hc_message = None, hc_metadata = None, hc_checked_monotonic = None, hc_checked_at = None\<rparr>)]\<rparr>"
    by (simp add: r1_def r0_def register_component_def check_name_def name finite_nonnegative_def)
  then have "r2 = \<lparr>hr_max_components = 4, hr_components = [(n, \<lparr>hc_required = True, hc_stale_after = 60,
      hc_status = H_healthy, hc_message = None, hc_metadata = None, hc_checked_monotonic = Some 0, hc_checked_at = Some 0\<rparr>)]\<rparr>"
    by (simp add: r2_def record_health_def check_name_def name parse_status_def health_status_text_def health_text_def health_metadata_def)
  then show ?thesis
    using readiness_exact [OF new steps, of 30 0] by (simp add: r2_def r1_def r0_def n_def fresh_result_def)
qed

end
