(* ===== verification/RealtimeHosts.thy ===== *)
theory RealtimeHosts
  imports RealtimeAuth
begin

text \<open>
  Network addresses and transports of the realtime service: the texts the standard library reads as
  IPv4 and IPv6 addresses and networks (as in Python 3.10 to 3.12), the trusted proxies of \<^verbatim>\<open>config.py\<close>,
  and the checks of \<^verbatim>\<open>app.py\<close> that decide which connections may be in clear text. The host name in a
  host header is read by the URL library, which is an argument. Lower case is that of ASCII: no other
  character becomes a letter of \<open>localhost\<close> or a hexadecimal digit.
\<close>

section \<open>Texts\<close>

definition uni_lower :: "utext \<Rightarrow> utext" where
  "uni_lower s = map (\<lambda>c. if 65 \<le> c \<and> c \<le> 90 then c + 32 else c) s"

fun split_at :: "nat \<Rightarrow> utext \<Rightarrow> utext list" where
  "split_at sep [] = [[]]"
| "split_at sep (c # s) = (if c = sep then [] # split_at sep s else (c # hd (split_at sep s)) # tl (split_at sep s))"

definition before_char :: "nat \<Rightarrow> utext \<Rightarrow> utext" where
  "before_char c s = takeWhile (\<lambda>x. x \<noteq> c) s"

section \<open>Addresses\<close>

datatype ip = V4 nat | V6 nat "utext option"

text \<open>\<open>IPv4Address\<close>: four decimal octets without leading zeros.\<close>

definition octet :: "utext \<Rightarrow> nat option" where
  "octet s =
     (if s = [] \<or> \<not> list_all udigit s \<or> 3 < length s \<or> (s \<noteq> [48] \<and> hd s = 48) \<or> 255 < dec_value s then None
      else Some (dec_value s))"

definition parse_v4 :: "utext \<Rightarrow> nat option" where
  "parse_v4 s =
     (case map octet (split_at 46 s) of
        [Some a, Some b, Some c, Some d] \<Rightarrow> Some (((a * 256 + b) * 256 + c) * 256 + d)
      | _ \<Rightarrow> None)"

text \<open>\<open>IPv6Address\<close>: hextets, at most one gap, at most one scope.\<close>

definition hextet :: "utext \<Rightarrow> nat option" where
  "hextet s =
     (if s = [] \<or> 4 < length s then None
      else foldl (\<lambda>acc c. case (acc, hex_value c) of (Some n, Some d) \<Rightarrow> Some (n * 16 + d) | _ \<Rightarrow> None) (Some 0) s)"

text \<open>The parts of the text between its colons, a trailing IPv4 address turned into two hextets.\<close>

datatype v6_part = Text_part utext | Number_part nat

definition v6_parts :: "utext \<Rightarrow> v6_part list option" where
  "v6_parts s =
     (let parts = split_at 58 s in
      if length parts < 3 then None
      else if 46 \<in> set (last parts)
      then (case parse_v4 (last parts) of
              None \<Rightarrow> None
            | Some n \<Rightarrow> Some (map Text_part (butlast parts) @ [Number_part (n div 65536), Number_part (n mod 65536)]))
      else Some (map Text_part parts))"

definition part_value :: "v6_part \<Rightarrow> nat option" where
  "part_value p = (case p of Text_part s \<Rightarrow> hextet s | Number_part n \<Rightarrow> Some n)"

definition part_empty :: "v6_part \<Rightarrow> bool" where
  "part_empty p \<longleftrightarrow> p = Text_part []"

fun join_parts :: "nat \<Rightarrow> v6_part list \<Rightarrow> nat option" where
  "join_parts acc [] = Some acc"
| "join_parts acc (p # ps) = (case part_value p of None \<Rightarrow> None | Some h \<Rightarrow> join_parts (acc * 65536 + h) ps)"

definition parse_v6_number :: "utext \<Rightarrow> nat option" where
  "parse_v6_number s =
     (case v6_parts s of
        None \<Rightarrow> None
      | Some parts \<Rightarrow>
          if 9 < length parts then None
          else
            (let inner = filter (\<lambda>i. part_empty (parts ! i)) [1..<length parts - 1] in
             case inner of
               [] \<Rightarrow> if length parts \<noteq> 8 \<or> part_empty (hd parts) \<or> part_empty (last parts) then None else join_parts 0 parts
             | [skip] \<Rightarrow>
                 let hi = (if part_empty (hd parts) then skip - 1 else skip);
                     low = length parts - skip - 1;
                     lo = (if part_empty (last parts) then low - 1 else low) in
                 if (part_empty (hd parts) \<and> hi \<noteq> 0) \<or> (part_empty (last parts) \<and> lo \<noteq> 0) \<or> 8 \<le> hi + lo then None
                 else (case join_parts 0 (take hi parts) of
                         None \<Rightarrow> None
                       | Some n \<Rightarrow> join_parts (n * 65536 ^ (8 - (hi + lo))) (drop (length parts - lo) parts))
             | _ \<Rightarrow> None))"

definition parse_v6 :: "utext \<Rightarrow> ip option" where
  "parse_v6 s =
     (let head_text = before_char 37 s; rest = drop (length head_text) s; scope = tl rest in
      if rest \<noteq> [] \<and> (scope = [] \<or> 37 \<in> set scope) then None
      else map_option (\<lambda>n. V6 n (if rest = [] then None else Some scope)) (parse_v6_number head_text))"

text \<open>\<open>ipaddress.ip_address\<close>.\<close>

definition parse_ip :: "utext \<Rightarrow> ip option" where
  "parse_ip s =
     (if 47 \<in> set s then None
      else case parse_v4 s of Some n \<Rightarrow> Some (V4 n) | None \<Rightarrow> parse_v6 s)"

definition is_unspecified :: "ip \<Rightarrow> bool" where
  "is_unspecified a \<longleftrightarrow> (case a of V4 n \<Rightarrow> n = 0 | V6 n _ \<Rightarrow> n = 0)"

definition in_v4 :: "nat \<Rightarrow> nat \<Rightarrow> ip \<Rightarrow> bool" where
  "in_v4 network prefix a \<longleftrightarrow> (case a of V4 n \<Rightarrow> n div 2 ^ (32 - prefix) = network div 2 ^ (32 - prefix) | V6 _ _ \<Rightarrow> False)"

definition in_v6 :: "nat \<Rightarrow> nat \<Rightarrow> ip \<Rightarrow> bool" where
  "in_v6 network prefix a \<longleftrightarrow> (case a of V6 n _ \<Rightarrow> n div 2 ^ (128 - prefix) = network div 2 ^ (128 - prefix) | V4 _ \<Rightarrow> False)"

definition is_multicast :: "ip \<Rightarrow> bool" where
  "is_multicast a \<longleftrightarrow> in_v4 (224 * 2 ^ 24) 4 a \<or> in_v6 (0xff00 * 2 ^ 112) 8 a"

definition is_loopback :: "ip \<Rightarrow> bool" where
  "is_loopback a \<longleftrightarrow> (case a of V4 n \<Rightarrow> in_v4 (127 * 2 ^ 24) 8 a | V6 n _ \<Rightarrow> n = 1)"

text \<open>\<open>_PRIVATE_TRANSPORT_NETWORKS\<close>.\<close>

definition in_private_network :: "ip \<Rightarrow> bool" where
  "in_private_network a \<longleftrightarrow>
     in_v4 (10 * 2 ^ 24) 8 a \<or> in_v4 (172 * 2 ^ 24 + 16 * 2 ^ 16) 12 a \<or> in_v4 (192 * 2 ^ 24 + 168 * 2 ^ 16) 16 a
     \<or> in_v6 (0xfc00 * 2 ^ 112) 7 a"

section \<open>Networks and trusted proxies\<close>

text \<open>The prefix length a mask stands for: digits, or for IPv4 a net mask or a host mask.\<close>

definition mask_prefix :: "nat \<Rightarrow> nat option" where
  "mask_prefix n = find (\<lambda>p. n = (2 ^ p - 1) * 2 ^ (32 - p)) [0..<33]"

definition v4_prefix :: "utext \<Rightarrow> nat option" where
  "v4_prefix s =
     (if s \<noteq> [] \<and> list_all udigit s then (if dec_value s \<le> 32 then Some (dec_value s) else None)
      else case parse_v4 s of
        None \<Rightarrow> None
      | Some n \<Rightarrow> (case mask_prefix n of Some p \<Rightarrow> Some p | None \<Rightarrow> mask_prefix (2 ^ 32 - 1 - n)))"

definition v6_prefix :: "utext \<Rightarrow> nat option" where
  "v6_prefix s = (if s \<noteq> [] \<and> list_all udigit s \<and> dec_value s \<le> 128 then Some (dec_value s) else None)"

text \<open>\<open>ipaddress.ip_network(value, strict=True)\<close>: no bit of the address lies outside the mask.\<close>

definition parse_network :: "utext \<Rightarrow> (ip \<times> nat) option" where
  "parse_network s =
     (case split_at 47 s of
        [head_text, bits] \<Rightarrow>
          (case (parse_v4 head_text, v4_prefix bits) of
             (Some n, Some p) \<Rightarrow> if n mod 2 ^ (32 - p) = 0 then Some (V4 n, p) else None
           | _ \<Rightarrow>
               (case (parse_v6 head_text, v6_prefix bits) of
                  (Some (V6 n scope), Some p) \<Rightarrow> if n mod 2 ^ (128 - p) = 0 then Some (V6 n scope, p) else None
                | _ \<Rightarrow> None))
      | _ \<Rightarrow> None)"

text \<open>An entry in its canonical form, which determines its canonical text.\<close>

datatype proxy = Proxy_address ip | Proxy_network ip nat

definition parse_proxy :: "utext \<Rightarrow> proxy option" where
  "parse_proxy s =
     (if 47 \<in> set s
      then (case parse_network s of
              Some (a, p) \<Rightarrow> if p = 0 \<or> is_unspecified a \<or> is_multicast a then None else Some (Proxy_network a p)
            | None \<Rightarrow> None)
      else (case parse_ip s of
              Some a \<Rightarrow> if is_unspecified a \<or> is_multicast a then None else Some (Proxy_address a)
            | None \<Rightarrow> None))"

fun normalize_proxies :: "utext list \<Rightarrow> proxy list \<Rightarrow> py_error + proxy list" where
  "normalize_proxies [] normalized = Inr normalized"
| "normalize_proxies (v # vs) normalized =
     (case parse_proxy v of
        None \<Rightarrow> Inl (ValueError ''invalid trusted proxy IP or CIDR'')
      | Some canonical \<Rightarrow>
          if canonical \<in> set normalized then Inl (ValueError ''duplicate trusted proxy IP or CIDR'')
          else normalize_proxies vs (normalized @ [canonical]))"

definition trusted_proxies :: "utext list \<Rightarrow> py_error + proxy list" where
  "trusted_proxies values =
     (if 64 < length values then Inl (ValueError ''ECHOWEAVE_TRUSTED_PROXY_IPS has too many entries'')
      else normalize_proxies values [])"

section \<open>Transports\<close>

definition normalized_host :: "utext \<Rightarrow> utext" where
  "normalized_host s = before_char 37 (uni_lower (uni_strip s))"

text \<open>\<open>_is_loopback_host\<close> and \<open>_bind_host_is_loopback\<close>: a missing host is the empty text, and neither is loopback.\<close>

definition is_loopback_host :: "utext \<Rightarrow> bool" where
  "is_loopback_host s \<longleftrightarrow>
     (let h = normalized_host s in
      s \<noteq> [] \<and> (h = uni ''localhost'' \<or> (case parse_ip h of Some a \<Rightarrow> is_loopback a | None \<Rightarrow> False)))"

definition is_private_host :: "bool \<Rightarrow> utext \<Rightarrow> bool" where
  "is_private_host allow_unspecified s \<longleftrightarrow>
     (let h = normalized_host s in
      h = uni ''localhost''
      \<or> (case parse_ip h of
           None \<Rightarrow> False
         | Some a \<Rightarrow> (allow_unspecified \<and> is_unspecified a) \<or> is_loopback a \<or> in_private_network a))"

text \<open>What the gateway reads of a connection: its kind, its scheme, the addresses of both ends and its
  host headers.\<close>

datatype scope_type = Http_scope | Websocket_scope | Other_scope

record scope =
  so_type :: scope_type
  so_scheme :: utext
  so_client :: "utext option"
  so_server :: "utext option"
  so_host_headers :: "utext list"

definition host_or_empty :: "utext option \<Rightarrow> utext" where
  "host_or_empty s = (case s of None \<Rightarrow> [] | Some t \<Rightarrow> t)"

definition connection_hosts :: "(utext \<Rightarrow> utext) \<Rightarrow> scope \<Rightarrow> utext \<times> utext \<times> utext" where
  "connection_hosts host_name s =
     (host_or_empty (so_client s), host_or_empty (so_server s),
      case so_host_headers s of [h] \<Rightarrow> (if h = [] then [] else host_name h) | _ \<Rightarrow> [])"

definition connection_is_loopback :: "(utext \<Rightarrow> utext) \<Rightarrow> scope \<Rightarrow> bool" where
  "connection_is_loopback host_name s =
     (case connection_hosts host_name s of
        (client, server, requested) \<Rightarrow> is_loopback_host client \<and> is_loopback_host server \<and> is_loopback_host requested)"

definition connection_is_private :: "(utext \<Rightarrow> utext) \<Rightarrow> scope \<Rightarrow> bool" where
  "connection_is_private host_name s =
     (case connection_hosts host_name s of
        (client, server, requested) \<Rightarrow>
          is_private_host False client \<and> is_private_host True server \<and> is_private_host False requested)"

definition transport_allowed :: "(utext \<Rightarrow> utext) \<Rightarrow> bool \<Rightarrow> scope \<Rightarrow> bool" where
  "transport_allowed host_name allow_private s =
     (let scheme = uni_lower (so_scheme s) in
      case so_type s of
        Other_scope \<Rightarrow> True
      | t \<Rightarrow>
          if (t = Http_scope \<and> scheme = uni ''https'') \<or> (t = Websocket_scope \<and> scheme = uni ''wss'') then True
          else if scheme \<noteq> uni (if t = Http_scope then ''http'' else ''ws'') then False
          else connection_is_loopback host_name s \<or> (allow_private \<and> connection_is_private host_name s))"

section \<open>What the texts of addresses mean\<close>

text \<open>A decimal text of an octet, and the dotted text of four.\<close>

definition dotted :: "nat \<Rightarrow> nat \<Rightarrow> nat \<Rightarrow> nat \<Rightarrow> utext" where
  "dotted a b c d = dec_digits a @ 46 # dec_digits b @ 46 # dec_digits c @ 46 # dec_digits d"

end
