(* ===== verification/RealtimeConfig.thy ===== *)
theory RealtimeConfig
  imports RealtimeHosts RealtimeSession
begin

text \<open>
  The settings of the realtime service (\<^verbatim>\<open>services/realtime/src/echoweave/config.py\<close>): how they are read
  from the environment, which values start the service, which hosts it may listen on and which origins
  it answers, and the capabilities that follow from them (\<^verbatim>\<open>runtime.py\<close>). Reading integers, reading floats
  and resolving paths are arguments, and so is which files exist; a number that is not finite is no
  number. Upper case is that of ASCII.
\<close>

section \<open>The environment\<close>

record environment =
  ev_get :: "string \<Rightarrow> utext option"
  ev_int :: "utext \<Rightarrow> int option"
  ev_float :: "utext \<Rightarrow> rat option option"
  ev_resolve :: "utext \<Rightarrow> utext"

definition env_text :: "environment \<Rightarrow> string \<Rightarrow> string \<Rightarrow> utext" where
  "env_text w name fallback = uni_strip (case ev_get w name of Some v \<Rightarrow> v | None \<Rightarrow> uni fallback)"

definition env_list :: "environment \<Rightarrow> string \<Rightarrow> string \<Rightarrow> utext list" where
  "env_list w name fallback =
     filter (\<lambda>s. s \<noteq> []) (map uni_strip (split_at 44 (case ev_get w name of Some v \<Rightarrow> v | None \<Rightarrow> uni fallback)))"

definition env_bool :: "environment \<Rightarrow> string \<Rightarrow> py_error + bool" where
  "env_bool w name =
     (case ev_get w name of
        None \<Rightarrow> Inr False
      | Some raw \<Rightarrow>
          (let v = uni_lower (uni_strip raw) in
           if v = uni ''true'' then Inr True else if v = uni ''false'' then Inr False
           else Inl (ValueError (name @ '' must be exactly true or false''))))"

definition env_path :: "environment \<Rightarrow> string \<Rightarrow> utext option" where
  "env_path w name = (let v = env_text w name [] in if v = [] then None else Some (ev_resolve w v))"

definition env_int :: "environment \<Rightarrow> string \<Rightarrow> string \<Rightarrow> py_error + int" where
  "env_int w name fallback =
     (case ev_int w (env_text w name fallback) of Some i \<Rightarrow> Inr i | None \<Rightarrow> Inl (ValueError ''invalid literal for int()''))"

definition env_float :: "environment \<Rightarrow> string \<Rightarrow> string \<Rightarrow> py_error + rat option" where
  "env_float w name fallback =
     (case ev_float w (env_text w name fallback) of Some q \<Rightarrow> Inr q | None \<Rightarrow> Inl (ValueError ''could not convert string to float''))"

definition uni_upper :: "utext \<Rightarrow> utext" where
  "uni_upper s = map (\<lambda>c. if 97 \<le> c \<and> c \<le> 122 then c - 32 else c) s"

text \<open>\<open>value.rstrip("/")\<close>.\<close>

definition strip_slashes :: "utext \<Rightarrow> utext" where
  "strip_slashes s = rev (dropWhile (\<lambda>c. c = 47) (rev s))"

section \<open>The settings\<close>

record settings =
  st_host :: utext
  st_port :: int
  st_log_level :: utext
  st_persona_root :: utext
  st_consent_key :: utext
  st_consent_state :: "utext option"
  st_access_token :: utext
  st_session_key :: utext
  st_token_audience :: utext
  st_token_max_ttl :: int
  st_token_skew :: int
  st_replay_entries :: int
  st_allowed_origins :: "utext list"
  st_proxy_ips :: "utext list"
  st_insecure_private :: bool
  st_tls_cert :: "utext option"
  st_tls_key :: "utext option"
  st_allowed_personas :: "utext list"
  st_max_per_ip :: int
  st_max_active :: int
  st_max_message_bytes :: int
  st_max_text_chars :: int
  st_max_utterance :: int
  st_max_session :: int
  st_start_timeout :: "rat option"
  st_runtime_timeout :: "rat option"
  st_idle_timeout :: "rat option"
  st_send_timeout :: "rat option"
  st_shutdown_timeout :: "rat option"
  st_queue_messages :: int
  st_queue_bytes :: int
  st_control_rate :: "rat option"
  st_control_burst :: int
  st_vad :: utext
  st_asr :: utext
  st_llm :: utext
  st_tts :: utext
  st_avatar :: utext
  st_qwen_model :: utext
  st_qwen_url :: utext
  st_qwen_key :: utext
  st_deepseek_key :: utext
  st_deepseek_url :: utext
  st_deepseek_model :: utext
  st_deepseek_thinking :: utext
  st_voxcpm_model :: utext
  st_voxcpm_url :: utext
  st_voxcpm_key :: utext
  st_voxcpm_rate :: int
  st_voxcpm_token :: utext
  st_voxcpm_audience :: utext
  st_soulx_token :: utext
  st_soulx_audience :: utext
  st_assertion_ttl :: int
  st_worker_token :: utext
  st_soulx_url :: utext

definition from_env :: "environment \<Rightarrow> py_error + settings" where
  "from_env w =
     sbind (env_int w ''ECHOWEAVE_PORT'' ''8765'') (\<lambda>port.
     sbind (env_int w ''ECHOWEAVE_SESSION_TOKEN_MAX_TTL_SECONDS'' ''300'') (\<lambda>token_max_ttl.
     sbind (env_int w ''ECHOWEAVE_SESSION_TOKEN_CLOCK_SKEW_SECONDS'' ''5'') (\<lambda>token_skew.
     sbind (env_int w ''ECHOWEAVE_SESSION_REPLAY_CACHE_ENTRIES'' ''65536'') (\<lambda>replay_entries.
     sbind (env_bool w ''ECHOWEAVE_ALLOW_INSECURE_PRIVATE_TRANSPORT'') (\<lambda>insecure_private.
     sbind (env_int w ''ECHOWEAVE_MAX_CONNECTIONS_PER_IP'' ''4'') (\<lambda>max_per_ip.
     sbind (env_int w ''ECHOWEAVE_MAX_ACTIVE_SESSIONS'' ''32'') (\<lambda>max_active.
     sbind (env_int w ''ECHOWEAVE_MAX_WS_MESSAGE_BYTES'' ''262144'') (\<lambda>max_message_bytes.
     sbind (env_int w ''ECHOWEAVE_MAX_TEXT_CHARS'' ''1000'') (\<lambda>max_text_chars.
     sbind (env_int w ''ECHOWEAVE_MAX_UTTERANCE_SECONDS'' ''60'') (\<lambda>max_utterance.
     sbind (env_int w ''ECHOWEAVE_MAX_SESSION_SECONDS'' ''1800'') (\<lambda>max_session.
     sbind (env_float w ''ECHOWEAVE_SESSION_START_TIMEOUT_SECONDS'' ''15'') (\<lambda>start_timeout.
     sbind (env_float w ''ECHOWEAVE_RUNTIME_START_TIMEOUT_SECONDS'' ''30'') (\<lambda>runtime_timeout.
     sbind (env_float w ''ECHOWEAVE_SESSION_IDLE_TIMEOUT_SECONDS'' ''300'') (\<lambda>idle_timeout.
     sbind (env_float w ''ECHOWEAVE_WEBSOCKET_SEND_TIMEOUT_SECONDS'' ''5'') (\<lambda>send_timeout.
     sbind (env_float w ''ECHOWEAVE_WEBSOCKET_SHUTDOWN_TIMEOUT_SECONDS'' ''5'') (\<lambda>shutdown_timeout.
     sbind (env_int w ''ECHOWEAVE_OUTBOUND_QUEUE_MAX_MESSAGES'' ''128'') (\<lambda>queue_messages.
     sbind (env_int w ''ECHOWEAVE_OUTBOUND_QUEUE_MAX_BYTES'' ''67108864'') (\<lambda>queue_bytes.
     sbind (env_float w ''ECHOWEAVE_CONTROL_RATE_PER_SECOND'' ''10'') (\<lambda>control_rate.
     sbind (env_int w ''ECHOWEAVE_CONTROL_RATE_BURST'' ''20'') (\<lambda>control_burst.
     sbind (env_int w ''VOXCPM_SAMPLE_RATE'' ''48000'') (\<lambda>voxcpm_rate.
     sbind (env_int w ''ECHOWEAVE_WORKER_ASSERTION_TTL_SECONDS'' ''120'') (\<lambda>assertion_ttl.
       Inr \<lparr>st_host = env_text w ''ECHOWEAVE_HOST'' ''127.0.0.1'',
          st_port = port,
          st_log_level = uni_upper (env_text w ''ECHOWEAVE_LOG_LEVEL'' ''INFO''),
          st_persona_root = ev_resolve w (env_text w ''ECHOWEAVE_PERSONA_ROOT'' ''personas''),
          st_consent_key = env_text w ''ECHOWEAVE_CONSENT_SIGNING_KEY'' '''',
          st_consent_state = Some (ev_resolve w (env_text w ''ECHOWEAVE_CONSENT_STATE_PATH'' ''runtime/consent-state.json'')),
          st_access_token = env_text w ''ECHOWEAVE_ACCESS_TOKEN'' '''',
          st_session_key = env_text w ''ECHOWEAVE_SESSION_SIGNING_KEY'' '''',
          st_token_audience = env_text w ''ECHOWEAVE_SESSION_TOKEN_AUDIENCE'' ''echoweave-rtc'',
          st_token_max_ttl = token_max_ttl,
          st_token_skew = token_skew,
          st_replay_entries = replay_entries,
          st_allowed_origins = env_list w ''ECHOWEAVE_ALLOWED_ORIGINS'' '''',
          st_proxy_ips = env_list w ''ECHOWEAVE_TRUSTED_PROXY_IPS'' '''',
          st_insecure_private = insecure_private,
          st_tls_cert = env_path w ''ECHOWEAVE_TLS_CERTFILE'',
          st_tls_key = env_path w ''ECHOWEAVE_TLS_KEYFILE'',
          st_allowed_personas = env_list w ''ECHOWEAVE_ALLOWED_PERSONAS'' ''demo'',
          st_max_per_ip = max_per_ip,
          st_max_active = max_active,
          st_max_message_bytes = max_message_bytes,
          st_max_text_chars = max_text_chars,
          st_max_utterance = max_utterance,
          st_max_session = max_session,
          st_start_timeout = start_timeout,
          st_runtime_timeout = runtime_timeout,
          st_idle_timeout = idle_timeout,
          st_send_timeout = send_timeout,
          st_shutdown_timeout = shutdown_timeout,
          st_queue_messages = queue_messages,
          st_queue_bytes = queue_bytes,
          st_control_rate = control_rate,
          st_control_burst = control_burst,
          st_vad = env_text w ''ECHOWEAVE_VAD_BACKEND'' ''energy'',
          st_asr = env_text w ''ECHOWEAVE_ASR_BACKEND'' ''demo'',
          st_llm = env_text w ''ECHOWEAVE_LLM_BACKEND'' ''demo'',
          st_tts = env_text w ''ECHOWEAVE_TTS_BACKEND'' ''browser'',
          st_avatar = env_text w ''ECHOWEAVE_AVATAR_BACKEND'' ''client_lipsync'',
          st_qwen_model = env_text w ''QWEN_ASR_MODEL'' ''Qwen/Qwen3-ASR-1.7B'',
          st_qwen_url = strip_slashes (env_text w ''QWEN_ASR_BASE_URL'' ''http://127.0.0.1:8001/v1''),
          st_qwen_key = env_text w ''QWEN_ASR_API_KEY'' ''EMPTY'',
          st_deepseek_key = env_text w ''DEEPSEEK_API_KEY'' '''',
          st_deepseek_url = strip_slashes (env_text w ''DEEPSEEK_BASE_URL'' ''https://api.deepseek.com''),
          st_deepseek_model = env_text w ''DEEPSEEK_MODEL'' ''deepseek-v4-flash'',
          st_deepseek_thinking = env_text w ''DEEPSEEK_THINKING'' ''disabled'',
          st_voxcpm_model = env_text w ''VOXCPM_MODEL'' ''openbmb/VoxCPM2'',
          st_voxcpm_url = strip_slashes (env_text w ''VOXCPM_BASE_URL'' ''http://127.0.0.1:8002/v1''),
          st_voxcpm_key = env_text w ''VOXCPM_API_KEY'' ''EMPTY'',
          st_voxcpm_rate = voxcpm_rate,
          st_voxcpm_token = env_text w ''VOXCPM_WORKER_TOKEN'' '''',
          st_voxcpm_audience = env_text w ''VOXCPM_WORKER_AUDIENCE'' ''echoweave-voxcpm-worker'',
          st_soulx_token = env_text w ''SOULX_WORKER_TOKEN'' '''',
          st_soulx_audience = env_text w ''SOULX_WORKER_AUDIENCE'' ''echoweave-soulx-worker'',
          st_assertion_ttl = assertion_ttl,
          st_worker_token = env_text w ''MODEL_WORKER_TOKEN'' '''',
          st_soulx_url = strip_slashes (env_text w ''SOULX_BASE_URL'' ''http://127.0.0.1:8003'')\<rparr>))))))))))))))))))))))"

text \<open>A settings object starts from the defaults of its fields; an empty environment gives the same values
  but for the resolved paths.\<close>

section \<open>Validation\<close>

text \<open>The first check that fails raises.\<close>

fun first_failure :: "(bool \<times> string) list \<Rightarrow> py_error + unit" where
  "first_failure [] = Inr ()"
| "first_failure ((ok, message) # rest) = (if ok then first_failure rest else Inl (ValueError message))"

definition backend_choices :: "string \<Rightarrow> utext list" where
  "backend_choices label = map uni
     (if label = ''vad'' then [''energy'', ''silero_v5'']
      else if label = ''asr'' then [''demo'', ''qwen_local'', ''qwen_http'']
      else if label = ''llm'' then [''demo'', ''deepseek'']
      else if label = ''tts'' then [''browser'', ''voxcpm_local'', ''voxcpm_http'']
      else [''client_lipsync'', ''soulx_http''])"

text \<open>A text that is empty or long enough in UTF-8; one that cannot be encoded raises as well.\<close>

definition long_secret :: "utext \<Rightarrow> bool" where
  "long_secret s \<longleftrightarrow> s = [] \<or> (case utf8_encode s of Some bs \<Rightarrow> 32 \<le> length bs | None \<Rightarrow> False)"

definition audience_ok :: "utext \<Rightarrow> bool" where
  "audience_ok s \<longleftrightarrow> s \<noteq> [] \<and> length s \<le> 128"

definition in_range :: "rat \<Rightarrow> rat option \<Rightarrow> rat \<Rightarrow> bool" where
  "in_range lo q hi \<longleftrightarrow> (case q of None \<Rightarrow> False | Some x \<Rightarrow> lo \<le> x \<and> x \<le> hi)"

definition persona_id_ok :: "utext \<Rightarrow> bool" where
  "persona_id_ok s \<longleftrightarrow> s \<noteq> [] \<and> list_all (\<lambda>c. (97 \<le> c \<and> c \<le> 122) \<or> udigit c \<or> c = 45 \<or> c = 95) s"

definition origin_ok :: "utext \<Rightarrow> bool" where
  "origin_ok s \<longleftrightarrow> take 7 s = uni ''http://'' \<or> take 8 s = uni ''https://''"

definition tls_pair :: "(utext \<Rightarrow> bool) \<Rightarrow> utext option \<Rightarrow> utext option \<Rightarrow> py_error + (utext \<times> utext) option" where
  "tls_pair is_file cert key =
     (case (cert, key) of
        (None, None) \<Rightarrow> Inr None
      | (Some c, Some k) \<Rightarrow>
          if \<not> is_file c then Inl (ValueError ''TLS certificate file does not exist'')
          else if \<not> is_file k then Inl (ValueError ''TLS key file does not exist'') else Inr (Some (c, k))
      | _ \<Rightarrow> Inl (ValueError ''TLS certificate and key files must be configured together''))"

definition effective_voxcpm_token :: "settings \<Rightarrow> utext" where
  "effective_voxcpm_token s = (if st_voxcpm_token s \<noteq> [] then st_voxcpm_token s else st_worker_token s)"

definition effective_soulx_token :: "settings \<Rightarrow> utext" where
  "effective_soulx_token s = (if st_soulx_token s \<noteq> [] then st_soulx_token s else st_worker_token s)"

definition backend_checks :: "settings \<Rightarrow> (bool \<times> string) list" where
  "backend_checks s =
     [(st_vad s \<in> set (backend_choices ''vad''), ''unsupported vad backend''),
      (st_asr s \<in> set (backend_choices ''asr''), ''unsupported asr backend''),
      (st_llm s \<in> set (backend_choices ''llm''), ''unsupported llm backend''),
      (st_tts s \<in> set (backend_choices ''tts''), ''unsupported tts backend''),
      (st_avatar s \<in> set (backend_choices ''avatar''), ''unsupported avatar backend'')]"

definition secret_checks :: "settings \<Rightarrow> (bool \<times> string) list" where
  "secret_checks s =
     [(1 \<le> st_port s \<and> st_port s \<le> 65535, ''ECHOWEAVE_PORT must be between 1 and 65535''),
      (long_secret (st_access_token s), ''ECHOWEAVE_ACCESS_TOKEN must be at least 32 bytes''),
      (long_secret (st_session_key s), ''ECHOWEAVE_SESSION_SIGNING_KEY must be at least 32 bytes''),
      (audience_ok (st_token_audience s), ''ECHOWEAVE_SESSION_TOKEN_AUDIENCE is invalid''),
      (1 \<le> st_token_max_ttl s \<and> st_token_max_ttl s \<le> 3600, ''ECHOWEAVE_SESSION_TOKEN_MAX_TTL_SECONDS is out of range''),
      (0 \<le> st_token_skew s \<and> st_token_skew s \<le> 60, ''ECHOWEAVE_SESSION_TOKEN_CLOCK_SKEW_SECONDS is out of range''),
      (1 \<le> st_replay_entries s \<and> st_replay_entries s \<le> 1000000, ''ECHOWEAVE_SESSION_REPLAY_CACHE_ENTRIES is out of range''),
      (long_secret (st_worker_token s), ''MODEL_WORKER_TOKEN must be at least 32 bytes''),
      (long_secret (st_voxcpm_token s), ''VOXCPM_WORKER_TOKEN must be at least 32 bytes''),
      (long_secret (st_soulx_token s), ''SOULX_WORKER_TOKEN must be at least 32 bytes''),
      (audience_ok (st_voxcpm_audience s), ''VOXCPM_WORKER_AUDIENCE is invalid''),
      (audience_ok (st_soulx_audience s), ''SOULX_WORKER_AUDIENCE is invalid''),
      (1 \<le> st_assertion_ttl s \<and> st_assertion_ttl s \<le> 300, ''ECHOWEAVE_WORKER_ASSERTION_TTL_SECONDS is out of range''),
      (long_secret (st_consent_key s), ''ECHOWEAVE_CONSENT_SIGNING_KEY must be at least 32 bytes''),
      (st_consent_key s = [] \<or> st_consent_state s \<noteq> None, ''ECHOWEAVE_CONSENT_STATE_PATH is required with a consent signing key''),
      (st_llm s \<noteq> uni ''deepseek'' \<or> st_deepseek_key s \<noteq> [], ''DEEPSEEK_API_KEY is required for the DeepSeek backend''),
      (st_tts s \<noteq> uni ''voxcpm_http'' \<or> effective_voxcpm_token s \<noteq> [], ''VOXCPM_WORKER_TOKEN is required for the VoxCPM worker''),
      (st_avatar s \<noteq> uni ''soulx_http'' \<or> effective_soulx_token s \<noteq> [], ''SOULX_WORKER_TOKEN is required for the SoulX worker'')]"

definition limit_checks :: "settings \<Rightarrow> (bool \<times> string) list" where
  "limit_checks s =
     [(1 \<le> st_max_per_ip s \<and> st_max_per_ip s \<le> 100, ''ECHOWEAVE_MAX_CONNECTIONS_PER_IP is out of range''),
      (1 \<le> st_max_active s \<and> st_max_active s \<le> 10000, ''ECHOWEAVE_MAX_ACTIVE_SESSIONS is out of range''),
      (1024 \<le> st_max_message_bytes s \<and> st_max_message_bytes s \<le> 67108864, ''ECHOWEAVE_MAX_WS_MESSAGE_BYTES is out of range''),
      (1 \<le> st_max_text_chars s \<and> st_max_text_chars s \<le> 10000, ''ECHOWEAVE_MAX_TEXT_CHARS is out of range''),
      (1 \<le> st_max_utterance s \<and> st_max_utterance s \<le> 600, ''ECHOWEAVE_MAX_UTTERANCE_SECONDS is out of range''),
      (15 \<le> st_max_session s \<and> st_max_session s \<le> 86400, ''ECHOWEAVE_MAX_SESSION_SECONDS is out of range''),
      (in_range (1 / 10) (st_start_timeout s) 300, ''ECHOWEAVE_SESSION_START_TIMEOUT_SECONDS is out of range''),
      (in_range (1 / 10) (st_runtime_timeout s) 900, ''ECHOWEAVE_RUNTIME_START_TIMEOUT_SECONDS is out of range''),
      (in_range 1 (st_idle_timeout s) 86400, ''ECHOWEAVE_SESSION_IDLE_TIMEOUT_SECONDS is out of range''),
      (in_range (1 / 10) (st_send_timeout s) 60, ''ECHOWEAVE_WEBSOCKET_SEND_TIMEOUT_SECONDS is out of range''),
      (in_range (1 / 10) (st_shutdown_timeout s) 60, ''ECHOWEAVE_WEBSOCKET_SHUTDOWN_TIMEOUT_SECONDS is out of range''),
      (8 \<le> st_queue_messages s \<and> st_queue_messages s \<le> 4096, ''ECHOWEAVE_OUTBOUND_QUEUE_MAX_MESSAGES is out of range''),
      (1048576 \<le> st_queue_bytes s \<and> st_queue_bytes s \<le> 536870912, ''ECHOWEAVE_OUTBOUND_QUEUE_MAX_BYTES is out of range''),
      (in_range (1 / 10) (st_control_rate s) 1000, ''ECHOWEAVE_CONTROL_RATE_PER_SECOND is out of range''),
      (1 \<le> st_control_burst s \<and> st_control_burst s \<le> 10000, ''ECHOWEAVE_CONTROL_RATE_BURST is out of range''),
      (list_all persona_id_ok (st_allowed_personas s), ''invalid allowed persona ID''),
      (list_all (\<lambda>p. p = uni ''demo'') (st_allowed_personas s) \<or> st_session_key s \<noteq> [],
         ''ECHOWEAVE_SESSION_SIGNING_KEY is required for non-demo personas''),
      (list_all origin_ok (st_allowed_origins s), ''invalid allowed origin'')]"

definition validate_settings :: "(utext \<Rightarrow> bool) \<Rightarrow> settings \<Rightarrow> py_error + unit" where
  "validate_settings is_file s =
     sbind (trusted_proxies (st_proxy_ips s)) (\<lambda>_.
     sbind (tls_pair is_file (st_tls_cert s) (st_tls_key s)) (\<lambda>_.
       first_failure (backend_checks s @ secret_checks s @ limit_checks s)))"

definition validate_bind_host :: "(utext \<Rightarrow> bool) \<Rightarrow> settings \<Rightarrow> utext \<Rightarrow> utext option \<Rightarrow> utext option \<Rightarrow> py_error + unit" where
  "validate_bind_host is_file s host cert key =
     sbind (tls_pair is_file (if cert = None then st_tls_cert s else cert) (if key = None then st_tls_key s else key)) (\<lambda>pair.
     sbind (trusted_proxies (st_proxy_ips s)) (\<lambda>proxies.
       if is_loopback_host host then Inr ()
       else if st_access_token s = [] \<and> st_session_key s = []
       then Inl (RuntimeError ''session authentication is required before binding beyond localhost'')
       else if pair = None \<and> proxies = [] \<and> \<not> st_insecure_private s
       then Inl (RuntimeError ''a non-loopback bind requires TLS, an explicit trusted proxy, or ECHOWEAVE_ALLOW_INSECURE_PRIVATE_TRANSPORT=true'')
       else Inr ()))"

definition origin_allowed :: "settings \<Rightarrow> utext option \<Rightarrow> bool" where
  "origin_allowed s origin =
     (case origin of
        None \<Rightarrow> True
      | Some o' \<Rightarrow>
          o' = [] \<or> o' \<in> set (st_allowed_origins s)
          \<or> o' \<in> set (map (\<lambda>p. uni p @ int_digits (st_port s))
                [''http://127.0.0.1:'', ''http://localhost:'', ''https://127.0.0.1:'', ''https://localhost:'']))"

section \<open>Capabilities\<close>

definition runtime_capabilities :: "settings \<Rightarrow> utext list" where
  "runtime_capabilities s =
     (let base = map uni [''input.audio_pcm16'', ''input.text'', ''output.text_stream'', ''control.barge_in'', ''control.cancel'',
            ''control.ping'', ''identity.ai_disclosure''];
          speech = [uni (if st_tts s = uni ''browser'' then ''output.browser_tts'' else ''output.audio_pcm16'')];
          video = (if st_avatar s = uni ''client_lipsync'' then [uni ''output.avatar_events'']
            else [uni ''output.audio_pcm16'', uni ''output.video_fragments'']) in
      rev (remdups (rev (base @ speech @ video))))"

text \<open>The limits of a session as the gateway sets them; the others are the defaults of the pipeline.\<close>

definition session_limits :: "settings \<Rightarrow> utext \<Rightarrow> persona_profile \<Rightarrow> session_config" where
  "session_limits s session_id persona =
     \<lparr>sc_session_id = session_id, sc_persona = persona, sc_sample_rate = 16000, sc_max_utterance_seconds = nat (st_max_utterance s),
      sc_max_text_chars = nat (st_max_text_chars s), sc_max_turns = 100, sc_queue_size = 4, sc_max_response_chars = 16000,
      sc_authorized = True, sc_check_interval = 25 / 100, sc_end_to_end = 120, sc_asr = 30, sc_first_token = 15, sc_idle = 20,
      sc_backpressure = 8, sc_tts = 45, sc_avatar = 45, sc_emit = 5, sc_cancellation = 2, sc_adapter_close = 5,
      sc_browser_fallback = (st_tts s = uni ''browser''), sc_synchronized = (st_avatar s \<noteq> uni ''client_lipsync''),
      sc_closable_adapters = (st_asr s = uni ''qwen_http'' \<or> st_llm s = uni ''deepseek'' \<or> st_tts s = uni ''voxcpm_http'' \<or> st_avatar s = uni ''soulx_http'')\<rparr>"

end
