(* ===== verification/RealtimeOutbound.thy ===== *)
theory RealtimeOutbound
  imports RealtimeConfig
begin

text \<open>
  The bounded sender of a connection and the rate budgets of the gateway
  (\<^verbatim>\<open>services/realtime/src/echoweave/app.py\<close>: \<^verbatim>\<open>_OutboundPump\<close>, \<^verbatim>\<open>consume_budget\<close>). The queue and its
  bytes are counted as the code counts them; the writer takes an item, and its sending ends in one of
  the ways the code handles. The logs of what was accepted and what was handed to the socket are
  the model's own.
\<close>

section \<open>The pump\<close>

datatype outbound_item = Json_payload "(utext \<times> ujson) list" | Bytes_payload "byte list"

datatype pump_fault = Buffer_limit | Send_timed_out | Transport_failed | Transport_closed

record pump =
  pu_queue :: "(outbound_item \<times> nat) list"
  pu_bytes :: nat
  pu_accepting :: bool
  pu_failure :: "pump_fault option"
  pu_running :: bool
  pu_sending :: "(outbound_item \<times> nat) option"
  pu_accepted :: "outbound_item list"
  pu_sent :: "outbound_item list"

definition new_pump :: pump where
  "new_pump = \<lparr>pu_queue = [], pu_bytes = 0, pu_accepting = True, pu_failure = None, pu_running = False, pu_sending = None,
     pu_accepted = [], pu_sent = []\<rparr>"

definition start_pump :: "pump \<Rightarrow> pump" where
  "start_pump p = p\<lparr>pu_running := True\<rparr>"

text \<open>\<open>_mark_failed\<close>: only the first failure counts.\<close>

definition mark_failed :: "pump_fault \<Rightarrow> pump \<Rightarrow> pump" where
  "mark_failed e p = (if pu_failure p \<noteq> None then p else p\<lparr>pu_failure := Some e, pu_accepting := False\<rparr>)"

text \<open>\<open>_enqueue\<close>.\<close>

definition enqueue :: "nat \<Rightarrow> nat \<Rightarrow> outbound_item \<Rightarrow> nat \<Rightarrow> pump \<Rightarrow> (pump_fault + unit) \<times> pump" where
  "enqueue max_messages max_bytes item bytes p =
     (if \<not> pu_accepting p \<or> pu_failure p \<noteq> None
      then (Inl (case pu_failure p of Some e \<Rightarrow> e | None \<Rightarrow> Transport_closed), p)
      else if max_messages \<le> length (pu_queue p) \<or> max_bytes < pu_bytes p + bytes
      then (Inl Buffer_limit, mark_failed Buffer_limit p)
      else (Inr (), p\<lparr>pu_bytes := pu_bytes p + bytes, pu_queue := pu_queue p @ [(item, bytes)],
              pu_accepted := pu_accepted p @ [item]\<rparr>))"

text \<open>\<open>_run\<close>: the writer takes the first item; its sending succeeds, times out, fails, or is cancelled.
  Every end of the writer discards what is queued.\<close>

definition take_item :: "pump \<Rightarrow> pump" where
  "take_item p =
     (case pu_queue p of
        [] \<Rightarrow> p
      | x # xs \<Rightarrow> if pu_running p \<and> pu_sending p = None then p\<lparr>pu_queue := xs, pu_sending := Some x\<rparr> else p)"

definition item_done :: "pump \<Rightarrow> pump" where
  "item_done p = (case pu_sending p of None \<Rightarrow> p | Some (item, bytes) \<Rightarrow> p\<lparr>pu_sending := None, pu_bytes := pu_bytes p - bytes\<rparr>)"

definition discard_queued :: "pump \<Rightarrow> pump" where
  "discard_queued p = p\<lparr>pu_queue := [], pu_bytes := pu_bytes p - sum_list (map snd (pu_queue p))\<rparr>"

definition sending_succeeds :: "pump \<Rightarrow> pump" where
  "sending_succeeds p =
     (case pu_sending p of None \<Rightarrow> p | Some (item, bytes) \<Rightarrow> item_done (p\<lparr>pu_sent := pu_sent p @ [item]\<rparr>))"

definition sending_fails :: "pump_fault \<Rightarrow> pump \<Rightarrow> pump" where
  "sending_fails e p =
     (case pu_sending p of None \<Rightarrow> p | Some x \<Rightarrow> discard_queued (item_done (mark_failed e p))\<lparr>pu_running := False\<rparr>)"

text \<open>The writer is cancelled, by a full buffer or by \<open>stop\<close>.\<close>

definition writer_cancelled :: "pump \<Rightarrow> pump" where
  "writer_cancelled p = discard_queued (item_done p)\<lparr>pu_running := False\<rparr>"

definition stop_pump :: "pump \<Rightarrow> pump" where
  "stop_pump p = writer_cancelled (p\<lparr>pu_accepting := False\<rparr>)"

inductive pump_step :: "nat \<Rightarrow> nat \<Rightarrow> pump \<Rightarrow> pump \<Rightarrow> bool" for max_messages max_bytes where
  "pump_step max_messages max_bytes p (snd (enqueue max_messages max_bytes item bytes p))"
| "pump_step max_messages max_bytes p (start_pump p)"
| "pump_step max_messages max_bytes p (take_item p)"
| "pump_step max_messages max_bytes p (sending_succeeds p)"
| "pump_step max_messages max_bytes p (sending_fails e p)"
| "pu_failure p \<noteq> None \<Longrightarrow> pump_step max_messages max_bytes p (writer_cancelled p)"
| "pump_step max_messages max_bytes p (stop_pump p)"

section \<open>Rate budgets\<close>

text \<open>\<open>consume_budget\<close>: what a host may still send, and when that was computed.\<close>

definition refilled :: "rat \<Rightarrow> rat \<Rightarrow> rat \<Rightarrow> rat \<times> rat \<Rightarrow> rat" where
  "refilled capacity rate now b = min capacity (fst b + (now - snd b) * rate)"

definition consume_budget ::
    "(utext \<times> (rat \<times> rat)) list \<Rightarrow> utext \<Rightarrow> rat \<Rightarrow> rat \<Rightarrow> rat \<Rightarrow> rat \<Rightarrow> bool \<times> (utext \<times> (rat \<times> rat)) list" where
  "consume_budget buckets host amount capacity rate now =
     (let budget = refilled capacity rate now (case map_of buckets host of Some b \<Rightarrow> b | None \<Rightarrow> (capacity, now)) in
      if amount \<le> budget then (True, dict_set host (budget - amount, now) buckets)
      else (False, dict_set host (budget, now) buckets))"

section \<open>The properties of the pump\<close>

definition in_flight :: "pump \<Rightarrow> outbound_item list" where
  "in_flight p = (case pu_sending p of None \<Rightarrow> [] | Some x \<Rightarrow> [fst x]) @ map fst (pu_queue p)"

definition pump_ok :: "nat \<Rightarrow> nat \<Rightarrow> pump \<Rightarrow> bool" where
  "pump_ok max_messages max_bytes p \<longleftrightarrow>
     length (pu_queue p) \<le> max_messages \<and> pu_bytes p \<le> max_bytes
     \<and> pu_bytes p = sum_list (map snd (pu_queue p)) + (case pu_sending p of None \<Rightarrow> 0 | Some x \<Rightarrow> snd x)
     \<and> (pu_failure p \<noteq> None \<longrightarrow> \<not> pu_accepting p)
     \<and> (\<exists>lost. pu_accepted p = pu_sent p @ in_flight p @ lost \<and> (pu_accepting p \<longrightarrow> lost = []))"

lemma new_pump_ok: "pump_ok m b new_pump"
  by (simp add: pump_ok_def new_pump_def in_flight_def)

lemma enqueue_ok: "pump_ok m b p \<Longrightarrow> pump_ok m b (snd (enqueue m b item bytes p))"
  by (auto simp: enqueue_def pump_ok_def mark_failed_def in_flight_def)

lemma start_ok: "pump_ok m b p \<Longrightarrow> pump_ok m b (start_pump p)"
  by (simp add: start_pump_def pump_ok_def in_flight_def)

lemma take_ok: "pump_ok m b p \<Longrightarrow> pump_ok m b (take_item p)"
  by (auto simp: take_item_def pump_ok_def in_flight_def split: list.split)

lemma succeeds_ok: "pump_ok m b p \<Longrightarrow> pump_ok m b (sending_succeeds p)"
  by (auto simp: sending_succeeds_def item_done_def pump_ok_def in_flight_def split: option.split)

text \<open>When the writer has ended nothing is in flight, and what was goes to the lost.\<close>

lemma ended_ok:
  assumes "pump_ok m b p" "\<not> pu_accepting p"
  shows "pump_ok m b (writer_cancelled p)"
proof -
  obtain lost where "pu_accepted p = pu_sent p @ in_flight p @ lost" using assms(1) by (auto simp: pump_ok_def)
  with assms show ?thesis
    by (auto simp: pump_ok_def writer_cancelled_def discard_queued_def item_done_def in_flight_def split: option.splits)
qed

lemma fails_ok:
  assumes "pump_ok m b p"
  shows "pump_ok m b (sending_fails e p)"
proof (cases "pu_sending p")
  case (Some x)
  have "pump_ok m b (mark_failed e p)" "\<not> pu_accepting (mark_failed e p)"
    using assms by (auto simp: mark_failed_def pump_ok_def in_flight_def)
  from ended_ok [OF this] Some show ?thesis by (simp add: sending_fails_def writer_cancelled_def)
qed (use assms in \<open>simp add: sending_fails_def\<close>)

lemma stop_ok: "pump_ok m b p \<Longrightarrow> pump_ok m b (stop_pump p)"
  unfolding stop_pump_def by (rule ended_ok) (auto simp: pump_ok_def in_flight_def)

lemma failed_closed: "pump_ok m b p \<Longrightarrow> pu_failure p \<noteq> None \<Longrightarrow> \<not> pu_accepting p"
  by (simp add: pump_ok_def)

lemma pump_step_ok: "pump_ok m b p \<Longrightarrow> pump_step m b p p' \<Longrightarrow> pump_ok m b p'"
  by (elim pump_step.cases) (simp_all add: enqueue_ok start_ok take_ok succeeds_ok fails_ok stop_ok ended_ok failed_closed)

interpretation pump: invariant_system "\<lambda>p. p = new_pump" "pump_step m b" "pump_ok m b" for m b
  by unfold_locales (use new_pump_ok pump_step_ok in auto)

lemma closed_accepts_nothing:
  "pump_step m b p p' \<Longrightarrow> \<not> pu_accepting p \<Longrightarrow> pu_accepted p' = pu_accepted p \<and> \<not> pu_accepting p'"
  by (auto elim!: pump_step.cases simp: enqueue_def start_pump_def take_item_def sending_succeeds_def sending_fails_def
      writer_cancelled_def stop_pump_def discard_queued_def item_done_def mark_failed_def split: list.splits option.splits if_splits)

lemma closed_stays_closed:
  "(pump_step m b)\<^sup>*\<^sup>* p p' \<Longrightarrow> \<not> pu_accepting p \<Longrightarrow> pu_accepted p' = pu_accepted p \<and> \<not> pu_accepting p'"
  by (induction rule: rtranclp_induct) (use closed_accepts_nothing in auto)

text \<open>
  C35. The sender of a connection is bounded and in order: however its calls and its writer interleave,
  it never holds more messages or bytes than it may, what it handed to the socket is a prefix of what
  it accepted, nothing is missing while it accepts and is idle, and after a failure it accepts nothing
  more.
\<close>

theorem pump_bounded_in_order:
  assumes "(pump_step m b)\<^sup>*\<^sup>* new_pump p" "(pump_step m b)\<^sup>*\<^sup>* p p'"
  shows "length (pu_queue p) \<le> m \<and> sum_list (map snd (pu_queue p)) \<le> b
    \<and> (\<exists>rest. pu_accepted p = pu_sent p @ rest) \<and> (pu_accepting p \<and> in_flight p = [] \<longrightarrow> pu_sent p = pu_accepted p)
    \<and> (pu_failure p \<noteq> None \<longrightarrow> pu_accepted p' = pu_accepted p)"
proof -
  have "pump.reach m b new_pump" by (rule pump.reach_init) simp
  then have "pump_ok m b p" using pump.reach_steps [OF assms(1)] pump.reach_inv by blast
  then show ?thesis using closed_stays_closed [OF assms(2)] by (auto simp: pump_ok_def)
qed

theorem pump_bounded_in_order_witness:
  "let p = sending_succeeds (take_item (start_pump (snd (enqueue 1 8 (Bytes_payload [1]) 1 new_pump)))) in
     pu_sent p = [Bytes_payload [1]] \<and> pu_sent p = pu_accepted p \<and> length (pu_queue p) \<le> 1"
proof -
  define p1 where "p1 = snd (enqueue 1 8 (Bytes_payload [1]) 1 new_pump)"
  define p where "p = sending_succeeds (take_item (start_pump p1))"
  have "pump_step 1 8 new_pump p1" "pump_step 1 8 p1 (start_pump p1)" "pump_step 1 8 (start_pump p1) (take_item (start_pump p1))"
    "pump_step 1 8 (take_item (start_pump p1)) p"
    unfolding p_def p1_def by (rule pump_step.intros)+
  then have steps: "(pump_step 1 8)\<^sup>*\<^sup>* new_pump p" by (meson converse_rtranclp_into_rtranclp rtranclp.rtrancl_refl)
  have p: "p = \<lparr>pu_queue = [], pu_bytes = 0, pu_accepting = True, pu_failure = None, pu_running = True, pu_sending = None,
      pu_accepted = [Bytes_payload [1]], pu_sent = [Bytes_payload [1]]\<rparr>"
    by (simp add: p_def p1_def enqueue_def new_pump_def start_pump_def take_item_def sending_succeeds_def item_done_def)
  show ?thesis
    using pump_bounded_in_order [OF steps rtranclp.rtrancl_refl] p unfolding p_def p1_def Let_def by (simp add: in_flight_def)
qed

section \<open>The properties of the budgets\<close>

text \<open>Requests in the order in which they come: the host, the amount and the time. What a host was
  granted.\<close>

fun granted :: "rat \<Rightarrow> rat \<Rightarrow> (utext \<times> (rat \<times> rat)) list \<Rightarrow> (utext \<times> rat \<times> rat) list \<Rightarrow> utext \<Rightarrow> rat" where
  "granted capacity rate buckets [] host = 0"
| "granted capacity rate buckets ((h, amount, now) # requests) host =
     (case consume_budget buckets h amount capacity rate now of
        (ok, buckets') \<Rightarrow> (if ok \<and> h = host then amount else 0) + granted capacity rate buckets' requests host)"

definition budget_of :: "(utext \<times> (rat \<times> rat)) list \<Rightarrow> utext \<Rightarrow> rat \<Rightarrow> rat \<Rightarrow> rat \<times> rat" where
  "budget_of buckets host capacity now = (case map_of buckets host of Some b \<Rightarrow> b | None \<Rightarrow> (capacity, now))"

lemma consume_other: "h \<noteq> host \<Longrightarrow> map_of (snd (consume_budget buckets h amount capacity rate now)) host = map_of buckets host"
  by (simp add: consume_budget_def Let_def dict_set_update)

lemma consume_own:
  assumes "0 \<le> amount" "map_of buckets host = Some (b, t)" "t \<le> now" "0 \<le> rate"
  obtains b' where "map_of (snd (consume_budget buckets host amount capacity rate now)) host = Some (b', now)"
    "(if fst (consume_budget buckets host amount capacity rate now) then amount else 0) + b' \<le> b + (now - t) * rate"
proof (rule that [of "if amount \<le> refilled capacity rate now (b, t) then refilled capacity rate now (b, t) - amount
    else refilled capacity rate now (b, t)"])
  have "refilled capacity rate now (b, t) \<le> b + (now - t) * rate" by (simp add: refilled_def)
  then show "(if fst (consume_budget buckets host amount capacity rate now) then amount else 0)
      + (if amount \<le> refilled capacity rate now (b, t) then refilled capacity rate now (b, t) - amount
         else refilled capacity rate now (b, t)) \<le> b + (now - t) * rate"
    using assms(2) by (simp add: consume_budget_def Let_def)
qed (use assms(2) in \<open>simp add: consume_budget_def Let_def dict_set_update\<close>)

lemma budget_nonneg:
  assumes "0 \<le> amount" "map_of buckets host = Some (b, t)" "t \<le> now" "0 \<le> rate" "0 \<le> capacity" "0 \<le> b"
    "map_of (snd (consume_budget buckets host amount capacity rate now)) host = Some (b', now)"
  shows "0 \<le> b'"
proof -
  have "0 \<le> refilled capacity rate now (b, t)" using assms by (simp add: refilled_def)
  then show ?thesis using assms(2,7) by (auto simp: consume_budget_def Let_def dict_set_update split: if_splits)
qed

lemma granted_bound:
  assumes "map_of buckets host = Some (b, t)" "0 \<le> b" "0 \<le> rate" "0 \<le> capacity" "sorted (t # map (snd \<circ> snd) requests)"
    "list_all (\<lambda>(h, amount, now). 0 \<le> amount) requests"
  shows "granted capacity rate buckets requests host \<le> b + rate * (last (t # map (snd \<circ> snd) requests) - t)"
  using assms
proof (induction requests arbitrary: buckets b t)
  case (Cons r requests)
  obtain h amount now where r: "r = (h, amount, now)" by (cases r)
  obtain ok buckets' where c: "consume_budget buckets h amount capacity rate now = (ok, buckets')" by fastforce
  have times: "t \<le> now" "sorted (now # map (snd \<circ> snd) requests)" "sorted (t # map (snd \<circ> snd) requests)" "0 \<le> amount"
    "list_all (\<lambda>(h, amount, now). 0 \<le> amount) requests"
    using Cons.prems(5,6) by (auto simp: r comp_def)
  define end' where "end' = last (now # map (snd \<circ> snd) requests)"
  have last: "last (t # map (snd \<circ> snd) (r # requests)) = end'" by (simp add: r end'_def)
  have "now \<le> end'" using times(2) by (auto simp: end'_def last_map)
  show ?case
  proof (cases "h = host")
    case True
    obtain b' where b': "map_of buckets' host = Some (b', now)" "(if ok then amount else 0) + b' \<le> b + (now - t) * rate"
      using consume_own [of amount buckets host b t now rate capacity] times Cons.prems(1,3) c True by auto
    have "0 \<le> b'" using budget_nonneg [of amount buckets host b t now rate capacity b'] times Cons.prems c True b'(1) by simp
    from Cons.IH [OF b'(1) this Cons.prems(3,4) times(2,5)]
    have "granted capacity rate buckets' requests host \<le> b' + rate * (end' - now)" unfolding end'_def .
    with b'(2) True c show ?thesis unfolding last by (simp add: r algebra_simps split: if_splits)
  next
    case False
    have "map_of buckets' host = Some (b, t)" using consume_other [OF False, of buckets amount capacity rate now] c Cons.prems(1) by simp
    from Cons.IH [OF this Cons.prems(2-4) times(3,5)]
    have "granted capacity rate buckets' requests host \<le> b + rate * (last (t # map (snd \<circ> snd) requests) - t)" .
    also have "\<dots> \<le> b + rate * (end' - t)"
      using times(1) \<open>now \<le> end'\<close> Cons.prems(3) by (auto simp: end'_def intro!: mult_left_mono)
    finally show ?thesis using False c unfolding last by (simp add: r)
  qed
qed simp



end
