(* ===== verification/RealtimeGateway.thy ===== *)
theory RealtimeGateway
  imports RealtimeOutbound
begin

text \<open>
  The gateway of the realtime service (\<^verbatim>\<open>services/realtime/src/echoweave/app.py\<close>): the negotiation of the
  protocol, the admission of connections and sessions, and the handler of one websocket connection as a
  coroutine over the state all connections share. The operations of a session are awaits here; the
  session itself is modelled in \<^verbatim>\<open>RealtimeSession\<close>. Building the model runtime is an await too. Drawn
  identifiers, the clocks, the file system and the host name of a URL are arguments. Metrics, the health
  record and log records are left out, and so are the plain documents the gateway serves;
  who may read the metrics is modelled. A text that
  repeats a key and overwrites a constant that is not JSON is read, where the code refuses it.
\<close>

section \<open>Constants\<close>

definition mic_sample_rate :: nat where "mic_sample_rate = 16000"
definition mic_bytes_per_sample :: nat where "mic_bytes_per_sample = 2"
definition min_mic_frame_ms :: nat where "min_mic_frame_ms = 10"
definition max_mic_frame_ms :: nat where "max_mic_frame_ms = 250"

definition min_mic_payload :: nat where
  "min_mic_payload = mic_sample_rate * mic_bytes_per_sample * min_mic_frame_ms div 1000"

definition max_mic_payload :: nat where
  "max_mic_payload = mic_sample_rate * mic_bytes_per_sample * max_mic_frame_ms div 1000"

definition mic_burst_seconds :: rat where "mic_burst_seconds = 1"
definition mic_refill_ratio :: rat where "mic_refill_ratio = 125 / 100"
definition supported_versions :: "int list" where "supported_versions = [1]"
definition max_safe_client_time :: int where "max_safe_client_time = 9007199254740991"

definition retryable_codes :: "string list" where
  "retryable_codes = [''asr_failed'', ''generation_failed'', ''idle_timeout'', ''latency_budget_exceeded'', ''runtime_unavailable'',
     ''server_overloaded'', ''session_expired'', ''start_timeout'']"

definition error_categories :: "(string \<times> string) list" where
  "error_categories =
     [(''asr_failed'', ''dependency''), (''authentication_failed'', ''authentication''), (''authorization_revoked'', ''authorization''),
      (''capability_mismatch'', ''protocol''), (''control_rate_exceeded'', ''rate_limit''),
      (''disclosure_not_acknowledged'', ''authorization''), (''generation_failed'', ''dependency''), (''idle_timeout'', ''timeout''),
      (''internal_gateway_error'', ''internal''), (''latency_budget_exceeded'', ''timeout''), (''mic_rate_exceeded'', ''rate_limit''),
      (''runtime_unavailable'', ''dependency''), (''server_overloaded'', ''dependency''), (''session_expired'', ''timeout''),
      (''session_start_rejected'', ''authorization''), (''start_timeout'', ''timeout''), (''unsupported_protocol_version'', ''protocol'')]"

definition allowed_categories :: "string list" where
  "allowed_categories = [''authentication'', ''authorization'', ''dependency'', ''internal'', ''protocol'', ''rate_limit'', ''timeout'',
     ''validation'']"

definition event_capabilities :: "(string \<times> string) list" where
  "event_capabilities = [(''assistant.delta'', ''output.text_stream''), (''assistant.final'', ''output.text_stream''),
     (''avatar.segment'', ''output.avatar_events''), (''tts.browser'', ''output.browser_tts''), (''tts.format'', ''output.audio_pcm16'')]"

text \<open>A lookup in one of these tables by a text of the client.\<close>

definition in_table :: "(string \<times> string) list \<Rightarrow> utext \<Rightarrow> string option" where
  "in_table t s = map_option snd (find (\<lambda>(k, v). uni k = s) t)"

definition named_in :: "string list \<Rightarrow> utext \<Rightarrow> bool" where
  "named_in names s \<longleftrightarrow> s \<in> set (map uni names)"

section \<open>Negotiation\<close>

datatype negotiation_fault = Invalid_negotiation string | Unsupported_version | Capability_mismatch

text \<open>\<open>d.get(k)\<close> and \<open>d.get(k, default)\<close>.\<close>

definition uget_or :: "string \<Rightarrow> ujson \<Rightarrow> (utext \<times> ujson) list \<Rightarrow> ujson" where
  "uget_or k v kvs = (case uget k kvs of Some x \<Rightarrow> x | None \<Rightarrow> v)"

definition capability_char :: "nat \<Rightarrow> bool" where
  "capability_char c \<longleftrightarrow> (97 \<le> c \<and> c \<le> 122) \<or> udigit c \<or> c = 46 \<or> c = 95 \<or> c = 45"

fun requested_capabilities :: "ujson list \<Rightarrow> negotiation_fault + utext list" where
  "requested_capabilities [] = Inr []"
| "requested_capabilities (v # vs) =
     (case v of
        UStr s \<Rightarrow>
          if s \<noteq> [] \<and> length s \<le> 128 \<and> list_all capability_char s
          then sbind (requested_capabilities vs) (\<lambda>cs. Inr (s # cs))
          else Inl (Invalid_negotiation ''capability names must use lowercase protocol tokens'')
      | _ \<Rightarrow> Inl (Invalid_negotiation ''capability names must use lowercase protocol tokens''))"

definition input_capabilities :: "string list" where
  "input_capabilities = [''input.audio_pcm16'', ''input.text'']"

definition output_capabilities :: "string list" where
  "output_capabilities = [''output.audio_pcm16'', ''output.avatar_events'', ''output.browser_tts'', ''output.text_stream'',
     ''output.video_fragments'']"

definition negotiate_protocol ::
    "(utext \<times> ujson) list \<Rightarrow> utext list \<Rightarrow> negotiation_fault + int \<times> utext list \<times> utext list" where
  "negotiate_protocol control server =
     sbind (case uget_or ''protocol'' (UObj []) control of
              UNull \<Rightarrow> Inr []
            | UObj kvs \<Rightarrow> Inr kvs
            | _ \<Rightarrow> Inl (Invalid_negotiation ''protocol negotiation must be a JSON object'')) (\<lambda>raw.
     sbind (case uget_or ''version'' (uget_or ''protocol_version'' (UInt (last supported_versions)) control) raw of
              UInt v \<Rightarrow> if v \<in> set supported_versions then Inr v else Inl Unsupported_version
            | _ \<Rightarrow> Inl (Invalid_negotiation ''protocol version must be an integer'')) (\<lambda>version.
     sbind (case uget_or ''capabilities'' (uget_or ''capabilities'' UNull control) raw of
              UNull \<Rightarrow> Inr server
            | UArr vs \<Rightarrow>
                if 64 < length vs then Inl (Invalid_negotiation ''capabilities must be an array with at most 64 entries'')
                else requested_capabilities vs
            | _ \<Rightarrow> Inl (Invalid_negotiation ''capabilities must be an array with at most 64 entries'')) (\<lambda>requested.
       let negotiated = sort (remdups (filter (\<lambda>c. c \<in> set server) requested)) in
       if \<not> list_ex (named_in input_capabilities) negotiated \<or> \<not> list_ex (named_in output_capabilities) negotiated
       then Inl Capability_mismatch
       else Inr (version, negotiated, sort (remdups (filter (\<lambda>c. c \<notin> set server) requested))))))"

section \<open>The state of the gateway\<close>

text \<open>One connection: the locals of its handler that more than one step reads. \<open>cn_close\<close> is the code
  and the reason it will be closed with; \<open>cn_reserved\<close> and \<open>cn_registered\<close> are \<open>admission_reserved\<close> and
  \<open>active_metric_registered\<close>, \<open>cn_open\<close> says that its slot was taken and not yet given back.\<close>

record connection =
  cn_host :: utext
  cn_session_id :: utext
  cn_session_deadline :: rat
  cn_authorization_deadline :: "rat option"
  cn_start_deadline :: rat
  cn_last_activity :: rat
  cn_attempts :: nat
  cn_sequence :: nat
  cn_accepted :: bool
  cn_open :: bool
  cn_reserved :: bool
  cn_registered :: bool
  cn_close :: "nat \<times> string"
  cn_session :: bool
  cn_capabilities :: "utext list option"
  cn_pump :: pump

record gateway =
  gw_counts :: "(utext \<times> nat) list"
  gw_audio :: "(utext \<times> (rat \<times> rat)) list"
  gw_control :: "(utext \<times> (rat \<times> rat)) list"
  gw_active :: nat
  gw_pending :: nat
  gw_replay :: replay_cache
  gw_personas :: persona_registry
  gw_next :: nat
  gw_conns :: "nat \<Rightarrow> connection"
  gw_cleanups :: "nat list"
  gw_now :: rat
  gw_wall :: rat

record gateway_env =
  ge_settings :: settings
  ge_mac :: mac
  ge_personas :: persona_env
  ge_fs :: persona_fs
  ge_write :: write_outcome
  ge_host_name :: "utext \<Rightarrow> utext"
  ge_id :: "string \<Rightarrow> nat \<Rightarrow> nat \<Rightarrow> utext"
  ge_float :: "rat \<Rightarrow> utext"

definition seconds :: "rat option \<Rightarrow> rat" where
  "seconds q = (case q of Some x \<Rightarrow> x | None \<Rightarrow> 0)"

definition upd_conn :: "nat \<Rightarrow> (connection \<Rightarrow> connection) \<Rightarrow> gateway \<Rightarrow> gateway" where
  "upd_conn n f s = s\<lparr>gw_conns := (gw_conns s)(n := f (gw_conns s n))\<rparr>"

section \<open>Awaits of the gateway\<close>

datatype client_message = Disconnect | Media "byte list" | Control_text utext | Nothing

datatype gateway_event =
  G_close nat string
| G_accept
| G_receive rat
| G_acquire rat
| G_release
| G_start rat
| G_close_session rat
| G_ingest "byte list"
| G_submit utext
| G_cancel
| G_flush rat
| G_cleanup
| G_park

datatype gateway_answer = R_ok | R_timeout | R_unavailable utext | R_disconnect | R_transport | R_failed | R_cancelled | R_message client_message

text \<open>\<open>WebSocketDisconnect\<close>, \<open>ClientTransportError\<close>, cancellation and every other exception.\<close>

datatype gateway_fault = F_disconnect | F_transport | F_cancelled | F_error

type_synonym 'a gprog = "(gateway, gateway_event, gateway_answer, gateway_fault, 'a) prog"

text \<open>An await whose failures are raised.\<close>

definition gawait :: "gateway_event \<Rightarrow> (gateway_answer \<Rightarrow> 'a gprog) \<Rightarrow> 'a gprog" where
  "gawait e k = Await e (\<lambda>a. if a = R_cancelled then Raise F_cancelled else if a = R_disconnect then Raise F_disconnect
     else if a = R_transport then Raise F_transport else if a = R_failed then Raise F_error else k a)"

section \<open>Sending\<close>

definition send_item :: "gateway_env \<Rightarrow> nat \<Rightarrow> outbound_item \<Rightarrow> nat \<Rightarrow> unit gprog" where
  "send_item env n item bytes =
     Look (\<lambda>s. case enqueue (nat (st_queue_messages (ge_settings env))) (nat (st_queue_bytes (ge_settings env))) item bytes
                 (cn_pump (gw_conns s n)) of
       (r, p) \<Rightarrow> Put (upd_conn n (\<lambda>c. c\<lparr>cn_pump := p\<rparr>)) (case r of Inl e \<Rightarrow> Raise F_transport | Inr _ \<Rightarrow> Ret ()))"

definition set_default :: "string \<Rightarrow> ujson \<Rightarrow> (utext \<times> ujson) list \<Rightarrow> (utext \<times> ujson) list" where
  "set_default k v kvs = (if uget k kvs = None then kvs @ [(uni k, v)] else kvs)"

definition is_bool :: "ujson option \<Rightarrow> bool" where
  "is_bool v \<longleftrightarrow> (case v of Some (UBool b) \<Rightarrow> True | _ \<Rightarrow> False)"

text \<open>The fields of an error event. Its code is a text wherever the service makes one.\<close>

definition error_code_of :: "(utext \<times> ujson) list \<Rightarrow> utext" where
  "error_code_of ev = (case uget ''code'' ev of Some (UStr c) \<Rightarrow> if c = [] then uni ''internal_gateway_error'' else c
     | _ \<Rightarrow> uni ''internal_gateway_error'')"

definition error_category :: "(utext \<times> ujson) list \<Rightarrow> string" where
  "error_category ev =
     (case in_table error_categories (error_code_of ev) of
        Some cat \<Rightarrow> cat
      | None \<Rightarrow>
          (case uget ''category'' ev of
             Some (UStr cat) \<Rightarrow> (case find (\<lambda>a. uni a = cat) allowed_categories of Some a \<Rightarrow> a | None \<Rightarrow> ''validation'')
           | _ \<Rightarrow> ''validation''))"

definition error_fields :: "utext \<Rightarrow> (utext \<times> ujson) list \<Rightarrow> (utext \<times> ujson) list" where
  "error_fields drawn ev =
     (let code = error_code_of ev;
          ev1 = set_default ''error_id'' (UStr drawn) (dict_set (uni ''code'') (UStr code) ev);
          ev2 = dict_set (uni ''category'') (UStr (uni (error_category ev))) ev1;
          ev3 = (if is_bool (uget ''retryable'' ev2) then ev2
                 else dict_set (uni ''retryable'') (UBool (named_in retryable_codes code)) ev2) in
      if is_bool (uget ''fatal'' ev3) then ev3 else dict_set (uni ''fatal'') (UBool False) ev3)"

text \<open>The envelope of an event.\<close>

definition envelope_event :: "gateway_env \<Rightarrow> nat \<Rightarrow> utext \<Rightarrow> nat \<Rightarrow> rat \<Rightarrow> (utext \<times> ujson) list \<Rightarrow> (utext \<times> ujson) list" where
  "envelope_event env n session_id seqno wall ev =
     (let ev' = set_default ''server_time_ms'' (UInt \<lfloor>wall * 1000\<rfloor>) (set_default ''sequence'' (UInt (int seqno))
            (set_default ''event_id'' (UStr (ge_id env ''evt'' n seqno)) (set_default ''session_id'' (UStr session_id) ev))) in
      if uget ''type'' ev' = Some (UStr (uni ''error'')) then error_fields (ge_id env ''err'' n seqno) ev' else ev')"

definition capability_enabled :: "string \<Rightarrow> connection \<Rightarrow> bool" where
  "capability_enabled capability c = (case cn_capabilities c of None \<Rightarrow> True | Some cs \<Rightarrow> uni capability \<in> set cs)"

definition event_size :: "gateway_env \<Rightarrow> (utext \<times> ujson) list \<Rightarrow> nat" where
  "event_size env ev = (case utf8_encode (jprint (ge_float env) (UObj ev)) of Some bs \<Rightarrow> length bs | None \<Rightarrow> 0)"

text \<open>\<open>emit_json\<close>: an event whose capability was not negotiated is dropped; the others are numbered.\<close>

definition emit_event :: "gateway_env \<Rightarrow> nat \<Rightarrow> (utext \<times> ujson) list \<Rightarrow> unit gprog" where
  "emit_event env n ev =
     Look (\<lambda>s. let c = gw_conns s n in
       case (case uget ''type'' ev of Some (UStr t) \<Rightarrow> in_table event_capabilities t | _ \<Rightarrow> None) of
         Some capability \<Rightarrow>
           if \<not> capability_enabled capability c then Ret ()
           else Put (upd_conn n (\<lambda>c. c\<lparr>cn_sequence := Suc (cn_sequence c)\<rparr>))
             (let ev' = envelope_event env n (cn_session_id c) (Suc (cn_sequence c)) (gw_wall s) ev in
              send_item env n (Json_payload ev') (event_size env ev'))
       | None \<Rightarrow>
           Put (upd_conn n (\<lambda>c. c\<lparr>cn_sequence := Suc (cn_sequence c)\<rparr>))
             (let ev' = envelope_event env n (cn_session_id c) (Suc (cn_sequence c)) (gw_wall s) ev in
              send_item env n (Json_payload ev') (event_size env ev')))"

text \<open>\<open>emit_binary\<close>.\<close>

definition emit_packet_bytes :: "gateway_env \<Rightarrow> nat \<Rightarrow> byte list \<Rightarrow> unit gprog" where
  "emit_packet_bytes env n bs =
     Look (\<lambda>s. let c = gw_conns s n; send = send_item env n (Bytes_payload bs) (length bs) in
       if cn_capabilities c = None then send
       else case unpack_packet bs of
         Inl e \<Rightarrow> Raise F_error
       | Inr p \<Rightarrow>
           if mp_kind p = Tts_pcm16 \<and> \<not> capability_enabled ''output.audio_pcm16'' c then Ret ()
           else if mp_kind p = Video_fragment \<and> \<not> capability_enabled ''output.video_fragments'' c then Ret ()
           else send)"

definition obj :: "(string \<times> ujson) list \<Rightarrow> (utext \<times> ujson) list" where
  "obj kvs = map (\<lambda>(k, v). (uni k, v)) kvs"

definition text_value :: "string \<Rightarrow> ujson" where
  "text_value s = UStr (uni s)"

definition emit_error :: "gateway_env \<Rightarrow> nat \<Rightarrow> string \<Rightarrow> utext \<Rightarrow> bool \<Rightarrow> bool option \<Rightarrow> (utext \<times> ujson) list \<Rightarrow> unit gprog" where
  "emit_error env n code message fatal retryable details =
     emit_event env n (obj [(''type'', text_value ''error''), (''code'', text_value code), (''message'', UStr message), (''fatal'', UBool fatal)]
       @ (case retryable of Some b \<Rightarrow> obj [(''retryable'', UBool b)] | None \<Rightarrow> [])
       @ (if details \<noteq> [] then obj [(''details'', UObj details)] else []))"

section \<open>One round of the handler\<close>

text \<open>Whether the loop goes on. \<open>fatal\<close> reports, notes how the connection is closed and ends the loop;
  \<open>refuse\<close> reports and goes on.\<close>

definition fatal :: "gateway_env \<Rightarrow> nat \<Rightarrow> string \<Rightarrow> utext \<Rightarrow> nat \<Rightarrow> bool gprog" where
  "fatal env n code message close_code =
     seqp (emit_error env n code message True None [])
       (Put (upd_conn n (\<lambda>c. c\<lparr>cn_close := (close_code, code)\<rparr>)) (Ret False))"

definition refuse :: "gateway_env \<Rightarrow> nat \<Rightarrow> string \<Rightarrow> utext \<Rightarrow> bool gprog" where
  "refuse env n code message = seqp (emit_error env n code message False None []) (Ret True)"

text \<open>A media message: the faults in the order of the code, with the code the connection is closed with.\<close>

definition media_fault :: "settings \<Rightarrow> byte list \<Rightarrow> (string \<times> string \<times> nat) + byte list" where
  "media_fault st bs =
     (if st_max_message_bytes st < int (length bs)
      then Inl (''media_packet_too_large'', ''media packet exceeds the configured limit'', 1009)
      else case unpack_packet bs of
        Inl e \<Rightarrow> Inl (''invalid_media_packet'', ''media packet failed protocol validation'', 1008)
      | Inr p \<Rightarrow>
          if mp_kind p \<noteq> Mic_pcm16 then Inl (''unsupported_client_media'', ''clients may only send microphone PCM'', 1008)
          else if length (mp_payload p) < min_mic_payload \<or> max_mic_payload < length (mp_payload p)
             \<or> length (mp_payload p) mod mic_bytes_per_sample \<noteq> 0
          then Inl (''invalid_mic_frame'', ''microphone PCM frames must be 10-250 ms of 16 kHz PCM16'', 1008)
          else Inr (mp_payload p))"

definition handle_media :: "gateway_env \<Rightarrow> nat \<Rightarrow> byte list \<Rightarrow> bool gprog" where
  "handle_media env n bs =
     Look (\<lambda>s. let c = gw_conns s n in
       if \<not> cn_session c then fatal env n ''session_not_started'' (uni ''send a start control message before media'') 1008
       else if \<not> capability_enabled ''input.audio_pcm16'' c
       then refuse env n ''unsupported_capability'' (uni ''audio input was not negotiated for this session'')
       else case media_fault (ge_settings env) bs of
         Inl (code, message, close_code) \<Rightarrow> fatal env n code (uni message) close_code
       | Inr pcm \<Rightarrow>
           (case consume_budget (gw_audio s) (cn_host c) (of_nat (length pcm) / of_nat (mic_sample_rate * mic_bytes_per_sample))
                   mic_burst_seconds mic_refill_ratio (gw_now s) of
              (ok, buckets) \<Rightarrow>
                Put (\<lambda>s. s\<lparr>gw_audio := buckets\<rparr>)
                  (if \<not> ok then fatal env n ''mic_rate_exceeded'' (uni ''microphone audio exceeded realtime rate'') 1008
                   else gawait (G_ingest pcm) (\<lambda>_. Ret True))))"

section \<open>Starting a session\<close>

text \<open>\<open>hmac.compare_digest\<close> of two texts refuses characters outside ASCII.\<close>

definition compare_digest :: "utext \<Rightarrow> utext \<Rightarrow> py_error + bool" where
  "compare_digest a b =
     (if list_all (\<lambda>c. c < 128) a \<and> list_all (\<lambda>c. c < 128) b then Inr (a = b)
      else Inl (TypeError ''comparing strings with non-ASCII characters is not supported''))"

definition check_token ::
    "gateway_env \<Rightarrow> utext \<Rightarrow> bool \<Rightarrow> rat \<Rightarrow> replay_cache option \<Rightarrow> (auth_fault + session_claims) \<times> replay_cache option" where
  "check_token env token wanted wall cache =
     (let st = ge_settings env in
      verify_session_token (ge_mac env) token (st_session_key st) (st_token_audience st) (st_token_max_ttl st) (st_token_skew st)
        wanted wall wall cache)"

text \<open>\<open>metrics_request_allowed\<close>, for the value of the authorization header.\<close>

definition metrics_request_allowed :: "gateway_env \<Rightarrow> scope \<Rightarrow> utext \<Rightarrow> rat \<Rightarrow> py_error + bool" where
  "metrics_request_allowed env scope authorization wall =
     (let st = ge_settings env; scheme = before_char 32 authorization; credential = drop (Suc (length scheme)) authorization;
          bearer = (32 \<in> set authorization \<and> uni_lower scheme = uni ''bearer'') in
      if st_session_key st \<noteq> []
      then Inr (bearer \<and> (case fst (check_token env credential False wall None) of
             Inl e \<Rightarrow> False | Inr claims \<Rightarrow> uni ''metrics.read'' \<in> set (sc_capabilities claims)))
      else if st_access_token st \<noteq> [] then (if bearer then compare_digest credential (st_access_token st) else Inr False)
      else Inr (connection_is_loopback (ge_host_name env) scope))"

text \<open>What a start has to pass before anything is taken: the negotiation, the token without using it up,
  the disclosure and the persona. The fault is a report, or an exception nothing catches.\<close>

datatype start_fault = Report string utext "(utext \<times> ujson) list" | Uncaught

record start_request =
  sq_version :: int
  sq_capabilities :: "utext list"
  sq_unavailable :: "utext list"
  sq_token :: utext
  sq_persona :: utext
  sq_signed :: bool

definition negotiation_report :: "utext list \<Rightarrow> negotiation_fault \<Rightarrow> start_fault" where
  "negotiation_report server e =
     (case e of
        Invalid_negotiation m \<Rightarrow> Report ''invalid_protocol_negotiation'' (uni m) []
      | Unsupported_version \<Rightarrow>
          Report ''unsupported_protocol_version'' (uni ''requested protocol version is not supported'')
            (obj [(''supported_versions'', UArr (map UInt supported_versions))])
      | Capability_mismatch \<Rightarrow>
          Report ''capability_mismatch'' (uni ''client and server have no usable input/output capability pair'')
            (obj [(''server_capabilities'', UArr (map UStr server))]))"

definition token_text :: "(utext \<times> ujson) list \<Rightarrow> utext" where
  "token_text control = (case uget ''access_token'' control of Some (UStr t) \<Rightarrow> t | _ \<Rightarrow> [])"

definition start_checks :: "gateway_env \<Rightarrow> utext \<Rightarrow> rat \<Rightarrow> (utext \<times> ujson) list \<Rightarrow> start_fault + start_request" where
  "start_checks env reference wall control =
     (let st = ge_settings env; server = runtime_capabilities st; token = token_text control;
          rejected = Report ''authentication_failed'' (uni ''session token rejected'') [];
          unauthorized = Report ''session_start_rejected'' (uni ''persona authorization rejected ('' @ reference @ uni '')'') [] in
      sbind (case negotiate_protocol control server of Inl e \<Rightarrow> Inl (negotiation_report server e) | Inr x \<Rightarrow> Inr x)
        (\<lambda>(version, capabilities, unavailable).
      sbind (if st_session_key st \<noteq> []
             then (case fst (check_token env token False wall None) of Inl e \<Rightarrow> Inl rejected | Inr claims \<Rightarrow> Inr (Some claims))
             else if st_access_token st \<noteq> []
             then (case compare_digest token (st_access_token st) of
                     Inl e \<Rightarrow> Inl Uncaught
                   | Inr same \<Rightarrow> if same then Inr None else Inl rejected)
             else Inr None) (\<lambda>claims.
      sbind (require (uget ''ai_disclosure_ack'' control = Some (UBool True))
              (Report ''disclosure_not_acknowledged'' (uni ''AI identity disclosure must be acknowledged'') [])) (\<lambda>_.
      sbind (case uget_or ''persona_id'' (text_value ''demo'') control of UStr p \<Rightarrow> Inr p | _ \<Rightarrow> Inl unauthorized) (\<lambda>persona.
      sbind (case claims of
               None \<Rightarrow> Inr ()
             | Some cl \<Rightarrow> (case authorize_session_claims cl persona capabilities of Inl e \<Rightarrow> Inl unauthorized | Inr _ \<Rightarrow> Inr ())) (\<lambda>_.
      sbind (require (persona \<in> set (st_allowed_personas st)) unauthorized) (\<lambda>_.
        Inr \<lparr>sq_version = version, sq_capabilities = capabilities, sq_unavailable = unavailable, sq_token = token,
          sq_persona = persona, sq_signed = (claims \<noteq> None)\<rparr>)))))))"

text \<open>Using the token up, and what its expiry does to the deadlines of the connection.\<close>

definition use_token :: "gateway_env \<Rightarrow> start_request \<Rightarrow> gateway \<Rightarrow> (auth_fault + session_claims) \<times> gateway" where
  "use_token env q s =
     (case check_token env (sq_token q) True (gw_wall s) (Some (gw_replay s)) of
        (r, cache) \<Rightarrow>
          (sbind r (\<lambda>claims. sbind (authorize_session_claims claims (sq_persona q) (sq_capabilities q)) (\<lambda>_. Inr claims)),
           s\<lparr>gw_replay := (case cache of Some c \<Rightarrow> c | None \<Rightarrow> gw_replay s)\<rparr>))"

definition limit_by_token :: "rat \<Rightarrow> rat \<Rightarrow> session_claims \<Rightarrow> connection \<Rightarrow> connection" where
  "limit_by_token now wall claims c =
     (let deadline = now + max 0 (of_int (sc_expires_at claims) - wall) in
      c\<lparr>cn_authorization_deadline := Some deadline, cn_session_deadline := min (cn_session_deadline c) deadline\<rparr>)"

text \<open>\<open>reserve_session_capacity\<close>, \<open>release_pending_reservation\<close> and \<open>activate_pending_reservation\<close>.\<close>

definition capacity_left :: "gateway_env \<Rightarrow> gateway \<Rightarrow> bool" where
  "capacity_left env s \<longleftrightarrow> int (gw_active s + gw_pending s) < st_max_active (ge_settings env)"

definition reserve_capacity :: "nat \<Rightarrow> gateway \<Rightarrow> gateway" where
  "reserve_capacity n s = upd_conn n (\<lambda>c. c\<lparr>cn_reserved := True\<rparr>) (s\<lparr>gw_pending := Suc (gw_pending s)\<rparr>)"

definition release_pending :: "nat \<Rightarrow> gateway \<Rightarrow> gateway" where
  "release_pending n s =
     (if \<not> cn_reserved (gw_conns s n) then s
      else upd_conn n (\<lambda>c. c\<lparr>cn_reserved := False\<rparr>) (s\<lparr>gw_pending := gw_pending s - 1\<rparr>))"

definition activate_pending :: "nat \<Rightarrow> gateway \<Rightarrow> gateway" where
  "activate_pending n s =
     upd_conn n (\<lambda>c. c\<lparr>cn_registered := True, cn_session := True\<rparr>)
       ((release_pending n s)\<lparr>gw_active := Suc (gw_active s)\<rparr>)"

text \<open>The end of a start that failed once the session object was there.\<close>

definition abandon_session :: "gateway_env \<Rightarrow> 'a gprog \<Rightarrow> 'a gprog" where
  "abandon_session env p =
     Await (G_close_session (seconds (st_shutdown_timeout (ge_settings env)))) (\<lambda>a. if a = R_cancelled then Raise F_cancelled else p)"

definition start_timed_out :: "gateway_env \<Rightarrow> nat \<Rightarrow> bool gprog" where
  "start_timed_out env n =
     Put (release_pending n) (fatal env n ''start_timeout'' (uni ''session start deadline reached'') 1008)"

text \<open>The new session: the negotiation is announced and the session started in the time that is left.\<close>

definition announce_session :: "gateway_env \<Rightarrow> nat \<Rightarrow> start_request \<Rightarrow> bool gprog" where
  "announce_session env n q =
     seqp (emit_event env n (obj [(''type'', text_value ''session.negotiated''), (''protocol_version'', UInt (sq_version q)),
        (''capabilities'', UArr (map UStr (sq_capabilities q))),
        (''unavailable_capabilities'', UArr (map UStr (sq_unavailable q)))]))
      (Look (\<lambda>s. let remaining = cn_start_deadline (gw_conns s n) - gw_now s in
         if remaining \<le> 0 then Ret False
         else Await (G_start remaining) (\<lambda>a.
           if a = R_cancelled then Put (upd_conn n (\<lambda>c. c\<lparr>cn_session := True\<rparr>)) (Raise F_cancelled)
           else if a = R_timeout then Ret False
           else if a = R_ok then Ret True else Raise (if a = R_transport then F_transport else F_error))))"

definition open_session :: "gateway_env \<Rightarrow> nat \<Rightarrow> start_request \<Rightarrow> persona_profile \<Rightarrow> bool gprog" where
  "open_session env n q persona =
     Look (\<lambda>s. if \<not> positive_limits (session_limits (ge_settings env) (cn_session_id (gw_conns s n)) persona)
       then Await G_release (\<lambda>a. Raise (if a = R_cancelled then F_cancelled else F_error))
       else Put (upd_conn n (\<lambda>c. c\<lparr>cn_capabilities := Some (sq_capabilities q)\<rparr>))
         (bindp
           (handlep (announce_session env n q) (\<lambda>x. if x = F_cancelled then Raise x else abandon_session env (Raise x)))
           (\<lambda>started. if started then Put (activate_pending n) (Ret True)
              else abandon_session env (start_timed_out env n))))"

text \<open>With a reservation: the runtime, then the session; before it, the persona.\<close>

definition acquire_runtime :: "gateway_env \<Rightarrow> nat \<Rightarrow> utext \<Rightarrow> start_request \<Rightarrow> persona_profile \<Rightarrow> bool gprog" where
  "acquire_runtime env n note q persona =
     Look (\<lambda>s. let remaining = cn_start_deadline (gw_conns s n) - gw_now s in
       if remaining \<le> 0 then start_timed_out env n
       else gawait (G_acquire (min (seconds (st_runtime_timeout (ge_settings env))) remaining)) (\<lambda>a.
         if a = R_ok then open_session env n q persona
         else Put (release_pending n)
           (seqp (emit_error env n ''runtime_unavailable'' (uni ''model runtime is not ready ('' @ (case a of R_unavailable r \<Rightarrow> r | _ \<Rightarrow> []) @ uni '')'' @ note) False (Some True) []) (Ret True))))"

definition grant_persona :: "gateway_env \<Rightarrow> nat \<Rightarrow> utext \<Rightarrow> utext \<Rightarrow> start_request \<Rightarrow> bool gprog" where
  "grant_persona env n reference note q =
     Look (\<lambda>s. case load_persona (ge_personas env) (ge_fs env) (ge_write env) (gw_wall s) (sq_persona q) (gw_personas s) of
       (r, registry) \<Rightarrow> Put (\<lambda>s. s\<lparr>gw_personas := registry\<rparr>)
         (case r of
            Inl e \<Rightarrow>
              if e = Os_error then Raise F_error
              else Put (release_pending n)
                (refuse env n ''session_start_rejected'' (uni ''persona authorization rejected ('' @ reference @ uni '')''))
          | Inr grant \<Rightarrow> acquire_runtime env n note q (as_profile grant)))"

definition admit_session :: "gateway_env \<Rightarrow> nat \<Rightarrow> utext \<Rightarrow> start_request \<Rightarrow> bool gprog" where
  "admit_session env n reference q =
     Look (\<lambda>s. let note = (if sq_signed q then uni ''; request a new session token before retrying'' else []) in
       if \<not> capacity_left env s
       then seqp (emit_error env n ''server_overloaded'' (uni ''server session capacity is exhausted'' @ note) True (Some True) [])
              (Put (upd_conn n (\<lambda>c. c\<lparr>cn_close := (1013, ''server_overloaded'')\<rparr>)) (Ret False))
       else Put (reserve_capacity n) (grant_persona env n reference note q))"

text \<open>A signed token is used up before the session is admitted.\<close>

definition redeem_token :: "gateway_env \<Rightarrow> nat \<Rightarrow> utext \<Rightarrow> start_request \<Rightarrow> bool gprog" where
  "redeem_token env n reference q =
     Look (\<lambda>s. case use_token env q s of
         (Inl e, s') \<Rightarrow> Put (\<lambda>s. s\<lparr>gw_replay := gw_replay s'\<rparr>) (refuse env n ''authentication_failed'' (uni ''session token rejected''))
       | (Inr claims, s') \<Rightarrow> Put (\<lambda>s. upd_conn n (limit_by_token (gw_now s) (gw_wall s) claims) (s\<lparr>gw_replay := gw_replay s'\<rparr>))
           (admit_session env n reference q))"

definition handle_start :: "gateway_env \<Rightarrow> nat \<Rightarrow> (utext \<times> ujson) list \<Rightarrow> bool gprog" where
  "handle_start env n control =
     Look (\<lambda>s. let c = gw_conns s n; reference = ge_id env ''auth'' n (cn_sequence c) in
       if cn_session c
       then refuse env n ''session_already_started'' (uni ''open a new connection to change session negotiation'')
       else Put (upd_conn n (\<lambda>c. c\<lparr>cn_attempts := Suc (cn_attempts c)\<rparr>))
         (if 3 \<le> cn_attempts c
          then fatal env n ''start_attempt_limit'' (uni ''session start attempt limit reached'') 1008
          else case start_checks env reference (gw_wall s) control of
            Inl Uncaught \<Rightarrow> Raise F_error
          | Inl (Report code message details) \<Rightarrow> seqp (emit_error env n code message False None details) (Ret True)
          | Inr q \<Rightarrow>
              if \<not> sq_signed q then admit_session env n reference q else redeem_token env n reference q))"

section \<open>Control messages\<close>

text \<open>Reading a message: not JSON (or with a constant that is not), not an object, without a type.\<close>

fun has_constant :: "ujson \<Rightarrow> bool" where
  "has_constant (UConst s) = True"
| "has_constant (UArr vs) = list_ex has_constant vs"
| "has_constant (UObj kvs) = list_ex (\<lambda>(k, v). has_constant v) kvs"
| "has_constant v = False"

definition read_control :: "utext \<Rightarrow> (string \<times> string) + utext \<times> (utext \<times> ujson) list" where
  "read_control raw =
     (case parse_json False raw of
        Inl e \<Rightarrow> Inl (''invalid_control_json'', ''control messages must be valid JSON objects'')
      | Inr v \<Rightarrow>
          if has_constant v then Inl (''invalid_control_json'', ''control messages must be valid JSON objects'')
          else case v of
            UObj control \<Rightarrow>
              (case uget ''type'' control of
                 Some (UStr action) \<Rightarrow>
                   if action = [] then Inl (''invalid_control_message'', ''control message type must be a non-empty string'')
                   else Inr (action, control)
               | _ \<Rightarrow> Inl (''invalid_control_message'', ''control message type must be a non-empty string''))
          | _ \<Rightarrow> Inl (''invalid_control_json'', ''control messages must be JSON objects''))"

definition pong_time :: "(utext \<times> ujson) list \<Rightarrow> (utext \<times> ujson) list" where
  "pong_time control =
     (case uget ''client_time_ms'' control of
        Some (UInt i) \<Rightarrow> if \<bar>i\<bar> \<le> max_safe_client_time then obj [(''client_time_ms'', UInt i)] else []
      | Some (UFloat q) \<Rightarrow> if \<bar>q\<bar> \<le> of_int max_safe_client_time then obj [(''client_time_ms'', UFloat q)] else []
      | _ \<Rightarrow> [])"

definition handle_session_control :: "gateway_env \<Rightarrow> nat \<Rightarrow> utext \<Rightarrow> (utext \<times> ujson) list \<Rightarrow> bool gprog" where
  "handle_session_control env n action control =
     Look (\<lambda>s. let c = gw_conns s n in
       if \<not> cn_session c then refuse env n ''session_not_started'' (uni ''send a start control message first'')
       else if action = uni ''text''
       then (if \<not> capability_enabled ''input.text'' c
             then refuse env n ''unsupported_capability'' (uni ''text input was not negotiated for this session'')
             else case uget_or ''text'' (UStr []) control of
               UStr t \<Rightarrow>
                 if st_max_text_chars (ge_settings env) < int (length t)
                 then refuse env n ''text_too_long'' (uni ''text turn exceeds the configured limit'')
                 else gawait (G_submit t) (\<lambda>_. Ret True)
             | _ \<Rightarrow> refuse env n ''invalid_text'' (uni ''text turn must contain a string''))
       else if action = uni ''cancel''
       then (if \<not> capability_enabled ''control.cancel'' c
             then refuse env n ''unsupported_capability'' (uni ''response cancellation was not negotiated'')
             else gawait G_cancel (\<lambda>_. Ret True))
       else refuse env n ''unknown_control_type'' (uni ''control message type is not supported''))"

definition dispatch_control :: "gateway_env \<Rightarrow> nat \<Rightarrow> utext \<Rightarrow> (utext \<times> ujson) list \<Rightarrow> bool gprog" where
  "dispatch_control env n action control =
     (if action = uni ''ping''
      then seqp (emit_event env n (obj [(''type'', text_value ''session.pong'')] @ pong_time control)) (Ret True)
      else if action = uni ''stop''
      then Put (upd_conn n (\<lambda>c. c\<lparr>cn_close := (1000, ''client_stop'')\<rparr>)) (Ret False)
      else if action = uni ''start'' then handle_start env n control
      else handle_session_control env n action control)"

definition handle_text :: "gateway_env \<Rightarrow> nat \<Rightarrow> utext \<Rightarrow> bool gprog" where
  "handle_text env n raw =
     Look (\<lambda>s. let st = ge_settings env in
       case consume_budget (gw_control s) (cn_host (gw_conns s n)) 1 (of_int (st_control_burst st)) (seconds (st_control_rate st)) (gw_now s) of
         (ok, buckets) \<Rightarrow>
           Put (\<lambda>s. s\<lparr>gw_control := buckets\<rparr>)
             (if \<not> ok then fatal env n ''control_rate_exceeded'' (uni ''control message rate limit reached'') 1008
              else case utf8_encode raw of
                None \<Rightarrow> Raise F_error
              | Some bs \<Rightarrow>
                  if st_max_message_bytes st < int (length bs)
                  then fatal env n ''control_message_too_large'' (uni ''control message exceeds the configured limit'') 1009
                  else case read_control raw of
                    Inl (code, message) \<Rightarrow> refuse env n code (uni message)
                  | Inr (action, control) \<Rightarrow> dispatch_control env n action control))"

section \<open>The connection\<close>

definition expired :: "gateway_env \<Rightarrow> nat \<Rightarrow> bool gprog" where
  "expired env n =
     Look (\<lambda>s. let c = gw_conns s n;
           authorization = (case cn_authorization_deadline c of Some d \<Rightarrow> d \<le> cn_session_deadline c | None \<Rightarrow> False) in
       fatal env n ''session_expired''
         (uni (if authorization then ''session authorization expired'' else ''session duration limit reached'')) 1000)"

definition receive_deadline :: "settings \<Rightarrow> connection \<Rightarrow> rat" where
  "receive_deadline st c =
     (if cn_session c then min (cn_session_deadline c) (cn_last_activity c + seconds (st_idle_timeout st))
      else min (cn_start_deadline c) (cn_session_deadline c))"

text \<open>The loop, for at most the given number of messages; then it waits.\<close>

fun serve :: "gateway_env \<Rightarrow> nat \<Rightarrow> nat \<Rightarrow> unit gprog" where
  "serve env n 0 = gawait G_park (\<lambda>_. Ret ())"
| "serve env n (Suc rounds) =
     Look (\<lambda>s. let c = gw_conns s n; now = gw_now s; deadline = receive_deadline (ge_settings env) c in
       if cn_session_deadline c \<le> now then seqp (expired env n) (Ret ())
       else if deadline \<le> now
       then (if cn_session c
             then seqp (fatal env n ''idle_timeout'' (uni ''session was idle beyond the configured limit'') 1001) (Ret ())
             else seqp (fatal env n ''start_timeout'' (uni ''session start deadline reached'') 1008) (Ret ()))
       else gawait (G_receive (max (1 / 1000) (deadline - now))) (\<lambda>a.
         case a of
           R_message m \<Rightarrow>
             if m = Disconnect then Ret ()
             else Look (\<lambda>s. Put (upd_conn n (\<lambda>c. c\<lparr>cn_last_activity := gw_now s\<rparr>))
               (bindp (case m of Media bs \<Rightarrow> handle_media env n bs | Control_text t \<Rightarrow> handle_text env n t | _ \<Rightarrow> Ret True)
                 (\<lambda>go. if go then serve env n rounds else Ret ())))
         | _ \<Rightarrow> serve env n rounds))"

declare serve.simps [simp del]

definition hello_event :: "gateway_env \<Rightarrow> (utext \<times> ujson) list" where
  "hello_event env =
     (let st = ge_settings env in
      obj [(''type'', text_value ''session.hello''),
        (''protocol'', UObj (obj [(''name'', text_value ''echoweave.media''), (''magic'', text_value ''EW''),
           (''supported_versions'', UArr (map UInt supported_versions)), (''preferred_version'', UInt (last supported_versions)),
           (''control_schema'', text_value ''echoweave.control.v1''),
           (''audio_input'', UObj (obj [(''codec'', text_value ''pcm_s16le''), (''sample_rate_hz'', UInt (int mic_sample_rate)),
              (''channels'', UInt 1), (''frame_duration_ms'', UObj (obj [(''min'', UInt (int min_mic_frame_ms)),
                 (''max'', UInt (int max_mic_frame_ms))]))]))])),
        (''capabilities'', UArr (map UStr (runtime_capabilities st))),
        (''limits'', UObj (obj [(''max_control_bytes'', UInt (st_max_message_bytes st)), (''max_text_chars'', UInt (st_max_text_chars st)),
           (''max_session_seconds'', UInt (st_max_session st)), (''start_timeout_seconds'', UFloat (seconds (st_start_timeout st)))])),
        (''requires_ai_disclosure_ack'', UBool True)])"

text \<open>What the handler does with an exception: it notes how the connection is closed.\<close>

definition closing :: "nat \<Rightarrow> nat \<Rightarrow> string \<Rightarrow> gateway \<Rightarrow> gateway" where
  "closing n close_code reason = upd_conn n (\<lambda>c. c\<lparr>cn_close := (close_code, reason)\<rparr>)"

definition connection_failed :: "gateway_env \<Rightarrow> nat \<Rightarrow> gateway_fault \<Rightarrow> unit gprog" where
  "connection_failed env n x =
     (case x of
        F_disconnect \<Rightarrow> Ret ()
      | F_transport \<Rightarrow> Put (closing n 1001 ''client_unavailable'') (Ret ())
      | F_cancelled \<Rightarrow> Put (closing n 1012 ''server_shutdown'') (Raise F_cancelled)
      | F_error \<Rightarrow>
          Put (closing n 1011 ''internal_gateway_error'')
            (Look (\<lambda>s. if cn_accepted (gw_conns s n) \<and> pu_failure (cn_pump (gw_conns s n)) = None
              then handlep (emit_error env n ''internal_gateway_error''
                     (uni ''gateway failed safely ('' @ ge_id env ''gw'' n (cn_sequence (gw_conns s n)) @ uni '')'') True None [])
                   (\<lambda>_. Ret ())
              else Ret ())))"

text \<open>The slot of a connection is given back before anything else can be cancelled; a session that was
  admitted stays counted until its clean-up has ended.\<close>

definition release_slot :: "nat \<Rightarrow> gateway \<Rightarrow> gateway" where
  "release_slot n s =
     (let host = cn_host (gw_conns s n);
          remaining = (case map_of (gw_counts s) host of Some k \<Rightarrow> k | None \<Rightarrow> 1) - 1 in
      upd_conn n (\<lambda>c. c\<lparr>cn_open := False\<rparr>)
        (s\<lparr>gw_counts := (if 0 < remaining then dict_set host remaining (gw_counts s)
            else filter (\<lambda>(k, v). k \<noteq> host) (gw_counts s))\<rparr>))"

definition finish_connection :: "nat \<Rightarrow> gateway \<Rightarrow> gateway" where
  "finish_connection n s =
     (let s' = release_slot n s; s'' = (if cn_registered (gw_conns s n) then s' else release_pending n s') in
      s''\<lparr>gw_cleanups := n # gw_cleanups s''\<rparr>)"

text \<open>\<open>cleanup_session_transport\<close>: failures are suppressed, a cancellation is not.\<close>

definition suppressed :: "gateway_event \<Rightarrow> unit gprog \<Rightarrow> unit gprog" where
  "suppressed e p = Await e (\<lambda>a. if a = R_cancelled then Raise F_cancelled else p)"

definition clean_up :: "gateway_env \<Rightarrow> nat \<Rightarrow> unit gprog" where
  "clean_up env n =
     (let bound = seconds (st_shutdown_timeout (ge_settings env)); stop = Put (upd_conn n (\<lambda>c. c\<lparr>cn_pump := stop_pump (cn_pump c)\<rparr>)) (Ret ());
          leave = Look (\<lambda>s. let c = gw_conns s n in
            if cn_accepted c \<and> pu_failure (cn_pump c) = None
            then suppressed (G_flush bound) (suppressed (G_close (fst (cn_close c)) (snd (cn_close c))) stop) else stop) in
      Look (\<lambda>s. if cn_session (gw_conns s n) then suppressed (G_close_session bound) leave else leave))"

text \<open>The callback of the clean-up task, which runs once.\<close>

definition cleaned_up :: "nat \<Rightarrow> gateway \<Rightarrow> gateway" where
  "cleaned_up n s =
     (if n \<notin> set (gw_cleanups s) then s
      else let s' = s\<lparr>gw_cleanups := removeAll n (gw_cleanups s)\<rparr> in
      if cn_registered (gw_conns s n) then s'\<lparr>gw_active := gw_active s - 1\<rparr> else s')"

text \<open>Buckets of hosts that left are dropped when there are many; a new connection gets a slot and full
  buckets unless its host has them.\<close>

definition prune_buckets :: "gateway \<Rightarrow> gateway" where
  "prune_buckets s =
     (if 8192 < length (gw_audio s) + length (gw_control s)
      then (let keep = (\<lambda>(host, (budget :: rat, updated)). host \<in> fst ` set (gw_counts s) \<or> \<not> 120 < gw_now s - updated) in
        s\<lparr>gw_audio := filter keep (gw_audio s), gw_control := filter keep (gw_control s)\<rparr>)
      else s)"

definition connections_of :: "utext \<Rightarrow> gateway \<Rightarrow> nat" where
  "connections_of host s = (case map_of (gw_counts s) host of Some k \<Rightarrow> k | None \<Rightarrow> 0)"

definition bucket_default :: "utext \<Rightarrow> rat \<times> rat \<Rightarrow> (utext \<times> (rat \<times> rat)) list \<Rightarrow> (utext \<times> (rat \<times> rat)) list" where
  "bucket_default host b buckets = (if map_of buckets host = None then buckets @ [(host, b)] else buckets)"

definition new_connection :: "settings \<Rightarrow> utext \<Rightarrow> utext \<Rightarrow> rat \<Rightarrow> connection" where
  "new_connection st host session_id now =
     \<lparr>cn_host = host, cn_session_id = session_id, cn_session_deadline = now + of_int (st_max_session st),
      cn_authorization_deadline = None, cn_start_deadline = now + seconds (st_start_timeout st), cn_last_activity = now, cn_attempts = 0,
      cn_sequence = 0, cn_accepted = False, cn_open = False, cn_reserved = False, cn_registered = False,
      cn_close = (1000, ''session_complete''), cn_session = False, cn_capabilities = None, cn_pump = new_pump\<rparr>"

definition admit_connection :: "gateway_env \<Rightarrow> nat \<Rightarrow> gateway \<Rightarrow> gateway" where
  "admit_connection env n s =
     (let host = cn_host (gw_conns s n); now = gw_now s in
      upd_conn n (\<lambda>c. c\<lparr>cn_open := True\<rparr>)
        (s\<lparr>gw_counts := dict_set host (Suc (connections_of host s)) (gw_counts s),
           gw_audio := bucket_default host (mic_burst_seconds, now) (gw_audio s),
           gw_control := bucket_default host (of_int (st_control_burst (ge_settings env)), now) (gw_control s)\<rparr>))"

definition open_connection :: "nat \<Rightarrow> connection \<Rightarrow> gateway \<Rightarrow> gateway" where
  "open_connection n c s = (upd_conn n (\<lambda>_. c) s)\<lparr>gw_next := max (gw_next s) (Suc n)\<rparr>"

definition close_socket :: "nat \<Rightarrow> string \<Rightarrow> unit gprog" where
  "close_socket close_code reason = gawait (G_close close_code reason) (\<lambda>_. Ret ())"

text \<open>A connection that has a slot: it is accepted, greeted and served, and then given back and cleaned up.\<close>

definition run_connection :: "gateway_env \<Rightarrow> nat \<Rightarrow> nat \<Rightarrow> unit gprog" where
  "run_connection env rounds n =
     finallyp
       (handlep
         (gawait G_accept (\<lambda>_.
            Put (upd_conn n (\<lambda>c. c\<lparr>cn_accepted := True, cn_pump := start_pump (cn_pump c)\<rparr>))
              (seqp (emit_event env n (hello_event env)) (serve env n rounds))))
         (connection_failed env n))
       (Put (finish_connection n) (gawait G_cleanup (\<lambda>_. Ret ())))"

text \<open>\<open>websocket_endpoint\<close>: the transport, the access policy and the origin, the limit of the host, and
  then the accepted connection with its handlers.\<close>

definition websocket_endpoint :: "gateway_env \<Rightarrow> scope \<Rightarrow> utext option \<Rightarrow> nat \<Rightarrow> nat \<Rightarrow> unit gprog" where
  "websocket_endpoint env scope origin rounds n =
     (let st = ge_settings env; host = (case so_client scope of Some h \<Rightarrow> h | None \<Rightarrow> uni ''unknown'') in
      if \<not> transport_allowed (ge_host_name env) (st_insecure_private st) scope
      then close_socket 1008 ''WSS is required for non-loopback connections''
      else if st_access_token st = [] \<and> st_session_key st = [] \<and> \<not> connection_is_loopback (ge_host_name env) scope
      then close_socket 1008 ''access token required for non-loopback connections''
      else if \<not> origin_allowed st origin then close_socket 1008 ''origin rejected''
      else Look (\<lambda>s.
        Put (open_connection n (new_connection st host (ge_id env ''ews'' n 0) (gw_now s))) (Put prune_buckets (Look (\<lambda>s.
          if st_max_per_ip st \<le> int (connections_of host s) then close_socket 1013 ''connection capacity reached''
          else Put (admit_connection env n) (run_connection env rounds n))))))"

section \<open>The gateway as a system of tasks\<close>

datatype gateway_task = Connection nat | Cleanup nat

text \<open>Which answers are possible: an operation of a session can fail or find the client gone, the
  runtime can be unavailable, a connection ends its wait when its clean-up is over, and a task can be
  cancelled at every await. Parking is never answered.\<close>

definition gateway_answers :: "gateway_task \<Rightarrow> gateway_event \<Rightarrow> gateway_answer \<Rightarrow> gateway \<Rightarrow> bool" where
  "gateway_answers t e a s =
     (a = R_cancelled \<or>
      (case e of
         G_close close_code reason \<Rightarrow> a \<in> {R_ok, R_disconnect, R_failed}
       | G_accept \<Rightarrow> a \<in> {R_ok, R_disconnect, R_failed}
       | G_receive d \<Rightarrow> a \<in> {R_timeout, R_transport, R_failed} \<or> (\<exists>m. a = R_message m)
       | G_acquire d \<Rightarrow> a \<in> {R_ok, R_failed} \<or> (\<exists>reference. a = R_unavailable reference)
       | G_release \<Rightarrow> a \<in> {R_ok, R_failed}
       | G_start d \<Rightarrow> a \<in> {R_ok, R_timeout, R_transport, R_failed}
       | G_close_session d \<Rightarrow> a \<in> {R_ok, R_timeout, R_failed}
       | G_ingest bs \<Rightarrow> a \<in> {R_ok, R_transport, R_failed}
       | G_submit t' \<Rightarrow> a \<in> {R_ok, R_transport, R_failed}
       | G_cancel \<Rightarrow> a \<in> {R_ok, R_transport, R_failed}
       | G_flush d \<Rightarrow> a \<in> {R_ok, R_timeout, R_failed}
       | G_cleanup \<Rightarrow> a = R_ok \<and> (case t of Connection n \<Rightarrow> n \<notin> set (gw_cleanups s) | Cleanup n \<Rightarrow> False)
       | G_park \<Rightarrow> False))"

definition gateway_starts :: "gateway_env \<Rightarrow> gateway_task \<Rightarrow> gateway \<Rightarrow> unit gprog \<Rightarrow> bool" where
  "gateway_starts env t s p \<longleftrightarrow>
     (case t of
        Connection n \<Rightarrow> gw_next s \<le> n \<and> (\<exists>scope origin rounds. p = websocket_endpoint env scope origin rounds n)
      | Cleanup n \<Rightarrow> n \<in> set (gw_cleanups s) \<and> p = clean_up env n)"

definition gateway_ends :: "gateway_task \<Rightarrow> gateway_fault option \<Rightarrow> gateway \<Rightarrow> gateway" where
  "gateway_ends t x s = (case t of Connection n \<Rightarrow> s | Cleanup n \<Rightarrow> cleaned_up n s)"

text \<open>What happens beside these tasks: the clocks advance, the session of a connection emits a message,
  and the writer of a connection makes a step.\<close>

definition gateway_moves :: "gateway_env \<Rightarrow> gateway \<Rightarrow> gateway \<Rightarrow> bool" where
  "gateway_moves env s s' \<longleftrightarrow>
     (\<exists>now wall. gw_now s \<le> now \<and> s' = s\<lparr>gw_now := now, gw_wall := wall\<rparr>)
     \<or> (\<exists>n ev p. n < gw_next s \<and> advance (emit_event env n ev) s = (p, s'))
     \<or> (\<exists>n bs p. n < gw_next s \<and> advance (emit_packet_bytes env n bs) s = (p, s'))
     \<or> (\<exists>n p'. n < gw_next s \<and> s' = upd_conn n (\<lambda>c. c\<lparr>cn_pump := p'\<rparr>) s
          \<and> pump_step (nat (st_queue_messages (ge_settings env))) (nat (st_queue_bytes (ge_settings env))) (cn_pump (gw_conns s n)) p')"

type_synonym gateway_system = "gateway \<times> (gateway_task \<rightharpoonup> unit gprog)"

abbreviation gateway_step :: "gateway_env \<Rightarrow> gateway_system \<Rightarrow> gateway_system \<Rightarrow> bool" where
  "gateway_step env \<equiv> tasks_step gateway_answers gateway_ends (gateway_starts env) (gateway_moves env)"

text \<open>\<open>create_app\<close>: no connection, no session, an empty cache of used tokens.\<close>

definition new_gateway :: "gateway_env \<Rightarrow> persona_registry \<Rightarrow> rat \<Rightarrow> rat \<Rightarrow> gateway option" where
  "new_gateway env registry now wall =
     (case new_replay_cache (st_replay_entries (ge_settings env)) of
        Inl e \<Rightarrow> None
      | Inr cache \<Rightarrow>
          Some \<lparr>gw_counts = [], gw_audio = [], gw_control = [], gw_active = 0, gw_pending = 0, gw_replay = cache,
            gw_personas = registry, gw_next = 0, gw_conns = (\<lambda>_. new_connection (ge_settings env) [] [] now), gw_cleanups = [],
            gw_now = now, gw_wall = wall\<rparr>)"

end
