(* ===== verification/RealtimeAdmission.thy ===== *)
theory RealtimeAdmission
  imports RealtimeGateway
begin

text \<open>
  The admission of connections and sessions by the gateway of \<^verbatim>\<open>RealtimeGateway\<close>: its counters are exact
  and never above their limits, whatever its connections, their clean-ups and their sessions do beside
  each other. The contract of each handler is proved once, with the parts of the state that belong to
  its own connection.
\<close>

section \<open>The contract\<close>

text \<open>What belongs to a connection: whether it has a slot, a reservation, a counted session, a session,
  and its host.\<close>

definition owned :: "nat \<Rightarrow> gateway \<Rightarrow> bool \<times> bool \<times> bool \<times> bool \<times> utext" where
  "owned n s = (let c = gw_conns s n in (cn_open c, cn_reserved c, cn_registered c, cn_session c, cn_host c))"

definition open_of :: "utext \<Rightarrow> gateway \<Rightarrow> nat set" where
  "open_of h s = {n. cn_open (gw_conns s n) \<and> cn_host (gw_conns s n) = h}"

definition reserved_of :: "gateway \<Rightarrow> nat set" where
  "reserved_of s = {n. cn_reserved (gw_conns s n)}"

definition counted_of :: "gateway \<Rightarrow> nat set" where
  "counted_of s = {n. cn_registered (gw_conns s n) \<and> (cn_open (gw_conns s n) \<or> n \<in> set (gw_cleanups s))}"

definition fresh_ok :: "gateway \<Rightarrow> bool" where
  "fresh_ok s \<longleftrightarrow> (\<forall>n. gw_next s \<le> n \<longrightarrow> \<not> cn_open (gw_conns s n) \<and> \<not> cn_reserved (gw_conns s n)
     \<and> \<not> cn_registered (gw_conns s n) \<and> n \<notin> set (gw_cleanups s))"

definition slots_ok :: "gateway \<Rightarrow> bool" where
  "slots_ok s \<longleftrightarrow> distinct (gw_cleanups s) \<and> (\<forall>n.
     (cn_reserved (gw_conns s n) \<longrightarrow> cn_open (gw_conns s n) \<and> \<not> cn_registered (gw_conns s n))
     \<and> (cn_registered (gw_conns s n) \<longrightarrow> cn_session (gw_conns s n))
     \<and> (cn_open (gw_conns s n) \<longrightarrow> n \<notin> set (gw_cleanups s)))"

definition counts_ok :: "settings \<Rightarrow> gateway \<Rightarrow> bool" where
  "counts_ok st s \<longleftrightarrow> gw_pending s = card (reserved_of s) \<and> gw_active s = card (counted_of s)
     \<and> int (gw_active s + gw_pending s) \<le> st_max_active st"

definition hosts_ok :: "settings \<Rightarrow> gateway \<Rightarrow> bool" where
  "hosts_ok st s \<longleftrightarrow> list_all (\<lambda>(h, k). 0 < k) (gw_counts s)
     \<and> (\<forall>h. connections_of h s = card (open_of h s) \<and> int (card (open_of h s)) \<le> st_max_per_ip st)"

definition pumps_ok :: "settings \<Rightarrow> gateway \<Rightarrow> bool" where
  "pumps_ok st s \<longleftrightarrow> (\<forall>n. pump_ok (nat (st_queue_messages st)) (nat (st_queue_bytes st)) (cn_pump (gw_conns s n)))"

definition gateway_ok :: "gateway_env \<Rightarrow> gateway \<Rightarrow> bool" where
  "gateway_ok env s \<longleftrightarrow> fresh_ok s \<and> slots_ok s \<and> counts_ok (ge_settings env) s \<and> hosts_ok (ge_settings env) s \<and> pumps_ok (ge_settings env) s"

definition gateway_guar :: "gateway_env \<Rightarrow> gateway_task \<Rightarrow> gateway \<Rightarrow> gateway \<Rightarrow> bool" where
  "gateway_guar env t s s' \<longleftrightarrow> gateway_ok env s' \<and> (\<forall>n. t \<noteq> Connection n \<longrightarrow> owned n s' = owned n s)"

definition gateway_rely :: "gateway_env \<Rightarrow> gateway_task \<Rightarrow> gateway \<Rightarrow> gateway \<Rightarrow> bool" where
  "gateway_rely env t s s' \<longleftrightarrow> gateway_ok env s' \<and> (\<forall>n. t = Connection n \<longrightarrow> owned n s' = owned n s)"

definition gateway_over :: "gateway_task \<Rightarrow> gateway \<Rightarrow> bool" where
  "gateway_over t s \<longleftrightarrow> (case t of Connection n \<Rightarrow> \<not> cn_open (gw_conns s n) | Cleanup n \<Rightarrow> True)"

abbreviation gateway_wlp where
  "gateway_wlp env n \<equiv> wlp (gateway_guar env (Connection n)) (gateway_rely env (Connection n)) (gateway_answers (Connection n))"

section \<open>Quiet writes\<close>

text \<open>A write that changes no counter, and nothing that belongs to a connection, keeps the invariant when
  it keeps the senders in order.\<close>

definition quiet :: "gateway_env \<Rightarrow> gateway \<Rightarrow> gateway \<Rightarrow> bool" where
  "quiet env s s' \<longleftrightarrow> gw_counts s' = gw_counts s \<and> gw_active s' = gw_active s \<and> gw_pending s' = gw_pending s
     \<and> gw_next s' = gw_next s \<and> gw_cleanups s' = gw_cleanups s \<and> (\<forall>m. owned m s' = owned m s)
     \<and> (pumps_ok (ge_settings env) s \<longrightarrow> pumps_ok (ge_settings env) s')"

lemma owned_eq: "owned m s' = owned m s \<longleftrightarrow>
    cn_open (gw_conns s' m) = cn_open (gw_conns s m) \<and> cn_reserved (gw_conns s' m) = cn_reserved (gw_conns s m)
    \<and> cn_registered (gw_conns s' m) = cn_registered (gw_conns s m) \<and> cn_session (gw_conns s' m) = cn_session (gw_conns s m)
    \<and> cn_host (gw_conns s' m) = cn_host (gw_conns s m)"
  by (simp add: owned_def Let_def)

lemma quiet_ok:
  assumes "quiet env s s'" "gateway_ok env s"
  shows "gateway_ok env s'"
proof -
  have o: "\<And>m. cn_open (gw_conns s' m) = cn_open (gw_conns s m) \<and> cn_reserved (gw_conns s' m) = cn_reserved (gw_conns s m)
      \<and> cn_registered (gw_conns s' m) = cn_registered (gw_conns s m) \<and> cn_session (gw_conns s' m) = cn_session (gw_conns s m)
      \<and> cn_host (gw_conns s' m) = cn_host (gw_conns s m)"
    and q: "gw_counts s' = gw_counts s" "gw_active s' = gw_active s" "gw_pending s' = gw_pending s" "gw_next s' = gw_next s"
      "gw_cleanups s' = gw_cleanups s" "pumps_ok (ge_settings env) s \<longrightarrow> pumps_ok (ge_settings env) s'"
    using assms(1) by (simp_all add: quiet_def owned_eq)
  have "fresh_ok s' = fresh_ok s" "slots_ok s' = slots_ok s" by (simp_all add: fresh_ok_def slots_ok_def o q)
  moreover have "reserved_of s' = reserved_of s" "counted_of s' = counted_of s" "open_of h s' = open_of h s"
      "connections_of h s' = connections_of h s" for h
    by (simp_all add: reserved_of_def counted_of_def open_of_def connections_of_def o q)
  ultimately show ?thesis using assms(2) q by (simp add: gateway_ok_def counts_ok_def hosts_ok_def)
qed

lemma quiet_owned: "quiet env s s' \<Longrightarrow> owned m s' = owned m s"
  by (simp add: quiet_def)

lemma quiet_guar: "quiet env s s' \<Longrightarrow> gateway_ok env s \<Longrightarrow> gateway_guar env t s s'"
  by (simp add: gateway_guar_def quiet_ok quiet_owned)

lemma upd_conn_simps [simp]:
  "gw_counts (upd_conn n f s) = gw_counts s" "gw_active (upd_conn n f s) = gw_active s" "gw_pending (upd_conn n f s) = gw_pending s"
  "gw_next (upd_conn n f s) = gw_next s" "gw_cleanups (upd_conn n f s) = gw_cleanups s"
  "gw_conns (upd_conn n f s) = (gw_conns s)(n := f (gw_conns s n))"
  by (simp_all add: upd_conn_def)

lemma quiet_conn:
  assumes "owned n (upd_conn n f s) = owned n s"
    and "pump_ok (nat (st_queue_messages (ge_settings env))) (nat (st_queue_bytes (ge_settings env))) (cn_pump (gw_conns s n))
      \<Longrightarrow> pump_ok (nat (st_queue_messages (ge_settings env))) (nat (st_queue_bytes (ge_settings env))) (cn_pump (f (gw_conns s n)))"
  shows "quiet env s (upd_conn n f s)"
  using assms by (auto simp: quiet_def owned_def pumps_ok_def Let_def)

section \<open>Quiet programs\<close>

text \<open>A program whose writes are quiet leaves what belongs to its connection as it is.\<close>

definition calm :: "gateway_env \<Rightarrow> nat \<Rightarrow> 'a gprog \<Rightarrow> bool" where
  "calm env n p \<longleftrightarrow> (\<forall>s v. gateway_ok env s \<longrightarrow> owned n s = v \<longrightarrow>
     gateway_wlp env n p (\<lambda>_ s'. gateway_ok env s' \<and> owned n s' = v) (\<lambda>_ s'. gateway_ok env s' \<and> owned n s' = v) s)"

named_theorems calms

lemma calm_run:
  assumes "calm env n p" "gateway_ok env s" "owned n s = v"
    and "\<And>x s'. gateway_ok env s' \<Longrightarrow> owned n s' = v \<Longrightarrow> Q x s'" "\<And>x s'. gateway_ok env s' \<Longrightarrow> owned n s' = v \<Longrightarrow> E x s'"
  shows "gateway_wlp env n p Q E s"
proof (rule wlp_mono)
  show "gateway_wlp env n p (\<lambda>_ s'. gateway_ok env s' \<and> owned n s' = v) (\<lambda>_ s'. gateway_ok env s' \<and> owned n s' = v) s"
    using assms(1-3) unfolding calm_def by blast
qed (use assms(4,5) in auto)

lemma calm_ret [calms]: "calm env n (Ret a)" and calm_raise [calms]: "calm env n (Raise x)"
  by (simp_all add: calm_def)

lemma calm_look [calms]: "(\<And>s. calm env n (f s)) \<Longrightarrow> calm env n (Look f)"
  by (simp add: calm_def)

lemma calm_put [calms]:
  assumes "\<And>s. quiet env s (u s)" "calm env n p"
  shows "calm env n (Put u p)"
  unfolding calm_def
proof (intro allI impI)
  fix s v assume "gateway_ok env s" "owned n s = v"
  then have "gateway_ok env (u s)" "owned n (u s) = v" "gateway_guar env (Connection n) s (u s)"
    using assms(1) quiet_ok quiet_owned quiet_guar by blast+
  then show "gateway_wlp env n (Put u p) (\<lambda>_ s'. gateway_ok env s' \<and> owned n s' = v) (\<lambda>_ s'. gateway_ok env s' \<and> owned n s' = v) s"
    using calm_run [OF assms(2)] by simp
qed

lemma calm_await [calms]: "(\<And>r. calm env n (c r)) \<Longrightarrow> calm env n (Await e c)"
  unfolding calm_def wlp.simps gateway_rely_def by blast

lemma calm_bind [calms]:
  assumes "calm env n p" "\<And>x. calm env n (k x)"
  shows "calm env n (bindp p k)"
  unfolding calm_def wlp_bindp
  by (intro allI impI) (rule calm_run [OF assms(1)], assumption+, (rule calm_run [OF assms(2)], assumption+, simp_all)+)

lemma calm_seq [calms]: "calm env n p \<Longrightarrow> calm env n q \<Longrightarrow> calm env n (seqp p q)"
  unfolding seqp_def by (rule calm_bind)

lemma calm_handle [calms]:
  assumes "calm env n p" "\<And>x. calm env n (h x)"
  shows "calm env n (handlep p h)"
  unfolding calm_def wlp_handlep
  by (intro allI impI) (rule calm_run [OF assms(1)], assumption+, simp, rule calm_run [OF assms(2)], assumption+, simp_all)

lemma calm_gawait [calms]: "(\<And>r. calm env n (k r)) \<Longrightarrow> calm env n (gawait e k)"
  by (simp add: gawait_def calm_await calm_raise)

lemma calm_if [calms]: "calm env n p \<Longrightarrow> calm env n q \<Longrightarrow> calm env n (if b then p else q)"
  by simp

lemma calm_option [calms]: "calm env n p \<Longrightarrow> (\<And>x. calm env n (q x)) \<Longrightarrow> calm env n (case r of None \<Rightarrow> p | Some x \<Rightarrow> q x)"
  by (simp split: option.split)

lemma calm_sum [calms]: "(\<And>x. calm env n (p x)) \<Longrightarrow> (\<And>x. calm env n (q x)) \<Longrightarrow> calm env n (case r of Inl x \<Rightarrow> p x | Inr x \<Rightarrow> q x)"
  by (simp split: sum.split)

lemma calm_pair [calms]: "(\<And>x y. calm env n (p x y)) \<Longrightarrow> calm env n (case r of (x, y) \<Rightarrow> p x y)"
  by (simp split: prod.split)

lemma calm_let [calms]: "(\<And>x. calm env n (p x)) \<Longrightarrow> calm env n (let y = r in p y)"
  by (simp add: Let_def)

section \<open>The quiet programs of the gateway\<close>

lemma quiet_plain [calms]:
  "quiet env s (upd_conn n (\<lambda>c. c\<lparr>cn_close := x\<rparr>) s)"
  "quiet env s (upd_conn n (\<lambda>c. c\<lparr>cn_sequence := k c\<rparr>) s)"
  "quiet env s (upd_conn n (\<lambda>c. c\<lparr>cn_attempts := k c\<rparr>) s)"
  "quiet env s (upd_conn n (\<lambda>c. c\<lparr>cn_last_activity := d\<rparr>) s)"
  "quiet env s (upd_conn n (\<lambda>c. c\<lparr>cn_capabilities := cs\<rparr>) s)"
  "quiet env s (upd_conn n (\<lambda>c. c\<lparr>cn_accepted := True, cn_pump := start_pump (cn_pump c)\<rparr>) s)"
  "quiet env s (upd_conn n (\<lambda>c. c\<lparr>cn_pump := stop_pump (cn_pump c)\<rparr>) s)"
  "quiet env s (upd_conn n (limit_by_token now wall claims) s)"
  by (rule quiet_conn; simp add: owned_def Let_def start_ok stop_ok limit_by_token_def)+

lemma quiet_other [calms]:
  "quiet env s (s\<lparr>gw_audio := b\<rparr>)" "quiet env s (s\<lparr>gw_control := b\<rparr>)" "quiet env s (s\<lparr>gw_personas := r\<rparr>)"
  "quiet env s (s\<lparr>gw_replay := cache\<rparr>)" "quiet env s (s\<lparr>gw_now := now, gw_wall := wall\<rparr>)" "quiet env s (prune_buckets s)"
  by (simp_all add: quiet_def owned_def pumps_ok_def prune_buckets_def Let_def)

lemma quiet_trans: "quiet env s s' \<Longrightarrow> quiet env s' s'' \<Longrightarrow> quiet env s s''"
  by (simp add: quiet_def)

lemma quiet_pump:
  "pump_step (nat (st_queue_messages (ge_settings env))) (nat (st_queue_bytes (ge_settings env))) (cn_pump (gw_conns s n)) p
    \<Longrightarrow> quiet env s (upd_conn n (\<lambda>c. c\<lparr>cn_pump := p\<rparr>) s)"
  by (rule quiet_conn) (simp_all add: owned_def Let_def pump_step_ok)

lemma calm_send [calms]: "calm env n (send_item env n item bytes)"
  unfolding calm_def
proof (intro allI impI)
  fix s v assume ok: "gateway_ok env s" "owned n s = v"
  define a b where "a = nat (st_queue_messages (ge_settings env))" and "b = nat (st_queue_bytes (ge_settings env))"
  obtain r p where e: "enqueue a b item bytes (cn_pump (gw_conns s n)) = (r, p)" by fastforce
  then have "pump_step a b (cn_pump (gw_conns s n)) p" using pump_step.intros(1) [of a b "cn_pump (gw_conns s n)" item bytes] by simp
  then have "quiet env s (upd_conn n (\<lambda>c. c\<lparr>cn_pump := p\<rparr>) s)" unfolding a_def b_def by (rule quiet_pump)
  with ok show "gateway_wlp env n (send_item env n item bytes) (\<lambda>_ s'. gateway_ok env s' \<and> owned n s' = v)
      (\<lambda>_ s'. gateway_ok env s' \<and> owned n s' = v) s"
    by (cases r) (simp_all add: send_item_def quiet_guar quiet_ok quiet_owned e flip: a_def b_def)
qed

lemma calm_emit [calms]: "calm env n (emit_event env n ev)"
  unfolding emit_event_def Let_def by (intro calms)

lemma calm_packet [calms]: "calm env n (emit_packet_bytes env n bs)"
  unfolding emit_packet_bytes_def Let_def by (intro calms)

lemma calm_error [calms]: "calm env n (emit_error env n code message isfatal retryable details)"
  unfolding emit_error_def by (intro calms)

lemma calm_fatal [calms]: "calm env n (fatal env n code message close_code)"
  unfolding fatal_def by (intro calms)

lemma calm_refuse [calms]: "calm env n (refuse env n code message)"
  unfolding refuse_def by (intro calms)

lemma calm_media [calms]: "calm env n (handle_media env n bs)"
  unfolding handle_media_def Let_def by (intro calms)

lemma calm_control [calms]: "calm env n (handle_session_control env n action control)"
  unfolding handle_session_control_def Let_def by (intro calms | simp split: ujson.split; intro calms conjI allI impI)+

lemma calm_expired [calms]: "calm env n (expired env n)"
  unfolding expired_def Let_def by (intro calms)

lemma calm_close [calms]: "calm env n (close_socket close_code reason)"
  unfolding close_socket_def by (intro calms)

lemma calm_failed [calms]: "calm env n (connection_failed env n x)"
  unfolding connection_failed_def closing_def Let_def by (cases x; simp; intro calms)

lemma calm_suppressed [calms]: "calm env n p \<Longrightarrow> calm env n (suppressed e p)"
  unfolding suppressed_def by (intro calms)

lemma calm_cleanup [calms]: "calm env n (clean_up env n)"
  unfolding clean_up_def Let_def by (intro calms)

section \<open>The counting writes\<close>

lemma card_changed:
  assumes "finite A" "\<And>m. m \<noteq> n \<Longrightarrow> m \<in> B \<longleftrightarrow> m \<in> A"
  shows "card B + of_bool (n \<in> A) = card A + of_bool (n \<in> B)"
proof -
  have e: "B - {n} = A - {n}" using assms(2) by blast
  then have "finite B" using assms(1) by (metis finite_Diff2 finite.emptyI finite_insert)
  then have "card B = card (B - {n}) + of_bool (n \<in> B)" using card_Suc_Diff1 [of B n] by (cases "n \<in> B") simp_all
  moreover have "card A = card (A - {n}) + of_bool (n \<in> A)" using card_Suc_Diff1 [of A n] assms(1) by (cases "n \<in> A") simp_all
  ultimately show ?thesis using e by simp
qed

lemma fresh_finite:
  assumes "fresh_ok s"
  shows "finite (reserved_of s)" "finite (counted_of s)" "finite (open_of h s)"
proof -
  have "n \<in> {..<gw_next s}" if "cn_open (gw_conns s n) \<or> cn_reserved (gw_conns s n) \<or> cn_registered (gw_conns s n)" for n
    using assms that by (cases "gw_next s \<le> n") (auto simp: fresh_ok_def)
  then have "reserved_of s \<subseteq> {..<gw_next s}" "counted_of s \<subseteq> {..<gw_next s}" "open_of h s \<subseteq> {..<gw_next s}"
    unfolding reserved_of_def counted_of_def open_of_def by blast+
  then show "finite (reserved_of s)" "finite (counted_of s)" "finite (open_of h s)" using finite_subset by blast+
qed

text \<open>A write to one connection keeps the invariant when it counts what it changes.\<close>

lemma counting_ok:
  assumes ok: "gateway_ok env s"
    and others: "\<And>m. m \<noteq> n \<Longrightarrow> gw_conns s' m = gw_conns s m" "\<And>m. m \<noteq> n \<Longrightarrow> m \<in> set (gw_cleanups s') \<longleftrightarrow> m \<in> set (gw_cleanups s)"
    and ids: "gw_next s \<le> gw_next s'" "n < gw_next s'" "distinct (gw_cleanups s')"
    and own: "cn_reserved (gw_conns s' n) \<Longrightarrow> cn_open (gw_conns s' n) \<and> \<not> cn_registered (gw_conns s' n)"
      "cn_registered (gw_conns s' n) \<Longrightarrow> cn_session (gw_conns s' n)" "cn_open (gw_conns s' n) \<Longrightarrow> n \<notin> set (gw_cleanups s')"
    and pump: "cn_pump (gw_conns s' n) = cn_pump (gw_conns s n) \<or> cn_pump (gw_conns s' n) = new_pump"
    and pending: "gw_pending s' + of_bool (n \<in> reserved_of s) = gw_pending s + of_bool (n \<in> reserved_of s')"
    and active: "gw_active s' + of_bool (n \<in> counted_of s) = gw_active s + of_bool (n \<in> counted_of s')"
    and limit: "int (gw_active s' + gw_pending s') \<le> st_max_active (ge_settings env)"
    and entries: "list_all (\<lambda>(h, k). 0 < k) (gw_counts s')"
    and counts: "\<And>h. connections_of h s' + of_bool (n \<in> open_of h s) = connections_of h s + of_bool (n \<in> open_of h s')"
    and host: "\<And>h. n \<in> open_of h s' \<Longrightarrow> n \<notin> open_of h s \<Longrightarrow> int (connections_of h s) < st_max_per_ip (ge_settings env)"
  shows "gateway_ok env s'"
proof -
  have fresh: "fresh_ok s" and slots: "slots_ok s" and c: "counts_ok (ge_settings env) s" and h: "hosts_ok (ge_settings env) s"
    and p: "pumps_ok (ge_settings env) s" using ok by (simp_all add: gateway_ok_def)
  have "fresh_ok s'"
    unfolding fresh_ok_def
  proof (intro allI impI)
    fix m assume "gw_next s' \<le> m"
    then have "m \<noteq> n" "gw_next s \<le> m" using ids by linarith+
    then show "\<not> cn_open (gw_conns s' m) \<and> \<not> cn_reserved (gw_conns s' m) \<and> \<not> cn_registered (gw_conns s' m) \<and> m \<notin> set (gw_cleanups s')"
      using fresh others by (simp add: fresh_ok_def)
  qed
  moreover have "slots_ok s'"
    unfolding slots_ok_def
  proof (intro conjI allI)
    fix m
    show "cn_reserved (gw_conns s' m) \<longrightarrow> cn_open (gw_conns s' m) \<and> \<not> cn_registered (gw_conns s' m)"
        "cn_registered (gw_conns s' m) \<longrightarrow> cn_session (gw_conns s' m)" "cn_open (gw_conns s' m) \<longrightarrow> m \<notin> set (gw_cleanups s')"
      using slots others own by (cases "m = n"; simp add: slots_ok_def)+
  qed (rule ids(3))
  moreover have "counts_ok (ge_settings env) s'"
  proof -
    have "card (reserved_of s') + of_bool (n \<in> reserved_of s) = card (reserved_of s) + of_bool (n \<in> reserved_of s')"
      by (rule card_changed) (use fresh_finite [OF fresh] others in \<open>simp_all add: reserved_of_def\<close>)
    moreover have "card (counted_of s') + of_bool (n \<in> counted_of s) = card (counted_of s) + of_bool (n \<in> counted_of s')"
      by (rule card_changed) (use fresh_finite [OF fresh] others in \<open>simp_all add: counted_of_def\<close>)
    ultimately show ?thesis using c limit pending active by (simp add: counts_ok_def)
  qed
  moreover have "hosts_ok (ge_settings env) s'"
    unfolding hosts_ok_def
  proof (intro conjI allI)
    fix g
    have "card (open_of g s') + of_bool (n \<in> open_of g s) = card (open_of g s) + of_bool (n \<in> open_of g s')"
      by (rule card_changed) (use fresh_finite [OF fresh] others in \<open>simp_all add: open_of_def\<close>)
    moreover have e: "connections_of g s = card (open_of g s)" "int (card (open_of g s)) \<le> st_max_per_ip (ge_settings env)"
      using h by (simp_all add: hosts_ok_def)
    ultimately show k: "connections_of g s' = card (open_of g s')" using counts [of g] by simp
    show "int (card (open_of g s')) \<le> st_max_per_ip (ge_settings env)"
      unfolding k [symmetric] using counts [of g] e host [of g] by (cases "n \<in> open_of g s"; cases "n \<in> open_of g s'"; simp)
  qed (rule entries)
  moreover have "pumps_ok (ge_settings env) s'"
    unfolding pumps_ok_def
  proof
    fix m
    show "pump_ok (nat (st_queue_messages (ge_settings env))) (nat (st_queue_bytes (ge_settings env))) (cn_pump (gw_conns s' m))"
      using p pump others(1) [of m] new_pump_ok by (cases "m = n") (auto simp: pumps_ok_def)
  qed
  ultimately show ?thesis by (simp add: gateway_ok_def)
qed

lemma own_guar:
  "gateway_ok env s' \<Longrightarrow> (\<And>m. m \<noteq> n \<Longrightarrow> gw_conns s' m = gw_conns s m) \<Longrightarrow> gateway_guar env (Connection n) s s'"
  by (simp add: gateway_guar_def owned_def)

lemma open_known: "gateway_ok env s \<Longrightarrow> owned n s = (True, r, g, x, h) \<Longrightarrow> n < gw_next s \<and> n \<notin> set (gw_cleanups s)"
  by (auto simp: gateway_ok_def fresh_ok_def slots_ok_def owned_def Let_def not_le [symmetric])

lemma gateway_okD:
  assumes "gateway_ok env s"
  shows "distinct (gw_cleanups s)" "list_all (\<lambda>(h, k). 0 < k) (gw_counts s)" "int (gw_active s + gw_pending s) \<le> st_max_active (ge_settings env)"
    "connections_of h s = card (open_of h s)" "n \<in> reserved_of s \<Longrightarrow> 0 < gw_pending s" "n \<in> counted_of s \<Longrightarrow> 0 < gw_active s"
    "n \<in> open_of h s \<Longrightarrow> 0 < connections_of h s"
  using assms fresh_finite [of s] card_gt_0_iff [of "reserved_of s"] card_gt_0_iff [of "counted_of s"] card_gt_0_iff [of "open_of h s"]
  by (auto simp: gateway_ok_def slots_ok_def hosts_ok_def counts_ok_def)

lemmas set_defs = reserved_of_def counted_of_def open_of_def

lemma reserve_step:
  assumes "gateway_ok env s" "owned n s = (True, False, False, False, h)" "capacity_left env s"
  shows "gateway_guar env (Connection n) s (reserve_capacity n s)" "gateway_ok env (reserve_capacity n s)"
    "owned n (reserve_capacity n s) = (True, True, False, False, h)"
proof -
  have o: "cn_open (gw_conns s n)" "\<not> cn_reserved (gw_conns s n)" "\<not> cn_registered (gw_conns s n)"
    using assms(2) by (simp_all add: owned_def Let_def)
  show ok: "gateway_ok env (reserve_capacity n s)"
    by (rule counting_ok [OF assms(1), of n]; insert o open_known [OF assms(1,2)] gateway_okD [OF assms(1)] assms(3);
        simp add: reserve_capacity_def set_defs connections_of_def capacity_left_def)
  show "gateway_guar env (Connection n) s (reserve_capacity n s)"
    by (rule own_guar [OF ok]) (simp add: reserve_capacity_def)
  show "owned n (reserve_capacity n s) = (True, True, False, False, h)"
    using assms(2) by (simp add: reserve_capacity_def owned_def Let_def)
qed

lemma release_step:
  assumes "gateway_ok env s" "owned n s = (True, r, g, x, h)"
  shows "gateway_guar env (Connection n) s (release_pending n s)" "gateway_ok env (release_pending n s)"
    "owned n (release_pending n s) = (True, False, g, x, h)"
proof -
  have o: "cn_open (gw_conns s n)" "cn_registered (gw_conns s n) \<longrightarrow> cn_session (gw_conns s n)"
    using assms by (auto simp: owned_def Let_def gateway_ok_def slots_ok_def)
  show ok: "gateway_ok env (release_pending n s)"
  proof (cases "cn_reserved (gw_conns s n)")
    case True
    then have "0 < gw_pending s" using gateway_okD(5) [OF assms(1), of n] by (simp add: reserved_of_def)
    show ?thesis
      by (rule counting_ok [OF assms(1), of n]; insert o True \<open>0 < gw_pending s\<close> open_known [OF assms(1,2)] gateway_okD [OF assms(1)];
          simp add: release_pending_def set_defs connections_of_def)
  qed (simp add: release_pending_def assms(1))
  show "gateway_guar env (Connection n) s (release_pending n s)"
    by (rule own_guar [OF ok]) (simp add: release_pending_def)
  show "owned n (release_pending n s) = (True, False, g, x, h)"
    using assms(2) by (simp add: release_pending_def owned_def Let_def)
qed

lemma activate_step:
  assumes "gateway_ok env s" "owned n s = (True, True, False, False, h)"
  shows "gateway_guar env (Connection n) s (activate_pending n s)" "gateway_ok env (activate_pending n s)"
    "owned n (activate_pending n s) = (True, False, True, True, h)"
proof -
  have o: "cn_open (gw_conns s n)" "cn_reserved (gw_conns s n)" "\<not> cn_registered (gw_conns s n)"
    using assms(2) by (simp_all add: owned_def Let_def)
  have p: "0 < gw_pending s" using gateway_okD(5) [OF assms(1), of n] o by (simp add: reserved_of_def)
  have "int (Suc (gw_active s) + (gw_pending s - 1)) \<le> st_max_active (ge_settings env)"
    using p gateway_okD(3) [OF assms(1)] by simp
  with p show ok: "gateway_ok env (activate_pending n s)"
    by (intro counting_ok [OF assms(1), of n]; insert o open_known [OF assms(1,2)] gateway_okD [OF assms(1)];
        simp add: activate_pending_def release_pending_def set_defs connections_of_def)
  show "gateway_guar env (Connection n) s (activate_pending n s)"
    by (rule own_guar [OF ok]) (simp add: activate_pending_def release_pending_def)
  show "owned n (activate_pending n s) = (True, False, True, True, h)"
    using assms(2) by (simp add: activate_pending_def release_pending_def owned_def Let_def)
qed

lemma session_step:
  assumes "gateway_ok env s" "owned n s = (True, r, g, x, h)"
  shows "gateway_guar env (Connection n) s (upd_conn n (\<lambda>c. c\<lparr>cn_session := True\<rparr>) s)"
    "gateway_ok env (upd_conn n (\<lambda>c. c\<lparr>cn_session := True\<rparr>) s)"
    "owned n (upd_conn n (\<lambda>c. c\<lparr>cn_session := True\<rparr>) s) = (True, r, g, True, h)"
proof -
  have o: "cn_open (gw_conns s n)" "cn_reserved (gw_conns s n) \<longrightarrow> \<not> cn_registered (gw_conns s n)"
    using assms by (auto simp: owned_def Let_def gateway_ok_def slots_ok_def)
  show ok: "gateway_ok env (upd_conn n (\<lambda>c. c\<lparr>cn_session := True\<rparr>) s)"
    by (rule counting_ok [OF assms(1), of n]; insert o open_known [OF assms(1,2)] gateway_okD [OF assms(1)];
        simp add: set_defs connections_of_def)
  show "gateway_guar env (Connection n) s (upd_conn n (\<lambda>c. c\<lparr>cn_session := True\<rparr>) s)" by (rule own_guar [OF ok]) simp
  show "owned n (upd_conn n (\<lambda>c. c\<lparr>cn_session := True\<rparr>) s) = (True, r, g, True, h)"
    using assms(2) by (simp add: owned_def Let_def)
qed

lemma open_step:
  assumes "gateway_ok env s" "gw_next s \<le> n"
  shows "gateway_guar env (Connection n) s (open_connection n (new_connection st h i now) s)"
    "gateway_ok env (open_connection n (new_connection st h i now) s)"
    "owned n (open_connection n (new_connection st h i now) s) = (False, False, False, False, h)"
    "n \<notin> set (gw_cleanups (open_connection n (new_connection st h i now) s))"
proof -
  have o: "\<not> cn_open (gw_conns s n)" "\<not> cn_reserved (gw_conns s n)" "\<not> cn_registered (gw_conns s n)" "n \<notin> set (gw_cleanups s)"
    using assms by (simp_all add: gateway_ok_def fresh_ok_def)
  show ok: "gateway_ok env (open_connection n (new_connection st h i now) s)"
    by (rule counting_ok [OF assms(1), of n]; insert o assms(2) gateway_okD [OF assms(1)];
        simp add: open_connection_def new_connection_def set_defs connections_of_def)
  show "gateway_guar env (Connection n) s (open_connection n (new_connection st h i now) s)"
    by (rule own_guar [OF ok]) (simp add: open_connection_def)
  show "owned n (open_connection n (new_connection st h i now) s) = (False, False, False, False, h)"
    by (simp add: open_connection_def new_connection_def owned_def Let_def)
  show "n \<notin> set (gw_cleanups (open_connection n (new_connection st h i now) s))" using o by (simp add: open_connection_def)
qed

lemma admit_step:
  assumes "gateway_ok env s" "owned n s = (False, False, False, False, h)" "n \<notin> set (gw_cleanups s)" "n < gw_next s"
    "int (connections_of h s) < st_max_per_ip (ge_settings env)"
  shows "gateway_guar env (Connection n) s (admit_connection env n s)" "gateway_ok env (admit_connection env n s)"
    "owned n (admit_connection env n s) = (True, False, False, False, h)"
proof -
  have o: "\<not> cn_open (gw_conns s n)" "\<not> cn_reserved (gw_conns s n)" "\<not> cn_registered (gw_conns s n)" "cn_host (gw_conns s n) = h"
    using assms(2) by (simp_all add: owned_def Let_def)
  have c: "connections_of g (admit_connection env n s) = connections_of g s + of_bool (g = h)" for g
    using o by (simp add: connections_of_def admit_connection_def dict_set_update Let_def)
  have e: "list_all (\<lambda>(h, k). 0 < k) (gw_counts (admit_connection env n s))"
    using gateway_okD(2) [OF assms(1)] by (simp add: admit_connection_def Let_def dict_set_all)
  show ok: "gateway_ok env (admit_connection env n s)"
    by (rule counting_ok [OF assms(1), of n _ , OF _ _ _ _ _ _ _ _ _ _ _ _ e]; insert o c assms(3-5) gateway_okD [OF assms(1)];
        (simp add: set_defs; fail | simp add: admit_connection_def set_defs Let_def))
  show "gateway_guar env (Connection n) s (admit_connection env n s)"
    by (rule own_guar [OF ok]) (simp add: admit_connection_def Let_def)
  show "owned n (admit_connection env n s) = (True, False, False, False, h)"
    using assms(2) by (simp add: admit_connection_def owned_def Let_def)
qed

lemma slot_released:
  assumes "list_all (\<lambda>(h, k). 0 < k) (gw_counts s)" "0 < connections_of (cn_host (gw_conns s n)) s"
  shows "list_all (\<lambda>(h, k). 0 < k) (gw_counts (release_slot n s))"
    "connections_of g (release_slot n s) + of_bool (cn_host (gw_conns s n) = g) = connections_of g s"
proof -
  have m: "map_of (filter (\<lambda>(k, v). k \<noteq> h) kvs) = (map_of kvs)(h := None)" for h and kvs :: "(utext \<times> nat) list"
    by (induction kvs) (auto simp: fun_eq_iff)
  show "list_all (\<lambda>(h, k). 0 < k) (gw_counts (release_slot n s))"
  proof (cases "(case map_of (gw_counts s) (cn_host (gw_conns s n)) of Some k \<Rightarrow> k | None \<Rightarrow> 1) - 1 = 0")
    case True
    then show ?thesis using assms(1) by (auto simp: release_slot_def list_all_iff)
  next
    case False
    then show ?thesis using assms(1) by (simp add: release_slot_def Let_def dict_set_all)
  qed
  show "connections_of g (release_slot n s) + of_bool (cn_host (gw_conns s n) = g) = connections_of g s"
    using assms(2) by (auto simp: release_slot_def connections_of_def dict_set_update Let_def m split: option.splits)
qed

lemma finish_step:
  assumes "gateway_ok env s" "owned n s = (True, r, g, x, h)"
  shows "gateway_guar env (Connection n) s (finish_connection n s)" "gateway_ok env (finish_connection n s)"
    "\<not> cn_open (gw_conns (finish_connection n s) n)"
proof -
  have o: "cn_open (gw_conns s n)" "cn_registered (gw_conns s n) \<longrightarrow> \<not> cn_reserved (gw_conns s n)"
    "cn_registered (gw_conns s n) \<longrightarrow> cn_session (gw_conns s n)"
    using assms by (auto simp: owned_def Let_def gateway_ok_def slots_ok_def)
  have k: "0 < connections_of (cn_host (gw_conns s n)) s" "cn_reserved (gw_conns s n) \<longrightarrow> 0 < gw_pending s"
    using gateway_okD(5) [OF assms(1), of n] gateway_okD(7) [OF assms(1), of n "cn_host (gw_conns s n)"] o by (simp_all add: set_defs)
  have c: "gw_counts (finish_connection n s) = gw_counts (release_slot n s)" and
    cs: "gw_conns (finish_connection n s) = (gw_conns s)(n := (gw_conns s n)\<lparr>cn_open := False, cn_reserved := False\<rparr>)" and
    p: "gw_pending (finish_connection n s) = gw_pending s - of_bool (cn_reserved (gw_conns s n))" and
    others: "gw_active (finish_connection n s) = gw_active s" "gw_next (finish_connection n s) = gw_next s"
      "gw_cleanups (finish_connection n s) = n # gw_cleanups s"
    using o by (simp_all add: finish_connection_def release_slot_def release_pending_def Let_def fun_eq_iff)
  have e: "list_all (\<lambda>(h, k). 0 < k) (gw_counts (finish_connection n s))"
    unfolding c by (rule slot_released) (use gateway_okD(2) [OF assms(1)] k in simp_all)
  have d: "connections_of g (finish_connection n s) + of_bool (cn_host (gw_conns s n) = g) = connections_of g s" for g
    using slot_released(2) [OF gateway_okD(2) [OF assms(1)] k(1), of g] by (simp add: connections_of_def c)
  show ok: "gateway_ok env (finish_connection n s)"
    by (rule counting_ok [OF assms(1), of n _ , OF _ _ _ _ _ _ _ _ _ _ _ _ e];
        insert o k d open_known [OF assms(1,2)] gateway_okD [OF assms(1)]; simp add: cs p others set_defs)
  show "gateway_guar env (Connection n) s (finish_connection n s)" by (rule own_guar [OF ok]) (simp add: cs)
  show "\<not> cn_open (gw_conns (finish_connection n s) n)" by (simp add: cs)
qed

lemma cleaned_step:
  assumes "gateway_ok env s"
  shows "gateway_ok env (cleaned_up n s)" "owned m (cleaned_up n s) = owned m s"
proof -
  show "owned m (cleaned_up n s) = owned m s" by (simp add: cleaned_up_def owned_def Let_def)
  show "gateway_ok env (cleaned_up n s)"
  proof (cases "n \<in> set (gw_cleanups s)")
    case True
    then have o: "\<not> cn_open (gw_conns s n)" "\<not> cn_reserved (gw_conns s n)" "n < gw_next s"
      "cn_registered (gw_conns s n) \<longrightarrow> cn_session (gw_conns s n)"
      using assms by (auto simp: gateway_ok_def slots_ok_def fresh_ok_def not_le [symmetric])
    have k: "cn_registered (gw_conns s n) \<longrightarrow> 0 < gw_active s"
      using gateway_okD(6) [OF assms, of n] True by (simp add: counted_of_def)
    have c: "gw_conns (cleaned_up n s) = gw_conns s" "gw_active (cleaned_up n s) = gw_active s - of_bool (cn_registered (gw_conns s n))"
      "gw_pending (cleaned_up n s) = gw_pending s" "gw_next (cleaned_up n s) = gw_next s" "gw_counts (cleaned_up n s) = gw_counts s"
      "gw_cleanups (cleaned_up n s) = removeAll n (gw_cleanups s)"
      using True by (simp_all add: cleaned_up_def Let_def)
    have l: "int (gw_active s - of_bool (cn_registered (gw_conns s n)) + gw_pending s) \<le> st_max_active (ge_settings env)"
      using gateway_okD(3) [OF assms] by simp
    show ?thesis
      by (rule counting_ok [OF assms, of n]; insert True o k l gateway_okD(1,2) [OF assms];
          simp add: c set_defs connections_of_def distinct_removeAll)
  qed (simp add: cleaned_up_def assms)
qed

section \<open>The programs that count\<close>

abbreviation held :: "gateway_env \<Rightarrow> nat \<Rightarrow> gateway \<Rightarrow> bool" where
  "held env n s \<equiv> gateway_ok env s \<and> fst (owned n s)"

abbreviation idle :: "gateway_env \<Rightarrow> nat \<Rightarrow> gateway \<Rightarrow> bool" where
  "idle env n s \<equiv> gateway_ok env s \<and> fst (owned n s) \<and> \<not> fst (snd (owned n s))"

lemma wlp_put:
  "gateway_guar env (Connection n) s (u s) \<Longrightarrow> gateway_wlp env n p Q E (u s) \<Longrightarrow> gateway_wlp env n (Put u p) Q E s"
  by simp

lemma wlp_release:
  assumes "gateway_ok env s" "owned n s = (True, r, g, x, h)" "calm env n p"
  shows "gateway_wlp env n (Put (release_pending n) p) (\<lambda>_. idle env n) (\<lambda>_. held env n) s"
  by (rule wlp_put [where u = "release_pending n", OF release_step(1) [OF assms(1,2)]],
      rule calm_run [OF assms(3) release_step(2,3) [OF assms(1,2)]]) simp_all

lemma wlp_session:
  assumes "gateway_ok env s" "owned n s = (True, r, g, x, h)"
  shows "gateway_wlp env n (Put (upd_conn n (\<lambda>c. c\<lparr>cn_session := True\<rparr>)) (Raise e)) Q (\<lambda>_. held env n) s"
  using session_step [OF assms] by simp

lemma wlp_timed_out:
  "gateway_ok env s \<Longrightarrow> owned n s = (True, r, g, x, h)
    \<Longrightarrow> gateway_wlp env n (start_timed_out env n) (\<lambda>_. idle env n) (\<lambda>_. held env n) s"
  unfolding start_timed_out_def by (rule wlp_release) (auto intro: calms)

lemma wlp_activate:
  "gateway_ok env s \<Longrightarrow> owned n s = (True, True, False, False, h)
    \<Longrightarrow> gateway_wlp env n (Put (activate_pending n) (Ret b)) (\<lambda>_. idle env n) (\<lambda>_. held env n) s"
  using activate_step [of env s n h] by simp

text \<open>From a quiet program to one that counts.\<close>

lemma calm_held:
  assumes "calm env n p" "fst (owned n s)" "gateway_ok env s" "\<not> fst (snd (owned n s))"
  shows "gateway_wlp env n p (\<lambda>_. idle env n) (\<lambda>_. held env n) s"
  by (rule calm_run [OF assms(1,3) refl]) (use assms in simp_all)

lemma calm_raises:
  assumes "calm env n p" "gateway_ok env s" "owned n s = (True, r, g, x, h)"
    "\<And>s' a. gateway_ok env s' \<Longrightarrow> owned n s' = (True, r, g, x, h) \<Longrightarrow> gateway_wlp env n (k a) (\<lambda>_. idle env n) (\<lambda>_. held env n) s'"
  shows "gateway_wlp env n (bindp p k) (\<lambda>_. idle env n) (\<lambda>_. held env n) s"
  unfolding wlp_bindp by (rule calm_run [OF assms(1-3)]) (use assms(4) in auto)

lemma relied: "gateway_rely env (Connection n) s s' \<Longrightarrow> owned n s = v \<Longrightarrow> gateway_ok env s' \<and> owned n s' = v"
  by (simp add: gateway_rely_def)

lemma wlp_await:
  assumes "owned n s = v"
    and "\<And>a s'. gateway_ok env s' \<Longrightarrow> owned n s' = v \<Longrightarrow> gateway_answers (Connection n) e a s' \<Longrightarrow> gateway_wlp env n (c a) Q E s'"
  shows "gateway_wlp env n (Await e c) Q E s"
  using assms relied by simp

lemma wlp_abandon:
  assumes "owned n s = (True, r, g, x, h)"
    and "\<And>s. gateway_ok env s \<Longrightarrow> owned n s = (True, r, g, x, h) \<Longrightarrow> gateway_wlp env n p Q (\<lambda>_. held env n) s"
  shows "gateway_wlp env n (abandon_session env p) Q (\<lambda>_. held env n) s"
  unfolding abandon_session_def by (rule wlp_await [OF assms(1)]) (use assms(2) in simp)

lemma wlp_look: "gateway_wlp env n (f s) Q E s \<Longrightarrow> gateway_wlp env n (Look f) Q E s"
  by simp

lemma wlp_if: "(b \<Longrightarrow> gateway_wlp env n p Q E s) \<Longrightarrow> (\<not> b \<Longrightarrow> gateway_wlp env n q Q E s) \<Longrightarrow> gateway_wlp env n (if b then p else q) Q E s"
  by simp

text \<open>Announcing and starting the session: only a cancellation leaves a session behind.\<close>

lemma wlp_announce:
  assumes "gateway_ok env s" "owned n s = (True, r, g, x, h)"
  shows "gateway_wlp env n (announce_session env n q) (\<lambda>_ s. gateway_ok env s \<and> owned n s = (True, r, g, x, h))
    (\<lambda>e s. held env n s \<and> (e \<noteq> F_cancelled \<longrightarrow> owned n s = (True, r, g, x, h))) s"
  unfolding announce_session_def wlp_seqp Let_def
proof (rule calm_run [OF calm_emit assms])
  fix s' assume s': "gateway_ok env s'" "owned n s' = (True, r, g, x, h)"
  show "gateway_wlp env n (Look (\<lambda>s. if cn_start_deadline (gw_conns s n) - gw_now s \<le> 0 then Ret False
      else Await (G_start (cn_start_deadline (gw_conns s n) - gw_now s)) (\<lambda>a.
           if a = R_cancelled then Put (upd_conn n (\<lambda>c. c\<lparr>cn_session := True\<rparr>)) (Raise F_cancelled)
           else if a = R_timeout then Ret False
           else if a = R_ok then Ret True else Raise (if a = R_transport then F_transport else F_error))))
      (\<lambda>_ s. gateway_ok env s \<and> owned n s = (True, r, g, x, h))
      (\<lambda>e s. held env n s \<and> (e \<noteq> F_cancelled \<longrightarrow> owned n s = (True, r, g, x, h))) s'"
    by (intro wlp_look wlp_if wlp_await [OF s'(2)]) (use s' session_step in auto)
qed simp

lemma wlp_open_session:
  assumes "gateway_ok env s" "owned n s = (True, True, False, False, h)"
  shows "gateway_wlp env n (open_session env n q persona) (\<lambda>_. idle env n) (\<lambda>_. held env n) s"
  unfolding open_session_def
proof (intro wlp_look wlp_if)
  show "gateway_wlp env n (Await G_release (\<lambda>a. Raise (if a = R_cancelled then F_cancelled else F_error)))
      (\<lambda>_. idle env n) (\<lambda>_. held env n) s"
    by (rule wlp_await [OF assms(2)]) simp
  let ?v = "(True, True, False, False, h)" and ?c = "upd_conn n (\<lambda>c. c\<lparr>cn_capabilities := Some (sq_capabilities q)\<rparr>) s"
  have quiet: "quiet env s ?c" by (rule calms)
  then have c: "gateway_ok env ?c" "owned n ?c = ?v" using quiet_ok quiet_owned assms by metis+
  have started: "gateway_wlp env n (if b then Put (activate_pending n) (Ret True) else abandon_session env (start_timed_out env n))
      (\<lambda>_. idle env n) (\<lambda>_. held env n) s'" if "gateway_ok env s'" "owned n s' = ?v" for b s'
    by (intro wlp_if wlp_activate [OF that] wlp_abandon [OF that(2)] wlp_timed_out)
  have failed: "gateway_wlp env n (if e = F_cancelled then Raise e else abandon_session env (Raise e)) Q (\<lambda>_. held env n) s'"
    if "held env n s'" "e \<noteq> F_cancelled \<longrightarrow> owned n s' = ?v" for e :: gateway_fault and s' and Q :: "bool \<Rightarrow> gateway \<Rightarrow> bool"
  proof (rule wlp_if)
    assume "e \<noteq> F_cancelled"
    with that show "gateway_wlp env n (abandon_session env (Raise e)) Q (\<lambda>_. held env n) s'"
      by (intro wlp_abandon [where r = True and g = False and x = False and h = h]) auto
  qed (use that in simp)
  show "gateway_wlp env n (Put (upd_conn n (\<lambda>c. c\<lparr>cn_capabilities := Some (sq_capabilities q)\<rparr>))
      (bindp (handlep (announce_session env n q) (\<lambda>x. if x = F_cancelled then Raise x else abandon_session env (Raise x)))
        (\<lambda>started. if started then Put (activate_pending n) (Ret True) else abandon_session env (start_timed_out env n))))
      (\<lambda>_. idle env n) (\<lambda>_. held env n) s"
    by (rule wlp_put [where u = "upd_conn n (\<lambda>c. c\<lparr>cn_capabilities := Some (sq_capabilities q)\<rparr>)", OF quiet_guar [OF quiet assms(1)]],
        unfold wlp_bindp wlp_handlep, rule wlp_mono [OF wlp_announce [OF c]];
        rule started failed; simp)
qed

lemma wlp_quiet:
  assumes "quiet env s (u s)" "gateway_ok env s" "owned n s = v"
    and "gateway_ok env (u s) \<Longrightarrow> owned n (u s) = v \<Longrightarrow> gateway_wlp env n p Q E (u s)"
  shows "gateway_wlp env n (Put u p) Q E s"
  using assms by (simp add: quiet_guar quiet_ok quiet_owned)

lemma wlp_gawait:
  assumes "owned n s = v" "\<And>x s'. gateway_ok env s' \<Longrightarrow> owned n s' = v \<Longrightarrow> E x s'"
    and "\<And>a s'. gateway_ok env s' \<Longrightarrow> owned n s' = v \<Longrightarrow> gateway_wlp env n (k a) Q E s'"
  shows "gateway_wlp env n (gawait e k) Q E s"
  unfolding gawait_def by (rule wlp_await [OF assms(1)], intro wlp_if) (use assms(2,3) in simp_all)

text \<open>What follows a reservation: the persona, the runtime and the session.\<close>

lemma wlp_acquire:
  assumes "gateway_ok env s" "owned n s = (True, True, False, False, h)"
  shows "gateway_wlp env n (acquire_runtime env n note q persona) (\<lambda>_. idle env n) (\<lambda>_. held env n) s"
  unfolding acquire_runtime_def Let_def
  by (intro wlp_look wlp_if wlp_gawait [OF assms(2)] wlp_open_session wlp_release calms wlp_timed_out [OF assms]) auto

lemma wlp_grant:
  assumes "gateway_ok env s" "owned n s = (True, True, False, False, h)"
  shows "gateway_wlp env n (grant_persona env n reference note q) (\<lambda>_. idle env n) (\<lambda>_. held env n) s"
proof -
  obtain r registry where l:
    "load_persona (ge_personas env) (ge_fs env) (ge_write env) (gw_wall s) (sq_persona q) (gw_personas s) = (r, registry)" by fastforce
  show ?thesis
    unfolding grant_persona_def
    by (rule wlp_look, simp only: l prod.case, rule wlp_quiet [where u = "\<lambda>s. s\<lparr>gw_personas := registry\<rparr>", OF _ assms],
        rule calms, cases r; simp only: sum.case; intro wlp_if wlp_release wlp_acquire calms)
      (use assms in auto)
qed

lemma wlp_admit:
  assumes "gateway_ok env s" "owned n s = (True, False, False, False, h)"
  shows "gateway_wlp env n (admit_session env n reference q) (\<lambda>_. idle env n) (\<lambda>_. held env n) s"
  unfolding admit_session_def Let_def
proof (intro wlp_look wlp_if)
  assume "\<not> \<not> capacity_left env s"
  then show "gateway_wlp env n (Put (reserve_capacity n) (grant_persona env n reference
      (if sq_signed q then uni ''; request a new session token before retrying'' else []) q)) (\<lambda>_. idle env n) (\<lambda>_. held env n) s"
    by (intro wlp_put [where u = "reserve_capacity n"] wlp_grant [where h = h] reserve_step [OF assms]) simp_all
qed (rule calm_held; use assms in \<open>intro calms | simp\<close>)

lemma wlp_redeem:
  assumes "gateway_ok env s" "owned n s = (True, False, False, False, h)"
  shows "gateway_wlp env n (redeem_token env n reference q) (\<lambda>_. idle env n) (\<lambda>_. held env n) s"
proof -
  obtain r s' where u: "use_token env q s = (r, s')" by fastforce
  have "quiet env s (upd_conn n (limit_by_token (gw_now s) (gw_wall s) claims) (s\<lparr>gw_replay := gw_replay s'\<rparr>))" for claims
    by (rule quiet_trans [where s' = "s\<lparr>gw_replay := gw_replay s'\<rparr>"]; rule calms)
  then have c: "gateway_wlp env n (Put (\<lambda>s. upd_conn n (limit_by_token (gw_now s) (gw_wall s) claims) (s\<lparr>gw_replay := gw_replay s'\<rparr>))
      (admit_session env n reference q)) (\<lambda>_. idle env n) (\<lambda>_. held env n) s" for claims
    by (intro wlp_quiet [OF _ assms] wlp_admit [where h = h]) simp_all
  show ?thesis
    unfolding redeem_token_def
    by (rule wlp_look, simp only: u prod.case, cases r; simp only: sum.case; (rule c | rule calm_held))
      (use assms in \<open>auto intro: calms\<close>)
qed

lemma wlp_start:
  assumes "gateway_ok env s" "owned n s = (True, False, g, x, h)"
  shows "gateway_wlp env n (handle_start env n control) (\<lambda>_. idle env n) (\<lambda>_. held env n) s"
proof (cases x)
  case True
  then have "cn_session (gw_conns s n)" using assms(2) by (simp add: owned_def Let_def)
  then show ?thesis
    unfolding handle_start_def Let_def by (intro wlp_look, simp) (rule calm_held, use assms in \<open>auto intro: calms\<close>)
next
  case False
  then have v: "owned n s = (True, False, False, False, h)" and c: "\<not> cn_session (gw_conns s n)"
    using assms by (auto simp: owned_def Let_def gateway_ok_def slots_ok_def)
  have calm: "gateway_wlp env n p (\<lambda>_. idle env n) (\<lambda>_. held env n) s'"
    if "gateway_ok env s'" "owned n s' = (True, False, False, False, h)" "calm env n p" for p :: "bool gprog" and s'
    by (rule calm_held [OF that(3)]) (use that in simp_all)
  have checked: "gateway_wlp env n (case r of
        Inl Uncaught \<Rightarrow> Raise F_error
      | Inl (Report code message details) \<Rightarrow> seqp (emit_error env n code message False None details) (Ret True)
      | Inr q \<Rightarrow> if \<not> sq_signed q then admit_session env n reference q else redeem_token env n reference q)
      (\<lambda>_. idle env n) (\<lambda>_. held env n) s'"
    if "gateway_ok env s'" "owned n s' = (True, False, False, False, h)" for r reference s'
  proof (cases r)
    case (Inl e)
    then show ?thesis by (cases e; simp only: sum.case start_fault.case; intro calm [OF that] calms)
  next
    case (Inr q)
    then show ?thesis by (simp only: sum.case) (intro wlp_if wlp_admit [OF that] wlp_redeem [OF that])
  qed
  show ?thesis
    unfolding handle_start_def Let_def
    by (rule wlp_look, intro wlp_if, simp add: c, rule wlp_quiet [where u = "upd_conn n (\<lambda>c. c\<lparr>cn_attempts := Suc (cn_attempts c)\<rparr>)", OF _ assms(1) v],
        rule calms, intro wlp_if checked calm calms)
qed

lemma wlp_dispatch:
  assumes "gateway_ok env s" "owned n s = (True, False, g, x, h)"
  shows "gateway_wlp env n (dispatch_control env n action control) (\<lambda>_. idle env n) (\<lambda>_. held env n) s"
proof -
  have calm: "gateway_wlp env n p (\<lambda>_. idle env n) (\<lambda>_. held env n) s" if "calm env n p" for p :: "bool gprog"
    by (rule calm_held [OF that]) (use assms in simp_all)
  show ?thesis unfolding dispatch_control_def by (intro wlp_if wlp_start [OF assms] calm calms)
qed

lemma wlp_text:
  assumes "gateway_ok env s" "owned n s = (True, False, g, x, h)"
  shows "gateway_wlp env n (handle_text env n raw) (\<lambda>_. idle env n) (\<lambda>_. held env n) s"
proof -
  obtain ok buckets where b: "consume_budget (gw_control s) (cn_host (gw_conns s n)) 1 (of_int (st_control_burst (ge_settings env)))
      (seconds (st_control_rate (ge_settings env))) (gw_now s) = (ok, buckets)" by fastforce
  have calm: "gateway_wlp env n p (\<lambda>_. idle env n) (\<lambda>_. held env n) s'"
    if "gateway_ok env s'" "owned n s' = (True, False, g, x, h)" "calm env n p" for p :: "bool gprog" and s'
    by (rule calm_held [OF that(3)]) (use that in simp_all)
  have run: "gateway_wlp env n (case read_control raw of
        Inl (code, message) \<Rightarrow> refuse env n code (uni message)
      | Inr (action, control) \<Rightarrow> dispatch_control env n action control) (\<lambda>_. idle env n) (\<lambda>_. held env n) s'"
    if "gateway_ok env s'" "owned n s' = (True, False, g, x, h)" for s'
    by (cases "read_control raw"; simp only: sum.case split_beta; intro calm [OF that] wlp_dispatch [OF that] calms)
  have sized: "gateway_wlp env n (case utf8_encode raw of None \<Rightarrow> Raise F_error | Some bs \<Rightarrow>
        if st_max_message_bytes (ge_settings env) < int (length bs)
        then fatal env n ''control_message_too_large'' (uni ''control message exceeds the configured limit'') 1009
        else case read_control raw of
          Inl (code, message) \<Rightarrow> refuse env n code (uni message)
        | Inr (action, control) \<Rightarrow> dispatch_control env n action control) (\<lambda>_. idle env n) (\<lambda>_. held env n) s'"
    if "gateway_ok env s'" "owned n s' = (True, False, g, x, h)" for s'
    by (cases "utf8_encode raw"; simp only: option.case; intro wlp_if calm [OF that] run [OF that] calms)
  show ?thesis
    unfolding handle_text_def Let_def
    by (rule wlp_look, simp only: b prod.case, rule wlp_quiet [where u = "\<lambda>s. s\<lparr>gw_control := buckets\<rparr>", OF _ assms],
        rule calms, intro wlp_if sized calm calms)
qed

lemma wlp_serve:
  "gateway_ok env s \<Longrightarrow> owned n s = (True, False, g, x, h)
    \<Longrightarrow> gateway_wlp env n (serve env n rounds) (\<lambda>_. held env n) (\<lambda>_. held env n) s"
proof (induction rounds arbitrary: s g x h)
  case 0
  have "calm env n (serve env n 0)" unfolding serve.simps by (intro calms)
  then show ?case using 0 by (auto intro: calm_run)
next
  case (Suc rounds)
  have calm: "gateway_wlp env n p (\<lambda>_. held env n) (\<lambda>_. held env n) s'"
    if "gateway_ok env s'" "owned n s' = (True, False, g, x, h)" "calm env n p" for p :: "unit gprog" and s'
    by (rule calm_run [OF that(3,1,2)]) simp_all
  have round: "gateway_wlp env n (bindp p (\<lambda>go. if go then serve env n rounds else Ret ())) (\<lambda>_. held env n) (\<lambda>_. held env n) s'"
    if "gateway_wlp env n p (\<lambda>_. idle env n) (\<lambda>_. held env n) s'" for p s'
    unfolding wlp_bindp
  proof (rule wlp_mono [OF that])
    fix go s'' assume "idle env n s''"
    then obtain g x h where "gateway_ok env s''" "owned n s'' = (True, False, g, x, h)" by (cases "owned n s''") auto
    then show "gateway_wlp env n (if go then serve env n rounds else Ret ()) (\<lambda>_. held env n) (\<lambda>_. held env n) s''"
      using Suc.IH by simp
  qed
  have handled: "gateway_wlp env n (case m of Media bs \<Rightarrow> handle_media env n bs | Control_text t \<Rightarrow> handle_text env n t | _ \<Rightarrow> Ret True)
      (\<lambda>_. idle env n) (\<lambda>_. held env n) s'" if "gateway_ok env s'" "owned n s' = (True, False, g, x, h)" for m s'
    by (cases m; simp only: client_message.case; (rule wlp_text [OF that] | rule calm_held); use that in \<open>auto intro: calms\<close>)
  have received: "gateway_wlp env n (case a of
        R_message m \<Rightarrow>
          if m = Disconnect then Ret ()
          else Look (\<lambda>s. Put (upd_conn n (\<lambda>c. c\<lparr>cn_last_activity := gw_now s\<rparr>))
            (bindp (case m of Media bs \<Rightarrow> handle_media env n bs | Control_text t \<Rightarrow> handle_text env n t | _ \<Rightarrow> Ret True)
              (\<lambda>go. if go then serve env n rounds else Ret ())))
      | _ \<Rightarrow> serve env n rounds) (\<lambda>_. held env n) (\<lambda>_. held env n) s'"
    if "gateway_ok env s'" "owned n s' = (True, False, g, x, h)" for a s'
  proof (cases a)
    case (R_message m)
    have "gateway_wlp env n (Put (upd_conn n (\<lambda>c. c\<lparr>cn_last_activity := gw_now s'\<rparr>))
        (bindp (case m of Media bs \<Rightarrow> handle_media env n bs | Control_text t \<Rightarrow> handle_text env n t | _ \<Rightarrow> Ret True)
          (\<lambda>go. if go then serve env n rounds else Ret ()))) (\<lambda>_. held env n) (\<lambda>_. held env n) s'"
      by (rule wlp_quiet [OF _ that], rule calms, rule round, rule handled)
    then show ?thesis unfolding R_message gateway_answer.case
      by (intro wlp_if wlp_look) (rule calm [OF that calm_ret], assumption)
  qed (simp only: gateway_answer.case; rule Suc.IH [OF that])+
  show ?case
    unfolding serve.simps Let_def
    by (rule wlp_look, intro wlp_if wlp_gawait [OF Suc.prems(2)] received calm [OF Suc.prems] calms) simp_all
qed

lemma wlp_connection:
  assumes "gateway_ok env s" "owned n s = (True, False, False, False, h)"
  shows "gateway_wlp env n (run_connection env rounds n) (\<lambda>_. gateway_over (Connection n)) (\<lambda>_. gateway_over (Connection n)) s"
proof -
  let ?body = "gawait G_accept (\<lambda>_. Put (upd_conn n (\<lambda>c. c\<lparr>cn_accepted := True, cn_pump := start_pump (cn_pump c)\<rparr>))
     (seqp (emit_event env n (hello_event env)) (serve env n rounds)))"
  have greeted: "gateway_wlp env n (seqp (emit_event env n (hello_event env)) (serve env n rounds)) (\<lambda>_. held env n) (\<lambda>_. held env n) s'"
    if "gateway_ok env s'" "owned n s' = (True, False, False, False, h)" for s'
    unfolding wlp_seqp by (rule calm_run [OF calm_emit that], rule wlp_serve [where g = False and x = False and h = h]) simp_all
  have body: "gateway_wlp env n ?body (\<lambda>_. held env n) (\<lambda>_. held env n) s"
    by (rule wlp_gawait [OF assms(2)], simp, rule wlp_quiet [OF _ _ _ greeted], rule calms) simp_all
  have handled: "gateway_wlp env n (handlep ?body (connection_failed env n)) (\<lambda>_. held env n) (\<lambda>_. held env n) s"
    unfolding wlp_handlep by (rule wlp_mono [OF body]) (auto intro: calm_run [OF calm_failed _ refl])
  have finish: "gateway_wlp env n (Put (finish_connection n) (gawait G_cleanup (\<lambda>_. Ret ()))) Q E s'"
    if "held env n s'" "\<And>u s. gateway_over (Connection n) s \<Longrightarrow> Q u s" "\<And>e s. gateway_over (Connection n) s \<Longrightarrow> E e s" for s' Q E
  proof -
    have "held env n s'" by (rule that(1))
    then obtain r g x h where v: "gateway_ok env s'" "owned n s' = (True, r, g, x, h)" by (cases "owned n s'") auto
    note f = finish_step [OF v]
    show ?thesis
    proof (rule wlp_put [where u = "finish_connection n", OF f(1)], rule wlp_gawait [OF refl])
      fix x s'' assume "owned n s'' = owned n (finish_connection n s')"
      then have "gateway_over (Connection n) s''" using f(3) by (simp add: gateway_over_def owned_eq)
      then show "E x s''" "gateway_wlp env n (Ret ()) Q E s''" using that(2,3) by simp_all
    qed
  qed
  show ?thesis
    unfolding run_connection_def wlp_finallyp by (rule wlp_mono [OF handled]) (use finish in auto)
qed

lemma wlp_endpoint:
  assumes "gateway_ok env s" "gw_next s \<le> n"
  shows "gateway_wlp env n (websocket_endpoint env scope origin rounds n) (\<lambda>_. gateway_over (Connection n)) (\<lambda>_. gateway_over (Connection n)) s"
proof -
  have close: "gateway_wlp env n (close_socket c r) (\<lambda>_. gateway_over (Connection n)) (\<lambda>_. gateway_over (Connection n)) s'"
    if "gateway_ok env s'" "\<not> fst (owned n s')" for c r s'
    by (rule calm_run [OF calm_close that(1) refl]; use that(2) in \<open>simp add: gateway_over_def owned_def Let_def\<close>)
  have closed: "\<not> fst (owned n s)" using assms by (simp add: owned_def gateway_ok_def fresh_ok_def Let_def)
  define host where "host = (case so_client scope of Some h \<Rightarrow> h | None \<Rightarrow> uni ''unknown'')"
  define s1 where "s1 = open_connection n (new_connection (ge_settings env) host (ge_id env ''ews'' n 0) (gw_now s)) s"
  note o = open_step [OF assms, of "ge_settings env" host "ge_id env ''ews'' n 0" "gw_now s", folded s1_def]
  have next1: "n < gw_next s1" by (simp add: s1_def open_connection_def)
  have q: "quiet env s1 (prune_buckets s1)" by (rule calms)
  then have p: "gateway_ok env (prune_buckets s1)" "owned n (prune_buckets s1) = (False, False, False, False, host)"
      "n \<notin> set (gw_cleanups (prune_buckets s1))" "n < gw_next (prune_buckets s1)"
    using o next1 quiet_ok by (auto simp: quiet_def)
  have limited: "gateway_wlp env n (Look (\<lambda>s. if st_max_per_ip (ge_settings env) \<le> int (connections_of host s)
      then close_socket 1013 ''connection capacity reached'' else Put (admit_connection env n) (run_connection env rounds n)))
      (\<lambda>_. gateway_over (Connection n)) (\<lambda>_. gateway_over (Connection n)) (prune_buckets s1)"
    by (intro wlp_look wlp_if wlp_put [where u = "admit_connection env n"] wlp_connection [where h = host] close admit_step [OF p]) 
      (use p in simp_all)
  have opened: "gateway_wlp env n (Look (\<lambda>s.
        Put (open_connection n (new_connection (ge_settings env) host (ge_id env ''ews'' n 0) (gw_now s))) (Put prune_buckets (Look (\<lambda>s.
          if st_max_per_ip (ge_settings env) \<le> int (connections_of host s) then close_socket 1013 ''connection capacity reached''
          else Put (admit_connection env n) (run_connection env rounds n))))))
      (\<lambda>_. gateway_over (Connection n)) (\<lambda>_. gateway_over (Connection n)) s"
    by (rule wlp_look, rule wlp_put, unfold s1_def [symmetric], rule o(1), rule wlp_put [where u = prune_buckets, OF quiet_guar [OF q o(2)] limited])
  show ?thesis
    unfolding websocket_endpoint_def Let_def host_def [symmetric]
    by (intro wlp_if opened close [OF assms(1) closed])
qed

section \<open>Every interleaving\<close>

lemma cleanup_calm:
  "gateway_ok env s \<Longrightarrow> wlp (gateway_guar env (Cleanup n)) (gateway_rely env (Cleanup n)) (gateway_answers (Cleanup n)) (clean_up env n)
    (\<lambda>_. gateway_over (Cleanup n)) (\<lambda>_. gateway_over (Cleanup n)) s"
  by (auto simp: clean_up_def suppressed_def Let_def gateway_rely_def gateway_over_def intro!: quiet_guar calms)

lemma send_quiet:
  assumes "advance (send_item env n item bytes) s = (p, s')"
  shows "quiet env s s'"
proof -
  define a b where "a = nat (st_queue_messages (ge_settings env))" and "b = nat (st_queue_bytes (ge_settings env))"
  obtain r p' where e: "enqueue a b item bytes (cn_pump (gw_conns s n)) = (r, p')" by fastforce
  then have "pump_step a b (cn_pump (gw_conns s n)) p'" using pump_step.intros(1) [of a b "cn_pump (gw_conns s n)" item bytes] by simp
  then have "quiet env s (upd_conn n (\<lambda>c. c\<lparr>cn_pump := p'\<rparr>) s)" unfolding a_def b_def by (rule quiet_pump)
  moreover have "s' = upd_conn n (\<lambda>c. c\<lparr>cn_pump := p'\<rparr>) s"
    using assms by (cases r) (simp_all add: send_item_def e flip: a_def b_def)
  ultimately show ?thesis by simp
qed

lemma emit_quiet:
  assumes "advance (emit_event env n ev) s = (p, s')"
  shows "quiet env s s'"
proof -
  have sent: "quiet env s s'" if "advance (send_item env n item bytes) (upd_conn n (\<lambda>c. c\<lparr>cn_sequence := Suc (cn_sequence c)\<rparr>) s) = (p, s')"
    for item bytes
    by (rule quiet_trans [OF _ send_quiet [OF that]]) (rule calms)
  have "quiet env s s" by (simp add: quiet_def)
  then show ?thesis
    using assms by (auto simp: emit_event_def Let_def dest: sent split: option.splits if_splits)
qed

lemma packet_quiet:
  assumes "advance (emit_packet_bytes env n bs) s = (p, s')"
  shows "quiet env s s'"
proof -
  have "quiet env s s" by (simp add: quiet_def)
  then show ?thesis
    using assms send_quiet by (auto simp: emit_packet_bytes_def Let_def split: sum.splits if_splits)
qed

lemma moves_quiet: "gateway_moves env s s' \<Longrightarrow> quiet env s s'"
  unfolding gateway_moves_def by (elim disjE exE conjE) (auto intro: emit_quiet packet_quiet quiet_pump calms)

interpretation gateway: task_system gateway_answers gateway_ends "gateway_starts env" "gateway_moves env" "gateway_guar env"
  "gateway_rely env" gateway_over "gateway_ok env" for env
proof
  fix s s' s'' t u x p
  show "gateway_rely env t s s" if "gateway_ok env s" using that by (simp add: gateway_rely_def)
  show "gateway_rely env t s s''" if "gateway_rely env t s s'" "gateway_rely env t s' s''" using that by (simp add: gateway_rely_def)
  show "gateway_rely env u s s'" if "gateway_guar env t s s'" "t \<noteq> u" using that by (auto simp: gateway_guar_def gateway_rely_def)
  show "gateway_ok env s'" if "gateway_guar env t s s'" using that by (simp add: gateway_guar_def)
  show "gateway_guar env t s (gateway_ends t x s)" if "gateway_ok env s"
    using that cleaned_step by (cases t) (simp_all add: gateway_ends_def gateway_guar_def)
  show "gateway_rely env t s s' \<and> gateway_ok env s'" if "gateway_moves env s s'" "gateway_ok env s"
  proof -
    have q: "quiet env s s'" using that(1) by (rule moves_quiet)
    show ?thesis using quiet_ok [OF q that(2)] quiet_owned [OF q] by (simp add: gateway_rely_def)
  qed
  show "gateway_over t s'" if "gateway_over t s" "gateway_rely env t s s'"
    using that by (cases t) (simp_all add: gateway_over_def gateway_rely_def owned_eq)
  show "gateway_over t (gateway_ends t x s)" if "gateway_over t s"
    using that by (cases t) (simp_all add: gateway_over_def gateway_ends_def)
  show "wlp (gateway_guar env t) (gateway_rely env t) (gateway_answers t) p (\<lambda>_. gateway_over t) (\<lambda>_. gateway_over t) s"
    if "gateway_starts env t s p" "gateway_ok env s"
    using that by (cases t) (auto simp: gateway_starts_def intro: wlp_endpoint cleanup_calm)
qed

end
