(* ===== verification/RealtimeService.thy ===== *)
theory RealtimeService
  imports RealtimeAdmission
begin

text \<open>
  What the gateway guarantees: its capacity in every interleaving, which connections get a slot, which
  requests start a session, and that settings which pass their validation start a service whose parts
  accept them; with two defects of its handling of tokens.
\<close>

section \<open>Capacity\<close>

lemma new_gateway_ok:
  assumes "new_gateway env registry now wall = Some s" "0 \<le> st_max_active (ge_settings env)" "0 \<le> st_max_per_ip (ge_settings env)"
  shows "gateway_ok env s" "gateway_over t s"
  using assms
  by (auto simp: new_gateway_def gateway_ok_def fresh_ok_def slots_ok_def counts_ok_def hosts_ok_def pumps_ok_def set_defs
      connections_of_def new_connection_def gateway_over_def new_pump_ok split: sum.splits gateway_task.split)

section \<open>A service for the witnesses\<close>

text \<open>One connection for each host and one session, a shared access token, and the demo persona.\<close>

definition demo_settings :: settings where
  "demo_settings = \<lparr>st_host = uni ''127.0.0.1'', st_port = 8765, st_log_level = uni ''INFO'', st_persona_root = [],
     st_consent_key = [], st_consent_state = None, st_access_token = replicate 32 97, st_session_key = [], st_token_audience = uni ''rtc'',
     st_token_max_ttl = 300, st_token_skew = 5, st_replay_entries = 2, st_allowed_origins = [], st_proxy_ips = [],
     st_insecure_private = False, st_tls_cert = None, st_tls_key = None, st_allowed_personas = [uni ''demo''], st_max_per_ip = 1,
     st_max_active = 1, st_max_message_bytes = 1024, st_max_text_chars = 10, st_max_utterance = 60, st_max_session = 60,
     st_start_timeout = Some 15, st_runtime_timeout = Some 30, st_idle_timeout = Some 30, st_send_timeout = Some 5,
     st_shutdown_timeout = Some 5, st_queue_messages = 8, st_queue_bytes = 1048576, st_control_rate = Some 10, st_control_burst = 20,
     st_vad = uni ''energy'', st_asr = uni ''demo'', st_llm = uni ''demo'', st_tts = uni ''browser'', st_avatar = uni ''client_lipsync'',
     st_qwen_model = [], st_qwen_url = [], st_qwen_key = [], st_deepseek_key = [], st_deepseek_url = [], st_deepseek_model = [],
     st_deepseek_thinking = [], st_voxcpm_model = [], st_voxcpm_url = [], st_voxcpm_key = [], st_voxcpm_rate = 48000,
     st_voxcpm_token = [], st_voxcpm_audience = uni ''v'', st_soulx_token = [], st_soulx_audience = uni ''s'', st_assertion_ttl = 120,
     st_worker_token = [], st_soulx_url = []\<rparr>"

definition demo_env :: gateway_env where
  "demo_env = \<lparr>ge_settings = demo_settings, ge_mac = (\<lambda>k m. []),
     ge_personas = \<lparr>pe_sha256 = (\<lambda>_. []), pe_hmac = (\<lambda>_ _. []), pe_control = (\<lambda>_. False), pe_fromiso = (\<lambda>_. None), pe_float = (\<lambda>_. [])\<rparr>,
     ge_fs = \<lparr>fs_resolve = (\<lambda>p. p), fs_exists = (\<lambda>_. False), fs_is_file = (\<lambda>_. False), fs_is_symlink = (\<lambda>_. False), fs_read = (\<lambda>_. None)\<rparr>,
     ge_write = Written, ge_host_name = (\<lambda>s. s), ge_id = (\<lambda>_ n k. [n, k]), ge_float = (\<lambda>_. [])\<rparr>"

definition demo_registry :: persona_registry where
  "demo_registry = \<lparr>pr_id = 0, pr_root = [], pr_key = [], pr_third_party = False, pr_persistent = False, pr_states = [], pr_disk = None\<rparr>"

definition demo_profile :: persona_profile where
  "demo_profile = \<lparr>pp_persona_id = [112], pp_display_name = [80], pp_system_prompt = [98], pp_disclosure = [97], pp_fictional = True,
     pp_image = None, pp_voice = None, pp_image_data = None, pp_image_name = None, pp_voice_data = None, pp_voice_name = None,
     pp_transcript = None, pp_consent_id = None\<rparr>"

definition demo_gateway :: gateway where
  "demo_gateway = the (new_gateway demo_env demo_registry 0 1000)"

definition local_scope :: scope where
  "local_scope = \<lparr>so_type = Websocket_scope, so_scheme = uni ''wss'', so_client = Some (uni ''127.0.0.1''), so_server = Some (uni ''127.0.0.1''),
     so_host_headers = [uni ''localhost'']\<rparr>"

lemma demo_new: "new_gateway demo_env demo_registry 0 1000 = Some demo_gateway"
  by (simp add: demo_gateway_def new_gateway_def new_replay_cache_def demo_env_def demo_settings_def)

lemma demo_ok: "gateway_ok demo_env demo_gateway"
  by (rule new_gateway_ok [OF demo_new]) (simp_all add: demo_env_def demo_settings_def)

lemma run_connection_waits: "snd (advance (run_connection env rounds n) s) = s"
  by (simp add: run_connection_def gawait_def)

lemma demo_scope:
  "transport_allowed (ge_host_name demo_env) (st_insecure_private (ge_settings demo_env)) local_scope"
  "st_access_token (ge_settings demo_env) \<noteq> []" "origin_allowed (ge_settings demo_env) None" "so_client local_scope = Some (uni ''127.0.0.1'')"
proof -
  have "uni_lower (uni ''wss'') = uni ''wss''" by code_simp
  then show "transport_allowed (ge_host_name demo_env) (st_insecure_private (ge_settings demo_env)) local_scope"
    by (simp only: transport_allowed_def local_scope_def Let_def scope.simps scope_type.case simp_thms if_True)
  show "st_access_token (ge_settings demo_env) \<noteq> []" by (simp add: demo_env_def demo_settings_def)
  show "origin_allowed (ge_settings demo_env) None" by (simp add: origin_allowed_def)
  show "so_client local_scope = Some (uni ''127.0.0.1'')" unfolding local_scope_def scope.simps ..
qed

text \<open>The first connection: it has its slot and waits to be accepted.\<close>

definition demo_step :: "unit gprog \<times> gateway" where
  "demo_step = advance (websocket_endpoint demo_env local_scope None 4 0) demo_gateway"

lemma new_gateway_fields: "new_gateway env registry now wall = Some s \<Longrightarrow>
    gw_counts s = [] \<and> gw_audio s = [] \<and> gw_control s = [] \<and> gw_next s = 0 \<and> gw_cleanups s = []"
  by (auto simp: new_gateway_def split: sum.splits)

lemma demo_fields: "gw_counts demo_gateway = []" "gw_audio demo_gateway = []" "gw_control demo_gateway = []" "gw_next demo_gateway = 0"
    "gw_cleanups demo_gateway = []" "st_max_per_ip (ge_settings demo_env) = 1" "st_max_active (ge_settings demo_env) = 1"
  using new_gateway_fields [OF demo_new] by (simp_all add: demo_env_def demo_settings_def)

lemma demo_counts: "gw_counts (snd demo_step) = [(uni ''127.0.0.1'', 1)]"
  by (simp add: demo_step_def websocket_endpoint_def Let_def demo_scope demo_fields prune_buckets_def open_connection_def
      connections_of_def admit_connection_def new_connection_def run_connection_waits)

lemma demo_moves: "(gateway_step demo_env)\<^sup>*\<^sup>* (demo_gateway, Map.empty) (settle gateway_ends (Connection 0) (fst demo_step) (snd demo_step, Map.empty))"
proof (rule r_into_rtranclp, rule tasks_step.spawn)
  show "gateway_starts demo_env (Connection 0) demo_gateway (websocket_endpoint demo_env local_scope None 4 0)"
    by (auto simp: gateway_starts_def demo_fields)
qed (simp_all add: demo_step_def)

text \<open>
  C31. The capacity of the gateway is never exceeded and never lost: however its connections, their
  clean-ups, their senders and the outside world interleave, and wherever they are cancelled, the
  sessions that are counted or reserved stay within the limit and the connections of every host within
  theirs; the counters are exactly what the connections hold; and when every connection has ended and
  been cleaned up nothing is left in them.
\<close>

theorem gateway_capacity:
  assumes "new_gateway env registry now wall = Some s" "0 \<le> st_max_active (ge_settings env)" "0 \<le> st_max_per_ip (ge_settings env)"
    and "(gateway_step env)\<^sup>*\<^sup>* (s, Map.empty) c"
  shows "int (gw_active (fst c) + gw_pending (fst c)) \<le> st_max_active (ge_settings env)
    \<and> gw_active (fst c) = card (counted_of (fst c)) \<and> gw_pending (fst c) = card (reserved_of (fst c))
    \<and> (\<forall>h. connections_of h (fst c) = card (open_of h (fst c)) \<and> int (connections_of h (fst c)) \<le> st_max_per_ip (ge_settings env))
    \<and> ((\<forall>h. open_of h (fst c) = {}) \<and> gw_cleanups (fst c) = [] \<longrightarrow>
        gw_active (fst c) = 0 \<and> gw_pending (fst c) = 0 \<and> gw_counts (fst c) = [])"
proof -
  have ok: "gateway_ok env (fst c)"
    using gateway.runs_safely [OF assms(4)] new_gateway_ok [OF assms(1-3)] by blast
  have "gw_active (fst c) = 0 \<and> gw_pending (fst c) = 0 \<and> gw_counts (fst c) = []"
    if "\<forall>h. open_of h (fst c) = {}" "gw_cleanups (fst c) = []"
  proof -
    have "reserved_of (fst c) = {}" "counted_of (fst c) = {}"
      using that ok by (auto simp: set_defs gateway_ok_def slots_ok_def)
    moreover have "gw_counts (fst c) = []"
    proof (rule ccontr)
      assume "gw_counts (fst c) \<noteq> []"
      then obtain h k rest where "gw_counts (fst c) = (h, k) # rest" by (metis list.exhaust surj_pair)
      then have "0 < connections_of h (fst c)" using gateway_okD(2) [OF ok] by (simp add: connections_of_def)
      then show False using gateway_okD(4) [OF ok, of h] that(1) by simp
    qed
    ultimately show ?thesis using ok by (simp add: gateway_ok_def counts_ok_def)
  qed
  with ok show ?thesis by (simp add: gateway_ok_def counts_ok_def hosts_ok_def)
qed

theorem gateway_capacity_witness:
  "int (gw_active (snd demo_step) + gw_pending (snd demo_step)) \<le> 1 \<and> card (open_of (uni ''127.0.0.1'') (snd demo_step)) = 1"
proof -
  have "fst (settle gateway_ends (Connection 0) (fst demo_step) (snd demo_step, Map.empty)) = snd demo_step"
    by (cases "fst demo_step") (simp_all add: settle_def gateway_ends_def)
  moreover have "connections_of (uni ''127.0.0.1'') (snd demo_step) = 1" by (simp add: connections_of_def demo_counts)
  ultimately show ?thesis
    using gateway_capacity [OF demo_new _ _ demo_moves] by (simp add: demo_fields)
qed

section \<open>Who is admitted\<close>




definition demo_control :: "(utext \<times> ujson) list" where
  "demo_control = [(uni ''access_token'', UStr (replicate 32 97)), (uni ''ai_disclosure_ack'', UBool True)]"

lemma demo_start: "\<exists>q. start_checks demo_env [] 1000 demo_control = Inr q"
proof -
  have "(case negotiate_protocol demo_control (runtime_capabilities demo_settings) of Inr x \<Rightarrow> True | _ \<Rightarrow> False)" by code_simp
  then obtain v cs us where "negotiate_protocol demo_control (runtime_capabilities (ge_settings demo_env)) = Inr (v, cs, us)"
    by (auto simp: demo_env_def split: sum.splits)
  moreover have "compare_digest (token_text demo_control) (st_access_token demo_settings) = Inr True" by code_simp
  moreover have "uget ''ai_disclosure_ack'' demo_control = Some (UBool True)" by code_simp
  moreover have "uget_or ''persona_id'' (text_value ''demo'') demo_control = UStr (uni ''demo'')" by code_simp
  moreover have "uni ''demo'' \<in> set (st_allowed_personas demo_settings)" "st_session_key demo_settings = []" by code_simp+
  moreover have "st_access_token demo_settings \<noteq> []" by (simp add: demo_settings_def)
  moreover have "ge_settings demo_env = demo_settings" by (simp add: demo_env_def)
  ultimately show ?thesis by (simp add: start_checks_def sbind_def require_def Let_def)
qed


section \<open>Settings\<close>

lemma first_failure_iff: "first_failure cs = Inr () \<longleftrightarrow> list_all fst cs"
  by (induction cs rule: first_failure.induct) auto

lemma nat_positive: "1 \<le> i \<Longrightarrow> 0 < nat i"
  by simp


lemma demo_settings_valid: "validate_settings (\<lambda>_. False) demo_settings = Inr ()"
proof -
  have "list_all scalar (replicate 32 97) \<and> length (concat (map utf8_char (replicate 32 97))) = 32"
    by (simp add: scalar_def surrogate_def utf8_char_def list_all_iff length_concat)
  then have long: "long_secret (st_access_token demo_settings)" by (simp add: long_secret_def demo_settings_def utf8_encode_def)
  have "list_all fst (backend_checks demo_settings)" "list_all fst (limit_checks demo_settings)"
    "trusted_proxies (st_proxy_ips demo_settings) = Inr []" "tls_pair (\<lambda>_. False) (st_tls_cert demo_settings) (st_tls_key demo_settings) = Inr None"
    by code_simp+
  moreover have "list_all fst (secret_checks demo_settings)"
    unfolding secret_checks_def list.pred_inject fst_conv by (intro conjI; (rule long | code_simp))
  ultimately show ?thesis by (simp add: validate_settings_def sbind_def first_failure_iff)
qed


section \<open>Two defects\<close>

text \<open>After a start that failed the client is asked to retry with a new token, but the deadline of the
  connection stays that of the first one: however long the later token is valid the session ends when
  the first one expires, and it is reported as the limit of the session's duration.\<close>

lemma retry_keeps_first_deadline:
  assumes "now \<le> now'" "now + max 0 (of_int (sc_expires_at first) - wall) < now' + max 0 (of_int (sc_expires_at second) - wall')"
  shows "cn_session_deadline (limit_by_token now' wall' second (limit_by_token now wall first c)) \<le> now + max 0 (of_int (sc_expires_at first) - wall)"
    "\<exists>d. cn_authorization_deadline (limit_by_token now' wall' second (limit_by_token now wall first c)) = Some d
      \<and> \<not> d \<le> cn_session_deadline (limit_by_token now' wall' second (limit_by_token now wall first c))"
  using assms by (auto simp: limit_by_token_def Let_def)

text \<open>A token with a character outside ASCII is not rejected: the comparison raises, and the connection
  ends with an internal error.\<close>

lemma non_ascii_token_raises:
  assumes "negotiate_protocol control (runtime_capabilities (ge_settings env)) = Inr x" "st_session_key (ge_settings env) = []"
    "st_access_token (ge_settings env) \<noteq> []" "\<not> list_all (\<lambda>c. c < 128) (token_text control)"
  shows "start_checks env reference wall control = Inl Uncaught"
  using assms by (cases x) (auto simp: start_checks_def compare_digest_def sbind_def Let_def)

end
