(* ===== verification/Spec2Isabelle.thy ===== *)
theory Spec2Isabelle
  imports FleetTheorems FleetClients RuntimeProperties RuntimeEvolution
    HarnessTheorems HarnessBus ForgeTheorems ControlPlane RealtimeConsent RealtimeTheorems
    RealtimeMonitor RealtimeService
begin

text \<open>
  EvoAgent OS in Isabelle/HOL. The repository is a set of Python services and the control plane that
  composes them; this library models the parts that carry their logic and proves what makes them
  correct. All paths below are relative to the repository.

  \<^bold>\<open>The parts and how they interact.\<close>

    \<^item> The fleet (\<^verbatim>\<open>services/fleet\<close>) runs workflows: acyclic graphs of nodes which workers claim under
      a lease, complete, fail or lose by expiry. \<^verbatim>\<open>FleetModels\<close> holds the request models and the
      dependency check, \<^verbatim>\<open>FleetOrchestrator\<close> the six tables and every operation of the class
      \<^verbatim>\<open>Orchestrator\<close>, \<^verbatim>\<open>FleetMoves\<close> the life of a node as an inductive relation, \<^verbatim>\<open>FleetInvariants\<close>,
      \<^verbatim>\<open>FleetSystem\<close> and \<^verbatim>\<open>FleetReach\<close> the invariant of the store and the orchestrator as a transition
      system, \<^verbatim>\<open>FleetTheorems\<close> its properties, \<^verbatim>\<open>FleetClients\<close> the programs that drive it: the embedded
      worker, the HTTP handlers, the demo coordinator.
    \<^item> The runtime (\<^verbatim>\<open>services/runtime\<close>) runs an agent: a model answers, its tool calls are decided by a
      policy, executed or held for an approval. \<^verbatim>\<open>RuntimeStore\<close> holds the tables, \<^verbatim>\<open>RuntimeTools\<close> the
      policy, the registry and the built-in tools, \<^verbatim>\<open>RuntimeEngine\<close> the loop, \<^verbatim>\<open>RuntimeEvolution\<close> prompt
      candidates, the scheduler and the handlers, \<^verbatim>\<open>RuntimeProperties\<close> what a run can and cannot do.
    \<^item> The harness (\<^verbatim>\<open>services/observability\<close>) runs agents under observation. \<^verbatim>\<open>HarnessTrace\<close> holds the
      trace contract and the comparison of traces, \<^verbatim>\<open>HarnessRuntime\<close> the event bus and the loop,
      \<^verbatim>\<open>HarnessDemo\<close> the tools, adapters and checks that run on it, \<^verbatim>\<open>HarnessContract\<close>,
      \<^verbatim>\<open>HarnessTheorems\<close> and \<^verbatim>\<open>HarnessBus\<close> that runs keep the contract, the policy and redaction.
    \<^item> The forge (\<^verbatim>\<open>services/forge\<close>) packages skills. \<^verbatim>\<open>ForgeSkill\<close> holds manifests and the static scanner,
      \<^verbatim>\<open>ForgeRegistry\<close> packages, signatures, the registry and the evaluation, \<^verbatim>\<open>ForgeTheorems\<close> their
      properties.
    \<^item> The control plane (\<^verbatim>\<open>apps/control-plane\<close>) owns one store of each service and answers the HTTP
      requests over them. \<^verbatim>\<open>ControlStore\<close> and \<^verbatim>\<open>ControlTheorems\<close> model its own tables, \<^verbatim>\<open>ControlApi\<close> and
      \<^verbatim>\<open>ControlRequests\<close> the handlers over the composed state \<^verbatim>\<open>plane\<close>, \<^verbatim>\<open>ControlPlane\<close> what holds across the
      stores: a request runs once per idempotency key, an approval of the list reaches the node it
      names, the unified ledger.
    \<^item> The realtime service (\<^verbatim>\<open>services/realtime\<close>) streams speech and video. \<^verbatim>\<open>RealtimeWire\<close> holds its media
      packets and the chunker that cuts a model's answer into phrases; \<^verbatim>\<open>RealtimeText\<close>, \<^verbatim>\<open>RealtimeJson\<close> and
      \<^verbatim>\<open>RealtimePretty\<close> the text formats its files and tokens are made of (UTF-8, JSON read and written,
      base64), on code points and 8-bit words; \<^verbatim>\<open>RealtimeAuth\<close> the signed tokens and the cache that refuses
      their second use, with its theorems in \<^verbatim>\<open>RealtimeTokens\<close>; \<^verbatim>\<open>RealtimePersona\<close> the signed consent manifests,
      the registry of consents with its state file, and the grants of personas, with its theorems in
      \<^verbatim>\<open>RealtimeConsent\<close>. \<^verbatim>\<open>RealtimeTasks\<close> holds coroutines as data, their weakest preconditions with what a
      task guarantees and relies on, and the locale that turns them into invariants of every interleaving;
      \<^verbatim>\<open>RealtimeSession\<close> the turn engine of \<^verbatim>\<open>pipeline.py\<close> as such coroutines: the operations of the client,
      the response with its deltas, the speech worker with its queue, cancellation, time-outs and the
      shutdown; \<^verbatim>\<open>RealtimeTurns\<close> the contract each of them keeps, and \<^verbatim>\<open>RealtimeTheorems\<close> what follows.
      \<^verbatim>\<open>RealtimeConfig\<close> holds the settings and their validation, on the addresses, proxies and transports of
      \<^verbatim>\<open>RealtimeHosts\<close>; \<^verbatim>\<open>RealtimeMetrics\<close> the metrics and the health of the components, with their theorems in
      \<^verbatim>\<open>RealtimeMonitor\<close>; \<^verbatim>\<open>RealtimeOutbound\<close> the bounded sender of a connection and the rate budgets;
      \<^verbatim>\<open>RealtimeGateway\<close> the handler of a websocket connection as a coroutine (\<^verbatim>\<open>app.py\<close>);
      \<^verbatim>\<open>RealtimeAdmission\<close> the contract of its operations, the second instance of the locale of tasks, and
      \<^verbatim>\<open>RealtimeService\<close> what follows for capacity, admission, starts and settings.

  \<^verbatim>\<open>Prelude\<close> and \<^verbatim>\<open>PyText\<close> are shared: the exceptions of the language, JSON values, tables, text operations,
  state-passing operations with their composition rules, and two interfaces as locales, an
  append-only event ledger (interpreted for each service that keeps one) and a transition system with
  an invariant (interpreted for the fleet, the prompt tables and the control store). A further locale,
  a request that is executed once per key, is interpreted for the three kinds of keyed requests of the
  control plane, and one of \<^verbatim>\<open>RealtimeTasks\<close>, a system of tasks that keep a contract, for the tasks of a
  realtime session.

  \<^bold>\<open>How the code is represented.\<close>

    \<^item> A class or a table row is a \<open>record\<close>, a table the list of its rows in insertion order, a dictionary
      the list of its items in insertion order. \<open>ORDER BY\<close> is a stable sort, so ties come in insertion
      order. A table with \<open>INSERT OR REPLACE\<close> is updated in place.
    \<^item> An operation is a function from a state to a result and a state; a raised exception is the left
      summand with its class and message, and the state beside it shows what was already committed. A
      transaction that raises gives back the state it started from.
    \<^item> Python integers are \<open>int\<close> or, where the code has checked them, \<open>nat\<close>; floats are rationals, and
      rounding is the exact rounding half to even of \<open>round_to\<close>. Fields of packets are words.
    \<^item> Text is a list of characters with code points below 256, but in the realtime theories, where it
      is a list of code points.
    \<^item> The clock is read once for an operation, and identifiers are drawn from a stream, both given to
      the operation. The harness reads its clock by event number.
    \<^item> A loop over a finite list or a bounded range is a primitive recursion over it (the drain of the
      demo coordinator recurses over one clock reading for each of its 100 rounds). Other loops are
      \<open>function\<close>s with their termination proofs: the search for a cycle, the suffix of a slug, the
      phrase loop. The agent loops are bounded by their own turn limits.
    \<^item> Code that is not in the repository is a parameter: digests, signatures and message
      authentication codes, DNS and HTTP, YAML and the parser of Python, zip archives, the full-text
      index, the similarity ratio of texts, and the models, which are functions of the conversation.
      The theorems hold for every such parameter unless they name a law.

  \<^bold>\<open>What the lemmas show.\<close> For the fleet: the validator accepts exactly the acyclic graphs; leases,
  dependencies, approvals, attempts and budgets are respected in every reachable state; completed and
  failed nodes are final; no workflow deadlocks, but the sweep can strand one. For the runtime: paths
  stay in the workspace, models do not write without an approval, every execution settles, an
  approval is used once, exactly one prompt is active. For the harness: the trace contract, its one
  exception, fail-closed tools, redaction, subscriptions. For the forge: what the scanner blocks,
  deterministic packages, signatures, immutable releases. For the control plane: well-formed tables,
  slugs of their own, requests that run once, approvals and the bounds of the unified ledger.
  For the realtime service: packets decode to what was encoded, and the chunker ends and loses nothing;
  an accepted token is authentic, inside its window and used once, and an issued one is accepted; a
  persona is granted only for a signed and active consent, a withdrawal is final, and the consents
  survive a restart. A session stays within its state machine and its limits in every interleaving of
  its tasks and hands over nothing of a generation that was cleared; an undisturbed turn hands over the
  whole answer; and a failure of the voice activity detector ends an answer it has nothing to do with. The
  gateway keeps its limits on sessions and hosts, with exact counters, in every interleaving; it admits
  exactly the connections its policy names and starts only authorized sessions; validated settings start
  it; a sender is bounded and in order, and the rates of a host are respected.

  \<^bold>\<open>Not modelled.\<close> Requests run one at a time: threads, SQLite's locking and the event streams that observe
  a run in progress are not modelled. Nor are foreign keys of the runtime store, symbolic links,
  schema migrations, argument parsing, process start and static assets, the websocket loops, and the
  HTTP clients, which only send requests. Of the realtime service the authentication code, the digest, the Unicode category of
  a character and the parsing of ISO dates are parameters, and its clock and file system are read
  through arguments; the recursion limit of the interpreter and the rounding of floats are not
  modelled. Of the session the metrics, the log records, the
  fields that report measured latencies, the adapters' own methods to close and what an abandoned call of
  an adapter does later are left out; what the adapters stream to a task is given when it starts, as a
  list, and taking a free lock is an await, so that the model has more interleavings than the event loop.
  The log of a session is of the calls of its two callbacks. In the gateway the operations of a session and
  of the runtime are awaits that can end in any way, metrics, health and log records are left out, and a
  connection is served for a number of messages that is given when it starts, after which it waits. The
  GPU worker, the adapters, the model servers and the shared contracts are not modelled.
  The model servers and data scripts of the realtime service drive third-party tools and are left out.
\<close>

end
